(* ===== verification/Prelude.thy ===== *)
theory Prelude
  imports Main "HOL-Library.Word" "HOL-Library.Char_ord" "HOL-Library.List_Lexorder"
    "HOL-Library.Sublist" "HOL-Library.AList"
begin

text \<open>
  Shared vocabulary of the development.

  \<^item> The named collections \<open>go_simps\<close> (string and option computation rules) and
    \<open>seen_simps\<close> (loops that keep a ``seen'' set).
  \<^item> The Go standard library that the operator uses: \<open>strings.HasPrefix\<close>, \<open>TrimPrefix\<close>,
    \<open>HasSuffix\<close>, \<open>TrimSuffix\<close>, \<open>Contains\<close>, \<open>ContainsAny\<close>, \<open>Cut\<close>, \<open>SplitN(_, sep, 2)\<close>,
    \<open>ReplaceAll\<close>, \<open>Replace(_, 1)\<close>, \<open>TrimSpace\<close>, \<open>TrimRight\<close>, \<open>ToLower\<close>, \<open>ToUpper\<close>,
    \<open>Join\<close>, \<open>sort.Strings\<close> and the \<open>%d\<close> and \<open>%08x\<close> verbs, on byte strings.
  \<^item> Go errors: values with a wrap chain, so that \<open>errors.As\<close> is a recursive search.
\<close>

named_theorems go_simps
named_theorems seen_simps

subsection \<open>Go error values\<close>

text \<open>
  \<open>fmt.Errorf\<close> and \<open>fmt.Sprintf\<close> results that are only shown to people are kept as the
  format string and its arguments. \<open>ErrorfW\<close> is an \<open>Errorf\<close> with a \<open>%w\<close> verb: the last
  component is the wrapped error. Errors of the Kubernetes API carry the reason that
  \<open>apierrors.IsNotFound\<close> and \<open>apierrors.IsConflict\<close> read. \<open>ConfigError\<close> carries a JSON
  pointer and a message.
\<close>

datatype api_reason =
    StatusNotFound | StatusAlreadyExists | StatusConflict | StatusInvalid | StatusForbidden | StatusUnauthorized
  | StatusServiceUnavailable | StatusTooManyRequests | StatusOther

datatype arg = AS string | AI int | AL "string list" | AE goerror | AF string "arg list"
and goerror =
    Errorf string "arg list"
  | ErrorfW string "arg list" goerror
  | ApiError api_reason string
  | PermanentError goerror
  | DependencyError goerror
  | TransientError goerror
  | SpecValidationError string goerror
  | JoinError "goerror list"
  | ConfigError string string "arg list"

datatype msgtext = Sprintf string "arg list" | ErrText goerror | NoText

fun msgArg :: "msgtext \<Rightarrow> arg" where
  "msgArg (Sprintf f a) = AF f a"
| "msgArg (ErrText e) = AE e"
| "msgArg NoText = AS ''''"

type_synonym 'a result = "goerror + 'a"

text \<open>\<open>apierrors.ReasonForError\<close>: \<open>errors.As\<close> finds the first status error of a chain, depth first in a joined error.\<close>

fun reasonForError :: "goerror \<Rightarrow> api_reason option" where
  "reasonForError (ApiError r m) = Some r"
| "reasonForError (ErrorfW f a e) = reasonForError e"
| "reasonForError (PermanentError e) = reasonForError e"
| "reasonForError (DependencyError e) = reasonForError e"
| "reasonForError (TransientError e) = reasonForError e"
| "reasonForError (SpecValidationError v e) = reasonForError e"
| "reasonForError (JoinError es) = (case dropWhile (\<lambda>r. r = None) (map reasonForError es) of [] \<Rightarrow> None | r # _ \<Rightarrow> r)"
| "reasonForError (Errorf f a) = None"
| "reasonForError (ConfigError p f a) = None"

definition apierrors_IsNotFound :: "goerror \<Rightarrow> bool" where
  "apierrors_IsNotFound e = (reasonForError e = Some StatusNotFound)"

definition apierrors_IsConflict :: "goerror \<Rightarrow> bool" where
  "apierrors_IsConflict e = (reasonForError e = Some StatusConflict)"

lemma apierrors_simps [simp]:
  "apierrors_IsNotFound (ApiError r m) = (r = StatusNotFound)" "apierrors_IsConflict (ApiError r m) = (r = StatusConflict)"
  "apierrors_IsNotFound (ErrorfW f a e) = apierrors_IsNotFound e" "apierrors_IsConflict (ErrorfW f a e) = apierrors_IsConflict e"
  "apierrors_IsNotFound (Errorf f a) = False" "apierrors_IsConflict (Errorf f a) = False"
  by (simp_all add: apierrors_IsNotFound_def apierrors_IsConflict_def)

subsection \<open>Sequencing of fallible steps\<close>

definition bindR :: "'a result \<Rightarrow> ('a \<Rightarrow> 'b result) \<Rightarrow> 'b result" where
  "bindR r k = (case r of Inl e \<Rightarrow> Inl e | Inr x \<Rightarrow> k x)"

lemma bindR_simps [simp, go_simps]:
  "bindR (Inl e) k = Inl e"
  "bindR (Inr x) k = k x"
  by (simp_all add: bindR_def)

lemma bindR_Inr_conv: "bindR r k = Inr y \<longleftrightarrow> (\<exists>x. r = Inr x \<and> k x = Inr y)"
  by (cases r) auto

lemma bindR_Inl_conv: "bindR r k = Inl e \<longleftrightarrow> r = Inl e \<or> (\<exists>x. r = Inr x \<and> k x = Inl e)"
  by (cases r) auto

lemma bindR_InrE:
  assumes "bindR r k = Inr y"
  obtains x where "r = Inr x" and "k x = Inr y"
  using assms by (auto simp: bindR_Inr_conv)

lemma bindR_cong [fundef_cong]:
  "r = r' \<Longrightarrow> (\<And>x. r' = Inr x \<Longrightarrow> k x = k' x) \<Longrightarrow> bindR r k = bindR r' k'"
  by (cases r') auto

text \<open>A loop that collects one value per element and stops at the first error.\<close>

fun mapR :: "('a \<Rightarrow> 'b result) \<Rightarrow> 'a list \<Rightarrow> 'b list result" where
  "mapR f [] = Inr []"
| "mapR f (x # xs) = bindR (f x) (\<lambda>y. bindR (mapR f xs) (\<lambda>ys. Inr (y # ys)))"

lemma mapR_Inr_conv:
  "mapR f xs = Inr ys \<longleftrightarrow> list_all2 (\<lambda>x y. f x = Inr y) xs ys"
proof (induction xs arbitrary: ys)
  case Nil
  then show ?case by auto
next
  case (Cons x xs)
  then show ?case by (cases ys) (auto simp: bindR_Inr_conv)
qed

lemma mapR_Inr_length: "mapR f xs = Inr ys \<Longrightarrow> length ys = length xs"
  by (auto simp: mapR_Inr_conv dest: list_all2_lengthD)

lemma mapR_total: "(\<And>x. x \<in> set xs \<Longrightarrow> f x = Inr (g x)) \<Longrightarrow> mapR f xs = Inr (map g xs)"
  by (induction xs) auto

lemma mapR_set: "mapR f xs = Inr ys \<Longrightarrow> y \<in> set ys \<Longrightarrow> \<exists>x \<in> set xs. f x = Inr y"
  by (induction xs arbitrary: ys) (auto simp: bindR_Inr_conv)

lemma mapR_map_id: "(\<And>x. x \<in> set xs \<Longrightarrow> f (g x) = Inr x) \<Longrightarrow> mapR f (map g xs) = Inr xs"
  by (induction xs) auto

lemma mapR_append:
  "mapR f (xs @ ys) = Inr zs \<longleftrightarrow> (\<exists>us vs. zs = us @ vs \<and> mapR f xs = Inr us \<and> mapR f ys = Inr vs)"
  by (induction xs arbitrary: zs) (auto simp: bindR_Inr_conv Cons_eq_append_conv)

lemma mapR_Inl: "mapR f xs = Inl e \<Longrightarrow> \<exists>x \<in> set xs. f x = Inl e"
  by (induction xs) (auto simp: bindR_Inl_conv)

lemma mapR_cong [fundef_cong]:
  "xs = ys \<Longrightarrow> (\<And>x. x \<in> set ys \<Longrightarrow> f x = g x) \<Longrightarrow> mapR f xs = mapR g ys"
proof (induction xs arbitrary: ys)
  case Nil
  then show ?case by simp
next
  case (Cons x xs)
  then have "mapR f xs = mapR g xs" by auto
  moreover have "f x = g x" using Cons.prems by auto
  ultimately show ?case using Cons.prems(1) by auto
qed

subsection \<open>Go strings\<close>

definition hasPrefix :: "string \<Rightarrow> string \<Rightarrow> bool" where
  "hasPrefix s p = (take (length p) s = p)"

definition trimPrefix :: "string \<Rightarrow> string \<Rightarrow> string" where
  "trimPrefix s p = (if hasPrefix s p then drop (length p) s else s)"

definition hasSuffix :: "string \<Rightarrow> string \<Rightarrow> bool" where
  "hasSuffix s p = (length p \<le> length s \<and> drop (length s - length p) s = p)"

definition trimSuffix :: "string \<Rightarrow> string \<Rightarrow> string" where
  "trimSuffix s p = (if hasSuffix s p then take (length s - length p) s else s)"

definition containsChar :: "string \<Rightarrow> char \<Rightarrow> bool" where
  "containsChar s c = (c \<in> set s)"

definition containsAny :: "string \<Rightarrow> string \<Rightarrow> bool" where
  "containsAny s cs = list_ex (\<lambda>c. c \<in> set cs) s"

text \<open>\<open>strings.Cut\<close> at a one-byte separator: before, after, found.\<close>

fun cutAt :: "char \<Rightarrow> string \<Rightarrow> string \<times> string \<times> bool" where
  "cutAt c [] = ([], [], False)"
| "cutAt c (x # xs) =
     (if x = c then ([], xs, True)
      else (case cutAt c xs of (b, a, f) \<Rightarrow> (x # b, a, f)))"

text \<open>\<open>strings.SplitN(s, sep, 2)\<close> for a one-byte separator.\<close>

definition splitN2 :: "char \<Rightarrow> string \<Rightarrow> string list" where
  "splitN2 c s = (case cutAt c s of (b, a, f) \<Rightarrow> if f then [b, a] else [b])"

text \<open>\<open>strings.ReplaceAll\<close> and \<open>strings.Replace(_, _, _, 1)\<close> of a one-byte pattern.\<close>

definition replaceAllChar :: "char \<Rightarrow> string \<Rightarrow> string \<Rightarrow> string" where
  "replaceAllChar c r s = concat (map (\<lambda>x. if x = c then r else [x]) s)"

fun replaceFirstChar :: "char \<Rightarrow> string \<Rightarrow> string \<Rightarrow> string" where
  "replaceFirstChar c r [] = []"
| "replaceFirstChar c r (x # xs) = (if x = c then r @ xs else x # replaceFirstChar c r xs)"

definition is_space :: "char \<Rightarrow> bool" where
  "is_space c = (c \<in> {CHR '' '', CHR 0x09, CHR 0x0A, CHR 0x0B, CHR 0x0C, CHR 0x0D})"

definition trimSpace :: "string \<Rightarrow> string" where
  "trimSpace s = rev (dropWhile is_space (rev (dropWhile is_space s)))"

definition trimRightChar :: "char \<Rightarrow> string \<Rightarrow> string" where
  "trimRightChar c s = rev (dropWhile (\<lambda>x. x = c) (rev s))"

definition is_upper :: "char \<Rightarrow> bool" where
  "is_upper c = (65 \<le> (of_char c :: nat) \<and> (of_char c :: nat) \<le> 90)"

definition is_lower :: "char \<Rightarrow> bool" where
  "is_lower c = (97 \<le> (of_char c :: nat) \<and> (of_char c :: nat) \<le> 122)"

definition is_digit :: "char \<Rightarrow> bool" where
  "is_digit c = (48 \<le> (of_char c :: nat) \<and> (of_char c :: nat) \<le> 57)"

definition is_alnum :: "char \<Rightarrow> bool" where
  "is_alnum c = (is_upper c \<or> is_lower c \<or> is_digit c)"

definition lower_char :: "char \<Rightarrow> char" where
  "lower_char c = (if is_upper c then char_of ((of_char c :: nat) + 32) else c)"

definition upper_char :: "char \<Rightarrow> char" where
  "upper_char c = (if is_lower c then char_of ((of_char c :: nat) - 32) else c)"

definition toLower :: "string \<Rightarrow> string" where
  "toLower s = map lower_char s"

definition toUpper :: "string \<Rightarrow> string" where
  "toUpper s = map upper_char s"

fun joinStrings :: "string list \<Rightarrow> string \<Rightarrow> string" where
  "joinStrings [] sep = []"
| "joinStrings [x] sep = x"
| "joinStrings (x # y # ys) sep = x @ sep @ joinStrings (y # ys) sep"

definition sortStrings :: "string list \<Rightarrow> string list" where
  "sortStrings xs = sort xs"

subsection \<open>Number verbs\<close>

definition digit_char :: "nat \<Rightarrow> char" where
  "digit_char d = char_of (if d < 10 then 48 + d else 87 + d)"

fun dec_nat :: "nat \<Rightarrow> string" where
  "dec_nat n = (if n < 10 then [digit_char n] else dec_nat (n div 10) @ [digit_char (n mod 10)])"

declare dec_nat.simps [simp del]

definition dec_int :: "int \<Rightarrow> string" where
  "dec_int i = (if i < 0 then CHR ''-'' # dec_nat (nat (- i)) else dec_nat (nat i))"

fun hex_pad :: "nat \<Rightarrow> nat \<Rightarrow> string" where
  "hex_pad 0 n = []"
| "hex_pad (Suc k) n = hex_pad k (n div 16) @ [digit_char (n mod 16)]"

end
