(* ===== verification/Kube.thy ===== *)
theory Kube
  imports Prelude
begin

text \<open>
  The Kubernetes vocabulary the operator is written in: object metadata, status conditions,
  environment variables, pod templates, Services and ConfigMaps, with the fields the operator
  reads or writes. Go maps are association lists with distinct keys; a nil pointer is \<open>None\<close>.
  Fields the operator only passes through (affinity, tolerations, remaining security settings)
  are kept as opaque strings.

  Code outside the repository is a parameter. \<open>k8slib\<close> collects the functions of
  \<open>k8s.io/apimachinery\<close> that reconcilers call: \<open>meta.SetStatusCondition\<close>,
  \<open>meta.FindStatusCondition\<close>, \<open>validation.IsDNS1123Label\<close>, and the clock behind
  \<open>metav1.Now\<close>. What is relied on is stated by \<open>status_condition_laws\<close>.
\<close>

type_synonym 'v smap = "(string \<times> 'v) list"

abbreviation mget :: "'v smap \<Rightarrow> string \<Rightarrow> 'v option" where
  "mget m k \<equiv> map_of m k"

abbreviation mput :: "string \<Rightarrow> 'v \<Rightarrow> 'v smap \<Rightarrow> 'v smap" where
  "mput \<equiv> AList.update"

abbreviation mkeys :: "'v smap \<Rightarrow> string list" where
  "mkeys m \<equiv> map fst m"

lemma mget_mput [simp, go_simps]: "mget (mput k v m) k' = (if k' = k then Some v else mget m k')"
  by (simp add: update_conv)

subsection \<open>JSON documents\<close>

text \<open>
  \<open>JNum\<close> carries the number's literal text, which is what \<open>json.Number\<close> keeps.
  \<open>rawjson\<close> is an \<open>apiextensionsv1.JSON\<close>: raw bytes, identified with the document they
  denote, or bytes that are not JSON.
\<close>

datatype json =
    JNull
  | JBool bool
  | JNum string
  | JStr string
  | JArr "json list"
  | JObj "(string \<times> json) list"

datatype rawjson = Raw json | RawBad

text \<open>\<open>json.Unmarshal\<close> into a \<open>map[string]T\<close>: objects decode, \<open>null\<close> leaves the map nil.\<close>

fun unmarshalObject :: "rawjson \<Rightarrow> json smap result" where
  "unmarshalObject (Raw (JObj kvs)) = Inr kvs"
| "unmarshalObject (Raw JNull) = Inr []"
| "unmarshalObject (Raw v) = Inl (Errorf ''json: cannot unmarshal into Go value of type map'' [])"
| "unmarshalObject RawBad = Inl (Errorf ''invalid character'' [])"

subsection \<open>Metadata and conditions\<close>

record NamespacedName =
  nn_Name :: string
  nn_Namespace :: string

definition nn_String :: "NamespacedName \<Rightarrow> string" where
  "nn_String k = nn_Namespace k @ ''/'' @ nn_Name k"

datatype ConditionStatus = ConditionTrue | ConditionFalse | ConditionUnknown

fun statusText :: "ConditionStatus \<Rightarrow> string" where
  "statusText ConditionTrue = ''True''"
| "statusText ConditionFalse = ''False''"
| "statusText ConditionUnknown = ''Unknown''"

record Condition =
  c_Type :: string
  c_Status :: ConditionStatus
  c_ObservedGeneration :: int
  c_LastTransitionTime :: int
  c_Reason :: string
  c_Message :: msgtext

record ObjectMeta =
  om_Name :: string
  om_Namespace :: string
  om_UID :: string
  om_ResourceVersion :: string
  om_Generation :: int
  om_Deleting :: bool
  om_Finalizers :: "string list"
  om_Labels :: "string smap"
  om_Annotations :: "string smap"
  om_OwnerUID :: "string option"

definition objectMeta :: "string \<Rightarrow> string \<Rightarrow> string smap \<Rightarrow> string smap \<Rightarrow> ObjectMeta" where
  "objectMeta n ns labels annots =
     \<lparr>om_Name = n, om_Namespace = ns, om_UID = '''', om_ResourceVersion = '''', om_Generation = 0,
      om_Deleting = False, om_Finalizers = [], om_Labels = labels, om_Annotations = annots,
      om_OwnerUID = None\<rparr>"

abbreviation keyOf :: "ObjectMeta \<Rightarrow> NamespacedName" where
  "keyOf m \<equiv> \<lparr>nn_Name = om_Name m, nn_Namespace = om_Namespace m\<rparr>"

record k8slib =
  lib_SetStatusCondition :: "Condition list \<Rightarrow> Condition \<Rightarrow> Condition list"
  lib_FindStatusCondition :: "Condition list \<Rightarrow> string \<Rightarrow> Condition option"
  lib_IsDNS1123Label :: "string \<Rightarrow> string list"
  lib_Now :: int

text \<open>Two conditions carry the same verdict when they differ at most in the transition time.\<close>

definition same_verdict :: "Condition \<Rightarrow> Condition \<Rightarrow> bool" where
  "same_verdict a b \<longleftrightarrow>
     c_Type a = c_Type b \<and> c_Status a = c_Status b \<and>
     c_ObservedGeneration a = c_ObservedGeneration b \<and>
     c_Reason a = c_Reason b \<and> c_Message a = c_Message b"

text \<open>
  The documented contract of \<open>meta.SetStatusCondition\<close> and \<open>meta.FindStatusCondition\<close>: after a
  set, the condition of that type carries the new verdict (the transition time is the library's
  business), and conditions of other types are untouched.
\<close>

definition status_condition_laws :: "k8slib \<Rightarrow> bool" where
  "status_condition_laws lib \<longleftrightarrow>
     (\<forall>cs c. \<exists>c'. lib_FindStatusCondition lib (lib_SetStatusCondition lib cs c) (c_Type c) = Some c'
             \<and> same_verdict c' c) \<and>
     (\<forall>cs c t. t \<noteq> c_Type c \<longrightarrow>
        lib_FindStatusCondition lib (lib_SetStatusCondition lib cs c) t
          = lib_FindStatusCondition lib cs t)"

definition cond_status :: "k8slib \<Rightarrow> Condition list \<Rightarrow> string \<Rightarrow> ConditionStatus option" where
  "cond_status lib cs t = map_option c_Status (lib_FindStatusCondition lib cs t)"

definition cond_reason :: "k8slib \<Rightarrow> Condition list \<Rightarrow> string \<Rightarrow> string option" where
  "cond_reason lib cs t = map_option c_Reason (lib_FindStatusCondition lib cs t)"

lemma cond_set_same:
  assumes "status_condition_laws lib"
  shows "cond_status lib (lib_SetStatusCondition lib cs c) (c_Type c) = Some (c_Status c)"
    and "cond_reason lib (lib_SetStatusCondition lib cs c) (c_Type c) = Some (c_Reason c)"
proof -
  from assms obtain c' where
    "lib_FindStatusCondition lib (lib_SetStatusCondition lib cs c) (c_Type c) = Some c'"
    "same_verdict c' c"
    unfolding status_condition_laws_def by blast
  then show "cond_status lib (lib_SetStatusCondition lib cs c) (c_Type c) = Some (c_Status c)"
    and "cond_reason lib (lib_SetStatusCondition lib cs c) (c_Type c) = Some (c_Reason c)"
    by (auto simp: cond_status_def cond_reason_def same_verdict_def)
qed

lemma cond_set_other:
  assumes "status_condition_laws lib" and "t \<noteq> c_Type c"
  shows "lib_FindStatusCondition lib (lib_SetStatusCondition lib cs c) t
           = lib_FindStatusCondition lib cs t"
    and "cond_status lib (lib_SetStatusCondition lib cs c) t = cond_status lib cs t"
    and "cond_reason lib (lib_SetStatusCondition lib cs c) t = cond_reason lib cs t"
  using assms unfolding status_condition_laws_def cond_status_def cond_reason_def by auto

lemma cond_set:
  assumes "status_condition_laws lib"
  shows "cond_status lib (lib_SetStatusCondition lib cs c) t = (if t = c_Type c then Some (c_Status c) else cond_status lib cs t)"
    and "cond_reason lib (lib_SetStatusCondition lib cs c) t = (if t = c_Type c then Some (c_Reason c) else cond_reason lib cs t)"
  using cond_set_same[OF assms] cond_set_other[OF assms] by auto

subsection \<open>A concrete instance of the library parameter\<close>

text \<open>
  The list implementation of the two condition functions, used to instantiate the parameter in
  witnesses: replace the condition of that type in place (keeping its transition time when the
  status is unchanged) or append.
\<close>

fun list_set_condition :: "Condition list \<Rightarrow> Condition \<Rightarrow> Condition list" where
  "list_set_condition [] c = [c]"
| "list_set_condition (x # xs) c =
     (if c_Type x = c_Type c
      then (if c_Status x = c_Status c then c\<lparr>c_LastTransitionTime := c_LastTransitionTime x\<rparr> else c) # xs
      else x # list_set_condition xs c)"

fun list_find_condition :: "Condition list \<Rightarrow> string \<Rightarrow> Condition option" where
  "list_find_condition [] t = None"
| "list_find_condition (x # xs) t = (if c_Type x = t then Some x else list_find_condition xs t)"

definition dns1123_label_chars :: "string \<Rightarrow> bool" where
  "dns1123_label_chars s \<longleftrightarrow>
     s \<noteq> [] \<and> length s \<le> 63 \<and>
     list_all (\<lambda>c. is_lower c \<or> is_digit c \<or> c = CHR ''-'') s \<and>
     hd s \<noteq> CHR ''-'' \<and> last s \<noteq> CHR ''-''"

definition stdlib :: k8slib where
  "stdlib = \<lparr>lib_SetStatusCondition = list_set_condition,
             lib_FindStatusCondition = list_find_condition,
             lib_IsDNS1123Label = (\<lambda>s. if dns1123_label_chars s then [] else [''invalid label'']),
             lib_Now = 0\<rparr>"

lemma list_find_set_same:
  "\<exists>c'. list_find_condition (list_set_condition cs c) (c_Type c) = Some c' \<and> same_verdict c' c"
  by (induction cs) (auto simp: same_verdict_def)

lemma list_find_set_other:
  "t \<noteq> c_Type c \<Longrightarrow> list_find_condition (list_set_condition cs c) t = list_find_condition cs t"
  by (induction cs) auto

lemma stdlib_condition_laws: "status_condition_laws stdlib"
  unfolding status_condition_laws_def stdlib_def
  using list_find_set_same list_find_set_other by auto

subsection \<open>Pods, Deployments, Services, ConfigMaps, Secrets\<close>

record SecretKeySelector =
  sks_Name :: string
  sks_Key :: string
  sks_Optional :: "bool option"

datatype EnvVarSource = SecretKeyRef SecretKeySelector | OtherSource string

record EnvVar =
  ev_Name :: string
  ev_Value :: string
  ev_ValueFrom :: "EnvVarSource option"

definition envValue :: "string \<Rightarrow> string \<Rightarrow> EnvVar" where
  "envValue n v = \<lparr>ev_Name = n, ev_Value = v, ev_ValueFrom = None\<rparr>"

definition envSecret :: "string \<Rightarrow> SecretKeySelector \<Rightarrow> EnvVar" where
  "envSecret n s = \<lparr>ev_Name = n, ev_Value = '''', ev_ValueFrom = Some (SecretKeyRef s)\<rparr>"

lemma env_simps [simp, go_simps]:
  "ev_Name (envValue n v) = n" "ev_Value (envValue n v) = v" "ev_ValueFrom (envValue n v) = None"
  "ev_Name (envSecret n s) = n" "ev_Value (envSecret n s) = ''''"
  "ev_ValueFrom (envSecret n s) = Some (SecretKeyRef s)"
  by (simp_all add: envValue_def envSecret_def)

record ResourceRequirements =
  rr_Requests :: "string smap"
  rr_Limits :: "string smap"

record SecurityContext =
  sc_AllowPrivilegeEscalation :: "bool option"
  sc_RunAsNonRoot :: "bool option"
  sc_CapabilitiesDrop :: "string list"
  sc_SeccompProfile :: "string option"
  sc_ReadOnlyRootFilesystem :: "bool option"
  sc_RunAsUser :: "int option"
  sc_RunAsGroup :: "int option"

record PodSecurityContext =
  psc_RunAsNonRoot :: "bool option"
  psc_SeccompProfile :: "string option"
  psc_Other :: string

record Probe =
  pr_HTTPPath :: string
  pr_HTTPPort :: int
  pr_PeriodSeconds :: int
  pr_TimeoutSeconds :: int
  pr_FailureThreshold :: int
  pr_SuccessThreshold :: int

datatype VolumeSource =
    ConfigMapVolume string
  | EmptyDirVolume
  | ImageVolume string string

record Volume =
  vol_Name :: string
  vol_Source :: VolumeSource

record VolumeMount =
  vm_Name :: string
  vm_MountPath :: string
  vm_SubPath :: string
  vm_ReadOnly :: bool

record ContainerPort =
  cp_Name :: string
  cp_ContainerPort :: int
  cp_Protocol :: string

record Container =
  ct_Name :: string
  ct_Image :: string
  ct_Command :: "string list"
  ct_Args :: "string list"
  ct_WorkingDir :: string
  ct_Ports :: "ContainerPort list"
  ct_Env :: "EnvVar list"
  ct_Resources :: ResourceRequirements
  ct_VolumeMounts :: "VolumeMount list"
  ct_SecurityContext :: "SecurityContext option"
  ct_StartupProbe :: "Probe option"
  ct_ReadinessProbe :: "Probe option"

definition noResources :: ResourceRequirements where
  "noResources = \<lparr>rr_Requests = [], rr_Limits = []\<rparr>"

definition emptyContainer :: Container where
  "emptyContainer = \<lparr>ct_Name = '''', ct_Image = '''', ct_Command = [], ct_Args = [],
     ct_WorkingDir = '''', ct_Ports = [], ct_Env = [], ct_Resources = noResources,
     ct_VolumeMounts = [], ct_SecurityContext = None, ct_StartupProbe = None,
     ct_ReadinessProbe = None\<rparr>"

record PodTemplateSpec =
  pt_Labels :: "string smap"
  pt_Annotations :: "string smap"
  pt_InitContainers :: "Container list"
  pt_Containers :: "Container list"
  pt_Volumes :: "Volume list"
  pt_ImagePullSecrets :: "string list"
  pt_ServiceAccountName :: string
  pt_SecurityContext :: "PodSecurityContext option"
  pt_NodeSelector :: "string smap"
  pt_Tolerations :: "string list"
  pt_Affinity :: "string option"

record DeploymentSpec =
  ds_Replicas :: int
  ds_Selector :: "string smap"
  ds_Template :: PodTemplateSpec

record DeploymentStatus =
  dst_Replicas :: int
  dst_AvailableReplicas :: int

record Deployment =
  dep_Meta :: ObjectMeta
  dep_Spec :: DeploymentSpec
  dep_Status :: DeploymentStatus

record ServicePort =
  sp_Name :: string
  sp_Port :: int
  sp_TargetPort :: int
  sp_Protocol :: string

record ServiceSpec =
  ss_Type :: string
  ss_Selector :: "string smap"
  ss_Ports :: "ServicePort list"

record Service =
  svc_Meta :: ObjectMeta
  svc_Spec :: ServiceSpec

record ConfigMap =
  cm_Meta :: ObjectMeta
  cm_Data :: "string smap"

record Secret =
  sec_Meta :: ObjectMeta
  sec_Data :: "string smap"

end
