(* ===== verification/CapabilityDomain.thy ===== *)
theory CapabilityDomain
  imports Kube
begin

text \<open>
  \<open>internal/domain/capability/capability.go\<close>: the pure admission logic of Capabilities.
  PEP 440 versions and JSON Schema come from libraries and are parameters (\<open>pep440\<close>,
  \<open>jsonschema\<close>); everything the package itself computes is defined here: requires tuples, package
  name normalization, pin parsing, conflict detection, entry names, and the placeholder-aware
  reading of schema violations.
\<close>

subsection \<open>Data\<close>

record RunnerInfo =
  ri_RunnerVersion :: string
  ri_Python :: string
  ri_PydanticAI :: string
  ri_Baseline :: "string smap"

record Requires =
  req_Python :: string
  req_PydanticAI :: string
  req_FlokoaRunner :: string

record Deps =
  deps_Name :: string
  deps_Pins :: "string list"

record ('sp, 'v) pep440 =
  pep_NewSpecifiers :: "string \<Rightarrow> 'sp result"
  pep_Parse :: "string \<Rightarrow> 'v result"
  pep_Check :: "'sp \<Rightarrow> 'v \<Rightarrow> bool"

subsection \<open>Requires tuples\<close>

definition checkSpecifier ::
  "('sp, 'v) pep440 \<Rightarrow> string \<Rightarrow> RunnerInfo \<Rightarrow> string \<times> string \<times> string \<Rightarrow> goerror option" where
  "checkSpecifier pep name runner c =
     (case c of (key, specifier, provided) \<Rightarrow>
        if specifier = '''' then None
        else case pep_NewSpecifiers pep specifier of
          Inl err \<Rightarrow> Some (Errorf ''capability %q declares an invalid %s specifier %q: %v''
                            [AS name, AS key, AS specifier, AE err])
        | Inr specifiers \<Rightarrow>
            (case pep_Parse pep provided of
               Inl err \<Rightarrow> Some (Errorf ''runner %s has an unparseable %s version %q: %v''
                                 [AS (ri_RunnerVersion runner), AS key, AS provided, AE err])
             | Inr v \<Rightarrow>
                 if pep_Check pep specifiers v then None
                 else Some (Errorf ''capability %q requires %s %q but runner %s provides %s %q''
                        [AS name, AS key, AS specifier, AS (ri_RunnerVersion runner), AS key, AS provided])))"

fun firstError :: "('a \<Rightarrow> goerror option) \<Rightarrow> 'a list \<Rightarrow> goerror option" where
  "firstError f [] = None"
| "firstError f (x # xs) = (case f x of Some e \<Rightarrow> Some e | None \<Rightarrow> firstError f xs)"

lemma firstError_None: "firstError f xs = None \<longleftrightarrow> (\<forall>x \<in> set xs. f x = None)"
  by (induction xs) (auto split: option.splits)

definition CheckRequires ::
  "('sp, 'v) pep440 \<Rightarrow> string \<Rightarrow> Requires \<Rightarrow> RunnerInfo \<Rightarrow> goerror option" where
  "CheckRequires pep name req runner =
     (if req_Python req \<noteq> '''' \<and> req_Python req \<noteq> ri_Python runner
      then Some (Errorf ''capability %q requires python %q but runner %s provides python %q''
             [AS name, AS (req_Python req), AS (ri_RunnerVersion runner), AS (ri_Python runner)])
      else firstError (checkSpecifier pep name runner)
             [(''pydantic-ai'', req_PydanticAI req, ri_PydanticAI runner),
              (''flokoa-runner'', req_FlokoaRunner req, ri_RunnerVersion runner)])"

definition ValidateRequires :: "('sp, 'v) pep440 \<Rightarrow> Requires \<Rightarrow> goerror option" where
  "ValidateRequires pep req =
     firstError (\<lambda>(key, specifier).
        if specifier = '''' then None
        else case pep_NewSpecifiers pep specifier of
               Inl err \<Rightarrow> Some (Errorf ''invalid %s specifier %q: %v'' [AS key, AS specifier, AE err])
             | Inr sp \<Rightarrow> None)
       [(''pydantic-ai'', req_PydanticAI req), (''flokoa-runner'', req_FlokoaRunner req)]"

subsection \<open>Package names and pins\<close>

definition is_sep :: "char \<Rightarrow> bool" where
  "is_sep c = (c \<in> {CHR ''-'', CHR ''_'', CHR ''.''})"

text \<open>\<open>packageNameSeparators.ReplaceAllString(name, "-")\<close>.\<close>

function collapseSeps :: "string \<Rightarrow> string" where
  "collapseSeps [] = []"
| "collapseSeps (c # cs) =
     (if is_sep c then CHR ''-'' # collapseSeps (dropWhile is_sep cs) else c # collapseSeps cs)"
  by pat_completeness auto
termination
  by (relation "measure length") (auto simp: le_imp_less_Suc length_dropWhile_le)

definition NormalizePackageName :: "string \<Rightarrow> string" where
  "NormalizePackageName name = toLower (collapseSeps name)"

definition is_name_char :: "char \<Rightarrow> bool" where
  "is_name_char c = (is_alnum c \<or> is_sep c)"

definition is_version_char :: "char \<Rightarrow> bool" where
  "is_version_char c = (is_alnum c \<or> is_sep c \<or> c = CHR ''+'' \<or> c = CHR ''!'')"

text \<open>
  \<open>pinPattern\<close>: neither character class contains \<open>=\<close>, so the name is everything before the
  first \<open>=\<close> and the match is unique.
\<close>

definition matchPin :: "string \<Rightarrow> (string \<times> string) option" where
  "matchPin s =
     (let name = takeWhile (\<lambda>c. c \<noteq> CHR ''='') s; rest = dropWhile (\<lambda>c. c \<noteq> CHR ''='') s in
      if name \<noteq> [] \<and> is_alnum (hd name) \<and> list_all is_name_char name \<and>
         hasPrefix rest ''=='' \<and> drop 2 rest \<noteq> [] \<and> list_all is_version_char (drop 2 rest)
      then Some (name, drop 2 rest) else None)"

definition ParsePin :: "string \<Rightarrow> (string \<times> string) result" where
  "ParsePin pin =
     (case matchPin (trimSpace pin) of
        None \<Rightarrow> Inl (Errorf ''invalid dependency pin %q: must be name==version'' [AS pin])
      | Some (n, v) \<Rightarrow> Inr (NormalizePackageName n, v))"

subsection \<open>Dependency conflicts\<close>

record pinned =
  pin_idx :: nat
  pin_capName :: string
  pin_version :: string

record dcState =
  dc_conflicts :: "goerror list"
  dc_established :: "string \<Rightarrow> pinned option"
  dc_reportedCross :: "(string \<times> nat) list"
  dc_local :: "string \<Rightarrow> string option"

definition dcBaseline :: "RunnerInfo \<Rightarrow> string \<Rightarrow> string \<Rightarrow> string \<Rightarrow> goerror list" where
  "dcBaseline runner capName pkg version =
     (case mget (ri_Baseline runner) pkg of
        Some baseVersion \<Rightarrow>
          if baseVersion \<noteq> version
          then [Errorf ''capability %q pins %s==%s but the runner %s baseline pins %s==%s''
                  [AS capName, AS pkg, AS version, AS (ri_RunnerVersion runner), AS pkg, AS baseVersion]]
          else []
      | None \<Rightarrow> [])"

definition dcIntra :: "string \<Rightarrow> string \<Rightarrow> string \<Rightarrow> string option \<Rightarrow> goerror list" where
  "dcIntra capName pkg version prev =
     (case prev of
        Some prevVersion \<Rightarrow>
          if prevVersion \<noteq> version
          then [Errorf ''capability %q pins %s at conflicting versions (%s and %s)''
                  [AS capName, AS pkg, AS prevVersion, AS version]]
          else []
      | None \<Rightarrow> [])"

definition dcPin :: "RunnerInfo \<Rightarrow> nat \<Rightarrow> string \<Rightarrow> string \<Rightarrow> dcState \<Rightarrow> dcState" where
  "dcPin runner idx capName pin st =
     (case ParsePin pin of
        Inl err \<Rightarrow> st\<lparr>dc_conflicts := dc_conflicts st @
                      [Errorf ''capability %q has an %v'' [AS capName, AE err]]\<rparr>
      | Inr (pkg, version) \<Rightarrow>
          (let st1 = st\<lparr>dc_conflicts := dc_conflicts st
                          @ dcBaseline runner capName pkg version
                          @ dcIntra capName pkg version (dc_local st pkg),
                        dc_local := (if dc_local st pkg = None
                                     then (dc_local st)(pkg := Some version) else dc_local st)\<rparr> in
           case dc_established st1 pkg of
             None \<Rightarrow> st1\<lparr>dc_established := (dc_established st1)
                        (pkg := Some \<lparr>pin_idx = idx, pin_capName = capName, pin_version = version\<rparr>)\<rparr>
           | Some prev \<Rightarrow>
               if pin_idx prev \<noteq> idx \<and> pin_version prev \<noteq> version
                  \<and> (pkg, idx) \<notin> set (dc_reportedCross st1)
               then st1\<lparr>dc_conflicts := dc_conflicts st1 @
                        [Errorf ''capabilities %q and %q pin conflicting versions of %s (%s vs %s)''
                           [AS (pin_capName prev), AS capName, AS pkg, AS (pin_version prev), AS version]],
                        dc_reportedCross := (pkg, idx) # dc_reportedCross st1\<rparr>
               else st1))"

definition dcCap :: "RunnerInfo \<Rightarrow> nat \<Rightarrow> Deps \<Rightarrow> dcState \<Rightarrow> dcState" where
  "dcCap runner idx c st =
     fold (dcPin runner idx (deps_Name c)) (deps_Pins c) (st\<lparr>dc_local := (\<lambda>_. None)\<rparr>)"

fun dcCaps :: "RunnerInfo \<Rightarrow> nat \<Rightarrow> Deps list \<Rightarrow> dcState \<Rightarrow> dcState" where
  "dcCaps runner idx [] st = st"
| "dcCaps runner idx (c # cs) st = dcCaps runner (Suc idx) cs (dcCap runner idx c st)"

definition dcInit :: dcState where
  "dcInit = \<lparr>dc_conflicts = [], dc_established = (\<lambda>_. None), dc_reportedCross = [],
             dc_local = (\<lambda>_. None)\<rparr>"

definition DetectConflicts :: "Deps list \<Rightarrow> RunnerInfo \<Rightarrow> goerror list" where
  "DetectConflicts caps runner = dc_conflicts (dcCaps runner 0 caps dcInit)"

subsection \<open>Entry names\<close>

definition PlatformCapabilityPrefix :: string where
  "PlatformCapabilityPrefix = ''flokoa.platform/''"

definition ValidateEntryName :: "string \<Rightarrow> goerror option" where
  "ValidateEntryName name =
     (if name = '''' then Some (Errorf ''capability entry name must not be empty'' [])
      else if hasPrefix name PlatformCapabilityPrefix
      then Some (Errorf ''capability entry name %q uses the reserved %q prefix (operator-injected capabilities only)''
             [AS name, AS PlatformCapabilityPrefix])
      else if containsAny name ''./:''
      then Some (Errorf ''capability entry name %q must not contain '.', '/', or ':' (it is the pydantic-ai capability class name)''
             [AS name])
      else None)"

definition EntryName :: "string \<Rightarrow> string \<Rightarrow> string" where
  "EntryName entrypoint override =
     (if override \<noteq> '''' then override
      else (case cutAt (CHR '':'') entrypoint of (b, a, f) \<Rightarrow> a))"

subsection \<open>JSON pointers and placeholders\<close>

definition escapePointerToken :: "string \<Rightarrow> string" where
  "escapePointerToken t = replaceAllChar (CHR ''/'') ''~1'' (replaceAllChar (CHR ''~'') ''~0'' t)"

definition joinPointer :: "string list \<Rightarrow> string" where
  "joinPointer tokens = joinStrings (map escapePointerToken tokens) ''/''"

definition is_secret_name_char :: "char \<Rightarrow> bool" where
  "is_secret_name_char c = (is_alnum c \<or> c = CHR ''.'' \<or> c = CHR ''_'' \<or> c = CHR ''-'')"

text \<open>A match of the placeholder pattern at the start of a string.\<close>

definition placeholderHere :: "string \<Rightarrow> bool" where
  "placeholderHere s =
     (hasPrefix s ''${secret:'' \<and>
      (let rest = drop 9 s in
       takeWhile is_secret_name_char rest \<noteq> [] \<and>
       hasPrefix (dropWhile is_secret_name_char rest) ''}''))"

fun matchSecretPlaceholder :: "string \<Rightarrow> bool" where
  "matchSecretPlaceholder [] = False"
| "matchSecretPlaceholder (c # cs) = (placeholderHere (c # cs) \<or> matchSecretPlaceholder cs)"

function (sequential) collectPlaceholderPaths :: "json \<Rightarrow> string \<Rightarrow> string list" where
  "collectPlaceholderPaths (JStr v) path =
     (if matchSecretPlaceholder v then [if path = '''' then ''/'' else path] else [])"
| "collectPlaceholderPaths (JObj kvs) path =
     concat (map (\<lambda>(k, v). collectPlaceholderPaths v (path @ ''/'' @ escapePointerToken k)) kvs)"
| "collectPlaceholderPaths (JArr items) path =
     concat (map (\<lambda>(i, v). collectPlaceholderPaths v (path @ ''/'' @ dec_nat i))
               (zip [0..<length items] items))"
| "collectPlaceholderPaths _ path = []"
  by pat_completeness auto
termination
proof (relation "measure (\<lambda>(d, p). size d)", goal_cases)
  case 1
  show ?case by simp
next
  case (2 kvs path x k v)
  then show ?case using size_list_estimation'[of x kvs "size x" "\<lambda>p. size (snd p)"]
    by (auto dest!: size_list_estimation'[where f = "size_prod (\<lambda>s. 0) size" and y = "size v"])
next
  case (3 items path x i v)
  then have "v \<in> set items" by (auto dest: set_zip_rightD)
  then show ?case by (auto dest: size_list_estimation'[where f = size and y = "size v"])
qed

subsection \<open>Schema violations\<close>

datatype ErrorKind =
    KAnyOf | KOneOf | KPattern | KMinLength | KMaxLength | KFormat | KContentEncoding
  | KContentMediaType | KEnum "json list" | KConst json | KOther string

datatype ValidationErr =
  VErr (ve_Kind: ErrorKind) (ve_InstanceLocation: "string list") (ve_Causes: "ValidationErr list")

fun is_json_string :: "json \<Rightarrow> bool" where
  "is_json_string (JStr s) = True"
| "is_json_string _ = False"

fun suppressibleForPlaceholder :: "ErrorKind \<Rightarrow> bool" where
  "suppressibleForPlaceholder KPattern = True"
| "suppressibleForPlaceholder KMinLength = True"
| "suppressibleForPlaceholder KMaxLength = True"
| "suppressibleForPlaceholder KFormat = True"
| "suppressibleForPlaceholder KContentEncoding = True"
| "suppressibleForPlaceholder KContentMediaType = True"
| "suppressibleForPlaceholder (KEnum want) = list_ex is_json_string want"
| "suppressibleForPlaceholder (KConst want) = is_json_string want"
| "suppressibleForPlaceholder _ = False"

fun placeholderSatisfied :: "ValidationErr \<Rightarrow> string list \<Rightarrow> bool" where
  "placeholderSatisfied (VErr k loc causes) placeholders =
     (if k = KAnyOf \<or> k = KOneOf
      then list_ex (\<lambda>c. placeholderSatisfied c placeholders) causes
      else if causes = []
      then (''/'' @ joinPointer loc) \<in> set placeholders \<and> suppressibleForPlaceholder k
      else list_all (\<lambda>c. placeholderSatisfied c placeholders) causes)"

text \<open>
  \<open>firstGenuineLeaf\<close>: inside \<open>anyOf\<close>/\<open>oneOf\<close> the leaf with the longest instance location wins
  (the first of equals); elsewhere the first unsatisfied cause.
\<close>

definition deeper :: "ValidationErr \<Rightarrow> ValidationErr \<times> int \<Rightarrow> ValidationErr \<times> int" where
  "deeper leaf acc =
     (let d = int (length (ve_InstanceLocation leaf)) in if d > snd acc then (leaf, d) else acc)"

fun firstGenuineLeaf :: "ValidationErr \<Rightarrow> string list \<Rightarrow> ValidationErr" where
  "firstGenuineLeaf (VErr k loc causes) placeholders =
     (if k = KAnyOf \<or> k = KOneOf
      then fst (fold deeper (map (\<lambda>c. firstGenuineLeaf c placeholders) causes) (VErr k loc causes, -1))
      else if causes = [] then VErr k loc causes
      else (case dropWhile (\<lambda>(sat, leaf). sat)
                   (map (\<lambda>c. (placeholderSatisfied c placeholders, firstGenuineLeaf c placeholders)) causes) of
              [] \<Rightarrow> VErr k loc causes
            | (sat, leaf) # rest \<Rightarrow> leaf))"

text \<open>
  The JSON Schema library: registering and compiling a document with a loader for external
  references, validating an instance (a violation tree or another error), and the text of an
  error kind. \<open>collectPlaceholderPaths\<close> visits object keys in the stored order (the source
  sorts them first): its result is only used as a set.
\<close>

record 'sc jsonschema =
  js_AddResource :: "string \<Rightarrow> json \<Rightarrow> goerror option"
  js_Compile :: "(string \<Rightarrow> json result) \<Rightarrow> string \<Rightarrow> json \<Rightarrow> 'sc result"
  js_Validate :: "'sc \<Rightarrow> json \<Rightarrow> (goerror + ValidationErr) option"
  js_LocalizedString :: "ErrorKind \<Rightarrow> string"

definition denySchemaLoader :: "string \<Rightarrow> json result" where
  "denySchemaLoader url = Inl (Errorf ''external schema reference %q is not allowed'' [AS url])"

definition compileSchema :: "'sc jsonschema \<Rightarrow> rawjson \<Rightarrow> 'sc result" where
  "compileSchema js schema =
     (case schema of
        RawBad \<Rightarrow> Inl (Errorf ''configSchema is not valid JSON: %v'' [])
      | Raw doc \<Rightarrow>
          (let url = ''flokoa://capability/config-schema.json'' in
           case js_AddResource js url doc of
             Some err \<Rightarrow> Inl (Errorf ''configSchema is not a JSON Schema document: %v'' [AE err])
           | None \<Rightarrow>
               (case js_Compile js denySchemaLoader url doc of
                  Inl err \<Rightarrow> Inl (Errorf ''configSchema does not compile: %v'' [AE err])
                | Inr compiled \<Rightarrow> Inr compiled)))"

definition CompileSchema :: "'sc jsonschema \<Rightarrow> rawjson \<Rightarrow> goerror option" where
  "CompileSchema js schema = (case compileSchema js schema of Inl e \<Rightarrow> Some e | Inr _ \<Rightarrow> None)"

definition ValidateConfig :: "'sc jsonschema \<Rightarrow> rawjson \<Rightarrow> rawjson \<Rightarrow> goerror option" where
  "ValidateConfig js schema config =
     (case compileSchema js schema of
        Inl err \<Rightarrow> Some err
      | Inr compiled \<Rightarrow>
          (case config of
             RawBad \<Rightarrow> Some (ConfigError '''' ''config is not valid JSON: %v'' [])
           | Raw doc \<Rightarrow>
               (let placeholders = collectPlaceholderPaths doc '''' in
                case js_Validate js compiled doc of
                  None \<Rightarrow> None
                | Some (Inl err) \<Rightarrow> Some (ConfigError '''' ''%v'' [AE err])
                | Some (Inr verr) \<Rightarrow>
                    if placeholderSatisfied verr placeholders then None
                    else (let leaf = firstGenuineLeaf verr placeholders in
                          Some (ConfigError (''/'' @ joinPointer (ve_InstanceLocation leaf))
                                  ''%s'' [AS (js_LocalizedString js (ve_Kind leaf))])))))"

subsection \<open>Conflict detection is exact\<close>

text \<open>
  The loop invariant while no conflict has been reported: \<open>P\<close> are the parsed pins processed so
  far, \<open>dc_established\<close> is their version map, and a package established by the current
  capability is also in \<open>dc_local\<close> with the same version.
\<close>

definition dcInv :: "RunnerInfo \<Rightarrow> nat \<Rightarrow> (string \<times> string) set \<Rightarrow> dcState \<Rightarrow> bool" where
  "dcInv runner idx P st \<longleftrightarrow>
     dc_reportedCross st = [] \<and>
     (\<forall>pkg v. (pkg, v) \<in> P \<longleftrightarrow> (\<exists>e. dc_established st pkg = Some e \<and> pin_version e = v)) \<and>
     (\<forall>pkg e. dc_established st pkg = Some e \<longrightarrow> pin_idx e \<le> idx \<and>
         (pin_idx e = idx \<longrightarrow> dc_local st pkg = Some (pin_version e))) \<and>
     (\<forall>pkg v. dc_local st pkg = Some v \<longrightarrow> (pkg, v) \<in> P)"

lemma dcPin_mono: "\<exists>new. dc_conflicts (dcPin runner idx nm pin st) = dc_conflicts st @ new"
  by (auto simp: dcPin_def Let_def split: sum.splits prod.splits option.splits)

lemma dcPin_step:
  assumes inv: "dcInv runner idx P st" and nil: "dc_conflicts st = []"
  shows "dc_conflicts (dcPin runner idx nm pin st) = [] \<longleftrightarrow>
    (\<exists>pkg v. ParsePin pin = Inr (pkg, v) \<and> (\<forall>b. mget (ri_Baseline runner) pkg = Some b \<longrightarrow> b = v)
        \<and> (\<forall>v'. (pkg, v') \<in> P \<longrightarrow> v' = v))" (is "?l \<longleftrightarrow> ?r")
proof (cases "ParsePin pin")
  case (Inl e) then show ?thesis by (simp add: dcPin_def)
next
  case (Inr p)
  obtain pkg v where p: "p = (pkg, v)" by (cases p)
  show ?thesis
  proof (cases "dc_established st pkg")
    case None
    then have "dc_local st pkg = None"
      using inv unfolding dcInv_def by (metis not_Some_eq option.distinct(1))
    then show ?thesis using None Inr p nil inv
      by (auto simp: dcPin_def dcBaseline_def dcIntra_def dcInv_def split: option.splits)
  next
    case (Some e)
    have P: "\<And>v'. (pkg, v') \<in> P \<longleftrightarrow> v' = pin_version e"
      using inv Some unfolding dcInv_def by auto
    have loc: "dc_local st pkg = None \<or> dc_local st pkg = Some (pin_version e)"
      using inv P unfolding dcInv_def by (metis not_Some_eq)
    have "pin_idx e = idx \<Longrightarrow> dc_local st pkg = Some (pin_version e)"
      using inv Some unfolding dcInv_def by blast
    then show ?thesis using Some Inr p nil inv loc P
      by (auto simp: dcPin_def dcBaseline_def dcIntra_def dcInv_def Let_def split: option.splits)
  qed
qed

lemma dcPin_inv:
  assumes inv: "dcInv runner idx P st" and nil: "dc_conflicts st = []"
    and nil': "dc_conflicts (dcPin runner idx nm pin st) = []" and pp: "ParsePin pin = Inr (pkg, v)"
  shows "dcInv runner idx (insert (pkg, v) P) (dcPin runner idx nm pin st)"
proof -
  have v: "\<And>v'. (pkg, v') \<in> P \<Longrightarrow> v' = v"
    using dcPin_step[OF inv nil, of nm pin] nil' pp by auto
  show ?thesis
  proof (cases "dc_established st pkg")
    case None
    then have "dc_local st pkg = None" "\<And>v'. (pkg, v') \<notin> P"
      using inv unfolding dcInv_def by (metis not_Some_eq option.distinct(1))+
    then show ?thesis using None inv pp
      unfolding dcInv_def by (auto simp: dcPin_def)
  next
    case (Some e)
    then have "pin_version e = v" using inv v unfolding dcInv_def by auto
    then show ?thesis using Some inv pp
      unfolding dcInv_def by (auto simp: dcPin_def)
  qed
qed

definition pinsOf :: "string list \<Rightarrow> (string \<times> string) set" where
  "pinsOf pins = {p. \<exists>pin \<in> set pins. ParsePin pin = Inr p}"

lemma dcPins_mono: "dc_conflicts st \<noteq> [] \<Longrightarrow> dc_conflicts (fold (dcPin runner idx nm) pins st) \<noteq> []"
proof (induction pins arbitrary: st)
  case (Cons pin pins)
  have "dc_conflicts (dcPin runner idx nm pin st) \<noteq> []"
    using dcPin_mono[of runner idx nm pin st] Cons.prems by auto
  then show ?case using Cons.IH by simp
qed simp

definition setOK :: "RunnerInfo \<Rightarrow> (string \<times> string) set \<Rightarrow> bool" where
  "setOK runner P \<longleftrightarrow>
     (\<forall>(pkg, v) \<in> P. \<forall>b. mget (ri_Baseline runner) pkg = Some b \<longrightarrow> b = v) \<and>
     (\<forall>(pkg, v) \<in> P. \<forall>(pkg', v') \<in> P. pkg = pkg' \<longrightarrow> v = v')"

lemma setOK_insert:
  "setOK runner P \<Longrightarrow> setOK runner (insert (pkg, v) P) \<longleftrightarrow>
    (\<forall>b. mget (ri_Baseline runner) pkg = Some b \<longrightarrow> b = v) \<and> (\<forall>v'. (pkg, v') \<in> P \<longrightarrow> v' = v)"
  unfolding setOK_def by fast

lemma setOK_mono: "setOK runner Q \<Longrightarrow> P \<subseteq> Q \<Longrightarrow> setOK runner P"
  unfolding setOK_def by blast

lemma dcPins_iff:
  assumes "dcInv runner idx P st" "dc_conflicts st = []" "setOK runner P"
  shows "(dc_conflicts (fold (dcPin runner idx nm) pins st) = [] \<longleftrightarrow>
          (\<forall>pin \<in> set pins. \<exists>p. ParsePin pin = Inr p) \<and> setOK runner (P \<union> pinsOf pins)) \<and>
         (dc_conflicts (fold (dcPin runner idx nm) pins st) = [] \<longrightarrow>
            dcInv runner idx (P \<union> pinsOf pins) (fold (dcPin runner idx nm) pins st))"
  using assms
proof (induction pins arbitrary: P st)
  case Nil
  then show ?case by (simp add: pinsOf_def)
next
  case (Cons pin pins)
  let ?st = "dcPin runner idx nm pin st"
  show ?case
  proof (cases "dc_conflicts ?st = []")
    case True
    then obtain pkg v where pv: "ParsePin pin = Inr (pkg, v)"
        "\<forall>b. mget (ri_Baseline runner) pkg = Some b \<longrightarrow> b = v" "\<forall>v'. (pkg, v') \<in> P \<longrightarrow> v' = v"
      using dcPin_step[OF Cons.prems(1,2)] by blast
    have inv: "dcInv runner idx (insert (pkg, v) P) ?st"
      by (rule dcPin_inv[OF Cons.prems(1,2) True pv(1)])
    have ok: "setOK runner (insert (pkg, v) P)"
      using pv Cons.prems(3) by (simp add: setOK_insert)
    have un: "insert (pkg, v) P \<union> pinsOf pins = P \<union> pinsOf (pin # pins)"
      using pv(1) by (auto simp: pinsOf_def)
    show ?thesis using Cons.IH[OF inv True ok] pv(1) unfolding un by auto
  next
    case False
    then have "dc_conflicts (fold (dcPin runner idx nm) (pin # pins) st) \<noteq> []"
      using dcPins_mono by auto
    moreover have "\<not> ((\<exists>p. ParsePin pin = Inr p) \<and> setOK runner (P \<union> pinsOf (pin # pins)))"
    proof
      assume a: "(\<exists>p. ParsePin pin = Inr p) \<and> setOK runner (P \<union> pinsOf (pin # pins))"
      then obtain pkg v where pv: "ParsePin pin = Inr (pkg, v)" by fastforce
      have "setOK runner (insert (pkg, v) P)"
        using a pv by (auto simp: pinsOf_def intro: setOK_mono)
      then show False using False dcPin_step[OF Cons.prems(1,2)] pv Cons.prems(3)
        by (auto simp: setOK_insert)
    qed
    ultimately show ?thesis by auto
  qed
qed

lemma dcInv_next: "dcInv runner idx P st \<Longrightarrow> idx < idx' \<Longrightarrow> dcInv runner idx' P (st\<lparr>dc_local := (\<lambda>_. None)\<rparr>)"
  unfolding dcInv_def by fastforce

definition depsOf :: "Deps list \<Rightarrow> (string \<times> string) set" where
  "depsOf caps = (\<Union>c \<in> set caps. pinsOf (deps_Pins c))"

lemma dcCaps_mono: "dc_conflicts st \<noteq> [] \<Longrightarrow> dc_conflicts (dcCaps runner idx caps st) \<noteq> []"
  by (induction caps arbitrary: idx st) (auto simp: dcCap_def dcPins_mono)

lemma dcCaps_iff:
  assumes "dcInv runner idx P (st\<lparr>dc_local := (\<lambda>_. None)\<rparr>)" "dc_conflicts st = []" "setOK runner P"
  shows "dc_conflicts (dcCaps runner idx caps st) = [] \<longleftrightarrow>
     (\<forall>c \<in> set caps. \<forall>pin \<in> set (deps_Pins c). \<exists>p. ParsePin pin = Inr p) \<and> setOK runner (P \<union> depsOf caps)"
  using assms
proof (induction caps arbitrary: idx P st)
  case Nil then show ?case by (simp add: depsOf_def)
next
  case (Cons c cs)
  let ?st = "dcCap runner idx c st"
  note step = dcPins_iff[OF Cons.prems(1) _ Cons.prems(3), where nm = "deps_Name c" and pins = "deps_Pins c",
      folded dcCap_def, simplified, OF Cons.prems(2)]
  have un: "P \<union> pinsOf (deps_Pins c) \<union> depsOf cs = P \<union> depsOf (c # cs)"
    by (auto simp: depsOf_def)
  show ?case
  proof (cases "dc_conflicts ?st = []")
    case True
    then have inv: "dcInv runner (Suc idx) (P \<union> pinsOf (deps_Pins c)) (?st\<lparr>dc_local := (\<lambda>_. None)\<rparr>)"
      and ok: "setOK runner (P \<union> pinsOf (deps_Pins c))"
      and parse: "\<forall>pin \<in> set (deps_Pins c). \<exists>p. ParsePin pin = Inr p"
      using step by (auto intro: dcInv_next[where idx = idx])
    show ?thesis using Cons.IH[OF inv True ok] parse unfolding un by auto
  next
    case False
    then have "\<not> ((\<forall>pin \<in> set (deps_Pins c). \<exists>p. ParsePin pin = Inr p) \<and> setOK runner (P \<union> depsOf (c # cs)))"
      using step setOK_mono[of runner "P \<union> depsOf (c # cs)" "P \<union> pinsOf (deps_Pins c)"]
      by (auto simp: depsOf_def)
    then show ?thesis using dcCaps_mono[OF False] by auto
  qed
qed

text \<open>
  A selection of capabilities is coherent when every pin is well formed and the set of parsed
  pins agrees with the runner baseline and is functional: one version per package.
\<close>

definition pinsCoherent :: "RunnerInfo \<Rightarrow> Deps list \<Rightarrow> bool" where
  "pinsCoherent runner caps \<longleftrightarrow>
     (\<forall>c \<in> set caps. \<forall>pin \<in> set (deps_Pins c). \<exists>p. ParsePin pin = Inr p) \<and>
     setOK runner (depsOf caps)"

lemma DetectConflicts_iff_pinsCoherent:
  "DetectConflicts caps runner = [] \<longleftrightarrow> pinsCoherent runner caps"
proof -
  have "dcInv runner 0 {} (dcInit\<lparr>dc_local := (\<lambda>_. None)\<rparr>)"
    by (simp add: dcInv_def dcInit_def)
  from dcCaps_iff[OF this, of caps] show ?thesis
    by (simp add: DetectConflicts_def dcInit_def setOK_def pinsCoherent_def)
qed

text \<open>C23. \<open>DetectConflicts\<close> reports nothing exactly for the coherent selections: the incremental
  scan with its per-capability and cross-capability bookkeeping neither misses a conflicting pair
  of pins (within a capability, across capabilities, or against the baseline) nor reports one that
  is not there.\<close>

theorem DetectConflicts_iff_coherent:
  "DetectConflicts caps runner = [] \<longleftrightarrow> pinsCoherent runner caps"
  by (rule DetectConflicts_iff_pinsCoherent)

subsection \<open>Normalization and pins\<close>

definition pep503_normal :: "string \<Rightarrow> bool" where
  "pep503_normal s \<longleftrightarrow>
     list_all (\<lambda>c. \<not> is_upper c \<and> c \<noteq> CHR ''_'' \<and> c \<noteq> CHR ''.'') s \<and>
     successively (\<lambda>a b. \<not> (a = CHR ''-'' \<and> b = CHR ''-'')) s"

lemma is_upper_lower_char [simp]: "\<not> is_upper (lower_char c)"
proof (cases "is_upper c")
  case True
  then have "(of_char c :: nat) + 32 < 256" by (simp add: is_upper_def)
  then have "(of_char (char_of ((of_char c :: nat) + 32)) :: nat) = of_char c + 32"
    by (simp add: of_char_of)
  with True show ?thesis by (simp add: lower_char_def is_upper_def)
qed (simp add: lower_char_def)

lemma lower_char_id: "\<not> is_upper c \<Longrightarrow> lower_char c = c"
  by (simp add: lower_char_def)

lemma is_sep_not_upper: "is_sep c \<Longrightarrow> \<not> is_upper c"
  by (auto simp: is_sep_def is_upper_def of_char_def)

lemma lower_char_sep: "is_sep (lower_char c) \<longleftrightarrow> is_sep c"
proof (cases "is_upper c")
  case True
  then have lt: "(of_char c :: nat) + 32 < 256" "65 \<le> (of_char c :: nat)" by (simp_all add: is_upper_def)
  have "(of_char (lower_char c) :: nat) = of_char c + 32"
    using True lt by (simp add: lower_char_def of_char_of)
  then have "\<not> is_sep (lower_char c)"
    using True by (auto simp: is_sep_def is_upper_def)
  then show ?thesis using True is_sep_not_upper by blast
qed (simp add: lower_char_def)

lemma lower_char_dash: "lower_char c = CHR ''-'' \<longleftrightarrow> c = CHR ''-''"
  using lower_char_sep[of c] is_sep_not_upper[of c] lower_char_id[of c]
  by (metis is_sep_def insertCI)

lemma collapseSeps_chars: "c \<in> set (collapseSeps s) \<Longrightarrow> is_sep c \<Longrightarrow> c = CHR ''-''"
  by (induction s rule: collapseSeps.induct) (auto split: if_splits)

lemma hd_collapse_dropWhile: "collapseSeps (dropWhile is_sep s) \<noteq> [] \<Longrightarrow> \<not> is_sep (hd (collapseSeps (dropWhile is_sep s)))"
  by (induction s) auto

lemma collapseSeps_adj: "successively (\<lambda>a b. \<not> (a = CHR ''-'' \<and> b = CHR ''-'')) (collapseSeps s)"
proof (induction s rule: collapseSeps.induct)
  case (2 c cs)
  have "collapseSeps (dropWhile is_sep cs) \<noteq> [] \<Longrightarrow> hd (collapseSeps (dropWhile is_sep cs)) \<noteq> CHR ''-''"
    using hd_collapse_dropWhile[of cs] by (auto simp: is_sep_def)
  with 2 show ?case by (auto simp: successively_Cons is_sep_def)
qed simp

lemma collapseSeps_id:
  "(\<forall>c \<in> set s. is_sep c \<longrightarrow> c = CHR ''-'') \<Longrightarrow>
   successively (\<lambda>a b. \<not> (a = CHR ''-'' \<and> b = CHR ''-'')) s \<Longrightarrow> collapseSeps s = s"
proof (induction s rule: collapseSeps.induct)
  case (2 c cs)
  have dw: "dropWhile is_sep cs = cs" if c: "is_sep c"
  proof (cases cs)
    case (Cons d ds)
    have "c = CHR ''-''" using c "2.prems"(1) by simp
    then have "d \<noteq> CHR ''-''" using "2.prems"(2) Cons by simp
    then have "\<not> is_sep d" using "2.prems"(1) Cons by auto
    then show ?thesis using Cons by simp
  qed simp
  have rest: "\<forall>c \<in> set cs. is_sep c \<longrightarrow> c = CHR ''-''"
    "successively (\<lambda>a b. \<not> (a = CHR ''-'' \<and> b = CHR ''-'')) cs"
    using "2.prems" by (auto simp: successively_Cons)
  show ?case
  proof (cases "is_sep c")
    case True
    have "collapseSeps cs = cs" using "2.IH"(1)[OF True] rest unfolding dw[OF True] by blast
    moreover have "c = CHR ''-''" using True "2.prems"(1) by simp
    ultimately show ?thesis using True dw by simp
  next
    case False
    have "collapseSeps cs = cs" using "2.IH"(2)[OF False] rest by blast
    then show ?thesis using False by simp
  qed
qed simp

lemma normalize_normal: "pep503_normal (NormalizePackageName s)"
proof -
  have "successively (\<lambda>a b. \<not> (a = CHR ''-'' \<and> b = CHR ''-'')) (map lower_char (collapseSeps s))"
    using collapseSeps_adj[of s] by (simp add: successively_map lower_char_dash)
  moreover have "c \<in> set (collapseSeps s) \<Longrightarrow> lower_char c \<noteq> CHR ''_'' \<and> lower_char c \<noteq> CHR ''.''" for c
  proof -
    assume c: "c \<in> set (collapseSeps s)"
    show ?thesis
    proof (cases "is_sep c")
      case True
      then have "lower_char c = CHR ''-''"
        using collapseSeps_chars[OF c] lower_char_dash by blast
      then show ?thesis by simp
    next
      case False
      then have "\<not> is_sep (lower_char c)" by (simp add: lower_char_sep)
      then show ?thesis by (auto simp: is_sep_def)
    qed
  qed
  ultimately show ?thesis
    by (auto simp: pep503_normal_def NormalizePackageName_def toLower_def list_all_iff)
qed

lemma normalize_fixpoint: "pep503_normal s \<Longrightarrow> NormalizePackageName s = s"
proof -
  assume n: "pep503_normal s"
  have "collapseSeps s = s"
    by (rule collapseSeps_id) (use n in \<open>auto simp: pep503_normal_def list_all_iff is_sep_def\<close>)
  moreover have "map lower_char s = s"
    by (rule map_idI) (use n in \<open>auto simp: pep503_normal_def list_all_iff lower_char_id\<close>)
  ultimately show ?thesis by (simp add: NormalizePackageName_def toLower_def)
qed

text \<open>\<open>NormalizePackageName\<close> computes PEP 503 normal forms: the result has no upper-case
  letter, no \<open>_\<close> or \<open>.\<close> and no two adjacent dashes, normalizing again changes nothing, and
  exactly the normal names are left unchanged.\<close>

theorem NormalizePackageName_pep503:
  "pep503_normal (NormalizePackageName s) \<and>
   NormalizePackageName (NormalizePackageName s) = NormalizePackageName s \<and>
   (NormalizePackageName s = s \<longleftrightarrow> pep503_normal s)"
  using normalize_normal normalize_fixpoint by metis

definition validPinName :: "string \<Rightarrow> bool" where
  "validPinName n \<longleftrightarrow> n \<noteq> [] \<and> is_alnum (hd n) \<and> list_all is_name_char n"

definition validPinVersion :: "string \<Rightarrow> bool" where
  "validPinVersion v \<longleftrightarrow> v \<noteq> [] \<and> list_all is_version_char v"

lemma name_char_neq: "is_name_char c \<Longrightarrow> c \<noteq> CHR ''=''"
  by (auto simp: is_name_char_def is_alnum_def is_upper_def is_lower_def is_digit_def is_sep_def of_char_def)

lemma hasPrefix_append: "hasPrefix s p \<longleftrightarrow> (\<exists>t. s = p @ t)"
  by (auto simp: hasPrefix_def) (metis append_take_drop_id)

lemma matchPin_iff:
  "matchPin s = Some (n, v) \<longleftrightarrow> validPinName n \<and> validPinVersion v \<and> s = n @ ''=='' @ v"
proof
  assume m: "matchPin s = Some (n, v)"
  let ?p = "\<lambda>c. c \<noteq> CHR ''=''"
  from m have n: "n = takeWhile ?p s" "validPinName n" and v: "v = drop 2 (dropWhile ?p s)" "validPinVersion v"
      and h: "hasPrefix (dropWhile ?p s) ''==''"
    by (auto simp: matchPin_def Let_def validPinName_def validPinVersion_def split: if_splits)
  from h obtain t where t: "dropWhile ?p s = ''=='' @ t" by (auto simp: hasPrefix_append)
  have "s = takeWhile ?p s @ dropWhile ?p s" by simp
  then show "validPinName n \<and> validPinVersion v \<and> s = n @ ''=='' @ v" using n v t by auto
next
  assume a: "validPinName n \<and> validPinVersion v \<and> s = n @ ''=='' @ v"
  have ne: "\<forall>c \<in> set n. c \<noteq> CHR ''=''"
    using a name_char_neq by (auto simp: validPinName_def list_all_iff)
  have tw: "takeWhile (\<lambda>c. c \<noteq> CHR ''='') s = n" "dropWhile (\<lambda>c. c \<noteq> CHR ''='') s = ''=='' @ v"
    using a ne by (auto simp: takeWhile_append dropWhile_append)
  show "matchPin s = Some (n, v)"
    using a unfolding matchPin_def tw by (simp add: Let_def hasPrefix_append validPinName_def validPinVersion_def)
qed

text \<open>\<open>ParsePin\<close> accepts exactly the pins \<open>name==version\<close> (surrounding white space
  apart) over the two character classes of the pattern, and returns the normalized name and the
  version unchanged.\<close>

theorem ParsePin_iff:
  "ParsePin pin = Inr (pkg, v) \<longleftrightarrow>
   (\<exists>n. trimSpace pin = n @ ''=='' @ v \<and> validPinName n \<and> validPinVersion v \<and> pkg = NormalizePackageName n)"
proof -
  have "ParsePin pin = Inr (pkg, v) \<longleftrightarrow>
      (\<exists>n. matchPin (trimSpace pin) = Some (n, v) \<and> pkg = NormalizePackageName n)"
    by (cases "matchPin (trimSpace pin)") (auto simp: ParsePin_def split: prod.splits)
  then show ?thesis by (auto simp: matchPin_iff)
qed

subsection \<open>Pointers, placeholders and reported violations\<close>

fun leafAt :: "json \<Rightarrow> string list \<Rightarrow> string \<Rightarrow> bool" where
  "leafAt (JStr v) [] s = (v = s)"
| "leafAt (JObj kvs) (t # ts) s = (\<exists>(k, v) \<in> set kvs. k = t \<and> leafAt v ts s)"
| "leafAt (JArr items) (t # ts) s = (\<exists>(i, v) \<in> set (zip [0..<length items] items). dec_nat i = t \<and> leafAt v ts s)"
| "leafAt _ _ s = False"

lemma leafAt_str: "leafAt (JStr v) ts s \<longleftrightarrow> ts = [] \<and> v = s"
  by (cases ts) auto

lemma leafAt_obj: "leafAt (JObj kvs) ts s \<longleftrightarrow> (\<exists>k v r. (k, v) \<in> set kvs \<and> ts = k # r \<and> leafAt v r s)"
  by (cases ts) auto

lemma leafAt_arr: "leafAt (JArr items) ts s \<longleftrightarrow>
    (\<exists>i v r. (i, v) \<in> set (zip [0..<length items] items) \<and> ts = dec_nat i # r \<and> leafAt v r s)"
  by (cases ts) auto

definition slashed :: "string list \<Rightarrow> string" where
  "slashed toks = concat (map (\<lambda>t. ''/'' @ escapePointerToken t) toks)"

lemma joinPointer_slashed: "toks \<noteq> [] \<Longrightarrow> ''/'' @ joinPointer toks = slashed toks"
proof (induction toks)
  case (Cons t ts)
  then show ?case by (cases ts) (auto simp: joinPointer_def slashed_def)
qed simp

lemma digit_char_dec: "d < 10 \<Longrightarrow> digit_char d \<noteq> CHR ''/'' \<and> digit_char d \<noteq> CHR ''~''"
proof -
  assume d: "d < 10"
  have "(of_char (digit_char d) :: nat) = 48 + d" using d by (simp add: digit_char_def of_char_of)
  then show ?thesis using d by auto
qed

lemma dec_nat_plain: "c \<in> set (dec_nat n) \<Longrightarrow> c \<noteq> CHR ''/'' \<and> c \<noteq> CHR ''~''"
proof (induction n rule: dec_nat.induct)
  case (1 n)
  show ?case
  proof (cases "n < 10")
    case True
    then show ?thesis using "1.prems" digit_char_dec[of n] by (simp add: dec_nat.simps)
  next
    case False
    then have "c \<in> set (dec_nat (n div 10)) \<or> c = digit_char (n mod 10)"
      using "1.prems" by (auto simp: dec_nat.simps[of n])
    then show ?thesis using "1.IH"[OF False] digit_char_dec[of "n mod 10"] by auto
  qed
qed

lemma replaceAllChar_id: "c \<notin> set s \<Longrightarrow> replaceAllChar c r s = s"
  by (induction s) (auto simp: replaceAllChar_def)

lemma escape_plain: "CHR ''/'' \<notin> set s \<Longrightarrow> CHR ''~'' \<notin> set s \<Longrightarrow> escapePointerToken s = s"
  by (simp add: escapePointerToken_def replaceAllChar_id)

lemma escape_dec [simp]: "escapePointerToken (dec_nat i) = dec_nat i"
  using dec_nat_plain by (intro escape_plain) auto

definition ptr :: "string \<Rightarrow> string list \<Rightarrow> string" where
  "ptr path toks = (if path @ slashed toks = '''' then ''/'' else path @ slashed toks)"

lemma ptr_Cons: "ptr path (k # r) = ptr (path @ ''/'' @ escapePointerToken k) r"
  by (simp add: ptr_def slashed_def)

lemma ptr_root: "ptr '''' toks = ''/'' @ joinPointer toks"
proof (cases toks)
  case (Cons t ts)
  have "slashed toks \<noteq> ''''" by (simp add: Cons slashed_def)
  then show ?thesis using joinPointer_slashed[of toks] Cons by (simp add: ptr_def)
qed (simp add: ptr_def slashed_def joinPointer_def)

lemma collect_iff:
  "p \<in> set (collectPlaceholderPaths d path) \<longleftrightarrow>
   (\<exists>toks s. leafAt d toks s \<and> matchSecretPlaceholder s \<and> p = ptr path toks)"
proof (induction d path arbitrary: p rule: collectPlaceholderPaths.induct)
  case (1 v path)
  then show ?case by (auto simp: leafAt_str ptr_def slashed_def)
next
  case (2 kvs path)
  have "p \<in> set (collectPlaceholderPaths (JObj kvs) path) \<longleftrightarrow>
      (\<exists>(k, v) \<in> set kvs. p \<in> set (collectPlaceholderPaths v (path @ ''/'' @ escapePointerToken k)))"
    by fastforce
  also have "\<dots> \<longleftrightarrow> (\<exists>(k, v) \<in> set kvs. \<exists>toks s. leafAt v toks s \<and> matchSecretPlaceholder s \<and>
      p = ptr (path @ ''/'' @ escapePointerToken k) toks)"
    by (rule bex_cong) (clarsimp simp: "2.IH"[OF _ refl, simplified])+
  also have "\<dots> \<longleftrightarrow> (\<exists>toks s. leafAt (JObj kvs) toks s \<and> matchSecretPlaceholder s \<and> p = ptr path toks)"
    unfolding leafAt_obj by (fastforce simp: ptr_Cons)
  finally show ?case .
next
  case (3 items path)
  let ?z = "zip [0..<length items] items"
  have "p \<in> set (collectPlaceholderPaths (JArr items) path) \<longleftrightarrow>
      (\<exists>(i, v) \<in> set ?z. p \<in> set (collectPlaceholderPaths v (path @ ''/'' @ dec_nat i)))"
    by fastforce
  also have "\<dots> \<longleftrightarrow> (\<exists>(i, v) \<in> set ?z. \<exists>toks s. leafAt v toks s \<and> matchSecretPlaceholder s \<and>
      p = ptr (path @ ''/'' @ dec_nat i) toks)"
    by (rule bex_cong) (clarsimp simp: "3.IH"[OF _ refl, simplified])+
  also have "\<dots> \<longleftrightarrow> (\<exists>toks s. leafAt (JArr items) toks s \<and> matchSecretPlaceholder s \<and> p = ptr path toks)"
    unfolding leafAt_arr by (fastforce simp: ptr_Cons)
  finally show ?case .
qed auto

lemma collectPlaceholderPaths_exact:
  "p \<in> set (collectPlaceholderPaths d '''') \<longleftrightarrow>
   (\<exists>toks s. leafAt d toks s \<and> matchSecretPlaceholder s \<and> p = ''/'' @ joinPointer toks)"
  unfolding collect_iff ptr_root ..

lemma escape_Nil [simp]: "escapePointerToken [] = []"
  by (simp add: escapePointerToken_def replaceAllChar_def)

lemma escape_Cons: "escapePointerToken (c # cs) =
   (if c = CHR ''~'' then ''~0'' else if c = CHR ''/'' then ''~1'' else [c]) @ escapePointerToken cs"
  by (simp add: escapePointerToken_def replaceAllChar_def)

lemma escape_inj: "escapePointerToken s = escapePointerToken t \<Longrightarrow> s = t"
proof (induction s arbitrary: t)
  case Nil
  then show ?case by (cases t) (auto simp: escape_Cons split: if_splits)
next
  case (Cons c cs)
  then show ?case by (cases t) (auto simp: escape_Cons split: if_splits)
qed

lemma escape_no_slash: "CHR ''/'' \<notin> set (escapePointerToken s)"
  by (induction s) (auto simp: escape_Cons)

lemma split_first:
  "x @ c # r = u @ c # t \<Longrightarrow> c \<notin> set x \<Longrightarrow> c \<notin> set u \<Longrightarrow> x = u \<and> r = t"
proof (induction x arbitrary: u)
  case Nil
  then show ?case by (cases u) auto
next
  case (Cons a x)
  then show ?case by (cases u) auto
qed

lemma join_inj:
  assumes "\<forall>x \<in> set xs. c \<notin> set x" "\<forall>y \<in> set ys. c \<notin> set y" "xs \<noteq> []" "ys \<noteq> []"
    "joinStrings xs [c] = joinStrings ys [c]"
  shows "xs = ys"
  using assms
proof (induction xs "[c]" arbitrary: ys rule: joinStrings.induct)
  case (2 x)
  then show ?case by (cases "(ys, [c])" rule: joinStrings.cases) auto
next
  case (3 x y zs)
  have ne: "ys \<noteq> [u]" if "c \<notin> set u" for u using "3.prems"(5) that by auto
  obtain u v ws where ys: "ys = u # v # ws"
    using "3.prems"(2,4) ne by (cases ys rule: list.exhaust; cases "tl ys") auto
  have "x @ c # joinStrings (y # zs) [c] = u @ c # joinStrings (v # ws) [c]" using "3.prems"(5) ys by simp
  then have "x = u" "joinStrings (y # zs) [c] = joinStrings (v # ws) [c]"
    using split_first[of x c _ u] "3.prems"(1,2) ys by auto
  then show ?case using "3.hyps"[of "v # ws"] "3.prems"(1,2) ys by simp
qed simp

lemma joinPointer_eq:
  "joinPointer a = joinPointer b \<longleftrightarrow> a = b \<or> (a = [] \<and> b = [''''] \<or> a = [''''] \<and> b = [])"
proof
  assume eq: "joinPointer a = joinPointer b"
  have nil: "joinPointer a = '''' \<Longrightarrow> a = [] \<or> a = ['''']" for a
    by (cases "(a, ''/'')" rule: joinStrings.cases)
      (auto simp: joinPointer_def escape_inj[of _ "[]"])
  show "a = b \<or> (a = [] \<and> b = [''''] \<or> a = [''''] \<and> b = [])"
  proof (cases "a = [] \<or> b = []")
    case True
    then show ?thesis using eq nil[of a] nil[of b] by (auto simp: joinPointer_def)
  next
    case False
    then have "map escapePointerToken a = map escapePointerToken b"
      using eq escape_no_slash by (intro join_inj[of _ "CHR ''/''"]) (auto simp: joinPointer_def)
    then have "a = b" by (rule map_injective) (auto intro: injI escape_inj)
    then show ?thesis ..
  qed
qed (auto simp: joinPointer_def)

fun subviolations :: "ValidationErr \<Rightarrow> ValidationErr list" where
  "subviolations (VErr k loc causes) = VErr k loc causes # concat (map subviolations causes)"

lemma fold_deeper:
  "fst (fold deeper ls acc) \<in> set ls \<union> {fst acc} \<and> (ls \<noteq> [] \<and> snd acc < 0 \<longrightarrow> fst (fold deeper ls acc) \<in> set ls)"
proof (induction ls arbitrary: acc)
  case (Cons l ls)
  show ?case using Cons.IH[of "deeper l acc"] by (auto simp: deeper_def Let_def split: if_splits)
qed simp

lemma first_unsatisfied:
  "\<exists>c \<in> set causes. \<not> placeholderSatisfied c P \<Longrightarrow>
   \<exists>c \<in> set causes. \<exists>rest. \<not> placeholderSatisfied c P \<and>
     dropWhile (\<lambda>(sat, leaf). sat) (map (\<lambda>c. (placeholderSatisfied c P, firstGenuineLeaf c P)) causes)
       = (False, firstGenuineLeaf c P) # rest"
  by (induction causes) auto

lemma firstGenuineLeaf_genuine:
  "\<not> placeholderSatisfied e P \<Longrightarrow>
   firstGenuineLeaf e P \<in> set (subviolations e) \<and> ve_Causes (firstGenuineLeaf e P) = [] \<and>
   \<not> placeholderSatisfied (firstGenuineLeaf e P) P"
proof (induction e)
  case (VErr k loc causes)
  show ?case
  proof (cases "k = KAnyOf \<or> k = KOneOf")
    case True
    then have all: "\<forall>c \<in> set causes. \<not> placeholderSatisfied c P"
      using VErr.prems by (auto simp: list_ex_iff)
    let ?ls = "map (\<lambda>c. firstGenuineLeaf c P) causes"
    show ?thesis
    proof (cases "causes = []")
      case True then show ?thesis using VErr.prems \<open>k = KAnyOf \<or> k = KOneOf\<close> by auto
    next
      case False
      then have "firstGenuineLeaf (VErr k loc causes) P \<in> set ?ls"
        using True fold_deeper[of ?ls "(VErr k loc causes, -1)"] by simp
      then obtain c where "c \<in> set causes" "firstGenuineLeaf (VErr k loc causes) P = firstGenuineLeaf c P"
        by auto
      then show ?thesis using VErr.IH[of c] all by auto
    qed
  next
    case False
    show ?thesis
    proof (cases "causes = []")
      case True then show ?thesis using VErr.prems False by auto
    next
      case ne: False
      then obtain c where c: "c \<in> set causes" "\<not> placeholderSatisfied c P"
          "firstGenuineLeaf (VErr k loc causes) P = firstGenuineLeaf c P"
        using VErr.prems False first_unsatisfied[of causes P] by (auto simp: list_all_iff)
      then show ?thesis using VErr.IH[of c] by auto
    qed
  qed
qed

text \<open>
  Which violations a document excuses: a leaf when its location holds a string with a secret
  placeholder and the violated keyword constrains strings only; \<open>anyOf\<close> and \<open>oneOf\<close> when one
  branch is excused; any other inner node when all its causes are.
\<close>

fun excused :: "json \<Rightarrow> ValidationErr \<Rightarrow> bool" where
  "excused doc (VErr k loc causes) =
     (if k = KAnyOf \<or> k = KOneOf then (\<exists>c \<in> set causes. excused doc c)
      else if causes = []
      then suppressibleForPlaceholder k \<and>
           (\<exists>toks s. leafAt doc toks s \<and> matchSecretPlaceholder s \<and> joinPointer loc = joinPointer toks)
      else (\<forall>c \<in> set causes. excused doc c))"

lemma placeholderSatisfied_excused:
  "placeholderSatisfied e (collectPlaceholderPaths doc '''') \<longleftrightarrow> excused doc e"
  by (induction e) (auto simp: list_ex_iff list_all_iff collectPlaceholderPaths_exact)

definition acceptable :: "json \<Rightarrow> (goerror + ValidationErr) option \<Rightarrow> bool" where
  "acceptable doc outcome =
     (case outcome of None \<Rightarrow> True | Some (Inl e) \<Rightarrow> False | Some (Inr v) \<Rightarrow> excused doc v)"

text \<open>C24. \<open>ValidateConfig\<close> accepts a config exactly when the schema compiles without external
  references, the config is JSON, and the schema library reports no violation or only violations
  excused by secret placeholders at the violating locations.\<close>

theorem ValidateConfig_accepts_iff:
  "ValidateConfig js schema config = None \<longleftrightarrow>
   (\<exists>compiled doc. compileSchema js schema = Inr compiled \<and> config = Raw doc \<and>
      acceptable doc (js_Validate js compiled doc))"
  by (cases "compileSchema js schema"; cases config)
    (auto simp: ValidateConfig_def acceptable_def placeholderSatisfied_excused Let_def
      split: option.splits sum.splits)

text \<open>C25. When a config is rejected for a schema violation, the reported pointer is the location
  of an atomic violation of the tree that no placeholder excuses.\<close>

theorem ValidateConfig_reports_genuine:
  assumes "compileSchema js schema = Inr compiled"
    and "js_Validate js compiled doc = Some (Inr verr)"
    and "\<not> excused doc verr"
  shows "\<exists>leaf \<in> set (subviolations verr). ve_Causes leaf = [] \<and> \<not> excused doc leaf \<and>
    ValidateConfig js schema (Raw doc) =
      Some (ConfigError (''/'' @ joinPointer (ve_InstanceLocation leaf)) ''%s''
              [AS (js_LocalizedString js (ve_Kind leaf))])"
  using firstGenuineLeaf_genuine[of verr "collectPlaceholderPaths doc ''''"] assms
  by (auto simp: ValidateConfig_def placeholderSatisfied_excused Let_def)

text \<open>A schema library whose every instance fails at \<open>/a\<close>, to instantiate the parameter.\<close>

definition failingSchema :: "unit jsonschema" where
  "failingSchema = \<lparr>js_AddResource = (\<lambda>u d. None), js_Compile = (\<lambda>l u d. Inr ()),
     js_Validate = (\<lambda>sc d. Some (Inr (VErr (KOther ''type'') [''a''] []))),
     js_LocalizedString = (\<lambda>k. ''invalid'')\<rparr>"

theorem ValidateConfig_reports_genuine_witness:
  "\<exists>leaf \<in> set (subviolations (VErr (KOther ''type'') [''a''] [])). ve_Causes leaf = [] \<and>
     \<not> excused (JObj []) leaf \<and>
     ValidateConfig failingSchema (Raw (JObj [])) (Raw (JObj [])) =
      Some (ConfigError (''/'' @ joinPointer (ve_InstanceLocation leaf)) ''%s''
              [AS (js_LocalizedString failingSchema (ve_Kind leaf))])"
  by (rule ValidateConfig_reports_genuine[where compiled = "()"])
    (simp_all add: failingSchema_def compileSchema_def)

end
