(* ===== verification/Api.thy ===== *)
theory Api
  imports Kube
begin

text \<open>
  The custom resources of \<open>operator/api/v1alpha1\<close>: one record per Go struct with the struct's
  fields, one datatype per string enumeration (the empty string of an unset enumeration is its
  own constructor). \<open>TypeMeta\<close> and the \<open>List\<close> wrappers carry no information the operator uses.
\<close>

subsection \<open>Shared references and model settings\<close>

record NamespacedRef =
  nr_Name :: string
  nr_Namespace :: string

record ProviderRef =
  pref_Name :: string
  pref_Namespace :: string

record ModelSettings =
  ms_MaxTokens :: "int option"
  ms_Temperature :: string
  ms_TopP :: string
  ms_TopK :: "int option"
  ms_TimeoutSeconds :: "int option"
  ms_ParallelToolCalls :: "bool option"
  ms_Seed :: "int option"
  ms_PresencePenalty :: string
  ms_FrequencyPenalty :: string
  ms_LogitBias :: "int smap"
  ms_StopSequences :: "string list"
  ms_ExtraHeaders :: "string smap"
  ms_Extra :: "rawjson option"

subsection \<open>ModelProvider and Model\<close>

datatype ProviderType =
  ProviderTypeOpenAI | ProviderTypeAnthropic | ProviderTypeGoogle | ProviderTypeBedrock
  | ProviderTypeNone

record OpenAIProviderSpec =
  oai_BaseURL :: string

record AnthropicProviderSpec =
  ant_BaseURL :: string

record GoogleProviderSpec =
  goo_Project :: string
  goo_Location :: string
  goo_ServiceAccountKeySecretRef :: "SecretKeySelector option"

record BedrockProviderSpec =
  bed_Region :: string

record TLSConfig =
  tls_InsecureSkipVerify :: bool
  tls_CASecretRef :: "SecretKeySelector option"
  tls_UseSystemCAs :: "bool option"

record ModelProviderSpec =
  mps_APIKeySecretRef :: "SecretKeySelector option"
  mps_OpenAI :: "OpenAIProviderSpec option"
  mps_Anthropic :: "AnthropicProviderSpec option"
  mps_Google :: "GoogleProviderSpec option"
  mps_Bedrock :: "BedrockProviderSpec option"
  mps_TLS :: "TLSConfig option"
  mps_DefaultHeaders :: "string smap"

record ModelProviderStatus =
  mpst_Provider :: ProviderType
  mpst_Conditions :: "Condition list"
  mpst_ObservedGeneration :: int
  mpst_SecretHash :: string
  mpst_Ready :: bool

record ModelProvider =
  mp_Meta :: ObjectMeta
  mp_Spec :: ModelProviderSpec
  mp_Status :: ModelProviderStatus

definition GetProviderType :: "ModelProvider \<Rightarrow> ProviderType" where
  "GetProviderType mp =
     (if mps_OpenAI (mp_Spec mp) \<noteq> None then ProviderTypeOpenAI
      else if mps_Anthropic (mp_Spec mp) \<noteq> None then ProviderTypeAnthropic
      else if mps_Google (mp_Spec mp) \<noteq> None then ProviderTypeGoogle
      else if mps_Bedrock (mp_Spec mp) \<noteq> None then ProviderTypeBedrock
      else ProviderTypeNone)"

record ModelSpec =
  mdls_Model :: string
  mdls_ProviderRef :: ProviderRef
  mdls_Settings :: "ModelSettings option"

record ResolvedProviderInfo =
  rpi_Provider :: ProviderType
  rpi_Namespace :: string
  rpi_Name :: string

record ModelStatus =
  mdlst_Conditions :: "Condition list"
  mdlst_ObservedGeneration :: int
  mdlst_ResolvedProvider :: "ResolvedProviderInfo option"
  mdlst_Ready :: bool

record Model =
  mdl_Meta :: ObjectMeta
  mdl_Spec :: ModelSpec
  mdl_Status :: ModelStatus

subsection \<open>Instruction\<close>

record InstructionSpec =
  ins_Content :: string

record InstructionStatus =
  inst_ConfigMapName :: string
  inst_Conditions :: "Condition list"
  inst_ObservedGeneration :: int

record Instruction =
  in_Meta :: ObjectMeta
  in_Spec :: InstructionSpec
  in_Status :: InstructionStatus

subsection \<open>AgentTool\<close>

datatype AgentToolType = AgentToolTypeMCP | AgentToolTypeOpenAPI | AgentToolTypeUnset

datatype MCPTransport = MCPTransportStreamableHTTP | MCPTransportSSE | MCPTransportUnset

record SecretHeader =
  sh_Name :: string
  sh_SecretRef :: SecretKeySelector

record ServiceRef =
  sref_Name :: string
  sref_Namespace :: string
  sref_Port :: "int option"
  sref_PortName :: string

record AgentToolSpec =
  ats_Type :: AgentToolType
  ats_Description :: string
  ats_URL :: string
  ats_ServiceRef :: "ServiceRef option"
  ats_Path :: string
  ats_Transport :: MCPTransport
  ats_Headers :: "string smap"
  ats_HeaderSecrets :: "SecretHeader list"
  ats_ToolPrefix :: string
  ats_AllowedTools :: "string list"
  ats_TimeoutSeconds :: "int option"

record AgentToolStatus =
  atst_Conditions :: "Condition list"
  atst_ObservedGeneration :: int

record AgentTool =
  at_Meta :: ObjectMeta
  at_Spec :: AgentToolSpec
  at_Status :: AgentToolStatus

subsection \<open>Capability\<close>

datatype SchemaPolicy = SchemaPolicyStrict | SchemaPolicyPermissive | SchemaPolicyUnset

definition CapabilityConditionVerified :: string where
  "CapabilityConditionVerified = ''Verified''"

definition CapabilityConditionPermissive :: string where
  "CapabilityConditionPermissive = ''Permissive''"

definition CapabilityVerifiedReasonDisabled :: string where
  "CapabilityVerifiedReasonDisabled = ''VerificationDisabled''"

definition CapabilityVerifiedReasonVerified :: string where
  "CapabilityVerifiedReasonVerified = ''SignatureVerified''"

definition CapabilityVerifiedReasonMissing :: string where
  "CapabilityVerifiedReasonMissing = ''SignatureMissing''"

definition CapabilityVerifiedReasonInvalid :: string where
  "CapabilityVerifiedReasonInvalid = ''SignatureInvalid''"

definition CapabilityVerifiedReasonError :: string where
  "CapabilityVerifiedReasonError = ''VerifyError''"

record CapabilityRequires =
  creq_Python :: string
  creq_PydanticAI :: string
  creq_FlokoaRunner :: string

record CapabilityProvenance =
  cprov_SignatureRef :: string

record CapabilitySpec =
  caps_Artifact :: string
  caps_Version :: string
  caps_Entrypoint :: string
  caps_SerializationName :: string
  caps_ConfigSchema :: "rawjson option"
  caps_SchemaPolicy :: SchemaPolicy
  caps_Requires :: CapabilityRequires
  caps_Dependencies :: "string list"
  caps_Provenance :: "CapabilityProvenance option"

record CapabilityStatus =
  capst_Conditions :: "Condition list"
  capst_ObservedGeneration :: int

record Capability =
  cap_Meta :: ObjectMeta
  cap_Spec :: CapabilitySpec
  cap_Status :: CapabilityStatus

subsection \<open>Agent\<close>

datatype AgentPhase = AgentPhasePending | AgentPhaseRunning | AgentPhaseFailed | AgentPhaseUnset

datatype IsolationTier = IsolationShared | IsolationSession | IsolationUnset

record AgentSkill =
  skill_ID :: string
  skill_Name :: string
  skill_Description :: string
  skill_Tags :: "string list"
  skill_Examples :: "string list"
  skill_InputModes :: "string list"
  skill_OutputModes :: "string list"
  skill_Security :: "(string list smap) list"

record AgentExtension =
  aext_Description :: string
  aext_Params :: "rawjson smap"
  aext_Required :: bool
  aext_URI :: string

record AgentCapabilities =
  acap_Extensions :: "AgentExtension list"
  acap_PushNotifications :: bool
  acap_StateTransitionHistory :: bool
  acap_Streaming :: bool

record AgentCardOverride =
  card_Name :: string
  card_Description :: string
  card_Version :: string
  card_DefaultInputModes :: "string list"
  card_DefaultOutputModes :: "string list"
  card_Capabilities :: AgentCapabilities
  card_Skills :: "AgentSkill list"

record NativeCapabilityEntry =
  nce_Name :: string
  nce_Config :: "rawjson option"

record CapabilityAttachment =
  att_Ref :: NamespacedRef
  att_Config :: "rawjson option"

record AgentSpecFragment =
  frag_Model :: string
  frag_Name :: string
  frag_Description :: string
  frag_Instructions :: "string list"
  frag_ModelSettings :: "ModelSettings option"
  frag_OutputSchema :: "rawjson option"
  frag_Capabilities :: "NativeCapabilityEntry list"
  frag_Extra :: "rawjson option"

record DeploymentOverrides =
  do_Replicas :: "int option"
  do_ImagePullSecrets :: "string list"
  do_ServiceAccountName :: string
  do_SecurityContext :: "PodSecurityContext option"
  do_NodeSelector :: "string smap"
  do_Tolerations :: "string list"
  do_Affinity :: "string option"

record AgentRuntime =
  rt_Image :: string
  rt_RunnerVersion :: string
  rt_Isolation :: IsolationTier
  rt_Env :: "EnvVar list"
  rt_Resources :: "ResourceRequirements option"
  rt_DeploymentOverrides :: DeploymentOverrides

record AgentSpec =
  as_Spec :: "AgentSpecFragment option"
  as_ModelRef :: "NamespacedRef option"
  as_InstructionRefs :: "NamespacedRef list"
  as_Tools :: "NamespacedRef list"
  as_Capabilities :: "CapabilityAttachment list"
  as_SecretRefs :: "SecretKeySelector smap"
  as_Card :: AgentCardOverride
  as_Runtime :: AgentRuntime

record AgentStatus =
  ast_Phase :: AgentPhase
  ast_URL :: string
  ast_SpecHash :: string
  ast_RunnerVersion :: string
  ast_InjectedCapabilities :: "string list"
  ast_Replicas :: int
  ast_AvailableReplicas :: int
  ast_Conditions :: "Condition list"
  ast_ObservedGeneration :: int

record Agent =
  ag_Meta :: ObjectMeta
  ag_Spec :: AgentSpec
  ag_Status :: AgentStatus

end
