(* ===== verification/ApiFlows.thy ===== *)
theory ApiFlows
  imports Api
begin

text \<open>
  The event and workflow resources of \<open>operator/api/v1alpha1\<close>: AgentTrigger
  (\<open>agenttrigger_types.go\<close>) and AgentWorkflow (\<open>agentworkflow_types.go\<close>), one record per struct.
  A \<open>metav1.Duration\<close> is its number of nanoseconds.
\<close>

subsection \<open>AgentTrigger\<close>

record EventSourceRef =
  es_Name :: string
  es_EventName :: string

record EventBusRef =
  eb_Name :: string

record DataFilter =
  df_Path :: string
  df_Type :: string
  df_Value :: "string list"
  df_Comparator :: string

record ExprFilter =
  ef_Expr :: string
  ef_Fields :: "string smap"

record TriggerFilter =
  tf_Data :: "DataFilter list"
  tf_Exprs :: "ExprFilter list"

record AgentRef =
  ar_Name :: string
  ar_Namespace :: string

record TriggerTaskConfig =
  ttc_SessionKeyFrom :: string
  ttc_Metadata :: "string smap"

record TriggerPushAuth =
  tpa_Schemes :: "string list"
  tpa_CredentialsRef :: "SecretKeySelector option"

record PushNotificationTarget =
  pnt_AgentRef :: "AgentRef option"
  pnt_URL :: string
  pnt_Authentication :: "TriggerPushAuth option"
  pnt_TokenRef :: "SecretKeySelector option"

record DeadLetterSinkRef =
  dls_URI :: string

record TriggerLimits =
  tl_MaxInvocationsPerHour :: "int option"
  tl_MaxConcurrentTasks :: "int option"
  tl_TokenBudgetPerEvent :: "int option"
  tl_TokenBudgetPerHour :: "int option"
  tl_DeadLetterSink :: "DeadLetterSinkRef option"

record AgentTriggerSpec =
  trs_EventSource :: EventSourceRef
  trs_EventBus :: "EventBusRef option"
  trs_Filter :: "TriggerFilter option"
  trs_Agent :: AgentRef
  trs_Task :: "TriggerTaskConfig option"
  trs_PushNotification :: "PushNotificationTarget option"
  trs_Limits :: "TriggerLimits option"

datatype AgentTriggerPhase =
  AgentTriggerPhasePending | AgentTriggerPhaseRunning | AgentTriggerPhaseFailed
  | AgentTriggerPhaseUnset

record InvocationCounters =
  ic_Total :: int
  ic_Delivered :: int
  ic_Dropped :: int
  ic_DeadLettered :: int

record AgentTriggerStatus =
  trst_Phase :: AgentTriggerPhase
  trst_SensorName :: string
  trst_AgentEndpoint :: string
  trst_Invocations :: "InvocationCounters option"
  trst_Conditions :: "Condition list"
  trst_ObservedGeneration :: int

record AgentTrigger =
  tr_Meta :: ObjectMeta
  tr_Spec :: AgentTriggerSpec
  tr_Status :: AgentTriggerStatus

subsection \<open>AgentWorkflow: messages\<close>

datatype MessageRole = MessageRoleUser | MessageRoleAgent | MessageRoleUnset

record TextPart =
  txp_Text :: string
  txp_Metadata :: "rawjson smap"

record DataPart =
  dtp_Data :: rawjson
  dtp_Metadata :: "rawjson smap"

record FileContent =
  fc_Name :: string
  fc_MimeType :: string
  fc_Bytes :: string
  fc_URI :: string

record FilePart =
  flp_File :: FileContent
  flp_Metadata :: "rawjson smap"

record MessagePart =
  mpt_Text :: "TextPart option"
  mpt_Data :: "DataPart option"
  mpt_File :: "FilePart option"

record AgentMessage =
  am_Role :: MessageRole
  am_Parts :: "MessagePart list"
  am_ContextID :: string
  am_ReferenceTaskIDs :: "string list"
  am_Extensions :: "string list"
  am_TaskID :: string
  am_Metadata :: "rawjson smap"

record PushNotificationAuth =
  pna_Schemes :: "string list"
  pna_Credentials :: string

record PushNotificationConfig =
  pnc_URL :: string
  pnc_ID :: string
  pnc_Token :: string
  pnc_Authentication :: "PushNotificationAuth option"

record MessageSendConfig =
  msc_AcceptedOutputModes :: "string list"
  msc_Blocking :: "bool option"
  msc_HistoryLength :: "int option"
  msc_PushNotificationConfig :: "PushNotificationConfig option"

record AgentCall =
  ac_Name :: string
  ac_Namespace :: string
  ac_Text :: string
  ac_Message :: "AgentMessage option"
  ac_Config :: "MessageSendConfig option"

subsection \<open>AgentWorkflow: tasks\<close>

text \<open>
  The frozen \<open>agentTask\<close> type has no runtime; the operator only tests for its presence and
  scans its \<open>input\<close>, so the record keeps those two.
\<close>

record AgentTask =
  agt_Type :: string
  agt_Input :: string

record ContainerTask =
  ctk_Image :: string
  ctk_Command :: "string list"
  ctk_Args :: "string list"
  ctk_Env :: "EnvVar list"
  ctk_Resources :: "ResourceRequirements option"
  ctk_WorkingDir :: string
  ctk_VolumeMounts :: "VolumeMount list"

record HTTPHeaderValueFrom =
  hvf_SecretKeyRef :: "SecretKeySelector option"
  hvf_ConfigMapKeyRef :: "SecretKeySelector option"

record HTTPHeader =
  hh_Name :: string
  hh_Value :: string
  hh_ValueFrom :: "HTTPHeaderValueFrom option"

record HTTPTask =
  ht_URL :: string
  ht_Method :: string
  ht_Headers :: "HTTPHeader list"
  ht_Body :: string
  ht_SuccessCondition :: string

record SwitchCase =
  sw_Condition :: string
  sw_Then :: string
  sw_Default :: string

record WorkflowBackoff =
  wb_Duration :: string
  wb_Factor :: "int option"

record WorkflowRetryStrategy =
  wrs_Limit :: int
  wrs_Backoff :: "WorkflowBackoff option"

record WorkflowTask =
  wt_Name :: string
  wt_Agent :: "AgentCall option"
  wt_AgentTask :: "AgentTask option"
  wt_Container :: "ContainerTask option"
  wt_HTTP :: "HTTPTask option"
  wt_Switch :: "SwitchCase list"
  wt_DependsOn :: "string list"
  wt_Timeout :: "int option"
  wt_RetryStrategy :: "WorkflowRetryStrategy option"
  wt_Condition :: string

record WorkflowParam =
  wp_Name :: string
  wp_Description :: string
  wp_Value :: string

record AgentWorkflowSpec =
  aws_Description :: string
  aws_Params :: "WorkflowParam list"
  aws_Tasks :: "WorkflowTask list"
  aws_Timeout :: "int option"
  aws_RetryStrategy :: "WorkflowRetryStrategy option"
  aws_ServiceAccountName :: string
  aws_AutomountServiceAccountToken :: "bool option"

record AgentWorkflowStatus =
  awst_Ready :: bool
  awst_WorkflowTemplateName :: string
  awst_SpecHash :: string
  awst_Conditions :: "Condition list"
  awst_ObservedGeneration :: int

record AgentWorkflow =
  awf_Meta :: ObjectMeta
  awf_Spec :: AgentWorkflowSpec
  awf_Status :: AgentWorkflowStatus

end
