(* ===== verification/ErrorTypes.thy ===== *)
theory ErrorTypes
  imports Prelude
begin

text \<open>
  \<open>internal/errors/errors.go\<close>: the three error classes controllers turn into requeue behaviour.
  \<open>errors.As\<close> walks the \<open>Unwrap\<close> chain (and every branch of a joined error), so each
  predicate is a recursive search.
\<close>

definition NewPermanentf :: "string \<Rightarrow> arg list \<Rightarrow> goerror" where
  "NewPermanentf fmt args = PermanentError (Errorf fmt args)"

definition NewDependencyf :: "string \<Rightarrow> arg list \<Rightarrow> goerror" where
  "NewDependencyf fmt args = DependencyError (Errorf fmt args)"

text \<open>The errors an error unwraps to, itself included.\<close>

fun errorChain :: "goerror \<Rightarrow> goerror list" where
  "errorChain (ErrorfW f a e) = ErrorfW f a e # errorChain e"
| "errorChain (PermanentError e) = PermanentError e # errorChain e"
| "errorChain (DependencyError e) = DependencyError e # errorChain e"
| "errorChain (TransientError e) = TransientError e # errorChain e"
| "errorChain (SpecValidationError v e) = SpecValidationError v e # errorChain e"
| "errorChain (JoinError es) = JoinError es # concat (map errorChain es)"
| "errorChain e = [e]"

fun asPermanent :: "goerror \<Rightarrow> bool" where
  "asPermanent (PermanentError e) = True"
| "asPermanent _ = False"

fun asDependency :: "goerror \<Rightarrow> bool" where
  "asDependency (DependencyError e) = True"
| "asDependency _ = False"

fun asTransient :: "goerror \<Rightarrow> bool" where
  "asTransient (TransientError e) = True"
| "asTransient _ = False"

fun asSpecValidation :: "goerror \<Rightarrow> bool" where
  "asSpecValidation (SpecValidationError v e) = True"
| "asSpecValidation _ = False"

definition IsPermanent :: "goerror \<Rightarrow> bool" where
  "IsPermanent e = list_ex asPermanent (errorChain e)"

definition IsDependency :: "goerror \<Rightarrow> bool" where
  "IsDependency e = list_ex asDependency (errorChain e)"

definition IsTransient :: "goerror \<Rightarrow> bool" where
  "IsTransient e = list_ex asTransient (errorChain e)"

definition IsSpecValidation :: "goerror \<Rightarrow> bool" where
  "IsSpecValidation e = list_ex asSpecValidation (errorChain e)"

lemma error_class_simps [simp, go_simps]:
  "IsPermanent (NewPermanentf f a)" "\<not> IsPermanent (NewDependencyf f a)"
  "IsDependency (NewDependencyf f a)" "\<not> IsDependency (NewPermanentf f a)"
  "\<not> IsTransient (NewDependencyf f a)" "\<not> IsTransient (NewPermanentf f a)"
  "\<not> IsSpecValidation (NewDependencyf f a)" "\<not> IsSpecValidation (NewPermanentf f a)"
  by (simp_all add: IsPermanent_def IsDependency_def IsTransient_def IsSpecValidation_def
      NewPermanentf_def NewDependencyf_def)

lemma error_wrap_simps [simp, go_simps]:
  "IsPermanent (ErrorfW f a e) = IsPermanent e" "IsDependency (ErrorfW f a e) = IsDependency e"
  "IsSpecValidation (ErrorfW f a e) = IsSpecValidation e"
  "IsPermanent (SpecValidationError v e) = IsPermanent e"
  "IsDependency (SpecValidationError v e) = IsDependency e"
  "IsSpecValidation (SpecValidationError v e)"
  "\<not> IsPermanent (Errorf f a)" "\<not> IsDependency (Errorf f a)" "\<not> IsSpecValidation (Errorf f a)"
  "\<not> IsPermanent (ConfigError p f a)" "\<not> IsDependency (ConfigError p f a)"
  "\<not> IsPermanent (ApiError r m)" "\<not> IsDependency (ApiError r m)" "\<not> IsSpecValidation (ApiError r m)"
  by (simp_all add: IsPermanent_def IsDependency_def IsSpecValidation_def)

end
