(* ===== verification/SpecSchema.thy ===== *)
theory SpecSchema
  imports CapabilityDomain ErrorTypes
begin

text \<open>
  \<open>internal/spec\<close> and \<open>internal/domain/hash\<close>: the embedded AgentSpec schemas and runner baselines,
  validation of compiled documents, the secret placeholder grammar, and the hashes. The embedded
  files, SHA-256 and the JSON Schema library are parameters (\<open>speclib\<close>); the schema cache behind
  the package mutex is explicit state.
\<close>

record 'sc speclib =
  sl_js :: "'sc jsonschema"
  sl_defaultLoader :: "string \<Rightarrow> json result"
  sl_schemaFS :: "string smap"
  sl_baselineFS :: "string smap"
  sl_parse :: "string \<Rightarrow> rawjson"
  sl_sha256hex :: "string \<Rightarrow> string"

subsection \<open>Secret names\<close>

definition SecretPlaceholder :: "string \<Rightarrow> string" where
  "SecretPlaceholder name = ''${secret:'' @ name @ ''}''"

definition SecretEnvName :: "string \<Rightarrow> string" where
  "SecretEnvName name =
     ''FLOKOA_SECRET_'' @ map (\<lambda>c. if is_upper c \<or> is_digit c then c else CHR ''_'') (toUpper name)"

subsection \<open>Hashes\<close>

fun escapeJsonChar :: "char \<Rightarrow> string" where
  "escapeJsonChar c =
     (if c = CHR 0x22 then [CHR 0x5C, CHR 0x22]
      else if c = CHR 0x5C then [CHR 0x5C, CHR 0x5C]
      else if c = CHR 0x08 then [CHR 0x5C, CHR ''b'']
      else if c = CHR 0x0C then [CHR 0x5C, CHR ''f'']
      else if c = CHR 0x0A then [CHR 0x5C, CHR ''n'']
      else if c = CHR 0x0D then [CHR 0x5C, CHR ''r'']
      else if c = CHR 0x09 then [CHR 0x5C, CHR ''t'']
      else if (of_char c :: nat) < 32 \<or> c = CHR ''<'' \<or> c = CHR ''>'' \<or> c = CHR ''&''
      then [CHR 0x5C, CHR ''u''] @ hex_pad 4 (of_char c)
      else [c])"

definition quoteJson :: "string \<Rightarrow> string" where
  "quoteJson s = [CHR 0x22] @ concat (map escapeJsonChar s) @ [CHR 0x22]"

text \<open>\<open>json.Marshal\<close> of a generic document; object keys are written in sorted order.\<close>

function (sequential) marshalJson :: "json \<Rightarrow> string" where
  "marshalJson JNull = ''null''"
| "marshalJson (JBool b) = (if b then ''true'' else ''false'')"
| "marshalJson (JNum n) = n"
| "marshalJson (JStr s) = quoteJson s"
| "marshalJson (JArr xs) = ''['' @ joinStrings (map marshalJson xs) '','' @ '']''"
| "marshalJson (JObj kvs) =
     ''{'' @ joinStrings (map snd (sort_key fst
        (map (\<lambda>(k, v). (k, quoteJson k @ '':'' @ marshalJson v)) kvs))) '','' @ ''}''"
  by pat_completeness auto
termination
proof (relation "measure size", goal_cases)
  case (2 xs x)
  then show ?case by (auto dest: size_list_estimation'[where f = size and y = "size x"])
next
  case (3 kvs x k v)
  then show ?case
    by (auto dest!: size_list_estimation'[where f = "size_prod (\<lambda>s. 0) size" and y = "size v"])
qed simp

definition JSONStruct :: "'sc speclib \<Rightarrow> json \<Rightarrow> string" where
  "JSONStruct sl doc = take 16 (sl_sha256hex sl (marshalJson doc))"

definition ConfigMapData :: "'sc speclib \<Rightarrow> string smap \<Rightarrow> string" where
  "ConfigMapData sl data =
     (if data = [] then ''''
      else take 16 (sl_sha256hex sl (concat (map (\<lambda>k. k @ the (mget data k)) (sortStrings (mkeys data))))))"

definition SecretVersions :: "'sc speclib \<Rightarrow> string smap \<Rightarrow> string" where
  "SecretVersions sl versions =
     (if versions = [] then ''''
      else take 16 (sl_sha256hex sl
        (concat (map (\<lambda>n. n @ '':'' @ the (mget versions n) @ '';'') (sortStrings (mkeys versions))))))"

subsection \<open>Embedded schemas\<close>

definition schemaPath :: "string \<Rightarrow> string" where
  "schemaPath v = ''schemas/agentspec-'' @ v @ ''.json''"

definition SupportedRunnerVersions :: "'sc speclib \<Rightarrow> string list" where
  "SupportedRunnerVersions sl =
     sortStrings (concat (map (\<lambda>p. let name = trimPrefix p ''schemas/'' in
        if hasPrefix name ''agentspec-''
        then [trimSuffix (drop (length ''agentspec-'') name) ''.json''] else [])
       (mkeys (sl_schemaFS sl))))"

record 'sc schemaCache =
  sca_compiled :: "'sc smap"
  sca_digests :: "string smap"

definition loadUncached :: "'sc speclib \<Rightarrow> string \<Rightarrow> ('sc \<times> string) result" where
  "loadUncached sl v =
     (case mget (sl_schemaFS sl) (schemaPath v) of
        None \<Rightarrow> Inl (ErrorfW ''no embedded AgentSpec schema for runner version %q (supported: %s): %w''
                  [AS v, AL (SupportedRunnerVersions sl)] (Errorf ''file does not exist'' []))
      | Some raw \<Rightarrow>
          (case sl_parse sl raw of
             RawBad \<Rightarrow> Inl (ErrorfW ''parsing embedded schema for runner %s: %w'' [AS v] (Errorf ''invalid JSON'' []))
           | Raw doc \<Rightarrow>
               (let url = ''flokoa://'' @ schemaPath v in
                case js_AddResource (sl_js sl) url doc of
                  Some err \<Rightarrow> Inl (ErrorfW ''loading embedded schema for runner %s: %w'' [AS v] err)
                | None \<Rightarrow>
                    (case js_Compile (sl_js sl) (sl_defaultLoader sl) url doc of
                       Inl err \<Rightarrow> Inl (ErrorfW ''compiling embedded schema for runner %s: %w'' [AS v] err)
                     | Inr s \<Rightarrow> Inr (s, ''sha256:'' @ sl_sha256hex sl raw)))))"

definition LoadSchema :: "'sc speclib \<Rightarrow> string \<Rightarrow> 'sc schemaCache \<Rightarrow> 'sc result \<times> 'sc schemaCache" where
  "LoadSchema sl v st =
     (case mget (sca_compiled st) v of
        Some s \<Rightarrow> (Inr s, st)
      | None \<Rightarrow>
          (case loadUncached sl v of
             Inl err \<Rightarrow> (Inl err, st)
           | Inr (s, d) \<Rightarrow>
               (Inr s, st\<lparr>sca_compiled := mput v s (sca_compiled st),
                          sca_digests := mput v d (sca_digests st)\<rparr>)))"

text \<open>A missing map entry reads as the empty string.\<close>

definition SchemaDigest :: "'sc speclib \<Rightarrow> string \<Rightarrow> 'sc schemaCache \<Rightarrow> string result \<times> 'sc schemaCache" where
  "SchemaDigest sl v st =
     (case LoadSchema sl v st of
        (Inl err, st1) \<Rightarrow> (Inl err, st1)
      | (Inr s, st1) \<Rightarrow>
          (Inr (case mget (sca_digests st1) v of None \<Rightarrow> '''' | Some d \<Rightarrow> d), st1))"

text \<open>
  \<open>leafCause\<close>: follow single causes; at a fan-out take the deepest of the branches' leaves (the
  first of equals).
\<close>

function (sequential) leafCause :: "ValidationErr \<Rightarrow> ValidationErr" where
  "leafCause (VErr k loc [c]) = leafCause c"
| "leafCause (VErr k loc []) = VErr k loc []"
| "leafCause (VErr k loc (c # d # cs)) =
     fst (fold deeper (map leafCause (c # d # cs)) (VErr k loc (c # d # cs), -1))"
  by pat_completeness auto
termination
proof (relation "measure size", goal_cases)
  case (3 k loc c d cs x)
  then show ?case by (auto dest: size_list_estimation'[where f = size and y = "size x"])
qed simp_all

definition validateWith :: "'sc speclib \<Rightarrow> 'sc \<Rightarrow> json \<Rightarrow> goerror option" where
  "validateWith sl s doc =
     (case js_Validate (sl_js sl) s doc of
        None \<Rightarrow> None
      | Some (Inl err) \<Rightarrow> Some err
      | Some (Inr verr) \<Rightarrow>
          (let leaf = leafCause verr in
           Some (ConfigError (''/'' @ joinStrings (ve_InstanceLocation leaf) ''/'')
                   ''%s'' [AS (js_LocalizedString (sl_js sl) (ve_Kind leaf))])))"

definition Validate :: "'sc speclib \<Rightarrow> string \<Rightarrow> json \<Rightarrow> 'sc schemaCache \<Rightarrow> goerror option \<times> 'sc schemaCache" where
  "Validate sl v doc st =
     (case LoadSchema sl v st of
        (Inl err, st1) \<Rightarrow> (Some err, st1)
      | (Inr s, st1) \<Rightarrow> (validateWith sl s doc, st1))"

subsection \<open>Runner baselines\<close>

definition SupportedBaselineVersions :: "'sc speclib \<Rightarrow> string list" where
  "SupportedBaselineVersions sl =
     sortStrings (concat (map (\<lambda>p. let name = trimPrefix p ''baselines/'' in
        if hasPrefix name ''runner-baseline-''
        then [trimSuffix (drop (length ''runner-baseline-'') name) ''.json''] else [])
       (mkeys (sl_baselineFS sl))))"

text \<open>Struct decoding: a missing or \<open>null\<close> field keeps its zero value, another type is an error.\<close>

definition stringField :: "json smap \<Rightarrow> string \<Rightarrow> string result" where
  "stringField kvs k =
     (case mget kvs k of
        None \<Rightarrow> Inr '''' | Some JNull \<Rightarrow> Inr ''''
      | Some (JStr s) \<Rightarrow> Inr s
      | Some v \<Rightarrow> Inl (Errorf ''json: cannot unmarshal field %s'' [AS k]))"

definition stringMapField :: "json smap \<Rightarrow> string \<Rightarrow> string smap result" where
  "stringMapField kvs k =
     (case mget kvs k of
        None \<Rightarrow> Inr [] | Some JNull \<Rightarrow> Inr []
      | Some (JObj m) \<Rightarrow> mapR (\<lambda>(n, v). bindR (stringField [(n, v)] n) (\<lambda>s. Inr (n, s))) m
      | Some v \<Rightarrow> Inl (Errorf ''json: cannot unmarshal field %s'' [AS k]))"

definition decodeBaseline :: "rawjson \<Rightarrow> RunnerInfo result" where
  "decodeBaseline raw =
     bindR (unmarshalObject raw) (\<lambda>kvs.
     bindR (stringField kvs ''runnerVersion'') (\<lambda>rv.
     bindR (stringField kvs ''python'') (\<lambda>py.
     bindR (stringField kvs ''pydantic-ai'') (\<lambda>pa.
     bindR (stringMapField kvs ''packages'') (\<lambda>pk.
       Inr \<lparr>ri_RunnerVersion = rv, ri_Python = py, ri_PydanticAI = pa, ri_Baseline = pk\<rparr>)))))"

definition RunnerBaseline :: "'sc speclib \<Rightarrow> string \<Rightarrow> RunnerInfo result" where
  "RunnerBaseline sl v =
     (case mget (sl_baselineFS sl) (''baselines/runner-baseline-'' @ v @ ''.json'') of
        None \<Rightarrow> Inl (ErrorfW ''no embedded runner baseline for runner version %q (supported: %s): %w''
                  [AS v, AL (SupportedBaselineVersions sl)] (Errorf ''file does not exist'' []))
      | Some raw \<Rightarrow>
          (case decodeBaseline (sl_parse sl raw) of
             Inl err \<Rightarrow> Inl (ErrorfW ''parsing embedded baseline for runner %s: %w'' [AS v] err)
           | Inr r \<Rightarrow> Inr r))"

subsection \<open>The schema cache is transparent\<close>

text \<open>Every cached entry is what loading the version again would give.\<close>

definition cacheCoherent :: "'sc speclib \<Rightarrow> 'sc schemaCache \<Rightarrow> bool" where
  "cacheCoherent sl st \<longleftrightarrow>
     (\<forall>v s. mget (sca_compiled st) v = Some s \<longrightarrow>
        (\<exists>d. loadUncached sl v = Inr (s, d) \<and> mget (sca_digests st) v = Some d))"

definition emptyCache :: "'sc schemaCache" where
  "emptyCache = \<lparr>sca_compiled = [], sca_digests = []\<rparr>"

lemma cacheCoherent_empty: "cacheCoherent sl emptyCache"
  by (simp add: cacheCoherent_def emptyCache_def)

lemma LoadSchema_miss:
  "mget (sca_compiled st) v = None \<Longrightarrow> cacheCoherent sl st \<Longrightarrow>
   fst (LoadSchema sl v st) = bindR (loadUncached sl v) (\<lambda>(s, d). Inr s) \<and>
   cacheCoherent sl (snd (LoadSchema sl v st)) \<and>
   (\<forall>s d. loadUncached sl v = Inr (s, d) \<longrightarrow> mget (sca_digests (snd (LoadSchema sl v st))) v = Some d)"
  by (auto simp: LoadSchema_def cacheCoherent_def split: sum.splits prod.splits)

lemma LoadSchema_hit:
  "mget (sca_compiled st) v = Some s' \<Longrightarrow> cacheCoherent sl st \<Longrightarrow>
   fst (LoadSchema sl v st) = bindR (loadUncached sl v) (\<lambda>(s, d). Inr s) \<and>
   cacheCoherent sl (snd (LoadSchema sl v st)) \<and>
   (\<forall>s d. loadUncached sl v = Inr (s, d) \<longrightarrow> mget (sca_digests (snd (LoadSchema sl v st))) v = Some d)"
  by (force simp: LoadSchema_def cacheCoherent_def)

lemma LoadSchema_coherent:
  assumes "cacheCoherent sl st"
  shows "fst (LoadSchema sl v st) = bindR (loadUncached sl v) (\<lambda>(s, d). Inr s)"
    and "cacheCoherent sl (snd (LoadSchema sl v st))"
    and "loadUncached sl v = Inr (s, d) \<Longrightarrow> mget (sca_digests (snd (LoadSchema sl v st))) v = Some d"
  using LoadSchema_miss[of st v sl] LoadSchema_hit[of st v _ sl] assms
  by (cases "mget (sca_compiled st) v"; blast)+

text \<open>The package operations without the cache.\<close>

definition pureDigest :: "'sc speclib \<Rightarrow> string \<Rightarrow> string result" where
  "pureDigest sl v = bindR (loadUncached sl v) (\<lambda>(s, d). Inr d)"

definition pureValidate :: "'sc speclib \<Rightarrow> string \<Rightarrow> json \<Rightarrow> goerror option" where
  "pureValidate sl v doc =
     (case loadUncached sl v of Inl err \<Rightarrow> Some err | Inr (s, d) \<Rightarrow> validateWith sl s doc)"

lemma SchemaDigest_coherent:
  assumes "cacheCoherent sl st"
  shows "fst (SchemaDigest sl v st) = pureDigest sl v"
    and "cacheCoherent sl (snd (SchemaDigest sl v st))"
  using LoadSchema_coherent[OF assms, of v]
  by (auto simp: SchemaDigest_def pureDigest_def split: prod.splits sum.splits option.splits)
    (auto simp: bindR_def split: sum.splits)

lemma Validate_coherent:
  assumes "cacheCoherent sl st"
  shows "fst (Validate sl v doc st) = pureValidate sl v doc"
    and "cacheCoherent sl (snd (Validate sl v doc st))"
  using LoadSchema_coherent[OF assms, of v]
  by (auto simp: Validate_def pureValidate_def bindR_def split: prod.splits sum.splits)

text \<open>Operations on the cache, in the order callers happen to make them.\<close>

datatype cacheOp = OpLoad string | OpDigest string | OpValidate string json

fun runCacheOp :: "'sc speclib \<Rightarrow> cacheOp \<Rightarrow> 'sc schemaCache \<Rightarrow> 'sc schemaCache" where
  "runCacheOp sl (OpLoad v) st = snd (LoadSchema sl v st)"
| "runCacheOp sl (OpDigest v) st = snd (SchemaDigest sl v st)"
| "runCacheOp sl (OpValidate v doc) st = snd (Validate sl v doc st)"

lemma runCacheOps_coherent: "cacheCoherent sl st \<Longrightarrow> cacheCoherent sl (fold (runCacheOp sl) ops st)"
proof (induction ops arbitrary: st)
  case (Cons op ops)
  have "cacheCoherent sl (runCacheOp sl op st)"
    using Cons.prems LoadSchema_coherent SchemaDigest_coherent Validate_coherent by (cases op) auto
  then show ?case using Cons.IH by simp
qed simp

text \<open>After any sequence of package calls, validation and digests are what a fresh, uncached
  load of the embedded schema gives: the shared cache never serves the schema or digest of another
  runner version and never turns an unknown version into a known one.\<close>

theorem schema_cache_transparent:
  "fst (Validate sl v doc (fold (runCacheOp sl) ops emptyCache)) = pureValidate sl v doc \<and>
   fst (SchemaDigest sl v (fold (runCacheOp sl) ops emptyCache)) = pureDigest sl v"
  using runCacheOps_coherent[OF cacheCoherent_empty] Validate_coherent(1) SchemaDigest_coherent(1)
  by blast

end
