(* ===== verification/ModelDomain.thy ===== *)
theory ModelDomain
  imports Api
begin

text \<open>
  \<open>internal/domain/model\<close>: the provider handlers that turn a ModelProvider into a model prefix
  and an environment projection, and \<open>QualifiedModelName\<close>. The handler interface is the locale
  \<open>provider_handler\<close>; the four handlers of the registry are its interpretations.
\<close>

record ResolvedProvider =
  rp_Type :: ProviderType
  rp_ModelPrefix :: string
  rp_EnvVars :: "EnvVar list"
  rp_SecretEnvVars :: "EnvVar list"

definition AddAPIKeyEnvVar ::
  "ResolvedProvider \<Rightarrow> SecretKeySelector option \<Rightarrow> string \<Rightarrow> ResolvedProvider" where
  "AddAPIKeyEnvVar resolved secretRef envVarName =
     (case secretRef of
        None \<Rightarrow> resolved
      | Some s \<Rightarrow> resolved\<lparr>rp_SecretEnvVars := rp_SecretEnvVars resolved @ [envSecret envVarName s]\<rparr>)"

definition addEnv :: "string \<Rightarrow> string \<Rightarrow> ResolvedProvider \<Rightarrow> ResolvedProvider" where
  "addEnv n v r = (if v \<noteq> '''' then r\<lparr>rp_EnvVars := rp_EnvVars r @ [envValue n v]\<rparr> else r)"

definition OpenAIProviderHandler_Resolve :: "ModelProvider \<Rightarrow> ResolvedProvider result" where
  "OpenAIProviderHandler_Resolve p =
     (let r0 = \<lparr>rp_Type = ProviderTypeOpenAI, rp_ModelPrefix = ''openai'', rp_EnvVars = [], rp_SecretEnvVars = []\<rparr>;
          r1 = AddAPIKeyEnvVar r0 (mps_APIKeySecretRef (mp_Spec p)) ''OPENAI_API_KEY'' in
      Inr (case mps_OpenAI (mp_Spec p) of
             None \<Rightarrow> r1
           | Some o' \<Rightarrow> addEnv ''OPENAI_BASE_URL'' (oai_BaseURL o') r1))"

definition AnthropicProviderHandler_Resolve :: "ModelProvider \<Rightarrow> ResolvedProvider result" where
  "AnthropicProviderHandler_Resolve p =
     (let r0 = \<lparr>rp_Type = ProviderTypeAnthropic, rp_ModelPrefix = ''anthropic'', rp_EnvVars = [], rp_SecretEnvVars = []\<rparr>;
          r1 = AddAPIKeyEnvVar r0 (mps_APIKeySecretRef (mp_Spec p)) ''ANTHROPIC_API_KEY'' in
      Inr (case mps_Anthropic (mp_Spec p) of
             None \<Rightarrow> r1
           | Some a \<Rightarrow> addEnv ''ANTHROPIC_BASE_URL'' (ant_BaseURL a) r1))"

definition googlePrefix :: "ModelProvider \<Rightarrow> string" where
  "googlePrefix p =
     (case mps_Google (mp_Spec p) of
        None \<Rightarrow> ''google-gla''
      | Some g \<Rightarrow> if goo_Project g \<noteq> '''' \<or> goo_ServiceAccountKeySecretRef g \<noteq> None
                   then ''google-vertex'' else ''google-gla'')"

definition GoogleProviderHandler_Resolve :: "ModelProvider \<Rightarrow> ResolvedProvider result" where
  "GoogleProviderHandler_Resolve p =
     (let r0 = \<lparr>rp_Type = ProviderTypeGoogle, rp_ModelPrefix = googlePrefix p, rp_EnvVars = [], rp_SecretEnvVars = []\<rparr>;
          r1 = AddAPIKeyEnvVar r0 (mps_APIKeySecretRef (mp_Spec p)) ''GOOGLE_API_KEY'' in
      Inr (case mps_Google (mp_Spec p) of
             None \<Rightarrow> r1
           | Some g \<Rightarrow>
               AddAPIKeyEnvVar
                 (addEnv ''GOOGLE_CLOUD_REGION'' (goo_Location g) (addEnv ''GOOGLE_CLOUD_PROJECT'' (goo_Project g) r1))
                 (goo_ServiceAccountKeySecretRef g) ''GOOGLE_APPLICATION_CREDENTIALS_JSON''))"

definition BedrockProviderHandler_Resolve :: "ModelProvider \<Rightarrow> ResolvedProvider result" where
  "BedrockProviderHandler_Resolve p =
     (let r0 = \<lparr>rp_Type = ProviderTypeBedrock, rp_ModelPrefix = ''bedrock'', rp_EnvVars = [], rp_SecretEnvVars = []\<rparr> in
      Inr (case mps_Bedrock (mp_Spec p) of
             None \<Rightarrow> r0
           | Some b \<Rightarrow> addEnv ''AWS_REGION'' (bed_Region b) r0))"

fun GetProviderHandler :: "ProviderType \<Rightarrow> (ModelProvider \<Rightarrow> ResolvedProvider result) option" where
  "GetProviderHandler ProviderTypeOpenAI = Some OpenAIProviderHandler_Resolve"
| "GetProviderHandler ProviderTypeAnthropic = Some AnthropicProviderHandler_Resolve"
| "GetProviderHandler ProviderTypeGoogle = Some GoogleProviderHandler_Resolve"
| "GetProviderHandler ProviderTypeBedrock = Some BedrockProviderHandler_Resolve"
| "GetProviderHandler ProviderTypeNone = None"

definition QualifiedModelName :: "string \<Rightarrow> string \<Rightarrow> string" where
  "QualifiedModelName pre model =
     (if containsChar model (CHR '':'') then model else pre @ '':'' @ model)"

subsection \<open>The handler contract\<close>

text \<open>The secrets a ModelProvider names.\<close>

definition providerSecrets :: "ModelProvider \<Rightarrow> SecretKeySelector set" where
  "providerSecrets p =
     set_option (mps_APIKeySecretRef (mp_Spec p)) \<union>
     (case mps_Google (mp_Spec p) of
        None \<Rightarrow> {} | Some g \<Rightarrow> set_option (goo_ServiceAccountKeySecretRef g))"

text \<open>
  What a resolved provider promises: plain variables carry literal values, secret variables only
  references to secrets the provider names, and no variable name occurs twice.
\<close>

definition resolvedOK :: "ModelProvider \<Rightarrow> ResolvedProvider \<Rightarrow> bool" where
  "resolvedOK p r \<longleftrightarrow>
     (\<forall>e \<in> set (rp_EnvVars r). ev_ValueFrom e = None \<and> ev_Value e \<noteq> '''') \<and>
     (\<forall>e \<in> set (rp_SecretEnvVars r).
        ev_Value e = '''' \<and> (\<exists>s \<in> providerSecrets p. ev_ValueFrom e = Some (SecretKeyRef s))) \<and>
     distinct (map ev_Name (rp_EnvVars r @ rp_SecretEnvVars r))"

locale provider_handler =
  fixes Resolve :: "ModelProvider \<Rightarrow> ResolvedProvider result"
    and ptype :: ProviderType
  assumes total: "\<exists>r. Resolve p = Inr r"
    and typed: "Resolve p = Inr r \<Longrightarrow> rp_Type r = ptype"
    and prefixed: "Resolve p = Inr r \<Longrightarrow> rp_ModelPrefix r \<noteq> '''' \<and> CHR '':'' \<notin> set (rp_ModelPrefix r)"
    and sound: "Resolve p = Inr r \<Longrightarrow> resolvedOK p r"
begin

lemma resolves:
  "\<exists>r. Resolve p = Inr r \<and> rp_Type r = ptype \<and> resolvedOK p r"
  using total typed sound by blast

text \<open>The qualified name of an unprefixed model splits back into the handler's prefix and it.\<close>

lemma qualified_split:
  assumes "Resolve p = Inr r" and "CHR '':'' \<notin> set model"
  shows "cutAt (CHR '':'') (QualifiedModelName (rp_ModelPrefix r) model) = (rp_ModelPrefix r, model, True)"
proof -
  have cut: "CHR '':'' \<notin> set pre \<Longrightarrow> cutAt (CHR '':'') (pre @ CHR '':'' # model) = (pre, model, True)" for pre
    by (induction pre) auto
  show ?thesis
    using assms prefixed[OF assms(1)] by (simp add: QualifiedModelName_def containsChar_def cut)
qed

end

lemmas handler_defs =
  OpenAIProviderHandler_Resolve_def AnthropicProviderHandler_Resolve_def
  GoogleProviderHandler_Resolve_def BedrockProviderHandler_Resolve_def
  AddAPIKeyEnvVar_def addEnv_def googlePrefix_def resolvedOK_def providerSecrets_def

interpretation openai: provider_handler OpenAIProviderHandler_Resolve ProviderTypeOpenAI
  by unfold_locales (auto simp: handler_defs Let_def split: option.splits if_splits)

interpretation anthropic: provider_handler AnthropicProviderHandler_Resolve ProviderTypeAnthropic
  by unfold_locales (auto simp: handler_defs Let_def split: option.splits if_splits)

text \<open>The Google handler adds up to four variables, one after the other.\<close>

lemma env_keeps [simp]:
  "rp_Type (addEnv k v r) = rp_Type r" "rp_ModelPrefix (addEnv k v r) = rp_ModelPrefix r"
  "rp_Type (AddAPIKeyEnvVar r ref k) = rp_Type r" "rp_ModelPrefix (AddAPIKeyEnvVar r ref k) = rp_ModelPrefix r"
  by (simp_all add: addEnv_def AddAPIKeyEnvVar_def split: option.split)

definition envNames :: "ResolvedProvider \<Rightarrow> string set" where
  "envNames r = set (map ev_Name (rp_EnvVars r @ rp_SecretEnvVars r))"

lemma addEnv_OK:
  assumes "resolvedOK p r" and "k \<notin> envNames r"
  shows "resolvedOK p (addEnv k v r)" "envNames (addEnv k v r) \<subseteq> insert k (envNames r)"
  using assms by (auto simp: resolvedOK_def envNames_def addEnv_def)

lemma AddAPIKeyEnvVar_OK:
  assumes "resolvedOK p r" and "k \<notin> envNames r" and "set_option ref \<subseteq> providerSecrets p"
  shows "resolvedOK p (AddAPIKeyEnvVar r ref k)" "envNames (AddAPIKeyEnvVar r ref k) \<subseteq> insert k (envNames r)"
  using assms by (cases ref; auto simp: resolvedOK_def envNames_def AddAPIKeyEnvVar_def)+

lemma fresh_OK: "resolvedOK p \<lparr>rp_Type = t, rp_ModelPrefix = x, rp_EnvVars = [], rp_SecretEnvVars = []\<rparr>"
  "envNames \<lparr>rp_Type = t, rp_ModelPrefix = x, rp_EnvVars = [], rp_SecretEnvVars = []\<rparr> = {}"
  by (simp_all add: resolvedOK_def envNames_def)

lemma google_secrets: "set_option (mps_APIKeySecretRef (mp_Spec p)) \<subseteq> providerSecrets p"
  "mps_Google (mp_Spec p) = Some g \<Longrightarrow> set_option (goo_ServiceAccountKeySecretRef g) \<subseteq> providerSecrets p"
  by (auto simp: providerSecrets_def)

lemma google_sound: "GoogleProviderHandler_Resolve p = Inr r \<Longrightarrow> resolvedOK p r"
proof -
  assume r: "GoogleProviderHandler_Resolve p = Inr r"
  let ?r0 = "\<lparr>rp_Type = ProviderTypeGoogle, rp_ModelPrefix = googlePrefix p, rp_EnvVars = [], rp_SecretEnvVars = []\<rparr>"
  let ?r1 = "AddAPIKeyEnvVar ?r0 (mps_APIKeySecretRef (mp_Spec p)) ''GOOGLE_API_KEY''"
  have r1: "resolvedOK p ?r1" "envNames ?r1 \<subseteq> {''GOOGLE_API_KEY''}"
    using AddAPIKeyEnvVar_OK[OF fresh_OK(1) _ google_secrets(1), of "''GOOGLE_API_KEY''"] by (simp_all add: fresh_OK(2))
  show ?thesis
  proof (cases "mps_Google (mp_Spec p)")
    case None
    then show ?thesis using r r1(1) by (auto simp: GoogleProviderHandler_Resolve_def Let_def)
  next
    case (Some g)
    let ?r2 = "addEnv ''GOOGLE_CLOUD_PROJECT'' (goo_Project g) ?r1"
    let ?r3 = "addEnv ''GOOGLE_CLOUD_REGION'' (goo_Location g) ?r2"
    have n2: "''GOOGLE_CLOUD_PROJECT'' \<notin> envNames ?r1" using r1(2) by auto
    have n3: "''GOOGLE_CLOUD_REGION'' \<notin> envNames ?r2" using r1(2) addEnv_OK(2)[OF r1(1) n2, of "goo_Project g"] by auto
    note r3 = addEnv_OK[OF addEnv_OK(1)[OF r1(1) n2, of "goo_Project g"] n3, of "goo_Location g"]
    have n4: "''GOOGLE_APPLICATION_CREDENTIALS_JSON'' \<notin> envNames ?r3"
      using r1(2) addEnv_OK(2)[OF r1(1) n2, of "goo_Project g"] r3(2) by auto
    show ?thesis using AddAPIKeyEnvVar_OK(1)[OF r3(1) n4 google_secrets(2)[OF Some]] r Some
      by (simp add: GoogleProviderHandler_Resolve_def Let_def)
  qed
qed

interpretation google: provider_handler GoogleProviderHandler_Resolve ProviderTypeGoogle
proof unfold_locales
  show "\<exists>r. GoogleProviderHandler_Resolve p = Inr r" for p by (simp add: GoogleProviderHandler_Resolve_def Let_def)
  fix p r assume r: "GoogleProviderHandler_Resolve p = Inr r"
  then show "resolvedOK p r" by (rule google_sound)
  have f: "rp_Type r = ProviderTypeGoogle \<and> rp_ModelPrefix r = googlePrefix p"
    using r[symmetric] by (cases "mps_Google (mp_Spec p)") (simp_all add: GoogleProviderHandler_Resolve_def Let_def)
  then show "rp_Type r = ProviderTypeGoogle" by simp
  have "googlePrefix p \<in> {''google-gla'', ''google-vertex''}" by (simp add: googlePrefix_def split: option.split)
  then show "rp_ModelPrefix r \<noteq> '''' \<and> CHR '':'' \<notin> set (rp_ModelPrefix r)" using f by auto
qed

interpretation bedrock: provider_handler BedrockProviderHandler_Resolve ProviderTypeBedrock
  by unfold_locales (auto simp: handler_defs Let_def split: option.splits if_splits)

definition handlerContract :: "ProviderType \<Rightarrow> ModelProvider \<Rightarrow> bool" where
  "handlerContract t p =
     (case GetProviderHandler t of
        None \<Rightarrow> t = ProviderTypeNone
      | Some h \<Rightarrow> \<exists>r. h p = Inr r \<and> rp_Type r = t \<and> resolvedOK p r)"

text \<open>Every provider type but the unset one has a handler; it resolves every ModelProvider to
  its own type, projects secrets only as references to secrets the provider names, sets plain
  variables only to non-empty literals, and never emits the same variable twice.\<close>

theorem handlers_meet_contract: "handlerContract t p"
  using openai.resolves[of p] anthropic.resolves[of p] google.resolves[of p] bedrock.resolves[of p]
  by (cases t) (simp_all add: handlerContract_def)

text \<open>For every handler of the registry, the qualified name of a model without a prefix splits
  at its first colon into the handler's prefix and the model.\<close>

theorem QualifiedModelName_roundtrip:
  assumes "GetProviderHandler t = Some h" and "h p = Inr r" and "CHR '':'' \<notin> set model"
  shows "cutAt (CHR '':'') (QualifiedModelName (rp_ModelPrefix r) model) = (rp_ModelPrefix r, model, True)"
  using assms openai.qualified_split anthropic.qualified_split google.qualified_split bedrock.qualified_split
  by (cases t) auto

definition someProvider :: ModelProvider where
  "someProvider = \<lparr>mp_Meta = objectMeta ''p'' ''ns'' [] [],
     mp_Spec = \<lparr>mps_APIKeySecretRef = Some \<lparr>sks_Name = ''s'', sks_Key = ''k'', sks_Optional = None\<rparr>,
       mps_OpenAI = Some \<lparr>oai_BaseURL = ''''\<rparr>, mps_Anthropic = None, mps_Google = None, mps_Bedrock = None,
       mps_TLS = None, mps_DefaultHeaders = []\<rparr>,
     mp_Status = \<lparr>mpst_Provider = ProviderTypeOpenAI, mpst_Conditions = [], mpst_ObservedGeneration = 0,
       mpst_SecretHash = '''', mpst_Ready = True\<rparr>\<rparr>"

theorem QualifiedModelName_roundtrip_witness:
  "cutAt (CHR '':'') (QualifiedModelName ''openai'' ''gpt-5-mini'') = (''openai'', ''gpt-5-mini'', True)"
proof -
  have r: "OpenAIProviderHandler_Resolve someProvider =
      Inr \<lparr>rp_Type = ProviderTypeOpenAI, rp_ModelPrefix = ''openai'', rp_EnvVars = [],
           rp_SecretEnvVars = [envSecret ''OPENAI_API_KEY'' \<lparr>sks_Name = ''s'', sks_Key = ''k'', sks_Optional = None\<rparr>]\<rparr>"
    by (simp add: OpenAIProviderHandler_Resolve_def AddAPIKeyEnvVar_def addEnv_def someProvider_def)
  show ?thesis
    using QualifiedModelName_roundtrip[of ProviderTypeOpenAI OpenAIProviderHandler_Resolve someProvider _ "''gpt-5-mini''", OF _ r] by simp
qed

end
