(* ===== verification/Compiler.thy ===== *)
theory Compiler
  imports SpecSchema ModelDomain
begin

text \<open>
  \<open>internal/app/agent/compiler\<close>: an Agent's composition graph compiled into one AgentSpec document.
  Go values of dynamic type are \<open>gval\<close>s, one constructor per dynamic type the compiler stores, so
  that type assertions such as \<open>doc["capabilities"].([]any)\<close> are case distinctions;
  \<open>canonicalize\<close> turns them into JSON with sorted object keys. Reads of other resources go through
  the reader functions of \<open>cdeps\<close>; YAML output is a parameter.
\<close>

subsection \<open>Dynamically typed values\<close>

text \<open>
  A \<open>float64\<close> is either converted from an integer (\<open>FInt\<close>) or decoded from a JSON literal
  (\<open>FLit\<close>, identified with the text \<open>encoding/json\<close> writes for it).
\<close>

datatype float64 = FInt int | FLit string

datatype gval =
    GNil
  | GBool bool
  | GInt int
  | GNumber string
  | GFloat float64
  | GString string
  | GStrings "string list"
  | GStrMap "string smap"
  | GIntMap "int smap"
  | GList "gval list"
  | GMap "(string \<times> gval) list"

text \<open>
  Number and serialization functions of the runtime: the text of the \<open>float64\<close> a JSON literal
  decodes to, comparison of such floats with integers, and YAML output.
\<close>

record numlib =
  nl_float :: "string \<Rightarrow> string"
  nl_greater :: "float64 \<Rightarrow> float64 \<Rightarrow> bool"
  nl_yaml :: "json \<Rightarrow> string result"

fun floatGreater :: "numlib \<Rightarrow> float64 \<Rightarrow> float64 \<Rightarrow> bool" where
  "floatGreater nl (FInt a) (FInt b) = (a > b)"
| "floatGreater nl a b = nl_greater nl a b"

text \<open>\<open>json.Unmarshal\<close> into \<open>any\<close>.\<close>

fun fromJson :: "numlib \<Rightarrow> json \<Rightarrow> gval" where
  "fromJson nl JNull = GNil"
| "fromJson nl (JBool b) = GBool b"
| "fromJson nl (JNum n) = GFloat (FLit (nl_float nl n))"
| "fromJson nl (JStr s) = GString s"
| "fromJson nl (JArr xs) = GList (map (fromJson nl) xs)"
| "fromJson nl (JObj kvs) = GMap (map (map_prod id (fromJson nl)) kvs)"

definition decodeMap :: "numlib \<Rightarrow> rawjson \<Rightarrow> gval smap result" where
  "decodeMap nl raw = bindR (unmarshalObject raw) (\<lambda>kvs. Inr (map (map_prod id (fromJson nl)) kvs))"

text \<open>\<open>json.Number\<close> literals must follow the JSON number grammar when marshalled.\<close>

definition dropDigits :: "string \<Rightarrow> string" where
  "dropDigits s = dropWhile is_digit s"

definition numInt :: "string \<Rightarrow> string option" where
  "numInt s =
     (case s of
        [] \<Rightarrow> None
      | c # cs \<Rightarrow> if c = CHR ''0'' then Some cs else if is_digit c then Some (dropDigits cs) else None)"

definition numFrac :: "string \<Rightarrow> string option" where
  "numFrac s =
     (case s of
        c # d # cs \<Rightarrow> if c = CHR ''.'' \<and> is_digit d then Some (dropDigits cs) else Some s
      | _ \<Rightarrow> Some s)"

definition numExp :: "string \<Rightarrow> string option" where
  "numExp s =
     (case s of
        c # d # cs \<Rightarrow>
          if c = CHR ''e'' \<or> c = CHR ''E''
          then if d = CHR ''+'' \<or> d = CHR ''-''
               then (case cs of e # es \<Rightarrow> if is_digit e then Some (dropDigits es) else None | [] \<Rightarrow> None)
               else if is_digit d then Some (dropDigits cs) else None
          else Some s
      | _ \<Rightarrow> Some s)"

definition isValidNumber :: "string \<Rightarrow> bool" where
  "isValidNumber s =
     (let body = (case s of c # cs \<Rightarrow> if c = CHR ''-'' then cs else s | [] \<Rightarrow> s) in
      case numInt body of
        None \<Rightarrow> False
      | Some r1 \<Rightarrow>
          (case numFrac r1 of
             None \<Rightarrow> False
           | Some r2 \<Rightarrow> (case numExp r2 of None \<Rightarrow> False | Some r3 \<Rightarrow> r3 = [])))"

fun floatText :: "float64 \<Rightarrow> string" where
  "floatText (FInt i) = dec_int i"
| "floatText (FLit s) = s"

text \<open>
  \<open>canonicalize\<close>: \<open>json.Marshal\<close> (which sorts map keys and rejects malformed \<open>json.Number\<close>s and
  floats that are not numbers) followed by decoding with \<open>UseNumber\<close>.
\<close>

function (sequential) canon :: "gval \<Rightarrow> json result" where
  "canon GNil = Inr JNull"
| "canon (GBool b) = Inr (JBool b)"
| "canon (GInt i) = Inr (JNum (dec_int i))"
| "canon (GNumber n) =
     (if n = '''' then Inr (JNum ''0'')
      else if isValidNumber n then Inr (JNum n)
      else Inl (Errorf ''json: invalid number literal %q'' [AS n]))"
| "canon (GFloat f) =
     (if isValidNumber (floatText f) then Inr (JNum (floatText f))
      else Inl (Errorf ''json: unsupported value: %s'' [AS (floatText f)]))"
| "canon (GString s) = Inr (JStr s)"
| "canon (GStrings xs) = Inr (JArr (map JStr xs))"
| "canon (GStrMap m) = Inr (JObj (sort_key fst (map (map_prod id JStr) m)))"
| "canon (GIntMap m) = Inr (JObj (sort_key fst (map (map_prod id (\<lambda>i. JNum (dec_int i))) m)))"
| "canon (GList xs) = bindR (mapR canon xs) (\<lambda>ys. Inr (JArr ys))"
| "canon (GMap kvs) =
     bindR (mapR (\<lambda>(k, v). bindR (canon v) (\<lambda>j. Inr (k, j))) kvs) (\<lambda>jkvs. Inr (JObj (sort_key fst jkvs)))"
  by pat_completeness auto
termination
proof (relation "measure size", goal_cases)
  case (2 xs x)
  then show ?case by (auto dest: size_list_estimation'[where f = size and y = "size x"])
next
  case (3 kvs x k v)
  then show ?case
    by (auto dest!: size_list_estimation'[where f = "size_prod (\<lambda>s. 0) size" and y = "size v"])
qed simp

type_synonym doc = "gval smap"

definition canonicalize :: "doc \<Rightarrow> json smap result" where
  "canonicalize doc =
     bindR (mapR (\<lambda>(k, v). bindR (canon v) (\<lambda>j. Inr (k, j))) doc) (\<lambda>kvs. Inr (sort_key fst kvs))"

subsection \<open>Inputs and outputs\<close>

record InjectedCapability =
  inj_Name :: string
  inj_Config :: doc

record Options =
  opt_DefaultRunnerVersion :: string
  opt_Injected :: "InjectedCapability list"
  opt_RequireVerified :: bool

record cdeps =
  cd_GetModel :: "NamespacedName \<Rightarrow> Model result"
  cd_GetModelProvider :: "NamespacedName \<Rightarrow> ModelProvider result"
  cd_GetInstruction :: "NamespacedName \<Rightarrow> Instruction result"
  cd_GetAgentTool :: "NamespacedName \<Rightarrow> AgentTool result"
  cd_GetCapability :: "(NamespacedName \<Rightarrow> Capability result) option"
  cd_GetService :: "NamespacedName \<Rightarrow> Service result"
  cd_GetProviderHandler :: "ProviderType \<Rightarrow> (ModelProvider \<Rightarrow> ResolvedProvider result) option"

record CapabilityArtifact =
  ca_Name :: string
  ca_Artifact :: string
  ca_EntryName :: string

record Result =
  res_Doc :: "json smap"
  res_YAML :: string
  res_Hash :: string
  res_RunnerVersion :: string
  res_SchemaDigest :: string
  res_Injected :: "string list"
  res_SecretEnv :: "EnvVar list"
  res_ProviderEnv :: "EnvVar list"
  res_ProviderSecretEnv :: "EnvVar list"
  res_CapabilityArtifacts :: "CapabilityArtifact list"

text \<open>The code outside the repository that compilation uses.\<close>

record ('sc, 'sp, 'v) clib =
  cl_spec :: "'sc speclib"
  cl_pep :: "('sp, 'v) pep440"
  cl_num :: numlib
  cl_k8s :: k8slib

subsection \<open>Merging\<close>

definition defaultNS :: "string \<Rightarrow> string \<Rightarrow> string" where
  "defaultNS ns fallback = (if ns = '''' then fallback else ns)"

definition capabilityList :: "doc \<Rightarrow> gval list" where
  "capabilityList doc = (case mget doc ''capabilities'' of Some (GList xs) \<Rightarrow> xs | _ \<Rightarrow> [])"

definition capabilityEntry :: "string \<Rightarrow> doc \<Rightarrow> gval" where
  "capabilityEntry name config = (if config = [] then GString name else GMap [(name, GMap config)])"

definition appendCapability :: "gval \<Rightarrow> doc \<Rightarrow> doc" where
  "appendCapability e doc = mput ''capabilities'' (GList (capabilityList doc @ [e])) doc"

definition putOpt :: "string \<Rightarrow> ('a \<Rightarrow> gval) \<Rightarrow> 'a option \<Rightarrow> doc \<Rightarrow> doc" where
  "putOpt k f x d = (case x of None \<Rightarrow> d | Some v \<Rightarrow> mput k (f v) d)"

definition putNonEmpty :: "string \<Rightarrow> ('a list \<Rightarrow> gval) \<Rightarrow> 'a list \<Rightarrow> doc \<Rightarrow> doc" where
  "putNonEmpty k f x d = (if x = [] then d else mput k (f x) d)"

text \<open>The later map's entries win, key by key.\<close>

definition overlay :: "doc \<Rightarrow> doc \<Rightarrow> doc" where
  "overlay base over = foldr (\<lambda>(k, v) m. mput k v m) over base"

definition settingsToMap :: "numlib \<Rightarrow> ModelSettings \<Rightarrow> doc" where
  "settingsToMap nl s =
     (let out0 = (case ms_Extra s of
                    None \<Rightarrow> []
                  | Some raw \<Rightarrow> (case decodeMap nl raw of Inl e \<Rightarrow> [] | Inr extra \<Rightarrow> overlay [] extra));
          out1 = putOpt ''max_tokens'' GInt (ms_MaxTokens s) out0;
          out2 = putNonEmpty ''temperature'' GNumber (ms_Temperature s) out1;
          out3 = putNonEmpty ''top_p'' GNumber (ms_TopP s) out2;
          out4 = putOpt ''top_k'' GInt (ms_TopK s) out3;
          out5 = putOpt ''timeout'' GInt (ms_TimeoutSeconds s) out4;
          out6 = putOpt ''parallel_tool_calls'' GBool (ms_ParallelToolCalls s) out5;
          out7 = putOpt ''seed'' GInt (ms_Seed s) out6;
          out8 = putNonEmpty ''presence_penalty'' GNumber (ms_PresencePenalty s) out7;
          out9 = putNonEmpty ''frequency_penalty'' GNumber (ms_FrequencyPenalty s) out8;
          out10 = putNonEmpty ''logit_bias'' GIntMap (ms_LogitBias s) out9;
          out11 = putNonEmpty ''stop_sequences'' GStrings (ms_StopSequences s) out10
      in putNonEmpty ''extra_headers'' GStrMap (ms_ExtraHeaders s) out11)"

definition applyOutputSchema :: "numlib \<Rightarrow> rawjson option \<Rightarrow> doc \<Rightarrow> doc" where
  "applyOutputSchema nl raw doc =
     (case raw of
        None \<Rightarrow> doc
      | Some (Raw JNull) \<Rightarrow> mput ''output_schema'' GNil doc
      | Some r \<Rightarrow> (case decodeMap nl r of Inl e \<Rightarrow> doc | Inr schema \<Rightarrow> mput ''output_schema'' (GMap schema) doc))"

definition applySettings :: "numlib \<Rightarrow> ModelSettings option \<Rightarrow> doc \<Rightarrow> doc" where
  "applySettings nl ms doc =
     (case ms of
        None \<Rightarrow> doc
      | Some s \<Rightarrow>
          (let settings = settingsToMap nl s in
           if settings = [] then doc
           else mput ''model_settings''
                  (GMap (case mget doc ''model_settings'' of
                           Some (GMap existing) \<Rightarrow> overlay existing settings
                         | _ \<Rightarrow> settings)) doc))"

definition entryConfig :: "numlib \<Rightarrow> rawjson option \<Rightarrow> doc" where
  "entryConfig nl raw =
     (case raw of None \<Rightarrow> [] | Some r \<Rightarrow> (case decodeMap nl r of Inl e \<Rightarrow> [] | Inr config \<Rightarrow> config))"

definition fragmentEntry :: "numlib \<Rightarrow> NativeCapabilityEntry \<Rightarrow> gval" where
  "fragmentEntry nl e = capabilityEntry (nce_Name e) (entryConfig nl (nce_Config e))"

definition applyFragment :: "numlib \<Rightarrow> AgentSpecFragment \<Rightarrow> doc \<Rightarrow> doc" where
  "applyFragment nl frag doc =
     fold (\<lambda>e. appendCapability (fragmentEntry nl e)) (frag_Capabilities frag)
       (applySettings nl (frag_ModelSettings frag)
         (applyOutputSchema nl (frag_OutputSchema frag)
           (putNonEmpty ''description'' GString (frag_Description frag)
             (putNonEmpty ''name'' GString (frag_Name frag)
               (putNonEmpty ''model'' GString (frag_Model frag) doc)))))"

fun stringsOf :: "gval list \<Rightarrow> string list" where
  "stringsOf [] = []"
| "stringsOf (GString s # xs) = s # stringsOf xs"
| "stringsOf (_ # xs) = stringsOf xs"

definition fragmentInstructions :: "AgentSpecFragment option \<Rightarrow> doc \<Rightarrow> string list \<times> doc" where
  "fragmentInstructions frag doc =
     (let inline = (case frag of None \<Rightarrow> [] | Some f \<Rightarrow> frag_Instructions f) in
      if inline \<noteq> [] then (inline, doc)
      else case mget doc ''instructions'' of
             Some (GString v) \<Rightarrow> ([v], AList.delete ''instructions'' doc)
           | Some (GList v) \<Rightarrow> (stringsOf v, AList.delete ''instructions'' doc)
           | _ \<Rightarrow> ([], doc))"

definition fragmentSetsToolTimeout :: "AgentSpecFragment option \<Rightarrow> bool" where
  "fragmentSetsToolTimeout frag =
     (case frag of
        None \<Rightarrow> False
      | Some f \<Rightarrow>
          (case frag_Extra f of
             None \<Rightarrow> False
           | Some raw \<Rightarrow>
               (case unmarshalObject raw of
                  Inl e \<Rightarrow> False
                | Inr extra \<Rightarrow> mget extra ''tool_timeout'' \<noteq> None)))"

subsection \<open>Tools\<close>

definition toolSecretRefName :: "string \<Rightarrow> string \<Rightarrow> string" where
  "toolSecretRefName toolName headerName = ''tool-'' @ toolName @ ''-'' @ toLower headerName"

fun findPort :: "string \<Rightarrow> ServicePort list \<Rightarrow> int option" where
  "findPort n [] = None"
| "findPort n (p # ps) = (if sp_Name p = n then Some (sp_Port p) else findPort n ps)"

definition resolveToolPort :: "cdeps \<Rightarrow> AgentTool \<Rightarrow> ServiceRef \<Rightarrow> string \<Rightarrow> int result" where
  "resolveToolPort deps tool ref ns =
     (case sref_Port ref of
        Some p \<Rightarrow> Inr p
      | None \<Rightarrow>
          if sref_PortName ref = '''' then Inr 80
          else case cd_GetService deps \<lparr>nn_Name = sref_Name ref, nn_Namespace = ns\<rparr> of
                 Inl err \<Rightarrow> Inl (NewDependencyf ''Service %s/%s (for AgentTool %s/%s port name %q) not found: %v''
                    [AS ns, AS (sref_Name ref), AS (om_Namespace (at_Meta tool)), AS (om_Name (at_Meta tool)),
                     AS (sref_PortName ref), AE err])
               | Inr svc \<Rightarrow>
                   (case findPort (sref_PortName ref) (ss_Ports (svc_Spec svc)) of
                      Some p \<Rightarrow> Inr p
                    | None \<Rightarrow> Inl (NewDependencyf ''Service %s/%s has no port named %q (AgentTool %s/%s)''
                        [AS ns, AS (sref_Name ref), AS (sref_PortName ref),
                         AS (om_Namespace (at_Meta tool)), AS (om_Name (at_Meta tool))])))"

definition toolPath :: "AgentToolSpec \<Rightarrow> string" where
  "toolPath s =
     (if ats_Path s \<noteq> '''' then ats_Path s
      else if ats_Transport s = MCPTransportSSE then ''/sse'' else ''/mcp'')"

definition resolveToolURL :: "cdeps \<Rightarrow> AgentTool \<Rightarrow> string result" where
  "resolveToolURL deps tool =
     (if ats_URL (at_Spec tool) \<noteq> '''' then Inr (ats_URL (at_Spec tool))
      else case ats_ServiceRef (at_Spec tool) of
             None \<Rightarrow> Inl (NewPermanentf ''AgentTool %s/%s has neither url nor serviceRef''
                       [AS (om_Namespace (at_Meta tool)), AS (om_Name (at_Meta tool))])
           | Some ref \<Rightarrow>
               (let ns = defaultNS (sref_Namespace ref) (om_Namespace (at_Meta tool)) in
                bindR (resolveToolPort deps tool ref ns) (\<lambda>port.
                  Inr (''http://'' @ sref_Name ref @ ''.'' @ ns @ ''.svc.cluster.local:'' @ dec_int port
                       @ toolPath (at_Spec tool)))))"

definition headerSecretEnv :: "string \<Rightarrow> SecretHeader \<Rightarrow> EnvVar" where
  "headerSecretEnv toolName hs = envSecret (SecretEnvName (toolSecretRefName toolName (sh_Name hs))) (sh_SecretRef hs)"

definition toolHeaders :: "AgentTool \<Rightarrow> doc" where
  "toolHeaders tool =
     fold (\<lambda>hs. mput (sh_Name hs)
              (GString (SecretPlaceholder (toolSecretRefName (om_Name (at_Meta tool)) (sh_Name hs)))))
       (ats_HeaderSecrets (at_Spec tool))
       (map (map_prod id GString) (ats_Headers (at_Spec tool)))"

definition mcpEntry :: "AgentTool \<Rightarrow> string \<Rightarrow> doc" where
  "mcpEntry tool url =
     (let s = at_Spec tool;
          mcp0 = [(''url'', GString url), (''id'', GString (om_Name (at_Meta tool))),
                  (''native'', GBool False), (''local'', GBool True)];
          mcp1 = putNonEmpty ''description'' GString (ats_Description s) mcp0;
          mcp2 = putNonEmpty ''headers'' GMap (toolHeaders tool) mcp1
      in putNonEmpty ''allowed_tools'' GStrings (ats_AllowedTools s) mcp2)"

definition compileTool :: "cdeps \<Rightarrow> AgentTool \<Rightarrow> (gval \<times> EnvVar list) result" where
  "compileTool deps tool =
     bindR (resolveToolURL deps tool) (\<lambda>url.
       let entry = GMap [(''MCP'', GMap (mcpEntry tool url))] in
       Inr (if ats_ToolPrefix (at_Spec tool) \<noteq> ''''
            then GMap [(''PrefixTools'', GMap [(''prefix'', GString (ats_ToolPrefix (at_Spec tool))),
                                               (''capability'', entry)])]
            else entry,
            map (headerSecretEnv (om_Name (at_Meta tool))) (ats_HeaderSecrets (at_Spec tool))))"

subsection \<open>Compilation stages\<close>

record cstate =
  cs_Doc :: doc
  cs_SecretEnv :: "EnvVar list"
  cs_ProviderEnv :: "EnvVar list"
  cs_ProviderSecretEnv :: "EnvVar list"

text \<open>The key a reference resolves to: an empty namespace means the Agent's.\<close>

definition refKey :: "Agent \<Rightarrow> NamespacedRef \<Rightarrow> NamespacedName" where
  "refKey agent ref =
     \<lparr>nn_Name = nr_Name ref, nn_Namespace = defaultNS (nr_Namespace ref) (om_Namespace (ag_Meta agent))\<rparr>"

definition providerKeyOf :: "Model \<Rightarrow> NamespacedName" where
  "providerKeyOf model =
     (let pref = mdls_ProviderRef (mdl_Spec model) in
      \<lparr>nn_Name = pref_Name pref,
       nn_Namespace = defaultNS (pref_Namespace pref) (om_Namespace (mdl_Meta model))\<rparr>)"

fun providerTypeText :: "ProviderType \<Rightarrow> string" where
  "providerTypeText ProviderTypeOpenAI = ''openai''"
| "providerTypeText ProviderTypeAnthropic = ''anthropic''"
| "providerTypeText ProviderTypeGoogle = ''google''"
| "providerTypeText ProviderTypeBedrock = ''bedrock''"
| "providerTypeText ProviderTypeNone = ''''"

definition resolveProvider :: "cdeps \<Rightarrow> Agent \<Rightarrow> NamespacedRef \<Rightarrow> (Model \<times> ResolvedProvider) result" where
  "resolveProvider deps agent ref =
     (let key = refKey agent ref in
      case cd_GetModel deps key of
        Inl err \<Rightarrow> Inl (NewDependencyf ''referenced Model %s not found: %v'' [AS (nn_String key), AE err])
      | Inr model \<Rightarrow>
          if \<not> mdlst_Ready (mdl_Status model)
          then Inl (NewDependencyf ''referenced Model %s is not ready'' [AS (nn_String key)])
          else
            (let providerKey = providerKeyOf model in
             case cd_GetModelProvider deps providerKey of
               Inl err \<Rightarrow> Inl (NewDependencyf ''ModelProvider %s (via Model %s) not found: %v''
                            [AS (nn_String providerKey), AS (nn_String key), AE err])
             | Inr provider \<Rightarrow>
                 (case cd_GetProviderHandler deps (GetProviderType provider) of
                    None \<Rightarrow> Inl (NewPermanentf ''unsupported provider type %q on ModelProvider %s''
                              [AS (providerTypeText (GetProviderType provider)), AS (nn_String providerKey)])
                  | Some handler \<Rightarrow>
                      (case handler provider of
                         Inl err \<Rightarrow> Inl (ErrorfW ''resolving provider %s: %w'' [AS (nn_String providerKey)] err)
                       | Inr resolved \<Rightarrow> Inr (model, resolved)))))"

definition mergeModel :: "numlib \<Rightarrow> Model \<Rightarrow> ResolvedProvider \<Rightarrow> doc \<Rightarrow> doc" where
  "mergeModel nl model resolved doc =
     (let inline = (case mget doc ''model'' of Some (GString s) \<Rightarrow> s | _ \<Rightarrow> '''');
          doc1 = (if inline = ''''
                  then mput ''model'' (GString (QualifiedModelName (rp_ModelPrefix resolved)
                         (mdls_Model (mdl_Spec model)))) doc
                  else doc);
          base = (case mdls_Settings (mdl_Spec model) of None \<Rightarrow> [] | Some s \<Rightarrow> settingsToMap nl s)
      in if base = [] then doc1
         else mput ''model_settings''
                (GMap (case mget doc1 ''model_settings'' of
                         Some (GMap existing) \<Rightarrow> overlay base existing
                       | _ \<Rightarrow> base)) doc1)"

definition applyModelRef :: "numlib \<Rightarrow> cdeps \<Rightarrow> Agent \<Rightarrow> NamespacedRef \<Rightarrow> cstate \<Rightarrow> cstate result" where
  "applyModelRef nl deps agent ref st =
     bindR (resolveProvider deps agent ref) (\<lambda>(model, resolved).
       Inr (st\<lparr>cs_Doc := mergeModel nl model resolved (cs_Doc st),
               cs_ProviderEnv := rp_EnvVars resolved,
               cs_ProviderSecretEnv := rp_SecretEnvVars resolved\<rparr>))"

definition readInstruction :: "cdeps \<Rightarrow> Agent \<Rightarrow> NamespacedRef \<Rightarrow> string result" where
  "readInstruction deps agent ref =
     (let key = refKey agent ref in
      case cd_GetInstruction deps key of
        Inl err \<Rightarrow> Inl (NewDependencyf ''referenced Instruction %s not found: %v'' [AS (nn_String key), AE err])
      | Inr instr \<Rightarrow> Inr (ins_Content (in_Spec instr)))"

definition applyInstructions :: "cdeps \<Rightarrow> Agent \<Rightarrow> doc \<Rightarrow> doc result" where
  "applyInstructions deps agent doc =
     bindR (mapR (readInstruction deps agent) (as_InstructionRefs (ag_Spec agent))) (\<lambda>refs.
       case fragmentInstructions (as_Spec (ag_Spec agent)) doc of
         (inline, doc1) \<Rightarrow>
           Inr (let instructions = refs @ inline in
                if instructions = [] then doc1 else mput ''instructions'' (GStrings instructions) doc1))"

definition applyToolTimeout :: "numlib \<Rightarrow> AgentSpecFragment option \<Rightarrow> AgentTool \<Rightarrow> doc \<Rightarrow> doc" where
  "applyToolTimeout nl frag tool doc =
     (case ats_TimeoutSeconds (at_Spec tool) of
        None \<Rightarrow> doc
      | Some secs \<Rightarrow>
          if fragmentSetsToolTimeout frag then doc
          else case mget doc ''tool_timeout'' of
                 Some (GFloat existing) \<Rightarrow>
                   if floatGreater nl (FInt secs) existing
                   then mput ''tool_timeout'' (GFloat (FInt secs)) doc else doc
               | _ \<Rightarrow> mput ''tool_timeout'' (GFloat (FInt secs)) doc)"

definition readTool :: "cdeps \<Rightarrow> Agent \<Rightarrow> NamespacedRef \<Rightarrow> AgentTool result" where
  "readTool deps agent ref =
     (let key = refKey agent ref in
      case cd_GetAgentTool deps key of
        Inl err \<Rightarrow> Inl (NewDependencyf ''referenced AgentTool %s not found: %v'' [AS (nn_String key), AE err])
      | Inr tool \<Rightarrow> Inr tool)"

definition applyTool :: "numlib \<Rightarrow> cdeps \<Rightarrow> Agent \<Rightarrow> NamespacedRef \<Rightarrow> cstate \<Rightarrow> cstate result" where
  "applyTool nl deps agent ref st =
     bindR (readTool deps agent ref) (\<lambda>tool.
     bindR (compileTool deps tool) (\<lambda>(entry, secretEnv).
       Inr (st\<lparr>cs_Doc := applyToolTimeout nl (as_Spec (ag_Spec agent)) tool (appendCapability entry (cs_Doc st)),
               cs_SecretEnv := cs_SecretEnv st @ secretEnv\<rparr>)))"

fun applyTools :: "numlib \<Rightarrow> cdeps \<Rightarrow> Agent \<Rightarrow> NamespacedRef list \<Rightarrow> cstate \<Rightarrow> cstate result" where
  "applyTools nl deps agent [] st = Inr st"
| "applyTools nl deps agent (ref # refs) st =
     bindR (applyTool nl deps agent ref st) (applyTools nl deps agent refs)"

subsection \<open>Capability attachments\<close>

definition checkVerified :: "k8slib \<Rightarrow> string \<Rightarrow> Capability \<Rightarrow> goerror option" where
  "checkVerified lib capName capCR =
     (case lib_FindStatusCondition lib (capst_Conditions (cap_Status capCR)) CapabilityConditionVerified of
        None \<Rightarrow> Some (NewDependencyf
           ''Capability %s has no Verified condition yet and this cluster requires verified capabilities (requireVerified): verification is in flight''
           [AS capName])
      | Some cond \<Rightarrow>
          (case c_Status cond of
             ConditionTrue \<Rightarrow> None
           | ConditionUnknown \<Rightarrow> Some (NewDependencyf
               ''Capability %s verification is in flight (Verified=%s, reason %s) and this cluster requires verified capabilities (requireVerified): %s''
               [AS capName, AS (statusText (c_Status cond)), AS (c_Reason cond), msgArg (c_Message cond)])
           | ConditionFalse \<Rightarrow> Some (NewDependencyf
               ''Capability %s is not verified (Verified=%s, reason %s) and this cluster requires verified capabilities (requireVerified): %s''
               [AS capName, AS (statusText (c_Status cond)), AS (c_Reason cond), msgArg (c_Message cond)])))"

definition requiresOf :: "Capability \<Rightarrow> Requires" where
  "requiresOf c =
     \<lparr>req_Python = creq_Python (caps_Requires (cap_Spec c)),
      req_PydanticAI = creq_PydanticAI (caps_Requires (cap_Spec c)),
      req_FlokoaRunner = creq_FlokoaRunner (caps_Requires (cap_Spec c))\<rparr>"

definition checkAttachmentConfig :: "'sc jsonschema \<Rightarrow> string \<Rightarrow> Capability \<Rightarrow> CapabilityAttachment \<Rightarrow> goerror option" where
  "checkAttachmentConfig js key capCR att =
     (if caps_SchemaPolicy (cap_Spec capCR) = SchemaPolicyPermissive then None
      else case caps_ConfigSchema (cap_Spec capCR) of
             None \<Rightarrow> Some (NewPermanentf
               ''Capability %s has schemaPolicy strict but no configSchema; publish a schema on the Capability or set schemaPolicy: permissive''
               [AS key])
           | Some schema \<Rightarrow>
               (case ValidateConfig js schema (case att_Config att of None \<Rightarrow> Raw (JObj []) | Some raw \<Rightarrow> raw) of
                  Some err \<Rightarrow> Some (NewPermanentf ''Capability %s rejected the attachment config: %v'' [AS key, AE err])
                | None \<Rightarrow> None))"

definition decodeAttachmentConfig :: "numlib \<Rightarrow> string \<Rightarrow> CapabilityAttachment \<Rightarrow> doc result" where
  "decodeAttachmentConfig nl key att =
     (case att_Config att of
        None \<Rightarrow> Inr []
      | Some raw \<Rightarrow>
          (case decodeMap nl raw of
             Inl err \<Rightarrow> Inl (NewPermanentf ''Capability %s attachment config must be a JSON object: %v'' [AS key, AE err])
           | Inr config \<Rightarrow> Inr config))"

definition claimEntryName :: "string \<Rightarrow> Capability \<Rightarrow> string smap \<Rightarrow> string result" where
  "claimEntryName key capCR owners =
     (let entryName = EntryName (caps_Entrypoint (cap_Spec capCR)) (caps_SerializationName (cap_Spec capCR)) in
      case ValidateEntryName entryName of
        Some err \<Rightarrow> Inl (NewPermanentf ''Capability %s: %v'' [AS key, AE err])
      | None \<Rightarrow>
          (case mget owners entryName of
             Some owner \<Rightarrow> Inl (NewPermanentf
               ''Capability %s compiles to spec entry %q, already claimed by %s; set spec.serializationName to disambiguate''
               [AS key, AS entryName, AS owner])
           | None \<Rightarrow> Inr entryName))"

record resolvedCap =
  rc_Key :: NamespacedName
  rc_CR :: Capability
  rc_EntryName :: string
  rc_Config :: doc

definition guardR :: "goerror option \<Rightarrow> unit result" where
  "guardR e = (case e of Some err \<Rightarrow> Inl err | None \<Rightarrow> Inr ())"

definition permanently :: "goerror option \<Rightarrow> goerror option" where
  "permanently e = (case e of None \<Rightarrow> None | Some err \<Rightarrow> Some (NewPermanentf ''%v'' [AE err]))"

definition resolveAttachment ::
  "('sc, 'sp, 'v) clib \<Rightarrow> (NamespacedName \<Rightarrow> Capability result) \<Rightarrow> bool \<Rightarrow> RunnerInfo \<Rightarrow> Agent
   \<Rightarrow> string smap \<Rightarrow> string list \<Rightarrow> CapabilityAttachment \<Rightarrow> resolvedCap result" where
  "resolveAttachment cl getCap requireVerified runner agent owners seen att =
     (let key = refKey agent (att_Ref att); k = nn_String key in
      if nn_Namespace key \<noteq> om_Namespace (ag_Meta agent)
      then Inl (NewPermanentf
        ''cross-namespace Capability reference %s is not supported yet; reference a Capability in the agent namespace'' [AS k])
      else if k \<in> set seen then Inl (NewPermanentf ''Capability %s is attached more than once'' [AS k])
      else case getCap key of
             Inl err \<Rightarrow> Inl (NewDependencyf ''referenced Capability %s not found: %v'' [AS k, AE err])
           | Inr capCR \<Rightarrow>
               bindR (guardR (if requireVerified then checkVerified (cl_k8s cl) k capCR else None)) (\<lambda>_.
               bindR (guardR (permanently
                 (CheckRequires (cl_pep cl) (om_Name (cap_Meta capCR)) (requiresOf capCR) runner))) (\<lambda>_.
               bindR (guardR (checkAttachmentConfig (sl_js (cl_spec cl)) k capCR att)) (\<lambda>_.
               bindR (decodeAttachmentConfig (cl_num cl) k att) (\<lambda>config.
               bindR (claimEntryName k capCR owners) (\<lambda>entryName.
                 Inr \<lparr>rc_Key = key, rc_CR = capCR, rc_EntryName = entryName, rc_Config = config\<rparr>))))))"

fun resolveAttachments ::
  "('sc, 'sp, 'v) clib \<Rightarrow> (NamespacedName \<Rightarrow> Capability result) \<Rightarrow> bool \<Rightarrow> RunnerInfo \<Rightarrow> Agent
   \<Rightarrow> string smap \<Rightarrow> string list \<Rightarrow> CapabilityAttachment list \<Rightarrow> resolvedCap list result" where
  "resolveAttachments cl getCap rv runner agent owners seen [] = Inr []"
| "resolveAttachments cl getCap rv runner agent owners seen (att # atts) =
     bindR (resolveAttachment cl getCap rv runner agent owners seen att) (\<lambda>rc.
     bindR (resolveAttachments cl getCap rv runner agent
              (mput (rc_EntryName rc) (nn_String (rc_Key rc)) owners) (nn_String (rc_Key rc) # seen) atts) (\<lambda>rcs.
       Inr (rc # rcs)))"

definition fragmentCapabilities :: "Agent \<Rightarrow> NativeCapabilityEntry list" where
  "fragmentCapabilities agent =
     (case as_Spec (ag_Spec agent) of None \<Rightarrow> [] | Some f \<Rightarrow> frag_Capabilities f)"

definition claimedNames :: "Options \<Rightarrow> Agent \<Rightarrow> string smap" where
  "claimedNames opts agent =
     fold (\<lambda>inj. mput (inj_Name inj) ''injected platform capability'') (opt_Injected opts)
       (fold (\<lambda>e. mput (nce_Name e) ''spec.spec.capabilities'') (fragmentCapabilities agent) [])"

definition depsOfCap :: "resolvedCap \<Rightarrow> Deps" where
  "depsOfCap rc = \<lparr>deps_Name = nn_String (rc_Key rc), deps_Pins = caps_Dependencies (cap_Spec (rc_CR rc))\<rparr>"

definition artifactOf :: "resolvedCap \<Rightarrow> CapabilityArtifact" where
  "artifactOf rc =
     \<lparr>ca_Name = om_Name (cap_Meta (rc_CR rc)), ca_Artifact = caps_Artifact (cap_Spec (rc_CR rc)),
      ca_EntryName = rc_EntryName rc\<rparr>"

definition resolveCapabilities ::
  "('sc, 'sp, 'v) clib \<Rightarrow> cdeps \<Rightarrow> Options \<Rightarrow> Agent \<Rightarrow> string \<Rightarrow> resolvedCap list result" where
  "resolveCapabilities cl deps opts agent runnerVersion =
     (if as_Capabilities (ag_Spec agent) = [] then Inr []
      else case cd_GetCapability deps of
             None \<Rightarrow> Inl (NewPermanentf
               ''capability attachments are not supported by this operator build (no Capability reader wired)'' [])
           | Some getCap \<Rightarrow>
               (case RunnerBaseline (cl_spec cl) runnerVersion of
                  Inl err \<Rightarrow> Inl (SpecValidationError runnerVersion err)
                | Inr runner \<Rightarrow>
                    bindR (resolveAttachments cl getCap (opt_RequireVerified opts) runner agent
                             (claimedNames opts agent) [] (as_Capabilities (ag_Spec agent))) (\<lambda>rcs.
                      case DetectConflicts (map depsOfCap rcs) runner of
                        [] \<Rightarrow> Inr rcs
                      | msg # msgs \<Rightarrow> Inl (NewPermanentf ''capability dependency conflicts: %s'' (map AE (msg # msgs))))))"

subsection \<open>Compile\<close>

text \<open>The decoded form of canonical JSON: numbers are \<open>json.Number\<close>.\<close>

fun ofJson :: "json \<Rightarrow> gval" where
  "ofJson JNull = GNil"
| "ofJson (JBool b) = GBool b"
| "ofJson (JNum n) = GNumber n"
| "ofJson (JStr s) = GString s"
| "ofJson (JArr xs) = GList (map ofJson xs)"
| "ofJson (JObj kvs) = GMap (map (map_prod id ofJson) kvs)"

definition injectedEntry :: "InjectedCapability \<Rightarrow> gval" where
  "injectedEntry ic = capabilityEntry (inj_Name ic) (inj_Config ic)"

definition attachmentEntry :: "resolvedCap \<Rightarrow> gval" where
  "attachmentEntry rc = capabilityEntry (rc_EntryName rc) (rc_Config rc)"

text \<open>A \<open>null\<close> extra document leaves a nil map, and assigning into it panics.\<close>

definition extraLayer :: "numlib \<Rightarrow> AgentSpecFragment option \<Rightarrow> doc result" where
  "extraLayer nl frag =
     (case frag of
        None \<Rightarrow> Inr []
      | Some f \<Rightarrow>
          (case frag_Extra f of
             None \<Rightarrow> Inr []
           | Some (Raw JNull) \<Rightarrow> Inl (Errorf ''panic: assignment to entry in nil map'' [])
           | Some raw \<Rightarrow>
               (case decodeMap nl raw of
                  Inl err \<Rightarrow> Inl (NewPermanentf ''spec.spec.extra must be a JSON object: %v'' [AE err])
                | Inr doc \<Rightarrow> Inr doc)))"

definition fragmentLayer :: "numlib \<Rightarrow> Agent \<Rightarrow> doc result" where
  "fragmentLayer nl agent =
     bindR (extraLayer nl (as_Spec (ag_Spec agent))) (\<lambda>doc0.
       let doc1 = mput ''name'' (GString (om_Name (ag_Meta agent))) doc0 in
       Inr (case as_Spec (ag_Spec agent) of None \<Rightarrow> doc1 | Some f \<Rightarrow> applyFragment nl f doc1))"

definition userLayers :: "numlib \<Rightarrow> cdeps \<Rightarrow> Agent \<Rightarrow> cstate result" where
  "userLayers nl deps agent =
     bindR (fragmentLayer nl agent) (\<lambda>doc2.
       let st0 = \<lparr>cs_Doc = doc2, cs_SecretEnv = [], cs_ProviderEnv = [], cs_ProviderSecretEnv = []\<rparr> in
       bindR (case as_ModelRef (ag_Spec agent) of
                None \<Rightarrow> Inr st0 | Some ref \<Rightarrow> applyModelRef nl deps agent ref st0) (\<lambda>st1.
       bindR (applyInstructions deps agent (cs_Doc st1)) (\<lambda>doc3.
         applyTools nl deps agent (as_Tools (ag_Spec agent)) (st1\<lparr>cs_Doc := doc3\<rparr>))))"

definition agentSecretEnv :: "Agent \<Rightarrow> EnvVar list" where
  "agentSecretEnv agent =
     map (\<lambda>name. envSecret (SecretEnvName name) (the (mget (as_SecretRefs (ag_Spec agent)) name)))
       (sortStrings (mkeys (as_SecretRefs (ag_Spec agent))))"

definition spliceCapabilities :: "gval list \<Rightarrow> nat \<Rightarrow> json smap \<Rightarrow> json smap result" where
  "spliceCapabilities entries injected doc =
     (if entries = [] then Inr doc
      else
        (let d = map (map_prod id ofJson) doc; existing = capabilityList d; insertAt = length existing - injected in
         case canonicalize (mput ''capabilities''
                (GList (take insertAt existing @ entries @ drop insertAt existing)) d) of
           Inl err \<Rightarrow> Inl (ErrorfW ''canonicalizing compiled spec: %w'' [] err)
         | Inr doc' \<Rightarrow> Inr doc'))"

definition resolvedRunnerVersion :: "Options \<Rightarrow> Agent \<Rightarrow> string" where
  "resolvedRunnerVersion opts agent =
     (if rt_RunnerVersion (as_Runtime (ag_Spec agent)) = '''' then opt_DefaultRunnerVersion opts
      else rt_RunnerVersion (as_Runtime (ag_Spec agent)))"

definition finishDoc ::
  "('sc, 'sp, 'v) clib \<Rightarrow> string \<Rightarrow> nat \<Rightarrow> resolvedCap list \<Rightarrow> doc \<Rightarrow> (json smap \<times> string \<times> string) result" where
  "finishDoc cl runnerVersion injected caps doc =
     (case canonicalize doc of
        Inl err \<Rightarrow> Inl (ErrorfW ''canonicalizing compiled spec: %w'' [] err)
      | Inr doc1 \<Rightarrow>
          (case pureValidate (cl_spec cl) runnerVersion (JObj doc1) of
             Some err \<Rightarrow> Inl (SpecValidationError runnerVersion err)
           | None \<Rightarrow>
               bindR (spliceCapabilities (map attachmentEntry caps) injected doc1) (\<lambda>doc2.
               bindR (pureDigest (cl_spec cl) runnerVersion) (\<lambda>digest.
                 case nl_yaml (cl_num cl) (JObj doc2) of
                   Inl err \<Rightarrow> Inl (ErrorfW ''serializing compiled spec: %w'' [] err)
                 | Inr out \<Rightarrow> Inr (doc2, digest, out)))))"

definition Compile :: "('sc, 'sp, 'v) clib \<Rightarrow> cdeps \<Rightarrow> Options \<Rightarrow> Agent \<Rightarrow> Result result" where
  "Compile cl deps opts agent =
     (let runnerVersion = resolvedRunnerVersion opts agent in
      bindR (userLayers (cl_num cl) deps agent) (\<lambda>st.
      bindR (resolveCapabilities cl deps opts agent runnerVersion) (\<lambda>caps.
        let doc = fold (\<lambda>inj. appendCapability (injectedEntry inj)) (opt_Injected opts) (cs_Doc st) in
        bindR (finishDoc cl runnerVersion (length (opt_Injected opts)) caps doc) (\<lambda>(doc2, digest, out).
          Inr \<lparr>res_Doc = doc2, res_YAML = out, res_Hash = JSONStruct (cl_spec cl) (JObj doc2),
               res_RunnerVersion = runnerVersion, res_SchemaDigest = digest,
               res_Injected = map inj_Name (opt_Injected opts),
               res_SecretEnv = cs_SecretEnv st @ agentSecretEnv agent,
               res_ProviderEnv = cs_ProviderEnv st, res_ProviderSecretEnv = cs_ProviderSecretEnv st,
               res_CapabilityArtifacts = map artifactOf caps\<rparr>))))"

end
