(* ===== verification/CompilerFacts.thy ===== *)
theory CompilerFacts
  imports Compiler
begin

text \<open>
  What compilation guarantees: the layout of the capability list, the precedence of model and
  settings, the order of instructions, the tool timeout, the admission of capability attachments,
  and the secret environment.
\<close>

subsection \<open>Documents as maps\<close>

lemma case_Inr_conv:
  "(case r of Inl e \<Rightarrow> Inl (f e) | Inr x \<Rightarrow> k x) = Inr y \<longleftrightarrow> (\<exists>x. r = Inr x \<and> k x = Inr y)"
  by (cases r) auto

lemma mget_overlay: "mget (overlay base over) k = (case mget over k of Some v \<Rightarrow> Some v | None \<Rightarrow> mget base k)"
  by (induction over) (auto simp: overlay_def)

lemma putOpt_other [simp]: "k \<noteq> k' \<Longrightarrow> mget (putOpt k f x d) k' = mget d k'"
  by (simp add: putOpt_def split: option.splits)

lemma putNonEmpty_other [simp]: "k \<noteq> k' \<Longrightarrow> mget (putNonEmpty k f x d) k' = mget d k'"
  by (simp add: putNonEmpty_def)

lemma applySettings_other [simp]: "k \<noteq> ''model_settings'' \<Longrightarrow> mget (applySettings nl ms d) k = mget d k"
  by (simp add: applySettings_def Let_def split: option.splits)

lemma applyOutputSchema_other [simp]: "k \<noteq> ''output_schema'' \<Longrightarrow> mget (applyOutputSchema nl raw d) k = mget d k"
  by (auto simp: applyOutputSchema_def split: option.splits rawjson.splits json.splits sum.splits)

lemma appendCapability_other [simp]: "k \<noteq> ''capabilities'' \<Longrightarrow> mget (appendCapability e d) k = mget d k"
  by (simp add: appendCapability_def)

lemma capabilityList_append [simp]: "capabilityList (appendCapability e d) = capabilityList d @ [e]"
  by (simp add: appendCapability_def capabilityList_def)

lemma capabilityList_cong: "mget d ''capabilities'' = mget d' ''capabilities'' \<Longrightarrow> capabilityList d = capabilityList d'"
  by (simp add: capabilityList_def)

lemma append_fold_other: "k \<noteq> ''capabilities'' \<Longrightarrow> mget (fold (\<lambda>x. appendCapability (f x)) xs d) k = mget d k"
  by (induction xs arbitrary: d) auto

lemma append_fold_list: "capabilityList (fold (\<lambda>x. appendCapability (f x)) xs d) = capabilityList d @ map f xs"
  by (induction xs arbitrary: d) auto

text \<open>The capabilities entry is a generic list or what the extra layer put there.\<close>

definition genericCaps :: "doc \<Rightarrow> bool" where
  "genericCaps d = (case mget d ''capabilities'' of Some (GStrings xs) \<Rightarrow> False | _ \<Rightarrow> True)"

lemma genericCaps_Nil [simp]: "genericCaps []"
  by (simp add: genericCaps_def)

lemma genericCaps_append [simp]: "genericCaps (appendCapability e d)"
  by (simp add: genericCaps_def appendCapability_def)

lemma genericCaps_cong: "mget d ''capabilities'' = mget d' ''capabilities'' \<Longrightarrow> genericCaps d = genericCaps d'"
  by (simp add: genericCaps_def)

lemma genericCaps_fold: "genericCaps d \<Longrightarrow> genericCaps (fold (\<lambda>x. appendCapability (f x)) xs d)"
  by (induction xs arbitrary: d) auto

lemma genericCaps_decodeMap: "decodeMap nl raw = Inr d \<Longrightarrow> genericCaps d"
proof -
  assume "decodeMap nl raw = Inr d"
  then obtain kvs where d: "d = map (map_prod id (fromJson nl)) kvs"
    by (auto simp: decodeMap_def bindR_Inr_conv)
  have "mget d k \<noteq> Some (GStrings xs)" for k xs
  proof
    assume "mget d k = Some (GStrings xs)"
    then have "(k, GStrings xs) \<in> set d" by (rule map_of_SomeD)
    then obtain j where "fromJson nl j = GStrings xs" by (auto simp: d)
    then show False by (cases j) auto
  qed
  then show ?thesis by (auto simp: genericCaps_def split: option.splits gval.splits)
qed

subsection \<open>Canonical documents\<close>

lemma map_of_sort_key: "mget (sort_key fst kvs) k = mget kvs k"
proof -
  have m: "mget xs k = (case filter (\<lambda>x. fst x = k) xs of [] \<Rightarrow> None | x # r \<Rightarrow> Some (snd x))" for xs :: "'a smap"
    by (induction xs) auto
  show ?thesis by (simp add: m sort_key_stable)
qed

fun wfj :: "json \<Rightarrow> bool" where
  "wfj (JNum n) = isValidNumber n"
| "wfj (JArr xs) = (\<forall>x \<in> set xs. wfj x)"
| "wfj (JObj kvs) = (sorted (map fst kvs) \<and> (\<forall>(k, v) \<in> set kvs. wfj v))"
| "wfj _ = True"

definition digits :: "string \<Rightarrow> bool" where
  "digits s = list_all is_digit s"

lemma is_digit_char: "d < 10 \<Longrightarrow> is_digit (digit_char d) \<and> (digit_char d = CHR ''0'' \<longleftrightarrow> d = 0)"
proof -
  assume d: "d < 10"
  have v: "(of_char (digit_char d) :: nat) = 48 + d" using d by (simp add: digit_char_def of_char_of)
  have "digit_char d = CHR ''0'' \<Longrightarrow> d = 0" using v by auto
  moreover have "char_of (48 :: nat) = CHR ''0''"
    using char_of_char[of "CHR ''0''", where 'a = nat] by simp
  then have "d = 0 \<Longrightarrow> digit_char d = CHR ''0''" by (simp add: digit_char_def)
  ultimately show ?thesis using v d by (auto simp: is_digit_def)
qed

lemma dec_nat_number: "digits (dec_nat n) \<and> dec_nat n \<noteq> [] \<and> (hd (dec_nat n) = CHR ''0'' \<longrightarrow> dec_nat n = ''0'')"
proof (induction n rule: dec_nat.induct)
  case (1 n)
  show ?case
  proof (cases "n < 10")
    case True
    then show ?thesis using is_digit_char[of n] by (auto simp: dec_nat.simps digits_def digit_char_def)
  next
    case False
    then have "dec_nat (n div 10) \<noteq> ''0''"
      using is_digit_char[of "n div 10"] dec_nat.simps[of "n div 10"] "1.IH"[OF False]
      by (cases "n div 10 < 10") (auto simp: dec_nat.simps[of "n div 10 div 10"] split: if_splits)
    then show ?thesis
      using "1.IH"[OF False] False is_digit_char[of "n mod 10"]
      by (auto simp: dec_nat.simps[of n] digits_def)
  qed
qed

lemma dropWhile_digits: "digits s \<Longrightarrow> dropWhile is_digit s = []"
  by (simp add: digits_def dropWhile_eq_Nil_conv list_all_iff)

lemma number_of_digits:
  assumes "digits s" "s \<noteq> []" "hd s = CHR ''0'' \<longrightarrow> s = ''0''"
  shows "isValidNumber s" and "isValidNumber (CHR ''-'' # s)"
proof -
  obtain c cs where s: "s = c # cs" using assms(2) by (cases s) auto
  have c: "is_digit c" "digits cs" using assms(1) s by (auto simp: digits_def)
  have "numInt s = Some []"
    using c assms(3) s dropWhile_digits[of cs] by (auto simp: numInt_def dropDigits_def)
  moreover have "c \<noteq> CHR ''-''" using c(1) by (auto simp: is_digit_def)
  ultimately show "isValidNumber s" "isValidNumber (CHR ''-'' # s)"
    by (simp_all add: isValidNumber_def s numFrac_def numExp_def)
qed

lemma dec_int_number [simp]: "isValidNumber (dec_int i)"
  using dec_nat_number number_of_digits by (simp add: dec_int_def)

lemma sorted_fst_sort_key [simp]: "sorted (map fst (sort_key fst kvs))"
  by simp

lemma canon_wf: "canon g = Inr j \<Longrightarrow> wfj j"
proof (induction g arbitrary: j rule: canon.induct)
  case (4 n)
  have "isValidNumber ''0''" by (rule number_of_digits) (simp_all add: digits_def is_digit_def)
  then show ?case using 4 by (auto split: if_splits)
next
  case (10 xs)
  then obtain ys where j: "j = JArr ys" and m: "mapR canon xs = Inr ys" by (auto simp: bindR_Inr_conv)
  show ?case using "10.IH" mapR_set[OF m] unfolding j wfj.simps by blast
next
  case (11 kvs)
  then obtain jkvs where j: "j = JObj (sort_key fst jkvs)"
      and r: "mapR (\<lambda>(k, v). bindR (canon v) (\<lambda>j. Inr (k, j))) kvs = Inr jkvs"
    by (auto simp: bindR_Inr_conv)
  have "wfj v" if "(k, v) \<in> set jkvs" for k v
  proof -
    from mapR_set[OF r that] obtain x where x: "x \<in> set kvs"
        "(case x of (k, v) \<Rightarrow> bindR (canon v) (\<lambda>j. Inr (k, j))) = Inr (k, v)"
      by blast
    obtain k' g where kg: "x = (k', g)" by (cases x)
    then have "canon g = Inr v" using x(2) by (auto simp: bindR_Inr_conv)
    then show ?thesis using "11.IH"[OF x(1) kg[symmetric]] by blast
  qed
  then show ?case using j by auto
qed (auto split: if_splits)

lemma canon_ofJson: "wfj j \<Longrightarrow> canon (ofJson j) = Inr j"
proof (induction j)
  case (JNum n)
  then have "n \<noteq> ''''" by (auto simp: isValidNumber_def numInt_def)
  then show ?case using JNum by simp
next
  case (JArr xs)
  then have "mapR canon (map ofJson xs) = Inr xs"
    by (intro mapR_map_id) auto
  then show ?case by simp
next
  case (JObj kvs)
  have ih: "canon (ofJson (snd x)) = Inr (snd x)" if "x \<in> set kvs" for x
    using JObj.IH[of x "snd x"] JObj.prems that by (cases x) auto
  have "mapR (\<lambda>(k, v). bindR (canon v) (\<lambda>j. Inr (k, j))) (map (map_prod id ofJson) kvs) = Inr kvs"
  proof (rule mapR_map_id)
    fix x assume x: "x \<in> set kvs"
    show "(case map_prod id ofJson x of (k, v) \<Rightarrow> bindR (canon v) (\<lambda>j. Inr (k, j))) = Inr x"
      using ih[OF x] by (cases x) simp
  qed
  moreover have "sort_key fst kvs = kvs" using JObj.prems by (simp add: sort_key_id_if_sorted)
  ultimately show ?case by simp
qed auto

definition jsonCapabilities :: "json smap \<Rightarrow> json list" where
  "jsonCapabilities doc = (case mget doc ''capabilities'' of Some (JArr xs) \<Rightarrow> xs | _ \<Rightarrow> [])"

lemma mapR_entry_mget:
  "mapR (\<lambda>(k, v). bindR (canon v) (\<lambda>j. Inr (k, j))) doc = Inr kvs \<Longrightarrow>
   (case mget doc k of None \<Rightarrow> mget kvs k = None | Some g \<Rightarrow> \<exists>j. canon g = Inr j \<and> mget kvs k = Some j)"
  by (induction doc arbitrary: kvs) (auto simp: bindR_Inr_conv split: option.splits)

lemma canonicalize_mget:
  assumes "canonicalize doc = Inr j"
  shows "mget doc k = None \<Longrightarrow> mget j k = None"
    and "mget doc k = Some g \<Longrightarrow> \<exists>x. canon g = Inr x \<and> mget j k = Some x"
  using assms mapR_entry_mget[of doc _ k]
  by (auto simp: canonicalize_def bindR_Inr_conv map_of_sort_key split: option.splits)

lemma canonicalize_caps:
  assumes "canonicalize doc = Inr j" and "genericCaps doc"
  shows "mapR canon (capabilityList doc) = Inr (jsonCapabilities j)"
proof (cases "mget doc ''capabilities''")
  case None
  then show ?thesis using canonicalize_mget(1)[OF assms(1), of "''capabilities''"]
    by (simp add: capabilityList_def jsonCapabilities_def)
next
  case (Some g)
  then obtain x where "canon g = Inr x" "mget j ''capabilities'' = Some x"
    using canonicalize_mget(2)[OF assms(1), of "''capabilities''"] by blast
  then show ?thesis using Some assms(2)
    by (cases g) (auto simp: capabilityList_def jsonCapabilities_def genericCaps_def bindR_Inr_conv split: if_splits)
qed

lemma canonicalize_wf: "canonicalize doc = Inr j \<Longrightarrow> wfj (JObj j)"
  using canon_wf[of "GMap doc" "JObj j"] by (auto simp: canonicalize_def bindR_Inr_conv)

subsection \<open>The stages on the capability list\<close>

lemma applyFragment_caps:
  "capabilityList (applyFragment nl f d) = capabilityList d @ map (fragmentEntry nl) (frag_Capabilities f)"
proof -
  have "capabilityList (applySettings nl (frag_ModelSettings f)
         (applyOutputSchema nl (frag_OutputSchema f)
           (putNonEmpty ''description'' GString (frag_Description f)
             (putNonEmpty ''name'' GString (frag_Name f)
               (putNonEmpty ''model'' GString (frag_Model f) d))))) = capabilityList d"
    by (rule capabilityList_cong) simp
  then show ?thesis by (simp add: applyFragment_def append_fold_list)
qed

lemma applyFragment_generic: "genericCaps d \<Longrightarrow> genericCaps (applyFragment nl f d)"
  unfolding applyFragment_def by (rule genericCaps_fold) (simp add: genericCaps_def)

lemma applyFragment_timeout: "mget (applyFragment nl f d) ''tool_timeout'' = mget d ''tool_timeout''"
  by (simp add: applyFragment_def append_fold_other)

lemma mergeModel_other: "k \<noteq> ''model'' \<Longrightarrow> k \<noteq> ''model_settings'' \<Longrightarrow> mget (mergeModel nl m r d) k = mget d k"
  by (simp add: mergeModel_def Let_def)

lemma delete_other: "k \<noteq> k' \<Longrightarrow> mget (AList.delete k d) k' = mget d k'"
  by (simp add: delete_conv)

lemma fragmentInstructions_other:
  "fragmentInstructions frag d = (xs, d') \<Longrightarrow> k \<noteq> ''instructions'' \<Longrightarrow> mget d' k = mget d k"
  by (auto simp: fragmentInstructions_def Let_def delete_other split: if_splits option.splits gval.splits)

lemma applyInstructions_other:
  "applyInstructions deps agent d = Inr d' \<Longrightarrow> k \<noteq> ''instructions'' \<Longrightarrow> mget d' k = mget d k"
  by (cases "fragmentInstructions (as_Spec (ag_Spec agent)) d")
    (auto simp: applyInstructions_def bindR_Inr_conv Let_def fragmentInstructions_other)

lemma applyModelRef_Inr:
  "applyModelRef nl deps agent ref st = Inr st' \<longleftrightarrow>
   (\<exists>model resolved. resolveProvider deps agent ref = Inr (model, resolved) \<and>
      st' = st\<lparr>cs_Doc := mergeModel nl model resolved (cs_Doc st), cs_ProviderEnv := rp_EnvVars resolved,
               cs_ProviderSecretEnv := rp_SecretEnvVars resolved\<rparr>)"
  by (auto simp: applyModelRef_def bindR_Inr_conv)

text \<open>What one tool reference contributes.\<close>

definition toolCompiles :: "cdeps \<Rightarrow> Agent \<Rightarrow> NamespacedRef \<Rightarrow> AgentTool \<times> gval \<Rightarrow> bool" where
  "toolCompiles deps agent ref te =
     (readTool deps agent ref = Inr (fst te) \<and>
      compileTool deps (fst te) = Inr (snd te, map (headerSecretEnv (om_Name (at_Meta (fst te))))
                                        (ats_HeaderSecrets (at_Spec (fst te)))))"

definition toolEnv :: "AgentTool \<Rightarrow> EnvVar list" where
  "toolEnv tool = map (headerSecretEnv (om_Name (at_Meta tool))) (ats_HeaderSecrets (at_Spec tool))"

lemma compileTool_env: "compileTool deps tool = Inr (e, env) \<Longrightarrow> env = toolEnv tool"
  by (auto simp: compileTool_def toolEnv_def bindR_Inr_conv Let_def)

lemma applyToolTimeout_other: "k \<noteq> ''tool_timeout'' \<Longrightarrow> mget (applyToolTimeout nl frag tool d) k = mget d k"
  by (auto simp: applyToolTimeout_def split: option.splits gval.splits)

lemma applyTool_Inr:
  assumes "applyTool nl deps agent ref st = Inr st'"
  shows "\<exists>te. toolCompiles deps agent ref te \<and>
    st' = st\<lparr>cs_Doc := applyToolTimeout nl (as_Spec (ag_Spec agent)) (fst te) (appendCapability (snd te) (cs_Doc st)),
             cs_SecretEnv := cs_SecretEnv st @ toolEnv (fst te)\<rparr>"
proof -
  from assms obtain tool e env where t: "readTool deps agent ref = Inr tool" "compileTool deps tool = Inr (e, env)"
      "st' = st\<lparr>cs_Doc := applyToolTimeout nl (as_Spec (ag_Spec agent)) tool (appendCapability e (cs_Doc st)),
             cs_SecretEnv := cs_SecretEnv st @ env\<rparr>"
    by (auto simp: applyTool_def bindR_Inr_conv)
  then show ?thesis using compileTool_env[OF t(2)]
    by (intro exI[of _ "(tool, e)"]) (simp add: toolCompiles_def toolEnv_def)
qed

definition toolTimeouts :: "(AgentTool \<times> gval) list \<Rightarrow> int list" where
  "toolTimeouts tes = concat (map (\<lambda>te. case ats_TimeoutSeconds (at_Spec (fst te)) of None \<Rightarrow> [] | Some t \<Rightarrow> [t]) tes)"

text \<open>The effect of one tool on the \<open>tool_timeout\<close> entry.\<close>

definition timeoutStep :: "numlib \<Rightarrow> AgentSpecFragment option \<Rightarrow> AgentTool \<Rightarrow> gval option \<Rightarrow> gval option" where
  "timeoutStep nl frag tool old =
     (case ats_TimeoutSeconds (at_Spec tool) of
        None \<Rightarrow> old
      | Some secs \<Rightarrow>
          if fragmentSetsToolTimeout frag then old
          else case old of
                 Some (GFloat existing) \<Rightarrow> if floatGreater nl (FInt secs) existing then Some (GFloat (FInt secs)) else old
               | _ \<Rightarrow> Some (GFloat (FInt secs)))"

lemma applyToolTimeout_step:
  "mget (applyToolTimeout nl frag tool d) ''tool_timeout'' = timeoutStep nl frag tool (mget d ''tool_timeout'')"
  by (auto simp: applyToolTimeout_def timeoutStep_def split: option.splits gval.splits)

lemma applyTools_Inr:
  "applyTools nl deps agent refs st = Inr st' \<Longrightarrow>
   \<exists>tes. list_all2 (toolCompiles deps agent) refs tes \<and>
     capabilityList (cs_Doc st') = capabilityList (cs_Doc st) @ map snd tes \<and>
     (genericCaps (cs_Doc st) \<longrightarrow> genericCaps (cs_Doc st')) \<and>
     (\<forall>k. k \<noteq> ''capabilities'' \<and> k \<noteq> ''tool_timeout'' \<longrightarrow> mget (cs_Doc st') k = mget (cs_Doc st) k) \<and>
     mget (cs_Doc st') ''tool_timeout'' =
       fold (\<lambda>te. timeoutStep nl (as_Spec (ag_Spec agent)) (fst te)) tes (mget (cs_Doc st) ''tool_timeout'') \<and>
     cs_SecretEnv st' = cs_SecretEnv st @ concat (map (toolEnv \<circ> fst) tes) \<and>
     cs_ProviderEnv st' = cs_ProviderEnv st \<and> cs_ProviderSecretEnv st' = cs_ProviderSecretEnv st"
proof (induction refs arbitrary: st)
  case Nil
  then show ?case by simp
next
  case (Cons ref refs)
  then obtain st1 where st1: "applyTool nl deps agent ref st = Inr st1" "applyTools nl deps agent refs st1 = Inr st'"
    by (auto simp: bindR_Inr_conv)
  from applyTool_Inr[OF st1(1)] obtain te where te: "toolCompiles deps agent ref te"
    "st1 = st\<lparr>cs_Doc := applyToolTimeout nl (as_Spec (ag_Spec agent)) (fst te) (appendCapability (snd te) (cs_Doc st)),
              cs_SecretEnv := cs_SecretEnv st @ toolEnv (fst te)\<rparr>" by blast
  have caps: "mget (cs_Doc st1) ''capabilities'' = mget (appendCapability (snd te) (cs_Doc st)) ''capabilities''"
    by (simp add: te(2) applyToolTimeout_other)
  have st1': "capabilityList (cs_Doc st1) = capabilityList (cs_Doc st) @ [snd te]" "genericCaps (cs_Doc st1)"
    using capabilityList_cong[OF caps] genericCaps_cong[OF caps] by simp_all
  from Cons.IH[OF st1(2)] obtain tes where "list_all2 (toolCompiles deps agent) refs tes"
    and rest: "capabilityList (cs_Doc st') = capabilityList (cs_Doc st1) @ map snd tes"
      "genericCaps (cs_Doc st')"
      "\<forall>k. k \<noteq> ''capabilities'' \<and> k \<noteq> ''tool_timeout'' \<longrightarrow> mget (cs_Doc st') k = mget (cs_Doc st1) k"
      "mget (cs_Doc st') ''tool_timeout'' =
         fold (\<lambda>te. timeoutStep nl (as_Spec (ag_Spec agent)) (fst te)) tes (mget (cs_Doc st1) ''tool_timeout'')"
      "cs_SecretEnv st' = cs_SecretEnv st1 @ concat (map (toolEnv \<circ> fst) tes)"
      "cs_ProviderEnv st' = cs_ProviderEnv st1 \<and> cs_ProviderSecretEnv st' = cs_ProviderSecretEnv st1"
    using st1'(2) by blast
  then show ?case using te st1'
    by (intro exI[of _ "te # tes"]) (simp add: applyToolTimeout_step applyToolTimeout_other comp_def)
qed

lemma fragmentLayer_Inr:
  assumes "fragmentLayer nl agent = Inr d"
  shows "\<exists>extra. extraLayer nl (as_Spec (ag_Spec agent)) = Inr extra \<and> genericCaps d \<and>
    capabilityList d = capabilityList extra @ map (fragmentEntry nl) (fragmentCapabilities agent) \<and>
    mget d ''tool_timeout'' = mget extra ''tool_timeout''"
proof -
  from assms obtain extra where x: "extraLayer nl (as_Spec (ag_Spec agent)) = Inr extra"
    and d: "d = (case as_Spec (ag_Spec agent) of
               None \<Rightarrow> mput ''name'' (GString (om_Name (ag_Meta agent))) extra
             | Some f \<Rightarrow> applyFragment nl f (mput ''name'' (GString (om_Name (ag_Meta agent))) extra))"
    by (auto simp: fragmentLayer_def bindR_Inr_conv Let_def)
  have g: "genericCaps extra"
    using x by (auto simp: extraLayer_def intro: genericCaps_decodeMap
        split: option.splits rawjson.splits json.splits sum.splits)
  let ?d = "mput ''name'' (GString (om_Name (ag_Meta agent))) extra"
  have n: "mget ?d ''capabilities'' = mget extra ''capabilities''" by simp
  have caps: "capabilityList ?d = capabilityList extra" "genericCaps ?d"
    using capabilityList_cong[OF n] genericCaps_cong[OF n] g by simp_all
  show ?thesis using x d caps
    by (auto simp: fragmentCapabilities_def applyFragment_caps applyFragment_generic
        applyFragment_timeout split: option.splits)
qed

text \<open>The model stage, and compilation of the user's layers as its four stages.\<close>

definition modelStage :: "numlib \<Rightarrow> cdeps \<Rightarrow> Agent \<Rightarrow> doc \<Rightarrow> cstate result" where
  "modelStage nl deps agent fd =
     (let st0 = \<lparr>cs_Doc = fd, cs_SecretEnv = [], cs_ProviderEnv = [], cs_ProviderSecretEnv = []\<rparr> in
      case as_ModelRef (ag_Spec agent) of None \<Rightarrow> Inr st0 | Some ref \<Rightarrow> applyModelRef nl deps agent ref st0)"

lemma userLayers_stages:
  assumes "userLayers nl deps agent = Inr st"
  shows "\<exists>fd st1 doc3. fragmentLayer nl agent = Inr fd \<and> modelStage nl deps agent fd = Inr st1 \<and>
    applyInstructions deps agent (cs_Doc st1) = Inr doc3 \<and>
    applyTools nl deps agent (as_Tools (ag_Spec agent)) (st1\<lparr>cs_Doc := doc3\<rparr>) = Inr st"
  using assms by (auto simp: userLayers_def bindR_Inr_conv Let_def modelStage_def)

lemma modelStage_keeps:
  assumes "modelStage nl deps agent fd = Inr st1"
  shows "k \<noteq> ''model'' \<Longrightarrow> k \<noteq> ''model_settings'' \<Longrightarrow> mget (cs_Doc st1) k = mget fd k" and "cs_SecretEnv st1 = []"
  using assms by (auto simp: modelStage_def Let_def applyModelRef_Inr mergeModel_other split: option.splits)

lemma userLayers_Inr:
  assumes "userLayers nl deps agent = Inr st"
  shows "\<exists>fd tes. fragmentLayer nl agent = Inr fd \<and>
    list_all2 (toolCompiles deps agent) (as_Tools (ag_Spec agent)) tes \<and>
    capabilityList (cs_Doc st) = capabilityList fd @ map snd tes \<and> genericCaps (cs_Doc st) \<and>
    mget (cs_Doc st) ''tool_timeout'' =
      fold (\<lambda>te. timeoutStep nl (as_Spec (ag_Spec agent)) (fst te)) tes (mget fd ''tool_timeout'') \<and>
    cs_SecretEnv st = concat (map (toolEnv \<circ> fst) tes)"
proof -
  from userLayers_stages[OF assms] obtain fd st1 doc3 where fd: "fragmentLayer nl agent = Inr fd"
    and st1: "modelStage nl deps agent fd = Inr st1" and d3: "applyInstructions deps agent (cs_Doc st1) = Inr doc3"
    and tools: "applyTools nl deps agent (as_Tools (ag_Spec agent)) (st1\<lparr>cs_Doc := doc3\<rparr>) = Inr st"
    by blast
  have keep: "k \<noteq> ''model'' \<Longrightarrow> k \<noteq> ''model_settings'' \<Longrightarrow> k \<noteq> ''instructions'' \<Longrightarrow> mget doc3 k = mget fd k" for k
    using applyInstructions_other[OF d3, of k] modelStage_keeps(1)[OF st1, of k] by simp
  have c: "capabilityList doc3 = capabilityList fd" "genericCaps doc3" "mget doc3 ''tool_timeout'' = mget fd ''tool_timeout''"
    using capabilityList_cong[of doc3 fd] genericCaps_cong[of doc3 fd] keep fragmentLayer_Inr[OF fd] by auto
  from applyTools_Inr[OF tools] fd c modelStage_keeps(2)[OF st1] show ?thesis by fastforce
qed

subsection \<open>The finished document\<close>

lemma ofJson_caps: "capabilityList (map (map_prod id ofJson) doc) = map ofJson (jsonCapabilities doc)"
proof -
  have "mget (map (map_prod id ofJson) doc) k = map_option ofJson (mget doc k)" for k
    by (induction doc) auto
  then show ?thesis
    by (auto simp: capabilityList_def jsonCapabilities_def split: option.splits json.splits)
qed

lemma splice_layout:
  assumes s: "spliceCapabilities entries n doc = Inr doc'"
    and wf: "wfj (JObj doc)"
    and caps: "jsonCapabilities doc = ju @ ji" "length ji = n"
  shows "\<exists>je. mapR canon entries = Inr je \<and> jsonCapabilities doc' = ju @ je @ ji"
proof (cases "entries = []")
  case True
  then show ?thesis using s caps by (simp add: spliceCapabilities_def)
next
  case False
  let ?d = "mput ''capabilities'' (GList (map ofJson ju @ entries @ map ofJson ji)) (map (map_prod id ofJson) doc)"
  have c: "canonicalize ?d = Inr doc'"
    using s False caps by (auto simp: spliceCapabilities_def Let_def ofJson_caps split: sum.splits)
  have "mapR canon (map ofJson ju @ entries @ map ofJson ji) = Inr (jsonCapabilities doc')"
    using canonicalize_caps[OF c] by (simp add: genericCaps_def capabilityList_def)
  moreover have "wfj x" if x: "x \<in> set (jsonCapabilities doc)" for x
  proof -
    from x obtain xs where "mget doc ''capabilities'' = Some (JArr xs)" "x \<in> set xs"
      by (force simp: jsonCapabilities_def split: option.splits json.splits)
    then show ?thesis using wf map_of_SomeD[of doc "''capabilities''" "JArr xs"] by auto
  qed
  then have "mapR canon (map ofJson ju) = Inr ju" "mapR canon (map ofJson ji) = Inr ji"
    using caps(1) by (auto intro!: mapR_map_id canon_ofJson)
  ultimately show ?thesis by (auto simp: mapR_append)
qed

lemma finishDoc_layout:
  assumes f: "finishDoc cl rv (length is) caps doc = Inr (doc2, digest, out)"
    and g: "genericCaps doc" and l: "capabilityList doc = us @ is"
  shows "\<exists>ju je ji. mapR canon us = Inr ju \<and> mapR canon (map attachmentEntry caps) = Inr je \<and>
           mapR canon is = Inr ji \<and> jsonCapabilities doc2 = ju @ je @ ji"
proof -
  from f obtain doc1 where d1: "canonicalize doc = Inr doc1"
    and s: "spliceCapabilities (map attachmentEntry caps) (length is) doc1 = Inr doc2"
    by (auto simp: finishDoc_def bindR_Inr_conv case_Inr_conv split: option.split_asm)
  from canonicalize_caps[OF d1 g] l obtain ju ji where
    j: "mapR canon us = Inr ju" "mapR canon is = Inr ji" "jsonCapabilities doc1 = ju @ ji"
    by (auto simp: mapR_append)
  from splice_layout[OF s canonicalize_wf[OF d1] j(3)] mapR_Inr_length[OF j(2)] j show ?thesis by auto
qed

lemma Compile_Inr:
  assumes "Compile cl deps opts agent = Inr res"
  shows "\<exists>st caps digest out. userLayers (cl_num cl) deps agent = Inr st \<and>
    resolveCapabilities cl deps opts agent (resolvedRunnerVersion opts agent) = Inr caps \<and>
    finishDoc cl (resolvedRunnerVersion opts agent) (length (opt_Injected opts)) caps
      (fold (\<lambda>ic. appendCapability (injectedEntry ic)) (opt_Injected opts) (cs_Doc st)) = Inr (res_Doc res, digest, out) \<and>
    res = \<lparr>res_Doc = res_Doc res, res_YAML = out, res_Hash = JSONStruct (cl_spec cl) (JObj (res_Doc res)),
           res_RunnerVersion = resolvedRunnerVersion opts agent, res_SchemaDigest = digest,
           res_Injected = map inj_Name (opt_Injected opts),
           res_SecretEnv = cs_SecretEnv st @ agentSecretEnv agent,
           res_ProviderEnv = cs_ProviderEnv st, res_ProviderSecretEnv = cs_ProviderSecretEnv st,
           res_CapabilityArtifacts = map artifactOf caps\<rparr>"
  using assms by (auto simp: Compile_def Let_def bindR_Inr_conv)

text \<open>C1. The compiled document's capability list is, in this order: the entries of the extra layer,
  the fragment's own entries, one entry per tool reference, one entry per capability attachment,
  and the injected platform entries last, each in declared order; nothing is dropped, duplicated
  or reordered.\<close>

theorem Compile_capability_layout:
  assumes "Compile cl deps opts agent = Inr res"
  shows "\<exists>extra tes caps ju je ji.
    extraLayer (cl_num cl) (as_Spec (ag_Spec agent)) = Inr extra \<and>
    list_all2 (toolCompiles deps agent) (as_Tools (ag_Spec agent)) tes \<and>
    resolveCapabilities cl deps opts agent (resolvedRunnerVersion opts agent) = Inr caps \<and>
    mapR canon (capabilityList extra @ map (fragmentEntry (cl_num cl)) (fragmentCapabilities agent) @ map snd tes) = Inr ju \<and>
    mapR canon (map attachmentEntry caps) = Inr je \<and>
    mapR canon (map injectedEntry (opt_Injected opts)) = Inr ji \<and>
    jsonCapabilities (res_Doc res) = ju @ je @ ji"
proof -
  from Compile_Inr[OF assms] obtain st caps digest out where
    st: "userLayers (cl_num cl) deps agent = Inr st" and
    caps: "resolveCapabilities cl deps opts agent (resolvedRunnerVersion opts agent) = Inr caps" and
    fin: "finishDoc cl (resolvedRunnerVersion opts agent) (length (map injectedEntry (opt_Injected opts))) caps
      (fold (\<lambda>ic. appendCapability (injectedEntry ic)) (opt_Injected opts) (cs_Doc st)) = Inr (res_Doc res, digest, out)"
    by auto
  from userLayers_Inr[OF st] obtain fd tes where
    u: "fragmentLayer (cl_num cl) agent = Inr fd" "list_all2 (toolCompiles deps agent) (as_Tools (ag_Spec agent)) tes"
       "capabilityList (cs_Doc st) = capabilityList fd @ map snd tes" "genericCaps (cs_Doc st)"
    by blast
  from fragmentLayer_Inr[OF u(1)] obtain extra where
    x: "extraLayer (cl_num cl) (as_Spec (ag_Spec agent)) = Inr extra"
       "capabilityList fd = capabilityList extra @ map (fragmentEntry (cl_num cl)) (fragmentCapabilities agent)"
    by blast
  from finishDoc_layout[OF fin genericCaps_fold[OF u(4)] append_fold_list] u(2,3) x caps
  show ?thesis by auto
qed

subsection \<open>A concrete composition\<close>

text \<open>
  An Agent with a native capability, a tool, a capability attachment and an injected platform
  capability, over libraries that accept everything. Witnesses evaluate on it.
\<close>

definition demoSpecLib :: "unit speclib" where
  "demoSpecLib =
     \<lparr>sl_js = \<lparr>js_AddResource = (\<lambda>u d. None), js_Compile = (\<lambda>l u d. Inr ()), js_Validate = (\<lambda>s d. None),
               js_LocalizedString = (\<lambda>k. ''invalid'')\<rparr>,
      sl_defaultLoader = (\<lambda>u. Inl (Errorf ''no loader'' [])),
      sl_schemaFS = [(''schemas/agentspec-1.json'', ''{}'')],
      sl_baselineFS = [(''baselines/runner-baseline-1.json'', ''{}'')],
      sl_parse = (\<lambda>s. Raw (JObj [])), sl_sha256hex = (\<lambda>s. s)\<rparr>"

definition demoLib :: "(unit, unit, unit) clib" where
  "demoLib =
     \<lparr>cl_spec = demoSpecLib,
      cl_pep = \<lparr>pep_NewSpecifiers = (\<lambda>s. Inr ()), pep_Parse = (\<lambda>s. Inr ()), pep_Check = (\<lambda>s v. True)\<rparr>,
      cl_num = \<lparr>nl_float = (\<lambda>s. s), nl_greater = (\<lambda>a b. False), nl_yaml = (\<lambda>d. Inr '''')\<rparr>,
      cl_k8s = stdlib\<rparr>"

definition demoTool :: AgentTool where
  "demoTool =
     \<lparr>at_Meta = objectMeta ''search'' ''ns'' [] [],
      at_Spec = \<lparr>ats_Type = AgentToolTypeMCP, ats_Description = '''', ats_URL = ''http://x'', ats_ServiceRef = None,
        ats_Path = '''', ats_Transport = MCPTransportUnset, ats_Headers = [],
        ats_HeaderSecrets = [\<lparr>sh_Name = ''Auth'', sh_SecretRef = \<lparr>sks_Name = ''s'', sks_Key = ''k'', sks_Optional = None\<rparr>\<rparr>],
        ats_ToolPrefix = '''', ats_AllowedTools = [], ats_TimeoutSeconds = Some 30\<rparr>,
      at_Status = \<lparr>atst_Conditions = [], atst_ObservedGeneration = 0\<rparr>\<rparr>"

definition demoVerified :: Condition where
  "demoVerified = \<lparr>c_Type = CapabilityConditionVerified, c_Status = ConditionTrue, c_ObservedGeneration = 0,
     c_LastTransitionTime = 0, c_Reason = CapabilityVerifiedReasonVerified, c_Message = NoText\<rparr>"

definition demoCapability :: Capability where
  "demoCapability =
     \<lparr>cap_Meta = objectMeta ''memory'' ''ns'' [] [],
      cap_Spec = \<lparr>caps_Artifact = ''oci://m'', caps_Version = ''1'', caps_Entrypoint = ''pkg:Memory'',
        caps_SerializationName = '''', caps_ConfigSchema = None, caps_SchemaPolicy = SchemaPolicyPermissive,
        caps_Requires = \<lparr>creq_Python = '''', creq_PydanticAI = '''', creq_FlokoaRunner = ''''\<rparr>,
        caps_Dependencies = [''redis==5.0''], caps_Provenance = None\<rparr>,
      cap_Status = \<lparr>capst_Conditions = [demoVerified], capst_ObservedGeneration = 0\<rparr>\<rparr>"

definition demoModel :: Model where
  "demoModel =
     \<lparr>mdl_Meta = objectMeta ''m'' ''ns'' [] [],
      mdl_Spec = \<lparr>mdls_Model = ''gpt'', mdls_ProviderRef = \<lparr>pref_Name = ''p'', pref_Namespace = ''''\<rparr>,
                  mdls_Settings = None\<rparr>,
      mdl_Status = \<lparr>mdlst_Conditions = [], mdlst_ObservedGeneration = 0, mdlst_ResolvedProvider = None,
                    mdlst_Ready = True\<rparr>\<rparr>"

definition demoDeps :: cdeps where
  "demoDeps =
     \<lparr>cd_GetModel = (\<lambda>k. Inr demoModel), cd_GetModelProvider = (\<lambda>k. Inr someProvider),
      cd_GetInstruction = (\<lambda>k. Inl (ApiError StatusNotFound ''instruction'')),
      cd_GetAgentTool = (\<lambda>k. Inr demoTool), cd_GetCapability = Some (\<lambda>k. Inr demoCapability),
      cd_GetService = (\<lambda>k. Inl (ApiError StatusNotFound ''service'')),
      cd_GetProviderHandler = GetProviderHandler\<rparr>"

definition demoOptions :: Options where
  "demoOptions = \<lparr>opt_DefaultRunnerVersion = ''1'',
     opt_Injected = [\<lparr>inj_Name = ''flokoa.platform/telemetry'', inj_Config = []\<rparr>], opt_RequireVerified = True\<rparr>"

definition demoFragment :: AgentSpecFragment where
  "demoFragment = \<lparr>frag_Model = '''', frag_Name = '''', frag_Description = '''', frag_Instructions = [''be kind''],
     frag_ModelSettings = None, frag_OutputSchema = None,
     frag_Capabilities = [\<lparr>nce_Name = ''WebSearch'', nce_Config = None\<rparr>], frag_Extra = None\<rparr>"

definition demoAgent :: Agent where
  "demoAgent =
     \<lparr>ag_Meta = objectMeta ''a'' ''ns'' [] [],
      ag_Spec = \<lparr>as_Spec = Some demoFragment, as_ModelRef = Some \<lparr>nr_Name = ''m'', nr_Namespace = ''''\<rparr>,
        as_InstructionRefs = [], as_Tools = [\<lparr>nr_Name = ''search'', nr_Namespace = ''''\<rparr>],
        as_Capabilities = [\<lparr>att_Ref = \<lparr>nr_Name = ''memory'', nr_Namespace = ''''\<rparr>, att_Config = None\<rparr>],
        as_SecretRefs = [(''db-pass'', \<lparr>sks_Name = ''db'', sks_Key = ''pw'', sks_Optional = None\<rparr>)],
        as_Card = \<lparr>card_Name = '''', card_Description = '''', card_Version = '''', card_DefaultInputModes = [],
          card_DefaultOutputModes = [],
          card_Capabilities = \<lparr>acap_Extensions = [], acap_PushNotifications = False,
            acap_StateTransitionHistory = False, acap_Streaming = False\<rparr>, card_Skills = []\<rparr>,
        as_Runtime = \<lparr>rt_Image = '''', rt_RunnerVersion = '''', rt_Isolation = IsolationUnset, rt_Env = [],
          rt_Resources = None,
          rt_DeploymentOverrides = \<lparr>do_Replicas = None, do_ImagePullSecrets = [], do_ServiceAccountName = '''',
            do_SecurityContext = None, do_NodeSelector = [], do_Tolerations = [], do_Affinity = None\<rparr>\<rparr>\<rparr>,
      ag_Status = \<lparr>ast_Phase = AgentPhaseUnset, ast_URL = '''', ast_SpecHash = '''', ast_RunnerVersion = '''',
        ast_InjectedCapabilities = [], ast_Replicas = 0, ast_AvailableReplicas = 0, ast_Conditions = [],
        ast_ObservedGeneration = 0\<rparr>\<rparr>"

lemma demo_compiles: "\<exists>r. Compile demoLib demoDeps demoOptions demoAgent = Inr r"
proof -
  have "(case Compile demoLib demoDeps demoOptions demoAgent of Inr r \<Rightarrow> True | Inl e \<Rightarrow> False)"
    by code_simp
  then show ?thesis by (simp split: sum.splits)
qed

theorem Compile_capability_layout_witness:
  "\<exists>res. Compile demoLib demoDeps demoOptions demoAgent = Inr res \<and> (\<exists>extra tes caps ju je ji.
    extraLayer (cl_num demoLib) (as_Spec (ag_Spec demoAgent)) = Inr extra \<and>
    list_all2 (toolCompiles demoDeps demoAgent) (as_Tools (ag_Spec demoAgent)) tes \<and>
    resolveCapabilities demoLib demoDeps demoOptions demoAgent (resolvedRunnerVersion demoOptions demoAgent) = Inr caps \<and>
    mapR canon (capabilityList extra @ map (fragmentEntry (cl_num demoLib)) (fragmentCapabilities demoAgent) @ map snd tes) = Inr ju \<and>
    mapR canon (map attachmentEntry caps) = Inr je \<and>
    mapR canon (map injectedEntry (opt_Injected demoOptions)) = Inr ji \<and>
    jsonCapabilities (res_Doc res) = ju @ je @ ji)"
  using demo_compiles Compile_capability_layout by blast

subsection \<open>Attachments\<close>

text \<open>The conditions under which one attachment contributes \<open>rc\<close>.\<close>

definition attachmentAdmitted ::
  "('sc, 'sp, 'v) clib \<Rightarrow> (NamespacedName \<Rightarrow> Capability result) \<Rightarrow> bool \<Rightarrow> RunnerInfo \<Rightarrow> Agent
   \<Rightarrow> CapabilityAttachment \<Rightarrow> resolvedCap \<Rightarrow> bool" where
  "attachmentAdmitted cl getCap requireVerified runner agent att rc \<longleftrightarrow>
     rc_Key rc = refKey agent (att_Ref att) \<and>
     nn_Namespace (rc_Key rc) = om_Namespace (ag_Meta agent) \<and>
     getCap (rc_Key rc) = Inr (rc_CR rc) \<and>
     (requireVerified \<longrightarrow>
        cond_status (cl_k8s cl) (capst_Conditions (cap_Status (rc_CR rc))) CapabilityConditionVerified = Some ConditionTrue) \<and>
     CheckRequires (cl_pep cl) (om_Name (cap_Meta (rc_CR rc))) (requiresOf (rc_CR rc)) runner = None \<and>
     checkAttachmentConfig (sl_js (cl_spec cl)) (nn_String (rc_Key rc)) (rc_CR rc) att = None \<and>
     decodeAttachmentConfig (cl_num cl) (nn_String (rc_Key rc)) att = Inr (rc_Config rc) \<and>
     rc_EntryName rc = EntryName (caps_Entrypoint (cap_Spec (rc_CR rc))) (caps_SerializationName (cap_Spec (rc_CR rc))) \<and>
     ValidateEntryName (rc_EntryName rc) = None"

lemma checkVerified_None:
  "checkVerified lib k c = None \<longleftrightarrow>
   cond_status lib (capst_Conditions (cap_Status c)) CapabilityConditionVerified = Some ConditionTrue"
  by (auto simp: checkVerified_def cond_status_def split: option.splits ConditionStatus.splits)

lemma guardR_Inr [simp]: "guardR e = Inr u \<longleftrightarrow> e = None"
  by (auto simp: guardR_def split: option.splits)

lemma permanently_None [simp]: "permanently e = None \<longleftrightarrow> e = None"
  by (auto simp: permanently_def split: option.splits)

lemma claimEntryName_Inr:
  "claimEntryName k c owners = Inr n \<longleftrightarrow>
   n = EntryName (caps_Entrypoint (cap_Spec c)) (caps_SerializationName (cap_Spec c)) \<and>
   ValidateEntryName n = None \<and> mget owners n = None"
  by (auto simp: claimEntryName_def Let_def split: option.splits)

lemma resolveAttachment_Inr:
  "resolveAttachment cl getCap rv runner agent owners seen att = Inr rc \<longleftrightarrow>
   attachmentAdmitted cl getCap rv runner agent att rc \<and>
   nn_String (rc_Key rc) \<notin> set seen \<and> mget owners (rc_EntryName rc) = None"
  by (cases rc) (auto simp: resolveAttachment_def attachmentAdmitted_def Let_def bindR_Inr_conv case_Inr_conv
      checkVerified_None claimEntryName_Inr refKey_def split: if_splits)

lemma resolveAttachments_Inr:
  "resolveAttachments cl getCap rv runner agent owners seen atts = Inr rcs \<longleftrightarrow>
   list_all2 (attachmentAdmitted cl getCap rv runner agent) atts rcs \<and>
   distinct (map (nn_String \<circ> rc_Key) rcs) \<and> set (map (nn_String \<circ> rc_Key) rcs) \<inter> set seen = {} \<and>
   distinct (map rc_EntryName rcs) \<and> (\<forall>rc \<in> set rcs. mget owners (rc_EntryName rc) = None)"
proof (induction atts arbitrary: owners seen rcs)
  case Nil
  then show ?case by auto
next
  case (Cons att atts)
  show ?case
  proof (cases rcs)
    case Nil
    then show ?thesis by (auto simp: bindR_Inr_conv)
  next
    case (Cons rc rcs')
    have "resolveAttachments cl getCap rv runner agent owners seen (att # atts) = Inr rcs \<longleftrightarrow>
        resolveAttachment cl getCap rv runner agent owners seen att = Inr rc \<and>
        resolveAttachments cl getCap rv runner agent (mput (rc_EntryName rc) (nn_String (rc_Key rc)) owners)
          (nn_String (rc_Key rc) # seen) atts = Inr rcs'"
      using Cons by (auto simp: bindR_Inr_conv)
    then show ?thesis
      unfolding resolveAttachment_Inr Cons.IH using Cons
      by (auto simp: comp_def image_iff eq_commute[of "rc_EntryName rc"] split: if_splits)
  qed
qed

lemma mget_fold_mput: "mget (fold (\<lambda>x. mput (f x) (c x)) xs m) k = None \<longleftrightarrow> k \<notin> f ` set xs \<and> mget m k = None"
  by (induction xs arbitrary: m) auto

lemma claimedNames_None:
  "mget (claimedNames opts agent) n = None \<longleftrightarrow>
   n \<notin> inj_Name ` set (opt_Injected opts) \<and> n \<notin> nce_Name ` set (fragmentCapabilities agent)"
  by (simp add: claimedNames_def mget_fold_mput)

text \<open>The contract of a whole attachment list.\<close>

definition attachmentsAdmitted ::
  "('sc, 'sp, 'v) clib \<Rightarrow> cdeps \<Rightarrow> Options \<Rightarrow> Agent \<Rightarrow> string \<Rightarrow> resolvedCap list \<Rightarrow> bool" where
  "attachmentsAdmitted cl deps opts agent rv rcs \<longleftrightarrow>
     (\<exists>getCap runner. cd_GetCapability deps = Some getCap \<and> RunnerBaseline (cl_spec cl) rv = Inr runner \<and>
        list_all2 (attachmentAdmitted cl getCap (opt_RequireVerified opts) runner agent)
          (as_Capabilities (ag_Spec agent)) rcs \<and>
        distinct (map (nn_String \<circ> rc_Key) rcs) \<and>
        distinct (map rc_EntryName rcs) \<and>
        rc_EntryName ` set rcs \<inter> (inj_Name ` set (opt_Injected opts) \<union> nce_Name ` set (fragmentCapabilities agent)) = {} \<and>
        pinsCoherent runner (map depsOfCap rcs))"

text \<open>C21. An Agent with attachments passes \<open>resolveCapabilities\<close> exactly when every attachment names a
  Capability of the Agent's own namespace that exists, satisfies the requires tuple of the runner
  and, under the requireVerified policy, carries Verified=True; its config passes the published
  schema; no Capability is attached twice; the entry names are valid, pairwise distinct and
  different from the fragment's and the platform's; and all pinned dependencies agree.\<close>

theorem resolveCapabilities_iff:
  "resolveCapabilities cl deps opts agent rv = Inr rcs \<longleftrightarrow>
   (if as_Capabilities (ag_Spec agent) = [] then rcs = [] else attachmentsAdmitted cl deps opts agent rv rcs)"
proof -
  have conf: "(case DetectConflicts (map depsOfCap xs) r of [] \<Rightarrow> Inr xs
                | msg # msgs \<Rightarrow> Inl (e msg msgs)) = Inr rcs \<longleftrightarrow> xs = rcs \<and> pinsCoherent r (map depsOfCap rcs)" for xs r e
    using DetectConflicts_iff_pinsCoherent[of "map depsOfCap xs" r]
    by (cases "DetectConflicts (map depsOfCap xs) r") auto
  show ?thesis
    unfolding resolveCapabilities_def attachmentsAdmitted_def
    by (auto simp: bindR_Inr_conv case_Inr_conv conf resolveAttachments_Inr claimedNames_None split: option.splits)
qed

text \<open>
  Two clusters look the same from an Agent's namespace when their readers differ at most on
  Capabilities of other namespaces.
\<close>

definition sameNamespaceView :: "Agent \<Rightarrow> cdeps \<Rightarrow> cdeps \<Rightarrow> bool" where
  "sameNamespaceView agent deps deps' \<longleftrightarrow>
     (\<exists>g g'. cd_GetCapability deps = Some g \<and> deps' = deps\<lparr>cd_GetCapability := Some g'\<rparr> \<and>
        (\<forall>k. nn_Namespace k = om_Namespace (ag_Meta agent) \<longrightarrow> g k = g' k))"

lemma resolveAttachment_confined:
  assumes "\<forall>k. nn_Namespace k = om_Namespace (ag_Meta agent) \<longrightarrow> g k = g' k"
  shows "resolveAttachment cl g rv runner agent owners seen att = resolveAttachment cl g' rv runner agent owners seen att"
  using assms by (simp add: resolveAttachment_def Let_def)

lemma resolveAttachments_confined:
  assumes "\<forall>k. nn_Namespace k = om_Namespace (ag_Meta agent) \<longrightarrow> g k = g' k"
  shows "resolveAttachments cl g rv runner agent owners seen atts = resolveAttachments cl g' rv runner agent owners seen atts"
  by (induction atts arbitrary: owners seen) (simp_all add: resolveAttachment_confined[OF assms])

lemma applyTools_capability_independent:
  "applyTools nl (deps\<lparr>cd_GetCapability := g\<rparr>) agent refs st = applyTools nl deps agent refs st"
proof -
  have p: "resolveToolPort (deps\<lparr>cd_GetCapability := g\<rparr>) = resolveToolPort deps"
    by (intro ext) (simp add: resolveToolPort_def cong: sum.case_cong option.case_cong if_cong)
  have u: "resolveToolURL (deps\<lparr>cd_GetCapability := g\<rparr>) = resolveToolURL deps"
    by (intro ext) (simp add: resolveToolURL_def p Let_def cong: option.case_cong if_cong)
  have c: "compileTool (deps\<lparr>cd_GetCapability := g\<rparr>) = compileTool deps"
    by (intro ext) (simp add: compileTool_def u)
  have "readTool (deps\<lparr>cd_GetCapability := g\<rparr>) = readTool deps"
    by (intro ext) (simp add: readTool_def)
  then have "applyTool nl (deps\<lparr>cd_GetCapability := g\<rparr>) = applyTool nl deps"
    by (intro ext) (simp add: applyTool_def c)
  then have "applyTools nl (deps\<lparr>cd_GetCapability := g\<rparr>) agent refs = applyTools nl deps agent refs"
    by (induction refs) (intro ext, simp)+
  then show ?thesis by simp
qed

lemma userLayers_capability_independent:
  "userLayers nl (deps\<lparr>cd_GetCapability := g\<rparr>) agent = userLayers nl deps agent"
proof -
  have "readInstruction (deps\<lparr>cd_GetCapability := g\<rparr>) agent = readInstruction deps agent"
    by (intro ext) (simp add: readInstruction_def)
  then have "applyInstructions (deps\<lparr>cd_GetCapability := g\<rparr>) agent = applyInstructions deps agent"
    by (intro ext) (simp add: applyInstructions_def)
  moreover have "resolveProvider (deps\<lparr>cd_GetCapability := g\<rparr>) agent = resolveProvider deps agent"
    by (intro ext) (simp add: resolveProvider_def Let_def cong: sum.case_cong option.case_cong if_cong)
  then have "applyModelRef nl (deps\<lparr>cd_GetCapability := g\<rparr>) agent = applyModelRef nl deps agent"
    by (intro ext) (simp add: applyModelRef_def)
  ultimately show ?thesis
    by (simp add: userLayers_def applyTools_capability_independent Let_def cong: option.case_cong)
qed

text \<open>C22. Compilation never depends on Capabilities outside the Agent's namespace: changing, adding or
  deleting foreign Capabilities changes neither the compiled result nor the error reported.\<close>

theorem Compile_capability_confinement:
  assumes "sameNamespaceView agent deps deps'"
  shows "Compile cl deps' opts agent = Compile cl deps opts agent"
proof -
  from assms obtain g g' where g: "cd_GetCapability deps = Some g" "deps' = deps\<lparr>cd_GetCapability := Some g'\<rparr>"
      "\<forall>k. nn_Namespace k = om_Namespace (ag_Meta agent) \<longrightarrow> g k = g' k"
    unfolding sameNamespaceView_def by blast
  have "resolveCapabilities cl deps' opts agent rv = resolveCapabilities cl deps opts agent rv" for rv
    using g(1,2) by (simp add: resolveCapabilities_def resolveAttachments_confined[OF g(3)] cong: sum.case_cong)
  then show ?thesis using g(2) by (simp add: Compile_def userLayers_capability_independent)
qed

theorem Compile_capability_confinement_witness:
  "Compile demoLib (demoDeps\<lparr>cd_GetCapability :=
     Some (\<lambda>k. if nn_Namespace k = ''ns'' then Inr demoCapability else Inl (ApiError StatusNotFound ''cap''))\<rparr>)
     demoOptions demoAgent = Compile demoLib demoDeps demoOptions demoAgent"
  by (rule Compile_capability_confinement)
    (auto simp: sameNamespaceView_def demoDeps_def demoAgent_def objectMeta_def)

subsection \<open>Model, settings, instructions and timeouts\<close>

definition settingAt :: "doc \<Rightarrow> string \<Rightarrow> gval option" where
  "settingAt d k = (case mget d ''model_settings'' of Some (GMap m) \<Rightarrow> mget m k | _ \<Rightarrow> None)"

definition inlineModel :: "doc \<Rightarrow> string" where
  "inlineModel d = (case mget d ''model'' of Some (GString s) \<Rightarrow> s | _ \<Rightarrow> '''')"

definition modelSettings :: "numlib \<Rightarrow> Model \<Rightarrow> doc" where
  "modelSettings nl m = (case mdls_Settings (mdl_Spec m) of None \<Rightarrow> [] | Some s \<Rightarrow> settingsToMap nl s)"

lemma settingAt_cong: "mget d ''model_settings'' = mget d' ''model_settings'' \<Longrightarrow> settingAt d k = settingAt d' k"
  by (simp add: settingAt_def)

lemma mergeModel_settings:
  "settingAt (mergeModel nl m r d) k = (case settingAt d k of Some v \<Rightarrow> Some v | None \<Rightarrow> mget (modelSettings nl m) k)"
  by (auto simp: mergeModel_def Let_def settingAt_def modelSettings_def mget_overlay split: option.splits gval.splits)

lemma mergeModel_model:
  "inlineModel (mergeModel nl m r d) =
   (if inlineModel d = '''' then QualifiedModelName (rp_ModelPrefix r) (mdls_Model (mdl_Spec m)) else inlineModel d)"
  by (auto simp: mergeModel_def Let_def inlineModel_def)

text \<open>With a model reference, the compiled model is the inline one when the fragment or its extra
  layer sets it and the qualified name of the referenced Model otherwise; every model setting comes
  from the inline settings when they define the key and from the referenced Model otherwise; and
  the provider's environment is projected either way.\<close>

theorem userLayers_model_precedence:
  assumes "userLayers nl deps agent = Inr st" and "as_ModelRef (ag_Spec agent) = Some ref"
    and "fragmentLayer nl agent = Inr fd"
  shows "\<exists>model resolved. resolveProvider deps agent ref = Inr (model, resolved) \<and>
    inlineModel (cs_Doc st) = (if inlineModel fd = ''''
       then QualifiedModelName (rp_ModelPrefix resolved) (mdls_Model (mdl_Spec model)) else inlineModel fd) \<and>
    (\<forall>k. settingAt (cs_Doc st) k = (case settingAt fd k of Some v \<Rightarrow> Some v | None \<Rightarrow> mget (modelSettings nl model) k)) \<and>
    cs_ProviderEnv st = rp_EnvVars resolved \<and> cs_ProviderSecretEnv st = rp_SecretEnvVars resolved"
proof -
  from userLayers_stages[OF assms(1)] assms(3) obtain st1 doc3 where
    m: "modelStage nl deps agent fd = Inr st1" and d3: "applyInstructions deps agent (cs_Doc st1) = Inr doc3"
    and t: "applyTools nl deps agent (as_Tools (ag_Spec agent)) (st1\<lparr>cs_Doc := doc3\<rparr>) = Inr st"
    by auto
  from m assms(2) obtain model resolved where
    r: "resolveProvider deps agent ref = Inr (model, resolved)"
    and st1: "st1 = \<lparr>cs_Doc = mergeModel nl model resolved fd, cs_SecretEnv = [],
                cs_ProviderEnv = rp_EnvVars resolved, cs_ProviderSecretEnv = rp_SecretEnvVars resolved\<rparr>"
    by (auto simp: modelStage_def applyModelRef_Inr)
  from applyTools_Inr[OF t] have
    k: "\<forall>k. k \<noteq> ''capabilities'' \<and> k \<noteq> ''tool_timeout'' \<longrightarrow> mget (cs_Doc st) k = mget doc3 k"
    and e: "cs_ProviderEnv st = cs_ProviderEnv st1" "cs_ProviderSecretEnv st = cs_ProviderSecretEnv st1"
    by auto
  have "mget (cs_Doc st) ''model'' = mget (mergeModel nl model resolved fd) ''model''"
    using k[rule_format, of "''model''"] applyInstructions_other[OF d3, of "''model''"] st1 by simp
  then have "inlineModel (cs_Doc st) = inlineModel (mergeModel nl model resolved fd)"
    by (simp add: inlineModel_def)
  moreover have "mget (cs_Doc st) ''model_settings'' = mget (mergeModel nl model resolved fd) ''model_settings''"
    using k[rule_format, of "''model_settings''"] applyInstructions_other[OF d3, of "''model_settings''"] st1 by simp
  then have "settingAt (cs_Doc st) k = settingAt (mergeModel nl model resolved fd) k" for k
    by (simp add: settingAt_def)
  ultimately show ?thesis using r e st1 by (simp add: mergeModel_settings mergeModel_model)
qed

theorem userLayers_model_precedence_witness:
  "\<exists>st fd. userLayers (cl_num demoLib) demoDeps demoAgent = Inr st \<and> fragmentLayer (cl_num demoLib) demoAgent = Inr fd \<and>
   (\<exists>model resolved. resolveProvider demoDeps demoAgent \<lparr>nr_Name = ''m'', nr_Namespace = ''''\<rparr> = Inr (model, resolved) \<and>
    inlineModel (cs_Doc st) = (if inlineModel fd = ''''
       then QualifiedModelName (rp_ModelPrefix resolved) (mdls_Model (mdl_Spec model)) else inlineModel fd) \<and>
    (\<forall>k. settingAt (cs_Doc st) k =
       (case settingAt fd k of Some v \<Rightarrow> Some v | None \<Rightarrow> mget (modelSettings (cl_num demoLib) model) k)) \<and>
    cs_ProviderEnv st = rp_EnvVars resolved \<and> cs_ProviderSecretEnv st = rp_SecretEnvVars resolved)"
proof -
  obtain st where st: "userLayers (cl_num demoLib) demoDeps demoAgent = Inr st"
    using demo_compiles Compile_Inr by blast
  then obtain fd where fd: "fragmentLayer (cl_num demoLib) demoAgent = Inr fd" using userLayers_Inr by blast
  have "as_ModelRef (ag_Spec demoAgent) = Some \<lparr>nr_Name = ''m'', nr_Namespace = ''''\<rparr>" by (simp add: demoAgent_def)
  from userLayers_model_precedence[OF st this fd] st fd show ?thesis by blast
qed

text \<open>The compiled instructions are the contents of the referenced Instructions in declared order
  followed by the inline ones (the fragment's, or else the extra layer's).\<close>

theorem userLayers_instruction_order:
  assumes "userLayers nl deps agent = Inr st" and "fragmentLayer nl agent = Inr fd"
    and "as_InstructionRefs (ag_Spec agent) \<noteq> [] \<or> fst (fragmentInstructions (as_Spec (ag_Spec agent)) fd) \<noteq> []"
  shows "\<exists>contents. mapR (readInstruction deps agent) (as_InstructionRefs (ag_Spec agent)) = Inr contents \<and>
    mget (cs_Doc st) ''instructions'' =
      Some (GStrings (contents @ fst (fragmentInstructions (as_Spec (ag_Spec agent)) fd)))"
proof -
  from userLayers_stages[OF assms(1)] assms(2) obtain st1 doc3 where
    m: "modelStage nl deps agent fd = Inr st1" and d3: "applyInstructions deps agent (cs_Doc st1) = Inr doc3"
    and t: "applyTools nl deps agent (as_Tools (ag_Spec agent)) (st1\<lparr>cs_Doc := doc3\<rparr>) = Inr st"
    by auto
  have same: "fst (fragmentInstructions frag (cs_Doc st1)) = fst (fragmentInstructions frag fd)" for frag
    using modelStage_keeps(1)[OF m, of "''instructions''"]
    by (simp add: fragmentInstructions_def Let_def split: option.splits gval.splits)
  from d3 obtain contents where c: "mapR (readInstruction deps agent) (as_InstructionRefs (ag_Spec agent)) = Inr contents"
    and d: "(let xs = contents @ fst (fragmentInstructions (as_Spec (ag_Spec agent)) (cs_Doc st1)) in
             xs \<noteq> [] \<longrightarrow> mget doc3 ''instructions'' = Some (GStrings xs))"
    by (cases "fragmentInstructions (as_Spec (ag_Spec agent)) (cs_Doc st1)")
      (auto simp: applyInstructions_def bindR_Inr_conv Let_def)
  have "contents \<noteq> [] \<or> fst (fragmentInstructions (as_Spec (ag_Spec agent)) fd) \<noteq> []"
    using assms(3) mapR_Inr_length[OF c] by auto
  moreover from applyTools_Inr[OF t] have "mget (cs_Doc st) ''instructions'' = mget doc3 ''instructions''"
    by fastforce
  ultimately show ?thesis using c d by (auto simp: Let_def same)
qed

theorem userLayers_instruction_order_witness:
  "\<exists>st fd. userLayers (cl_num demoLib) demoDeps demoAgent = Inr st \<and> fragmentLayer (cl_num demoLib) demoAgent = Inr fd \<and>
   (\<exists>contents. mapR (readInstruction demoDeps demoAgent) (as_InstructionRefs (ag_Spec demoAgent)) = Inr contents \<and>
    mget (cs_Doc st) ''instructions'' =
      Some (GStrings (contents @ fst (fragmentInstructions (as_Spec (ag_Spec demoAgent)) fd))))"
proof -
  obtain st where st: "userLayers (cl_num demoLib) demoDeps demoAgent = Inr st"
    using demo_compiles Compile_Inr by blast
  then obtain fd where fd: "fragmentLayer (cl_num demoLib) demoAgent = Inr fd" using userLayers_Inr by blast
  have "fst (fragmentInstructions (as_Spec (ag_Spec demoAgent)) fd) \<noteq> []"
    by (simp add: demoAgent_def demoFragment_def fragmentInstructions_def)
  then show ?thesis using userLayers_instruction_order[OF st fd] st fd by blast
qed

fun maxTimeout :: "int list \<Rightarrow> gval option" where
  "maxTimeout [] = None"
| "maxTimeout (t # ts) = Some (GFloat (FInt (fold max ts t)))"

lemma timeoutStep_explicit: "fragmentSetsToolTimeout frag \<Longrightarrow> fold (\<lambda>te. timeoutStep nl frag (fst te)) tes old = old"
  by (induction tes) (auto simp: timeoutStep_def split: option.splits)

lemma timeoutStep_max:
  assumes "\<not> fragmentSetsToolTimeout frag"
  shows "fold (\<lambda>te. timeoutStep nl frag (fst te)) tes (maxTimeout ts) = maxTimeout (ts @ toolTimeouts tes)"
proof (induction tes arbitrary: ts)
  case (Cons te tes)
  have "timeoutStep nl frag (fst te) (maxTimeout ts) = maxTimeout (ts @ toolTimeouts [te])"
  proof (cases ts)
    case Nil
    then show ?thesis using assms by (simp add: timeoutStep_def toolTimeouts_def split: option.splits)
  next
    case (Cons t us)
    then show ?thesis using assms by (auto simp: timeoutStep_def toolTimeouts_def max_def split: option.splits)
  qed
  then show ?case using Cons.IH by (simp add: toolTimeouts_def)
qed (simp add: toolTimeouts_def)

lemma no_explicit_timeout:
  assumes "\<not> fragmentSetsToolTimeout frag" and "extraLayer nl frag = Inr extra"
  shows "mget extra ''tool_timeout'' = None"
proof -
  have m: "mget (map (map_prod id (fromJson nl)) kvs) k = None \<longleftrightarrow> mget kvs k = None" for kvs k
    by (induction kvs) auto
  show ?thesis using assms
    by (auto simp: extraLayer_def fragmentSetsToolTimeout_def decodeMap_def m bindR_Inr_conv
        split: option.splits rawjson.splits json.splits sum.splits)
qed

text \<open>The agent-level tool timeout is the extra layer's when it sets one, and otherwise the
  largest timeout any referenced tool asks for (absent when none asks).\<close>

theorem userLayers_tool_timeout:
  assumes "userLayers nl deps agent = Inr st"
  shows "\<exists>extra tes. extraLayer nl (as_Spec (ag_Spec agent)) = Inr extra \<and>
    list_all2 (toolCompiles deps agent) (as_Tools (ag_Spec agent)) tes \<and>
    mget (cs_Doc st) ''tool_timeout'' =
      (if fragmentSetsToolTimeout (as_Spec (ag_Spec agent)) then mget extra ''tool_timeout''
       else maxTimeout (toolTimeouts tes))"
proof -
  from userLayers_Inr[OF assms] obtain fd tes where u: "fragmentLayer nl agent = Inr fd"
    "list_all2 (toolCompiles deps agent) (as_Tools (ag_Spec agent)) tes"
    "mget (cs_Doc st) ''tool_timeout'' =
      fold (\<lambda>te. timeoutStep nl (as_Spec (ag_Spec agent)) (fst te)) tes (mget fd ''tool_timeout'')"
    by blast
  from fragmentLayer_Inr[OF u(1)] obtain extra where x: "extraLayer nl (as_Spec (ag_Spec agent)) = Inr extra"
    "mget fd ''tool_timeout'' = mget extra ''tool_timeout''" by blast
  have "mget (cs_Doc st) ''tool_timeout'' =
      (if fragmentSetsToolTimeout (as_Spec (ag_Spec agent)) then mget extra ''tool_timeout''
       else maxTimeout (toolTimeouts tes))"
    using u(3) x(2) timeoutStep_explicit no_explicit_timeout[OF _ x(1)]
      timeoutStep_max[where ts = "[]" and tes = tes and frag = "as_Spec (ag_Spec agent)" and nl = nl] by auto
  then show ?thesis using u(2) x(1) by blast
qed

theorem userLayers_tool_timeout_witness:
  "\<exists>st. userLayers (cl_num demoLib) demoDeps demoAgent = Inr st \<and>
   (\<exists>extra tes. extraLayer (cl_num demoLib) (as_Spec (ag_Spec demoAgent)) = Inr extra \<and>
    list_all2 (toolCompiles demoDeps demoAgent) (as_Tools (ag_Spec demoAgent)) tes \<and>
    mget (cs_Doc st) ''tool_timeout'' =
      (if fragmentSetsToolTimeout (as_Spec (ag_Spec demoAgent)) then mget extra ''tool_timeout''
       else maxTimeout (toolTimeouts tes)))"
  using demo_compiles Compile_Inr userLayers_tool_timeout by blast

subsection \<open>Secrets\<close>

text \<open>
  A tool's header secrets are projected by an environment when each secret header's compiled value
  is the placeholder of its reference name and the environment takes the variable of that name from
  the secret.
\<close>

definition headerSecretsProjected :: "EnvVar list \<Rightarrow> AgentTool \<Rightarrow> bool" where
  "headerSecretsProjected env tool \<longleftrightarrow>
     (\<forall>hs \<in> set (ats_HeaderSecrets (at_Spec tool)).
        let ref = toolSecretRefName (om_Name (at_Meta tool)) (sh_Name hs) in
        mget (toolHeaders tool) (sh_Name hs) = Some (GString (SecretPlaceholder ref)) \<and>
        envSecret (SecretEnvName ref) (sh_SecretRef hs) \<in> set env)"

lemma mget_fold_mput_same:
  "mget (fold (\<lambda>x. mput (f x) (c (f x))) xs m) k = (if k \<in> f ` set xs then Some (c k) else mget m k)"
  by (induction xs arbitrary: m) auto

lemma toolHeaders_placeholder:
  "hs \<in> set (ats_HeaderSecrets (at_Spec tool)) \<Longrightarrow>
   mget (toolHeaders tool) (sh_Name hs) =
     Some (GString (SecretPlaceholder (toolSecretRefName (om_Name (at_Meta tool)) (sh_Name hs))))"
  unfolding toolHeaders_def
  by (simp add: mget_fold_mput_same[where f = sh_Name and
        c = "\<lambda>n. GString (SecretPlaceholder (toolSecretRefName (om_Name (at_Meta tool)) n))"])

text \<open>Secrets never enter the compiled document: every header secret of a referenced tool appears
  as a placeholder whose environment variable is projected from the named Secret key, and every
  variable of the secret environment is a reference without a literal value.\<close>

theorem Compile_secret_env:
  assumes "Compile cl deps opts agent = Inr res"
  shows "\<exists>tes. list_all2 (toolCompiles deps agent) (as_Tools (ag_Spec agent)) tes \<and>
    list_all (headerSecretsProjected (res_SecretEnv res) \<circ> fst) tes \<and>
    set (agentSecretEnv agent) \<subseteq> set (res_SecretEnv res) \<and>
    list_all (\<lambda>e. ev_Value e = '''' \<and> ev_ValueFrom e \<noteq> None) (res_SecretEnv res)"
proof -
  from Compile_Inr[OF assms] obtain st where st: "userLayers (cl_num cl) deps agent = Inr st"
    "res_SecretEnv res = cs_SecretEnv st @ agentSecretEnv agent"
    by (metis Result.select_convs(7))
  from userLayers_Inr[OF st(1)] obtain tes where
    t: "list_all2 (toolCompiles deps agent) (as_Tools (ag_Spec agent)) tes"
       "cs_SecretEnv st = concat (map (toolEnv \<circ> fst) tes)" by blast
  have "headerSecretsProjected (res_SecretEnv res) (fst te)" if "te \<in> set tes" for te
    using that st(2) t(2)
    by (fastforce simp: headerSecretsProjected_def toolHeaders_placeholder toolEnv_def headerSecretEnv_def Let_def)
  moreover have "list_all (\<lambda>e. ev_Value e = '''' \<and> ev_ValueFrom e \<noteq> None) (res_SecretEnv res)"
    using st(2) t(2) by (auto simp: list_all_iff toolEnv_def headerSecretEnv_def agentSecretEnv_def)
  ultimately show ?thesis using t(1) st(2) by (intro exI[of _ tes]) (auto simp: list_all_iff)
qed

theorem Compile_secret_env_witness:
  "\<exists>res. Compile demoLib demoDeps demoOptions demoAgent = Inr res \<and>
   (\<exists>tes. list_all2 (toolCompiles demoDeps demoAgent) (as_Tools (ag_Spec demoAgent)) tes \<and>
    list_all (headerSecretsProjected (res_SecretEnv res) \<circ> fst) tes \<and>
    set (agentSecretEnv demoAgent) \<subseteq> set (res_SecretEnv res) \<and>
    list_all (\<lambda>e. ev_Value e = '''' \<and> ev_ValueFrom e \<noteq> None) (res_SecretEnv res))"
  using demo_compiles Compile_secret_env by blast

end
