(* ===== verification/Builder.thy ===== *)
theory Builder
  imports Api
begin

unbundle bit_operations_syntax

text \<open>
  \<open>internal/infra/builder\<close> and \<open>internal/domain/agent/labels.go\<close>: the pure functions that turn a
  compiled agent into a Deployment and two Services, with the two capability delivery modes. The
  32-bit FNV-1a hash of \<open>hash/fnv\<close> is computed on \<open>32 word\<close>.
\<close>

subsection \<open>Names, ports and services\<close>

definition PublishedPort :: int where
  "PublishedPort = 80"

definition RuntimePort :: int where
  "RuntimePort = 8080"

definition SpecConfigMapName :: "string \<Rightarrow> string" where
  "SpecConfigMapName agentName = agentName @ ''-agent-spec''"

definition PublishedURL :: "string \<Rightarrow> string \<Rightarrow> string" where
  "PublishedURL agentName ns = ''http://'' @ agentName @ ''.'' @ ns @ ''.svc.cluster.local:'' @ dec_int PublishedPort @ ''/''"

definition RuntimeServiceName :: "string \<Rightarrow> string" where
  "RuntimeServiceName agentName = agentName @ ''-runtime''"

definition Labels :: "Agent \<Rightarrow> string smap" where
  "Labels agent =
     [(''app.kubernetes.io/name'', om_Name (ag_Meta agent)),
      (''app.kubernetes.io/instance'', om_Name (ag_Meta agent)),
      (''app.kubernetes.io/managed-by'', ''flokoa-operator''),
      (''flokoa.ai/agent'', om_Name (ag_Meta agent))]"

definition buildService :: "string \<Rightarrow> string \<Rightarrow> string smap \<Rightarrow> Service" where
  "buildService name ns labels =
     \<lparr>svc_Meta = objectMeta name ns labels [],
      svc_Spec = \<lparr>ss_Type = ''ClusterIP'', ss_Selector = labels,
        ss_Ports = [\<lparr>sp_Name = ''http'', sp_Port = PublishedPort, sp_TargetPort = RuntimePort, sp_Protocol = ''TCP''\<rparr>]\<rparr>\<rparr>"

definition labelEndpoint :: "string \<Rightarrow> Service \<Rightarrow> Service" where
  "labelEndpoint v svc =
     svc\<lparr>svc_Meta := (svc_Meta svc)\<lparr>om_Labels := mput ''flokoa.ai/endpoint'' v (om_Labels (svc_Meta svc))\<rparr>\<rparr>"

definition BuildPublishedService :: "string \<Rightarrow> string \<Rightarrow> string smap \<Rightarrow> Service" where
  "BuildPublishedService name ns labels = labelEndpoint ''published'' (buildService name ns labels)"

definition BuildRuntimeService :: "string \<Rightarrow> string \<Rightarrow> string smap \<Rightarrow> Service" where
  "BuildRuntimeService agentName ns labels =
     labelEndpoint ''runtime'' (buildService (RuntimeServiceName agentName) ns labels)"

subsection \<open>Capability delivery\<close>

datatype CapabilityDeliveryMode = DeliveryInitContainer | DeliveryImageVolume | DeliveryUnset | DeliveryOther string

record CapabilityMount =
  cmt_Name :: string
  cmt_Artifact :: string

definition CapabilitiesVolumeName :: string where
  "CapabilitiesVolumeName = ''flokoa-capabilities''"

definition CapabilitiesMountPath :: string where
  "CapabilitiesMountPath = ''/opt/flokoa/capabilities''"

definition CapabilityDeliveryAnnotation :: string where
  "CapabilityDeliveryAnnotation = ''flokoa.ai/capability-delivery''"

record DeploymentParams =
  dp_AgentName :: string
  dp_AgentNamespace :: string
  dp_Labels :: "string smap"
  dp_Runtime :: AgentRuntime
  dp_RunnerImageRepository :: string
  dp_RunnerVersion :: string
  dp_SchemaDigest :: string
  dp_SpecConfigMapName :: string
  dp_SpecHash :: string
  dp_SecretsHash :: string
  dp_SecretEnv :: "EnvVar list"
  dp_ProviderEnv :: "EnvVar list"
  dp_ProviderSecretEnv :: "EnvVar list"
  dp_PublishedURL :: string
  dp_OTLPEndpoint :: string
  dp_Capabilities :: "CapabilityMount list"
  dp_CapabilityDelivery :: CapabilityDeliveryMode

definition effectiveCapabilityDelivery :: "DeploymentParams \<Rightarrow> CapabilityDeliveryMode" where
  "effectiveCapabilityDelivery p =
     (if dp_CapabilityDelivery p = DeliveryImageVolume then DeliveryImageVolume else DeliveryInitContainer)"

fun deliveryText :: "CapabilityDeliveryMode \<Rightarrow> string" where
  "deliveryText DeliveryInitContainer = ''initContainer''"
| "deliveryText DeliveryImageVolume = ''imageVolume''"
| "deliveryText DeliveryUnset = ''''"
| "deliveryText (DeliveryOther s) = s"

text \<open>\<open>fnv.New32a\<close>: multiply modulo \<open>2\<^sup>3\<^sup>2\<close> after xoring in each byte.\<close>

definition fnv32a_step :: "char \<Rightarrow> 32 word \<Rightarrow> 32 word" where
  "fnv32a_step c h = (h XOR of_nat (of_char c)) * 16777619"

definition fnv32a :: "string \<Rightarrow> 32 word" where
  "fnv32a s = fold fnv32a_step s 2166136261"

definition maxContainerNameLen :: nat where
  "maxContainerNameLen = 63"

definition capResourceName :: "string \<Rightarrow> string" where
  "capResourceName name =
     (let full = ''cap-'' @ name in
      if length full \<le> maxContainerNameLen then full
      else (let suffix = hex_pad 8 (unat (fnv32a full)) in
            take (maxContainerNameLen - length suffix - 1) full @ ''-'' @ suffix))"

definition RestrictedContainerSecurityContext :: SecurityContext where
  "RestrictedContainerSecurityContext =
     \<lparr>sc_AllowPrivilegeEscalation = Some False, sc_RunAsNonRoot = Some True, sc_CapabilitiesDrop = [''ALL''],
      sc_SeccompProfile = Some ''RuntimeDefault'', sc_ReadOnlyRootFilesystem = None, sc_RunAsUser = None,
      sc_RunAsGroup = None\<rparr>"

definition RestrictedPodSecurityContext :: PodSecurityContext where
  "RestrictedPodSecurityContext =
     \<lparr>psc_RunAsNonRoot = Some True, psc_SeccompProfile = Some ''RuntimeDefault'', psc_Other = ''''\<rparr>"

definition runnerUID :: int where
  "runnerUID = 65532"

definition capInitContainerSecurityContext :: SecurityContext where
  "capInitContainerSecurityContext =
     RestrictedContainerSecurityContext\<lparr>sc_ReadOnlyRootFilesystem := Some True,
       sc_RunAsUser := Some runnerUID, sc_RunAsGroup := Some runnerUID\<rparr>"

definition capInitContainerResources :: ResourceRequirements where
  "capInitContainerResources =
     \<lparr>rr_Requests = [(''cpu'', ''10m''), (''memory'', ''16Mi'')], rr_Limits = [(''cpu'', ''100m''), (''memory'', ''64Mi'')]\<rparr>"

definition capInitContainer :: "CapabilityMount \<Rightarrow> Container" where
  "capInitContainer m =
     emptyContainer\<lparr>ct_Name := capResourceName (cmt_Name m), ct_Image := cmt_Artifact m,
       ct_Command := [''/bin/sh'', ''-c'', ''cp -r /wheelhouse/. /dst/''],
       ct_VolumeMounts := [\<lparr>vm_Name = CapabilitiesVolumeName, vm_MountPath = ''/dst'', vm_SubPath = cmt_Name m, vm_ReadOnly = False\<rparr>],
       ct_Resources := capInitContainerResources,
       ct_SecurityContext := Some capInitContainerSecurityContext\<rparr>"

definition capabilityInitContainers :: "DeploymentParams \<Rightarrow> Container list" where
  "capabilityInitContainers p =
     (if dp_Capabilities p = [] \<or> effectiveCapabilityDelivery p \<noteq> DeliveryInitContainer then []
      else map capInitContainer (dp_Capabilities p))"

definition capabilityVolumes :: "DeploymentParams \<Rightarrow> Volume list" where
  "capabilityVolumes p =
     (if dp_Capabilities p = [] then []
      else if effectiveCapabilityDelivery p = DeliveryImageVolume
      then map (\<lambda>m. \<lparr>vol_Name = capResourceName (cmt_Name m), vol_Source = ImageVolume (cmt_Artifact m) ''IfNotPresent''\<rparr>)
             (dp_Capabilities p)
      else [\<lparr>vol_Name = CapabilitiesVolumeName, vol_Source = EmptyDirVolume\<rparr>])"

definition capabilityRunnerMounts :: "DeploymentParams \<Rightarrow> VolumeMount list" where
  "capabilityRunnerMounts p =
     (if dp_Capabilities p = [] then []
      else if effectiveCapabilityDelivery p = DeliveryImageVolume
      then map (\<lambda>m. \<lparr>vm_Name = capResourceName (cmt_Name m), vm_MountPath = CapabilitiesMountPath @ ''/'' @ cmt_Name m,
                     vm_SubPath = ''wheelhouse'', vm_ReadOnly = True\<rparr>) (dp_Capabilities p)
      else [\<lparr>vm_Name = CapabilitiesVolumeName, vm_MountPath = CapabilitiesMountPath, vm_SubPath = '''', vm_ReadOnly = True\<rparr>])"

subsection \<open>The Deployment\<close>

definition operatorEnv :: "DeploymentParams \<Rightarrow> EnvVar list" where
  "operatorEnv p =
     [envValue ''FLOKOA_PUBLIC_URL'' (dp_PublishedURL p),
      envValue ''FLOKOA_EXPECTED_RUNNER_VERSION'' (dp_RunnerVersion p),
      envValue ''FLOKOA_EXPECTED_SCHEMA_DIGEST'' (dp_SchemaDigest p),
      envValue ''OTEL_SERVICE_NAME'' (dp_AgentName p),
      envValue ''OTEL_RESOURCE_ATTRIBUTES''
        (''k8s.namespace.name='' @ dp_AgentNamespace p @ '',flokoa.agent.name='' @ dp_AgentName p)] @
     (if dp_OTLPEndpoint p \<noteq> '''' then [envValue ''OTEL_EXPORTER_OTLP_ENDPOINT'' (dp_OTLPEndpoint p)] else []) @
     dp_SecretEnv p @ dp_ProviderEnv p @ dp_ProviderSecretEnv p"

definition buildEnv :: "DeploymentParams \<Rightarrow> EnvVar list" where
  "buildEnv p =
     (let userNames = map ev_Name (rt_Env (dp_Runtime p)) in
      filter (\<lambda>e. ev_Name e \<notin> set userNames) (operatorEnv p) @ rt_Env (dp_Runtime p))"

definition runnerReadinessProbe :: Probe where
  "runnerReadinessProbe =
     \<lparr>pr_HTTPPath = ''/health'', pr_HTTPPort = RuntimePort, pr_PeriodSeconds = 10, pr_TimeoutSeconds = 3,
      pr_FailureThreshold = 3, pr_SuccessThreshold = 1\<rparr>"

definition runnerStartupProbe :: Probe where
  "runnerStartupProbe =
     \<lparr>pr_HTTPPath = ''/health'', pr_HTTPPort = RuntimePort, pr_PeriodSeconds = 5, pr_TimeoutSeconds = 3,
      pr_FailureThreshold = 60, pr_SuccessThreshold = 1\<rparr>"

definition runnerImage :: "DeploymentParams \<Rightarrow> string" where
  "runnerImage p =
     (if rt_Image (dp_Runtime p) \<noteq> '''' then rt_Image (dp_Runtime p)
      else (if dp_RunnerImageRepository p = '''' then ''ghcr.io/danielnyari/flokoa-runner'' else dp_RunnerImageRepository p)
           @ '':'' @ dp_RunnerVersion p)"

definition specMounts :: "VolumeMount list" where
  "specMounts =
     [\<lparr>vm_Name = ''agent-spec'', vm_MountPath = ''/etc/flokoa/agent-spec.yaml'', vm_SubPath = ''agent-spec.yaml'', vm_ReadOnly = True\<rparr>,
      \<lparr>vm_Name = ''agent-spec'', vm_MountPath = ''/etc/flokoa/agent-card.json'', vm_SubPath = ''agent-card.json'', vm_ReadOnly = True\<rparr>]"

definition agentContainer :: "DeploymentParams \<Rightarrow> Container" where
  "agentContainer p =
     emptyContainer\<lparr>ct_Name := ''agent'', ct_Image := runnerImage p,
       ct_Ports := [\<lparr>cp_Name = ''http'', cp_ContainerPort = RuntimePort, cp_Protocol = ''TCP''\<rparr>],
       ct_Env := buildEnv p,
       ct_SecurityContext := Some RestrictedContainerSecurityContext,
       ct_StartupProbe := Some runnerStartupProbe, ct_ReadinessProbe := Some runnerReadinessProbe,
       ct_Resources := (case rt_Resources (dp_Runtime p) of None \<Rightarrow> noResources | Some r \<Rightarrow> r),
       ct_VolumeMounts := specMounts @ capabilityRunnerMounts p\<rparr>"

definition podAnnotations :: "DeploymentParams \<Rightarrow> string smap" where
  "podAnnotations p =
     [(''flokoa.ai/spec-hash'', dp_SpecHash p)] @
     (if dp_SecretsHash p \<noteq> '''' then [(''flokoa.ai/secrets-hash'', dp_SecretsHash p)] else []) @
     (if dp_Capabilities p \<noteq> []
      then [(CapabilityDeliveryAnnotation, deliveryText (effectiveCapabilityDelivery p))] else [])"

definition BuildDeployment :: "DeploymentParams \<Rightarrow> Deployment" where
  "BuildDeployment p =
     (let overrides = rt_DeploymentOverrides (dp_Runtime p) in
      \<lparr>dep_Meta = objectMeta (dp_AgentName p) (dp_AgentNamespace p) (dp_Labels p) [],
       dep_Spec =
         \<lparr>ds_Replicas = (case do_Replicas overrides of None \<Rightarrow> 1 | Some n \<Rightarrow> n),
          ds_Selector = dp_Labels p,
          ds_Template =
            \<lparr>pt_Labels = dp_Labels p, pt_Annotations = podAnnotations p,
             pt_InitContainers = capabilityInitContainers p, pt_Containers = [agentContainer p],
             pt_Volumes = \<lparr>vol_Name = ''agent-spec'', vol_Source = ConfigMapVolume (dp_SpecConfigMapName p)\<rparr> # capabilityVolumes p,
             pt_ImagePullSecrets = do_ImagePullSecrets overrides,
             pt_ServiceAccountName = do_ServiceAccountName overrides,
             pt_SecurityContext = Some (case do_SecurityContext overrides of
                                          None \<Rightarrow> RestrictedPodSecurityContext | Some c \<Rightarrow> c),
             pt_NodeSelector = do_NodeSelector overrides, pt_Tolerations = do_Tolerations overrides,
             pt_Affinity = do_Affinity overrides\<rparr>\<rparr>,
       dep_Status = \<lparr>dst_Replicas = 0, dst_AvailableReplicas = 0\<rparr>\<rparr>)"

subsection \<open>Resource names\<close>

lemma hex_pad_length [simp]: "length (hex_pad k n) = k"
  by (induction k arbitrary: n) auto

lemma capResourceName_prefix: "\<exists>s. capResourceName name = ''cap-'' @ s"
  by (auto simp: capResourceName_def Let_def maxContainerNameLen_def)

lemma capResourceName_length: "length (capResourceName name) \<le> 63"
  by (auto simp: capResourceName_def Let_def maxContainerNameLen_def)

definition label_char :: "char \<Rightarrow> bool" where
  "label_char c = (is_lower c \<or> is_digit c \<or> c = CHR ''-'')"

lemma digit_char_label: "d < 16 \<Longrightarrow> label_char (digit_char d) \<and> digit_char d \<noteq> CHR ''-''"
proof -
  assume d: "d < 16"
  have "(of_char (digit_char d) :: nat) = (if d < 10 then 48 + d else 87 + d)"
    using d by (simp add: digit_char_def of_char_of)
  then show ?thesis using d by (auto simp: label_char_def is_lower_def is_digit_def split: if_splits)
qed

lemma hex_pad_label: "c \<in> set (hex_pad k n) \<Longrightarrow> label_char c \<and> c \<noteq> CHR ''-''"
  by (induction k arbitrary: n) (auto simp: digit_char_label)

text \<open>For every Capability whose name is a DNS label, the derived container and volume name is
  again a DNS label: at most 63 characters of lower-case letters, digits and dashes that neither
  starts nor ends with a dash.\<close>

theorem capResourceName_dns_label:
  assumes "dns1123_label_chars name"
  shows "dns1123_label_chars (capResourceName name)"
proof -
  let ?full = "''cap-'' @ name"
  have n: "name \<noteq> []" "last name \<noteq> CHR ''-''" "\<forall>c \<in> set name. label_char c"
    using assms by (auto simp: dns1123_label_chars_def list_all_iff label_char_def)
  have full: "\<forall>c \<in> set ?full. label_char c"
    using n(3) by (auto simp: label_char_def is_lower_def)
  show ?thesis
  proof (cases "length ?full \<le> 63")
    case True
    then have "capResourceName name = ?full" by (simp add: capResourceName_def maxContainerNameLen_def)
    then show ?thesis using n full True
      by (auto simp: dns1123_label_chars_def list_all_iff label_char_def)
  next
    case False
    let ?h = "hex_pad 8 (unat (fnv32a ?full))"
    have eq: "capResourceName name = take 54 ?full @ ''-'' @ ?h"
      using False by (simp add: capResourceName_def Let_def maxContainerNameLen_def)
    have h: "?h \<noteq> []" "\<forall>c \<in> set ?h. label_char c \<and> c \<noteq> CHR ''-''"
      using hex_pad_label hex_pad_length[of 8] by (auto simp del: hex_pad_length dest: arg_cong[of _ _ length])
    have "\<forall>c \<in> set (capResourceName name). label_char c"
      unfolding eq using full h set_take_subset[of 54 ?full] by (auto simp: label_char_def)
    moreover have "last (capResourceName name) \<noteq> CHR ''-''"
      unfolding eq using h by (simp add: last_append)
    moreover have "hd (capResourceName name) = CHR ''c''" "capResourceName name \<noteq> []" by (simp_all add: eq)
    ultimately show ?thesis using capResourceName_length[of name]
      by (auto simp: dns1123_label_chars_def list_all_iff label_char_def)
  qed
qed

theorem capResourceName_dns_label_witness: "dns1123_label_chars (capResourceName ''memory'')"
  by (rule capResourceName_dns_label) (simp add: dns1123_label_chars_def is_lower_def)

text \<open>Two 60-character names that agree on their first 50 characters and collide in FNV-1a.\<close>

definition longName :: "string \<Rightarrow> string" where
  "longName s = ''aaaaaaaaaaaaaaaaaaaaaaaaaaaaaaaaaaaaaaaaaaaaaaaaaa'' @ s"

lemma fnv32a_longName: "fnv32a (''cap-'' @ longName s) = fold fnv32a_step s 791885848"
proof -
  have "fold fnv32a_step ''cap-aaaaaaaaaaaaaaaaaaaaaaaaaaaaaaaaaaaaaaaaaaaaaaaaaa'' 2166136261 = (791885848 :: 32 word)"
    by (simp add: fnv32a_step_def)
  moreover have "''cap-'' @ longName s = ''cap-aaaaaaaaaaaaaaaaaaaaaaaaaaaaaaaaaaaaaaaaaaaaaaaaaa'' @ s" by (simp add: longName_def)
  ultimately show ?thesis unfolding fnv32a_def by (simp only: fold_append comp_apply)
qed

lemma capResourceName_longName:
  assumes "length s = 10"
  shows "capResourceName (longName s) =
     ''cap-'' @ longName '''' @ ''-'' @ hex_pad 8 (unat (fold fnv32a_step s 791885848))"
  unfolding fnv32a_longName[symmetric]
  using assms by (simp add: capResourceName_def Let_def maxContainerNameLen_def longName_def)

text \<open>Two different Capability names, both DNS labels, can get the same resource name: the
  truncated form keeps 54 characters and a 32-bit hash, so names that agree on their first 50
  characters and collide in FNV-1a are not kept apart.\<close>

theorem capResourceName_collision:
  "longName ''0kifaaaaaa'' \<noteq> longName ''xyahaaaaaa'' \<and>
   dns1123_label_chars (longName ''0kifaaaaaa'') \<and> dns1123_label_chars (longName ''xyahaaaaaa'') \<and>
   capResourceName (longName ''0kifaaaaaa'') = capResourceName (longName ''xyahaaaaaa'')"
proof -
  have "fold fnv32a_step ''0kifaaaaaa'' 791885848 = fold fnv32a_step ''xyahaaaaaa'' 791885848"
    by (simp add: fnv32a_step_def)
  then have "capResourceName (longName ''0kifaaaaaa'') = capResourceName (longName ''xyahaaaaaa'')"
    using capResourceName_longName[of "''0kifaaaaaa''"] capResourceName_longName[of "''xyahaaaaaa''"]
    by (simp only: list.size)
  moreover have "longName ''0kifaaaaaa'' \<noteq> longName ''xyahaaaaaa''" by (simp add: longName_def)
  moreover have "dns1123_label_chars (longName ''0kifaaaaaa'')" "dns1123_label_chars (longName ''xyahaaaaaa'')"
    by (simp_all add: longName_def dns1123_label_chars_def is_lower_def is_digit_def)
  ultimately show ?thesis by blast
qed

subsection \<open>Delivery\<close>

text \<open>
  Where the runner finds which artifact's wheelhouse: an image volume mounted with subPath
  \<open>wheelhouse\<close> shows the image's directory at the mount path; a shared scratch volume shows, below
  its mount path, what each init container copied from its own image into its subPath.
\<close>

definition mountedImages :: "PodTemplateSpec \<Rightarrow> (string \<times> string) set" where
  "mountedImages t =
     {(vm_MountPath vm, a) | vm a pol c v.
        c \<in> set (pt_Containers t) \<and> vm \<in> set (ct_VolumeMounts c) \<and> vm_SubPath vm = ''wheelhouse'' \<and>
        v \<in> set (pt_Volumes t) \<and> vol_Name v = vm_Name vm \<and> vol_Source v = ImageVolume a pol}"

definition copiedImages :: "PodTemplateSpec \<Rightarrow> (string \<times> string) set" where
  "copiedImages t =
     {(vm_MountPath vm @ ''/'' @ vm_SubPath cp, ct_Image ic) | vm cp ic c v.
        c \<in> set (pt_Containers t) \<and> vm \<in> set (ct_VolumeMounts c) \<and> vm_SubPath vm = '''' \<and>
        v \<in> set (pt_Volumes t) \<and> vol_Name v = vm_Name vm \<and> vol_Source v = EmptyDirVolume \<and>
        ic \<in> set (pt_InitContainers t) \<and> ct_Command ic = [''/bin/sh'', ''-c'', ''cp -r /wheelhouse/. /dst/''] \<and>
        cp \<in> set (ct_VolumeMounts ic) \<and> vm_Name cp = vm_Name vm \<and> vm_MountPath cp = ''/dst''}"

definition deliveredWheelhouses :: "PodTemplateSpec \<Rightarrow> (string \<times> string) set" where
  "deliveredWheelhouses t = mountedImages t \<union> copiedImages t"

abbreviation podOf :: "DeploymentParams \<Rightarrow> PodTemplateSpec" where
  "podOf p \<equiv> ds_Template (dep_Spec (BuildDeployment p))"

lemma pod_simps [go_simps]:
  "pt_Containers (podOf p) = [agentContainer p]"
  "pt_InitContainers (podOf p) = capabilityInitContainers p"
  "pt_Volumes (podOf p) = \<lparr>vol_Name = ''agent-spec'', vol_Source = ConfigMapVolume (dp_SpecConfigMapName p)\<rparr> # capabilityVolumes p"
  "pt_Annotations (podOf p) = podAnnotations p"
  "ct_VolumeMounts (agentContainer p) = specMounts @ capabilityRunnerMounts p"
  by (simp_all add: BuildDeployment_def Let_def agentContainer_def)

lemma delivered_initContainer:
  assumes "effectiveCapabilityDelivery p = DeliveryInitContainer"
  shows "deliveredWheelhouses (podOf p) =
    (\<lambda>m. (CapabilitiesMountPath @ ''/'' @ cmt_Name m, cmt_Artifact m)) ` set (dp_Capabilities p)"
proof (cases "dp_Capabilities p = []")
  case True
  then show ?thesis
    by (auto simp: deliveredWheelhouses_def mountedImages_def copiedImages_def pod_simps capabilityInitContainers_def
        capabilityVolumes_def capabilityRunnerMounts_def)
next
  case False
  have v: "capabilityVolumes p = [\<lparr>vol_Name = CapabilitiesVolumeName, vol_Source = EmptyDirVolume\<rparr>]"
    and m: "capabilityRunnerMounts p = [\<lparr>vm_Name = CapabilitiesVolumeName, vm_MountPath = CapabilitiesMountPath, vm_SubPath = '''', vm_ReadOnly = True\<rparr>]"
    and i: "capabilityInitContainers p = map capInitContainer (dp_Capabilities p)"
    using False assms by (simp_all add: capabilityVolumes_def capabilityRunnerMounts_def capabilityInitContainers_def)
  have "mountedImages (podOf p) = {}"
    by (auto simp: mountedImages_def pod_simps v m specMounts_def)
  moreover have "copiedImages (podOf p) =
      (\<lambda>m. (CapabilitiesMountPath @ ''/'' @ cmt_Name m, cmt_Artifact m)) ` set (dp_Capabilities p)" (is "?l = ?r")
  proof
    show "?l \<subseteq> ?r"
      by (auto simp: copiedImages_def pod_simps v m i specMounts_def capInitContainer_def CapabilitiesVolumeName_def)
    show "?r \<subseteq> ?l"
    proof
      fix x assume "x \<in> ?r"
      then obtain c where c: "c \<in> set (dp_Capabilities p)" "x = (CapabilitiesMountPath @ ''/'' @ cmt_Name c, cmt_Artifact c)" by auto
      then show "x \<in> ?l" unfolding copiedImages_def
        by (intro CollectI exI[of _ "hd (capabilityRunnerMounts p)"]
            exI[of _ "hd (ct_VolumeMounts (capInitContainer c))"] exI[of _ "capInitContainer c"]
            exI[of _ "agentContainer p"] exI[of _ "hd (capabilityVolumes p)"])
          (simp add: pod_simps v m i capInitContainer_def)
    qed
  qed
  ultimately show ?thesis by (simp add: deliveredWheelhouses_def)
qed

definition uniqueResourceNames :: "DeploymentParams \<Rightarrow> bool" where
  "uniqueResourceNames p = distinct (map (capResourceName \<circ> cmt_Name) (dp_Capabilities p))"

lemma delivered_imageVolume:
  assumes "effectiveCapabilityDelivery p = DeliveryImageVolume" and "uniqueResourceNames p"
  shows "deliveredWheelhouses (podOf p) =
    (\<lambda>m. (CapabilitiesMountPath @ ''/'' @ cmt_Name m, cmt_Artifact m)) ` set (dp_Capabilities p)"
proof -
  let ?vol = "\<lambda>m. \<lparr>vol_Name = capResourceName (cmt_Name m), vol_Source = ImageVolume (cmt_Artifact m) ''IfNotPresent''\<rparr>"
  let ?mnt = "\<lambda>m. \<lparr>vm_Name = capResourceName (cmt_Name m), vm_MountPath = CapabilitiesMountPath @ ''/'' @ cmt_Name m,
                   vm_SubPath = ''wheelhouse'', vm_ReadOnly = True\<rparr>"
  have v: "capabilityVolumes p = map ?vol (dp_Capabilities p)" and m: "capabilityRunnerMounts p = map ?mnt (dp_Capabilities p)"
    and i: "capabilityInitContainers p = []"
    using assms(1) by (auto simp: capabilityVolumes_def capabilityRunnerMounts_def capabilityInitContainers_def)
  have inj: "a \<in> set (dp_Capabilities p) \<Longrightarrow> b \<in> set (dp_Capabilities p) \<Longrightarrow>
      capResourceName (cmt_Name a) = capResourceName (cmt_Name b) \<Longrightarrow> a = b" for a b
    using assms(2) by (auto simp: uniqueResourceNames_def distinct_map inj_on_def)
  have "copiedImages (podOf p) = {}" by (auto simp: copiedImages_def pod_simps i)
  moreover have "mountedImages (podOf p) =
      (\<lambda>m. (CapabilitiesMountPath @ ''/'' @ cmt_Name m, cmt_Artifact m)) ` set (dp_Capabilities p)" (is "?l = ?r")
  proof
    show "?l \<subseteq> ?r"
      by (auto simp: mountedImages_def pod_simps v m specMounts_def) (use inj in blast)
    show "?r \<subseteq> ?l"
    proof
      fix x assume "x \<in> ?r"
      then obtain c where c: "c \<in> set (dp_Capabilities p)" "x = (CapabilitiesMountPath @ ''/'' @ cmt_Name c, cmt_Artifact c)" by auto
      then show "x \<in> ?l" unfolding mountedImages_def pod_simps v m
        by (intro CollectI exI[of _ "?mnt c"] exI[of _ "cmt_Artifact c"] exI[of _ "''IfNotPresent''"]
            exI[of _ "agentContainer p"] exI[of _ "?vol c"]) (auto simp: pod_simps m)
    qed
  qed
  ultimately show ?thesis by (simp add: deliveredWheelhouses_def)
qed

text \<open>C27. Both delivery modes show the runner the same layout: exactly one wheelhouse per attached
  capability, at the capability's directory below the capabilities root and taken from its pinned
  artifact, provided the derived resource names do not clash.\<close>

theorem delivery_modes_agree:
  assumes "uniqueResourceNames p"
  shows "deliveredWheelhouses (podOf p) =
    (\<lambda>m. (CapabilitiesMountPath @ ''/'' @ cmt_Name m, cmt_Artifact m)) ` set (dp_Capabilities p)"
proof (cases "effectiveCapabilityDelivery p = DeliveryImageVolume")
  case True
  then show ?thesis using delivered_imageVolume assms by blast
next
  case False
  then have "effectiveCapabilityDelivery p = DeliveryInitContainer"
    by (simp add: effectiveCapabilityDelivery_def split: if_splits)
  then show ?thesis by (rule delivered_initContainer)
qed

definition demoRuntime :: AgentRuntime where
  "demoRuntime = \<lparr>rt_Image = '''', rt_RunnerVersion = '''', rt_Isolation = IsolationUnset,
     rt_Env = [envValue ''OTEL_SERVICE_NAME'' ''mine''], rt_Resources = None,
     rt_DeploymentOverrides = \<lparr>do_Replicas = None, do_ImagePullSecrets = [], do_ServiceAccountName = '''',
       do_SecurityContext = None, do_NodeSelector = [], do_Tolerations = [], do_Affinity = None\<rparr>\<rparr>"

definition demoParams :: DeploymentParams where
  "demoParams = \<lparr>dp_AgentName = ''a'', dp_AgentNamespace = ''ns'', dp_Labels = [], dp_Runtime = demoRuntime,
     dp_RunnerImageRepository = '''', dp_RunnerVersion = ''1'', dp_SchemaDigest = ''d'', dp_SpecConfigMapName = ''a-agent-spec'',
     dp_SpecHash = ''h'', dp_SecretsHash = '''', dp_SecretEnv = [], dp_ProviderEnv = [], dp_ProviderSecretEnv = [],
     dp_PublishedURL = ''u'', dp_OTLPEndpoint = '''',
     dp_Capabilities = [\<lparr>cmt_Name = ''memory'', cmt_Artifact = ''oci://m''\<rparr>, \<lparr>cmt_Name = ''search'', cmt_Artifact = ''oci://s''\<rparr>],
     dp_CapabilityDelivery = DeliveryImageVolume\<rparr>"

theorem delivery_modes_agree_witness:
  "deliveredWheelhouses (podOf demoParams) =
     {(''/opt/flokoa/capabilities/memory'', ''oci://m''), (''/opt/flokoa/capabilities/search'', ''oci://s'')}"
proof -
  have "uniqueResourceNames demoParams"
    by (simp add: uniqueResourceNames_def demoParams_def capResourceName_def maxContainerNameLen_def)
  from delivery_modes_agree[OF this] show ?thesis
    by (simp add: demoParams_def CapabilitiesMountPath_def)
qed

subsection \<open>Pod integrity\<close>

definition hardened :: "Container \<Rightarrow> bool" where
  "hardened c =
     (case ct_SecurityContext c of
        None \<Rightarrow> False
      | Some s \<Rightarrow> sc_AllowPrivilegeEscalation s = Some False \<and> sc_RunAsNonRoot s = Some True \<and>
                  sc_CapabilitiesDrop s = [''ALL''] \<and> sc_SeccompProfile s = Some ''RuntimeDefault'')"

text \<open>
  A pod template is well formed when volume names are distinct, container names are distinct, every
  mount names a declared volume, only init containers may write to a mount, and every container is
  hardened.
\<close>

definition podWellFormed :: "PodTemplateSpec \<Rightarrow> bool" where
  "podWellFormed t \<longleftrightarrow>
     distinct (map vol_Name (pt_Volumes t)) \<and>
     distinct (map ct_Name (pt_InitContainers t @ pt_Containers t)) \<and>
     (\<forall>c \<in> set (pt_InitContainers t @ pt_Containers t).
        hardened c \<and> (\<forall>vm \<in> set (ct_VolumeMounts c). vm_Name vm \<in> set (map vol_Name (pt_Volumes t)))) \<and>
     (\<forall>c \<in> set (pt_Containers t). \<forall>vm \<in> set (ct_VolumeMounts c). vm_ReadOnly vm)"

lemma capResourceName_neq:
  "capResourceName n \<noteq> ''agent''" "capResourceName n \<noteq> ''agent-spec''" "capResourceName n \<noteq> ''flokoa-capabilities''"
  using capResourceName_prefix[of n] by auto

lemma initContainer_facts:
  "ct_Name (capInitContainer m) = capResourceName (cmt_Name m)" "hardened (capInitContainer m)"
  "ct_VolumeMounts (capInitContainer m) =
     [\<lparr>vm_Name = CapabilitiesVolumeName, vm_MountPath = ''/dst'', vm_SubPath = cmt_Name m, vm_ReadOnly = False\<rparr>]"
  by (simp_all add: capInitContainer_def hardened_def capInitContainerSecurityContext_def RestrictedContainerSecurityContext_def)

lemma agentContainer_facts:
  "ct_Name (agentContainer p) = ''agent''" "hardened (agentContainer p)"
  by (simp_all add: agentContainer_def hardened_def RestrictedContainerSecurityContext_def)

lemma capabilityVolumes_names:
  "map vol_Name (capabilityVolumes p) =
     (if dp_Capabilities p = [] then []
      else if effectiveCapabilityDelivery p = DeliveryImageVolume then map (capResourceName \<circ> cmt_Name) (dp_Capabilities p)
      else [CapabilitiesVolumeName])"
  by (simp add: capabilityVolumes_def)



subsection \<open>Environment\<close>

text \<open>For every variable name, the runner's environment has exactly the user's entries for that
  name when the user defines it, and exactly the operator's otherwise, each in their given order.\<close>

theorem buildEnv_user_wins:
  "filter (\<lambda>e. ev_Name e = n) (buildEnv p) =
     (if n \<in> ev_Name ` set (rt_Env (dp_Runtime p))
      then filter (\<lambda>e. ev_Name e = n) (rt_Env (dp_Runtime p))
      else filter (\<lambda>e. ev_Name e = n) (operatorEnv p))"
proof -
  have "filter (\<lambda>e. ev_Name e = n) (filter (\<lambda>e. ev_Name e \<notin> ev_Name ` set (rt_Env (dp_Runtime p))) (operatorEnv p)) =
        (if n \<in> ev_Name ` set (rt_Env (dp_Runtime p)) then [] else filter (\<lambda>e. ev_Name e = n) (operatorEnv p))"
    by (auto simp: filter_filter intro!: filter_cong filter_False)
  moreover have "n \<notin> ev_Name ` set (rt_Env (dp_Runtime p)) \<Longrightarrow> filter (\<lambda>e. ev_Name e = n) (rt_Env (dp_Runtime p)) = []"
    by (auto intro: filter_False)
  ultimately show ?thesis by (auto simp: buildEnv_def Let_def)
qed

end
