(* ===== verification/Repo.thy ===== *)
theory Repo
  imports Api
begin

text \<open>
  \<open>internal/infra/repo\<close>: create-or-update of owned objects through the Kubernetes client. The client
  is a parameter: a record of operations on an unspecified cluster state \<open>'w\<close>, where a successful
  write returns the object as the server stored it into the caller's pointer. The locale
  \<open>kube_store\<close> states what the API server promises; \<open>ensured_object\<close> states what the repositories
  promise to the services above them and is a sublocale of it.
\<close>

record ('w, 'o) kclient =
  kc_Get :: "NamespacedName \<Rightarrow> 'w \<Rightarrow> 'o result"
  kc_Create :: "'o \<Rightarrow> 'w \<Rightarrow> 'o result \<times> 'w"
  kc_Update :: "'o \<Rightarrow> 'w \<Rightarrow> 'o result \<times> 'w"
  kc_UpdateStatus :: "'o \<Rightarrow> 'w \<Rightarrow> 'o result \<times> 'w"
  kc_Delete :: "NamespacedName \<Rightarrow> 'w \<Rightarrow> goerror option \<times> 'w"

subsection \<open>Create or update\<close>

text \<open>The shape all \<open>Ensure\<close> methods share: \<open>merge existing desired\<close> is what each writes over.\<close>

definition ensureObject ::
  "('w, 'o) kclient \<Rightarrow> ('o \<Rightarrow> NamespacedName) \<Rightarrow> ('o \<Rightarrow> 'o \<Rightarrow> 'o) \<Rightarrow> string \<Rightarrow> arg list \<Rightarrow> 'o \<Rightarrow> 'w \<Rightarrow> 'o result \<times> 'w" where
  "ensureObject kc key merge what args desired w =
     (case kc_Get kc (key desired) w of
        Inl err \<Rightarrow>
          if apierrors_IsNotFound err
          then (case kc_Create kc desired w of
                  (Inl e, w1) \<Rightarrow> (Inl (ErrorfW (''failed to create '' @ what) args e), w1)
                | (Inr stored, w1) \<Rightarrow> (Inr stored, w1))
          else (Inl (ErrorfW (''failed to get '' @ what) args err), w)
      | Inr existing \<Rightarrow>
          (case kc_Update kc (merge existing desired) w of
             (Inl e, w1) \<Rightarrow> (Inl (ErrorfW (''failed to update '' @ what) args e), w1)
           | (Inr stored, w1) \<Rightarrow> (Inr stored, w1)))"

definition mergeDeployment :: "Deployment \<Rightarrow> Deployment \<Rightarrow> Deployment" where
  "mergeDeployment existing desired = existing\<lparr>dep_Spec := dep_Spec desired\<rparr>"

definition EnsureDeployment :: "('w, Deployment) kclient \<Rightarrow> Deployment \<Rightarrow> 'w \<Rightarrow> Deployment result \<times> 'w" where
  "EnsureDeployment kc desired w =
     ensureObject kc (\<lambda>d. keyOf (dep_Meta d)) mergeDeployment ''Deployment: %w'' [] desired w"

definition mergeService :: "Service \<Rightarrow> Service \<Rightarrow> Service" where
  "mergeService existing desired =
     existing\<lparr>svc_Spec := (svc_Spec existing)\<lparr>ss_Ports := ss_Ports (svc_Spec desired),
                                             ss_Selector := ss_Selector (svc_Spec desired)\<rparr>\<rparr>"

definition EnsureService :: "('w, Service) kclient \<Rightarrow> Service \<Rightarrow> 'w \<Rightarrow> Service result \<times> 'w" where
  "EnsureService kc desired w =
     ensureObject kc (\<lambda>s. keyOf (svc_Meta s)) mergeService ''Service: %w'' [] desired w"

definition mergeConfigMap :: "ConfigMap \<Rightarrow> ConfigMap \<Rightarrow> ConfigMap" where
  "mergeConfigMap existing desired =
     existing\<lparr>cm_Data := cm_Data desired,
       cm_Meta := (cm_Meta existing)\<lparr>om_Labels := om_Labels (cm_Meta desired),
         om_Annotations := foldr (\<lambda>(k, v). mput k v) (om_Annotations (cm_Meta desired)) (om_Annotations (cm_Meta existing))\<rparr>\<rparr>"

definition EnsureConfigMap :: "('w, ConfigMap) kclient \<Rightarrow> ConfigMap \<Rightarrow> 'w \<Rightarrow> goerror option \<times> 'w" where
  "EnsureConfigMap kc desired w =
     (case ensureObject kc (\<lambda>c. keyOf (cm_Meta c)) mergeConfigMap ''ConfigMap %s: %w''
             [AS (om_Name (cm_Meta desired))] desired w of
        (Inl e, w1) \<Rightarrow> (Some e, w1)
      | (Inr _, w1) \<Rightarrow> (None, w1))"

definition DeleteConfigMap :: "('w, ConfigMap) kclient \<Rightarrow> NamespacedName \<Rightarrow> 'w \<Rightarrow> goerror option \<times> 'w" where
  "DeleteConfigMap kc key w =
     (case kc_Delete kc key w of
        (Some err, w1) \<Rightarrow>
          (if apierrors_IsNotFound err then None
           else Some (ErrorfW ''failed to delete ConfigMap %s: %w'' [AS (nn_Name key)] err), w1)
      | (None, w1) \<Rightarrow> (None, w1))"

definition mergeAgentTool :: "AgentTool \<Rightarrow> AgentTool \<Rightarrow> AgentTool" where
  "mergeAgentTool existing desired =
     existing\<lparr>at_Spec := at_Spec desired, at_Meta := (at_Meta existing)\<lparr>om_Labels := om_Labels (at_Meta desired)\<rparr>\<rparr>"

definition EnsureAgentTool :: "('w, AgentTool) kclient \<Rightarrow> AgentTool \<Rightarrow> 'w \<Rightarrow> goerror option \<times> 'w" where
  "EnsureAgentTool kc desired w =
     (case ensureObject kc (\<lambda>t. keyOf (at_Meta t)) mergeAgentTool ''AgentTool: %w'' [] desired w of
        (Inl e, w1) \<Rightarrow> (Some e, w1) | (Inr _, w1) \<Rightarrow> (None, w1))"

definition mergeInstruction :: "Instruction \<Rightarrow> Instruction \<Rightarrow> Instruction" where
  "mergeInstruction existing desired =
     existing\<lparr>in_Spec := in_Spec desired, in_Meta := (in_Meta existing)\<lparr>om_Labels := om_Labels (in_Meta desired)\<rparr>\<rparr>"

definition EnsureInstruction :: "('w, Instruction) kclient \<Rightarrow> Instruction \<Rightarrow> 'w \<Rightarrow> goerror option \<times> 'w" where
  "EnsureInstruction kc desired w =
     (case ensureObject kc (\<lambda>i. keyOf (in_Meta i)) mergeInstruction ''Instruction: %w'' [] desired w of
        (Inl e, w1) \<Rightarrow> (Some e, w1) | (Inr _, w1) \<Rightarrow> (None, w1))"

subsection \<open>What the API server promises\<close>

text \<open>
  \<open>view\<close> is the part of an object the server stores as written; the rest (resource version, uid,
  generation) is the server's. Reads after a successful write see the written part, other keys are
  untouched, and a refused write changes nothing.
\<close>

locale kube_store =
  fixes kc :: "('w, 'o) kclient" and key :: "'o \<Rightarrow> NamespacedName" and view :: "'o \<Rightarrow> 'v"
  assumes create_stored: "kc_Create kc x w = (Inr s, w') \<Longrightarrow>
      view s = view x \<and> (\<exists>s'. kc_Get kc (key x) w' = Inr s' \<and> view s' = view x)"
    and update_stored: "kc_Update kc x w = (Inr s, w') \<Longrightarrow>
      view s = view x \<and> (\<exists>s'. kc_Get kc (key x) w' = Inr s' \<and> view s' = view x)"
    and create_frame: "kc_Create kc x w = (r, w') \<Longrightarrow> k \<noteq> key x \<Longrightarrow> kc_Get kc k w' = kc_Get kc k w"
    and update_frame: "kc_Update kc x w = (r, w') \<Longrightarrow> k \<noteq> key x \<Longrightarrow> kc_Get kc k w' = kc_Get kc k w"
    and create_refused: "kc_Create kc x w = (Inl e, w') \<Longrightarrow> w' = w"
    and update_refused: "kc_Update kc x w = (Inl e, w') \<Longrightarrow> w' = w"
    and get_key: "kc_Get kc k w = Inr x \<Longrightarrow> key x = k"

text \<open>
  What the repositories promise: a successful \<open>Ensure\<close> leaves the merged object (or the desired one
  when none existed) in the store and touches nothing else; a failed one touches nothing.
\<close>

locale ensured_object =
  fixes Ensure :: "'o \<Rightarrow> 'w \<Rightarrow> 'o result \<times> 'w"
    and Get :: "NamespacedName \<Rightarrow> 'w \<Rightarrow> 'o result"
    and key :: "'o \<Rightarrow> NamespacedName" and merge :: "'o \<Rightarrow> 'o \<Rightarrow> 'o" and view :: "'o \<Rightarrow> 'v"
  assumes ensured: "Ensure d w = (Inr s, w') \<Longrightarrow>
      \<exists>s'. Get (key d) w' = Inr s' \<and>
           view s' = view (case Get (key d) w of Inr e \<Rightarrow> merge e d | Inl _ \<Rightarrow> d) \<and> view s = view s'"
    and frame: "Ensure d w = (r, w') \<Longrightarrow> k \<noteq> key d \<Longrightarrow> Get k w' = Get k w"
    and refused: "Ensure d w = (Inl e, w') \<Longrightarrow> w' = w"
begin

text \<open>Ensuring the same object again stores what it already stored, if merging is idempotent on views.\<close>

lemma ensure_twice:
  assumes idem: "\<And>e. view e = view d \<or> (\<exists>f. view e = view (merge f d)) \<Longrightarrow> view (merge e d) = view e"
    and e1: "Ensure d w = (Inr s, w1)" and e2: "Ensure d w1 = (Inr s2, w2)"
  shows "\<exists>a b. Get (key d) w1 = Inr a \<and> Get (key d) w2 = Inr b \<and> view b = view a"
proof -
  from ensured[OF e1] obtain a where a: "Get (key d) w1 = Inr a"
    "view a = view (case Get (key d) w of Inr e \<Rightarrow> merge e d | Inl _ \<Rightarrow> d)" by blast
  from ensured[OF e2] obtain b where b: "Get (key d) w2 = Inr b" "view b = view (merge a d)" using a(1) by auto
  have "view a = view d \<or> (\<exists>f. view a = view (merge f d))" using a(2) by (auto split: sum.splits)
  then show ?thesis using idem a b by metis
qed

end

locale kube_repo = kube_store kc key view
  for kc :: "('w, 'o) kclient" and key :: "'o \<Rightarrow> NamespacedName" and view :: "'o \<Rightarrow> 'v" +
  fixes merge :: "'o \<Rightarrow> 'o \<Rightarrow> 'o" and what :: string and args :: "arg list"
  assumes merge_key: "key (merge e d) = key e"

sublocale kube_repo \<subseteq> ensured_object "ensureObject kc key merge what args" "kc_Get kc" key merge view
proof
  fix d s w w'
  assume e: "ensureObject kc key merge what args d w = (Inr s, w')"
  show "\<exists>s'. kc_Get kc (key d) w' = Inr s' \<and>
      view s' = view (case kc_Get kc (key d) w of Inl x \<Rightarrow> d | Inr e \<Rightarrow> merge e d) \<and> view s = view s'"
  proof (cases "kc_Get kc (key d) w")
    case (Inl err)
    then have "kc_Create kc d w = (Inr s, w')" using e by (auto simp: ensureObject_def split: if_splits prod.splits sum.splits)
    then show ?thesis using create_stored[of d w s w'] Inl by auto
  next
    case (Inr x)
    then have "kc_Update kc (merge x d) w = (Inr s, w')" using e by (auto simp: ensureObject_def split: prod.splits sum.splits)
    moreover have "key (merge x d) = key d" using get_key[OF Inr] merge_key by simp
    ultimately show ?thesis using update_stored[of "merge x d" w s w'] Inr by auto
  qed
next
  fix d w r w' k
  assume e: "ensureObject kc key merge what args d w = (r, w')" and k: "k \<noteq> key d"
  show "kc_Get kc k w' = kc_Get kc k w"
  proof (cases "kc_Get kc (key d) w")
    case (Inl err)
    then show ?thesis using e create_frame[of d w _ w' k] k
      by (auto simp: ensureObject_def split: if_splits prod.splits sum.splits)
  next
    case (Inr x)
    have "key (merge x d) = key d" using get_key[OF Inr] merge_key by simp
    then show ?thesis using e Inr update_frame[of "merge x d" w _ w' k] k
      by (auto simp: ensureObject_def split: prod.splits sum.splits)
  qed
next
  fix d w err w'
  assume e: "ensureObject kc key merge what args d w = (Inl err, w')"
  then show "w' = w" using create_refused[of d w] update_refused
    by (auto simp: ensureObject_def split: sum.splits if_splits prod.splits)
qed

context kube_repo
begin

lemmas repo_ensured = ensured
lemmas repo_frame = frame
lemmas repo_refused = refused

end

subsection \<open>In-memory stores\<close>

text \<open>An API server that keeps objects in an association list, to instantiate the client.\<close>

type_synonym 'o cluster = "(NamespacedName \<times> 'o) list"

definition memGet :: "NamespacedName \<Rightarrow> 'o cluster \<Rightarrow> 'o result" where
  "memGet k w = (case map_of w k of None \<Rightarrow> Inl (ApiError StatusNotFound (nn_Name k)) | Some x \<Rightarrow> Inr x)"

definition memClient :: "('o \<Rightarrow> NamespacedName) \<Rightarrow> ('o cluster, 'o) kclient" where
  "memClient key =
     \<lparr>kc_Get = (\<lambda>k w. case map_of w k of
                  None \<Rightarrow> Inl (ApiError StatusNotFound (nn_Name k))
                | Some x \<Rightarrow> if key x = k then Inr x else Inl (ApiError StatusOther ''corrupt'')),
      kc_Create = (\<lambda>x w. if map_of w (key x) = None then (Inr x, AList.update (key x) x w)
                         else (Inl (ApiError StatusAlreadyExists (nn_Name (key x))), w)),
      kc_Update = (\<lambda>x w. if map_of w (key x) = None then (Inl (ApiError StatusNotFound (nn_Name (key x))), w)
                         else (Inr x, AList.update (key x) x w)),
      kc_UpdateStatus = (\<lambda>x w. if map_of w (key x) = None then (Inl (ApiError StatusNotFound (nn_Name (key x))), w)
                         else (Inr x, AList.update (key x) x w)),
      kc_Delete = (\<lambda>k w. if map_of w k = None then (Some (ApiError StatusNotFound (nn_Name k)), w)
                         else (None, AList.delete k w))\<rparr>"

lemma memClient_store: "kube_store (memClient key) key view"
  by unfold_locales (auto simp: memClient_def update_conv split: if_splits option.splits)

text \<open>
  \<open>internal/infra/repo/fakes\<close>: the fake repositories keep the desired object verbatim.
\<close>

definition FakeEnsure :: "('o \<Rightarrow> NamespacedName) \<Rightarrow> 'o \<Rightarrow> 'o cluster \<Rightarrow> 'o result \<times> 'o cluster" where
  "FakeEnsure key desired w = (Inr desired, AList.update (key desired) desired w)"

interpretation fakeDeployments: ensured_object
  "FakeEnsure (\<lambda>d. keyOf (dep_Meta d))" memGet "\<lambda>d. keyOf (dep_Meta d)" "\<lambda>e d. d" "\<lambda>d. d"
  by unfold_locales (auto simp: FakeEnsure_def memGet_def update_conv split: sum.splits)

interpretation fakeServices: ensured_object
  "FakeEnsure (\<lambda>s. keyOf (svc_Meta s))" memGet "\<lambda>s. keyOf (svc_Meta s)" "\<lambda>e d. d" "\<lambda>s. s"
  by unfold_locales (auto simp: FakeEnsure_def memGet_def update_conv split: sum.splits)

interpretation services: kube_repo "memClient (\<lambda>s. keyOf (svc_Meta s))" "\<lambda>s. keyOf (svc_Meta s)" svc_Spec
  mergeService "''Service: %w''" "[]"
  by (simp add: kube_repo_def memClient_store kube_repo_axioms_def mergeService_def)

interpretation deployments: kube_repo "memClient (\<lambda>d. keyOf (dep_Meta d))" "\<lambda>d. keyOf (dep_Meta d)" dep_Spec
  mergeDeployment "''Deployment: %w''" "[]"
  by (simp add: kube_repo_def memClient_store kube_repo_axioms_def mergeDeployment_def)

interpretation configMaps: kube_repo "memClient (\<lambda>c. keyOf (cm_Meta c))" "\<lambda>c. keyOf (cm_Meta c)"
  "\<lambda>c. (cm_Data c, om_Labels (cm_Meta c), om_Annotations (cm_Meta c))" mergeConfigMap "''ConfigMap %s: %w''" "[]"
  by (simp add: kube_repo_def memClient_store kube_repo_axioms_def mergeConfigMap_def)

subsection \<open>Properties of the repositories\<close>

text \<open>\<open>EnsureService\<close> makes the stored Service carry the desired ports and the desired selector,
  whatever selector was stored before, keeps the service type of an existing Service, and leaves
  every other Service alone.\<close>

theorem EnsureService_overwrites_selector:
  assumes "kube_store kc (\<lambda>s. keyOf (svc_Meta s)) svc_Spec"
    and "EnsureService kc desired w = (Inr s, w')"
  shows "\<exists>s'. kc_Get kc (keyOf (svc_Meta desired)) w' = Inr s' \<and>
    ss_Selector (svc_Spec s') = ss_Selector (svc_Spec desired) \<and> ss_Ports (svc_Spec s') = ss_Ports (svc_Spec desired) \<and>
    ss_Type (svc_Spec s') = (case kc_Get kc (keyOf (svc_Meta desired)) w of
                               Inr e \<Rightarrow> ss_Type (svc_Spec e) | Inl _ \<Rightarrow> ss_Type (svc_Spec desired)) \<and>
    (\<forall>k. k \<noteq> keyOf (svc_Meta desired) \<longrightarrow> kc_Get kc k w' = kc_Get kc k w)"
proof -
  have r: "kube_repo kc (\<lambda>s. keyOf (svc_Meta s)) svc_Spec mergeService"
    using assms(1) by (simp add: kube_repo_def kube_repo_axioms_def mergeService_def)
  note e = assms(2)[unfolded EnsureService_def]
  from kube_repo.repo_ensured[OF r e] kube_repo.repo_frame[OF r e] show ?thesis
    by (auto simp: mergeService_def split: sum.splits)
qed

definition svcOf :: "string \<Rightarrow> Service" where
  "svcOf sel = \<lparr>svc_Meta = objectMeta ''a'' ''ns'' [] [],
     svc_Spec = \<lparr>ss_Type = ''ClusterIP'', ss_Selector = [(''app'', sel)], ss_Ports = []\<rparr>\<rparr>"

abbreviation svcKey :: NamespacedName where
  "svcKey \<equiv> \<lparr>nn_Name = ''a'', nn_Namespace = ''ns''\<rparr>"

theorem EnsureService_overwrites_selector_witness:
  "\<exists>s'. kc_Get (memClient (\<lambda>s. keyOf (svc_Meta s))) svcKey
          (snd (EnsureService (memClient (\<lambda>s. keyOf (svc_Meta s))) (svcOf ''runner'') [(svcKey, svcOf ''session-router'')])) = Inr s' \<and>
        ss_Selector (svc_Spec s') = [(''app'', ''runner'')]"
proof -
  have "EnsureService (memClient (\<lambda>s. keyOf (svc_Meta s))) (svcOf ''runner'') [(svcKey, svcOf ''session-router'')] =
      (Inr (svcOf ''runner''), [(svcKey, svcOf ''runner'')])"
    by (simp add: EnsureService_def ensureObject_def memClient_def svcOf_def objectMeta_def mergeService_def)
  from EnsureService_overwrites_selector[OF memClient_store this] this show ?thesis
    by (auto simp: svcOf_def objectMeta_def)
qed

text \<open>\<open>EnsureConfigMap\<close> leaves a ConfigMap with exactly the desired data and labels, in which the
  desired annotations win key by key and annotations set by others are kept; every other ConfigMap
  is untouched, and a failing call changes nothing.\<close>

theorem EnsureConfigMap_merges:
  assumes "kube_store kc (\<lambda>c. keyOf (cm_Meta c)) (\<lambda>c. (cm_Data c, om_Labels (cm_Meta c), om_Annotations (cm_Meta c)))"
    and "EnsureConfigMap kc desired w = (r, w')"
  shows "(case r of
      Some err \<Rightarrow> w' = w
    | None \<Rightarrow> \<exists>c. kc_Get kc (keyOf (cm_Meta desired)) w' = Inr c \<and> cm_Data c = cm_Data desired \<and>
        om_Labels (cm_Meta c) = om_Labels (cm_Meta desired) \<and>
        (\<forall>k. mget (om_Annotations (cm_Meta c)) k =
           (case mget (om_Annotations (cm_Meta desired)) k of
              Some v \<Rightarrow> Some v
            | None \<Rightarrow> (case kc_Get kc (keyOf (cm_Meta desired)) w of
                         Inr e \<Rightarrow> mget (om_Annotations (cm_Meta e)) k | Inl _ \<Rightarrow> None))) \<and>
        (\<forall>k. k \<noteq> keyOf (cm_Meta desired) \<longrightarrow> kc_Get kc k w' = kc_Get kc k w))"
proof -
  let ?key = "\<lambda>c. keyOf (cm_Meta c)"
  have rp: "kube_repo kc ?key (\<lambda>c. (cm_Data c, om_Labels (cm_Meta c), om_Annotations (cm_Meta c))) mergeConfigMap"
    using assms(1) by (simp add: kube_repo_def kube_repo_axioms_def mergeConfigMap_def)
  have ann: "mget (foldr (\<lambda>(k, v). mput k v) d e) k = (case mget d k of Some v \<Rightarrow> Some v | None \<Rightarrow> mget e k)"
    for d e :: "string smap" and k
    by (induction d) auto
  let ?e = "ensureObject kc ?key mergeConfigMap ''ConfigMap %s: %w'' [AS (om_Name (cm_Meta desired))] desired w"
  show ?thesis
  proof (cases r)
    case None
    then obtain s where e: "?e = (Inr s, w')"
      using assms(2) by (auto simp: EnsureConfigMap_def split: prod.splits sum.splits)
    from kube_repo.repo_ensured[OF rp e] kube_repo.repo_frame[OF rp e] show ?thesis using None
      by (auto simp: mergeConfigMap_def ann split: sum.splits option.splits)
  next
    case (Some err)
    then have e: "?e = (Inl err, w')"
      using assms(2) by (auto simp: EnsureConfigMap_def split: prod.splits sum.splits)
    then show ?thesis using kube_repo.repo_refused[OF rp e] Some by simp
  qed
qed

definition cmOf :: "string smap \<Rightarrow> ConfigMap" where
  "cmOf annots = \<lparr>cm_Meta = objectMeta ''a'' ''ns'' [] annots, cm_Data = [(''k'', ''v'')]\<rparr>"

theorem EnsureConfigMap_merges_witness:
  "\<exists>c. kc_Get (memClient (\<lambda>c. keyOf (cm_Meta c))) svcKey
         (snd (EnsureConfigMap (memClient (\<lambda>c. keyOf (cm_Meta c))) (cmOf [(''hash'', ''2'')])
            [(svcKey, cmOf [(''hash'', ''1''), (''team'', ''x'')])])) = Inr c \<and>
       mget (om_Annotations (cm_Meta c)) ''hash'' = Some ''2'' \<and> mget (om_Annotations (cm_Meta c)) ''team'' = Some ''x''"
proof -
  have "EnsureConfigMap (memClient (\<lambda>c. keyOf (cm_Meta c))) (cmOf [(''hash'', ''2'')])
            [(svcKey, cmOf [(''hash'', ''1''), (''team'', ''x'')])] =
      (None, [(svcKey, cmOf [(''hash'', ''2''), (''team'', ''x'')])])"
    by (simp add: EnsureConfigMap_def ensureObject_def memClient_def cmOf_def objectMeta_def mergeConfigMap_def)
  from EnsureConfigMap_merges[OF memClient_store this] this show ?thesis
    by (fastforce simp: cmOf_def objectMeta_def memClient_def)
qed

end
