(* ===== verification/AgentReconcile.thy ===== *)
theory AgentReconcile
  imports CompilerFacts Builder Repo
begin

text \<open>
  \<open>internal/app/agent/reconcile.go\<close> with \<open>internal/domain/agent\<close>: the Agent application service.
  \<open>Reconcile\<close> takes the Agent and the cluster state and returns the Agent with its new status, the
  requeue decision and the cluster state after the writes. The repositories are the record
  \<open>rdeps\<close>; \<open>kubeDeps\<close> builds it from the repository definitions over Kubernetes clients.
\<close>

subsection \<open>Domain\<close>

definition ConditionTypeReady :: string where
  "ConditionTypeReady = ''Ready''"

definition ConditionTypeSpecValid :: string where
  "ConditionTypeSpecValid = ''SpecValid''"

definition ConditionTypeSecretsReady :: string where
  "ConditionTypeSecretsReady = ''SecretsReady''"

definition SetCondition :: "k8slib \<Rightarrow> string \<Rightarrow> ConditionStatus \<Rightarrow> string \<Rightarrow> msgtext \<Rightarrow> Agent \<Rightarrow> Agent" where
  "SetCondition lib ctype status reason message agent =
     agent\<lparr>ag_Status := (ag_Status agent)\<lparr>ast_Conditions :=
       lib_SetStatusCondition lib (ast_Conditions (ag_Status agent))
         \<lparr>c_Type = ctype, c_Status = status, c_ObservedGeneration = om_Generation (ag_Meta agent),
          c_LastTransitionTime = lib_Now lib, c_Reason = reason, c_Message = message\<rparr>\<rparr>\<rparr>"

definition CalculatePhase :: "Deployment \<Rightarrow> AgentPhase" where
  "CalculatePhase d = (if dst_AvailableReplicas (dep_Status d) > 0 then AgentPhaseRunning else AgentPhasePending)"

definition ValidateSpec :: "Agent \<Rightarrow> goerror option" where
  "ValidateSpec agent =
     (if rt_Isolation (as_Runtime (ag_Spec agent)) = IsolationSession
      then Some (Errorf ''runtime.isolation %q is not available yet (roadmap P1)'' [AS ''session''])
      else if (case as_Spec (ag_Spec agent) of None \<Rightarrow> True | Some f \<Rightarrow> frag_Model f = '''') \<and> as_ModelRef (ag_Spec agent) = None
      then Some (Errorf ''a model is required: set spec.modelRef or spec.spec.model'' [])
      else None)"

subsection \<open>Service\<close>

record Config =
  cfg_DefaultRunnerVersion :: string
  cfg_RunnerImageRepository :: string
  cfg_Injected :: "InjectedCapability list"
  cfg_OTLPEndpoint :: string
  cfg_CapabilityDelivery :: CapabilityDeliveryMode
  cfg_RequireVerifiedCapabilities :: bool

record 'w rdeps =
  rd_compilerDeps :: "'w \<Rightarrow> cdeps"
  rd_EnsureConfigMap :: "ConfigMap \<Rightarrow> 'w \<Rightarrow> goerror option \<times> 'w"
  rd_EnsureDeployment :: "Deployment \<Rightarrow> 'w \<Rightarrow> Deployment result \<times> 'w"
  rd_EnsureService :: "Service \<Rightarrow> 'w \<Rightarrow> Service result \<times> 'w"
  rd_GetSecret :: "NamespacedName \<Rightarrow> 'w \<Rightarrow> Secret result"
  rd_SetOwner :: "Agent \<Rightarrow> ObjectMeta \<Rightarrow> ObjectMeta result"
  rd_marshalCard :: "AgentCardOverride \<Rightarrow> string result"

record ReconcileResult =
  rr_Requeue :: bool
  rr_Error :: "goerror option"

abbreviation rrDone :: ReconcileResult where
  "rrDone \<equiv> \<lparr>rr_Requeue = False, rr_Error = None\<rparr>"

abbreviation rrRetry :: "goerror \<Rightarrow> ReconcileResult" where
  "rrRetry e \<equiv> \<lparr>rr_Requeue = True, rr_Error = Some e\<rparr>"

definition compilerOptions :: "Config \<Rightarrow> Options" where
  "compilerOptions cfg =
     \<lparr>opt_DefaultRunnerVersion = cfg_DefaultRunnerVersion cfg, opt_Injected = cfg_Injected cfg,
      opt_RequireVerified = cfg_RequireVerifiedCapabilities cfg\<rparr>"

definition setOwnerR :: "'w rdeps \<Rightarrow> Agent \<Rightarrow> ObjectMeta \<Rightarrow> ObjectMeta result" where
  "setOwnerR deps agent m =
     (case rd_SetOwner deps agent m of
        Inl e \<Rightarrow> Inl (ErrorfW ''failed to set owner reference: %w'' [] e)
      | Inr m' \<Rightarrow> Inr m')"

definition specConfigMap :: "Agent \<Rightarrow> Result \<Rightarrow> string \<Rightarrow> ConfigMap" where
  "specConfigMap agent compiled cardJSON =
     (let n = om_Name (ag_Meta agent) in
      \<lparr>cm_Meta = objectMeta (SpecConfigMapName n) (om_Namespace (ag_Meta agent))
         [(''app.kubernetes.io/name'', n), (''app.kubernetes.io/component'', ''agent-spec''),
          (''app.kubernetes.io/managed-by'', ''flokoa-operator''), (''flokoa.ai/agent'', n)]
         [(''flokoa.ai/spec-hash'', res_Hash compiled), (''flokoa.ai/runner-version'', res_RunnerVersion compiled),
          (''flokoa.ai/schema-digest'', res_SchemaDigest compiled)],
       cm_Data = [(''agent-spec.yaml'', res_YAML compiled), (''agent-card.json'', cardJSON)]\<rparr>)"

definition reconcileSpecConfigMap :: "'w rdeps \<Rightarrow> Agent \<Rightarrow> Result \<Rightarrow> 'w \<Rightarrow> string result \<times> 'w" where
  "reconcileSpecConfigMap deps agent compiled w =
     (case rd_marshalCard deps (as_Card (ag_Spec agent)) of
        Inl e \<Rightarrow> (Inl (ErrorfW ''failed to marshal agent card to JSON: %w'' [] e), w)
      | Inr cardJSON \<Rightarrow>
          (let desired = specConfigMap agent compiled cardJSON in
           case setOwnerR deps agent (cm_Meta desired) of
             Inl e \<Rightarrow> (Inl e, w)
           | Inr m \<Rightarrow>
               (case rd_EnsureConfigMap deps (desired\<lparr>cm_Meta := m\<rparr>) w of
                  (Some e, w1) \<Rightarrow> (Inl e, w1)
                | (None, w1) \<Rightarrow> (Inr (SpecConfigMapName (om_Name (ag_Meta agent))), w1))))"

text \<open>One step of the \<open>record\<close> closure over \<open>versions\<close> (insertion order) and \<open>missing\<close>.\<close>

definition recordSecret :: "'w rdeps \<Rightarrow> string \<Rightarrow> 'w \<Rightarrow> EnvVar \<Rightarrow> string smap \<times> string list \<Rightarrow> string smap \<times> string list" where
  "recordSecret deps ns w env acc =
     (case ev_ValueFrom env of
        Some (SecretKeyRef sel) \<Rightarrow>
          (if mget (fst acc) (sks_Name sel) \<noteq> None then acc
           else case rd_GetSecret deps \<lparr>nn_Name = sks_Name sel, nn_Namespace = ns\<rparr> w of
                  Inl e \<Rightarrow> (fst acc @ [(sks_Name sel, ''missing'')], snd acc @ [sks_Name sel])
                | Inr s \<Rightarrow> (fst acc @ [(sks_Name sel, om_ResourceVersion (sec_Meta s))], snd acc))
      | _ \<Rightarrow> acc)"

definition secretsState :: "'sc speclib \<Rightarrow> 'w rdeps \<Rightarrow> string \<Rightarrow> Result \<Rightarrow> 'w \<Rightarrow> string \<times> string list" where
  "secretsState sl deps ns compiled w =
     (case fold (recordSecret deps ns w) (res_SecretEnv compiled @ res_ProviderSecretEnv compiled) ([], []) of
        (versions, missing) \<Rightarrow>
          if versions = [] then ('''', []) else (SecretVersions sl versions, missing))"

definition deliveryMount :: "k8slib \<Rightarrow> CapabilityArtifact \<Rightarrow> CapabilityMount result" where
  "deliveryMount lib artifact =
     (let errs = lib_IsDNS1123Label lib (ca_Name artifact) in
      if errs \<noteq> []
      then Inl (Errorf ''capability name %q cannot be used for artifact delivery (it becomes a container name and volume subPath): %s''
             [AS (ca_Name artifact), AL errs])
      else Inr \<lparr>cmt_Name = ca_Name artifact, cmt_Artifact = ca_Artifact artifact\<rparr>)"

definition deploymentParams :: "Config \<Rightarrow> Agent \<Rightarrow> Result \<Rightarrow> string \<Rightarrow> string \<Rightarrow> CapabilityMount list \<Rightarrow> DeploymentParams" where
  "deploymentParams cfg agent compiled cmName secretsHash mounts =
     \<lparr>dp_AgentName = om_Name (ag_Meta agent), dp_AgentNamespace = om_Namespace (ag_Meta agent),
      dp_Labels = Labels agent, dp_Runtime = as_Runtime (ag_Spec agent),
      dp_RunnerImageRepository = cfg_RunnerImageRepository cfg, dp_RunnerVersion = res_RunnerVersion compiled,
      dp_SchemaDigest = res_SchemaDigest compiled, dp_SpecConfigMapName = cmName, dp_SpecHash = res_Hash compiled,
      dp_SecretsHash = secretsHash, dp_SecretEnv = res_SecretEnv compiled, dp_ProviderEnv = res_ProviderEnv compiled,
      dp_ProviderSecretEnv = res_ProviderSecretEnv compiled,
      dp_PublishedURL = PublishedURL (om_Name (ag_Meta agent)) (om_Namespace (ag_Meta agent)),
      dp_OTLPEndpoint = cfg_OTLPEndpoint cfg, dp_Capabilities = mounts,
      dp_CapabilityDelivery = (if cfg_CapabilityDelivery cfg = DeliveryUnset then DeliveryInitContainer
                               else cfg_CapabilityDelivery cfg)\<rparr>"

definition reconcileDeployment ::
  "k8slib \<Rightarrow> 'w rdeps \<Rightarrow> Config \<Rightarrow> Agent \<Rightarrow> Result \<Rightarrow> string \<Rightarrow> string \<Rightarrow> 'w \<Rightarrow> Deployment result \<times> 'w" where
  "reconcileDeployment lib deps cfg agent compiled cmName secretsHash w =
     (case mapR (deliveryMount lib) (res_CapabilityArtifacts compiled) of
        Inl e \<Rightarrow> (Inl e, w)
      | Inr mounts \<Rightarrow>
          (let desired = BuildDeployment (deploymentParams cfg agent compiled cmName secretsHash mounts) in
           case setOwnerR deps agent (dep_Meta desired) of
             Inl e \<Rightarrow> (Inl e, w)
           | Inr m \<Rightarrow> rd_EnsureDeployment deps (desired\<lparr>dep_Meta := m\<rparr>) w))"

definition ensureOwnedService :: "'w rdeps \<Rightarrow> Agent \<Rightarrow> Service \<Rightarrow> 'w \<Rightarrow> Service result \<times> 'w" where
  "ensureOwnedService deps agent svc w =
     (case setOwnerR deps agent (svc_Meta svc) of
        Inl e \<Rightarrow> (Inl e, w)
      | Inr m \<Rightarrow> rd_EnsureService deps (svc\<lparr>svc_Meta := m\<rparr>) w)"

definition reconcileServices :: "'w rdeps \<Rightarrow> Agent \<Rightarrow> 'w \<Rightarrow> Service result \<times> 'w" where
  "reconcileServices deps agent w =
     (let n = om_Name (ag_Meta agent); ns = om_Namespace (ag_Meta agent); labels = Labels agent in
      case ensureOwnedService deps agent (BuildRuntimeService n ns labels) w of
        (Inl e, w1) \<Rightarrow> (Inl e, w1)
      | (Inr _, w1) \<Rightarrow> ensureOwnedService deps agent (BuildPublishedService n ns labels) w1)"

subsection \<open>Reconcile\<close>

definition setStatus :: "(AgentStatus \<Rightarrow> AgentStatus) \<Rightarrow> Agent \<Rightarrow> Agent" where
  "setStatus f agent = agent\<lparr>ag_Status := f (ag_Status agent)\<rparr>"

definition onCompileError :: "k8slib \<Rightarrow> goerror \<Rightarrow> Agent \<Rightarrow> Agent \<times> ReconcileResult" where
  "onCompileError lib err agent =
     (if IsSpecValidation err
      then (SetCondition lib ConditionTypeSpecValid ConditionFalse ''SpecInvalid'' (ErrText err) agent, rrDone)
      else if IsDependency err
      then (SetCondition lib ConditionTypeSpecValid ConditionFalse ''DependencyMissing'' (ErrText err) agent, rrRetry err)
      else if IsPermanent err
      then (SetCondition lib ConditionTypeSpecValid ConditionFalse ''ValidationFailed'' (ErrText err)
              (setStatus (\<lambda>s. s\<lparr>ast_Phase := AgentPhaseFailed\<rparr>) agent), rrDone)
      else (SetCondition lib ConditionTypeSpecValid ConditionFalse ''ReconcileError'' (ErrText err) agent, rrRetry err))"

definition notReady :: "k8slib \<Rightarrow> goerror \<Rightarrow> Agent \<Rightarrow> 'w \<Rightarrow> Agent \<times> ReconcileResult \<times> 'w" where
  "notReady lib err agent w =
     (SetCondition lib ConditionTypeReady ConditionFalse ''ReconcileError'' (ErrText err) agent, rrRetry err, w)"

definition afterCompile :: "k8slib \<Rightarrow> Result \<Rightarrow> Agent \<Rightarrow> Agent" where
  "afterCompile lib compiled agent =
     setStatus (\<lambda>s. s\<lparr>ast_SpecHash := res_Hash compiled, ast_RunnerVersion := res_RunnerVersion compiled,
                      ast_InjectedCapabilities := res_Injected compiled\<rparr>)
       (SetCondition lib ConditionTypeSpecValid ConditionTrue ''SpecCompiled''
          (Sprintf ''Compiled spec %s for runner %s'' [AS (res_Hash compiled), AS (res_RunnerVersion compiled)]) agent)"

definition secretsCondition :: "k8slib \<Rightarrow> string list \<Rightarrow> Agent \<Rightarrow> Agent" where
  "secretsCondition lib missing agent =
     (if missing \<noteq> []
      then SetCondition lib ConditionTypeSecretsReady ConditionFalse ''SecretsMissing'' (Sprintf ''Missing secrets: %v'' [AL missing]) agent
      else SetCondition lib ConditionTypeSecretsReady ConditionTrue ''SecretsResolved'' (Sprintf ''All referenced secrets are present'' []) agent)"

definition finalStatus :: "k8slib \<Rightarrow> Deployment \<Rightarrow> Service \<Rightarrow> Agent \<Rightarrow> Agent" where
  "finalStatus lib deployment service agent =
     (let agent1 = setStatus (\<lambda>s. s\<lparr>ast_Phase := CalculatePhase deployment,
            ast_URL := PublishedURL (om_Name (svc_Meta service)) (om_Namespace (svc_Meta service)),
            ast_Replicas := dst_Replicas (dep_Status deployment),
            ast_AvailableReplicas := dst_AvailableReplicas (dep_Status deployment),
            ast_ObservedGeneration := om_Generation (ag_Meta agent)\<rparr>) agent in
      if dst_AvailableReplicas (dep_Status deployment) > 0
      then SetCondition lib ConditionTypeReady ConditionTrue ''DeploymentReady'' (Sprintf ''Agent is ready'' []) agent1
      else SetCondition lib ConditionTypeReady ConditionFalse ''DeploymentNotReady'' (Sprintf ''Waiting for pods'' []) agent1)"

definition Reconcile ::
  "('sc, 'sp, 'v) clib \<Rightarrow> 'w rdeps \<Rightarrow> Config \<Rightarrow> Agent \<Rightarrow> 'w \<Rightarrow> Agent \<times> ReconcileResult \<times> 'w" where
  "Reconcile cl deps cfg agent w =
     (let lib = cl_k8s cl in
      case ValidateSpec agent of
        Some err \<Rightarrow>
          (SetCondition lib ConditionTypeSpecValid ConditionFalse ''ValidationFailed'' (ErrText err)
             (setStatus (\<lambda>s. s\<lparr>ast_Phase := AgentPhaseFailed\<rparr>) agent), rrDone, w)
      | None \<Rightarrow>
          (case Compile cl (rd_compilerDeps deps w) (compilerOptions cfg) agent of
             Inl err \<Rightarrow> (case onCompileError lib err agent of (agent1, r) \<Rightarrow> (agent1, r, w))
           | Inr compiled \<Rightarrow>
               (let agent1 = afterCompile lib compiled agent in
                case reconcileSpecConfigMap deps agent1 compiled w of
                  (Inl err, w1) \<Rightarrow> notReady lib err agent1 w1
                | (Inr cmName, w1) \<Rightarrow>
                    (case secretsState (cl_spec cl) deps (om_Namespace (ag_Meta agent)) compiled w1 of
                       (secretsHash, missing) \<Rightarrow>
                         (let agent2 = secretsCondition lib missing agent1 in
                          case reconcileDeployment lib deps cfg agent2 compiled cmName secretsHash w1 of
                            (Inl err, w2) \<Rightarrow> notReady lib err agent2 w2
                          | (Inr deployment, w2) \<Rightarrow>
                              (case reconcileServices deps agent2 w2 of
                                 (Inl err, w3) \<Rightarrow> notReady lib err agent2 w3
                               | (Inr service, w3) \<Rightarrow> (finalStatus lib deployment service agent2, rrDone, w3)))))))"

subsection \<open>Status bookkeeping\<close>

definition condOf :: "k8slib \<Rightarrow> Agent \<Rightarrow> string \<Rightarrow> ConditionStatus option" where
  "condOf lib agent t = cond_status lib (ast_Conditions (ag_Status agent)) t"

lemma SetCondition_cond:
  assumes "status_condition_laws lib"
  shows "condOf lib (SetCondition lib t s r m agent) t' = (if t' = t then Some s else condOf lib agent t')"
  by (simp add: condOf_def SetCondition_def cond_set[OF assms])

lemma SetCondition_frame [simp]:
  "ag_Meta (SetCondition lib t s r m agent) = ag_Meta agent" "ag_Spec (SetCondition lib t s r m agent) = ag_Spec agent"
  "ast_Phase (ag_Status (SetCondition lib t s r m agent)) = ast_Phase (ag_Status agent)"
  "ast_URL (ag_Status (SetCondition lib t s r m agent)) = ast_URL (ag_Status agent)"
  "ast_SpecHash (ag_Status (SetCondition lib t s r m agent)) = ast_SpecHash (ag_Status agent)"
  "ast_RunnerVersion (ag_Status (SetCondition lib t s r m agent)) = ast_RunnerVersion (ag_Status agent)"
  "ast_InjectedCapabilities (ag_Status (SetCondition lib t s r m agent)) = ast_InjectedCapabilities (ag_Status agent)"
  "ast_Replicas (ag_Status (SetCondition lib t s r m agent)) = ast_Replicas (ag_Status agent)"
  "ast_AvailableReplicas (ag_Status (SetCondition lib t s r m agent)) = ast_AvailableReplicas (ag_Status agent)"
  "ast_ObservedGeneration (ag_Status (SetCondition lib t s r m agent)) = ast_ObservedGeneration (ag_Status agent)"
  by (simp_all add: SetCondition_def)

lemma setStatus_cond:
  "(\<And>s. ast_Conditions (f s) = ast_Conditions s) \<Longrightarrow> condOf lib (setStatus f agent) t = condOf lib agent t"
  by (simp add: condOf_def setStatus_def)

lemma condOf_phase: "condOf lib (setStatus (\<lambda>s. s\<lparr>ast_Phase := p\<rparr>) agent) t = condOf lib agent t"
  by (rule setStatus_cond) simp

lemma setStatus_phase:
  "ag_Status (setStatus (\<lambda>s. s\<lparr>ast_Phase := p\<rparr>) agent) = (ag_Status agent)\<lparr>ast_Phase := p\<rparr>"
  by (simp add: setStatus_def)

text \<open>The part of an Agent's status that describes what is deployed.\<close>

definition deployedStatus :: "Agent \<Rightarrow> string \<times> string \<times> string \<times> int \<times> int \<times> int" where
  "deployedStatus agent =
     (let s = ag_Status agent in
      (ast_URL s, ast_SpecHash s, ast_RunnerVersion s, ast_Replicas s, ast_AvailableReplicas s, ast_ObservedGeneration s))"

definition compositionRejected :: "('sc, 'sp, 'v) clib \<Rightarrow> 'w rdeps \<Rightarrow> Config \<Rightarrow> Agent \<Rightarrow> 'w \<Rightarrow> bool" where
  "compositionRejected cl deps cfg agent w \<longleftrightarrow>
     ValidateSpec agent \<noteq> None \<or> (\<exists>e. Compile cl (rd_compilerDeps deps w) (compilerOptions cfg) agent = Inl e)"

text \<open>C2. A composition that is invalid or does not compile leaves the last good deployment running:
  reconciling writes nothing to the cluster, keeps every status field that describes the deployed
  spec, and reports SpecValid=False.\<close>

theorem Reconcile_keeps_last_good:
  assumes "status_condition_laws (cl_k8s cl)" and "compositionRejected cl deps cfg agent w"
    and "Reconcile cl deps cfg agent w = (agent', r, w')"
  shows "w' = w \<and> deployedStatus agent' = deployedStatus agent \<and>
    condOf (cl_k8s cl) agent' ConditionTypeSpecValid = Some ConditionFalse \<and>
    condOf (cl_k8s cl) agent' ConditionTypeReady = condOf (cl_k8s cl) agent ConditionTypeReady"
proof (cases "ValidateSpec agent")
  case None
  then obtain e where "Compile cl (rd_compilerDeps deps w) (compilerOptions cfg) agent = Inl e"
    using assms(2) by (auto simp: compositionRejected_def)
  then show ?thesis using assms(1,3) None
    by (auto simp: Reconcile_def Let_def onCompileError_def deployedStatus_def SetCondition_cond
        condOf_phase setStatus_phase ConditionTypeSpecValid_def ConditionTypeReady_def split: if_splits)
next
  case (Some err)
  then show ?thesis using assms(1,3)
    by (auto simp: Reconcile_def Let_def deployedStatus_def SetCondition_cond condOf_phase setStatus_phase
        ConditionTypeSpecValid_def ConditionTypeReady_def)
qed

text \<open>
  What a completed reconcile leaves behind: the Agent's status names the compiled spec, the
  Deployment written last carries the same spec hash on its pods and mounts the spec ConfigMap
  written before it, and readiness and phase follow the Deployment's available replicas.
\<close>

definition consistentDeployment :: "k8slib \<Rightarrow> Result \<Rightarrow> Deployment \<Rightarrow> Deployment \<Rightarrow> Agent \<Rightarrow> bool" where
  "consistentDeployment lib compiled desired observed agent \<longleftrightarrow>
     ast_SpecHash (ag_Status agent) = res_Hash compiled \<and>
     ast_RunnerVersion (ag_Status agent) = res_RunnerVersion compiled \<and>
     ast_InjectedCapabilities (ag_Status agent) = res_Injected compiled \<and>
     mget (pt_Annotations (ds_Template (dep_Spec desired))) ''flokoa.ai/spec-hash'' = Some (ast_SpecHash (ag_Status agent)) \<and>
     \<lparr>vol_Name = ''agent-spec'', vol_Source = ConfigMapVolume (SpecConfigMapName (om_Name (ag_Meta agent)))\<rparr>
       \<in> set (pt_Volumes (ds_Template (dep_Spec desired))) \<and>
     ast_ObservedGeneration (ag_Status agent) = om_Generation (ag_Meta agent) \<and>
     ast_AvailableReplicas (ag_Status agent) = dst_AvailableReplicas (dep_Status observed) \<and>
     condOf lib agent ConditionTypeSpecValid = Some ConditionTrue \<and>
     condOf lib agent ConditionTypeReady =
       Some (if dst_AvailableReplicas (dep_Status observed) > 0 then ConditionTrue else ConditionFalse) \<and>
     ast_Phase (ag_Status agent) =
       (if dst_AvailableReplicas (dep_Status observed) > 0 then AgentPhaseRunning else AgentPhasePending)"

lemma Reconcile_success_cases:
  assumes "Reconcile cl deps cfg agent w = (agent', rrDone, w')" and "\<not> compositionRejected cl deps cfg agent w"
  shows "\<exists>compiled w1 h missing deployment w2 service.
    Compile cl (rd_compilerDeps deps w) (compilerOptions cfg) agent = Inr compiled \<and>
    reconcileSpecConfigMap deps (afterCompile (cl_k8s cl) compiled agent) compiled w = (Inr (SpecConfigMapName (om_Name (ag_Meta agent))), w1) \<and>
    secretsState (cl_spec cl) deps (om_Namespace (ag_Meta agent)) compiled w1 = (h, missing) \<and>
    reconcileDeployment (cl_k8s cl) deps cfg (secretsCondition (cl_k8s cl) missing (afterCompile (cl_k8s cl) compiled agent))
      compiled (SpecConfigMapName (om_Name (ag_Meta agent))) h w1 = (Inr deployment, w2) \<and>
    reconcileServices deps (secretsCondition (cl_k8s cl) missing (afterCompile (cl_k8s cl) compiled agent)) w2 = (Inr service, w') \<and>
    agent' = finalStatus (cl_k8s cl) deployment service (secretsCondition (cl_k8s cl) missing (afterCompile (cl_k8s cl) compiled agent))"
proof -
  have v: "ValidateSpec agent = None" using assms(2) by (auto simp: compositionRejected_def)
  obtain compiled where c: "Compile cl (rd_compilerDeps deps w) (compilerOptions cfg) agent = Inr compiled"
    using assms(2) by (cases "Compile cl (rd_compilerDeps deps w) (compilerOptions cfg) agent") (auto simp: compositionRejected_def)
  have n: "fst (reconcileSpecConfigMap deps a compiled w) = Inr cm \<Longrightarrow> cm = SpecConfigMapName (om_Name (ag_Meta a))" for a cm
    by (auto simp: reconcileSpecConfigMap_def Let_def split: sum.splits prod.splits option.splits)
  have m: "ag_Meta (afterCompile (cl_k8s cl) compiled agent) = ag_Meta agent" by (simp add: afterCompile_def setStatus_def)
  show ?thesis using assms(1) v c n[of "afterCompile (cl_k8s cl) compiled agent"] m
    by (auto simp: Reconcile_def Let_def notReady_def split: prod.splits sum.splits)
qed

lemma stage_frame [simp]:
  "ag_Meta (afterCompile lib compiled agent) = ag_Meta agent" "ag_Meta (secretsCondition lib missing agent) = ag_Meta agent"
  "ast_SpecHash (ag_Status (afterCompile lib compiled agent)) = res_Hash compiled"
  "ast_RunnerVersion (ag_Status (afterCompile lib compiled agent)) = res_RunnerVersion compiled"
  "ast_InjectedCapabilities (ag_Status (afterCompile lib compiled agent)) = res_Injected compiled"
  "ast_SpecHash (ag_Status (secretsCondition lib missing agent)) = ast_SpecHash (ag_Status agent)"
  "ast_RunnerVersion (ag_Status (secretsCondition lib missing agent)) = ast_RunnerVersion (ag_Status agent)"
  "ast_InjectedCapabilities (ag_Status (secretsCondition lib missing agent)) = ast_InjectedCapabilities (ag_Status agent)"
  by (simp_all add: afterCompile_def setStatus_def secretsCondition_def)

lemma stage_cond:
  assumes "status_condition_laws lib"
  shows "condOf lib (afterCompile lib compiled agent) ConditionTypeSpecValid = Some ConditionTrue"
    and "condOf lib (secretsCondition lib missing agent) ConditionTypeSpecValid = condOf lib agent ConditionTypeSpecValid"
proof -
  show "condOf lib (afterCompile lib compiled agent) ConditionTypeSpecValid = Some ConditionTrue"
    unfolding afterCompile_def by (subst setStatus_cond) (simp_all add: SetCondition_cond[OF assms])
  show "condOf lib (secretsCondition lib missing agent) ConditionTypeSpecValid = condOf lib agent ConditionTypeSpecValid"
    by (simp add: secretsCondition_def SetCondition_cond[OF assms] ConditionTypeSpecValid_def ConditionTypeSecretsReady_def)
qed

lemma finalStatus_facts:
  assumes "status_condition_laws lib"
  shows "condOf lib (finalStatus lib d s a) ConditionTypeReady =
      Some (if dst_AvailableReplicas (dep_Status d) > 0 then ConditionTrue else ConditionFalse)"
    and "condOf lib (finalStatus lib d s a) ConditionTypeSpecValid = condOf lib a ConditionTypeSpecValid"
proof -
  let ?f = "\<lambda>st. st\<lparr>ast_Phase := CalculatePhase d,
            ast_URL := PublishedURL (om_Name (svc_Meta s)) (om_Namespace (svc_Meta s)),
            ast_Replicas := dst_Replicas (dep_Status d), ast_AvailableReplicas := dst_AvailableReplicas (dep_Status d),
            ast_ObservedGeneration := om_Generation (ag_Meta a)\<rparr>"
  have "condOf lib (setStatus ?f a) t = condOf lib a t" for t by (rule setStatus_cond) simp
  then show "condOf lib (finalStatus lib d s a) ConditionTypeReady =
      Some (if dst_AvailableReplicas (dep_Status d) > 0 then ConditionTrue else ConditionFalse)"
    "condOf lib (finalStatus lib d s a) ConditionTypeSpecValid = condOf lib a ConditionTypeSpecValid"
    by (simp_all add: finalStatus_def Let_def SetCondition_cond[OF assms] ConditionTypeReady_def ConditionTypeSpecValid_def)
qed


subsection \<open>Concrete runs\<close>

text \<open>Repositories over an in-memory cluster of ConfigMaps, Deployments and Services.\<close>

record memCluster =
  mc_ConfigMaps :: "ConfigMap cluster"
  mc_Deployments :: "Deployment cluster"
  mc_Services :: "Service cluster"

definition kubeDeps :: "cdeps \<Rightarrow> memCluster rdeps" where
  "kubeDeps cd =
     \<lparr>rd_compilerDeps = (\<lambda>w. cd),
      rd_EnsureConfigMap = (\<lambda>c w. case EnsureConfigMap (memClient (\<lambda>c. keyOf (cm_Meta c))) c (mc_ConfigMaps w) of
                              (r, x) \<Rightarrow> (r, w\<lparr>mc_ConfigMaps := x\<rparr>)),
      rd_EnsureDeployment = (\<lambda>d w. case EnsureDeployment (memClient (\<lambda>d. keyOf (dep_Meta d))) d (mc_Deployments w) of
                              (r, x) \<Rightarrow> (r, w\<lparr>mc_Deployments := x\<rparr>)),
      rd_EnsureService = (\<lambda>s w. case EnsureService (memClient (\<lambda>s. keyOf (svc_Meta s))) s (mc_Services w) of
                              (r, x) \<Rightarrow> (r, w\<lparr>mc_Services := x\<rparr>)),
      rd_GetSecret = (\<lambda>k w. Inl (ApiError StatusNotFound (nn_Name k))),
      rd_SetOwner = (\<lambda>a m. Inr (m\<lparr>om_OwnerUID := Some (om_UID (ag_Meta a))\<rparr>)),
      rd_marshalCard = (\<lambda>c. Inr ''{}'')\<rparr>"

definition emptyCluster :: memCluster where
  "emptyCluster = \<lparr>mc_ConfigMaps = [], mc_Deployments = [], mc_Services = []\<rparr>"

definition demoConfig :: Config where
  "demoConfig = \<lparr>cfg_DefaultRunnerVersion = ''1'', cfg_RunnerImageRepository = '''',
     cfg_Injected = opt_Injected demoOptions, cfg_OTLPEndpoint = '''', cfg_CapabilityDelivery = DeliveryUnset,
     cfg_RequireVerifiedCapabilities = True\<rparr>"

definition modellessAgent :: Agent where
  "modellessAgent = demoAgent\<lparr>ag_Spec := (ag_Spec demoAgent)\<lparr>as_ModelRef := None\<rparr>\<rparr>"

theorem Reconcile_keeps_last_good_witness:
  "\<exists>agent' r w'. Reconcile demoLib (kubeDeps demoDeps) demoConfig modellessAgent emptyCluster = (agent', r, w') \<and>
     w' = emptyCluster \<and> condOf (cl_k8s demoLib) agent' ConditionTypeSpecValid = Some ConditionFalse"
proof -
  obtain agent' r w' where e: "Reconcile demoLib (kubeDeps demoDeps) demoConfig modellessAgent emptyCluster = (agent', r, w')"
    using prod_cases3 by blast
  have "compositionRejected demoLib (kubeDeps demoDeps) demoConfig modellessAgent emptyCluster"
    by (simp add: compositionRejected_def ValidateSpec_def modellessAgent_def demoAgent_def demoFragment_def)
  moreover have "status_condition_laws (cl_k8s demoLib)" by (simp add: demoLib_def stdlib_condition_laws)
  ultimately show ?thesis using Reconcile_keeps_last_good[OF _ _ e] e by blast
qed

lemma demoConfig_options: "compilerOptions demoConfig = demoOptions"
  by (simp add: compilerOptions_def demoConfig_def demoOptions_def)

lemma demo_accepted: "\<not> compositionRejected demoLib (kubeDeps demoDeps) demoConfig demoAgent w"
proof -
  have "ValidateSpec demoAgent = None"
    by (simp add: ValidateSpec_def demoAgent_def)
  then show ?thesis using demo_compiles
    by (auto simp: compositionRejected_def demoConfig_options kubeDeps_def)
qed

lemma demo_reconciles: "fst (snd (Reconcile demoLib (kubeDeps demoDeps) demoConfig demoAgent emptyCluster)) = rrDone"
  by code_simp


end
