(* ===== verification/AgentController.thy ===== *)
theory AgentController
  imports AgentReconcile
begin

text \<open>
  \<open>internal/controller/agent_controller.go\<close>, \<open>agent_watchers.go\<close> and \<open>status.go\<close>: the controller loop
  around the application service, and the watch mappers that turn a change of a referenced
  resource into reconcile requests. The locale \<open>ref_watch\<close> is the contract of a mapper.
\<close>

subsection \<open>Controller\<close>

record ctrlResult =
  cr_RequeueAfterSeconds :: int
  cr_Error :: "goerror option"

abbreviation ctrlDone :: ctrlResult where
  "ctrlDone \<equiv> \<lparr>cr_RequeueAfterSeconds = 0, cr_Error = None\<rparr>"

text \<open>
  \<open>updateStatusWithRetry\<close>: \<open>applyStatus\<close> writes the desired status into the object that is being
  sent. \<open>retry.RetryOnConflict\<close> runs one attempt repeatedly while it reports a conflict; it is a
  library function and a parameter.
\<close>

definition statusAttempt ::
  "('w, 'o) kclient \<Rightarrow> ('o \<Rightarrow> NamespacedName) \<Rightarrow> ('o \<Rightarrow> 'o) \<Rightarrow> 'o \<times> 'w \<Rightarrow> goerror option \<times> 'o \<times> 'w" where
  "statusAttempt kc key applyStatus s =
     (case s of (x, w) \<Rightarrow>
        (case kc_UpdateStatus kc x w of
           (Inr x1, w1) \<Rightarrow> (None, x1, w1)
         | (Inl err, w1) \<Rightarrow>
             if \<not> apierrors_IsConflict err then (Some err, x, w1)
             else (case kc_Get kc (key x) w1 of
                     Inl getErr \<Rightarrow> (Some getErr, x, w1)
                   | Inr fresh \<Rightarrow>
                       (case kc_UpdateStatus kc (applyStatus fresh) w1 of
                          (Inr x2, w2) \<Rightarrow> (None, x2, w2)
                        | (Inl err2, w2) \<Rightarrow> (Some err2, applyStatus fresh, w2)))))"

definition updateStatusWithRetry ::
  "(('o \<times> 'w \<Rightarrow> goerror option \<times> 'o \<times> 'w) \<Rightarrow> 'o \<times> 'w \<Rightarrow> goerror option \<times> 'o \<times> 'w)
   \<Rightarrow> ('w, 'o) kclient \<Rightarrow> ('o \<Rightarrow> NamespacedName) \<Rightarrow> ('o \<Rightarrow> 'o) \<Rightarrow> 'o \<Rightarrow> 'w \<Rightarrow> goerror option \<times> 'w" where
  "updateStatusWithRetry retry kc key applyStatus x w =
     (case retry (statusAttempt kc key applyStatus) (applyStatus x, w) of (e, x1, w1) \<Rightarrow> (e, w1))"

definition agentFinalizer :: string where
  "agentFinalizer = ''agent.flokoa.ai/finalizer''"

text \<open>\<open>errors.Join\<close> of two optional errors.\<close>

definition joinErrors :: "goerror option \<Rightarrow> goerror option \<Rightarrow> goerror option" where
  "joinErrors a b =
     (case (a, b) of
        (None, None) \<Rightarrow> None
      | (Some x, None) \<Rightarrow> Some (JoinError [x])
      | (None, Some y) \<Rightarrow> Some (JoinError [y])
      | (Some x, Some y) \<Rightarrow> Some (JoinError [x, y]))"

definition classify :: "goerror option \<Rightarrow> ctrlResult" where
  "classify e =
     (case e of
        None \<Rightarrow> ctrlDone
      | Some err \<Rightarrow>
          if IsPermanent err then ctrlDone
          else if IsDependency err then \<lparr>cr_RequeueAfterSeconds = 30, cr_Error = None\<rparr>
          else \<lparr>cr_RequeueAfterSeconds = 0, cr_Error = Some err\<rparr>)"

type_synonym 'w agentClient = "('w, Agent) kclient"

definition AgentReconciler_Reconcile ::
  "('sc, 'sp, 'v) clib \<Rightarrow> 'w agentClient \<Rightarrow> 'w rdeps \<Rightarrow> Config
   \<Rightarrow> ((Agent \<times> 'w \<Rightarrow> goerror option \<times> Agent \<times> 'w) \<Rightarrow> Agent \<times> 'w \<Rightarrow> goerror option \<times> Agent \<times> 'w)
   \<Rightarrow> NamespacedName \<Rightarrow> 'w \<Rightarrow> ctrlResult \<times> 'w" where
  "AgentReconciler_Reconcile cl kc deps cfg retry req w =
     (case kc_Get kc req w of
        Inl err \<Rightarrow> (if apierrors_IsNotFound err then ctrlDone else \<lparr>cr_RequeueAfterSeconds = 0, cr_Error = Some err\<rparr>, w)
      | Inr agent \<Rightarrow>
          if om_Deleting (ag_Meta agent)
          then if agentFinalizer \<in> set (om_Finalizers (ag_Meta agent))
               then (case kc_Update kc (agent\<lparr>ag_Meta := (ag_Meta agent)\<lparr>om_Finalizers :=
                             filter (\<lambda>f. f \<noteq> agentFinalizer) (om_Finalizers (ag_Meta agent))\<rparr>\<rparr>) w of
                       (Inl err, w1) \<Rightarrow> (\<lparr>cr_RequeueAfterSeconds = 0, cr_Error = Some err\<rparr>, w1)
                     | (Inr _, w1) \<Rightarrow> (ctrlDone, w1))
               else (ctrlDone, w)
          else if agentFinalizer \<notin> set (om_Finalizers (ag_Meta agent))
          then (case kc_Update kc (agent\<lparr>ag_Meta := (ag_Meta agent)\<lparr>om_Finalizers :=
                        om_Finalizers (ag_Meta agent) @ [agentFinalizer]\<rparr>\<rparr>) w of
                  (Inl err, w1) \<Rightarrow> (\<lparr>cr_RequeueAfterSeconds = 0, cr_Error = Some err\<rparr>, w1)
                | (Inr _, w1) \<Rightarrow> (\<lparr>cr_RequeueAfterSeconds = 1, cr_Error = None\<rparr>, w1))
          else (case Reconcile cl deps cfg agent w of
                  (agent1, result, w1) \<Rightarrow>
                    (case updateStatusWithRetry retry kc (\<lambda>a. keyOf (ag_Meta a))
                            (\<lambda>a. a\<lparr>ag_Status := ag_Status agent1\<rparr>) agent1 w1 of
                       (statusErr, w2) \<Rightarrow> (classify (joinErrors (rr_Error result) statusErr), w2))))"

subsection \<open>Watch mappers\<close>

definition requestFor :: "Agent \<Rightarrow> NamespacedName" where
  "requestFor agent = keyOf (ag_Meta agent)"

definition refMatches :: "NamespacedRef \<Rightarrow> string \<Rightarrow> string \<Rightarrow> string \<Rightarrow> bool" where
  "refMatches ref agentNamespace name ns =
     (let refNamespace = (if nr_Namespace ref = '''' then agentNamespace else nr_Namespace ref) in
      nr_Name ref = name \<and> refNamespace = ns)"

text \<open>
  The mappers over the listed Agents (a failed list yields no request). The inner loops stop at the
  first match, so an Agent is requested once.
\<close>

definition findAgentsForInstruction :: "Agent list result \<Rightarrow> NamespacedName \<Rightarrow> NamespacedName list" where
  "findAgentsForInstruction listed k =
     (case listed of
        Inl err \<Rightarrow> []
      | Inr agents \<Rightarrow> map requestFor (filter (\<lambda>a. list_ex (\<lambda>ref. refMatches ref (om_Namespace (ag_Meta a)) (nn_Name k) (nn_Namespace k))
                                                (as_InstructionRefs (ag_Spec a))) agents))"

definition findAgentsForModel :: "Agent list result \<Rightarrow> NamespacedName \<Rightarrow> NamespacedName list" where
  "findAgentsForModel listed k =
     (case listed of
        Inl err \<Rightarrow> []
      | Inr agents \<Rightarrow> map requestFor (filter (\<lambda>a. case as_ModelRef (ag_Spec a) of
                           None \<Rightarrow> False
                         | Some ref \<Rightarrow> refMatches ref (om_Namespace (ag_Meta a)) (nn_Name k) (nn_Namespace k)) agents))"

definition findAgentsForCapability :: "Agent list result \<Rightarrow> NamespacedName \<Rightarrow> NamespacedName list" where
  "findAgentsForCapability listed k =
     (case listed of
        Inl err \<Rightarrow> []
      | Inr agents \<Rightarrow> map requestFor (filter (\<lambda>a. list_ex (\<lambda>att. refMatches (att_Ref att) (om_Namespace (ag_Meta a)) (nn_Name k) (nn_Namespace k))
                                                (as_Capabilities (ag_Spec a))) agents))"

definition findAgentsForAgentTool :: "Agent list result \<Rightarrow> NamespacedName \<Rightarrow> NamespacedName list" where
  "findAgentsForAgentTool listed k =
     (case listed of
        Inl err \<Rightarrow> []
      | Inr agents \<Rightarrow> map requestFor (filter (\<lambda>a. list_ex (\<lambda>ref. refMatches ref (om_Namespace (ag_Meta a)) (nn_Name k) (nn_Namespace k))
                                                (as_Tools (ag_Spec a))) agents))"

definition agentsReferencingModels :: "Agent list result \<Rightarrow> NamespacedName list \<Rightarrow> NamespacedName list" where
  "agentsReferencingModels listed models =
     (case listed of
        Inl err \<Rightarrow> []
      | Inr agents \<Rightarrow> map requestFor (filter (\<lambda>a. case as_ModelRef (ag_Spec a) of
                           None \<Rightarrow> False
                         | Some ref \<Rightarrow> \<lparr>nn_Name = nr_Name ref,
                               nn_Namespace = (if nr_Namespace ref = '''' then om_Namespace (ag_Meta a) else nr_Namespace ref)\<rparr>
                             \<in> set models) agents))"

definition affectedModels :: "Model list \<Rightarrow> NamespacedName \<Rightarrow> NamespacedName list" where
  "affectedModels models k = map (\<lambda>m. keyOf (mdl_Meta m)) (filter (\<lambda>m.
     (let pref = mdls_ProviderRef (mdl_Spec m);
          providerNamespace = (if pref_Namespace pref = '''' then om_Namespace (mdl_Meta m) else pref_Namespace pref) in
      providerNamespace = nn_Namespace k \<and> pref_Name pref = nn_Name k)) models)"

definition findAgentsForModelProvider :: "Model list result \<Rightarrow> Agent list result \<Rightarrow> NamespacedName \<Rightarrow> NamespacedName list" where
  "findAgentsForModelProvider listedModels listed k =
     (case listedModels of
        Inl err \<Rightarrow> []
      | Inr models \<Rightarrow>
          (let affected = affectedModels models k in
           if affected = [] then [] else agentsReferencingModels listed affected))"

text \<open>
  The contract of a mapper: it requests exactly the listed Agents whose references, resolved as the
  compiler resolves them, include the changed key. A client that reads only those references can
  only change its result for a requested Agent.
\<close>

locale ref_watch =
  fixes refs :: "Agent \<Rightarrow> NamespacedName list"
    and find :: "Agent list result \<Rightarrow> NamespacedName \<Rightarrow> NamespacedName list"
  assumes find_iff: "r \<in> set (find (Inr agents) k) \<longleftrightarrow> (\<exists>a \<in> set agents. r = requestFor a \<and> k \<in> set (refs a))"
begin

lemma unrequested: "requestFor a \<notin> set (find (Inr agents) k) \<Longrightarrow> a \<in> set agents \<Longrightarrow> k \<notin> set (refs a)"
  using find_iff by blast

end

lemma refMatches_key: "refMatches ref (om_Namespace (ag_Meta a)) (nn_Name k) (nn_Namespace k) \<longleftrightarrow> refKey a ref = k"
  by (cases k) (auto simp: refMatches_def refKey_def defaultNS_def Let_def)

interpretation instructionWatch: ref_watch "\<lambda>a. map (refKey a) (as_InstructionRefs (ag_Spec a))" findAgentsForInstruction
  by unfold_locales (auto simp: findAgentsForInstruction_def refMatches_key list_ex_iff)

definition modelRefs :: "Agent \<Rightarrow> NamespacedName list" where
  "modelRefs a = (case as_ModelRef (ag_Spec a) of None \<Rightarrow> [] | Some ref \<Rightarrow> [refKey a ref])"

lemma modelRefs_mem:
  "k \<in> set (modelRefs a) \<longleftrightarrow> (case as_ModelRef (ag_Spec a) of None \<Rightarrow> False
     | Some ref \<Rightarrow> refMatches ref (om_Namespace (ag_Meta a)) (nn_Name k) (nn_Namespace k))"
  by (auto simp: modelRefs_def refMatches_key split: option.splits)

interpretation modelWatch: ref_watch modelRefs findAgentsForModel
  by unfold_locales (auto simp: findAgentsForModel_def modelRefs_mem [symmetric])

interpretation toolWatch: ref_watch "\<lambda>a. map (refKey a) (as_Tools (ag_Spec a))" findAgentsForAgentTool
  by unfold_locales (auto simp: findAgentsForAgentTool_def refMatches_key list_ex_iff)

interpretation capabilityWatch: ref_watch "\<lambda>a. map (\<lambda>att. refKey a (att_Ref att)) (as_Capabilities (ag_Spec a))" findAgentsForCapability
  by unfold_locales (auto simp: findAgentsForCapability_def refMatches_key list_ex_iff)

subsection \<open>A change of a composed resource reaches the Agents that compose it\<close>

datatype watchedChange =
    ChangedInstruction NamespacedName "Instruction result"
  | ChangedModel NamespacedName "Model result"
  | ChangedModelProvider NamespacedName "ModelProvider result"
  | ChangedAgentTool NamespacedName "AgentTool result"
  | ChangedCapability NamespacedName "Capability result"

fun applyChange :: "watchedChange \<Rightarrow> cdeps \<Rightarrow> cdeps" where
  "applyChange (ChangedInstruction k r) d = d\<lparr>cd_GetInstruction := (cd_GetInstruction d)(k := r)\<rparr>"
| "applyChange (ChangedModel k r) d = d\<lparr>cd_GetModel := (cd_GetModel d)(k := r)\<rparr>"
| "applyChange (ChangedModelProvider k r) d = d\<lparr>cd_GetModelProvider := (cd_GetModelProvider d)(k := r)\<rparr>"
| "applyChange (ChangedAgentTool k r) d = d\<lparr>cd_GetAgentTool := (cd_GetAgentTool d)(k := r)\<rparr>"
| "applyChange (ChangedCapability k r) d = d\<lparr>cd_GetCapability := map_option (\<lambda>g. g(k := r)) (cd_GetCapability d)\<rparr>"

text \<open>\<open>SetupWithManager\<close>: which mapper a change of each watched kind is sent through.\<close>

fun watchRequests :: "Model list \<Rightarrow> Agent list \<Rightarrow> watchedChange \<Rightarrow> NamespacedName list" where
  "watchRequests models agents (ChangedInstruction k r) = findAgentsForInstruction (Inr agents) k"
| "watchRequests models agents (ChangedModel k r) = findAgentsForModel (Inr agents) k"
| "watchRequests models agents (ChangedModelProvider k r) = findAgentsForModelProvider (Inr models) (Inr agents) k"
| "watchRequests models agents (ChangedAgentTool k r) = findAgentsForAgentTool (Inr agents) k"
| "watchRequests models agents (ChangedCapability k r) = findAgentsForCapability (Inr agents) k"

definition modelsListed :: "cdeps \<Rightarrow> Model list \<Rightarrow> bool" where
  "modelsListed deps models \<longleftrightarrow> (\<forall>k m. cd_GetModel deps k = Inr m \<longrightarrow> m \<in> set models \<and> keyOf (mdl_Meta m) = k)"

text \<open>What compilation reads of its dependencies.\<close>

lemma compileTool_cong:
  assumes "cd_GetService d = cd_GetService d'"
  shows "compileTool d tool = compileTool d' tool"
proof -
  have "resolveToolPort d tool ref ns = resolveToolPort d' tool ref ns" for ref ns
    unfolding resolveToolPort_def assms ..
  then show ?thesis by (simp add: compileTool_def resolveToolURL_def Let_def cong: option.case_cong)
qed

lemma applyTools_cong:
  "cd_GetService d = cd_GetService d' \<Longrightarrow> (\<And>ref. ref \<in> set refs \<Longrightarrow> readTool d a ref = readTool d' a ref)
   \<Longrightarrow> applyTools nl d a refs st = applyTools nl d' a refs st"
proof (induction refs arbitrary: st)
  case (Cons ref refs)
  have "applyTool nl d a ref st = applyTool nl d' a ref st"
    using Cons.prems compileTool_cong[OF Cons.prems(1)] by (simp add: applyTool_def)
  moreover have "applyTools nl d a refs st' = applyTools nl d' a refs st'" for st'
    by (rule Cons.IH) (use Cons.prems in auto)
  then have "applyTools nl d a refs = applyTools nl d' a refs" by (simp add: fun_eq_iff)
  ultimately show ?case by simp
qed simp

lemma mapR_cong_set: "(\<And>x. x \<in> set xs \<Longrightarrow> f x = g x) \<Longrightarrow> mapR f xs = mapR g xs"
  by (induction xs) auto

lemma resolveAttachments_cong:
  "(\<And>att. att \<in> set atts \<Longrightarrow> g (refKey a (att_Ref att)) = g' (refKey a (att_Ref att)))
   \<Longrightarrow> resolveAttachments cl g rv runner a owners seen atts = resolveAttachments cl g' rv runner a owners seen atts"
proof (induction atts arbitrary: owners seen)
  case (Cons att atts)
  have "resolveAttachment cl g rv runner a owners seen att = resolveAttachment cl g' rv runner a owners seen att"
    using Cons.prems[of att] by (simp add: resolveAttachment_def Let_def)
  moreover have "resolveAttachments cl g rv runner a ow sn atts = resolveAttachments cl g' rv runner a ow sn atts" for ow sn
    by (rule Cons.IH) (use Cons.prems in auto)
  ultimately show ?case by simp
qed simp

lemma userLayers_cong:
  assumes svc: "cd_GetService d = cd_GetService d'"
    and tools: "\<And>ref. ref \<in> set (as_Tools (ag_Spec a)) \<Longrightarrow> readTool d a ref = readTool d' a ref"
    and instr: "\<And>ref. ref \<in> set (as_InstructionRefs (ag_Spec a)) \<Longrightarrow> readInstruction d a ref = readInstruction d' a ref"
    and model: "\<And>ref. as_ModelRef (ag_Spec a) = Some ref \<Longrightarrow> resolveProvider d a ref = resolveProvider d' a ref"
  shows "userLayers nl d a = userLayers nl d' a"
proof -
  have "applyTools nl d a (as_Tools (ag_Spec a)) st = applyTools nl d' a (as_Tools (ag_Spec a)) st" for st
    by (rule applyTools_cong[OF svc tools])
  moreover have "applyInstructions d a doc = applyInstructions d' a doc" for doc
    using mapR_cong_set[of "as_InstructionRefs (ag_Spec a)" "readInstruction d a" "readInstruction d' a"] instr
    by (simp add: applyInstructions_def)
  moreover have "(case as_ModelRef (ag_Spec a) of None \<Rightarrow> Inr st | Some ref \<Rightarrow> applyModelRef nl d a ref st) =
      (case as_ModelRef (ag_Spec a) of None \<Rightarrow> Inr st | Some ref \<Rightarrow> applyModelRef nl d' a ref st)" for st
    using model by (simp add: applyModelRef_def split: option.split)
  ultimately show ?thesis by (simp add: userLayers_def)
qed

lemma Compile_cong:
  assumes "userLayers (cl_num cl) d a = userLayers (cl_num cl) d' a"
    and "\<And>v. resolveCapabilities cl d opts a v = resolveCapabilities cl d' opts a v"
  shows "Compile cl d opts a = Compile cl d' opts a"
  using assms by (simp add: Compile_def)

lemma resolveCapabilities_cong:
  assumes "\<And>att. att \<in> set (as_Capabilities (ag_Spec a)) \<Longrightarrow> refKey a (att_Ref att) \<noteq> k"
  shows "resolveCapabilities cl (d\<lparr>cd_GetCapability := map_option (\<lambda>g. g(k := r)) (cd_GetCapability d)\<rparr>) opts a v =
         resolveCapabilities cl d opts a v"
proof (cases "cd_GetCapability d")
  case (Some g)
  have "resolveAttachments cl (g(k := r)) rv runner a owners seen (as_Capabilities (ag_Spec a)) =
      resolveAttachments cl g rv runner a owners seen (as_Capabilities (ag_Spec a))" for rv runner owners seen
    by (rule resolveAttachments_cong) (simp add: assms)
  then show ?thesis using Some by (simp add: resolveCapabilities_def cong: sum.case_cong)
qed (simp add: resolveCapabilities_def)

lemma resolveCapabilities_other:
  "cd_GetCapability d = cd_GetCapability d' \<Longrightarrow> resolveCapabilities cl d opts a v = resolveCapabilities cl d' opts a v"
  by (simp add: resolveCapabilities_def)

lemma resolveProvider_cong:
  assumes "cd_GetModel d (refKey a ref) = cd_GetModel d' (refKey a ref)"
    and "cd_GetProviderHandler d = cd_GetProviderHandler d'"
    and "\<And>m. cd_GetModel d' (refKey a ref) = Inr m \<Longrightarrow>
          cd_GetModelProvider d (providerKeyOf m) = cd_GetModelProvider d' (providerKeyOf m)"
  shows "resolveProvider d a ref = resolveProvider d' a ref"
  unfolding resolveProvider_def Let_def assms(1,2)
  by (cases "cd_GetModel d' (refKey a ref)") (simp_all add: assms(3))

lemma findAgentsForModelProvider_mem:
  assumes listed: "m \<in> set models" "providerKeyOf m = k" "keyOf (mdl_Meta m) = refKey a ref"
    and a: "a \<in> set agents" "as_ModelRef (ag_Spec a) = Some ref"
  shows "requestFor a \<in> set (findAgentsForModelProvider (Inr models) (Inr agents) k)"
proof -
  have affected: "refKey a ref \<in> set (affectedModels models k)"
    using listed unfolding affectedModels_def
    by (auto simp: providerKeyOf_def defaultNS_def Let_def image_iff intro!: bexI[of _ m])
  then have ne: "affectedModels models k \<noteq> []" by (metis empty_iff empty_set)
  have "requestFor a \<in> set (agentsReferencingModels (Inr agents) ms)" if "refKey a ref \<in> set ms" for ms
    using that a by (auto simp: agentsReferencingModels_def refKey_def defaultNS_def intro!: imageI)
  then show ?thesis using ne affected by (simp add: findAgentsForModelProvider_def)
qed

lemma Compile_unaffected:
  assumes "cd_GetService d = cd_GetService d'" and "cd_GetProviderHandler d = cd_GetProviderHandler d'"
    and "\<And>ref. ref \<in> set (as_Tools (ag_Spec a)) \<Longrightarrow> cd_GetAgentTool d (refKey a ref) = cd_GetAgentTool d' (refKey a ref)"
    and "\<And>ref. ref \<in> set (as_InstructionRefs (ag_Spec a)) \<Longrightarrow>
          cd_GetInstruction d (refKey a ref) = cd_GetInstruction d' (refKey a ref)"
    and "\<And>ref. as_ModelRef (ag_Spec a) = Some ref \<Longrightarrow> cd_GetModel d (refKey a ref) = cd_GetModel d' (refKey a ref)"
    and "\<And>ref m. as_ModelRef (ag_Spec a) = Some ref \<Longrightarrow> cd_GetModel d' (refKey a ref) = Inr m \<Longrightarrow>
          cd_GetModelProvider d (providerKeyOf m) = cd_GetModelProvider d' (providerKeyOf m)"
    and "\<And>v. resolveCapabilities cl d opts a v = resolveCapabilities cl d' opts a v"
  shows "Compile cl d opts a = Compile cl d' opts a"
  by (rule Compile_cong[OF userLayers_cong]) (simp_all add: assms readTool_def readInstruction_def resolveProvider_cong[of d a _ d'])

lemma change_unseen:
  assumes seen: "modelsListed deps models" "a \<in> set agents"
    and out: "requestFor a \<notin> set (watchRequests models agents c)"
  shows "Compile cl (applyChange c deps) opts a = Compile cl deps opts a"
proof (cases c)
  case (ChangedInstruction k r)
  have "refKey a ref \<noteq> k" if "ref \<in> set (as_InstructionRefs (ag_Spec a))" for ref
    using instructionWatch.unrequested[of a agents k] out seen(2) that ChangedInstruction by auto
  then show ?thesis unfolding ChangedInstruction
    by (intro Compile_unaffected resolveCapabilities_other) simp_all
next
  case (ChangedModel k r)
  have "refKey a ref \<noteq> k" if "as_ModelRef (ag_Spec a) = Some ref" for ref
    using modelWatch.unrequested[of a agents k] out seen(2) that ChangedModel by (auto simp: modelRefs_def)
  then show ?thesis unfolding ChangedModel
    by (intro Compile_unaffected resolveCapabilities_other) simp_all
next
  case (ChangedModelProvider k r)
  have "providerKeyOf m \<noteq> k" if "as_ModelRef (ag_Spec a) = Some ref" "cd_GetModel deps (refKey a ref) = Inr m" for ref m
    using out seen that ChangedModelProvider findAgentsForModelProvider_mem[of m models k a ref agents]
    by (auto simp: modelsListed_def)
  then show ?thesis unfolding ChangedModelProvider
    by (intro Compile_unaffected resolveCapabilities_other) simp_all
next
  case (ChangedAgentTool k r)
  have "refKey a ref \<noteq> k" if "ref \<in> set (as_Tools (ag_Spec a))" for ref
    using toolWatch.unrequested[of a agents k] out seen(2) that ChangedAgentTool by auto
  then show ?thesis unfolding ChangedAgentTool
    by (intro Compile_unaffected resolveCapabilities_other) simp_all
next
  case (ChangedCapability k r)
  have "refKey a (att_Ref att) \<noteq> k" if "att \<in> set (as_Capabilities (ag_Spec a))" for att
    using capabilityWatch.unrequested[of a agents k] out seen(2) that ChangedCapability by auto
  then show ?thesis unfolding ChangedCapability applyChange.simps
    by (intro Compile_unaffected resolveCapabilities_cong) simp_all
qed

text \<open>C20. A change of an Instruction, Model, ModelProvider, AgentTool or Capability that changes what an
  Agent compiles to always produces a reconcile request for that Agent: the watch mappers follow the
  same references, with the same namespace defaulting, as the compiler.\<close>

theorem watches_cover_compilation:
  assumes "modelsListed deps models" and "a \<in> set agents"
    and "Compile cl (applyChange c deps) opts a \<noteq> Compile cl deps opts a"
  shows "requestFor a \<in> set (watchRequests models agents c)"
  using assms change_unseen by blast

definition keyedModels :: cdeps where
  "keyedModels = demoDeps\<lparr>cd_GetModel := (\<lambda>k. if k = keyOf (mdl_Meta demoModel) then Inr demoModel
                                               else Inl (ApiError StatusNotFound (nn_Name k)))\<rparr>"

definition demoToolRemoved :: watchedChange where
  "demoToolRemoved = ChangedAgentTool \<lparr>nn_Name = ''search'', nn_Namespace = ''ns''\<rparr> (Inl (ApiError StatusNotFound ''search''))"

theorem watches_cover_compilation_witness:
  "Compile demoLib (applyChange demoToolRemoved keyedModels) demoOptions demoAgent \<noteq> Compile demoLib keyedModels demoOptions demoAgent
   \<and> requestFor demoAgent \<in> set (watchRequests [demoModel] [demoAgent] demoToolRemoved)"
proof -
  have "isl (Compile demoLib (applyChange demoToolRemoved keyedModels) demoOptions demoAgent)" by code_simp
  moreover have "\<not> isl (Compile demoLib keyedModels demoOptions demoAgent)" by code_simp
  ultimately have "Compile demoLib (applyChange demoToolRemoved keyedModels) demoOptions demoAgent \<noteq> Compile demoLib keyedModels demoOptions demoAgent"
    by metis
  moreover have "modelsListed keyedModels [demoModel]"
    by (auto simp: modelsListed_def keyedModels_def split: if_splits)
  ultimately show ?thesis using watches_cover_compilation[of keyedModels "[demoModel]" demoAgent "[demoAgent]"] by simp
qed

subsection \<open>What the controller does with an error\<close>

lemma IsPermanent_join: "IsPermanent (JoinError es) \<longleftrightarrow> list_ex IsPermanent es"
  by (simp add: IsPermanent_def list_ex_iff)

lemma IsDependency_join: "IsDependency (JoinError es) \<longleftrightarrow> list_ex IsDependency es"
  by (simp add: IsDependency_def list_ex_iff)

definition anyError :: "(goerror \<Rightarrow> bool) \<Rightarrow> goerror option \<Rightarrow> goerror option \<Rightarrow> bool" where
  "anyError P a b \<longleftrightarrow> (case a of None \<Rightarrow> False | Some e \<Rightarrow> P e) \<or> (case b of None \<Rightarrow> False | Some e \<Rightarrow> P e)"

text \<open>How a reconcile error and a status-write error are turned into a requeue decision: nothing happens
  again exactly when both are absent or one of them is permanent, so a failed status write beside a
  permanent error is neither returned nor retried; otherwise one dependency error gives the
  fixed 30 second requeue, and only a run with neither class is returned for backoff.\<close>

theorem classify_joined_errors:
  "(classify (joinErrors a b) = ctrlDone \<longleftrightarrow> (a = None \<and> b = None) \<or> anyError IsPermanent a b) \<and>
   (cr_RequeueAfterSeconds (classify (joinErrors a b)) = 30 \<longleftrightarrow> \<not> anyError IsPermanent a b \<and> anyError IsDependency a b) \<and>
   (cr_Error (classify (joinErrors a b)) \<noteq> None \<longleftrightarrow>
      \<not> (a = None \<and> b = None) \<and> \<not> anyError IsPermanent a b \<and> \<not> anyError IsDependency a b)"
  by (cases a; cases b) (auto simp: classify_def joinErrors_def anyError_def IsPermanent_join IsDependency_join)

text \<open>The cases in which a run may end without asking to be run again.\<close>

definition runSettled ::
  "('sc, 'sp, 'v) clib \<Rightarrow> 'w agentClient \<Rightarrow> 'w rdeps \<Rightarrow> Config
   \<Rightarrow> ((Agent \<times> 'w \<Rightarrow> goerror option \<times> Agent \<times> 'w) \<Rightarrow> Agent \<times> 'w \<Rightarrow> goerror option \<times> Agent \<times> 'w)
   \<Rightarrow> NamespacedName \<Rightarrow> 'w \<Rightarrow> 'w \<Rightarrow> bool" where
  "runSettled cl kc deps cfg retry req w w' \<longleftrightarrow>
     (case kc_Get kc req w of
        Inl err \<Rightarrow> apierrors_IsNotFound err \<and> w' = w
      | Inr agent \<Rightarrow>
          if om_Deleting (ag_Meta agent)
          then (if agentFinalizer \<in> set (om_Finalizers (ag_Meta agent))
                then \<exists>sent stored. agentFinalizer \<notin> set (om_Finalizers (ag_Meta sent)) \<and> ag_Spec sent = ag_Spec agent \<and>
                       kc_Update kc sent w = (Inr stored, w')
                else w' = w)
          else agentFinalizer \<in> set (om_Finalizers (ag_Meta agent)) \<and>
               (\<exists>agent1 result w1 statusErr. Reconcile cl deps cfg agent w = (agent1, result, w1) \<and>
                  updateStatusWithRetry retry kc (\<lambda>a. keyOf (ag_Meta a)) (\<lambda>a. a\<lparr>ag_Status := ag_Status agent1\<rparr>) agent1 w1
                    = (statusErr, w') \<and>
                  ((rr_Error result = None \<and> statusErr = None) \<or> anyError IsPermanent (rr_Error result) statusErr)))"

lemma classify_done_iff: "classify (joinErrors a b) = ctrlDone \<longleftrightarrow> (a = None \<and> b = None) \<or> anyError IsPermanent a b"
  by (cases a; cases b) (auto simp: classify_def joinErrors_def anyError_def IsPermanent_join IsDependency_join)

text \<open>C26. A run of the Agent controller that neither returns an error nor asks for a requeue was a read of
  a missing Agent, a deletion whose finalizer has been removed with the spec unchanged, or a reconcile of a
  finalizer-protected live Agent in which nothing failed or a failure was permanent.\<close>

theorem AgentReconciler_settles:
  assumes "AgentReconciler_Reconcile cl kc deps cfg retry req w = (ctrlDone, w')"
  shows "runSettled cl kc deps cfg retry req w w'"
proof (cases "kc_Get kc req w")
  case (Inl err)
  then show ?thesis using assms by (auto simp: AgentReconciler_Reconcile_def runSettled_def split: if_splits)
next
  case (Inr agent)
  show ?thesis
  proof (cases "om_Deleting (ag_Meta agent)")
    case True
    let ?sent = "agent\<lparr>ag_Meta := (ag_Meta agent)\<lparr>om_Finalizers := filter (\<lambda>f. f \<noteq> agentFinalizer) (om_Finalizers (ag_Meta agent))\<rparr>\<rparr>"
    have "\<exists>sent stored. agentFinalizer \<notin> set (om_Finalizers (ag_Meta sent)) \<and> ag_Spec sent = ag_Spec agent \<and>
        kc_Update kc sent w = (Inr stored, w')" if "kc_Update kc ?sent w = (Inr stored, w')" for stored
      by (rule exI[of _ ?sent], rule exI[of _ stored]) (simp add: that)
    then show ?thesis using assms Inr True
      by (auto simp: AgentReconciler_Reconcile_def runSettled_def split: if_splits prod.splits sum.splits)
  next
    case False
    obtain agent1 result w1 where r: "Reconcile cl deps cfg agent w = (agent1, result, w1)" by (rule prod_cases3)
    obtain statusErr w2 where u: "updateStatusWithRetry retry kc (\<lambda>a. keyOf (ag_Meta a))
        (\<lambda>a. a\<lparr>ag_Status := ag_Status agent1\<rparr>) agent1 w1 = (statusErr, w2)" by (rule prod.exhaust)
    show ?thesis using assms Inr False r u
      by (auto simp: AgentReconciler_Reconcile_def runSettled_def classify_done_iff split: if_splits prod.splits sum.splits)
  qed
qed

text \<open>A client that serves one Agent and accepts every write.\<close>

definition servedAgent :: Agent where
  "servedAgent = demoAgent\<lparr>ag_Meta := (ag_Meta demoAgent)\<lparr>om_Finalizers := [agentFinalizer]\<rparr>\<rparr>"

definition oneAgentClient :: "memCluster agentClient" where
  "oneAgentClient = \<lparr>kc_Get = (\<lambda>k w. Inr servedAgent), kc_Create = (\<lambda>x w. (Inr x, w)), kc_Update = (\<lambda>x w. (Inr x, w)),
     kc_UpdateStatus = (\<lambda>x w. (Inr x, w)), kc_Delete = (\<lambda>k w. (None, w))\<rparr>"

definition demoRun :: "ctrlResult \<times> memCluster" where
  "demoRun = AgentReconciler_Reconcile demoLib oneAgentClient (kubeDeps demoDeps) demoConfig (\<lambda>f s. f s)
     (requestFor servedAgent) emptyCluster"

lemma demoRun_settles: "fst demoRun = ctrlDone"
  by code_simp

theorem AgentReconciler_settles_witness:
  "\<exists>w'. AgentReconciler_Reconcile demoLib oneAgentClient (kubeDeps demoDeps) demoConfig (\<lambda>f s. f s)
           (requestFor servedAgent) emptyCluster = (ctrlDone, w') \<and>
        runSettled demoLib oneAgentClient (kubeDeps demoDeps) demoConfig (\<lambda>f s. f s) (requestFor servedAgent) emptyCluster w'"
proof -
  have "AgentReconciler_Reconcile demoLib oneAgentClient (kubeDeps demoDeps) demoConfig (\<lambda>f s. f s)
          (requestFor servedAgent) emptyCluster = (ctrlDone, snd demoRun)"
    using demoRun_settles unfolding demoRun_def by (metis prod.collapse)
  from this AgentReconciler_settles[OF this] show ?thesis by (intro exI[of _ "snd demoRun"] conjI)
qed

end
