(* ===== verification/FieldErrors.thy ===== *)
theory FieldErrors
  imports Prelude
begin

text \<open>
  \<open>k8s.io/apimachinery/pkg/util/validation/field\<close> as the admission webhooks use it: a path is its
  rendered text, an error is its kind, path, bad value and detail. \<open>apierrors.NewInvalid\<close> carries the
  object name and the list.
\<close>

datatype fieldErrKind = FieldRequired | FieldDuplicate | FieldForbidden | FieldNotFound | FieldInvalid | FieldNotSupported

record fieldErr =
  fe_Kind :: fieldErrKind
  fe_Path :: string
  fe_Value :: string
  fe_Detail :: msgtext

definition fpChild :: "string \<Rightarrow> string \<Rightarrow> string" where
  "fpChild p s = (if p = '''' then s else p @ ''.'' @ s)"

definition fpIndex :: "string \<Rightarrow> nat \<Rightarrow> string" where
  "fpIndex p i = p @ ''['' @ dec_nat i @ '']''"

definition fRequired :: "string \<Rightarrow> string \<Rightarrow> fieldErr" where
  "fRequired p d = \<lparr>fe_Kind = FieldRequired, fe_Path = p, fe_Value = '''', fe_Detail = Sprintf d []\<rparr>"

definition fForbidden :: "string \<Rightarrow> string \<Rightarrow> fieldErr" where
  "fForbidden p d = \<lparr>fe_Kind = FieldForbidden, fe_Path = p, fe_Value = '''', fe_Detail = Sprintf d []\<rparr>"

definition fDuplicate :: "string \<Rightarrow> string \<Rightarrow> fieldErr" where
  "fDuplicate p v = \<lparr>fe_Kind = FieldDuplicate, fe_Path = p, fe_Value = v, fe_Detail = NoText\<rparr>"

definition fNotFound :: "string \<Rightarrow> string \<Rightarrow> fieldErr" where
  "fNotFound p v = \<lparr>fe_Kind = FieldNotFound, fe_Path = p, fe_Value = v, fe_Detail = NoText\<rparr>"

definition fInvalid :: "string \<Rightarrow> string \<Rightarrow> msgtext \<Rightarrow> fieldErr" where
  "fInvalid p v d = \<lparr>fe_Kind = FieldInvalid, fe_Path = p, fe_Value = v, fe_Detail = d\<rparr>"

text \<open>\<open>if cond \{ allErrs = append(allErrs, e) \}\<close>\<close>

definition errIf :: "bool \<Rightarrow> fieldErr \<Rightarrow> fieldErr list" where
  "errIf b e = (if b then [e] else [])"

lemma errIf_Nil [simp]: "errIf b e = [] \<longleftrightarrow> \<not> b"
  by (simp add: errIf_def)

type_synonym admission = "(string \<times> fieldErr list) option"

text \<open>A loop that collects the errors of each element with its index.\<close>

fun collectIdx :: "(nat \<Rightarrow> 'a \<Rightarrow> fieldErr list) \<Rightarrow> nat \<Rightarrow> 'a list \<Rightarrow> fieldErr list" where
  "collectIdx f i [] = []"
| "collectIdx f i (x # xs) = f i x @ collectIdx f (Suc i) xs"

lemma collectIdx_Nil: "collectIdx f i xs = [] \<longleftrightarrow> (\<forall>j < length xs. f (i + j) (xs ! j) = [])"
proof (induction xs arbitrary: i)
  case (Cons x xs)
  then show ?case by (auto simp: less_Suc_eq_0_disj)
qed simp

lemma collectIdx_Nil_set: "collectIdx f i xs = [] \<Longrightarrow> x \<in> set xs \<Longrightarrow> \<exists>j. f j x = []"
  by (induction xs arbitrary: i) auto

lemma collectIdx_empty: "(\<And>j x. x \<in> set xs \<Longrightarrow> f j x = []) \<Longrightarrow> collectIdx f i xs = []"
  by (induction xs arbitrary: i) auto

end
