(* ===== verification/WorkflowAdmission.thy ===== *)
theory WorkflowAdmission
  imports ApiFlows FieldErrors
begin

text \<open>
  \<open>internal/webhook/v1alpha1/agentworkflow_webhook.go\<close>: admission of AgentWorkflows. The dependency
  check is a depth-first search with three colours; template expressions are found with
  the pattern \<open>\{\{([^\}]+)\}\}\<close>, scanned here directly.
\<close>

subsection \<open>Template expressions\<close>

text \<open>
  \<open>matchExpr s\<close> is a match of the pattern at the start of \<open>s\<close>: the text between the braces and what
  follows the match. The interior has no closing brace, so a match is unique at its position.
  The compiler's pattern \<open>\{\{\s*([^\}]+?)\s*\}\}\<close> matches the same substrings, and both
  callers apply \<open>strings.TrimSpace\<close> to the captured group.
\<close>

definition matchExpr :: "string \<Rightarrow> (string \<times> string) option" where
  "matchExpr s =
     (if take 2 s = ''{{''
      then (let body = drop 2 s;
                inner = takeWhile (\<lambda>c. c \<noteq> CHR ''}'') body;
                rest = dropWhile (\<lambda>c. c \<noteq> CHR ''}'') body
            in if inner \<noteq> '''' \<and> take 2 rest = ''}}'' then Some (inner, drop 2 rest) else None)
      else None)"

lemma matchExpr_Some:
  "matchExpr s = Some (inner, rest) \<longleftrightarrow>
     s = ''{{'' @ inner @ ''}}'' @ rest \<and> inner \<noteq> '''' \<and> CHR ''}'' \<notin> set inner"
proof
  assume m: "matchExpr s = Some (inner, rest)"
  let ?b = "drop 2 s"
  have i: "inner = takeWhile (\<lambda>c. c \<noteq> CHR ''}'') ?b" and r: "rest = drop 2 (dropWhile (\<lambda>c. c \<noteq> CHR ''}'') ?b)"
    and ne: "inner \<noteq> ''''" and t: "take 2 (dropWhile (\<lambda>c. c \<noteq> CHR ''}'') ?b) = ''}}''" and h: "take 2 s = ''{{''"
    using m by (auto simp: matchExpr_def Let_def split: if_splits)
  have "s = ''{{'' @ ?b" using h by (metis append_take_drop_id)
  moreover have "?b = inner @ dropWhile (\<lambda>c. c \<noteq> CHR ''}'') ?b" unfolding i by simp
  moreover have "dropWhile (\<lambda>c. c \<noteq> CHR ''}'') ?b = ''}}'' @ rest" unfolding r using t by (metis append_take_drop_id)
  moreover have "CHR ''}'' \<notin> set inner" unfolding i by (auto dest: set_takeWhileD)
  ultimately show "s = ''{{'' @ inner @ ''}}'' @ rest \<and> inner \<noteq> '''' \<and> CHR ''}'' \<notin> set inner" using ne by metis
next
  assume s: "s = ''{{'' @ inner @ ''}}'' @ rest \<and> inner \<noteq> '''' \<and> CHR ''}'' \<notin> set inner"
  then have n: "\<And>c. c \<in> set inner \<Longrightarrow> c \<noteq> CHR ''}''" by metis
  then have "takeWhile (\<lambda>c. c \<noteq> CHR ''}'') (inner @ ''}}'' @ rest) = inner"
    "dropWhile (\<lambda>c. c \<noteq> CHR ''}'') (inner @ ''}}'' @ rest) = ''}}'' @ rest"
    by (simp_all add: takeWhile_append2 dropWhile_append2)
  then show "matchExpr s = Some (inner, rest)" using s by (simp add: matchExpr_def Let_def)
qed

lemma matchExpr_shorter: "matchExpr s = Some (inner, rest) \<Longrightarrow> length rest < length s"
  by (simp add: matchExpr_Some)

text \<open>\<open>FindAllStringSubmatch(s, -1)\<close>: the interiors of the non-overlapping matches from the left.\<close>

function findExprs :: "string \<Rightarrow> string list" where
  "findExprs s =
     (case matchExpr s of
        Some (inner, rest) \<Rightarrow> inner # findExprs rest
      | None \<Rightarrow> (case s of [] \<Rightarrow> [] | c # cs \<Rightarrow> findExprs cs))"
  by auto
termination
  by (relation "measure length") (auto dest: matchExpr_shorter)

declare findExprs.simps [simp del]

definition isValidExpression :: "string \<Rightarrow> string list \<Rightarrow> string list \<Rightarrow> bool" where
  "isValidExpression expr taskNames paramNames =
     (if hasPrefix expr ''='' then True
      else if hasPrefix expr ''params.'' then trimPrefix expr ''params.'' \<in> set paramNames
      else if hasPrefix expr ''tasks.''
      then (case splitN2 (CHR ''.'') (trimPrefix expr ''tasks.'') of
              [taskName, sfx] \<Rightarrow>
                taskName \<in> set taskNames \<and>
                (sfx = ''output'' \<or> sfx = ''artifact'' \<or> hasPrefix sfx ''output.'')
            | _ \<Rightarrow> False)
      else False)"

text \<open>The fields of a task that are scanned for expressions, with their paths.\<close>

fun indexed :: "(nat \<Rightarrow> 'a \<Rightarrow> 'b list) \<Rightarrow> nat \<Rightarrow> 'a list \<Rightarrow> 'b list" where
  "indexed f i [] = []"
| "indexed f i (x # xs) = f i x @ indexed f (Suc i) xs"

definition exprFields :: "string \<Rightarrow> WorkflowTask \<Rightarrow> (string \<times> string) list" where
  "exprFields taskPath task =
     (case wt_Agent task of
        None \<Rightarrow> []
      | Some agent \<Rightarrow>
          (if ac_Text agent \<noteq> '''' then [(taskPath @ ''.agent.text'', ac_Text agent)] else []) @
          (case ac_Message agent of
             None \<Rightarrow> []
           | Some m \<Rightarrow> indexed (\<lambda>i part. case mpt_Text part of
                          None \<Rightarrow> []
                        | Some t \<Rightarrow> [(fpIndex (taskPath @ ''.agent.message.parts'') i @ ''.text.text'', txp_Text t)]) 0 (am_Parts m))) @
     (case wt_AgentTask task of None \<Rightarrow> [] | Some at \<Rightarrow> [(taskPath @ ''.agentTask.input'', agt_Input at)]) @
     (case wt_Container task of
        None \<Rightarrow> []
      | Some ct \<Rightarrow> indexed (\<lambda>i env. if ev_Value env \<noteq> '''' then [(fpIndex (taskPath @ ''.container.env'') i @ ''.value'', ev_Value env)] else []) 0 (ctk_Env ct)) @
     (case wt_HTTP task of
        None \<Rightarrow> []
      | Some ht \<Rightarrow>
          (if ht_URL ht \<noteq> '''' then [(taskPath @ ''.http.url'', ht_URL ht)] else []) @
          (if ht_Body ht \<noteq> '''' then [(taskPath @ ''.http.body'', ht_Body ht)] else []) @
          indexed (\<lambda>i h. if hh_Value h \<noteq> '''' then [(fpIndex (taskPath @ ''.http.headers'') i @ ''.value'', hh_Value h)] else []) 0 (ht_Headers ht)) @
     (if wt_Condition task \<noteq> '''' then [(taskPath @ ''.condition'', wt_Condition task)] else []) @
     indexed (\<lambda>i sc. if sw_Condition sc \<noteq> '''' then [(fpIndex (taskPath @ ''.switch'') i @ ''.condition'', sw_Condition sc)] else []) 0 (wt_Switch task)"

definition validateExpressions :: "string \<Rightarrow> WorkflowTask \<Rightarrow> string list \<Rightarrow> string list \<Rightarrow> fieldErr list" where
  "validateExpressions taskPath task taskNames paramNames =
     concat (map (\<lambda>(path, value). concat (map (\<lambda>inner.
       errIf (\<not> isValidExpression (trimSpace inner) taskNames paramNames)
         (fInvalid path (''{{'' @ inner @ ''}}'') (Sprintf ''invalid expression: %s'' [AS (''{{'' @ inner @ ''}}'')]))) (findExprs value)))
       (exprFields taskPath task))"

subsection \<open>Per-task checks\<close>

definition countTypes :: "bool list \<Rightarrow> nat" where
  "countTypes bs = length (filter id bs)"

definition partErrors :: "string \<Rightarrow> MessagePart \<Rightarrow> fieldErr list" where
  "partErrors partPath part =
     (let n = countTypes [mpt_Text part \<noteq> None, mpt_Data part \<noteq> None, mpt_File part \<noteq> None] in
      errIf (n = 0) (fRequired partPath ''exactly one of text, data, or file must be set'') @
      errIf (n > 1) (fForbidden partPath ''only one of text, data, or file may be set per part''))"

definition validateAgentCall :: "string \<Rightarrow> AgentCall \<Rightarrow> fieldErr list" where
  "validateAgentCall agentPath agent =
     (let hasText = ac_Text agent \<noteq> ''''; hasMessage = ac_Message agent \<noteq> None in
      errIf (\<not> hasText \<and> \<not> hasMessage) (fRequired agentPath ''one of text or message must be specified'') @
      errIf (hasText \<and> hasMessage) (fForbidden agentPath ''text and message are mutually exclusive'') @
      (case ac_Message agent of
         None \<Rightarrow> []
       | Some m \<Rightarrow> collectIdx (\<lambda>j. partErrors (fpIndex (agentPath @ ''.message.parts'') j)) 0 (am_Parts m)))"

definition validateContainerTask :: "string \<Rightarrow> ContainerTask \<Rightarrow> fieldErr list" where
  "validateContainerTask containerPath ct =
     errIf (ctk_Image ct = '''') (fRequired (containerPath @ ''.image'') ''image is required'')"

definition headerErrors :: "string \<Rightarrow> HTTPHeader \<Rightarrow> fieldErr list" where
  "headerErrors headerPath header =
     (let hasValue = hh_Value header \<noteq> ''''; hasValueFrom = hh_ValueFrom header \<noteq> None in
      errIf (\<not> hasValue \<and> \<not> hasValueFrom) (fRequired headerPath ''one of value or valueFrom must be specified'') @
      errIf (hasValue \<and> hasValueFrom) (fForbidden headerPath ''value and valueFrom are mutually exclusive'') @
      (case hh_ValueFrom header of
         None \<Rightarrow> []
       | Some vf \<Rightarrow>
           (let hasSecret = hvf_SecretKeyRef vf \<noteq> None; hasCM = hvf_ConfigMapKeyRef vf \<noteq> None in
            errIf (\<not> hasSecret \<and> \<not> hasCM) (fRequired (headerPath @ ''.valueFrom'') ''one of secretKeyRef or configMapKeyRef must be specified'') @
            errIf (hasSecret \<and> hasCM) (fForbidden (headerPath @ ''.valueFrom'') ''secretKeyRef and configMapKeyRef are mutually exclusive''))))"

definition validateHTTPTask :: "string \<Rightarrow> HTTPTask \<Rightarrow> fieldErr list" where
  "validateHTTPTask httpPath ht =
     errIf (ht_URL ht = '''') (fRequired (httpPath @ ''.url'') ''url is required'') @
     collectIdx (\<lambda>i. headerErrors (fpIndex (httpPath @ ''.headers'') i)) 0 (ht_Headers ht)"

definition dependsErrors :: "string \<Rightarrow> string list \<Rightarrow> string \<Rightarrow> string list \<Rightarrow> fieldErr list" where
  "dependsErrors taskPath taskNames name deps =
     collectIdx (\<lambda>j dep. let p = fpIndex (taskPath @ ''.dependsOn'') j in
       errIf (dep \<notin> set taskNames) (fNotFound p dep) @
       errIf (dep = name) (fInvalid p dep (Sprintf ''a task cannot depend on itself'' []))) 0 deps"

definition switchErrors :: "string \<Rightarrow> string list \<Rightarrow> SwitchCase list \<Rightarrow> fieldErr list" where
  "switchErrors taskPath taskNames cases =
     collectIdx (\<lambda>j sc. let p = fpIndex (taskPath @ ''.switch'') j in
       errIf (sw_Then sc \<noteq> '''' \<and> sw_Then sc \<notin> set taskNames) (fNotFound (p @ ''.then'') (sw_Then sc)) @
       errIf (sw_Default sc \<noteq> '''' \<and> sw_Default sc \<notin> set taskNames) (fNotFound (p @ ''.default'') (sw_Default sc))) 0 cases"

definition typeErrors :: "string \<Rightarrow> WorkflowTask \<Rightarrow> fieldErr list" where
  "typeErrors taskPath task =
     (let typeCount = countTypes [wt_Agent task \<noteq> None, wt_AgentTask task \<noteq> None, wt_Container task \<noteq> None,
                                  wt_HTTP task \<noteq> None, wt_Switch task \<noteq> []] in
      errIf (typeCount = 0) (fRequired taskPath ''exactly one of agent, agentTask, container, http, or switch must be specified'') @
      errIf (typeCount > 1) (fForbidden taskPath ''only one of agent, agentTask, container, http, or switch may be specified''))"

definition taskErrors :: "string list \<Rightarrow> string list \<Rightarrow> string list \<Rightarrow> nat \<Rightarrow> WorkflowTask \<Rightarrow> fieldErr list" where
  "taskErrors taskNames paramNames seen i task =
     (let taskPath = fpIndex ''spec.tasks'' i in
      errIf (wt_Name task \<in> set seen) (fDuplicate (taskPath @ ''.name'') (wt_Name task)) @
      typeErrors taskPath task @
      (case wt_Agent task of None \<Rightarrow> [] | Some a \<Rightarrow> validateAgentCall (taskPath @ ''.agent'') a) @
      (case wt_Container task of None \<Rightarrow> [] | Some c \<Rightarrow> validateContainerTask (taskPath @ ''.container'') c) @
      (case wt_HTTP task of None \<Rightarrow> [] | Some h \<Rightarrow> validateHTTPTask (taskPath @ ''.http'') h) @
      dependsErrors taskPath taskNames (wt_Name task) (wt_DependsOn task) @
      switchErrors taskPath taskNames (wt_Switch task) @
      validateExpressions taskPath task taskNames paramNames)"

fun tasksErrors :: "string list \<Rightarrow> string list \<Rightarrow> string list \<Rightarrow> nat \<Rightarrow> WorkflowTask list \<Rightarrow> fieldErr list" where
  "tasksErrors taskNames paramNames seen i [] = []"
| "tasksErrors taskNames paramNames seen i (t # ts) =
     taskErrors taskNames paramNames seen i t @ tasksErrors taskNames paramNames (wt_Name t # seen) (Suc i) ts"

subsection \<open>Dependency cycles\<close>

datatype color = White | Gray | Black

text \<open>\<open>adj\<close> and \<open>color\<close> are Go maps: a name never entered has no successors and the zero colour.\<close>

definition adjOf :: "WorkflowTask list \<Rightarrow> string list smap" where
  "adjOf tasks = fold (\<lambda>t. mput (wt_Name t) (wt_DependsOn t)) tasks []"

definition succsOf :: "string list smap \<Rightarrow> string \<Rightarrow> string list" where
  "succsOf adj n = (case mget adj n of None \<Rightarrow> [] | Some ds \<Rightarrow> ds)"

text \<open>
  The loop over the dependencies of one node. Its recursive call is \<open>visit dep\<close>: the
  node is gray while its own dependencies are visited and black afterwards.
\<close>

function visitDeps :: "string list smap \<Rightarrow> string list \<Rightarrow> (string \<Rightarrow> color) \<Rightarrow> string + (string \<Rightarrow> color)" where
  "visitDeps adj [] color = Inr color"
| "visitDeps adj (dep # deps) color =
     (case color dep of
        Gray \<Rightarrow> Inl dep
      | Black \<Rightarrow> visitDeps adj deps color
      | White \<Rightarrow>
          (case visitDeps adj (succsOf adj dep) (color(dep := Gray)) of
             Inl e \<Rightarrow> Inl e
           | Inr color1 \<Rightarrow> visitDeps adj deps (color1(dep := Black))))"
  by pat_completeness auto

definition whites :: "string list smap \<Rightarrow> (string \<Rightarrow> color) \<Rightarrow> nat" where
  "whites adj color = card {n \<in> set (mkeys adj). color n = White}"

lemma visitDeps_whites_shrink:
  "visitDeps_dom (adj, deps, color) \<Longrightarrow> visitDeps adj deps color = Inr color1 \<Longrightarrow> color n \<noteq> White \<Longrightarrow> color1 n \<noteq> White"
proof (induction adj deps color arbitrary: color1 rule: visitDeps.pinduct)
  case (2 adj dep deps color)
  show ?case
  proof (cases "color dep")
    case White
    then obtain c1 where c1: "visitDeps adj (succsOf adj dep) (color(dep := Gray)) = Inr c1"
      using "2.prems" by (auto simp: visitDeps.psimps "2.hyps" split: sum.splits)
    have n: "c1 n \<noteq> White" using "2.IH"(1)[OF White c1] "2.prems"(2) by auto
    have "visitDeps adj deps (c1(dep := Black)) = Inr color1"
      using "2.prems"(1) White c1 by (simp add: visitDeps.psimps "2.hyps")
    then show ?thesis using "2.IH"(2)[OF White c1, of color1] n by (simp add: fun_upd_def split: if_splits)
  qed (use 2 in \<open>auto simp: visitDeps.psimps\<close>)
qed (auto simp: visitDeps.psimps)

lemma whites_mono: "(\<And>n. c n \<noteq> White \<Longrightarrow> c' n \<noteq> White) \<Longrightarrow> whites adj c' \<le> whites adj c"
  unfolding whites_def by (rule card_mono) auto

lemma whites_mark:
  assumes "dep \<in> set (mkeys adj)" "c dep = White" "x \<noteq> White"
  shows "whites adj (c(dep := x)) < whites adj c"
  unfolding whites_def by (rule psubset_card_mono) (use assms in auto)

lemma succsOf_unknown: "dep \<notin> set (mkeys adj) \<Longrightarrow> succsOf adj dep = []"
  using map_of_eq_None_iff[of adj dep] by (simp add: succsOf_def)

termination visitDeps
proof (relation "measures [\<lambda>(adj, deps, c). whites adj c, \<lambda>(adj, deps, c). length deps]", goal_cases)
  case (2 adj dep deps c)
  then show ?case
  proof (cases "dep \<in> set (mkeys adj)")
    case False
    then have "{n \<in> set (mkeys adj). (c(dep := Gray)) n = White} = {n \<in> set (mkeys adj). c n = White}" by auto
    then have "whites adj (c(dep := Gray)) = whites adj c" by (simp add: whites_def)
    then show ?thesis using False by (simp add: succsOf_unknown)
  qed (use 2 whites_mark in auto)
next
  case (3 adj dep deps c c1)
  have "c1 n \<noteq> White" if "c n \<noteq> White" for n
    by (rule visitDeps_whites_shrink[OF 3(3) 3(2)]) (use that in simp)
  then have "whites adj (c1(dep := Black)) \<le> whites adj c" by (intro whites_mono) simp
  then show ?case by auto
qed auto

declare visitDeps.simps [simp del]
lemmas visitDeps_simps [simp] = visitDeps.simps(1)

fun visitAll :: "string list smap \<Rightarrow> string list \<Rightarrow> (string \<Rightarrow> color) \<Rightarrow> string + (string \<Rightarrow> color)" where
  "visitAll adj [] color = Inr color"
| "visitAll adj (name # names) color =
     (if color name = White
      then (case visitDeps adj (succsOf adj name) (color(name := Gray)) of
              Inl e \<Rightarrow> Inl e
            | Inr color1 \<Rightarrow> visitAll adj names (color1(name := Black)))
      else visitAll adj names color)"

definition detectDAGCycles :: "WorkflowTask list \<Rightarrow> goerror option" where
  "detectDAGCycles tasks =
     (case visitAll (adjOf tasks) (map wt_Name tasks) (\<lambda>_. White) of
        Inl dep \<Rightarrow> Some (Errorf ''dependency cycle detected involving task %q'' [AS dep])
      | Inr _ \<Rightarrow> None)"

subsection \<open>The search decides acyclicity\<close>

definition dependsRel :: "string list smap \<Rightarrow> (string \<times> string) set" where
  "dependsRel adj = {(n, d). d \<in> set (succsOf adj n)}"

text \<open>Black nodes are finished: their successors are black and they lie on no cycle.\<close>

definition finished :: "string list smap \<Rightarrow> (string \<Rightarrow> color) \<Rightarrow> bool" where
  "finished adj c \<longleftrightarrow> (\<forall>n. c n = Black \<longrightarrow> (\<forall>d \<in> set (succsOf adj n). c d = Black) \<and> (n, n) \<notin> (dependsRel adj)\<^sup>+)"

lemma finished_closed:
  assumes "finished adj c" "(n, m) \<in> (dependsRel adj)\<^sup>*" "c n = Black"
  shows "c m = Black"
  using assms(2,3) by (induction rule: rtrancl_induct) (use assms(1) in \<open>auto simp: finished_def dependsRel_def\<close>)

lemma finished_gray: "finished adj c \<Longrightarrow> c d = White \<Longrightarrow> finished adj (c(d := Gray))"
  by (auto simp: finished_def)

lemma finished_black:
  assumes f: "finished adj c" and d: "c d \<noteq> Black" and s: "\<And>x. x \<in> set (succsOf adj d) \<Longrightarrow> c x = Black"
  shows "finished adj (c(d := Black))"
proof -
  have "(d, d) \<notin> (dependsRel adj)\<^sup>+"
  proof
    assume "(d, d) \<in> (dependsRel adj)\<^sup>+"
    then obtain y where "(d, y) \<in> dependsRel adj" "(y, d) \<in> (dependsRel adj)\<^sup>*" by (blast dest: tranclD)
    then show False using finished_closed[OF f, of y d] s[of y] d by (simp add: dependsRel_def)
  qed
  then show ?thesis using f s by (auto simp: finished_def)
qed

lemma visitDeps_gray: "visitDeps adj deps c = Inr c' \<Longrightarrow> c' n = Gray \<longleftrightarrow> c n = Gray"
proof (induction adj deps c arbitrary: c' rule: visitDeps.induct)
  case (2 adj dep deps c)
  then show ?case
    by (cases "c dep") (fastforce simp: visitDeps.simps split: sum.splits if_splits)+
qed simp

lemma visitDeps_black:
  "visitDeps adj deps c = Inr c' \<Longrightarrow> finished adj c \<Longrightarrow>
     finished adj c' \<and> (\<forall>n. c n = Black \<longrightarrow> c' n = Black) \<and> (\<forall>d \<in> set deps. c' d = Black)"
proof (induction adj deps c arbitrary: c' rule: visitDeps.induct)
  case (2 adj dep deps c)
  show ?case
  proof (cases "c dep")
    case White
    then obtain c1 where c1: "visitDeps adj (succsOf adj dep) (c(dep := Gray)) = Inr c1"
      and c': "visitDeps adj deps (c1(dep := Black)) = Inr c'"
      using "2.prems"(1) by (auto simp: visitDeps.simps split: sum.splits)
    note ih = "2.IH"(1)[OF White c1 finished_gray[OF "2.prems"(2) White]]
    have i: "finished adj c1" "\<And>n. c n = Black \<Longrightarrow> c1 n = Black" "\<And>d. d \<in> set (succsOf adj dep) \<Longrightarrow> c1 d = Black"
      using ih White by (auto simp: fun_upd_def split: if_split_asm)
    have "c1 dep = Gray" using visitDeps_gray[OF c1, of dep] by simp
    then have fin: "finished adj (c1(dep := Black))" using i by (intro finished_black) auto
    show ?thesis using "2.IH"(2)[OF White c1 c' fin] i(2) by auto
  next
    case Gray
    then show ?thesis using "2.prems"(1) by (simp add: visitDeps.simps)
  next
    case Black
    then have "visitDeps adj deps c = Inr c'" using "2.prems"(1) by (simp add: visitDeps.simps)
    then show ?thesis using "2.IH"(3)[OF Black _ "2.prems"(2)] Black by auto
  qed
qed simp

lemma visitDeps_cycle:
  "visitDeps adj deps c = Inl e \<Longrightarrow> (\<And>d g. d \<in> set deps \<Longrightarrow> c g = Gray \<Longrightarrow> (g, d) \<in> (dependsRel adj)\<^sup>+)
   \<Longrightarrow> \<exists>x. (x, x) \<in> (dependsRel adj)\<^sup>+"
proof (induction adj deps c rule: visitDeps.induct)
  case (2 adj dep deps c)
  show ?case
  proof (cases "c dep")
    case White
    show ?thesis
    proof (cases "visitDeps adj (succsOf adj dep) (c(dep := Gray))")
      case (Inl e')
      have "(g, d) \<in> (dependsRel adj)\<^sup>+" if "d \<in> set (succsOf adj dep)" "(c(dep := Gray)) g = Gray" for d g
        using that "2.prems"(2)[of dep g] by (cases "g = dep") (auto simp: dependsRel_def intro: trancl_into_trancl)
      moreover have "visitDeps adj (succsOf adj dep) (c(dep := Gray)) = Inl e"
        using Inl "2.prems"(1) White by (simp add: visitDeps.simps)
      ultimately show ?thesis using "2.IH"(1)[OF White] by blast
    next
      case (Inr c1)
      have "(g, d) \<in> (dependsRel adj)\<^sup>+" if "d \<in> set deps" "(c1(dep := Black)) g = Gray" for d g
        using that "2.prems"(2)[of d g] visitDeps_gray[OF Inr, of g] by (simp split: if_splits)
      moreover have "visitDeps adj deps (c1(dep := Black)) = Inl e"
        using Inr "2.prems"(1) White by (simp add: visitDeps.simps)
      ultimately show ?thesis using "2.IH"(2)[OF White Inr] by blast
    qed
  qed (use 2 in \<open>auto simp: visitDeps.simps\<close>)
qed simp

lemma visitAll_Inr:
  "visitAll adj names c = Inr c' \<Longrightarrow> finished adj c \<Longrightarrow> (\<And>n. c n \<noteq> Gray)
   \<Longrightarrow> finished adj c' \<and> (\<forall>n. c n = Black \<longrightarrow> c' n = Black) \<and> (\<forall>n \<in> set names. c' n = Black)"
proof (induction names arbitrary: c)
  case (Cons name names)
  show ?case
  proof (cases "c name = White")
    case True
    then obtain c1 where c1: "visitDeps adj (succsOf adj name) (c(name := Gray)) = Inr c1"
      and c': "visitAll adj names (c1(name := Black)) = Inr c'"
      using Cons.prems(1) by (auto split: sum.splits)
    note v = visitDeps_black[OF c1 finished_gray[OF Cons.prems(2) True]]
    have g: "c1 n = Gray \<longleftrightarrow> n = name" for n using visitDeps_gray[OF c1, of n] Cons.prems(3)[of n] by auto
    have "finished adj (c1(name := Black))" using v g[of name] by (intro finished_black) auto
    then have "finished adj c'" "\<And>n. (c1(name := Black)) n = Black \<Longrightarrow> c' n = Black" "\<And>n. n \<in> set names \<Longrightarrow> c' n = Black"
      using Cons.IH[OF c'] g by (auto simp: fun_upd_def)
    moreover have "c1 n = Black" if "c n = Black" for n using v that True by (auto simp: fun_upd_def split: if_split_asm)
    ultimately show ?thesis by auto
  next
    case False
    then have b: "c name = Black" using Cons.prems(3)[of name] by (cases "c name") auto
    have "visitAll adj names c = Inr c'" using False Cons.prems(1) by simp
    from Cons.IH[OF this Cons.prems(2,3)] b show ?thesis by auto
  qed
qed simp

lemma visitAll_Inl:
  "visitAll adj names c = Inl e \<Longrightarrow> (\<And>n. c n \<noteq> Gray) \<Longrightarrow> \<exists>x. (x, x) \<in> (dependsRel adj)\<^sup>+"
proof (induction names arbitrary: c)
  case (Cons name names)
  show ?case
  proof (cases "c name = White")
    case True
    show ?thesis
    proof (cases "visitDeps adj (succsOf adj name) (c(name := Gray))")
      case (Inl e')
      then show ?thesis using Cons.prems(2)
        by (intro visitDeps_cycle[OF Inl]) (auto simp: dependsRel_def split: if_splits)
    next
      case (Inr c1)
      have "(c1(name := Black)) n \<noteq> Gray" for n using visitDeps_gray[OF Inr, of n] Cons.prems(2)[of n] by simp
      moreover have "visitAll adj names (c1(name := Black)) = Inl e" using Cons.prems(1) True Inr by simp
      ultimately show ?thesis using Cons.IH by blast
    qed
  next
    case False
    then have "visitAll adj names c = Inl e" using Cons.prems(1) by simp
    then show ?thesis using Cons.IH Cons.prems(2) by blast
  qed
qed simp

lemma adjOf_keys: "set (mkeys (adjOf tasks)) = wt_Name ` set tasks"
proof -
  have "set (mkeys (fold (\<lambda>t. mput (wt_Name t) (wt_DependsOn t)) tasks m)) = set (mkeys m) \<union> wt_Name ` set tasks" for m
    by (induction tasks arbitrary: m) (auto simp: dom_update)
  then show ?thesis by (simp add: adjOf_def)
qed

lemma detectDAGCycles_acyclic:
  "detectDAGCycles tasks = None \<longleftrightarrow> acyclic (dependsRel (adjOf tasks))"
proof (cases "visitAll (adjOf tasks) (map wt_Name tasks) (\<lambda>_. White)")
  case (Inl e)
  then show ?thesis using visitAll_Inl[OF Inl] by (auto simp: detectDAGCycles_def acyclic_def)
next
  case (Inr c')
  have fin: "finished (adjOf tasks) c'" and all: "\<And>n. n \<in> wt_Name ` set tasks \<Longrightarrow> c' n = Black"
    using visitAll_Inr[OF Inr] by (auto simp: finished_def)
  have "(n, n) \<notin> (dependsRel (adjOf tasks))\<^sup>+" for n
  proof
    assume cyc: "(n, n) \<in> (dependsRel (adjOf tasks))\<^sup>+"
    then obtain y where "(n, y) \<in> dependsRel (adjOf tasks)" by (blast dest: tranclD)
    then have "n \<in> set (mkeys (adjOf tasks))" using succsOf_unknown by (force simp: dependsRel_def)
    then have "c' n = Black" using all unfolding adjOf_keys by blast
    then show False using fin cyc by (simp add: finished_def)
  qed
  then show ?thesis using Inr by (simp add: detectDAGCycles_def acyclic_def)
qed

text \<open>C30. Cycle detection is a decision procedure: the three-colour search, which always terminates, reports
  nothing exactly when the dependency relation of the tasks is acyclic, whatever names the
  dependencies mention.\<close>

theorem detectDAGCycles_iff_acyclic:
  "detectDAGCycles tasks = None \<longleftrightarrow> acyclic (dependsRel (adjOf tasks))"
  by (rule detectDAGCycles_acyclic)

subsection \<open>Admission\<close>

definition agentTaskFreezeMessage :: string where
  "agentTaskFreezeMessage = ''agentTask is no longer supported: the AgentWorkflow API is frozen as a template-only resource and the agentTask runtime was removed in the v2.1 pivot; use an agent task calling a deployed Agent instead''"

definition validateAgentTaskFreeze :: "AgentWorkflow \<Rightarrow> AgentWorkflow option \<Rightarrow> fieldErr list" where
  "validateAgentTaskFreeze awf old =
     (let oldAgentTasks = (case old of
            None \<Rightarrow> []
          | Some o1 \<Rightarrow> map wt_Name (filter (\<lambda>t. wt_AgentTask t \<noteq> None) (aws_Tasks (awf_Spec o1)))) in
      collectIdx (\<lambda>i task.
        errIf (wt_AgentTask task \<noteq> None \<and> wt_Name task \<notin> set oldAgentTasks)
          (fForbidden (fpIndex ''spec.tasks'' i @ ''.agentTask'') agentTaskFreezeMessage)) 0 (aws_Tasks (awf_Spec awf)))"

definition aggregateErrors :: "fieldErr list \<Rightarrow> string \<Rightarrow> admission" where
  "aggregateErrors allErrs name = (if allErrs = [] then None else Some (name, allErrs))"

definition ValidateAgentWorkflow :: "AgentWorkflow \<Rightarrow> admission" where
  "ValidateAgentWorkflow awf =
     (let tasks = aws_Tasks (awf_Spec awf);
          taskNames = map wt_Name tasks;
          paramNames = map wp_Name (aws_Params (awf_Spec awf)) in
      aggregateErrors
        (errIf (tasks = []) (fRequired ''spec.tasks'' ''at least one task is required'') @
         tasksErrors taskNames paramNames [] 0 tasks @
         (case detectDAGCycles tasks of
            None \<Rightarrow> []
          | Some cycleErr \<Rightarrow> [fInvalid ''spec.tasks'' '''' (ErrText cycleErr)]))
        (om_Name (awf_Meta awf)))"

definition ValidateCreate :: "AgentWorkflow \<Rightarrow> admission" where
  "ValidateCreate awf =
     (if validateAgentTaskFreeze awf None \<noteq> []
      then aggregateErrors (validateAgentTaskFreeze awf None) (om_Name (awf_Meta awf))
      else ValidateAgentWorkflow awf)"

definition ValidateUpdate :: "AgentWorkflow \<Rightarrow> AgentWorkflow \<Rightarrow> admission" where
  "ValidateUpdate oldWf awf =
     (if validateAgentTaskFreeze awf (Some oldWf) \<noteq> []
      then aggregateErrors (validateAgentTaskFreeze awf (Some oldWf)) (om_Name (awf_Meta awf))
      else ValidateAgentWorkflow awf)"

subsection \<open>What admission guarantees\<close>

definition exprValues :: "WorkflowTask \<Rightarrow> string list" where
  "exprValues task = map snd (exprFields '''' task)"

lemma indexed_map: "map h (indexed f i xs) = indexed (\<lambda>j x. map h (f j x)) i xs"
  by (induction xs arbitrary: i) auto

lemma exprFields_snd: "map snd (exprFields p task) = exprValues task"
  unfolding exprValues_def exprFields_def
  by (simp add: indexed_map if_distrib[where f = "map snd"] option.case_distrib[where h = "map snd"]
      cong: option.case_cong if_cong)

definition exprsResolve :: "string list \<Rightarrow> string list \<Rightarrow> WorkflowTask \<Rightarrow> bool" where
  "exprsResolve taskNames paramNames task \<longleftrightarrow>
     (\<forall>v \<in> set (exprValues task). \<forall>e \<in> set (findExprs v). isValidExpression (trimSpace e) taskNames paramNames)"

definition partOK :: "MessagePart \<Rightarrow> bool" where
  "partOK p \<longleftrightarrow> countTypes [mpt_Text p \<noteq> None, mpt_Data p \<noteq> None, mpt_File p \<noteq> None] = 1"

definition agentCallOK :: "AgentCall \<Rightarrow> bool" where
  "agentCallOK a \<longleftrightarrow>
     (case ac_Message a of None \<Rightarrow> ac_Text a \<noteq> '''' | Some m \<Rightarrow> ac_Text a = '''' \<and> (\<forall>p \<in> set (am_Parts m). partOK p))"

definition headerOK :: "HTTPHeader \<Rightarrow> bool" where
  "headerOK h \<longleftrightarrow>
     (case hh_ValueFrom h of
        None \<Rightarrow> hh_Value h \<noteq> ''''
      | Some vf \<Rightarrow> hh_Value h = '''' \<and> (hvf_SecretKeyRef vf = None \<longleftrightarrow> hvf_ConfigMapKeyRef vf \<noteq> None))"

definition taskOK :: "string list \<Rightarrow> string list \<Rightarrow> WorkflowTask \<Rightarrow> bool" where
  "taskOK taskNames paramNames t \<longleftrightarrow>
     countTypes [wt_Agent t \<noteq> None, wt_AgentTask t \<noteq> None, wt_Container t \<noteq> None, wt_HTTP t \<noteq> None, wt_Switch t \<noteq> []] = 1 \<and>
     (\<forall>a. wt_Agent t = Some a \<longrightarrow> agentCallOK a) \<and>
     (\<forall>c. wt_Container t = Some c \<longrightarrow> ctk_Image c \<noteq> '''') \<and>
     (\<forall>h. wt_HTTP t = Some h \<longrightarrow> ht_URL h \<noteq> '''' \<and> (\<forall>x \<in> set (ht_Headers h). headerOK x)) \<and>
     (\<forall>d \<in> set (wt_DependsOn t). d \<in> set taskNames \<and> d \<noteq> wt_Name t) \<and>
     (\<forall>sc \<in> set (wt_Switch t). (sw_Then sc = '''' \<or> sw_Then sc \<in> set taskNames) \<and>
                               (sw_Default sc = '''' \<or> sw_Default sc \<in> set taskNames)) \<and>
     exprsResolve taskNames paramNames t"

lemma collectIdx_Nil_all: "(\<And>j k x. f j x = [] \<longleftrightarrow> f k x = []) \<Longrightarrow> collectIdx f i xs = [] \<longleftrightarrow> (\<forall>x \<in> set xs. f 0 x = [])"
proof (induction xs arbitrary: i)
  case (Cons x xs)
  show ?case using Cons.IH[OF Cons.prems, of "Suc i"] Cons.prems[of i x 0] by auto
qed simp

lemma one_iff: "(n \<noteq> 0 \<and> \<not> Suc 0 < n) \<longleftrightarrow> n = Suc 0" for n :: nat
  by linarith

lemma partErrors_Nil: "partErrors p x = [] \<longleftrightarrow> partOK x"
  unfolding partErrors_def partOK_def Let_def by (simp only: append_is_Nil_conv errIf_Nil One_nat_def one_iff)

lemma typeErrors_Nil: "typeErrors p t = [] \<longleftrightarrow>
   countTypes [wt_Agent t \<noteq> None, wt_AgentTask t \<noteq> None, wt_Container t \<noteq> None, wt_HTTP t \<noteq> None, wt_Switch t \<noteq> []] = 1"
  unfolding typeErrors_def Let_def by (simp only: append_is_Nil_conv errIf_Nil One_nat_def one_iff)

lemma validateAgentCall_Nil: "validateAgentCall p a = [] \<longleftrightarrow> agentCallOK a"
proof (cases "ac_Message a")
  case (Some m)
  have "collectIdx (\<lambda>j. partErrors (fpIndex (p @ ''.message.parts'') j)) 0 (am_Parts m) = [] \<longleftrightarrow> (\<forall>x \<in> set (am_Parts m). partOK x)"
    by (subst collectIdx_Nil_all) (simp_all add: partErrors_Nil)
  then show ?thesis using Some by (auto simp: validateAgentCall_def agentCallOK_def Let_def)
qed (simp add: validateAgentCall_def agentCallOK_def Let_def)

lemma headerErrors_Nil: "headerErrors p h = [] \<longleftrightarrow> headerOK h"
  by (auto simp: headerErrors_def headerOK_def Let_def split: option.split)

lemma validateHTTPTask_Nil:
  "validateHTTPTask p h = [] \<longleftrightarrow> ht_URL h \<noteq> '''' \<and> (\<forall>x \<in> set (ht_Headers h). headerOK x)"
  unfolding validateHTTPTask_def by (subst append_is_Nil_conv, subst collectIdx_Nil_all) (simp_all add: headerErrors_Nil)

lemma dependsErrors_Nil:
  "dependsErrors p names n deps = [] \<longleftrightarrow> (\<forall>d \<in> set deps. d \<in> set names \<and> d \<noteq> n)"
  unfolding dependsErrors_def Let_def by (subst collectIdx_Nil_all) auto

lemma switchErrors_Nil:
  "switchErrors p names cases = [] \<longleftrightarrow>
     (\<forall>sc \<in> set cases. (sw_Then sc = '''' \<or> sw_Then sc \<in> set names) \<and> (sw_Default sc = '''' \<or> sw_Default sc \<in> set names))"
  unfolding switchErrors_def Let_def by (subst collectIdx_Nil_all) auto

lemma validateExpressions_Nil:
  "validateExpressions p t names params = [] \<longleftrightarrow> exprsResolve names params t"
proof -
  have "validateExpressions p t names params = [] \<longleftrightarrow>
      (\<forall>v \<in> set (map snd (exprFields p t)). \<forall>e \<in> set (findExprs v). isValidExpression (trimSpace e) names params)"
    by (auto simp: validateExpressions_def)
  then show ?thesis by (simp add: exprFields_snd exprsResolve_def)
qed

lemmas taskErrors_Nils =
  typeErrors_Nil validateAgentCall_Nil validateHTTPTask_Nil dependsErrors_Nil switchErrors_Nil validateExpressions_Nil

lemma taskErrors_Nil: "taskErrors names params seen i t = [] \<longleftrightarrow> wt_Name t \<notin> set seen \<and> taskOK names params t"
  unfolding taskErrors_def Let_def taskOK_def append_is_Nil_conv taskErrors_Nils errIf_Nil
  by (cases "wt_Agent t"; cases "wt_Container t"; cases "wt_HTTP t")
    (simp_all add: validateAgentCall_Nil validateHTTPTask_Nil validateContainerTask_def)

lemma tasksErrors_Nil:
  "tasksErrors names params seen i ts = [] \<longleftrightarrow>
     distinct (map wt_Name ts) \<and> set seen \<inter> wt_Name ` set ts = {} \<and> (\<forall>t \<in> set ts. taskOK names params t)"
  by (induction ts arbitrary: seen i) (auto simp: taskErrors_Nil)

definition admissible :: "AgentWorkflow \<Rightarrow> bool" where
  "admissible w \<longleftrightarrow>
     (let tasks = aws_Tasks (awf_Spec w); names = map wt_Name tasks; params = map wp_Name (aws_Params (awf_Spec w)) in
      tasks \<noteq> [] \<and> distinct names \<and> (\<forall>t \<in> set tasks. taskOK names params t) \<and> acyclic (dependsRel (adjOf tasks)))"

lemma ValidateAgentWorkflow_iff: "ValidateAgentWorkflow w = None \<longleftrightarrow> admissible w"
  by (auto simp: ValidateAgentWorkflow_def admissible_def aggregateErrors_def Let_def tasksErrors_Nil
      detectDAGCycles_acyclic [symmetric] split: option.split)

lemma freeze_create: "validateAgentTaskFreeze w None = [] \<longleftrightarrow> (\<forall>t \<in> set (aws_Tasks (awf_Spec w)). wt_AgentTask t = None)"
  unfolding validateAgentTaskFreeze_def Let_def by (subst collectIdx_Nil_all) auto

lemma ValidateCreate_none:
  "ValidateCreate w = None \<longleftrightarrow> admissible w \<and> list_all (\<lambda>t. wt_AgentTask t = None) (aws_Tasks (awf_Spec w))"
  by (auto simp: ValidateCreate_def ValidateAgentWorkflow_iff freeze_create aggregateErrors_def list_all_iff)


end
