(* ===== verification/WorkflowCompile.thy ===== *)
theory WorkflowCompile
  imports WorkflowAdmission Compiler
begin

text \<open>
  \<open>internal/controller/agentworkflow_compiler.go\<close>: translation of an AgentWorkflow into an Argo
  WorkflowTemplate. The Argo API types are records with the fields the compiler sets. A
  \<open>time.Duration\<close> is nanoseconds; \<open>int64(d.Seconds())\<close> truncates towards zero, which the float
  conversion does exactly below \<open>2^22\<close> seconds. The text of raw JSON bytes is not kept in the model, so the base64
  text \<open>json.Marshal\<close> writes for them is an argument, as is the generated traceparent.
\<close>

subsection \<open>Argo types\<close>

datatype WfValueFrom = VFSupplied | VFPath string | VFExpression string | VFConfigMapKey string string

record WfParameter =
  wpar_Name :: string
  wpar_Default :: "string option"
  wpar_Value :: "string option"
  wpar_Description :: "string option"
  wpar_ValueFrom :: "WfValueFrom option"

record WfArtifact =
  wart_Name :: string
  wart_Raw :: string

record WfHTTPHeader =
  whh_Name :: string
  whh_Value :: string
  whh_SecretKeyRef :: "SecretKeySelector option"

record WfHTTP =
  wh_URL :: string
  wh_Method :: string
  wh_Body :: string
  wh_Headers :: "WfHTTPHeader list"
  wh_SuccessCondition :: string

record WfRetry =
  wr_Limit :: int
  wr_Backoff :: "(string \<times> int option) option"

record DAGTask =
  dag_Name :: string
  dag_Template :: string
  dag_Dependencies :: "string list"
  dag_When :: string

record WfTemplate =
  tmpl_Name :: string
  tmpl_ActiveDeadlineSeconds :: "int option"
  tmpl_RetryStrategy :: "WfRetry option"
  tmpl_Plugin :: "json option"
  tmpl_Container :: "Container option"
  tmpl_HTTP :: "WfHTTP option"
  tmpl_Script :: "Container option"
  tmpl_DAG :: "DAGTask list option"
  tmpl_Parameters :: "WfParameter list"
  tmpl_Artifacts :: "WfArtifact list"

record WorkflowTemplate =
  wft_Meta :: ObjectMeta
  wft_Entrypoint :: string
  wft_ServiceAccountName :: string
  wft_AutomountServiceAccountToken :: bool
  wft_Arguments :: "WfParameter list"
  wft_ActiveDeadlineSeconds :: "int option"
  wft_ArtifactGC :: "string option"
  wft_Templates :: "WfTemplate list"

record CompilerOptions =
  co_ArtifactIOEnabled :: bool
  co_ArtifactGCStrategy :: string

definition dagEntrypointName :: string where "dagEntrypointName = ''main''"
definition a2aPluginKey :: string where "a2aPluginKey = ''a2a''"
definition agentTaskOutputParam :: string where "agentTaskOutputParam = ''result''"
definition agentTaskArtifactParam :: string where "agentTaskArtifactParam = ''artifact''"
definition traceparentEnvVar :: string where "traceparentEnvVar = ''FLOKOA_TRACEPARENT''"
definition traceparentWorkflowParam :: string where "traceparentWorkflowParam = ''_flokoa_traceparent''"
definition defaultWorkflowServiceAccount :: string where "defaultWorkflowServiceAccount = ''flokoa-workflow''"

lemmas wf_consts = dagEntrypointName_def a2aPluginKey_def agentTaskOutputParam_def agentTaskArtifactParam_def
  traceparentEnvVar_def traceparentWorkflowParam_def defaultWorkflowServiceAccount_def

definition plainParameter :: "string \<Rightarrow> WfParameter" where
  "plainParameter n = \<lparr>wpar_Name = n, wpar_Default = None, wpar_Value = None, wpar_Description = None, wpar_ValueFrom = None\<rparr>"

definition emptyTemplate :: "string \<Rightarrow> WfTemplate" where
  "emptyTemplate n = \<lparr>tmpl_Name = n, tmpl_ActiveDeadlineSeconds = None, tmpl_RetryStrategy = None, tmpl_Plugin = None,
     tmpl_Container = None, tmpl_HTTP = None, tmpl_Script = None, tmpl_DAG = None, tmpl_Parameters = [], tmpl_Artifacts = []\<rparr>"

subsection \<open>Expressions\<close>

definition wfParamRef :: "string \<Rightarrow> string" where
  "wfParamRef n = ''{{workflow.parameters.'' @ n @ ''}}''"

definition translateExpressionWithMode :: "string \<Rightarrow> bool \<Rightarrow> string" where
  "translateExpressionWithMode expr artifactIO =
     (if hasPrefix expr ''='' then ''{{'' @ expr @ ''}}''
      else if hasPrefix expr ''params.'' then wfParamRef (trimPrefix expr ''params.'')
      else
        (let outputKind = (if artifactIO then ''artifacts'' else ''parameters'') in
         if hasPrefix expr ''tasks.''
         then (case splitN2 (CHR ''.'') (trimPrefix expr ''tasks.'') of
                 [taskName, sfx] \<Rightarrow>
                   if sfx = ''artifact''
                   then ''{{tasks.'' @ taskName @ ''.outputs.'' @ outputKind @ ''.'' @ agentTaskArtifactParam @ ''}}''
                   else if sfx = ''output''
                   then ''{{tasks.'' @ taskName @ ''.outputs.'' @ outputKind @ ''.'' @ agentTaskOutputParam @ ''}}''
                   else if hasPrefix sfx ''output.''
                   then ''{{=sprig.fromJson(tasks['' @ [CHR 0x27] @ taskName @ [CHR 0x27] @ ''].outputs.'' @ outputKind @ ''['' @
                        [CHR 0x27] @ agentTaskArtifactParam @ [CHR 0x27] @ '']).parts[0].data.'' @ trimPrefix sfx ''output.'' @ ''}}''
                   else ''{{'' @ expr @ ''}}''
               | _ \<Rightarrow> ''{{'' @ expr @ ''}}'')
         else ''{{'' @ expr @ ''}}''))"

definition translateExpression :: "string \<Rightarrow> string" where
  "translateExpression expr = translateExpressionWithMode expr False"

text \<open>\<open>ReplaceAllStringFunc\<close> with a function of the matched interior.\<close>

function replaceExprs :: "(string \<Rightarrow> string) \<Rightarrow> string \<Rightarrow> string" where
  "replaceExprs f s =
     (case matchExpr s of
        Some (inner, rest) \<Rightarrow> f inner @ replaceExprs f rest
      | None \<Rightarrow> (case s of [] \<Rightarrow> [] | c # cs \<Rightarrow> c # replaceExprs f cs))"
  by auto
termination
  by (relation "measure (\<lambda>(f, s). length s)") (auto dest: matchExpr_shorter)

declare replaceExprs.simps [simp del]

definition TranslateExpressionsWithMode :: "string \<Rightarrow> bool \<Rightarrow> string" where
  "TranslateExpressionsWithMode input artifactIO =
     replaceExprs (\<lambda>inner. translateExpressionWithMode (trimSpace inner) artifactIO) input"

definition TranslateExpressions :: "string \<Rightarrow> string" where
  "TranslateExpressions input = TranslateExpressionsWithMode input False"

definition translateConditionExpr :: "string \<Rightarrow> string" where
  "translateConditionExpr expr = replaceExprs (\<lambda>inner. translateExpression (trimSpace inner)) expr"

definition translateAgentMessage :: "AgentMessage \<Rightarrow> AgentMessage" where
  "translateAgentMessage msg =
     msg\<lparr>am_Parts := map (\<lambda>p. p\<lparr>mpt_Text := map_option (\<lambda>t. t\<lparr>txp_Text := TranslateExpressions (txp_Text t)\<rparr>) (mpt_Text p)\<rparr>) (am_Parts msg)\<rparr>"

subsection \<open>The A2A plugin document\<close>

definition rawJSONMapToAny :: "numlib \<Rightarrow> rawjson smap \<Rightarrow> doc" where
  "rawJSONMapToAny nl m = concat (map (\<lambda>(k, v). case v of Raw j \<Rightarrow> [(k, fromJson nl j)] | RawBad \<Rightarrow> []) m)"

definition roleText :: "MessageRole \<Rightarrow> string" where
  "roleText r = (case r of MessageRoleUser \<Rightarrow> ''user'' | MessageRoleAgent \<Rightarrow> ''agent'' | MessageRoleUnset \<Rightarrow> '''')"

definition withMetadata :: "numlib \<Rightarrow> rawjson smap \<Rightarrow> doc \<Rightarrow> doc" where
  "withMetadata nl m d = putNonEmpty ''metadata'' (\<lambda>m. GMap (rawJSONMapToAny nl m)) m d"

definition buildPluginPart :: "numlib \<Rightarrow> (rawjson \<Rightarrow> string) \<Rightarrow> MessagePart \<Rightarrow> doc" where
  "buildPluginPart nl b64 p =
     (let part0 = [];
          part1 = putOpt ''text'' (\<lambda>t. GMap (withMetadata nl (txp_Metadata t) [(''text'', GString (txp_Text t))])) (mpt_Text p) part0;
          part2 = putOpt ''data'' (\<lambda>d. GMap (withMetadata nl (dtp_Metadata d) [(''data'', GString (b64 (dtp_Data d)))])) (mpt_Data p) part1
      in putOpt ''file'' (\<lambda>f. GMap (withMetadata nl (flp_Metadata f)
              [(''file'', GMap [(''name'', GString (fc_Name (flp_File f))), (''mimeType'', GString (fc_MimeType (flp_File f))),
                                (''bytes'', GString (fc_Bytes (flp_File f))), (''uri'', GString (fc_URI (flp_File f)))])])) (mpt_File p) part2)"

definition buildPluginMessage :: "numlib \<Rightarrow> (rawjson \<Rightarrow> string) \<Rightarrow> AgentMessage \<Rightarrow> doc" where
  "buildPluginMessage nl b64 msg =
     (let r0 = putNonEmpty ''role'' GString (roleText (am_Role msg)) [];
          r1 = mput ''parts'' (GList (map (\<lambda>p. GMap (buildPluginPart nl b64 p)) (am_Parts msg))) r0;
          r2 = putNonEmpty ''contextId'' GString (am_ContextID msg) r1;
          r3 = putNonEmpty ''referenceTaskIds'' GStrings (am_ReferenceTaskIDs msg) r2;
          r4 = putNonEmpty ''extensions'' GStrings (am_Extensions msg) r3;
          r5 = putNonEmpty ''taskId'' GString (am_TaskID msg) r4
      in putNonEmpty ''metadata'' (\<lambda>m. GMap (rawJSONMapToAny nl m)) (am_Metadata msg) r5)"

definition pushDoc :: "PushNotificationConfig \<Rightarrow> doc" where
  "pushDoc pc =
     (let p0 = [(''url'', GString (pnc_URL pc))];
          p1 = putNonEmpty ''id'' GString (pnc_ID pc) p0;
          p2 = putNonEmpty ''token'' GString (pnc_Token pc) p1
      in putOpt ''authentication'' (\<lambda>a. GMap [(''schemes'', GStrings (pna_Schemes a)),
           (''credentials'', GString (pna_Credentials a))]) (pnc_Authentication pc) p2)"

definition buildPluginSendConfig :: "MessageSendConfig \<Rightarrow> doc" where
  "buildPluginSendConfig cfg =
     (let r0 = putNonEmpty ''acceptedOutputModes'' GStrings (msc_AcceptedOutputModes cfg) [];
          r1 = putOpt ''blocking'' GBool (msc_Blocking cfg) r0;
          r2 = putOpt ''historyLength'' GInt (msc_HistoryLength cfg) r1
      in putOpt ''pushNotificationConfig'' (\<lambda>p. GMap (pushDoc p)) (msc_PushNotificationConfig cfg) r2)"

definition callMessage :: "AgentCall \<Rightarrow> AgentMessage" where
  "callMessage agent =
     (case ac_Message agent of
        Some m \<Rightarrow> m
      | None \<Rightarrow> \<lparr>am_Role = MessageRoleUnset,
                 am_Parts = [\<lparr>mpt_Text = Some \<lparr>txp_Text = ac_Text agent, txp_Metadata = []\<rparr>, mpt_Data = None, mpt_File = None\<rparr>],
                 am_ContextID = '''', am_ReferenceTaskIDs = [], am_Extensions = [], am_TaskID = '''', am_Metadata = []\<rparr>)"

definition a2aSpecDoc :: "numlib \<Rightarrow> (rawjson \<Rightarrow> string) \<Rightarrow> AgentCall \<Rightarrow> doc" where
  "a2aSpecDoc nl b64 agent =
     (let d0 = [(''agent'', GString (ac_Name agent)),
                (''message'', GMap (buildPluginMessage nl b64 (translateAgentMessage (callMessage agent)))),
                (''traceparent'', GString (wfParamRef traceparentWorkflowParam))];
          d1 = putNonEmpty ''namespace'' GString (ac_Namespace agent) d0
      in putOpt ''config'' (\<lambda>c. GMap (buildPluginSendConfig c)) (ac_Config agent) d1)"

definition suppliedParameter :: "string \<Rightarrow> WfParameter" where
  "suppliedParameter n = (plainParameter n)\<lparr>wpar_ValueFrom := Some VFSupplied\<rparr>"

definition buildAgentTemplate :: "numlib \<Rightarrow> (rawjson \<Rightarrow> string) \<Rightarrow> AgentCall \<Rightarrow> WfTemplate \<Rightarrow> WfTemplate result" where
  "buildAgentTemplate nl b64 agent tmpl =
     (case canon (GMap [(a2aPluginKey, GMap (a2aSpecDoc nl b64 agent))]) of
        Inl err \<Rightarrow> Inl (ErrorfW ''failed to marshal A2A plugin spec: %w'' [] err)
      | Inr pluginJSON \<Rightarrow>
          Inr (tmpl\<lparr>tmpl_Plugin := Some pluginJSON,
                    tmpl_Parameters := [suppliedParameter agentTaskOutputParam, suppliedParameter agentTaskArtifactParam]\<rparr>))"

subsection \<open>Container, HTTP and switch tasks\<close>

definition translateEnv :: "EnvVar \<Rightarrow> EnvVar" where
  "translateEnv e = (if ev_Value e \<noteq> '''' then e\<lparr>ev_Value := TranslateExpressions (ev_Value e)\<rparr> else e)"

definition buildContainerTemplate :: "ContainerTask \<Rightarrow> CompilerOptions \<Rightarrow> WfTemplate \<Rightarrow> WfTemplate" where
  "buildContainerTemplate ct opts tmpl =
     (let container = emptyContainer\<lparr>ct_Image := ctk_Image ct, ct_Command := ctk_Command ct, ct_Args := ctk_Args ct,
            ct_Env := envValue traceparentEnvVar (wfParamRef traceparentWorkflowParam) # map translateEnv (ctk_Env ct),
            ct_WorkingDir := ctk_WorkingDir ct, ct_VolumeMounts := ctk_VolumeMounts ct,
            ct_Resources := (case ctk_Resources ct of None \<Rightarrow> noResources | Some r \<Rightarrow> r)\<rparr>;
          tmpl1 = tmpl\<lparr>tmpl_Container := Some container\<rparr>
      in if co_ArtifactIOEnabled opts
         then tmpl1\<lparr>tmpl_Artifacts := [\<lparr>wart_Name = agentTaskOutputParam, wart_Raw = ''''\<rparr>,
                                       \<lparr>wart_Name = agentTaskArtifactParam, wart_Raw = ''{}''\<rparr>]\<rparr>
         else tmpl1\<lparr>tmpl_Parameters :=
                [(plainParameter agentTaskOutputParam)\<lparr>wpar_ValueFrom := Some (VFPath ''/tmp/result'')\<rparr>,
                 (plainParameter agentTaskArtifactParam)\<lparr>wpar_Default := Some ''{}'', wpar_ValueFrom := Some (VFPath ''/tmp/artifact'')\<rparr>]\<rparr>)"

definition cmParamName :: "SecretKeySelector \<Rightarrow> string" where
  "cmParamName ref = ''_cm_'' @ sks_Name ref @ ''_'' @ sks_Key ref"

definition buildHTTPHeader :: "HTTPHeader \<Rightarrow> WfHTTPHeader" where
  "buildHTTPHeader h =
     (case hh_ValueFrom h of
        None \<Rightarrow> \<lparr>whh_Name = hh_Name h, whh_Value = TranslateExpressions (hh_Value h), whh_SecretKeyRef = None\<rparr>
      | Some vf \<Rightarrow>
          (case hvf_SecretKeyRef vf of
             Some s \<Rightarrow> \<lparr>whh_Name = hh_Name h, whh_Value = '''', whh_SecretKeyRef = Some s\<rparr>
           | None \<Rightarrow>
               (case hvf_ConfigMapKeyRef vf of
                  Some ref \<Rightarrow> \<lparr>whh_Name = hh_Name h, whh_Value = wfParamRef (cmParamName ref), whh_SecretKeyRef = None\<rparr>
                | None \<Rightarrow> \<lparr>whh_Name = hh_Name h, whh_Value = TranslateExpressions (hh_Value h), whh_SecretKeyRef = None\<rparr>)))"

definition buildHTTPTemplate :: "HTTPTask \<Rightarrow> WfTemplate \<Rightarrow> WfTemplate" where
  "buildHTTPTemplate ht tmpl =
     tmpl\<lparr>tmpl_HTTP := Some \<lparr>wh_URL = TranslateExpressions (ht_URL ht),
                             wh_Method = (if ht_Method ht = '''' then ''GET'' else ht_Method ht),
                             wh_Body = TranslateExpressions (ht_Body ht),
                             wh_Headers = map buildHTTPHeader (ht_Headers ht),
                             wh_SuccessCondition = ht_SuccessCondition ht\<rparr>,
          tmpl_Parameters :=
            [(plainParameter agentTaskOutputParam)\<lparr>wpar_ValueFrom := Some (VFExpression ''response.body'')\<rparr>,
             (plainParameter agentTaskArtifactParam)\<lparr>wpar_ValueFrom := Some (VFExpression
               ''toJson({statusCode: response.statusCode, headers: response.headers, body: response.body})'')\<rparr>]\<rparr>"

definition buildSwitchCase :: "string \<Rightarrow> SwitchCase \<Rightarrow> DAGTask list" where
  "buildSwitchCase name sc =
     (if sw_Then sc \<noteq> '''' \<and> sw_Condition sc \<noteq> ''''
      then [\<lparr>dag_Name = name @ ''-'' @ sw_Then sc, dag_Template = sw_Then sc, dag_Dependencies = [name],
             dag_When = translateConditionExpr (sw_Condition sc)\<rparr>] else []) @
     (if sw_Default sc \<noteq> ''''
      then [\<lparr>dag_Name = name @ ''-'' @ sw_Default sc, dag_Template = sw_Default sc, dag_Dependencies = [name],
             dag_When = ''''\<rparr>] else [])"

definition buildSwitchDAGTasks :: "WorkflowTask \<Rightarrow> DAGTask list" where
  "buildSwitchDAGTasks task = concat (map (buildSwitchCase (wt_Name task)) (wt_Switch task))"

definition translateRetryStrategy :: "WorkflowRetryStrategy \<Rightarrow> WfRetry" where
  "translateRetryStrategy rs =
     \<lparr>wr_Limit = wrs_Limit rs, wr_Backoff = map_option (\<lambda>b. (wb_Duration b, wb_Factor b)) (wrs_Backoff rs)\<rparr>"

subsection \<open>Templates and the DAG\<close>

definition durationSeconds :: "int \<Rightarrow> int" where
  "durationSeconds ns = (if ns < 0 then - ((- ns) div 1000000000) else ns div 1000000000)"

definition toInt32 :: "int \<Rightarrow> int" where
  "toInt32 i = sint (word_of_int i :: 32 word)"

definition buildTemplate ::
  "numlib \<Rightarrow> (rawjson \<Rightarrow> string) \<Rightarrow> AgentWorkflow \<Rightarrow> CompilerOptions \<Rightarrow> WorkflowTask \<Rightarrow> WfTemplate result" where
  "buildTemplate nl b64 awf opts task =
     (let tmpl0 = (emptyTemplate (wt_Name task))\<lparr>
            tmpl_ActiveDeadlineSeconds := map_option (\<lambda>d. toInt32 (durationSeconds d)) (wt_Timeout task),
            tmpl_RetryStrategy := map_option translateRetryStrategy
              (case wt_RetryStrategy task of None \<Rightarrow> aws_RetryStrategy (awf_Spec awf) | Some r \<Rightarrow> Some r)\<rparr>
      in case wt_Agent task of
           Some agent \<Rightarrow> buildAgentTemplate nl b64 agent tmpl0
         | None \<Rightarrow>
             if wt_AgentTask task \<noteq> None
             then Inl (Errorf ''agentTask is no longer supported: its runtime was removed and the AgentWorkflow API is frozen (use an agent task calling a deployed Agent instead)'' [])
             else case wt_Container task of
                    Some ct \<Rightarrow> Inr (buildContainerTemplate ct opts tmpl0)
                  | None \<Rightarrow>
                      (case wt_HTTP task of
                         Some ht \<Rightarrow> Inr (buildHTTPTemplate ht tmpl0)
                       | None \<Rightarrow>
                           if wt_Switch task \<noteq> []
                           then Inr (tmpl0\<lparr>tmpl_Script := Some (emptyContainer\<lparr>ct_Image := ''alpine:3.18'',
                                              ct_Command := [''echo''], ct_Args := [''switch-router'']\<rparr>)\<rparr>)
                           else Inl (Errorf ''task has no recognized type (must set one of agent, agentTask, container, http, or switch)'' [])))"

definition dagTaskFor :: "WorkflowTask \<Rightarrow> DAGTask" where
  "dagTaskFor task =
     \<lparr>dag_Name = wt_Name task, dag_Template = wt_Name task, dag_Dependencies = wt_DependsOn task,
      dag_When = (if wt_Condition task \<noteq> '''' then translateConditionExpr (wt_Condition task) else '''')\<rparr>"

definition dagTasksFor :: "WorkflowTask \<Rightarrow> DAGTask list" where
  "dagTasksFor task = dagTaskFor task # buildSwitchDAGTasks task"

definition cmRefs :: "WorkflowTask \<Rightarrow> SecretKeySelector list" where
  "cmRefs task =
     (case wt_HTTP task of
        None \<Rightarrow> []
      | Some ht \<Rightarrow> concat (map (\<lambda>h. case hh_ValueFrom h of
                      None \<Rightarrow> []
                    | Some vf \<Rightarrow> (case hvf_ConfigMapKeyRef vf of None \<Rightarrow> [] | Some ref \<Rightarrow> [ref])) (ht_Headers ht)))"

fun cmParams :: "string list \<Rightarrow> SecretKeySelector list \<Rightarrow> WfParameter list" where
  "cmParams seen [] = []"
| "cmParams seen (ref # refs) =
     (if cmParamName ref \<in> set seen then cmParams seen refs
      else (plainParameter (cmParamName ref))\<lparr>wpar_ValueFrom := Some (VFConfigMapKey (sks_Name ref) (sks_Key ref))\<rparr>
           # cmParams (cmParamName ref # seen) refs)"

definition userParameter :: "WorkflowParam \<Rightarrow> WfParameter" where
  "userParameter p =
     (plainParameter (wp_Name p))\<lparr>wpar_Value := Some (wp_Value p),
        wpar_Description := (if wp_Description p \<noteq> '''' then Some (wp_Description p) else None)\<rparr>"

definition compileToArgoWorkflowTemplate ::
  "numlib \<Rightarrow> (rawjson \<Rightarrow> string) \<Rightarrow> string \<Rightarrow> AgentWorkflow \<Rightarrow> CompilerOptions \<Rightarrow> WorkflowTemplate result" where
  "compileToArgoWorkflowTemplate nl b64 traceparent awf opts =
     (let spec = awf_Spec awf; tasks = aws_Tasks spec in
      bindR (mapR (\<lambda>task. case buildTemplate nl b64 awf opts task of
               Inl err \<Rightarrow> Inl (ErrorfW ''failed to build template for task %q: %w'' [AS (wt_Name task)] err)
             | Inr tmpl \<Rightarrow> Inr tmpl) tasks) (\<lambda>templates.
        Inr \<lparr>wft_Meta = objectMeta (om_Name (awf_Meta awf)) (om_Namespace (awf_Meta awf))
               [(''agent.flokoa.ai/agentworkflow-name'', om_Name (awf_Meta awf)),
                (''app.kubernetes.io/managed-by'', ''flokoa-operator'')] [],
             wft_Entrypoint = dagEntrypointName,
             wft_ServiceAccountName = (if aws_ServiceAccountName spec = '''' then defaultWorkflowServiceAccount
                                       else aws_ServiceAccountName spec),
             wft_AutomountServiceAccountToken = (case aws_AutomountServiceAccountToken spec of Some b \<Rightarrow> b | None \<Rightarrow> True),
             wft_Arguments = [(plainParameter traceparentWorkflowParam)\<lparr>wpar_Default := Some traceparent\<rparr>] @
                             map userParameter (aws_Params spec) @ cmParams [] (concat (map cmRefs tasks)),
             wft_ActiveDeadlineSeconds = map_option durationSeconds (aws_Timeout spec),
             wft_ArtifactGC = (if co_ArtifactIOEnabled opts \<and> co_ArtifactGCStrategy opts \<noteq> ''''
                               then Some (co_ArtifactGCStrategy opts) else None),
             wft_Templates = (emptyTemplate dagEntrypointName)\<lparr>tmpl_DAG := Some (concat (map dagTasksFor tasks))\<rparr> # templates\<rparr>))"

subsection \<open>Marshalling succeeds\<close>

text \<open>\<open>encoding/json\<close> decodes a number literal to a finite float or fails, and prints finite floats as JSON numbers.\<close>

definition finiteFloats :: "numlib \<Rightarrow> bool" where
  "finiteFloats nl \<longleftrightarrow> (\<forall>n. isValidNumber (nl_float nl n))"

definition marshals :: "gval \<Rightarrow> bool" where
  "marshals v \<longleftrightarrow> (\<exists>j. canon v = Inr j)"

lemma mapR_canon_total: "(\<And>x. x \<in> set xs \<Longrightarrow> marshals x) \<Longrightarrow> \<exists>ys. mapR canon xs = Inr ys"
  by (induction xs) (fastforce simp: marshals_def)+

lemma mapR_canon_kv_total:
  "(\<And>k v. (k, v) \<in> set kvs \<Longrightarrow> marshals v) \<Longrightarrow> \<exists>ys. mapR (\<lambda>(k, v). bindR (canon v) (\<lambda>j. Inr (k, j))) kvs = Inr ys"
proof (induction kvs)
  case (Cons kv kvs)
  obtain k v where kv: "kv = (k, v)" by (cases kv)
  obtain j where "canon v = Inr j" using Cons.prems[of k v] kv by (auto simp: marshals_def)
  then show ?case using Cons kv by fastforce
qed simp

lemma marshals_simps [simp]:
  "marshals (GString s)" "marshals (GStrings ss)" "marshals (GBool b)" "marshals (GInt i)" "marshals GNil"
  by (simp_all add: marshals_def)

lemma marshals_list: "(\<And>x. x \<in> set xs \<Longrightarrow> marshals x) \<Longrightarrow> marshals (GList xs)"
  using mapR_canon_total[of xs] by (auto simp: marshals_def)

lemma marshals_map: "(\<And>k v. (k, v) \<in> set kvs \<Longrightarrow> marshals v) \<Longrightarrow> marshals (GMap kvs)"
  using mapR_canon_kv_total[of kvs] by (auto simp: marshals_def)

lemma marshals_fromJson: "finiteFloats nl \<Longrightarrow> marshals (fromJson nl j)"
proof (induction j)
  case (JNum n)
  then show ?case by (simp add: marshals_def finiteFloats_def)
next
  case (JObj kvs)
  have "marshals v" if "(k, v) \<in> set (map (map_prod id (fromJson nl)) kvs)" for k v
    using that JObj by (fastforce simp: in_set_conv_nth)
  then have "marshals (GMap (map (map_prod id (fromJson nl)) kvs))" by (rule marshals_map)
  then show ?case by simp
qed (auto intro!: marshals_list)

text \<open>Documents all of whose values marshal.\<close>

definition docOK :: "doc \<Rightarrow> bool" where
  "docOK d \<longleftrightarrow> (\<forall>(k, v) \<in> set d. marshals v)"

lemma docOK_Nil [simp]: "docOK []" and docOK_Cons [simp]: "docOK ((k, v) # d) \<longleftrightarrow> marshals v \<and> docOK d"
  by (auto simp: docOK_def)

lemma docOK_GMap: "docOK d \<Longrightarrow> marshals (GMap d)"
  by (rule marshals_map) (auto simp: docOK_def)

lemma docOK_update: "docOK d \<Longrightarrow> marshals v \<Longrightarrow> docOK (mput k v d)"
  by (induction d) (auto simp: docOK_def)

lemma docOK_putOpt: "docOK d \<Longrightarrow> (\<And>x. y = Some x \<Longrightarrow> marshals (f x)) \<Longrightarrow> docOK (putOpt k f y d)"
  by (auto simp: putOpt_def docOK_update split: option.split)

lemma docOK_putNonEmpty: "docOK d \<Longrightarrow> (\<And>x. marshals (f x)) \<Longrightarrow> docOK (putNonEmpty k f y d)"
  by (auto simp: putNonEmpty_def docOK_update)

lemma docOK_raw: "finiteFloats nl \<Longrightarrow> docOK (rawJSONMapToAny nl m)"
  unfolding rawJSONMapToAny_def
  by (induction m) (auto simp: marshals_fromJson docOK_def split: rawjson.splits)

lemmas docOK_intros = docOK_putOpt docOK_putNonEmpty docOK_GMap docOK_update marshals_list docOK_raw

lemma docOK_part: "finiteFloats nl \<Longrightarrow> docOK (buildPluginPart nl b64 p)"
  unfolding buildPluginPart_def withMetadata_def Let_def by (intro docOK_intros) (simp_all add: docOK_GMap)

lemma docOK_message: "finiteFloats nl \<Longrightarrow> docOK (buildPluginMessage nl b64 m)"
  unfolding buildPluginMessage_def Let_def by (intro docOK_intros) (auto intro: docOK_GMap docOK_part)

lemma docOK_config: "docOK (buildPluginSendConfig c)"
  unfolding buildPluginSendConfig_def pushDoc_def Let_def by (intro docOK_intros) (simp_all add: docOK_GMap)

lemma docOK_spec: "finiteFloats nl \<Longrightarrow> docOK (a2aSpecDoc nl b64 a)"
  unfolding a2aSpecDoc_def Let_def by (intro docOK_intros) (simp_all add: docOK_GMap docOK_message docOK_config)

subsection \<open>Admitted workflows compile to well-formed templates\<close>

lemma exactly_one_type:
  assumes "taskOK names params t" "wt_AgentTask t = None"
  shows "wt_Agent t \<noteq> None \<or> wt_Container t \<noteq> None \<or> wt_HTTP t \<noteq> None \<or> wt_Switch t \<noteq> []"
  using assms by (auto simp: taskOK_def countTypes_def)

lemma buildTemplate_total:
  assumes "finiteFloats nl" "taskOK names params t" "wt_AgentTask t = None"
  shows "\<exists>tmpl. buildTemplate nl b64 awf opts t = Inr tmpl"
proof -
  have "docOK [(a2aPluginKey, GMap (a2aSpecDoc nl b64 a))]" for a
    by (simp add: docOK_GMap docOK_spec assms(1))
  then have "\<exists>j. canon (GMap [(a2aPluginKey, GMap (a2aSpecDoc nl b64 a))]) = Inr j" for a
    using docOK_GMap unfolding marshals_def by blast
  then have agent: "\<exists>r. buildAgentTemplate nl b64 a tmpl = Inr r" for a tmpl
    by (metis (no_types, lifting) buildAgentTemplate_def old.sum.simps(6))
  show ?thesis using exactly_one_type[OF assms(2,3)] assms(3) agent
    by (auto simp: buildTemplate_def Let_def split: option.split)
qed

lemma buildTemplate_name: "buildTemplate nl b64 awf opts t = Inr tmpl \<Longrightarrow> tmpl_Name tmpl = wt_Name t"
  by (auto simp: buildTemplate_def buildAgentTemplate_def buildContainerTemplate_def buildHTTPTemplate_def
      emptyTemplate_def Let_def split: option.splits sum.splits if_splits)

definition dagOf :: "WorkflowTemplate \<Rightarrow> DAGTask list" where
  "dagOf wft = concat (map (\<lambda>t. case tmpl_DAG t of None \<Rightarrow> [] | Some d \<Rightarrow> d) (wft_Templates wft))"

definition dagRel :: "DAGTask list \<Rightarrow> (string \<times> string) set" where
  "dagRel dag = {(dag_Name t, d) | t d. t \<in> set dag \<and> d \<in> set (dag_Dependencies t)}"

text \<open>What Argo requires of a WorkflowTemplate before it runs it.\<close>

definition argoWellFormed :: "WorkflowTemplate \<Rightarrow> bool" where
  "argoWellFormed wft \<longleftrightarrow>
     distinct (map tmpl_Name (wft_Templates wft)) \<and>
     wft_Entrypoint wft \<in> set (map tmpl_Name (wft_Templates wft)) \<and>
     distinct (map dag_Name (dagOf wft)) \<and>
     (\<forall>t \<in> set (dagOf wft). dag_Template t \<in> set (map tmpl_Name (wft_Templates wft)) \<and>
        set (dag_Dependencies t) \<subseteq> set (map dag_Name (dagOf wft))) \<and>
     acyclic (dagRel (dagOf wft))"

text \<open>The names the compiler invents do not clash with task names.\<close>

definition freshNames :: "WorkflowTask list \<Rightarrow> bool" where
  "freshNames tasks \<longleftrightarrow> dagEntrypointName \<notin> set (map wt_Name tasks) \<and> distinct (map dag_Name (concat (map dagTasksFor tasks)))"

lemma compile_Inr:
  assumes "compileToArgoWorkflowTemplate nl b64 tp awf opts = Inr wft"
  obtains templates where "list_all2 (\<lambda>t tmpl. buildTemplate nl b64 awf opts t = Inr tmpl) (aws_Tasks (awf_Spec awf)) templates"
    and "wft_Templates wft = (emptyTemplate dagEntrypointName)\<lparr>tmpl_DAG := Some (concat (map dagTasksFor (aws_Tasks (awf_Spec awf))))\<rparr> # templates"
    and "wft_Entrypoint wft = dagEntrypointName"
    and "wpar_Name ` set (wft_Arguments wft) \<supseteq> set (map wp_Name (aws_Params (awf_Spec awf)))"
proof -
  obtain templates where m: "mapR (\<lambda>task. case buildTemplate nl b64 awf opts task of
        Inl err \<Rightarrow> Inl (ErrorfW ''failed to build template for task %q: %w'' [AS (wt_Name task)] err)
      | Inr tmpl \<Rightarrow> Inr tmpl) (aws_Tasks (awf_Spec awf)) = Inr templates"
    using assms by (auto simp: compileToArgoWorkflowTemplate_def Let_def bindR_Inr_conv)
  have "list_all2 (\<lambda>t tmpl. buildTemplate nl b64 awf opts t = Inr tmpl) (aws_Tasks (awf_Spec awf)) templates"
    by (rule list_all2_mono[OF iffD1[OF mapR_Inr_conv m]]) (simp split: sum.splits)
  moreover have "wpar_Name (userParameter p) = wp_Name p" for p by (simp add: userParameter_def plainParameter_def)
  ultimately show thesis using assms m
    by (intro that[of templates]) (auto simp: compileToArgoWorkflowTemplate_def Let_def image_Un image_image)
qed

lemma template_names:
  "list_all2 (\<lambda>t tmpl. buildTemplate nl b64 awf opts t = Inr tmpl) ts templates \<Longrightarrow> map tmpl_Name templates = map wt_Name ts"
  by (induction rule: list_all2_induct) (auto dest: buildTemplate_name)

lemma template_no_dag:
  "buildTemplate nl b64 awf opts t = Inr tmpl \<Longrightarrow> tmpl_DAG tmpl = None"
  by (auto simp: buildTemplate_def buildAgentTemplate_def buildContainerTemplate_def buildHTTPTemplate_def
      emptyTemplate_def Let_def split: option.splits sum.splits if_splits)

lemma dagOf_compiled:
  assumes "list_all2 (\<lambda>t tmpl. buildTemplate nl b64 awf opts t = Inr tmpl) ts templates"
    and "wft_Templates wft = (emptyTemplate dagEntrypointName)\<lparr>tmpl_DAG := Some dag\<rparr> # templates"
  shows "dagOf wft = dag"
proof -
  have "\<forall>tmpl \<in> set templates. tmpl_DAG tmpl = None"
    using assms(1) by (induction rule: list_all2_induct) (auto dest: template_no_dag)
  then have "concat (map (\<lambda>t. case tmpl_DAG t of None \<Rightarrow> [] | Some d \<Rightarrow> d) templates) = []" by simp
  then show ?thesis using assms(2) by (simp add: dagOf_def)
qed

lemma dagTasksFor_mem:
  "x \<in> set (dagTasksFor t) \<longleftrightarrow> x = dagTaskFor t \<or>
     (\<exists>sc \<in> set (wt_Switch t). x \<in> set (buildSwitchCase (wt_Name t) sc))"
  by (auto simp: dagTasksFor_def buildSwitchDAGTasks_def)

lemma switchCase_mem:
  "x \<in> set (buildSwitchCase n sc) \<Longrightarrow> dag_Dependencies x = [n] \<and>
     (dag_Template x = sw_Then sc \<and> sw_Then sc \<noteq> '''' \<or> dag_Template x = sw_Default sc \<and> sw_Default sc \<noteq> '''')"
  by (auto simp: buildSwitchCase_def split: if_splits)

lemma succsOf_adjOf:
  assumes "distinct (map wt_Name tasks)" "t \<in> set tasks"
  shows "succsOf (adjOf tasks) (wt_Name t) = wt_DependsOn t"
proof -
  have other: "map_of (fold (\<lambda>t. mput (wt_Name t) (wt_DependsOn t)) ts m) n = map_of m n"
    if "n \<notin> wt_Name ` set ts" for ts m n
    using that by (induction ts arbitrary: m) (auto simp: update_conv)
  have "map_of (fold (\<lambda>t. mput (wt_Name t) (wt_DependsOn t)) tasks m) (wt_Name t) = Some (wt_DependsOn t)" for m
    using assms
  proof (induction tasks arbitrary: m)
    case (Cons x xs)
    then show ?case using other[of "wt_Name t" xs] by (cases "x = t") (auto simp: update_conv)
  qed simp
  then show ?thesis by (simp add: succsOf_def adjOf_def)
qed

lemma trancl_transfer:
  assumes target: "\<And>a b. (a, b) \<in> r \<Longrightarrow> b \<in> N" and edge: "\<And>a b. (a, b) \<in> r \<Longrightarrow> a \<in> N \<Longrightarrow> (a, b) \<in> s"
  shows "acyclic s \<Longrightarrow> acyclic r"
proof (rule acyclicI, rule allI, rule notI)
  fix x assume s: "acyclic s" and x: "(x, x) \<in> r\<^sup>+"
  have "(a, b) \<in> s\<^sup>+ \<and> b \<in> N" if "(a, b) \<in> r\<^sup>+" "a \<in> N" for a b
    using that by (induction rule: trancl_induct) (auto dest: target edge intro: trancl_into_trancl)
  moreover have "x \<in> N" using x target by (metis tranclE)
  ultimately show False using s x by (auto simp: acyclic_def)
qed

lemma dag_acyclic:
  assumes adm: "distinct (map wt_Name tasks)" "\<And>t. t \<in> set tasks \<Longrightarrow> set (wt_DependsOn t) \<subseteq> wt_Name ` set tasks"
    and acyc: "acyclic (dependsRel (adjOf tasks))" and fresh: "distinct (map dag_Name (concat (map dagTasksFor tasks)))"
  shows "acyclic (dagRel (concat (map dagTasksFor tasks)))"
proof (rule trancl_transfer[where N = "wt_Name ` set tasks", OF _ _ acyc])
  fix a b assume "(a, b) \<in> dagRel (concat (map dagTasksFor tasks))"
  then obtain x t where x: "a = dag_Name x" "b \<in> set (dag_Dependencies x)" and t: "t \<in> set tasks" "x \<in> set (dagTasksFor t)"
    by (auto simp: dagRel_def)
  show "b \<in> wt_Name ` set tasks"
    using x(2) t adm(2)[OF t(1)] by (auto simp: dagTasksFor_mem dagTaskFor_def dest!: switchCase_mem)
  assume "a \<in> wt_Name ` set tasks"
  then obtain t' where t': "t' \<in> set tasks" "a = wt_Name t'" by auto
  have "dagTaskFor t' \<in> set (concat (map dagTasksFor tasks))" "x \<in> set (concat (map dagTasksFor tasks))"
    using t t' by (auto simp: dagTasksFor_mem)
  moreover have "dag_Name (dagTaskFor t') = dag_Name x" using x(1) t'(2) by (simp add: dagTaskFor_def)
  ultimately have "x = dagTaskFor t'" using fresh by (auto simp: distinct_map dest: inj_onD)
  then show "(a, b) \<in> dependsRel (adjOf tasks)"
    using x(2) t' succsOf_adjOf[OF adm(1) t'(1)] by (simp add: dependsRel_def dagTaskFor_def)
qed

lemma dag_refs_resolve:
  assumes ok: "\<And>t. t \<in> set tasks \<Longrightarrow> taskOK (map wt_Name tasks) params t" and x: "x \<in> set (concat (map dagTasksFor tasks))"
  shows "dag_Template x \<in> wt_Name ` set tasks" "set (dag_Dependencies x) \<subseteq> wt_Name ` set tasks"
proof -
  obtain t where t: "t \<in> set tasks" "x \<in> set (dagTasksFor t)" using x by auto
  have sw: "sw_Then sc = '''' \<or> sw_Then sc \<in> wt_Name ` set tasks" "sw_Default sc = '''' \<or> sw_Default sc \<in> wt_Name ` set tasks"
    if "sc \<in> set (wt_Switch t)" for sc using ok[OF t(1)] that by (auto simp: taskOK_def)
  show "dag_Template x \<in> wt_Name ` set tasks"
    using t sw by (fastforce simp: dagTasksFor_mem dagTaskFor_def dest!: switchCase_mem)
  show "set (dag_Dependencies x) \<subseteq> wt_Name ` set tasks"
    using t ok[OF t(1)] by (auto simp: dagTasksFor_mem dagTaskFor_def taskOK_def dest!: switchCase_mem)
qed

text \<open>C31. An admitted workflow always compiles, and the compiled template is one Argo can run (unique template and
  DAG task names, every template, dependency and the entrypoint resolve, the DAG is acyclic)
  exactly when the names the compiler itself invents, the entrypoint and one per switch branch, clash with no
  task name, which admission does not check.\<close>

theorem admitted_workflow_compiles:
  assumes "ValidateCreate w = None" and "finiteFloats nl"
  shows "\<exists>wft. compileToArgoWorkflowTemplate nl b64 tp w opts = Inr wft \<and>
           (argoWellFormed wft \<longleftrightarrow> freshNames (aws_Tasks (awf_Spec w)))"
proof -
  let ?ts = "aws_Tasks (awf_Spec w)" and ?dag = "concat (map dagTasksFor (aws_Tasks (awf_Spec w)))"
  have adm: "distinct (map wt_Name ?ts)" "acyclic (dependsRel (adjOf ?ts))" "\<And>t. t \<in> set ?ts \<Longrightarrow> wt_AgentTask t = None"
    "\<And>t. t \<in> set ?ts \<Longrightarrow> taskOK (map wt_Name ?ts) (map wp_Name (aws_Params (awf_Spec w))) t"
    using assms(1) unfolding ValidateCreate_none by (auto simp: admissible_def Let_def list_all_iff)
  have tot: "\<exists>tmpl. buildTemplate nl b64 w opts t = Inr tmpl" if "t \<in> set ?ts" for t
    by (rule buildTemplate_total[OF assms(2) adm(4)[OF that] adm(3)[OF that]])
  then obtain f where f: "\<And>t. t \<in> set ?ts \<Longrightarrow> buildTemplate nl b64 w opts t = Inr (f t)" by metis
  have "mapR (\<lambda>task. case buildTemplate nl b64 w opts task of
        Inl err \<Rightarrow> Inl (ErrorfW ''failed to build template for task %q: %w'' [AS (wt_Name task)] err)
      | Inr tmpl \<Rightarrow> Inr tmpl) ?ts = Inr (map f ?ts)"
    by (rule mapR_total) (simp add: f)
  then obtain wft where c: "compileToArgoWorkflowTemplate nl b64 tp w opts = Inr wft"
    by (simp add: compileToArgoWorkflowTemplate_def Let_def)
  then obtain templates where t: "list_all2 (\<lambda>t tmpl. buildTemplate nl b64 w opts t = Inr tmpl) ?ts templates"
    "wft_Templates wft = (emptyTemplate dagEntrypointName)\<lparr>tmpl_DAG := Some ?dag\<rparr> # templates" "wft_Entrypoint wft = dagEntrypointName"
    by (rule compile_Inr)
  have names: "map tmpl_Name (wft_Templates wft) = dagEntrypointName # map wt_Name ?ts"
    using t(2) template_names[OF t(1)] by (simp add: emptyTemplate_def)
  have dag: "dagOf wft = ?dag" by (rule dagOf_compiled[OF t(1,2)])
  have "wt_Name ` set ?ts \<subseteq> set (map dag_Name ?dag)" by (force simp: dagTasksFor_def dagTaskFor_def)
  then have refs: "\<forall>x \<in> set ?dag. dag_Template x \<in> set (dagEntrypointName # map wt_Name ?ts) \<and>
      set (dag_Dependencies x) \<subseteq> set (map dag_Name ?dag)"
    using dag_refs_resolve[OF adm(4)] by fastforce
  have "acyclic (dagRel ?dag)" if "distinct (map dag_Name ?dag)"
    by (rule dag_acyclic[OF adm(1) _ adm(2) that]) (use adm(4) in \<open>auto simp: taskOK_def\<close>)
  then have "argoWellFormed wft \<longleftrightarrow> freshNames ?ts"
    unfolding argoWellFormed_def names dag freshNames_def t(3) using refs adm(1) by auto
  then show ?thesis using c by blast
qed

subsection \<open>Where translated expressions point\<close>

definition argoOutputRef :: "string \<Rightarrow> string \<Rightarrow> string" where
  "argoOutputRef t par = ''{{tasks.'' @ t @ ''.outputs.parameters.'' @ par @ ''}}''"

definition argoFieldRef :: "string \<Rightarrow> string \<Rightarrow> string" where
  "argoFieldRef t path = ''{{=sprig.fromJson(tasks['' @ [CHR 0x27] @ t @ [CHR 0x27] @ ''].outputs.parameters['' @ [CHR 0x27] @
     agentTaskArtifactParam @ [CHR 0x27] @ '']).parts[0].data.'' @ path @ ''}}''"

text \<open>A translated expression reads output parameter \<open>par\<close> of task \<open>t\<close>.\<close>

definition readsOutput :: "string \<Rightarrow> string \<Rightarrow> string \<Rightarrow> bool" where
  "readsOutput s t par \<longleftrightarrow> s = argoOutputRef t par \<or> par = agentTaskArtifactParam \<and> (\<exists>path. s = argoFieldRef t path)"

definition outputDeclared :: "WorkflowTemplate \<Rightarrow> string \<Rightarrow> string \<Rightarrow> bool" where
  "outputDeclared wft t par \<longleftrightarrow>
     (\<exists>tmpl \<in> set (wft_Templates wft). tmpl_Name tmpl = t \<and> par \<in> wpar_Name ` set (tmpl_Parameters tmpl))"

text \<open>Tasks whose template declares no output parameters: switches, and containers in artifact mode.\<close>

definition silentTask :: "CompilerOptions \<Rightarrow> WorkflowTask \<Rightarrow> bool" where
  "silentTask opts t \<longleftrightarrow>
     wt_Agent t = None \<and> (case wt_Container t of Some c \<Rightarrow> co_ArtifactIOEnabled opts | None \<Rightarrow> wt_HTTP t = None)"

lemma translate_valid:
  assumes v: "isValidExpression e names params" and ne: "\<not> hasPrefix e ''=''"
  shows "(\<exists>p \<in> set params. translateExpression e = wfParamRef p) \<or>
         (\<exists>t \<in> set names. \<exists>par \<in> {agentTaskOutputParam, agentTaskArtifactParam}. readsOutput (translateExpression e) t par)"
proof (cases "hasPrefix e ''params.''")
  case True
  then show ?thesis using v ne by (auto simp: isValidExpression_def translateExpression_def translateExpressionWithMode_def)
next
  case False
  then have h: "hasPrefix e ''tasks.''" using v ne by (simp add: isValidExpression_def split: if_splits)
  then obtain t sfx where sp: "splitN2 (CHR ''.'') (trimPrefix e ''tasks.'') = [t, sfx]" and t: "t \<in> set names"
    and s: "sfx = ''output'' \<or> sfx = ''artifact'' \<or> hasPrefix sfx ''output.''"
    using v ne False by (auto simp: isValidExpression_def split: list.splits if_splits)
  have tr: "translateExpression e =
      (if sfx = ''artifact'' then argoOutputRef t agentTaskArtifactParam
       else if sfx = ''output'' then argoOutputRef t agentTaskOutputParam
       else argoFieldRef t (trimPrefix sfx ''output.''))"
    using ne False h sp s
    by (auto simp: translateExpression_def translateExpressionWithMode_def argoOutputRef_def argoFieldRef_def)
  then have "readsOutput (translateExpression e) t (if sfx = ''output'' then agentTaskOutputParam else agentTaskArtifactParam)"
    by (auto simp: readsOutput_def)
  moreover have "(if sfx = ''output'' then agentTaskOutputParam else agentTaskArtifactParam) \<in> {agentTaskOutputParam, agentTaskArtifactParam}"
    by simp
  ultimately show ?thesis using t by blast
qed

lemma buildTemplate_outputs:
  assumes "buildTemplate nl b64 w opts t = Inr tmpl"
  shows "wpar_Name ` set (tmpl_Parameters tmpl) = (if silentTask opts t then {} else {agentTaskOutputParam, agentTaskArtifactParam})"
  using assms
  by (auto simp: buildTemplate_def buildAgentTemplate_def buildContainerTemplate_def buildHTTPTemplate_def emptyTemplate_def
      suppliedParameter_def plainParameter_def silentTask_def Let_def split: option.splits sum.splits if_splits)

lemma outputDeclared_compiled:
  assumes c: "compileToArgoWorkflowTemplate nl b64 tp w opts = Inr wft"
    and d: "distinct (map wt_Name (aws_Tasks (awf_Spec w)))"
    and t: "t \<in> set (aws_Tasks (awf_Spec w))" and par: "par \<in> {agentTaskOutputParam, agentTaskArtifactParam}"
  shows "outputDeclared wft (wt_Name t) par \<longleftrightarrow> \<not> silentTask opts t"
proof -
  obtain templates where la: "list_all2 (\<lambda>t tmpl. buildTemplate nl b64 w opts t = Inr tmpl) (aws_Tasks (awf_Spec w)) templates"
    and ts: "wft_Templates wft = (emptyTemplate dagEntrypointName)\<lparr>tmpl_DAG := Some (concat (map dagTasksFor (aws_Tasks (awf_Spec w))))\<rparr> # templates"
    using c by (rule compile_Inr)
  obtain i where i: "i < length (aws_Tasks (awf_Spec w))" "aws_Tasks (awf_Spec w) ! i = t" using t by (auto simp: in_set_conv_nth)
  have b: "buildTemplate nl b64 w opts t = Inr (templates ! i)" using la i by (auto simp: list_all2_conv_all_nth)
  have mem: "templates ! i \<in> set templates" using la i by (auto simp: list_all2_lengthD)
  have uniq: "tmpl = templates ! i" if "tmpl \<in> set templates" "tmpl_Name tmpl = wt_Name t" for tmpl
    using that mem buildTemplate_name[OF b] d inj_onD[of tmpl_Name "set templates" tmpl "templates ! i"]
    unfolding template_names[OF la, symmetric] by (simp add: distinct_map)
  have "outputDeclared wft (wt_Name t) par \<longleftrightarrow> par \<in> wpar_Name ` set (tmpl_Parameters (templates ! i))"
  proof
    assume "outputDeclared wft (wt_Name t) par"
    then obtain tmpl where "tmpl \<in> set templates" "tmpl_Name tmpl = wt_Name t" "par \<in> wpar_Name ` set (tmpl_Parameters tmpl)"
      unfolding outputDeclared_def ts by (auto simp: emptyTemplate_def)
    then show "par \<in> wpar_Name ` set (tmpl_Parameters (templates ! i))" using uniq by blast
  next
    assume "par \<in> wpar_Name ` set (tmpl_Parameters (templates ! i))"
    then show "outputDeclared wft (wt_Name t) par"
      unfolding outputDeclared_def ts by (intro bexI[of _ "templates ! i"]) (simp_all add: mem buildTemplate_name[OF b])
  qed
  then show ?thesis using par by (simp add: buildTemplate_outputs[OF b])
qed

text \<open>C32. Every template expression of an admitted workflow that is not passed through to Argo as it is translates to a declared workflow
  parameter, or to an output parameter of an existing task; that task's compiled template declares the parameter exactly
  when the task is neither a switch nor a container in artifact mode, so in those two cases the reference dangles.\<close>

theorem translated_references_resolve:
  assumes "ValidateCreate w = None" and "compileToArgoWorkflowTemplate nl b64 tp w opts = Inr wft"
    and "task \<in> set (aws_Tasks (awf_Spec w))" and "v \<in> set (exprValues task)" and "e \<in> set (findExprs v)"
    and "\<not> hasPrefix (trimSpace e) ''=''"
  shows "(\<exists>p \<in> wpar_Name ` set (wft_Arguments wft). translateExpression (trimSpace e) = wfParamRef p) \<or>
         (\<exists>t \<in> set (aws_Tasks (awf_Spec w)). \<exists>par. readsOutput (translateExpression (trimSpace e)) (wt_Name t) par \<and>
            (outputDeclared wft (wt_Name t) par \<longleftrightarrow> \<not> silentTask opts t))"
proof -
  let ?names = "map wt_Name (aws_Tasks (awf_Spec w))" and ?params = "map wp_Name (aws_Params (awf_Spec w))"
  have d: "distinct ?names" and ok: "taskOK ?names ?params task"
    using assms(1,3) unfolding ValidateCreate_none by (auto simp: admissible_def Let_def)
  have params: "set ?params \<subseteq> wpar_Name ` set (wft_Arguments wft)" using assms(2) by (rule compile_Inr)
  have "isValidExpression (trimSpace e) ?names ?params" using ok assms(4,5) by (auto simp: taskOK_def exprsResolve_def)
  from translate_valid[OF this assms(6)] consider
      (param) p where "p \<in> set ?params" "translateExpression (trimSpace e) = wfParamRef p"
    | (task) t par where "t \<in> set (aws_Tasks (awf_Spec w))" "par \<in> {agentTaskOutputParam, agentTaskArtifactParam}"
        "readsOutput (translateExpression (trimSpace e)) (wt_Name t) par" by auto
  then show ?thesis
  proof cases
    case param
    then show ?thesis using params by blast
  next
    case task
    then show ?thesis using outputDeclared_compiled[OF assms(2) d task(1,2)] by blast
  qed
qed

subsection \<open>A concrete workflow\<close>

definition plainTask :: "string \<Rightarrow> WorkflowTask" where
  "plainTask n = \<lparr>wt_Name = n, wt_Agent = None, wt_AgentTask = None, wt_Container = None, wt_HTTP = None, wt_Switch = [],
     wt_DependsOn = [], wt_Timeout = None, wt_RetryStrategy = None, wt_Condition = ''''\<rparr>"

definition fetchTask :: WorkflowTask where
  "fetchTask = (plainTask ''fetch'')\<lparr>wt_HTTP := Some \<lparr>ht_URL = ''http://news/{{params.user}}'', ht_Method = '''', ht_Headers = [],
     ht_Body = '''', ht_SuccessCondition = ''''\<rparr>\<rparr>"

definition askTask :: WorkflowTask where
  "askTask = (plainTask ''ask'')\<lparr>wt_Agent := Some \<lparr>ac_Name = ''writer'', ac_Namespace = '''', ac_Text = ''sum {{ tasks.fetch.output }}'',
     ac_Message = None, ac_Config = None\<rparr>, wt_DependsOn := [''fetch'']\<rparr>"

definition demoWorkflow :: AgentWorkflow where
  "demoWorkflow = \<lparr>awf_Meta = objectMeta ''w'' ''ns'' [] [],
     awf_Spec = \<lparr>aws_Description = '''', aws_Params = [\<lparr>wp_Name = ''user'', wp_Description = '''', wp_Value = ''ann''\<rparr>],
       aws_Tasks = [fetchTask, askTask], aws_Timeout = None, aws_RetryStrategy = None, aws_ServiceAccountName = '''',
       aws_AutomountServiceAccountToken = None\<rparr>,
     awf_Status = \<lparr>awst_Ready = False, awst_WorkflowTemplateName = '''', awst_SpecHash = '''', awst_Conditions = [],
       awst_ObservedGeneration = 0\<rparr>\<rparr>"

definition zeroFloats :: numlib where
  "zeroFloats = \<lparr>nl_float = (\<lambda>n. ''0''), nl_greater = (\<lambda>a b. False), nl_yaml = (\<lambda>j. Inr '''')\<rparr>"

lemma demoWorkflow_admitted: "ValidateCreate demoWorkflow = None"
  by code_simp

lemma zeroFloats_finite: "finiteFloats zeroFloats"
proof -
  have "isValidNumber ''0''" by code_simp
  then show ?thesis by (simp add: finiteFloats_def zeroFloats_def)
qed

lemma demoWorkflow_fresh: "freshNames (aws_Tasks (awf_Spec demoWorkflow))"
  by code_simp

theorem admitted_workflow_compiles_witness:
  "\<exists>wft. compileToArgoWorkflowTemplate zeroFloats (\<lambda>r. '''') ''00-1'' demoWorkflow \<lparr>co_ArtifactIOEnabled = False, co_ArtifactGCStrategy = ''''\<rparr> = Inr wft
     \<and> argoWellFormed wft"
  using admitted_workflow_compiles[OF demoWorkflow_admitted zeroFloats_finite] demoWorkflow_fresh by blast

lemma demo_expr:
  "'' tasks.fetch.output '' \<in> set (findExprs ''sum {{ tasks.fetch.output }}'')"
  "''sum {{ tasks.fetch.output }}'' \<in> set (exprValues askTask)"
  "\<not> hasPrefix (trimSpace '' tasks.fetch.output '') ''=''"
  by code_simp+

theorem translated_references_resolve_witness:
  "\<exists>wft. compileToArgoWorkflowTemplate zeroFloats (\<lambda>r. '''') ''00-1'' demoWorkflow \<lparr>co_ArtifactIOEnabled = False, co_ArtifactGCStrategy = ''''\<rparr> = Inr wft
     \<and> ((\<exists>p \<in> wpar_Name ` set (wft_Arguments wft). translateExpression (trimSpace '' tasks.fetch.output '') = wfParamRef p) \<or>
        (\<exists>t \<in> set (aws_Tasks (awf_Spec demoWorkflow)). \<exists>par.
           readsOutput (translateExpression (trimSpace '' tasks.fetch.output '')) (wt_Name t) par \<and>
           (outputDeclared wft (wt_Name t) par \<longleftrightarrow> \<not> silentTask \<lparr>co_ArtifactIOEnabled = False, co_ArtifactGCStrategy = ''''\<rparr> t)))"
proof -
  let ?o = "\<lparr>co_ArtifactIOEnabled = False, co_ArtifactGCStrategy = ''''\<rparr>"
  have "\<not> isl (compileToArgoWorkflowTemplate zeroFloats (\<lambda>r. '''') ''00-1'' demoWorkflow ?o)" by code_simp
  then obtain wft where w: "compileToArgoWorkflowTemplate zeroFloats (\<lambda>r. '''') ''00-1'' demoWorkflow ?o = Inr wft"
    by (metis sum.collapse(2))
  have "askTask \<in> set (aws_Tasks (awf_Spec demoWorkflow))" by (simp add: demoWorkflow_def)
  from translated_references_resolve[OF demoWorkflow_admitted w this demo_expr(2,1,3)] w show ?thesis by blast
qed

end
