(* ===== verification/PluginSpec.thy ===== *)
theory PluginSpec
  imports WorkflowCompile
begin

text \<open>
  \<open>plugins/a2a/plugin/types.go\<close> and the parsing half of \<open>plugin.go\<close>: what the Argo executor plugin
  reads out of the document the workflow compiler wrote, and the message it builds from it. The JSON decoder is
  \<open>encoding/json\<close> into structs: a key matches a field up to letter case, \<open>null\<close> leaves a field at
  its zero value, unknown keys are ignored and a value of the wrong kind is an error. \<open>metav1.Duration\<close>
  decodes itself and is a parameter.
\<close>

subsection \<open>Decoding into structs\<close>

definition jfield :: "json smap \<Rightarrow> string \<Rightarrow> json option" where
  "jfield kvs k = map_of (rev (map (\<lambda>(a, b). (toLower a, b)) kvs)) (toLower k)"

definition typeError :: "string \<Rightarrow> goerror" where
  "typeError t = Errorf ''json: cannot unmarshal value into Go value of type %s'' [AS t]"

fun decString :: "json \<Rightarrow> string result" where
  "decString (JStr s) = Inr s"
| "decString JNull = Inr ''''"
| "decString _ = Inl (typeError ''string'')"

fun decBool :: "json \<Rightarrow> bool option result" where
  "decBool (JBool b) = Inr (Some b)"
| "decBool JNull = Inr None"
| "decBool _ = Inl (typeError ''bool'')"

fun decList :: "(json \<Rightarrow> 'a result) \<Rightarrow> json \<Rightarrow> 'a list result" where
  "decList f (JArr xs) = mapR f xs"
| "decList f JNull = Inr []"
| "decList f _ = Inl (typeError ''slice'')"

fun decAnyMap :: "numlib \<Rightarrow> json \<Rightarrow> doc result" where
  "decAnyMap nl (JObj kvs) = Inr (map (map_prod id (fromJson nl)) kvs)"
| "decAnyMap nl JNull = Inr []"
| "decAnyMap nl _ = Inl (typeError ''map[string]interface {}'')"

fun decObj :: "(json smap \<Rightarrow> 'a result) \<Rightarrow> json \<Rightarrow> 'a result" where
  "decObj f (JObj kvs) = f kvs"
| "decObj f JNull = f []"
| "decObj f _ = Inl (typeError ''struct'')"

definition decPtr :: "(json \<Rightarrow> 'a result) \<Rightarrow> json \<Rightarrow> 'a option result" where
  "decPtr f j = (if j = JNull then Inr None else bindR (f j) (\<lambda>x. Inr (Some x)))"

definition fieldOr :: "'a \<Rightarrow> (json \<Rightarrow> 'a result) \<Rightarrow> string \<Rightarrow> json smap \<Rightarrow> 'a result" where
  "fieldOr d f k kvs = (case jfield kvs k of None \<Rightarrow> Inr d | Some j \<Rightarrow> f j)"

text \<open>An \<open>int\<close> field: the literal must be an integer.\<close>

fun digitsVal :: "nat \<Rightarrow> string \<Rightarrow> nat option" where
  "digitsVal a [] = Some a"
| "digitsVal a (c # cs) = (if is_digit c then digitsVal (10 * a + (of_char c - 48)) cs else None)"

definition parseInt :: "string \<Rightarrow> int option" where
  "parseInt s = (case s of [] \<Rightarrow> None
     | c # cs \<Rightarrow> if c = CHR ''-'' then (if cs = [] then None else map_option (\<lambda>n. - int n) (digitsVal 0 cs))
                else map_option int (digitsVal 0 s))"

fun decInt :: "json \<Rightarrow> int option result" where
  "decInt (JNum n) = (case parseInt n of Some i \<Rightarrow> Inr (Some i) | None \<Rightarrow> Inl (typeError ''int''))"
| "decInt JNull = Inr None"
| "decInt _ = Inl (typeError ''int'')"

subsection \<open>The plugin's types\<close>

record A2ATextPart =
  a2t_Text :: string
  a2t_Metadata :: doc

record A2ADataPart =
  a2d_Data :: doc
  a2d_Metadata :: doc

record A2AFileContent =
  a2f_Name :: string
  a2f_MimeType :: string
  a2f_Bytes :: string
  a2f_URI :: string

record A2AFilePart =
  a2fp_File :: A2AFileContent
  a2fp_Metadata :: doc

record A2AMessagePart =
  a2p_Text :: "A2ATextPart option"
  a2p_Data :: "A2ADataPart option"
  a2p_File :: "A2AFilePart option"

record A2AMessage =
  a2m_Role :: string
  a2m_Parts :: "A2AMessagePart list"
  a2m_ContextID :: string
  a2m_ReferenceTaskIDs :: "string list"
  a2m_Extensions :: "string list"
  a2m_TaskID :: string
  a2m_Metadata :: doc

record A2APushNotificationAuth =
  a2pa_Schemes :: "string list"
  a2pa_Credentials :: string

record A2APushNotificationConfig =
  a2pc_URL :: string
  a2pc_ID :: string
  a2pc_Token :: string
  a2pc_Authentication :: "A2APushNotificationAuth option"

record A2ASendConfig =
  a2c_AcceptedOutputModes :: "string list"
  a2c_Blocking :: "bool option"
  a2c_HistoryLength :: "int option"
  a2c_PushNotificationConfig :: "A2APushNotificationConfig option"

record A2ASpec =
  a2s_Agent :: string
  a2s_Namespace :: string
  a2s_Message :: A2AMessage
  a2s_Config :: "A2ASendConfig option"
  a2s_Timeout :: "int option"
  a2s_Traceparent :: string

definition DefaultTimeout :: int where "DefaultTimeout = 5 * 60 * 1000000000"
definition DefaultPollInterval :: int where "DefaultPollInterval = 5 * 1000000000"
definition MaxPollErrors :: int where "MaxPollErrors = 5"

definition GetTimeout :: "A2ASpec \<Rightarrow> int" where
  "GetTimeout s = (case a2s_Timeout s of Some d \<Rightarrow> d | None \<Rightarrow> DefaultTimeout)"

subsection \<open>Parsing\<close>

abbreviation fString :: "string \<Rightarrow> json smap \<Rightarrow> string result" where
  "fString \<equiv> fieldOr '''' decString"

abbreviation fStrings :: "string \<Rightarrow> json smap \<Rightarrow> string list result" where
  "fStrings \<equiv> fieldOr [] (decList decString)"

definition decTextPart :: "numlib \<Rightarrow> json \<Rightarrow> A2ATextPart result" where
  "decTextPart nl = decObj (\<lambda>o1. bindR (fString ''text'' o1) (\<lambda>t. bindR (fieldOr [] (decAnyMap nl) ''metadata'' o1) (\<lambda>m.
     Inr \<lparr>a2t_Text = t, a2t_Metadata = m\<rparr>)))"

definition decDataPart :: "numlib \<Rightarrow> json \<Rightarrow> A2ADataPart result" where
  "decDataPart nl = decObj (\<lambda>o1. bindR (fieldOr [] (decAnyMap nl) ''data'' o1) (\<lambda>d. bindR (fieldOr [] (decAnyMap nl) ''metadata'' o1) (\<lambda>m.
     Inr \<lparr>a2d_Data = d, a2d_Metadata = m\<rparr>)))"

definition zeroFile :: A2AFileContent where
  "zeroFile = \<lparr>a2f_Name = '''', a2f_MimeType = '''', a2f_Bytes = '''', a2f_URI = ''''\<rparr>"

definition decFileContent :: "json \<Rightarrow> A2AFileContent result" where
  "decFileContent = decObj (\<lambda>o1. bindR (fString ''name'' o1) (\<lambda>n. bindR (fString ''mimeType'' o1) (\<lambda>mt.
     bindR (fString ''bytes'' o1) (\<lambda>b. bindR (fString ''uri'' o1) (\<lambda>u.
     Inr \<lparr>a2f_Name = n, a2f_MimeType = mt, a2f_Bytes = b, a2f_URI = u\<rparr>)))))"

definition decFilePart :: "numlib \<Rightarrow> json \<Rightarrow> A2AFilePart result" where
  "decFilePart nl = decObj (\<lambda>o1. bindR (fieldOr zeroFile decFileContent ''file'' o1) (\<lambda>f.
     bindR (fieldOr [] (decAnyMap nl) ''metadata'' o1) (\<lambda>m. Inr \<lparr>a2fp_File = f, a2fp_Metadata = m\<rparr>)))"

definition decPart :: "numlib \<Rightarrow> json \<Rightarrow> A2AMessagePart result" where
  "decPart nl = decObj (\<lambda>o1. bindR (fieldOr None (decPtr (decTextPart nl)) ''text'' o1) (\<lambda>t.
     bindR (fieldOr None (decPtr (decDataPart nl)) ''data'' o1) (\<lambda>d.
     bindR (fieldOr None (decPtr (decFilePart nl)) ''file'' o1) (\<lambda>f.
       Inr \<lparr>a2p_Text = t, a2p_Data = d, a2p_File = f\<rparr>))))"

definition zeroMessage :: A2AMessage where
  "zeroMessage = \<lparr>a2m_Role = '''', a2m_Parts = [], a2m_ContextID = '''', a2m_ReferenceTaskIDs = [], a2m_Extensions = [],
     a2m_TaskID = '''', a2m_Metadata = []\<rparr>"

definition decMessage :: "numlib \<Rightarrow> json \<Rightarrow> A2AMessage result" where
  "decMessage nl = decObj (\<lambda>o1. bindR (fString ''role'' o1) (\<lambda>r.
     bindR (fieldOr [] (decList (decPart nl)) ''parts'' o1) (\<lambda>ps.
     bindR (fString ''contextId'' o1) (\<lambda>c.
     bindR (fStrings ''referenceTaskIds'' o1) (\<lambda>rt.
     bindR (fStrings ''extensions'' o1) (\<lambda>ex.
     bindR (fString ''taskId'' o1) (\<lambda>ti.
     bindR (fieldOr [] (decAnyMap nl) ''metadata'' o1) (\<lambda>m.
       Inr \<lparr>a2m_Role = r, a2m_Parts = ps, a2m_ContextID = c, a2m_ReferenceTaskIDs = rt, a2m_Extensions = ex,
            a2m_TaskID = ti, a2m_Metadata = m\<rparr>))))))))"

definition decAuth :: "json \<Rightarrow> A2APushNotificationAuth result" where
  "decAuth = decObj (\<lambda>o1. bindR (fStrings ''schemes'' o1) (\<lambda>s. bindR (fString ''credentials'' o1) (\<lambda>c.
     Inr \<lparr>a2pa_Schemes = s, a2pa_Credentials = c\<rparr>)))"

definition decPush :: "json \<Rightarrow> A2APushNotificationConfig result" where
  "decPush = decObj (\<lambda>o1. bindR (fString ''url'' o1) (\<lambda>u. bindR (fString ''id'' o1) (\<lambda>i. bindR (fString ''token'' o1) (\<lambda>t.
     bindR (fieldOr None (decPtr decAuth) ''authentication'' o1) (\<lambda>a.
     Inr \<lparr>a2pc_URL = u, a2pc_ID = i, a2pc_Token = t, a2pc_Authentication = a\<rparr>)))))"

definition decSendConfig :: "json \<Rightarrow> A2ASendConfig result" where
  "decSendConfig = decObj (\<lambda>o1. bindR (fStrings ''acceptedOutputModes'' o1) (\<lambda>a.
     bindR (fieldOr None decBool ''blocking'' o1) (\<lambda>b. bindR (fieldOr None decInt ''historyLength'' o1) (\<lambda>h.
     bindR (fieldOr None (decPtr decPush) ''pushNotificationConfig'' o1) (\<lambda>p.
     Inr \<lparr>a2c_AcceptedOutputModes = a, a2c_Blocking = b, a2c_HistoryLength = h, a2c_PushNotificationConfig = p\<rparr>)))))"

definition decSpec :: "numlib \<Rightarrow> (json \<Rightarrow> int result) \<Rightarrow> json \<Rightarrow> A2ASpec result" where
  "decSpec nl decDuration = decObj (\<lambda>o1. bindR (fString ''agent'' o1) (\<lambda>a. bindR (fString ''namespace'' o1) (\<lambda>n.
     bindR (fieldOr zeroMessage (decMessage nl) ''message'' o1) (\<lambda>m.
     bindR (fieldOr None (decPtr decSendConfig) ''config'' o1) (\<lambda>c.
     bindR (fieldOr None (decPtr decDuration) ''timeout'' o1) (\<lambda>t.
     bindR (fString ''traceparent'' o1) (\<lambda>tp.
       Inr \<lparr>a2s_Agent = a, a2s_Namespace = n, a2s_Message = m, a2s_Config = c, a2s_Timeout = t, a2s_Traceparent = tp\<rparr>)))))))"

definition parseA2ASpec :: "numlib \<Rightarrow> (json \<Rightarrow> int result) \<Rightarrow> WfTemplate option \<Rightarrow> A2ASpec result" where
  "parseA2ASpec nl decDuration template =
     (case template of
        None \<Rightarrow> Inl (Errorf ''template or plugin is nil'' [])
      | Some tmpl \<Rightarrow>
          (case tmpl_Plugin tmpl of
             None \<Rightarrow> Inl (Errorf ''template or plugin is nil'' [])
           | Some value \<Rightarrow>
               (case decObj Inr value of
                  Inl err \<Rightarrow> Inl (ErrorfW ''failed to unmarshal plugin data: %w'' [] err)
                | Inr pluginData \<Rightarrow>
                    (case mget pluginData ''a2a'' of
                       None \<Rightarrow> Inl (Errorf ''no 'a2a' key found in plugin spec'' [])
                     | Some a2aData \<Rightarrow>
                         (case decSpec nl decDuration a2aData of
                            Inl err \<Rightarrow> Inl (ErrorfW ''failed to unmarshal A2A spec: %w'' [] err)
                          | Inr spec \<Rightarrow>
                              if a2s_Agent spec = '''' then Inl (Errorf ''agent name is required'' [])
                              else if a2m_Parts (a2s_Message spec) = []
                              then Inl (Errorf ''message must have at least one part'' [])
                              else Inr spec)))))"

end
