(* ===== verification/PluginSpecFacts.thy ===== *)
theory PluginSpecFacts
  imports PluginSpec CompilerFacts "HOL-Library.Multiset"
begin

text \<open>
  The document the workflow compiler writes for an agent task, read back by the executor plugin: everything but
  structured data parts survives, and a data part makes the plugin refuse the whole task.
\<close>

subsection \<open>Reading back a marshalled map\<close>

definition canonJ :: "gval \<Rightarrow> json" where
  "canonJ v = (case canon v of Inr j \<Rightarrow> j | Inl _ \<Rightarrow> JNull)"

lemma canonJ_simps [simp]:
  "canonJ (GString s) = JStr s" "canonJ (GBool b) = JBool b" "canonJ (GStrings xs) = JArr (map JStr xs)"
  "canonJ (GInt i) = JNum (dec_int i)"
  by (simp_all add: canonJ_def)

text \<open>Keys of a document: distinct and from a set on which letter case does not matter.\<close>

definition keysIn :: "string set \<Rightarrow> doc \<Rightarrow> bool" where
  "keysIn K d \<longleftrightarrow> distinct (map fst d) \<and> fst ` set d \<subseteq> K"

lemma keysIn_intros:
  "keysIn K []"
  "keysIn K d \<Longrightarrow> k \<in> K \<Longrightarrow> keysIn K (mput k v d)"
  "keysIn K d \<Longrightarrow> k \<in> K \<Longrightarrow> keysIn K (putOpt k f x d)"
  "keysIn K d \<Longrightarrow> k \<in> K \<Longrightarrow> keysIn K (putNonEmpty k g y d)"
  by (auto simp: keysIn_def putOpt_def putNonEmpty_def distinct_update dom_update split: option.split)

lemma keysIn_Cons: "keysIn K ((k, v) # d) \<longleftrightarrow> k \<in> K \<and> k \<notin> fst ` set d \<and> keysIn K d"
  by (auto simp: keysIn_def)

lemma mget_put_same [simp]:
  "mget (putOpt k f x d) k = (case x of None \<Rightarrow> mget d k | Some y \<Rightarrow> Some (f y))"
  "mget (putNonEmpty k g z d) k = (if z = [] then mget d k else Some (g z))"
  by (simp_all add: putOpt_def putNonEmpty_def split: option.split)

lemma map_of_inj_keys:
  assumes "distinct (map fst xs)" "inj_on g (insert k (fst ` set xs))"
  shows "map_of (rev (map (\<lambda>(a, b). (g a, b)) xs)) (g k) = map_of xs k"
proof -
  let ?ys = "rev (map (\<lambda>(a, b). (g a, b)) xs)"
  have "map fst ?ys = rev (map g (map fst xs))" by (simp add: rev_map comp_def case_prod_beta)
  moreover have "inj_on g (set (map fst xs))" using assms(2) by (auto intro: inj_on_subset)
  ultimately have "distinct (map fst ?ys)" using assms(1) by (simp only: distinct_rev distinct_map[of g] simp_thms)
  then have ys: "map_of ?ys (g k) = Some v \<longleftrightarrow> (g k, v) \<in> set ?ys" for v by (rule map_of_eq_Some_iff)
  have "(g k, v) \<in> set ?ys \<longleftrightarrow> (k, v) \<in> set xs" for v
  proof
    assume "(g k, v) \<in> set ?ys"
    then obtain a where a: "(a, v) \<in> set xs" "g a = g k" by force
    then have "a = k" using inj_onD[OF assms(2) a(2)] by force
    then show "(k, v) \<in> set xs" using a by simp
  qed force
  then show ?thesis using ys map_of_eq_Some_iff[OF assms(1), of k] by (metis not_Some_eq)
qed

text \<open>The field of a marshalled map.\<close>

lemma canon_field:
  assumes "canon (GMap d) = Inr j" "keysIn K d" "inj_on toLower K" "k \<in> K"
  shows "\<exists>js. j = JObj js \<and> jfield js k = map_option canonJ (mget d k)"
proof -
  obtain ys where m: "mapR (\<lambda>(k, v). bindR (canon v) (\<lambda>j. Inr (k, j))) d = Inr ys" and j: "j = JObj (sort_key fst ys)"
    using assms(1) by (auto simp: bindR_Inr_conv)
  have ys: "ys = map (\<lambda>(k, v). (k, canonJ v)) d"
    using m by (induction d arbitrary: ys) (auto simp: bindR_Inr_conv canonJ_def)
  have keys: "fst ` set (sort_key fst ys) = fst ` set d" "distinct (map fst (sort_key fst ys))"
  proof -
    show "fst ` set (sort_key fst ys) = fst ` set d" by (simp add: ys image_image case_prod_beta)
    have "mset (map fst (sort_key fst ys)) = mset (map fst d)" by (simp add: ys case_prod_beta comp_def image_mset.compositionality)
    then show "distinct (map fst (sort_key fst ys))" using assms(2) by (metis keysIn_def mset_eq_imp_distinct_iff)
  qed
  have "inj_on toLower (insert k (fst ` set (sort_key fst ys)))"
    by (rule inj_on_subset[OF assms(3)]) (use assms(2,4) keys(1) in \<open>auto simp: keysIn_def\<close>)
  from map_of_inj_keys[OF keys(2) this] have "jfield (sort_key fst ys) k = mget ys k"
    by (simp add: jfield_def map_of_sort_key)
  also have "\<dots> = map_option canonJ (mget d k)" unfolding ys by (induction d) auto
  finally show ?thesis using j by blast
qed

lemma fieldOr_canon:
  assumes "canon (GMap d) = Inr j" "keysIn K d" "inj_on toLower K" "k \<in> K" "j = JObj js"
  shows "fieldOr z f k js = (case mget d k of None \<Rightarrow> Inr z | Some v \<Rightarrow> f (canonJ v))"
  using canon_field[OF assms(1-4)] assms(5) by (auto simp: fieldOr_def split: option.split)

lemma canon_GMap_obj: "canon (GMap d) = Inr j \<Longrightarrow> \<exists>js. j = JObj js"
  by (auto simp: bindR_Inr_conv)

lemma canonJ_GMap: "canon (GMap d) = Inr j \<Longrightarrow> canonJ (GMap d) = j"
  by (simp add: canonJ_def)

lemma canon_inner:
  assumes "canon (GMap d) = Inr j" "(k, v) \<in> set d"
  shows "canon v = Inr (canonJ v)"
proof -
  obtain ys where "mapR (\<lambda>(k, v). bindR (canon v) (\<lambda>j. Inr (k, j))) d = Inr ys"
    using assms(1) by (auto simp: bindR_Inr_conv)
  then have "\<exists>y. canon v = Inr y" using assms(2) by (induction d arbitrary: ys) (auto simp: bindR_Inr_conv)
  then show ?thesis by (auto simp: canonJ_def)
qed

lemma canon_mget: "canon (GMap d) = Inr j \<Longrightarrow> mget d k = Some v \<Longrightarrow> canon v = Inr (canonJ v)"
  by (rule canon_inner) (auto dest: map_of_SomeD)

lemma canonJ_list: "canon (GList xs) = Inr j \<Longrightarrow> j = JArr (map canonJ xs) \<and> (\<forall>x \<in> set xs. canon x = Inr (canonJ x))"
proof -
  assume "canon (GList xs) = Inr j"
  then obtain ys where "mapR canon xs = Inr ys" "j = JArr ys" by (auto simp: bindR_Inr_conv)
  then show ?thesis by (induction xs arbitrary: ys j) (auto simp: bindR_Inr_conv canonJ_def)
qed

lemma decAnyMap_canon: "canon (GMap d) = Inr (canonJ (GMap d)) \<Longrightarrow> \<exists>m. decAnyMap nl (canonJ (GMap d)) = Inr m"
  using canon_GMap_obj by fastforce

lemma decStrings [simp]: "mapR decString (map JStr xs) = Inr xs"
  by (simp add: mapR_map_id)

subsection \<open>Parts\<close>

definition textKeys :: "string set" where "textKeys = {''text'', ''metadata''}"
definition dataKeys :: "string set" where "dataKeys = {''data'', ''metadata''}"
definition filePartKeys :: "string set" where "filePartKeys = {''file'', ''metadata''}"
definition fileKeys :: "string set" where "fileKeys = {''name'', ''mimeType'', ''bytes'', ''uri''}"
definition partKeys :: "string set" where "partKeys = {''text'', ''data'', ''file''}"

lemma case_insensitive_keys:
  "inj_on toLower textKeys" "inj_on toLower dataKeys" "inj_on toLower filePartKeys" "inj_on toLower fileKeys" "inj_on toLower partKeys"
  by (simp_all add: inj_on_def textKeys_def dataKeys_def filePartKeys_def fileKeys_def partKeys_def toLower_def lower_char_def is_upper_def)

lemma withMetadata_mget [simp]:
  "k \<noteq> ''metadata'' \<Longrightarrow> mget (withMetadata nl m d) k = mget d k"
  by (simp add: withMetadata_def)

lemma metadata_decodes:
  assumes "canon (GMap d) = Inr (JObj js)" "keysIn K d" "inj_on toLower K" "''metadata'' \<in> K"
    and "mget d ''metadata'' = None \<or> (\<exists>x. mget d ''metadata'' = Some (GMap x))"
  shows "\<exists>m. fieldOr [] (decAnyMap nl) ''metadata'' js = Inr m"
  using assms(5)
proof
  assume "\<exists>x. mget d ''metadata'' = Some (GMap x)"
  then obtain x where x: "mget d ''metadata'' = Some (GMap x)" by blast
  from decAnyMap_canon[OF canon_mget[OF assms(1) x]] x show ?thesis by (simp add: fieldOr_canon[OF assms(1-4) refl])
qed (simp add: fieldOr_canon[OF assms(1-4) refl])

lemma withMetadata_cases:
  "mget d ''metadata'' = None \<Longrightarrow>
   mget (withMetadata nl m d) ''metadata'' = None \<or> (\<exists>x. mget (withMetadata nl m d) ''metadata'' = Some (GMap x))"
  by (simp add: withMetadata_def)

lemma decTextPart_canon:
  assumes "canon (GMap (withMetadata nl m [(''text'', GString s)])) = Inr j"
  shows "\<exists>q. decTextPart nl j = Inr q \<and> a2t_Text q = s"
proof -
  let ?d = "withMetadata nl m [(''text'', GString s)]"
  obtain js where j: "j = JObj js" using canon_GMap_obj[OF assms] by blast
  have k: "keysIn textKeys ?d" unfolding withMetadata_def by (intro keysIn_intros) (simp_all add: keysIn_def textKeys_def)
  note f = fieldOr_canon[OF assms k case_insensitive_keys(1) _ j]
  have t: "fString ''text'' js = Inr s" by (subst f) (simp_all add: textKeys_def)
  obtain md where "fieldOr [] (decAnyMap nl) ''metadata'' js = Inr md"
    using metadata_decodes[OF assms[unfolded j] k case_insensitive_keys(1) _ withMetadata_cases] by (auto simp: textKeys_def)
  then show ?thesis using j t by (simp add: decTextPart_def)
qed

lemma decDataPart_canon:
  assumes "canon (GMap (withMetadata nl m [(''data'', GString s)])) = Inr j"
  shows "\<exists>e. decDataPart nl j = Inl e"
proof -
  let ?d = "withMetadata nl m [(''data'', GString s)]"
  obtain js where j: "j = JObj js" using canon_GMap_obj[OF assms] by blast
  have k: "keysIn dataKeys ?d" unfolding withMetadata_def by (intro keysIn_intros) (simp_all add: keysIn_def dataKeys_def)
  have "fieldOr [] (decAnyMap nl) ''data'' js = Inl (typeError ''map[string]interface {}'')"
    by (subst fieldOr_canon[OF assms k case_insensitive_keys(2) _ j]) (simp_all add: dataKeys_def)
  then show ?thesis using j by (simp add: decDataPart_def)
qed

definition fileOf :: "FileContent \<Rightarrow> A2AFileContent" where
  "fileOf f = \<lparr>a2f_Name = fc_Name f, a2f_MimeType = fc_MimeType f, a2f_Bytes = fc_Bytes f, a2f_URI = fc_URI f\<rparr>"

definition fileDoc :: "FileContent \<Rightarrow> doc" where
  "fileDoc f = [(''name'', GString (fc_Name f)), (''mimeType'', GString (fc_MimeType f)),
                (''bytes'', GString (fc_Bytes f)), (''uri'', GString (fc_URI f))]"

lemma decFileContent_canon:
  assumes "canon (GMap (fileDoc f)) = Inr j"
  shows "decFileContent j = Inr (fileOf f)"
proof -
  obtain js where j: "j = JObj js" using canon_GMap_obj[OF assms] by blast
  have k: "keysIn fileKeys (fileDoc f)" by (simp add: keysIn_def fileDoc_def fileKeys_def)
  note g = fieldOr_canon[OF assms k case_insensitive_keys(4) _ j]
  have "fString ''name'' js = Inr (fc_Name f)" "fString ''mimeType'' js = Inr (fc_MimeType f)"
    "fString ''bytes'' js = Inr (fc_Bytes f)" "fString ''uri'' js = Inr (fc_URI f)"
    by (subst g, simp add: fileKeys_def, simp add: fileDoc_def)+
  then show ?thesis by (simp add: decFileContent_def j fileOf_def)
qed

lemma decFilePart_canon:
  assumes "canon (GMap (withMetadata nl m [(''file'', GMap (fileDoc f))])) = Inr j"
  shows "\<exists>q. decFilePart nl j = Inr q \<and> a2fp_File q = fileOf f"
proof -
  let ?d = "withMetadata nl m [(''file'', GMap (fileDoc f))]"
  obtain js where j: "j = JObj js" using canon_GMap_obj[OF assms] by blast
  have k: "keysIn filePartKeys ?d" unfolding withMetadata_def by (intro keysIn_intros) (simp_all add: keysIn_def filePartKeys_def)
  have inner: "canon (GMap (fileDoc f)) = Inr (canonJ (GMap (fileDoc f)))"
    by (rule canon_mget[OF assms, of "''file''"]) simp
  have "fieldOr zeroFile decFileContent ''file'' js = Inr (fileOf f)"
    by (subst fieldOr_canon[OF assms k case_insensitive_keys(3) _ j]) (simp_all add: filePartKeys_def decFileContent_canon[OF inner])
  moreover obtain md where "fieldOr [] (decAnyMap nl) ''metadata'' js = Inr md"
    using metadata_decodes[OF assms[unfolded j] k case_insensitive_keys(3) _ withMetadata_cases] by (auto simp: filePartKeys_def)
  ultimately show ?thesis using j by (simp add: decFilePart_def)
qed

text \<open>What a decoded part has to do with the part it came from.\<close>

definition partAgrees :: "MessagePart \<Rightarrow> A2AMessagePart \<Rightarrow> bool" where
  "partAgrees p q \<longleftrightarrow> map_option a2t_Text (a2p_Text q) = map_option txp_Text (mpt_Text p) \<and> a2p_Data q = None \<and>
     map_option a2fp_File (a2p_File q) = map_option (\<lambda>f. fileOf (flp_File f)) (mpt_File p)"

lemma decPtr_canon: "canon (GMap d) = Inr (canonJ (GMap d)) \<Longrightarrow> decPtr f (canonJ (GMap d)) = bindR (f (canonJ (GMap d))) (\<lambda>x. Inr (Some x))"
  using canon_GMap_obj[of d] by (auto simp: decPtr_def)

text \<open>An optional sub-object, decoded into a pointer field.\<close>

lemma fieldOr_ptr:
  assumes c: "canon (GMap d) = Inr j" and K: "keysIn K d" "inj_on toLower K" "key \<in> K" "j = JObj js"
    and g: "mget d key = map_option (\<lambda>x. GMap (h x)) y"
  shows "fieldOr None (decPtr f) key js = (case y of None \<Rightarrow> Inr None | Some x \<Rightarrow> bindR (f (canonJ (GMap (h x)))) (\<lambda>z. Inr (Some z)))"
    and "y = Some x \<Longrightarrow> canon (GMap (h x)) = Inr (canonJ (GMap (h x)))"
proof -
  have i: "canon (GMap (h x)) = Inr (canonJ (GMap (h x)))" if "y = Some x" for x
    by (rule canon_mget[OF c, of key]) (simp add: g that)
  then show "y = Some x \<Longrightarrow> canon (GMap (h x)) = Inr (canonJ (GMap (h x)))" .
  show "fieldOr None (decPtr f) key js = (case y of None \<Rightarrow> Inr None | Some x \<Rightarrow> bindR (f (canonJ (GMap (h x)))) (\<lambda>z. Inr (Some z)))"
    by (subst fieldOr_canon[OF c K]) (simp add: g decPtr_canon[OF i] split: option.split)
qed

lemma decPart_canon:
  assumes c: "canon (GMap (buildPluginPart nl b64 p)) = Inr j"
  shows "if mpt_Data p = None then \<exists>q. decPart nl j = Inr q \<and> partAgrees p q else \<exists>e. decPart nl j = Inl e"
proof -
  let ?d = "buildPluginPart nl b64 p"
  let ?t = "\<lambda>t. withMetadata nl (txp_Metadata t) [(''text'', GString (txp_Text t))]"
  let ?x = "\<lambda>d. withMetadata nl (dtp_Metadata d) [(''data'', GString (b64 (dtp_Data d)))]"
  let ?f = "\<lambda>f. withMetadata nl (flp_Metadata f) [(''file'', GMap (fileDoc (flp_File f)))]"
  obtain js where j: "j = JObj js" using canon_GMap_obj[OF c] by blast
  have k: "keysIn partKeys ?d" unfolding buildPluginPart_def Let_def by (intro keysIn_intros) (simp_all add: partKeys_def)
  have get: "mget ?d ''text'' = map_option (\<lambda>t. GMap (?t t)) (mpt_Text p)" "mget ?d ''data'' = map_option (\<lambda>d. GMap (?x d)) (mpt_Data p)"
    "mget ?d ''file'' = map_option (\<lambda>f. GMap (?f f)) (mpt_File p)"
    by (simp_all add: buildPluginPart_def Let_def fileDoc_def split: option.split)
  have in_keys: "''text'' \<in> partKeys" "''data'' \<in> partKeys" "''file'' \<in> partKeys" by (simp_all add: partKeys_def)
  note ptr = fieldOr_ptr[OF c k case_insensitive_keys(5) _ j]
  obtain t where t: "fieldOr None (decPtr (decTextPart nl)) ''text'' js = Inr t" "map_option a2t_Text t = map_option txp_Text (mpt_Text p)"
    using decTextPart_canon[OF ptr(2)[OF in_keys(1) get(1)]]
    by (cases "mpt_Text p") (force simp: ptr(1)[OF in_keys(1) get(1)])+
  obtain f where f: "fieldOr None (decPtr (decFilePart nl)) ''file'' js = Inr f"
    "map_option a2fp_File f = map_option (\<lambda>f. fileOf (flp_File f)) (mpt_File p)"
    using decFilePart_canon[OF ptr(2)[OF in_keys(3) get(3)]]
    by (cases "mpt_File p") (force simp: ptr(1)[OF in_keys(3) get(3)])+
  show ?thesis
  proof (cases "mpt_Data p")
    case None
    then show ?thesis using t f ptr(1)[OF in_keys(2) get(2), of "decDataPart nl"] by (simp add: decPart_def j partAgrees_def)
  next
    case (Some x)
    obtain e where "decDataPart nl (canonJ (GMap (?x x))) = Inl e"
      using decDataPart_canon[OF ptr(2)[OF in_keys(2) get(2) Some]] by blast
    then show ?thesis using Some t ptr(1)[OF in_keys(2) get(2), of "decDataPart nl"] by (simp add: decPart_def j)
  qed
qed

lemma mapR_some_Inl: "x \<in> set xs \<Longrightarrow> f x = Inl e \<Longrightarrow> \<exists>e'. mapR f xs = Inl e'"
  by (induction xs) (auto simp: bindR_def split: sum.splits)

lemma decParts_canon:
  assumes c: "canon (GList (map (\<lambda>p. GMap (buildPluginPart nl b64 p)) ps)) = Inr j"
  shows "if list_all (\<lambda>p. mpt_Data p = None) ps then \<exists>qs. decList (decPart nl) j = Inr qs \<and> list_all2 partAgrees ps qs
         else \<exists>e. decList (decPart nl) j = Inl e"
proof -
  let ?g = "\<lambda>p. GMap (buildPluginPart nl b64 p)"
  have j: "j = JArr (map (canonJ \<circ> ?g) ps)" and ok: "\<And>p. p \<in> set ps \<Longrightarrow> canon (?g p) = Inr (canonJ (?g p))"
    using canonJ_list[OF c] by auto
  note part = decPart_canon[OF ok]
  show ?thesis
  proof (cases "list_all (\<lambda>p. mpt_Data p = None) ps")
    case True
    then have "\<forall>p \<in> set ps. \<exists>q. decPart nl (canonJ (?g p)) = Inr q \<and> partAgrees p q"
      using part by (auto simp: list_all_iff split: if_splits)
    then obtain h where h: "\<And>p. p \<in> set ps \<Longrightarrow> decPart nl (canonJ (?g p)) = Inr (h p) \<and> partAgrees p (h p)" by metis
    then have "mapR (decPart nl) (map (canonJ \<circ> ?g) ps) = Inr (map h ps)" by (induction ps) auto
    moreover have "list_all2 partAgrees ps (map h ps)" using h by (simp add: list_all2_conv_all_nth)
    ultimately show ?thesis using True j by auto
  next
    case False
    then obtain p e where "p \<in> set ps" "decPart nl (canonJ (?g p)) = Inl e"
      using part by (fastforce simp: list_all_iff)
    then have "\<exists>e'. mapR (decPart nl) (map (canonJ \<circ> ?g) ps) = Inl e'" by (intro mapR_some_Inl[of "canonJ (?g p)"]) auto
    then show ?thesis using False j by auto
  qed
qed

subsection \<open>Messages and configurations\<close>

definition messageKeys :: "string set" where
  "messageKeys = {''role'', ''parts'', ''contextId'', ''referenceTaskIds'', ''extensions'', ''taskId'', ''metadata''}"

definition authKeys :: "string set" where "authKeys = {''schemes'', ''credentials''}"
definition pushKeys :: "string set" where "pushKeys = {''url'', ''id'', ''token'', ''authentication''}"
definition configKeys :: "string set" where
  "configKeys = {''acceptedOutputModes'', ''blocking'', ''historyLength'', ''pushNotificationConfig''}"
definition specKeys :: "string set" where
  "specKeys = {''agent'', ''message'', ''traceparent'', ''namespace'', ''config'', ''timeout''}"

lemma case_insensitive_keys2:
  "inj_on toLower messageKeys" "inj_on toLower authKeys" "inj_on toLower pushKeys" "inj_on toLower configKeys" "inj_on toLower specKeys"
  by (simp_all add: inj_on_def messageKeys_def authKeys_def pushKeys_def configKeys_def specKeys_def
      toLower_def lower_char_def is_upper_def)

lemma decMessage_canon:
  assumes c: "canon (GMap (buildPluginMessage nl b64 msg)) = Inr j"
  shows "if list_all (\<lambda>p. mpt_Data p = None) (am_Parts msg)
         then \<exists>q. decMessage nl j = Inr q \<and> list_all2 partAgrees (am_Parts msg) (a2m_Parts q) \<and>
                a2m_Role q = roleText (am_Role msg) \<and> a2m_ContextID q = am_ContextID msg \<and>
                a2m_ReferenceTaskIDs q = am_ReferenceTaskIDs msg \<and> a2m_Extensions q = am_Extensions msg \<and> a2m_TaskID q = am_TaskID msg
         else \<exists>e. decMessage nl j = Inl e"
proof -
  let ?d = "buildPluginMessage nl b64 msg" and ?ps = "GList (map (\<lambda>p. GMap (buildPluginPart nl b64 p)) (am_Parts msg))"
  obtain js where j: "j = JObj js" using canon_GMap_obj[OF c] by blast
  have k: "keysIn messageKeys ?d" unfolding buildPluginMessage_def Let_def by (intro keysIn_intros) (simp_all add: messageKeys_def)
  note g = fieldOr_canon[OF c k case_insensitive_keys2(1) _ j]
  have parts: "mget ?d ''parts'' = Some ?ps" by (simp add: buildPluginMessage_def Let_def)
  have ps: "fieldOr [] (decList (decPart nl)) ''parts'' js = decList (decPart nl) (canonJ ?ps)"
    by (subst g) (simp_all add: messageKeys_def parts)
  have scalars: "fString ''role'' js = Inr (roleText (am_Role msg))" "fString ''contextId'' js = Inr (am_ContextID msg)"
    "fStrings ''referenceTaskIds'' js = Inr (am_ReferenceTaskIDs msg)" "fStrings ''extensions'' js = Inr (am_Extensions msg)"
    "fString ''taskId'' js = Inr (am_TaskID msg)"
    by (subst g, simp add: messageKeys_def, simp add: buildPluginMessage_def Let_def)+
  have "mget ?d ''metadata'' = None \<or> (\<exists>x. mget ?d ''metadata'' = Some (GMap x))" by (simp add: buildPluginMessage_def Let_def)
  then obtain md where "fieldOr [] (decAnyMap nl) ''metadata'' js = Inr md"
    using metadata_decodes[OF c[unfolded j] k case_insensitive_keys2(1)] by (auto simp: messageKeys_def)
  note fields = scalars this ps j
  show ?thesis using decParts_canon[OF canon_mget[OF c parts]] by (auto simp: decMessage_def fields split: if_splits)
qed

lemma digitsVal_snoc:
  "digitsVal a (xs @ [c]) = (case digitsVal a xs of None \<Rightarrow> None | Some v \<Rightarrow> if is_digit c then Some (10 * v + (of_char c - 48)) else None)"
  by (induction xs arbitrary: a) auto

lemma digit_char_val: "d < 10 \<Longrightarrow> is_digit (digit_char d) \<and> (of_char (digit_char d) :: nat) = 48 + d"
  by (auto simp: digit_char_def is_digit_def of_char_of)

lemma digitsVal_dec_nat: "digitsVal 0 (dec_nat n) = Some n"
proof (induction n rule: dec_nat.induct)
  case (1 n)
  show ?case
  proof (cases "n < 10")
    case True
    then show ?thesis using digit_char_val[of n] by (simp add: dec_nat.simps[of n])
  next
    case False
    then show ?thesis using 1 digit_char_val[of "n mod 10"] by (simp add: dec_nat.simps[of n] digitsVal_snoc)
  qed
qed

lemma dec_nat_head: "\<exists>c cs. dec_nat n = c # cs \<and> c \<noteq> CHR ''-''"
proof -
  have "dec_nat n \<noteq> []" by (subst dec_nat.simps) simp
  then obtain c cs where c: "dec_nat n = c # cs" by (cases "dec_nat n") auto
  have "digitsVal 0 (c # cs) = Some n" using digitsVal_dec_nat[of n] c by simp
  then have "c \<noteq> CHR ''-''" by (auto simp: is_digit_def split: if_splits)
  then show ?thesis using c by blast
qed

lemma parseInt_dec_int: "parseInt (dec_int i) = Some i"
  using dec_nat_head[of "nat i"] dec_nat_head[of "nat (- i)"] digitsVal_dec_nat[of "nat i"] digitsVal_dec_nat[of "nat (- i)"]
  by (cases "i < 0") (auto simp: parseInt_def dec_int_def)

definition authOf :: "PushNotificationAuth \<Rightarrow> A2APushNotificationAuth" where
  "authOf a = \<lparr>a2pa_Schemes = pna_Schemes a, a2pa_Credentials = pna_Credentials a\<rparr>"

definition pushOf :: "PushNotificationConfig \<Rightarrow> A2APushNotificationConfig" where
  "pushOf p = \<lparr>a2pc_URL = pnc_URL p, a2pc_ID = pnc_ID p, a2pc_Token = pnc_Token p,
     a2pc_Authentication = map_option authOf (pnc_Authentication p)\<rparr>"

definition configOf :: "MessageSendConfig \<Rightarrow> A2ASendConfig" where
  "configOf c = \<lparr>a2c_AcceptedOutputModes = msc_AcceptedOutputModes c, a2c_Blocking = msc_Blocking c,
     a2c_HistoryLength = msc_HistoryLength c, a2c_PushNotificationConfig = map_option pushOf (msc_PushNotificationConfig c)\<rparr>"

lemma decAuth_canon:
  assumes c: "canon (GMap [(''schemes'', GStrings (pna_Schemes a)), (''credentials'', GString (pna_Credentials a))]) = Inr j"
  shows "decAuth j = Inr (authOf a)"
proof -
  obtain js where j: "j = JObj js" using canon_GMap_obj[OF c] by blast
  note g = fieldOr_canon[OF c _ case_insensitive_keys2(2) _ j]
  have "fStrings ''schemes'' js = Inr (pna_Schemes a)" "fString ''credentials'' js = Inr (pna_Credentials a)"
    by (subst g, simp add: keysIn_def authKeys_def, simp add: authKeys_def, simp)+
  then show ?thesis by (simp add: decAuth_def j authOf_def)
qed

lemma decPush_canon:
  assumes c: "canon (GMap (pushDoc p)) = Inr j"
  shows "decPush j = Inr (pushOf p)"
proof -
  obtain js where j: "j = JObj js" using canon_GMap_obj[OF c] by blast
  have k: "keysIn pushKeys (pushDoc p)" unfolding pushDoc_def Let_def
    by (intro keysIn_intros) (simp_all add: keysIn_def pushKeys_def)
  note g = fieldOr_canon[OF c k case_insensitive_keys2(3) _ j]
  have s: "fString ''url'' js = Inr (pnc_URL p)" "fString ''id'' js = Inr (pnc_ID p)" "fString ''token'' js = Inr (pnc_Token p)"
    by (subst g, simp add: pushKeys_def, simp add: pushDoc_def Let_def)+
  have a: "mget (pushDoc p) ''authentication'' = map_option (\<lambda>a. GMap [(''schemes'', GStrings (pna_Schemes a)),
      (''credentials'', GString (pna_Credentials a))]) (pnc_Authentication p)"
    by (simp add: pushDoc_def Let_def split: option.split)
  have "''authentication'' \<in> pushKeys" by (simp add: pushKeys_def)
  note ptr = fieldOr_ptr[OF c k case_insensitive_keys2(3) this j a]
  have "fieldOr None (decPtr decAuth) ''authentication'' js = Inr (map_option authOf (pnc_Authentication p))"
    using decAuth_canon[OF ptr(2)] by (simp add: ptr(1) split: option.split)
  then show ?thesis by (simp add: decPush_def j s pushOf_def)
qed

lemma decSendConfig_canon:
  assumes c: "canon (GMap (buildPluginSendConfig cfg)) = Inr j"
  shows "decSendConfig j = Inr (configOf cfg)"
proof -
  obtain js where j: "j = JObj js" using canon_GMap_obj[OF c] by blast
  have k: "keysIn configKeys (buildPluginSendConfig cfg)" unfolding buildPluginSendConfig_def Let_def
    by (intro keysIn_intros) (simp_all add: configKeys_def)
  note g = fieldOr_canon[OF c k case_insensitive_keys2(4) _ j]
  have s: "fStrings ''acceptedOutputModes'' js = Inr (msc_AcceptedOutputModes cfg)"
    "fieldOr None decBool ''blocking'' js = Inr (msc_Blocking cfg)"
    "fieldOr None decInt ''historyLength'' js = Inr (msc_HistoryLength cfg)"
    by (subst g, simp add: configKeys_def, simp add: buildPluginSendConfig_def Let_def parseInt_dec_int split: option.split)+
  have a: "mget (buildPluginSendConfig cfg) ''pushNotificationConfig'' = map_option (\<lambda>p. GMap (pushDoc p)) (msc_PushNotificationConfig cfg)"
    by (simp add: buildPluginSendConfig_def Let_def split: option.split)
  have "''pushNotificationConfig'' \<in> configKeys" by (simp add: configKeys_def)
  note ptr = fieldOr_ptr[OF c k case_insensitive_keys2(4) this j a]
  have "fieldOr None (decPtr decPush) ''pushNotificationConfig'' js = Inr (map_option pushOf (msc_PushNotificationConfig cfg))"
    using decPush_canon[OF ptr(2)] by (simp add: ptr(1) split: option.split)
  then show ?thesis by (simp add: decSendConfig_def j s configOf_def)
qed

subsection \<open>The plugin reads what the compiler wrote, except data parts\<close>

definition dataFree :: "AgentCall \<Rightarrow> bool" where
  "dataFree a \<longleftrightarrow> list_all (\<lambda>p. mpt_Data p = None) (am_Parts (callMessage a))"

text \<open>The parsed task carries the agent, namespace, configuration and message of the call, with text parts translated.\<close>

definition specAgrees :: "AgentCall \<Rightarrow> A2ASpec \<Rightarrow> bool" where
  "specAgrees a spec \<longleftrightarrow>
     a2s_Agent spec = ac_Name a \<and> a2s_Namespace spec = ac_Namespace a \<and>
     a2s_Config spec = map_option configOf (ac_Config a) \<and> GetTimeout spec = DefaultTimeout \<and>
     a2s_Traceparent spec = wfParamRef traceparentWorkflowParam \<and>
     list_all2 partAgrees (am_Parts (translateAgentMessage (callMessage a))) (a2m_Parts (a2s_Message spec)) \<and>
     a2m_Role (a2s_Message spec) = roleText (am_Role (callMessage a)) \<and>
     a2m_ContextID (a2s_Message spec) = am_ContextID (callMessage a) \<and>
     a2m_ReferenceTaskIDs (a2s_Message spec) = am_ReferenceTaskIDs (callMessage a) \<and>
     a2m_Extensions (a2s_Message spec) = am_Extensions (callMessage a) \<and>
     a2m_TaskID (a2s_Message spec) = am_TaskID (callMessage a)"

lemma translate_message [simp]:
  "am_Role (translateAgentMessage m) = am_Role m" "am_ContextID (translateAgentMessage m) = am_ContextID m"
  "am_ReferenceTaskIDs (translateAgentMessage m) = am_ReferenceTaskIDs m" "am_Extensions (translateAgentMessage m) = am_Extensions m"
  "am_TaskID (translateAgentMessage m) = am_TaskID m"
  "list_all (\<lambda>p. mpt_Data p = None) (am_Parts (translateAgentMessage m)) = list_all (\<lambda>p. mpt_Data p = None) (am_Parts m)"
  "(am_Parts (translateAgentMessage m) = []) = (am_Parts m = [])"
  by (simp_all add: translateAgentMessage_def list_all_iff)

lemma decSpec_canon:
  assumes c: "canon (GMap (a2aSpecDoc nl b64 a)) = Inr j"
  shows "if dataFree a then \<exists>spec. decSpec nl dd j = Inr spec \<and> specAgrees a spec else \<exists>e. decSpec nl dd j = Inl e"
proof -
  let ?m = "GMap (buildPluginMessage nl b64 (translateAgentMessage (callMessage a)))"
  obtain js where j: "j = JObj js" using canon_GMap_obj[OF c] by blast
  have k: "keysIn specKeys (a2aSpecDoc nl b64 a)" unfolding a2aSpecDoc_def Let_def
    by (intro keysIn_intros) (simp_all add: keysIn_def specKeys_def)
  note g = fieldOr_canon[OF c k case_insensitive_keys2(5) _ j]
  have get: "mget (a2aSpecDoc nl b64 a) ''message'' = Some ?m"
    "mget (a2aSpecDoc nl b64 a) ''config'' = map_option (\<lambda>x. GMap (buildPluginSendConfig x)) (ac_Config a)"
    by (simp_all add: a2aSpecDoc_def Let_def split: option.split)
  have s: "fString ''agent'' js = Inr (ac_Name a)" "fString ''namespace'' js = Inr (ac_Namespace a)"
    "fString ''traceparent'' js = Inr (wfParamRef traceparentWorkflowParam)"
    "fieldOr None (decPtr dd) ''timeout'' js = Inr None"
    by (subst g, simp add: specKeys_def, simp add: a2aSpecDoc_def Let_def)+
  have m: "fieldOr zeroMessage (decMessage nl) ''message'' js = decMessage nl (canonJ ?m)"
    by (subst g) (simp_all add: specKeys_def get)
  have "''config'' \<in> specKeys" by (simp add: specKeys_def)
  note ptr = fieldOr_ptr[OF c k case_insensitive_keys2(5) this j get(2)]
  have cfg: "fieldOr None (decPtr decSendConfig) ''config'' js = Inr (map_option configOf (ac_Config a))"
    using decSendConfig_canon[OF ptr(2)] by (simp add: ptr(1) split: option.split)
  show ?thesis using decMessage_canon[OF canon_mget[OF c get(1)]]
    by (auto simp: decSpec_def j s m cfg dataFree_def specAgrees_def GetTimeout_def split: if_splits)
qed

lemma parse_compiled:
  assumes b: "buildAgentTemplate nl b64 a tmpl0 = Inr tmpl" and "ac_Name a \<noteq> ''''" "am_Parts (callMessage a) \<noteq> []"
  shows "if dataFree a then \<exists>spec. parseA2ASpec nl dd (Some tmpl) = Inr spec \<and> specAgrees a spec
         else \<exists>e. parseA2ASpec nl dd (Some tmpl) = Inl (ErrorfW ''failed to unmarshal A2A spec: %w'' [] e)"
proof -
  let ?d = "a2aSpecDoc nl b64 a"
  obtain pj where c: "canon (GMap [(a2aPluginKey, GMap ?d)]) = Inr pj" and t: "tmpl_Plugin tmpl = Some pj"
    using b by (auto simp: buildAgentTemplate_def split: sum.splits)
  have i: "canon (GMap ?d) = Inr (canonJ (GMap ?d))" by (rule canon_mget[OF c, of a2aPluginKey]) simp
  have pj: "pj = JObj [(''a2a'', canonJ (GMap ?d))]" using c i by (auto simp: a2aPluginKey_def bindR_Inr_conv)
  have ne: "a2m_Parts (a2s_Message spec) \<noteq> []" "a2s_Agent spec \<noteq> ''''" if "specAgrees a spec" for spec
    using that assms(2,3) by (auto simp: specAgrees_def)
  show ?thesis using decSpec_canon[OF i, of dd] ne by (auto simp: parseA2ASpec_def t pj split: if_splits)
qed

text \<open>C33. An agent task written by the workflow compiler is read back by the executor plugin with its agent, namespace, send
  configuration, message header and text and file parts intact, unless some part carries structured data: the compiler
  writes the raw bytes, which marshal to a string, where the plugin expects an object, so the plugin then
  always refuses the task.\<close>

theorem plugin_reads_compiled_task:
  assumes "buildAgentTemplate nl b64 a tmpl0 = Inr tmpl" and "ac_Name a \<noteq> ''''" and "am_Parts (callMessage a) \<noteq> []"
  shows "if dataFree a then \<exists>spec. parseA2ASpec nl dd (Some tmpl) = Inr spec \<and> specAgrees a spec
         else \<exists>e. parseA2ASpec nl dd (Some tmpl) = Inl (ErrorfW ''failed to unmarshal A2A spec: %w'' [] e)"
  by (rule parse_compiled[OF assms])

definition dataCall :: AgentCall where
  "dataCall = \<lparr>ac_Name = ''writer'', ac_Namespace = '''', ac_Text = '''',
     ac_Message = Some \<lparr>am_Role = MessageRoleUser, am_Parts = [\<lparr>mpt_Text = None,
         mpt_Data = Some \<lparr>dtp_Data = Raw (JObj [(''x'', JNum ''1'')]), dtp_Metadata = []\<rparr>, mpt_File = None\<rparr>],
       am_ContextID = '''', am_ReferenceTaskIDs = [], am_Extensions = [], am_TaskID = '''', am_Metadata = []\<rparr>,
     ac_Config = None\<rparr>"

theorem plugin_reads_compiled_task_witness:
  "\<exists>tmpl e. buildAgentTemplate zeroFloats (\<lambda>r. ''eyJ4IjoxfQ=='') dataCall (emptyTemplate ''t'') = Inr tmpl \<and>
     parseA2ASpec zeroFloats (\<lambda>j. Inr 0) (Some tmpl) = Inl (ErrorfW ''failed to unmarshal A2A spec: %w'' [] e)"
proof -
  have "\<not> isl (buildAgentTemplate zeroFloats (\<lambda>r. ''eyJ4IjoxfQ=='') dataCall (emptyTemplate ''t''))" by code_simp
  then obtain tmpl where t: "buildAgentTemplate zeroFloats (\<lambda>r. ''eyJ4IjoxfQ=='') dataCall (emptyTemplate ''t'') = Inr tmpl"
    by (metis sum.collapse(2))
  moreover have "\<not> dataFree dataCall" by (simp add: dataFree_def callMessage_def dataCall_def)
  ultimately show ?thesis using plugin_reads_compiled_task[OF t, of "\<lambda>j. Inr 0"]
    by (simp add: dataCall_def callMessage_def)
qed

end
