(* ===== verification/PluginStore.thy ===== *)
theory PluginStore
  imports PluginSpecFacts Repo
begin

text \<open>
  \<open>plugins/a2a/plugin/store.go\<close> and the progress state of \<open>types.go\<close>: the executor plugin remembers
  the A2A task it started for a workflow step in a cache that it writes through to one ConfigMap, and reads back when
  it starts. Times are nanoseconds since the epoch. The text half of \<open>encoding/json\<close> and of
  \<open>time.Time\<close> (printing and reading a JSON document, printing and reading a timestamp) is a parameter; the
  field layout of the document is modelled. A \<open>sync.Map\<close> is an association list whose order stands for an arbitrary
  order of \<open>Range\<close>.
\<close>

record ProgressState =
  ps_TaskID :: string
  ps_ContextID :: string
  ps_Endpoint :: string
  ps_StartTime :: int
  ps_Timeout :: int
  ps_PollErrors :: int

record textcodec =
  tc_print :: "json \<Rightarrow> string"
  tc_parse :: "string \<Rightarrow> json result"
  tc_fmtTime :: "int \<Rightarrow> string result"
  tc_parseTime :: "string \<Rightarrow> int result"

text \<open>The zero \<open>time.Time\<close>, January 1 of year 1.\<close>

definition zeroTime :: int where "zeroTime = - 62135596800 * 1000000000"

definition encProgress :: "textcodec \<Rightarrow> ProgressState \<Rightarrow> json result" where
  "encProgress tc s =
     bindR (tc_fmtTime tc (ps_StartTime s)) (\<lambda>t.
       Inr (JObj ([(''taskId'', JStr (ps_TaskID s))] @
         (if ps_ContextID s \<noteq> '''' then [(''contextId'', JStr (ps_ContextID s))] else []) @
         [(''endpoint'', JStr (ps_Endpoint s)), (''startTime'', JStr t), (''timeout'', JNum (dec_int (ps_Timeout s)))] @
         (if ps_PollErrors s \<noteq> 0 then [(''pollErrors'', JNum (dec_int (ps_PollErrors s)))] else []))))"

fun decTime :: "textcodec \<Rightarrow> json \<Rightarrow> int result" where
  "decTime tc JNull = Inr zeroTime"
| "decTime tc (JStr s) = tc_parseTime tc s"
| "decTime tc _ = Inl (Errorf ''Time.UnmarshalJSON: input is not a JSON string'' [])"

definition decIntOr0 :: "json \<Rightarrow> int result" where
  "decIntOr0 j = bindR (decInt j) (\<lambda>i. Inr (case i of None \<Rightarrow> 0 | Some n \<Rightarrow> n))"

definition decProgress :: "textcodec \<Rightarrow> json \<Rightarrow> ProgressState result" where
  "decProgress tc = decObj (\<lambda>o1. bindR (fString ''taskId'' o1) (\<lambda>i. bindR (fString ''contextId'' o1) (\<lambda>c.
     bindR (fString ''endpoint'' o1) (\<lambda>e. bindR (fieldOr zeroTime (decTime tc) ''startTime'' o1) (\<lambda>st.
     bindR (fieldOr 0 decIntOr0 ''timeout'' o1) (\<lambda>t. bindR (fieldOr 0 decIntOr0 ''pollErrors'' o1) (\<lambda>p.
       Inr \<lparr>ps_TaskID = i, ps_ContextID = c, ps_Endpoint = e, ps_StartTime = st, ps_Timeout = t, ps_PollErrors = p\<rparr>)))))))"

definition marshalState :: "textcodec \<Rightarrow> ProgressState \<Rightarrow> string result" where
  "marshalState tc s = bindR (encProgress tc s) (\<lambda>j. Inr (tc_print tc j))"

definition unmarshalState :: "textcodec \<Rightarrow> string \<Rightarrow> ProgressState result" where
  "unmarshalState tc b = bindR (tc_parse tc b) (decProgress tc)"

text \<open>\<open>MarshalProgress\<close> drops the error; \<open>UnmarshalProgress\<close> of the empty string is no state.\<close>

definition MarshalProgress :: "textcodec \<Rightarrow> ProgressState \<Rightarrow> string" where
  "MarshalProgress tc s = (case marshalState tc s of Inl _ \<Rightarrow> '''' | Inr b \<Rightarrow> b)"

definition UnmarshalProgress :: "textcodec \<Rightarrow> string \<Rightarrow> ProgressState option result" where
  "UnmarshalProgress tc progress =
     (if progress = '''' then Inr None else bindR (unmarshalState tc progress) (\<lambda>s. Inr (Some s)))"

text \<open>\<open>time.Since\<close> saturates at the range of \<open>time.Duration\<close>.\<close>

definition timeSince :: "int \<Rightarrow> int \<Rightarrow> int" where
  "timeSince now t = max (- (2 ^ 63)) (min (2 ^ 63 - 1) (now - t))"

definition IsTimedOut :: "int \<Rightarrow> ProgressState \<Rightarrow> bool" where
  "IsTimedOut now s = (ps_Timeout s < timeSince now (ps_StartTime s))"

subsection \<open>The store\<close>

definition stateConfigMapName :: string where "stateConfigMapName = ''flokoa-a2a-plugin-state''"
definition stateConfigMapLabel :: string where "stateConfigMapLabel = ''flokoa.ai/component''"
definition stateConfigMapValue :: string where "stateConfigMapValue = ''a2a-plugin-state''"

definition cmKey :: "string \<Rightarrow> string" where
  "cmKey key = replaceAllChar (CHR ''/'') ''_'' key"

definition cmKeyToTaskKey :: "string \<Rightarrow> string" where
  "cmKeyToTaskKey k = replaceFirstChar (CHR ''_'') ''/'' k"

record 'w StateStore =
  sst_cache :: "ProgressState smap"
  sst_k8sClient :: "('w, ConfigMap) kclient option"
  sst_namespace :: string

definition stateKey :: "string \<Rightarrow> NamespacedName" where
  "stateKey ns = \<lparr>nn_Name = stateConfigMapName, nn_Namespace = ns\<rparr>"

definition loadFromConfigMap :: "textcodec \<Rightarrow> ('w, ConfigMap) kclient \<Rightarrow> string \<Rightarrow> 'w \<Rightarrow> ProgressState smap" where
  "loadFromConfigMap tc kc ns w =
     (case kc_Get kc (stateKey ns) w of
        Inl err \<Rightarrow> []
      | Inr cm \<Rightarrow> fold (\<lambda>(k, v) cache. case unmarshalState tc v of
                          Inl err \<Rightarrow> cache
                        | Inr state \<Rightarrow> mput (cmKeyToTaskKey k) state cache) (cm_Data cm) [])"

definition NewStateStore :: "textcodec \<Rightarrow> ('w, ConfigMap) kclient option \<Rightarrow> string \<Rightarrow> 'w \<Rightarrow> 'w StateStore" where
  "NewStateStore tc k8sClient ns w =
     \<lparr>sst_cache = (case k8sClient of None \<Rightarrow> [] | Some kc \<Rightarrow> if ns = '''' then [] else loadFromConfigMap tc kc ns w),
      sst_k8sClient = k8sClient, sst_namespace = ns\<rparr>"

definition cacheData :: "textcodec \<Rightarrow> ProgressState smap \<Rightarrow> string smap" where
  "cacheData tc cache =
     fold (\<lambda>(k, state) data. case marshalState tc state of Inl err \<Rightarrow> data | Inr b \<Rightarrow> mput (cmKey k) b data) cache []"

definition stateConfigMap :: "string \<Rightarrow> string smap \<Rightarrow> ConfigMap" where
  "stateConfigMap ns data = \<lparr>cm_Meta = objectMeta stateConfigMapName ns [(stateConfigMapLabel, stateConfigMapValue)] [], cm_Data = data\<rparr>"

text \<open>The write behind \<open>syncToConfigMap\<close>, with the error it only logs.\<close>

definition syncWrite :: "textcodec \<Rightarrow> ('w, ConfigMap) kclient \<Rightarrow> string \<Rightarrow> ProgressState smap \<Rightarrow> 'w \<Rightarrow> goerror option \<times> 'w" where
  "syncWrite tc kc ns cache w =
     (let data = cacheData tc cache in
      case kc_Get kc (stateKey ns) w of
        Inl err \<Rightarrow>
          if \<not> apierrors_IsNotFound err then (Some err, w)
          else (case kc_Create kc (stateConfigMap ns data) w of (Inl e, w1) \<Rightarrow> (Some e, w1) | (Inr _, w1) \<Rightarrow> (None, w1))
      | Inr cm \<Rightarrow>
          (case kc_Update kc (cm\<lparr>cm_Data := data\<rparr>) w of (Inl e, w1) \<Rightarrow> (Some e, w1) | (Inr _, w1) \<Rightarrow> (None, w1)))"

definition syncToConfigMap :: "textcodec \<Rightarrow> 'w StateStore \<Rightarrow> 'w \<Rightarrow> 'w" where
  "syncToConfigMap tc s w =
     (case sst_k8sClient s of
        None \<Rightarrow> w
      | Some kc \<Rightarrow> if sst_namespace s = '''' then w else snd (syncWrite tc kc (sst_namespace s) (sst_cache s) w))"

definition StateStore_Store :: "textcodec \<Rightarrow> string \<Rightarrow> ProgressState \<Rightarrow> 'w StateStore \<Rightarrow> 'w \<Rightarrow> 'w StateStore \<times> 'w" where
  "StateStore_Store tc key state s w =
     (let s1 = s\<lparr>sst_cache := mput key state (sst_cache s)\<rparr> in (s1, syncToConfigMap tc s1 w))"

definition StateStore_Load :: "string \<Rightarrow> 'w StateStore \<Rightarrow> ProgressState option" where
  "StateStore_Load key s = mget (sst_cache s) key"

definition StateStore_Delete :: "textcodec \<Rightarrow> string \<Rightarrow> 'w StateStore \<Rightarrow> 'w \<Rightarrow> 'w StateStore \<times> 'w" where
  "StateStore_Delete tc key s w =
     (let s1 = s\<lparr>sst_cache := AList.delete key (sst_cache s)\<rparr> in (s1, syncToConfigMap tc s1 w))"

subsection \<open>Keys and states survive the ConfigMap\<close>

text \<open>Task keys as \<open>taskKey\<close> makes them from a workflow UID, which is a UUID, and a template name.\<close>

definition keyShape :: "string \<Rightarrow> bool" where
  "keyShape k \<longleftrightarrow> (\<exists>uid t. k = uid @ ''/'' @ t \<and> CHR ''_'' \<notin> set uid \<and> CHR ''/'' \<notin> set uid \<and> CHR ''/'' \<notin> set t)"

lemma replaceAllChar_other: "c \<notin> set s \<Longrightarrow> replaceAllChar c r s = s"
  by (induction s) (auto simp: replaceAllChar_def)

lemma replaceAllChar_append:
  "replaceAllChar c r (s @ t) = replaceAllChar c r s @ replaceAllChar c r t" "replaceAllChar c r (c # t) = r @ replaceAllChar c r t"
  by (simp_all add: replaceAllChar_def)

lemma replaceFirstChar_append: "c \<notin> set s \<Longrightarrow> replaceFirstChar c r (s @ c # t) = s @ r @ t"
  by (induction s) auto

lemma cmKey_roundtrip: "keyShape k \<Longrightarrow> cmKeyToTaskKey (cmKey k) = k"
  by (auto simp: keyShape_def cmKey_def cmKeyToTaskKey_def replaceAllChar_append replaceAllChar_other
      replaceFirstChar_append)

text \<open>What is relied on of the text half of the JSON and time packages, for one state: the start time prints and reads
  back, and so does the document.\<close>

definition survives :: "textcodec \<Rightarrow> ProgressState \<Rightarrow> bool" where
  "survives tc s \<longleftrightarrow>
     (case tc_fmtTime tc (ps_StartTime s) of Inl _ \<Rightarrow> False | Inr t \<Rightarrow> tc_parseTime tc t = Inr (ps_StartTime s)) \<and>
     (case encProgress tc s of Inl _ \<Rightarrow> False | Inr j \<Rightarrow> tc_parse tc (tc_print tc j) = Inr j)"

lemma decProgress_enc:
  assumes "encProgress tc s = Inr j" "tc_fmtTime tc (ps_StartTime s) = Inr t" "tc_parseTime tc t = Inr (ps_StartTime s)"
  shows "decProgress tc j = Inr s"
proof -
  have f: "toLower ''taskId'' = ''taskid''" "toLower ''contextId'' = ''contextid''" "toLower ''endpoint'' = ''endpoint''"
    "toLower ''startTime'' = ''starttime''" "toLower ''timeout'' = ''timeout''" "toLower ''pollErrors'' = ''pollerrors''"
    by code_simp+
  show ?thesis using assms
    by (auto simp: encProgress_def decProgress_def fieldOr_def jfield_def f decIntOr0_def parseInt_dec_int)
qed

lemma survives_roundtrip: "survives tc s \<Longrightarrow> \<exists>b. marshalState tc s = Inr b \<and> unmarshalState tc b = Inr s"
  by (auto simp: survives_def marshalState_def unmarshalState_def decProgress_enc split: sum.splits)

subsection \<open>Restart\<close>

text \<open>A loop that enters converted values under converted keys.\<close>

definition putAll :: "(string \<Rightarrow> string) \<Rightarrow> ('a \<Rightarrow> 'b result) \<Rightarrow> 'a smap \<Rightarrow> 'b smap \<Rightarrow> 'b smap" where
  "putAll f g xs m = fold (\<lambda>(k, v) m. case g v of Inl err \<Rightarrow> m | Inr y \<Rightarrow> mput (f k) y m) xs m"

lemma putAll_simps [simp]:
  "putAll f g [] m = m"
  "putAll f g ((k, v) # xs) m = putAll f g xs (case g v of Inl err \<Rightarrow> m | Inr y \<Rightarrow> mput (f k) y m)"
  by (simp_all add: putAll_def)

lemma putAll_frame: "q \<notin> f ` fst ` set xs \<Longrightarrow> mget (putAll f g xs m) q = mget m q"
  by (induction xs arbitrary: m) (auto split: sum.split)

lemma putAll_entry:
  "distinct (map f (mkeys xs)) \<Longrightarrow> (k, v) \<in> set xs \<Longrightarrow> g v = Inr y \<Longrightarrow> mget (putAll f g xs m) (f k) = Some y"
proof (induction xs arbitrary: m)
  case (Cons kv xs)
  then show ?case by (cases kv) (auto simp: putAll_frame image_image)
qed simp

lemma putAll_Some_iff:
  assumes inj: "inj_on f (fst ` set xs)" and d: "distinct (mkeys xs)" and g: "\<And>k v. (k, v) \<in> set xs \<Longrightarrow> \<exists>y. g v = Inr y"
  shows "mget (putAll f g xs []) q = Some y \<longleftrightarrow> (\<exists>k v. (k, v) \<in> set xs \<and> q = f k \<and> g v = Inr y)"
proof
  have df: "distinct (map f (mkeys xs))" using d inj by (simp add: distinct_map comp_inj_on)
  show "mget (putAll f g xs []) q = Some y" if "\<exists>k v. (k, v) \<in> set xs \<and> q = f k \<and> g v = Inr y"
    using that putAll_entry[of f xs, OF df] by metis
  show "\<exists>k v. (k, v) \<in> set xs \<and> q = f k \<and> g v = Inr y" if s: "mget (putAll f g xs []) q = Some y"
  proof (cases "q \<in> f ` fst ` set xs")
    case True
    then obtain k v where kv: "(k, v) \<in> set xs" "q = f k" by force
    obtain y' where y': "g v = Inr y'" using g[OF kv(1)] by blast
    show ?thesis using putAll_entry[of f xs k v g y' "[]", OF df kv(1) y'] s kv y' by auto
  next
    case False
    then show ?thesis using putAll_frame[OF False, of g "[]"] s by simp
  qed
qed

lemma putAll_inverse:
  assumes fh: "\<And>k. k \<in> fst ` set xs \<Longrightarrow> h (f k) = k" and d: "distinct (mkeys xs)"
    and gi: "\<And>k v. (k, v) \<in> set xs \<Longrightarrow> \<exists>y. g v = Inr y \<and> gi y = Inr v"
    and ys: "\<And>q. mget ys q = mget (putAll f g xs []) q" "distinct (mkeys ys)"
  shows "mget (putAll h gi ys []) k = mget xs k"
proof -
  have inj: "inj_on f (fst ` set xs)" using fh by (rule inj_on_inverseI)
  have "(q, y) \<in> set ys \<longleftrightarrow> mget (putAll f g xs []) q = Some y" for q y
    using map_of_eq_Some_iff[OF ys(2)] ys(1) by simp
  then have mem: "(q, y) \<in> set ys \<longleftrightarrow> (\<exists>k v. (k, v) \<in> set xs \<and> q = f k \<and> g v = Inr y)" for q y
    using putAll_Some_iff[OF inj d, of g q y] gi by blast
  have keys: "\<exists>k \<in> fst ` set xs. a = f k" if "a \<in> fst ` set ys" for a using that mem by force
  have injh: "inj_on h (fst ` set ys)" using fh keys by (metis inj_onI)
  have val: "\<exists>v. gi y = Inr v" if m: "(q, y) \<in> set ys" for q y
  proof -
    obtain a v where "(a, v) \<in> set xs" "g v = Inr y" using m mem[of q y] by blast
    then show ?thesis using gi[of a v] by auto
  qed
  have "(\<exists>q y. (q, y) \<in> set ys \<and> k = h q \<and> gi y = Inr v) \<longleftrightarrow> (k, v) \<in> set xs" for v
  proof
    assume "\<exists>q y. (q, y) \<in> set ys \<and> k = h q \<and> gi y = Inr v"
    then obtain q y where "(q, y) \<in> set ys" "k = h q" "gi y = Inr v" by blast
    then obtain a v' where a: "(a, v') \<in> set xs" "k = h (f a)" "g v' = Inr y" "gi y = Inr v" using mem[of q y] by auto
    have "a \<in> fst ` set xs" using a(1) by force
    then show "(k, v) \<in> set xs" using a fh[of a] gi[OF a(1)] by auto
  next
    assume kv: "(k, v) \<in> set xs"
    then obtain y where y: "g v = Inr y" "gi y = Inr v" using gi by blast
    have "k \<in> fst ` set xs" using kv by force
    then have "k = h (f k)" "(f k, y) \<in> set ys" using fh[of k] mem[of "f k" y] kv y(1) by auto
    then show "\<exists>q y. (q, y) \<in> set ys \<and> k = h q \<and> gi y = Inr v" using y(2) by blast
  qed
  then have "mget (putAll h gi ys []) k = Some v \<longleftrightarrow> mget xs k = Some v" for v
    using putAll_Some_iff[OF injh ys(2), of gi k v] val map_of_eq_Some_iff[OF d, of k v] by blast
  then show ?thesis by (metis not_Some_eq)
qed

lemma cacheData_putAll: "cacheData tc cache = putAll cmKey (marshalState tc) cache []"
  by (simp add: cacheData_def putAll_def)

lemma putAll_distinct: "distinct (mkeys m) \<Longrightarrow> distinct (mkeys (putAll f g xs m))"
  by (induction xs arbitrary: m) (auto simp: distinct_update split: sum.split)

text \<open>A cache whose entries survive.\<close>

definition storeOK :: "textcodec \<Rightarrow> ProgressState smap \<Rightarrow> bool" where
  "storeOK tc cache \<longleftrightarrow> distinct (mkeys cache) \<and> list_all (\<lambda>(k, s). keyShape k \<and> survives tc s) cache"

lemma syncWrite_stored:
  assumes st: "kube_store kc (\<lambda>c. keyOf (cm_Meta c)) cm_Data" and wr: "syncWrite tc kc ns cache w = (None, w')"
  obtains cm where "kc_Get kc (stateKey ns) w' = Inr cm" "cm_Data cm = cacheData tc cache"
proof (cases "kc_Get kc (stateKey ns) w")
  case (Inl e)
  have new: "keyOf (cm_Meta (stateConfigMap ns d)) = stateKey ns" for d
    by (simp add: stateConfigMap_def stateKey_def objectMeta_def)
  from Inl obtain x where "kc_Create kc (stateConfigMap ns (cacheData tc cache)) w = (Inr x, w')"
    using wr by (auto simp: syncWrite_def Let_def split: if_splits prod.splits sum.splits)
  from kube_store.create_stored[OF st this] show ?thesis using that new by (auto simp: stateConfigMap_def)
next
  case (Inr c)
  then obtain x where "kc_Update kc (c\<lparr>cm_Data := cacheData tc cache\<rparr>) w = (Inr x, w')"
    using wr by (auto simp: syncWrite_def Let_def split: prod.splits sum.splits)
  from kube_store.update_stored[OF st this] show ?thesis using that kube_store.get_key[OF st Inr] by auto
qed

lemma restart_restores:
  assumes st: "kube_store kc (\<lambda>c. keyOf (cm_Meta c)) cm_Data" and ok: "storeOK tc cache" and ns: "ns \<noteq> ''''"
    and wr: "syncWrite tc kc ns cache w = (None, w')"
  shows "StateStore_Load k (NewStateStore tc (Some kc) ns w') = mget cache k"
proof -
  obtain cm where cm: "kc_Get kc (stateKey ns) w' = Inr cm" "cm_Data cm = cacheData tc cache" by (rule syncWrite_stored[OF st wr])
  have l: "StateStore_Load k (NewStateStore tc (Some kc) ns w') = mget (putAll cmKeyToTaskKey (unmarshalState tc) (cacheData tc cache) []) k"
    using ns cm by (simp add: StateStore_Load_def NewStateStore_def loadFromConfigMap_def putAll_def)
  show ?thesis unfolding l
  proof (rule putAll_inverse[where f = cmKey and g = "marshalState tc"])
    show "cmKeyToTaskKey (cmKey a) = a" if "a \<in> fst ` set cache" for a
      using that ok by (intro cmKey_roundtrip) (auto simp: storeOK_def list_all_iff)
    show "\<exists>b. marshalState tc v = Inr b \<and> unmarshalState tc b = Inr v" if "(a, v) \<in> set cache" for a v
      using that ok by (intro survives_roundtrip) (auto simp: storeOK_def list_all_iff)
  qed (use ok in \<open>auto simp: storeOK_def cacheData_putAll putAll_distinct\<close>)
qed

subsection \<open>The store refines a persistent map\<close>

datatype storeOp = OpStore string ProgressState | OpDelete string

fun runOp :: "textcodec \<Rightarrow> storeOp \<Rightarrow> 'w StateStore \<times> 'w \<Rightarrow> 'w StateStore \<times> 'w" where
  "runOp tc (OpStore k st) (s, w) = StateStore_Store tc k st s w"
| "runOp tc (OpDelete k) (s, w) = StateStore_Delete tc k s w"

fun absOp :: "storeOp \<Rightarrow> (string \<rightharpoonup> ProgressState) \<Rightarrow> (string \<rightharpoonup> ProgressState)" where
  "absOp (OpStore k st) m = m(k \<mapsto> st)"
| "absOp (OpDelete k) m = m(k := None)"

fun opOK :: "textcodec \<Rightarrow> storeOp \<Rightarrow> bool" where
  "opOK tc (OpStore k st) = (keyShape k \<and> survives tc st)"
| "opOK tc (OpDelete k) = True"

lemma storeOK_put: "storeOK tc c \<Longrightarrow> keyShape k \<Longrightarrow> survives tc st \<Longrightarrow> storeOK tc (mput k st c)"
proof -
  assume a: "storeOK tc c" "keyShape k" "survives tc st"
  have "list_all (\<lambda>(k, s). keyShape k \<and> survives tc s) (mput k st c)" if "list_all (\<lambda>(k, s). keyShape k \<and> survives tc s) c"
    using that a(2,3) by (induction c) auto
  then show ?thesis using a(1) by (simp add: storeOK_def distinct_update)
qed

lemma storeOK_delete: "storeOK tc c \<Longrightarrow> storeOK tc (AList.delete k c)"
  by (auto simp: storeOK_def list_all_iff distinct_map_filter AList.delete_eq)

lemma runOp_refines:
  assumes "storeOK tc (sst_cache s)" "opOK tc op"
  shows "storeOK tc (sst_cache (fst (runOp tc op (s, w))))"
    and "mget (sst_cache (fst (runOp tc op (s, w)))) = absOp op (mget (sst_cache s))"
    and "sst_k8sClient (fst (runOp tc op (s, w))) = sst_k8sClient s" "sst_namespace (fst (runOp tc op (s, w))) = sst_namespace s"
    and "snd (runOp tc op (s, w)) = syncToConfigMap tc (fst (runOp tc op (s, w))) w"
  using assms by (cases op; auto simp: StateStore_Store_def StateStore_Delete_def Let_def storeOK_put storeOK_delete update_conv' delete_conv')+

lemma runOps_refine:
  assumes "storeOK tc (sst_cache s)" "list_all (opOK tc) ops"
  shows "storeOK tc (sst_cache (fst (fold (runOp tc) ops (s, w)))) \<and>
    mget (sst_cache (fst (fold (runOp tc) ops (s, w)))) = fold absOp ops (mget (sst_cache s)) \<and>
    sst_k8sClient (fst (fold (runOp tc) ops (s, w))) = sst_k8sClient s \<and>
    sst_namespace (fst (fold (runOp tc) ops (s, w))) = sst_namespace s"
  using assms
proof (induction ops arbitrary: s w)
  case (Cons op ops)
  obtain s1 w1 where r: "runOp tc op (s, w) = (s1, w1)" by (metis surj_pair)
  have "storeOK tc (sst_cache s1)" "mget (sst_cache s1) = absOp op (mget (sst_cache s))" "sst_k8sClient s1 = sst_k8sClient s"
    "sst_namespace s1 = sst_namespace s"
    using runOp_refines[OF Cons.prems(1), of op w] Cons.prems(2) r by auto
  with Cons.IH[of s1 w1] Cons.prems(2) r show ?case by simp
qed simp

text \<open>C35. The plugin's state store is a persistent map. After any sequence of \<open>Store\<close> and \<open>Delete\<close> calls of which the
  last was written to the API server, a plugin that starts again loads exactly the map those calls describe, provided the keys
  are a workflow UID and a template name joined as \<open>taskKey\<close> joins them, with no underscore in the UID, since the ConfigMap
  key that replaces the slash is only decoded at its first underscore.\<close>

theorem StateStore_restart_refines:
  assumes "kube_store kc (\<lambda>c. keyOf (cm_Meta c)) cm_Data" and "sst_k8sClient s = Some kc" and "sst_namespace s \<noteq> ''''"
    and "storeOK tc (sst_cache s)" and "list_all (opOK tc) (ops @ [op])"
    and "fold (runOp tc) ops (s, w) = (s1, w1)" and "runOp tc op (s1, w1) = (s2, w2)"
    and "fst (syncWrite tc kc (sst_namespace s) (sst_cache s2) w1) = None"
  shows "(\<lambda>k. StateStore_Load k (NewStateStore tc (Some kc) (sst_namespace s) w2)) =
           fold absOp (ops @ [op]) (\<lambda>k. StateStore_Load k s)"
proof -
  have 1: "storeOK tc (sst_cache s1)" "mget (sst_cache s1) = fold absOp ops (mget (sst_cache s))" "sst_k8sClient s1 = Some kc"
    "sst_namespace s1 = sst_namespace s" using runOps_refine[OF assms(4), of ops w] assms(2,5,6) by auto
  have 2: "storeOK tc (sst_cache s2)" "mget (sst_cache s2) = absOp op (mget (sst_cache s1))" "w2 = syncToConfigMap tc s2 w1"
    "sst_k8sClient s2 = Some kc" "sst_namespace s2 = sst_namespace s"
    using runOp_refines[OF 1(1), of op w1] 1 assms(5,7) by auto
  have "syncWrite tc kc (sst_namespace s) (sst_cache s2) w1 = (None, w2)"
    using 2 assms(3,8) by (auto simp: syncToConfigMap_def prod_eq_iff)
  from restart_restores[OF assms(1) 2(1) assms(3) this] show ?thesis using 1(2) 2(2) by (auto simp: StateStore_Load_def)
qed

definition demoState :: ProgressState where
  "demoState = \<lparr>ps_TaskID = ''t1'', ps_ContextID = '''', ps_Endpoint = ''http://a'', ps_StartTime = 7, ps_Timeout = 300, ps_PollErrors = 0\<rparr>"

definition demoDoc :: json where
  "demoDoc = JObj [(''taskId'', JStr ''t1''), (''endpoint'', JStr ''http://a''), (''startTime'', JStr ''7''), (''timeout'', JNum ''300'')]"

definition demoCodec :: textcodec where
  "demoCodec = \<lparr>tc_print = (\<lambda>j. if j = demoDoc then ''{taskId:t1}'' else ''null''),
     tc_parse = (\<lambda>b. if b = ''{taskId:t1}'' then Inr demoDoc else Inr JNull),
     tc_fmtTime = (\<lambda>t. Inr (dec_int t)),
     tc_parseTime = (\<lambda>b. case parseInt b of Some t \<Rightarrow> Inr t | None \<Rightarrow> Inl (Errorf ''bad time'' []))\<rparr>"

definition demoStore :: "ConfigMap cluster StateStore" where
  "demoStore = \<lparr>sst_cache = [], sst_k8sClient = Some (memClient (\<lambda>c. keyOf (cm_Meta c))), sst_namespace = ''argo''\<rparr>"

lemma demo_survives: "survives demoCodec demoState"
  by code_simp

lemma demo_shapes: "keyShape ''u1/fetch''" "keyShape ''u1/ask''"
  unfolding keyShape_def by (rule exI[of _ "''u1''"], rule exI[of _ "''fetch''"], simp) (rule exI[of _ "''u1''"], rule exI[of _ "''ask''"], simp)

theorem StateStore_restart_refines_witness:
  "\<exists>s2 w2. runOp demoCodec (OpDelete ''u1/fetch'')
       (fold (runOp demoCodec) [OpStore ''u1/fetch'' demoState, OpStore ''u1/ask'' demoState] (demoStore, [])) = (s2, w2) \<and>
     StateStore_Load ''u1/ask'' (NewStateStore demoCodec (Some (memClient (\<lambda>c. keyOf (cm_Meta c)))) ''argo'' w2) = Some demoState \<and>
     StateStore_Load ''u1/fetch'' (NewStateStore demoCodec (Some (memClient (\<lambda>c. keyOf (cm_Meta c)))) ''argo'' w2) = None"
proof -
  let ?kc = "memClient (\<lambda>c. keyOf (cm_Meta c))" and ?ops = "[OpStore ''u1/fetch'' demoState, OpStore ''u1/ask'' demoState]"
  obtain s1 w1 where r1: "fold (runOp demoCodec) ?ops (demoStore, []) = (s1, w1)" by (metis surj_pair)
  obtain s2 w2 where r2: "runOp demoCodec (OpDelete ''u1/fetch'') (s1, w1) = (s2, w2)" by (metis surj_pair)
  have "fst (syncWrite demoCodec ?kc ''argo''
      (sst_cache (fst (runOp demoCodec (OpDelete ''u1/fetch'') (fold (runOp demoCodec) ?ops (demoStore, [])))))
      (snd (fold (runOp demoCodec) ?ops (demoStore, [])))) = None"
    by code_simp
  then have acc: "fst (syncWrite demoCodec ?kc (sst_namespace demoStore) (sst_cache s2) w1) = None"
    by (simp only: r1 r2 fst_conv snd_conv) (simp add: demoStore_def)
  have "(\<lambda>k. StateStore_Load k (NewStateStore demoCodec (Some ?kc) (sst_namespace demoStore) w2)) =
      fold absOp (?ops @ [OpDelete ''u1/fetch'']) (\<lambda>k. StateStore_Load k demoStore)"
  proof (rule StateStore_restart_refines[OF memClient_store _ _ _ _ r1 r2 acc])
    show "list_all (opOK demoCodec) (?ops @ [OpDelete ''u1/fetch''])" by (simp add: demo_survives demo_shapes)
  qed (simp_all add: demoStore_def storeOK_def)
  then have "StateStore_Load k (NewStateStore demoCodec (Some ?kc) ''argo'' w2) =
      fold absOp (?ops @ [OpDelete ''u1/fetch'']) (\<lambda>k. None) k" for k
    by (drule_tac fun_cong[of _ _ k]) (simp add: demoStore_def StateStore_Load_def)
  then show ?thesis using r1 r2 by simp
qed

end
