(* ===== verification/PluginRun.thy ===== *)
theory PluginRun
  imports PluginStore
begin

text \<open>
  The executing half of \<open>plugins/a2a/plugin/plugin.go\<close> with \<open>resolver.go\<close> and the HTTP handler of
  \<open>plugins/a2a/main.go\<close>. A step is executed by repeated calls: the first sends the message and stores the A2A task, later
  ones poll it until it ends, times out or fails. The A2A client library (connecting, sending, reading a task,
  deciding which states are terminal, printing an artifact) and the traceparent of the child span are
  parameters. The cached state is shared by pointer, so \<open>progress.PollErrors\<close> changes the cache without
  writing the ConfigMap. One call is one step; calls for one key are made one after the other.
\<close>

subsection \<open>A2A types\<close>

datatype a2aRole = A2ARoleUser | A2ARoleAgent

datatype a2aFile = FileURI string string string | FileBytes string string string

datatype a2aPart = PText string doc | PData doc doc | PFile "a2aFile option" doc

record a2aMsg =
  msg_Role :: a2aRole
  msg_Parts :: "a2aPart list"
  msg_TaskID :: string
  msg_ContextID :: string
  msg_ReferenceTasks :: "string list"
  msg_Extensions :: "string list"
  msg_Metadata :: doc

datatype a2aState = TaskStateCompleted | TaskStateFailed | TaskStateCanceled | TaskStateRejected | TaskStateOther string

record a2aArtifact =
  art_ID :: string
  art_Name :: string
  art_Parts :: "a2aPart list"

record a2aTask =
  tsk_ID :: string
  tsk_ContextID :: string
  tsk_State :: a2aState
  tsk_StatusMessage :: "a2aMsg option"
  tsk_History :: "a2aMsg list"
  tsk_Artifacts :: "a2aArtifact list"

datatype SendMessageResult = SMTask "a2aTask option" | SMMessage "a2aMsg option" | SMOther string

record a2aSendCfg =
  sc2_AcceptedOutputModes :: "string list"
  sc2_Blocking :: "bool option"
  sc2_HistoryLength :: "int option"
  sc2_PushConfig :: "A2APushNotificationConfig option"

datatype NodePhase = NodeRunning | NodeSucceeded | NodeFailed

record ExecuteTemplateReply =
  etr_Phase :: NodePhase
  etr_Message :: msgtext
  etr_Outputs :: "(string \<times> string) list option"
  etr_Requeue :: "int option"

record ExecuteTemplateArgs =
  eta_Workflow :: "(string \<times> string) option"  \<comment> \<open>UID and namespace\<close>
  eta_Template :: "WfTemplate option"

record 'w Plugin =
  pl_agents :: "('w, Agent) kclient option"
  pl_codec :: textcodec
  pl_numbers :: numlib
  pl_duration :: "json \<Rightarrow> int result"
  pl_connect :: "string \<Rightarrow> 'w \<Rightarrow> goerror option"
  pl_send :: "string \<Rightarrow> a2aMsg \<Rightarrow> a2aSendCfg option \<Rightarrow> 'w \<Rightarrow> SendMessageResult result \<times> 'w"
  pl_getTask :: "string \<Rightarrow> string \<Rightarrow> 'w \<Rightarrow> a2aTask result \<times> 'w"
  pl_terminal :: "a2aState \<Rightarrow> bool"
  pl_artifactJSON :: "a2aArtifact \<Rightarrow> string result"

subsection \<open>Messages\<close>

definition taskKey :: "string \<Rightarrow> string \<Rightarrow> string" where
  "taskKey workflowUID templateName = workflowUID @ ''/'' @ templateName"

definition buildA2APart :: "A2AMessagePart \<Rightarrow> a2aPart list" where
  "buildA2APart p =
     (case a2p_Text p of
        Some t \<Rightarrow> [PText (a2t_Text t) (a2t_Metadata t)]
      | None \<Rightarrow>
          (case a2p_Data p of
             Some d \<Rightarrow> [PData (a2d_Data d) (a2d_Metadata d)]
           | None \<Rightarrow>
               (case a2p_File p of
                  Some f \<Rightarrow>
                    (let c = a2fp_File f in
                     [PFile (if a2f_URI c \<noteq> '''' then Some (FileURI (a2f_Name c) (a2f_MimeType c) (a2f_URI c))
                             else if a2f_Bytes c \<noteq> '''' then Some (FileBytes (a2f_Name c) (a2f_MimeType c) (a2f_Bytes c))
                             else None) (a2fp_Metadata f)])
                | None \<Rightarrow> [])))"

definition buildA2AMessage :: "A2AMessage \<Rightarrow> a2aMsg" where
  "buildA2AMessage msg =
     \<lparr>msg_Role = (if a2m_Role msg = ''agent'' then A2ARoleAgent else A2ARoleUser),
      msg_Parts = concat (map buildA2APart (a2m_Parts msg)),
      msg_TaskID = a2m_TaskID msg, msg_ContextID = a2m_ContextID msg,
      msg_ReferenceTasks = a2m_ReferenceTaskIDs msg, msg_Extensions = a2m_Extensions msg,
      msg_Metadata = a2m_Metadata msg\<rparr>"

definition buildA2ASendConfig :: "A2ASendConfig option \<Rightarrow> a2aSendCfg option" where
  "buildA2ASendConfig cfg =
     map_option (\<lambda>c. \<lparr>sc2_AcceptedOutputModes = a2c_AcceptedOutputModes c, sc2_Blocking = a2c_Blocking c,
       sc2_HistoryLength = a2c_HistoryLength c, sc2_PushConfig = a2c_PushNotificationConfig c\<rparr>) cfg"

text \<open>The first text part, if any.\<close>

definition extractTextFromParts :: "a2aPart list \<Rightarrow> string" where
  "extractTextFromParts parts =
     (case concat (map (\<lambda>p. case p of PText t m \<Rightarrow> [t] | _ \<Rightarrow> []) parts) of [] \<Rightarrow> '''' | t # _ \<Rightarrow> t)"

text \<open>The first non-empty text of a sequence of part lists, in order.\<close>

fun firstText :: "a2aPart list list \<Rightarrow> string option" where
  "firstText [] = None"
| "firstText (ps # rest) = (if extractTextFromParts ps \<noteq> '''' then Some (extractTextFromParts ps) else firstText rest)"

definition extractResultFromTask :: "a2aTask \<Rightarrow> string" where
  "extractResultFromTask task =
     (case firstText ((case tsk_StatusMessage task of None \<Rightarrow> [] | Some m \<Rightarrow> [msg_Parts m]) @
            map msg_Parts (filter (\<lambda>m. msg_Role m = A2ARoleAgent) (rev (tsk_History task))) @
            map art_Parts (tsk_Artifacts task)) of
        Some t \<Rightarrow> t | None \<Rightarrow> '''')"

definition extractArtifactJSON :: "'w Plugin \<Rightarrow> a2aTask \<Rightarrow> string" where
  "extractArtifactJSON p task =
     (case tsk_Artifacts task of
        [] \<Rightarrow> ''{}''
      | a # _ \<Rightarrow> (case pl_artifactJSON p a of Inr d \<Rightarrow> d | Inl _ \<Rightarrow> ''{}''))"

subsection \<open>Replies\<close>

definition failedReply :: "msgtext \<Rightarrow> ExecuteTemplateReply" where
  "failedReply m = \<lparr>etr_Phase = NodeFailed, etr_Message = m, etr_Outputs = None, etr_Requeue = None\<rparr>"

definition runningReply :: "msgtext \<Rightarrow> ExecuteTemplateReply" where
  "runningReply m = \<lparr>etr_Phase = NodeRunning, etr_Message = m, etr_Outputs = None, etr_Requeue = Some DefaultPollInterval\<rparr>"

definition stateName :: "a2aState \<Rightarrow> string" where
  "stateName st = (case st of TaskStateCompleted \<Rightarrow> ''completed'' | TaskStateFailed \<Rightarrow> ''failed''
     | TaskStateCanceled \<Rightarrow> ''canceled'' | TaskStateRejected \<Rightarrow> ''rejected'' | TaskStateOther s \<Rightarrow> s)"

definition taskOutcome :: "a2aTask \<Rightarrow> NodePhase \<times> msgtext" where
  "taskOutcome task =
     (let said = (\<lambda>d. case tsk_StatusMessage task of
                        None \<Rightarrow> Sprintf d [] | Some m \<Rightarrow> Sprintf ''%s'' [AS (extractTextFromParts (msg_Parts m))]) in
      case tsk_State task of
        TaskStateCompleted \<Rightarrow> (NodeSucceeded, Sprintf ''A2A task completed successfully'' [])
      | TaskStateFailed \<Rightarrow> (NodeFailed, said ''A2A task failed'')
      | TaskStateCanceled \<Rightarrow> (NodeFailed, Sprintf ''A2A task was canceled'' [])
      | TaskStateRejected \<Rightarrow> (NodeFailed, said ''A2A task was rejected'')
      | TaskStateOther s \<Rightarrow> (NodeFailed, Sprintf ''A2A task in unexpected terminal state: %s'' [AS s]))"

definition taskToReply :: "'w Plugin \<Rightarrow> a2aTask \<Rightarrow> ExecuteTemplateReply" where
  "taskToReply p task =
     \<lparr>etr_Phase = fst (taskOutcome task), etr_Message = snd (taskOutcome task),
      etr_Outputs = Some [(''result'', extractResultFromTask task), (''artifact'', extractArtifactJSON p task)],
      etr_Requeue = None\<rparr>"

subsection \<open>Resolving an agent\<close>

definition Resolver_Resolve :: "('w, Agent) kclient option \<Rightarrow> string \<Rightarrow> string \<Rightarrow> 'w \<Rightarrow> string result" where
  "Resolver_Resolve k8sClient agent ns w =
     (if agent = '''' then Inl (Errorf ''agent name is required'' [])
      else if ns = '''' then Inl (Errorf ''namespace is required'' [])
      else case k8sClient of
             None \<Rightarrow> Inl (Errorf ''no Kubernetes client configured to resolve agent %s/%s'' [AS ns, AS agent])
           | Some kc \<Rightarrow>
               (case kc_Get kc \<lparr>nn_Name = agent, nn_Namespace = ns\<rparr> w of
                  Inl err \<Rightarrow> Inl (ErrorfW ''failed to get Agent CR %s/%s: %w'' [AS ns, AS agent] err)
                | Inr agentCR \<Rightarrow>
                    if ast_URL (ag_Status agentCR) = ''''
                    then Inl (Errorf ''agent %s/%s has no published endpoint yet (status.url is empty)'' [AS ns, AS agent])
                    else Inr (ast_URL (ag_Status agentCR))))"

fun dedupe :: "string list \<Rightarrow> string list \<Rightarrow> string list" where
  "dedupe seen [] = []"
| "dedupe seen (c # cs) = (if c \<in> set seen \<or> c = '''' then dedupe seen cs else c # dedupe (c # seen) cs)"

definition endpointCandidates :: "string \<Rightarrow> string list" where
  "endpointCandidates endpoint =
     (let trimmed = trimRightChar (CHR ''/'') (trimSpace endpoint) in
      if trimmed = '''' then [endpoint]
      else dedupe [] [trimmed, if hasSuffix trimmed ''/a2a'' then trimSuffix trimmed ''/a2a'' else trimmed @ ''/a2a''])"

subsection \<open>Sending and polling\<close>

text \<open>The loop over the candidates: the result and the endpoint that answered, or the last error. With no
  candidate at all there is no error either.\<close>

fun trySend :: "'w Plugin \<Rightarrow> a2aMsg \<Rightarrow> a2aSendCfg option \<Rightarrow> goerror option \<Rightarrow> string list \<Rightarrow> 'w
    \<Rightarrow> (goerror option + SendMessageResult \<times> string) \<times> 'w" where
  "trySend p message cfg err [] w = (Inl err, w)"
| "trySend p message cfg err (candidate # rest) w =
     (case pl_connect p candidate w of
        Some clientErr \<Rightarrow> trySend p message cfg (Some clientErr) rest w
      | None \<Rightarrow>
          (case pl_send p candidate message cfg w of
             (Inr result, w1) \<Rightarrow> (Inr (result, candidate), w1)
           | (Inl e, w1) \<Rightarrow> trySend p message cfg (Some e) rest w1))"

definition withTraceparent :: "string \<Rightarrow> a2aMsg \<Rightarrow> a2aMsg" where
  "withTraceparent tp m = (if tp = '''' then m else m\<lparr>msg_Metadata := mput ''traceparent'' (GString tp) (msg_Metadata m)\<rparr>)"

text \<open>The A2A task a response stands for, or the reply that ends the step at once.\<close>

definition startedTask :: "'w Plugin \<Rightarrow> SendMessageResult \<Rightarrow> ExecuteTemplateReply + string \<times> string" where
  "startedTask p result =
     (case result of
        SMTask None \<Rightarrow> Inl (failedReply (Sprintf ''received nil task from A2A agent'' []))
      | SMTask (Some r) \<Rightarrow> if pl_terminal p (tsk_State r) then Inl (taskToReply p r) else Inr (tsk_ID r, tsk_ContextID r)
      | SMMessage None \<Rightarrow> Inl (failedReply (Sprintf ''received nil message from A2A agent'' []))
      | SMMessage (Some r) \<Rightarrow>
          if msg_TaskID r = '''' then Inl (failedReply (Sprintf ''received message response without task ID'' []))
          else Inr (msg_TaskID r, msg_ContextID r)
      | SMOther t \<Rightarrow> Inl (failedReply (Sprintf ''unexpected response type: %T'' [AS t])))"

definition sendTask :: "'w Plugin \<Rightarrow> int \<Rightarrow> string \<Rightarrow> string \<Rightarrow> A2ASpec \<Rightarrow> string \<Rightarrow> 'w StateStore \<Rightarrow> 'w
    \<Rightarrow> ExecuteTemplateReply \<times> 'w StateStore \<times> 'w" where
  "sendTask p now childTraceparent key spec endpoint tasks w =
     (let message = withTraceparent childTraceparent (buildA2AMessage (a2s_Message spec)) in
      case trySend p message (buildA2ASendConfig (a2s_Config spec)) None (endpointCandidates endpoint) w of
        (Inl None, w1) \<Rightarrow> (failedReply (Sprintf ''unexpected response type: %T'' [AS ''<nil>'']), tasks, w1)
      | (Inl (Some err), w1) \<Rightarrow> (failedReply (Sprintf ''failed to send A2A message: %v'' [AE err]), tasks, w1)
      | (Inr (result, usedEndpoint), w1) \<Rightarrow>
          (case startedTask p result of
             Inl reply \<Rightarrow> (reply, tasks, w1)
           | Inr (taskID, contextID) \<Rightarrow>
               (let progress = \<lparr>ps_TaskID = taskID, ps_ContextID = contextID, ps_Endpoint = usedEndpoint,
                                ps_StartTime = now, ps_Timeout = GetTimeout spec, ps_PollErrors = 0\<rparr>;
                    (tasks1, w2) = StateStore_Store (pl_codec p) key progress tasks w1
                in (runningReply (Sprintf ''A2A task submitted, waiting for completion'' []), tasks1, w2))))"

text \<open>In-place change of the cached state: the pointer is shared, the ConfigMap is not written.\<close>

definition mutateCached :: "string \<Rightarrow> ProgressState \<Rightarrow> 'w StateStore \<Rightarrow> 'w StateStore" where
  "mutateCached key progress tasks = tasks\<lparr>sst_cache := mput key progress (sst_cache tasks)\<rparr>"

definition pollTask :: "'w Plugin \<Rightarrow> int \<Rightarrow> string \<Rightarrow> ProgressState \<Rightarrow> 'w StateStore \<Rightarrow> 'w
    \<Rightarrow> ExecuteTemplateReply \<times> 'w StateStore \<times> 'w" where
  "pollTask p now key progress tasks w =
     (if IsTimedOut now progress
      then (let (tasks1, w1) = StateStore_Delete (pl_codec p) key tasks w
            in (failedReply (Sprintf ''A2A task timed out after %v'' [AI (ps_Timeout progress)]), tasks1, w1))
      else case pl_connect p (ps_Endpoint progress) w of
             Some err \<Rightarrow> (failedReply (Sprintf ''failed to create A2A client: %v'' [AE err]), tasks, w)
           | None \<Rightarrow>
               (case pl_getTask p (ps_Endpoint progress) (ps_TaskID progress) w of
                  (Inl err, w1) \<Rightarrow>
                    (let n = ps_PollErrors progress + 1;
                         tasks1 = mutateCached key (progress\<lparr>ps_PollErrors := n\<rparr>) tasks
                     in if n < MaxPollErrors
                        then (runningReply (Sprintf ''A2A poll error (attempt %d/%d): %v'' [AI n, AI MaxPollErrors, AE err]), tasks1, w1)
                        else (failedReply (Sprintf ''failed to get A2A task after %d attempts: %v'' [AI n, AE err]), tasks1, w1))
                | (Inr task, w1) \<Rightarrow>
                    (let tasks1 = mutateCached key (progress\<lparr>ps_PollErrors := 0\<rparr>) tasks in
                     if pl_terminal p (tsk_State task)
                     then (let (tasks2, w2) = StateStore_Delete (pl_codec p) key tasks1 w1 in (taskToReply p task, tasks2, w2))
                     else (runningReply (Sprintf ''A2A task in state: %s'' [AS (stateName (tsk_State task))]), tasks1, w1))))"

text \<open>\<open>None\<close> is the nil dereference of a request without a workflow.\<close>

definition ExecuteTemplate :: "'w Plugin \<Rightarrow> int \<Rightarrow> string \<Rightarrow> ExecuteTemplateArgs \<Rightarrow> 'w StateStore \<Rightarrow> 'w
    \<Rightarrow> (ExecuteTemplateReply \<times> 'w StateStore \<times> 'w) option" where
  "ExecuteTemplate p now childTraceparent args tasks w =
     (case parseA2ASpec (pl_numbers p) (pl_duration p) (eta_Template args) of
        Inl err \<Rightarrow> Some (failedReply (Sprintf ''failed to parse A2A spec: %v'' [AE err]), tasks, w)
      | Inr spec \<Rightarrow>
          (case (eta_Workflow args, eta_Template args) of
             (Some (uid, wfNamespace), Some template) \<Rightarrow>
               (let ns = (if a2s_Namespace spec = '''' then wfNamespace else a2s_Namespace spec);
                    key = taskKey uid (tmpl_Name template) in
                case StateStore_Load key tasks of
                  Some progress \<Rightarrow> Some (pollTask p now key progress tasks w)
                | None \<Rightarrow>
                    (case Resolver_Resolve (pl_agents p) (a2s_Agent spec) ns w of
                       Inl err \<Rightarrow> Some (failedReply (Sprintf ''failed to resolve agent endpoint: %v'' [AE err]), tasks, w)
                     | Inr endpoint \<Rightarrow> Some (sendTask p now childTraceparent key spec endpoint tasks w)))
           | _ \<Rightarrow> None))"

subsection \<open>The HTTP handler\<close>

datatype HandlerReply = HStatus int | HEmpty | HReply ExecuteTemplateReply | HAborted

definition isA2ATemplate :: "ExecuteTemplateArgs \<Rightarrow> bool" where
  "isA2ATemplate args =
     (case eta_Template args of
        None \<Rightarrow> False
      | Some t \<Rightarrow> (case tmpl_Plugin t of
                     None \<Rightarrow> False
                   | Some v \<Rightarrow> (case decObj Inr v of Inl _ \<Rightarrow> False | Inr d \<Rightarrow> mget d ''a2a'' \<noteq> None)))"

definition handleExecuteTemplate :: "string \<Rightarrow> 'w Plugin \<Rightarrow> int \<Rightarrow> string \<Rightarrow> string \<Rightarrow> string \<Rightarrow> ExecuteTemplateArgs result
    \<Rightarrow> 'w StateStore \<Rightarrow> 'w \<Rightarrow> HandlerReply \<times> 'w StateStore \<times> 'w" where
  "handleExecuteTemplate argoToken p now childTraceparent method authHeader body tasks w =
     (if method \<noteq> ''POST'' then (HStatus 405, tasks, w)
      else if argoToken \<noteq> '''' \<and> authHeader \<noteq> ''Bearer '' @ argoToken then (HStatus 403, tasks, w)
      else case body of
             Inl err \<Rightarrow> (HStatus 400, tasks, w)
           | Inr args \<Rightarrow>
               if \<not> isA2ATemplate args then (HEmpty, tasks, w)
               else case ExecuteTemplate p now childTraceparent args tasks w of
                      None \<Rightarrow> (HAborted, tasks, w)
                    | Some (reply, tasks1, w1) \<Rightarrow> (HReply reply, tasks1, w1))"

subsection \<open>One poll\<close>

lemma reply_simps [simp]:
  "etr_Phase (failedReply m) = NodeFailed" "etr_Phase (runningReply m) = NodeRunning"
  "etr_Phase (taskToReply p t) \<noteq> NodeRunning"
  by (auto simp: failedReply_def runningReply_def taskToReply_def taskOutcome_def Let_def split: a2aState.split)

lemma load_simps [simp]:
  "StateStore_Load k (mutateCached k ps s) = Some ps"
  "k' \<noteq> k \<Longrightarrow> StateStore_Load k' (mutateCached k ps s) = StateStore_Load k' s"
  "StateStore_Load k (fst (StateStore_Store tc k ps s w)) = Some ps"
  "StateStore_Load k (fst (StateStore_Delete tc k s w)) = None"
  "k' \<noteq> k \<Longrightarrow> StateStore_Load k' (fst (StateStore_Delete tc k s w)) = StateStore_Load k' s"
  by (simp_all add: StateStore_Load_def mutateCached_def StateStore_Store_def StateStore_Delete_def Let_def delete_conv)

lemma delete_load: "StateStore_Delete tc k s w = (s', w') \<Longrightarrow> StateStore_Load k s' = None"
  using load_simps(4)[of k tc s w] by simp

lemma store_load: "StateStore_Store tc k ps s w = (s', w') \<Longrightarrow> StateStore_Load k s' = Some ps"
  using load_simps(3)[of k tc ps s w] by simp

text \<open>What a poll that does not time out learns: nothing, since the client or the call failed, or the task.\<close>

definition polled :: "'w Plugin \<Rightarrow> ProgressState \<Rightarrow> 'w \<Rightarrow> a2aTask option" where
  "polled p ps w =
     (if pl_connect p (ps_Endpoint ps) w = None
      then (case fst (pl_getTask p (ps_Endpoint ps) (ps_TaskID ps) w) of Inl _ \<Rightarrow> None | Inr t \<Rightarrow> Some t) else None)"

lemma pollTask_cases:
  assumes "pollTask p now key ps tasks w = (reply, tasks', w')" and "StateStore_Load key tasks = Some ps"
  shows "case StateStore_Load key tasks' of
      None \<Rightarrow> if IsTimedOut now ps then etr_Phase reply = NodeFailed
              else \<exists>t. polled p ps w = Some t \<and> pl_terminal p (tsk_State t) \<and> reply = taskToReply p t
    | Some ps' \<Rightarrow> \<not> IsTimedOut now ps \<and> ps' = ps\<lparr>ps_PollErrors := ps_PollErrors ps'\<rparr> \<and>
        (case polled p ps w of
           Some t \<Rightarrow> \<not> pl_terminal p (tsk_State t) \<and> etr_Phase reply = NodeRunning \<and> ps_PollErrors ps' = 0
         | None \<Rightarrow> if pl_connect p (ps_Endpoint ps) w = None
                   then ps_PollErrors ps' = ps_PollErrors ps + 1 \<and>
                        etr_Phase reply = (if ps_PollErrors ps' < MaxPollErrors then NodeRunning else NodeFailed)
                   else ps' = ps \<and> etr_Phase reply = NodeFailed)"
proof (cases "IsTimedOut now ps")
  case True
  then show ?thesis using assms by (auto simp: pollTask_def Let_def delete_load split: prod.splits)
next
  case False
  show ?thesis
  proof (cases "pl_connect p (ps_Endpoint ps) w")
    case None
    obtain r w1 where g: "pl_getTask p (ps_Endpoint ps) (ps_TaskID ps) w = (r, w1)" by (metis surj_pair)
    show ?thesis
    proof (cases r)
      case (Inl e)
      then show ?thesis using assms(1) False None g by (auto simp: pollTask_def polled_def Let_def split: if_splits)
    next
      case (Inr t)
      then show ?thesis using assms(1) False None g
        by (auto simp: pollTask_def polled_def Let_def delete_load split: if_splits prod.splits)
    qed
  next
    case (Some e)
    then show ?thesis using assms False by (auto simp: pollTask_def polled_def)
  qed
qed

lemma pollTask_running:
  assumes "pollTask p now key ps tasks w = (reply, tasks', w')" "StateStore_Load key tasks = Some ps" "etr_Phase reply = NodeRunning"
  shows "\<not> IsTimedOut now ps" "\<exists>ps'. StateStore_Load key tasks' = Some ps' \<and> ps_StartTime ps' = ps_StartTime ps \<and> ps_Timeout ps' = ps_Timeout ps"
proof -
  obtain ps' where ps': "StateStore_Load key tasks' = Some ps'"
    using pollTask_cases[OF assms(1,2)] assms(3) by (cases "StateStore_Load key tasks'") (auto split: if_splits)
  have e: "\<not> IsTimedOut now ps" "ps' = ps\<lparr>ps_PollErrors := ps_PollErrors ps'\<rparr>" using pollTask_cases[OF assms(1,2)] ps' by auto
  show "\<not> IsTimedOut now ps" by (rule e(1))
  have "ps_StartTime ps' = ps_StartTime (ps\<lparr>ps_PollErrors := ps_PollErrors ps'\<rparr>)" "ps_Timeout ps' = ps_Timeout (ps\<lparr>ps_PollErrors := ps_PollErrors ps'\<rparr>)"
    using e(2) by metis+
  then show "\<exists>ps'. StateStore_Load key tasks' = Some ps' \<and> ps_StartTime ps' = ps_StartTime ps \<and> ps_Timeout ps' = ps_Timeout ps"
    using ps' by auto
qed

subsection \<open>A step ends\<close>

text \<open>The calls one step gets until a reply is final: each call sees its own time, span and cluster, the cache is carried
  from call to call. \<open>None\<close> means that the step still runs after the last call.\<close>

fun executeStep :: "'w Plugin \<Rightarrow> ExecuteTemplateArgs \<Rightarrow> (int \<times> string \<times> 'w) list \<Rightarrow> 'w StateStore \<Rightarrow> ExecuteTemplateReply option option" where
  "executeStep p args [] tasks = None"
| "executeStep p args ((now, tp, w) # calls) tasks =
     (case ExecuteTemplate p now tp args tasks w of
        None \<Rightarrow> Some None
      | Some (reply, tasks1, w1) \<Rightarrow> if etr_Phase reply = NodeRunning then executeStep p args calls tasks1 else Some (Some reply))"

text \<open>Argo calls again no sooner than the reply's requeue delay.\<close>

fun spaced :: "(int \<times> string \<times> 'w) list \<Rightarrow> bool" where
  "spaced (a # b # calls) = (fst a + DefaultPollInterval \<le> fst b \<and> spaced (b # calls))"
| "spaced _ = True"

lemma running_inv:
  assumes "parseA2ASpec (pl_numbers p) (pl_duration p) (eta_Template args) = Inr spec"
    and "eta_Workflow args = Some (uid, ns)" "eta_Template args = Some tmpl"
    and "StateStore_Load (taskKey uid (tmpl_Name tmpl)) tasks = Some ps"
    and "executeStep p args ((now, tp, w) # calls) tasks = None"
  shows "timeSince now (ps_StartTime ps) \<le> ps_Timeout ps \<and>
    (\<exists>tasks1 ps'. StateStore_Load (taskKey uid (tmpl_Name tmpl)) tasks1 = Some ps' \<and> ps_StartTime ps' = ps_StartTime ps \<and>
       ps_Timeout ps' = ps_Timeout ps \<and> executeStep p args calls tasks1 = None)"
proof -
  let ?key = "taskKey uid (tmpl_Name tmpl)"
  obtain reply tasks1 w1 where e: "pollTask p now ?key ps tasks w = (reply, tasks1, w1)" by (metis surj_pair)
  have "ExecuteTemplate p now tp args tasks w = Some (reply, tasks1, w1)"
    using assms(1-4) e by (simp add: ExecuteTemplate_def Let_def)
  then have r: "etr_Phase reply = NodeRunning" "executeStep p args calls tasks1 = None" using assms(5) by (auto split: if_splits)
  from pollTask_running[OF e assms(4) r(1)] r(2) show ?thesis by (auto simp: IsTimedOut_def)
qed

lemma polling_bounded:
  assumes "parseA2ASpec (pl_numbers p) (pl_duration p) (eta_Template args) = Inr spec"
    and "eta_Workflow args = Some (uid, ns)" "eta_Template args = Some tmpl"
    and "StateStore_Load (taskKey uid (tmpl_Name tmpl)) tasks = Some ps"
    and "executeStep p args calls tasks = None" "spaced calls" "calls \<noteq> []" "ps_Timeout ps < 2 ^ 63 - 1"
  shows "fst (hd calls) + int (length calls - 1) * DefaultPollInterval - ps_StartTime ps \<le> ps_Timeout ps"
  using assms(4-)
proof (induction calls arbitrary: tasks ps)
  case (Cons c calls)
  obtain now tp w where c: "c = (now, tp, w)" by (cases c)
  note IH = Cons.IH and prems = Cons.prems
  from running_inv[OF assms(1-3) Cons.prems(1) Cons.prems(2)[unfolded c]] obtain tasks1 ps' where
    t: "timeSince now (ps_StartTime ps) \<le> ps_Timeout ps" and
    n: "StateStore_Load (taskKey uid (tmpl_Name tmpl)) tasks1 = Some ps'" "ps_StartTime ps' = ps_StartTime ps"
       "ps_Timeout ps' = ps_Timeout ps" "executeStep p args calls tasks1 = None" by blast
  show ?case
  proof (cases calls)
    case Nil
    then show ?thesis using t Cons.prems(5) c by (auto simp: timeSince_def)
  next
    case (Cons d ds)
    have sp: "spaced calls" "calls \<noteq> []" "now + DefaultPollInterval \<le> fst (hd calls)" using prems(3) c Cons by auto
    have "ps_Timeout ps' < 2 ^ 63 - 1" using n(3) prems(5) by simp
    from IH[OF n(1,4) sp(1,2) this] n(2,3)
    have "fst (hd calls) + int (length calls - 1) * DefaultPollInterval - ps_StartTime ps \<le> ps_Timeout ps" by simp
    moreover have "int (length calls) * DefaultPollInterval = int (length calls - 1) * DefaultPollInterval + DefaultPollInterval"
      using Cons by (simp add: algebra_simps)
    ultimately show ?thesis using sp(3) c by simp
  qed
qed simp

lemma sendTask_running:
  assumes "sendTask p now tp key spec ep tasks w = (reply, tasks1, w1)" "etr_Phase reply = NodeRunning"
  shows "\<exists>ps. StateStore_Load key tasks1 = Some ps \<and> ps_StartTime ps = now \<and> ps_Timeout ps = GetTimeout spec"
proof -
  have "startedTask p r = Inl rep \<Longrightarrow> etr_Phase rep \<noteq> NodeRunning" for r rep
    by (auto simp: startedTask_def split: SendMessageResult.splits option.splits if_splits)
  then show ?thesis using assms
    by (auto simp: sendTask_def Let_def store_load split: prod.splits sum.splits option.splits)
qed

lemma first_call_running:
  assumes "parseA2ASpec (pl_numbers p) (pl_duration p) (eta_Template args) = Inr spec"
    and "eta_Workflow args = Some (uid, ns)" "eta_Template args = Some tmpl"
    and "StateStore_Load (taskKey uid (tmpl_Name tmpl)) tasks = None"
    and "executeStep p args ((now, tp, w) # calls) tasks = None"
  shows "\<exists>tasks1 ps. StateStore_Load (taskKey uid (tmpl_Name tmpl)) tasks1 = Some ps \<and> ps_StartTime ps = now \<and>
    ps_Timeout ps = GetTimeout spec \<and> executeStep p args calls tasks1 = None"
proof -
  let ?key = "taskKey uid (tmpl_Name tmpl)"
  let ?ns = "if a2s_Namespace spec = '''' then ns else a2s_Namespace spec"
  obtain ep where ep: "Resolver_Resolve (pl_agents p) (a2s_Agent spec) ?ns w = Inr ep"
    using assms by (cases "Resolver_Resolve (pl_agents p) (a2s_Agent spec) ?ns w") (auto simp: ExecuteTemplate_def Let_def)
  obtain reply tasks1 w1 where s: "sendTask p now tp ?key spec ep tasks w = (reply, tasks1, w1)" by (metis surj_pair)
  have "ExecuteTemplate p now tp args tasks w = Some (reply, tasks1, w1)"
    using assms(1-4) ep s by (simp add: ExecuteTemplate_def Let_def)
  then have r: "etr_Phase reply = NodeRunning" "executeStep p args calls tasks1 = None" using assms(5) by (auto split: if_splits)
  from sendTask_running[OF s r(1)] r(2) show ?thesis by blast
qed

text \<open>C34. Every step ends. Whatever the agent answers, a step whose plugin specification parses gets a final
  reply within \<open>timeout / 5s + 2\<close> calls, when Argo calls again after the requeue delay of five seconds: until
  then each call either still waits or ends the step.\<close>

theorem executeStep_ends:
  assumes "parseA2ASpec (pl_numbers p) (pl_duration p) (eta_Template args) = Inr spec"
    and "eta_Workflow args = Some (uid, ns)" and "eta_Template args = Some tmpl"
    and "StateStore_Load (taskKey uid (tmpl_Name tmpl)) tasks = None" and "GetTimeout spec < 2 ^ 63 - 1"
    and "spaced calls" and "nat (GetTimeout spec div DefaultPollInterval) + 2 \<le> length calls"
  shows "\<exists>reply. executeStep p args calls tasks = Some (Some reply) \<and> etr_Phase reply \<in> {NodeSucceeded, NodeFailed}"
proof -
  have nn: "ExecuteTemplate p now tp args ts w \<noteq> None" for now tp ts w
    using assms(1-3) by (simp add: ExecuteTemplate_def Let_def split: option.split sum.split del: not_None_eq)
  have fin: "\<exists>reply. executeStep p args cs ts = Some (Some reply) \<and> etr_Phase reply \<in> {NodeSucceeded, NodeFailed}"
    if "executeStep p args cs ts \<noteq> None" for cs ts
    using that
  proof (induction cs arbitrary: ts)
    case (Cons c cs)
    obtain now tp w where c: "c = (now, tp, w)" by (cases c)
    obtain reply ts1 w1 where e: "ExecuteTemplate p now tp args ts w = Some (reply, ts1, w1)" using nn[of now tp ts w] by auto
    show ?case using Cons c e by (cases "etr_Phase reply") auto
  qed simp
  have "executeStep p args calls tasks \<noteq> None"
  proof
    assume run: "executeStep p args calls tasks = None"
    obtain c cs where cs: "calls = c # cs" "cs \<noteq> []" using assms(7) by (cases calls; cases "tl calls") auto
    obtain now tp w where c: "c = (now, tp, w)" by (cases c)
    from first_call_running[OF assms(1-4)] run cs(1) c obtain ts1 ps where
      f: "StateStore_Load (taskKey uid (tmpl_Name tmpl)) ts1 = Some ps" "ps_StartTime ps = now" "ps_Timeout ps = GetTimeout spec"
         "executeStep p args cs ts1 = None" by blast
    have sp: "spaced cs" "now + DefaultPollInterval \<le> fst (hd cs)" using assms(6) cs c by (cases cs; simp)+
    have "fst (hd cs) + int (length cs - 1) * DefaultPollInterval - now \<le> GetTimeout spec"
      using polling_bounded[OF assms(1-3) f(1,4) sp(1) cs(2)] f(2,3) assms(5) by simp
    moreover have "int (length cs) * DefaultPollInterval = int (length cs - 1) * DefaultPollInterval + DefaultPollInterval"
      using cs(2) by (cases cs) (simp_all add: algebra_simps)
    ultimately have "int (length cs) * DefaultPollInterval \<le> GetTimeout spec" using sp(2) by simp
    moreover have "0 < DefaultPollInterval" by (simp add: DefaultPollInterval_def)
    ultimately have "int (length cs) \<le> GetTimeout spec div DefaultPollInterval"
      using zdiv_mono1[of "int (length cs) * DefaultPollInterval" "GetTimeout spec" DefaultPollInterval] by simp
    then show False using assms(7) cs(1) by simp
  qed
  then show ?thesis by (rule fin)
qed

text \<open>C36. Exact outcome of a poll: the stored state is dropped exactly when the step timed out or the agent reported a
  terminal state, whose result is then the reply; otherwise it is kept with its start time and timeout. A poll that fails
  because the client cannot be created or because of the fifth error in a row therefore keeps the state, so
  a retry of the step polls the old A2A task again instead of sending the message.\<close>

theorem pollTask_outcome:
  assumes "pollTask p now key ps tasks w = (reply, tasks', w')" and "StateStore_Load key tasks = Some ps"
  shows "case StateStore_Load key tasks' of
      None \<Rightarrow> if IsTimedOut now ps then etr_Phase reply = NodeFailed
              else \<exists>t. polled p ps w = Some t \<and> pl_terminal p (tsk_State t) \<and> reply = taskToReply p t
    | Some ps' \<Rightarrow> \<not> IsTimedOut now ps \<and> ps' = ps\<lparr>ps_PollErrors := ps_PollErrors ps'\<rparr> \<and>
        (case polled p ps w of
           Some t \<Rightarrow> \<not> pl_terminal p (tsk_State t) \<and> etr_Phase reply = NodeRunning \<and> ps_PollErrors ps' = 0
         | None \<Rightarrow> if pl_connect p (ps_Endpoint ps) w = None
                   then ps_PollErrors ps' = ps_PollErrors ps + 1 \<and>
                        etr_Phase reply = (if ps_PollErrors ps' < MaxPollErrors then NodeRunning else NodeFailed)
                   else ps' = ps \<and> etr_Phase reply = NodeFailed)"
  by (rule pollTask_cases[OF assms])

subsection \<open>Witnesses\<close>

text \<open>An agent that accepts every message and never finishes, reached in a cluster that holds it.\<close>

definition busyPlugin :: "Agent cluster Plugin" where
  "busyPlugin = \<lparr>pl_agents = Some (memClient (\<lambda>a. keyOf (ag_Meta a))), pl_codec = demoCodec, pl_numbers = zeroFloats,
     pl_duration = (\<lambda>j. Inr 1000000000), pl_connect = (\<lambda>e w. if e = ''down'' then Some (Errorf ''refused'' []) else None),
     pl_send = (\<lambda>e m c w. (Inr (SMTask (Some \<lparr>tsk_ID = ''t1'', tsk_ContextID = '''', tsk_State = TaskStateOther ''working'',
         tsk_StatusMessage = None, tsk_History = [], tsk_Artifacts = []\<rparr>)), w)),
     pl_getTask = (\<lambda>e i w. (Inr \<lparr>tsk_ID = i, tsk_ContextID = '''', tsk_State = TaskStateOther ''working'',
         tsk_StatusMessage = None, tsk_History = [], tsk_Artifacts = []\<rparr>, w)),
     pl_terminal = (\<lambda>s. case s of TaskStateOther _ \<Rightarrow> False | _ \<Rightarrow> True), pl_artifactJSON = (\<lambda>a. Inr ''{}'')\<rparr>"

definition demoArgs :: ExecuteTemplateArgs where
  "demoArgs = \<lparr>eta_Workflow = Some (''u1'', ''argo''), eta_Template = Some ((emptyTemplate ''ask'')\<lparr>tmpl_Plugin :=
     Some (JObj [(''a2a'', JObj [(''agent'', JStr ''writer''), (''timeout'', JStr ''1s''),
       (''message'', JObj [(''parts'', JArr [JObj [(''text'', JObj [(''text'', JStr ''hi'')])]])])])])\<rparr>)\<rparr>"

definition noTasks :: "'w StateStore" where
  "noTasks = \<lparr>sst_cache = [], sst_k8sClient = None, sst_namespace = ''argo''\<rparr>"

theorem executeStep_ends_witness:
  "\<exists>reply. executeStep busyPlugin demoArgs [(0, '''', []), (5000000000, '''', [])] noTasks = Some (Some reply) \<and>
     etr_Phase reply \<in> {NodeSucceeded, NodeFailed}"
proof -
  have "(case parseA2ASpec (pl_numbers busyPlugin) (pl_duration busyPlugin) (eta_Template demoArgs) of
      Inl _ \<Rightarrow> False | Inr spec \<Rightarrow> GetTimeout spec = 1000000000)" by code_simp
  then obtain spec where s: "parseA2ASpec (pl_numbers busyPlugin) (pl_duration busyPlugin) (eta_Template demoArgs) = Inr spec"
    "GetTimeout spec = 1000000000" by (auto split: sum.splits)
  obtain t where t: "eta_Template demoArgs = Some t" by (simp add: demoArgs_def)
  have u: "eta_Workflow demoArgs = Some (''u1'', ''argo'')" by (simp add: demoArgs_def)
  show ?thesis
    by (rule executeStep_ends[OF s(1) u t]) (simp_all add: s(2) DefaultPollInterval_def noTasks_def StateStore_Load_def)
qed

theorem pollTask_outcome_witness:
  "\<exists>reply tasks' w'. pollTask busyPlugin 8 ''u1/ask'' (demoState\<lparr>ps_Endpoint := ''down''\<rparr>)
       (mutateCached ''u1/ask'' (demoState\<lparr>ps_Endpoint := ''down''\<rparr>) noTasks) [] = (reply, tasks', w') \<and>
     etr_Phase reply = NodeFailed \<and> StateStore_Load ''u1/ask'' tasks' = Some (demoState\<lparr>ps_Endpoint := ''down''\<rparr>)"
proof -
  let ?ps = "demoState\<lparr>ps_Endpoint := ''down''\<rparr>"
  obtain reply tasks' w' where r:
    "pollTask busyPlugin 8 ''u1/ask'' ?ps (mutateCached ''u1/ask'' ?ps noTasks) [] = (reply, tasks', w')" by (metis surj_pair)
  have c: "pl_connect busyPlugin (ps_Endpoint ?ps) [] = Some (Errorf ''refused'' [])" by (simp add: busyPlugin_def)
  then have "polled busyPlugin ?ps [] = None" "\<not> IsTimedOut 8 ?ps"
    by (simp_all add: polled_def IsTimedOut_def timeSince_def demoState_def)
  with pollTask_outcome[OF r] c r show ?thesis by (auto split: option.splits)
qed

end
