(* ===== verification/TriggerService.thy ===== *)
theory TriggerService
  imports ApiFlows AgentController PluginStore
begin

text \<open>
  AgentTriggers: \<open>internal/domain/trigger\<close>, the application service \<open>internal/app/trigger/reconcile.go\<close>
  and the controller \<open>internal/controller/agenttrigger_controller.go\<close>. The service writes a ConfigMap that the trigger
  endpoint of the API server reads. The JSON document of the configuration is modelled field by field, its text by the
  \<open>textcodec\<close> of \<open>PluginStore\<close>.
\<close>

subsection \<open>Domain\<close>

definition Trigger_Labels :: "string \<Rightarrow> string smap" where
  "Trigger_Labels triggerName =
     [(''app.kubernetes.io/name'', triggerName), (''app.kubernetes.io/component'', ''agenttrigger''),
      (''app.kubernetes.io/managed-by'', ''flokoa-operator''), (''flokoa.ai/trigger'', triggerName)]"

definition SensorName :: "string \<Rightarrow> string" where
  "SensorName triggerName = ''at-'' @ triggerName"

definition Trigger_ConfigMapName :: "string \<Rightarrow> string" where
  "Trigger_ConfigMapName triggerName = ''agenttrigger-'' @ triggerName @ ''-config''"

definition ConditionTypeAgentReady :: string where "ConditionTypeAgentReady = ''AgentReady''"
definition ReasonAgentResolved :: string where "ReasonAgentResolved = ''AgentResolved''"
definition ReasonAgentNotFound :: string where "ReasonAgentNotFound = ''AgentNotFound''"
definition ReasonAgentNotReady :: string where "ReasonAgentNotReady = ''AgentNotReady''"
definition ReasonAllReady :: string where "ReasonAllReady = ''AllReady''"
definition ReasonValidationFailed :: string where "ReasonValidationFailed = ''ValidationFailed''"
definition ReasonArgoEventsNotInstall :: string where "ReasonArgoEventsNotInstall = ''ArgoEventsNotInstalled''"

definition Trigger_SetCondition ::
  "k8slib \<Rightarrow> string \<Rightarrow> ConditionStatus \<Rightarrow> string \<Rightarrow> msgtext \<Rightarrow> AgentTrigger \<Rightarrow> AgentTrigger" where
  "Trigger_SetCondition lib ctype status reason message trigger =
     trigger\<lparr>tr_Status := (tr_Status trigger)\<lparr>trst_Conditions :=
       lib_SetStatusCondition lib (trst_Conditions (tr_Status trigger))
         \<lparr>c_Type = ctype, c_Status = status, c_ObservedGeneration = om_Generation (tr_Meta trigger),
          c_LastTransitionTime = lib_Now lib, c_Reason = reason, c_Message = message\<rparr>\<rparr>\<rparr>"

definition Trigger_CalculatePhase :: "k8slib \<Rightarrow> AgentTrigger \<Rightarrow> AgentTriggerPhase" where
  "Trigger_CalculatePhase lib trigger =
     (case lib_FindStatusCondition lib (trst_Conditions (tr_Status trigger)) ConditionTypeReady of
        None \<Rightarrow> AgentTriggerPhasePending
      | Some readyCond \<Rightarrow>
          if c_Status readyCond = ConditionTrue then AgentTriggerPhaseRunning
          else if c_Reason readyCond = ReasonValidationFailed \<or> c_Reason readyCond = ReasonArgoEventsNotInstall
          then AgentTriggerPhaseFailed
          else AgentTriggerPhasePending)"

text \<open>The first failing element of an indexed list.\<close>

fun firstIdx :: "(nat \<Rightarrow> 'a \<Rightarrow> goerror option) \<Rightarrow> nat \<Rightarrow> 'a list \<Rightarrow> goerror option" where
  "firstIdx f i [] = None"
| "firstIdx f i (x # xs) = (case f i x of Some e \<Rightarrow> Some e | None \<Rightarrow> firstIdx f (Suc i) xs)"

definition dataFilterError :: "nat \<Rightarrow> DataFilter \<Rightarrow> goerror option" where
  "dataFilterError i df =
     (if df_Path df = '''' then Some (Errorf ''filter.data[%d].path is required'' [AI (int i)])
      else if df_Value df = [] then Some (Errorf ''filter.data[%d].value must have at least one entry'' [AI (int i)])
      else None)"

definition exprFilterError :: "nat \<Rightarrow> ExprFilter \<Rightarrow> goerror option" where
  "exprFilterError i ef = (if ef_Expr ef = '''' then Some (Errorf ''filter.exprs[%d].expr is required'' [AI (int i)]) else None)"

definition pushTargetError :: "PushNotificationTarget \<Rightarrow> goerror option" where
  "pushTargetError p =
     (if pnt_AgentRef p = None \<and> pnt_URL p = ''''
      then Some (Errorf ''pushNotification: exactly one of agentRef or url must be specified'' [])
      else if pnt_AgentRef p \<noteq> None \<and> pnt_URL p \<noteq> ''''
      then Some (Errorf ''pushNotification: agentRef and url are mutually exclusive'' [])
      else case pnt_AgentRef p of
             Some r \<Rightarrow> if ar_Name r = '''' then Some (Errorf ''pushNotification.agentRef.name is required'' []) else None
           | None \<Rightarrow> None)"

definition orElseErr :: "goerror option \<Rightarrow> goerror option \<Rightarrow> goerror option" where
  "orElseErr a b = (case a of Some e \<Rightarrow> Some e | None \<Rightarrow> b)"

definition Trigger_ValidateSpec :: "AgentTrigger \<Rightarrow> goerror option" where
  "Trigger_ValidateSpec trigger =
     (let spec = tr_Spec trigger in
      if es_Name (trs_EventSource spec) = '''' then Some (Errorf ''eventSource.name is required'' [])
      else if es_EventName (trs_EventSource spec) = '''' then Some (Errorf ''eventSource.eventName is required'' [])
      else if ar_Name (trs_Agent spec) = '''' then Some (Errorf ''agent.name is required'' [])
      else orElseErr (case trs_PushNotification spec of None \<Rightarrow> None | Some p \<Rightarrow> pushTargetError p)
             (case trs_Filter spec of
                None \<Rightarrow> None
              | Some f \<Rightarrow> orElseErr (firstIdx dataFilterError 0 (tf_Data f)) (firstIdx exprFilterError 0 (tf_Exprs f))))"

subsection \<open>The trigger configuration\<close>

record AuthConfig =
  au_Schemes :: "string list"
  au_Credentials :: string

record PushConfig =
  pu_URL :: string
  pu_Authentication :: "AuthConfig option"
  pu_Token :: string

record LimitsConfig =
  lc_MaxInvocationsPerHour :: "int option"
  lc_MaxConcurrentTasks :: "int option"
  lc_TokenBudgetPerEvent :: "int option"
  lc_TokenBudgetPerHour :: "int option"

record TriggerConfig =
  tcf_AgentEndpoint :: string
  tcf_SessionKeyFrom :: string
  tcf_PushNotificationConfig :: "PushConfig option"
  tcf_Limits :: "LimitsConfig option"
  tcf_Metadata :: "string smap"

text \<open>\<open>json.Marshal\<close> of the structs: \<open>omitempty\<close> fields at their zero value are left out, map keys are sorted.\<close>

definition optField :: "string \<Rightarrow> ('a \<Rightarrow> json) \<Rightarrow> 'a option \<Rightarrow> json smap" where
  "optField k f x = (case x of None \<Rightarrow> [] | Some y \<Rightarrow> [(k, f y)])"

definition strField :: "string \<Rightarrow> string \<Rightarrow> json smap" where
  "strField k s = (if s = '''' then [] else [(k, JStr s)])"

definition encAuthConfig :: "AuthConfig \<Rightarrow> json" where
  "encAuthConfig a = JObj ([(''schemes'', JArr (map JStr (au_Schemes a)))] @ strField ''credentials'' (au_Credentials a))"

definition encPushConfig :: "PushConfig \<Rightarrow> json" where
  "encPushConfig p = JObj ([(''url'', JStr (pu_URL p))] @ optField ''authentication'' encAuthConfig (pu_Authentication p) @
     strField ''token'' (pu_Token p))"

definition encLimits :: "LimitsConfig \<Rightarrow> json" where
  "encLimits l = JObj (optField ''maxInvocationsPerHour'' (\<lambda>i. JNum (dec_int i)) (lc_MaxInvocationsPerHour l) @
     optField ''maxConcurrentTasks'' (\<lambda>i. JNum (dec_int i)) (lc_MaxConcurrentTasks l) @
     optField ''tokenBudgetPerEvent'' (\<lambda>i. JNum (dec_int i)) (lc_TokenBudgetPerEvent l) @
     optField ''tokenBudgetPerHour'' (\<lambda>i. JNum (dec_int i)) (lc_TokenBudgetPerHour l))"

definition encTriggerConfig :: "TriggerConfig \<Rightarrow> json" where
  "encTriggerConfig c = JObj ([(''agentEndpoint'', JStr (tcf_AgentEndpoint c))] @ strField ''sessionKeyFrom'' (tcf_SessionKeyFrom c) @
     optField ''pushNotificationConfig'' encPushConfig (tcf_PushNotificationConfig c) @
     optField ''limits'' encLimits (tcf_Limits c) @
     (if tcf_Metadata c = [] then []
      else [(''metadata'', JObj (map (\<lambda>(k, v). (k, JStr v)) (sort_key fst (tcf_Metadata c))))]))"

text \<open>\<open>json.Unmarshal\<close> into the structs; integers are checked against the width of the field.\<close>

definition decIntW :: "nat \<Rightarrow> json \<Rightarrow> int option result" where
  "decIntW bits j =
     bindR (decInt j) (\<lambda>i. case i of
        None \<Rightarrow> Inr None
      | Some n \<Rightarrow> if - (2 ^ (bits - 1)) \<le> n \<and> n < 2 ^ (bits - 1) then Inr (Some n) else Inl (typeError ''int''))"

fun decStringMap :: "json \<Rightarrow> string smap result" where
  "decStringMap (JObj kvs) = mapR (\<lambda>(k, v). bindR (decString v) (\<lambda>s. Inr (k, s))) kvs"
| "decStringMap JNull = Inr []"
| "decStringMap _ = Inl (typeError ''map[string]string'')"

definition decAuthConfig :: "json \<Rightarrow> AuthConfig result" where
  "decAuthConfig = decObj (\<lambda>o1. bindR (fStrings ''schemes'' o1) (\<lambda>s. bindR (fString ''credentials'' o1) (\<lambda>c.
     Inr \<lparr>au_Schemes = s, au_Credentials = c\<rparr>)))"

definition decPushConfig :: "json \<Rightarrow> PushConfig result" where
  "decPushConfig = decObj (\<lambda>o1. bindR (fString ''url'' o1) (\<lambda>u.
     bindR (fieldOr None (decPtr decAuthConfig) ''authentication'' o1) (\<lambda>a. bindR (fString ''token'' o1) (\<lambda>t.
     Inr \<lparr>pu_URL = u, pu_Authentication = a, pu_Token = t\<rparr>))))"

definition decLimits :: "json \<Rightarrow> LimitsConfig result" where
  "decLimits = decObj (\<lambda>o1. bindR (fieldOr None (decIntW 32) ''maxInvocationsPerHour'' o1) (\<lambda>i.
     bindR (fieldOr None (decIntW 32) ''maxConcurrentTasks'' o1) (\<lambda>c.
     bindR (fieldOr None (decIntW 32) ''tokenBudgetPerEvent'' o1) (\<lambda>e.
     bindR (fieldOr None (decIntW 64) ''tokenBudgetPerHour'' o1) (\<lambda>h.
     Inr \<lparr>lc_MaxInvocationsPerHour = i, lc_MaxConcurrentTasks = c, lc_TokenBudgetPerEvent = e, lc_TokenBudgetPerHour = h\<rparr>)))))"

definition decTriggerConfig :: "json \<Rightarrow> TriggerConfig result" where
  "decTriggerConfig = decObj (\<lambda>o1. bindR (fString ''agentEndpoint'' o1) (\<lambda>e. bindR (fString ''sessionKeyFrom'' o1) (\<lambda>s.
     bindR (fieldOr None (decPtr decPushConfig) ''pushNotificationConfig'' o1) (\<lambda>p.
     bindR (fieldOr None (decPtr decLimits) ''limits'' o1) (\<lambda>l.
     bindR (fieldOr [] decStringMap ''metadata'' o1) (\<lambda>m.
     Inr \<lparr>tcf_AgentEndpoint = e, tcf_SessionKeyFrom = s, tcf_PushNotificationConfig = p, tcf_Limits = l, tcf_Metadata = m\<rparr>))))))"

subsection \<open>The application service\<close>

record 'w tdeps =
  td_GetAgent :: "NamespacedName \<Rightarrow> 'w \<Rightarrow> Agent result"
  td_GetSecret :: "NamespacedName \<Rightarrow> 'w \<Rightarrow> Secret result"
  td_ConfigMaps :: "('w, ConfigMap) kclient"
  td_SetOwner :: "AgentTrigger \<Rightarrow> ObjectMeta \<Rightarrow> ObjectMeta result"

record TriggerResult =
  trr_AgentEndpoint :: string
  trr_SensorName :: string

definition readSecretKey :: "'w tdeps \<Rightarrow> 'w \<Rightarrow> string \<Rightarrow> SecretKeySelector \<Rightarrow> string \<Rightarrow> string result" where
  "readSecretKey deps w what ref ns =
     (case td_GetSecret deps \<lparr>nn_Name = sks_Name ref, nn_Namespace = ns\<rparr> w of
        Inl err \<Rightarrow> Inl (DependencyError (ErrorfW (what @ '' secret %s not found: %w'') [AS (sks_Name ref)] err))
      | Inr secret \<Rightarrow>
          (case mget (sec_Data secret) (sks_Key ref) of
             None \<Rightarrow> Inl (NewPermanentf ''key %s not found in secret %s'' [AS (sks_Key ref), AS (sks_Name ref)])
           | Some v \<Rightarrow> Inr v))"

definition pushGatewayURL :: "string \<Rightarrow> string \<Rightarrow> string" where
  "pushGatewayURL ns name =
     ''http://flokoa-server.flokoa-system.svc.cluster.local/api/v1alpha1/namespaces/'' @ ns @ ''/agents/'' @ name @ ''/push''"

definition pushURL :: "'w tdeps \<Rightarrow> 'w \<Rightarrow> string \<Rightarrow> PushNotificationTarget \<Rightarrow> string result" where
  "pushURL deps w triggerNS push =
     (case pnt_AgentRef push of
        Some ref \<Rightarrow>
          (let targetNS = (if ar_Namespace ref = '''' then triggerNS else ar_Namespace ref) in
           case td_GetAgent deps \<lparr>nn_Name = ar_Name ref, nn_Namespace = targetNS\<rparr> w of
             Inl err \<Rightarrow> Inl (DependencyError (ErrorfW ''push target agent %s/%s not found: %w'' [AS targetNS, AS (ar_Name ref)] err))
           | Inr _ \<Rightarrow> Inr (pushGatewayURL targetNS (ar_Name ref)))
      | None \<Rightarrow> Inr (pnt_URL push))"

definition resolvePushConfig :: "'w tdeps \<Rightarrow> 'w \<Rightarrow> string \<Rightarrow> PushNotificationTarget \<Rightarrow> PushConfig result" where
  "resolvePushConfig deps w triggerNS push =
     bindR (pushURL deps w triggerNS push) (\<lambda>url.
     bindR (case pnt_Authentication push of
              None \<Rightarrow> Inr None
            | Some a \<Rightarrow> bindR (case tpa_CredentialsRef a of
                                 None \<Rightarrow> Inr ''''
                               | Some ref \<Rightarrow> readSecretKey deps w ''push authentication'' ref triggerNS)
                          (\<lambda>cred. Inr (Some \<lparr>au_Schemes = tpa_Schemes a, au_Credentials = cred\<rparr>))) (\<lambda>auth.
     bindR (case pnt_TokenRef push of
              None \<Rightarrow> Inr ''''
            | Some ref \<Rightarrow> readSecretKey deps w ''push token'' ref triggerNS) (\<lambda>tok.
       Inr \<lparr>pu_URL = url, pu_Authentication = auth, pu_Token = tok\<rparr>)))"

definition triggerMetadata :: "AgentTrigger \<Rightarrow> string smap" where
  "triggerMetadata trigger =
     fold (\<lambda>(k, v). mput k v) (case trs_Task (tr_Spec trigger) of None \<Rightarrow> [] | Some t \<Rightarrow> ttc_Metadata t)
       [(''trigger'', om_Name (tr_Meta trigger)), (''namespace'', om_Namespace (tr_Meta trigger))]"

definition buildTriggerConfig :: "AgentTrigger \<Rightarrow> string \<Rightarrow> PushConfig option \<Rightarrow> TriggerConfig" where
  "buildTriggerConfig trigger agentEndpoint pushConfig =
     \<lparr>tcf_AgentEndpoint = agentEndpoint,
      tcf_SessionKeyFrom = (case trs_Task (tr_Spec trigger) of None \<Rightarrow> '''' | Some t \<Rightarrow> ttc_SessionKeyFrom t),
      tcf_PushNotificationConfig = pushConfig,
      tcf_Limits = map_option (\<lambda>l. \<lparr>lc_MaxInvocationsPerHour = tl_MaxInvocationsPerHour l,
         lc_MaxConcurrentTasks = tl_MaxConcurrentTasks l, lc_TokenBudgetPerEvent = tl_TokenBudgetPerEvent l,
         lc_TokenBudgetPerHour = tl_TokenBudgetPerHour l\<rparr>) (trs_Limits (tr_Spec trigger)),
      tcf_Metadata = triggerMetadata trigger\<rparr>"

definition triggerConfigMap :: "textcodec \<Rightarrow> AgentTrigger \<Rightarrow> TriggerConfig \<Rightarrow> ConfigMap" where
  "triggerConfigMap tc trigger config =
     \<lparr>cm_Meta = objectMeta (Trigger_ConfigMapName (om_Name (tr_Meta trigger))) (om_Namespace (tr_Meta trigger))
        (Trigger_Labels (om_Name (tr_Meta trigger))) [],
      cm_Data = [(''config.json'', tc_print tc (encTriggerConfig config))]\<rparr>"

definition storeTriggerConfig :: "textcodec \<Rightarrow> 'w tdeps \<Rightarrow> AgentTrigger \<Rightarrow> TriggerConfig \<Rightarrow> 'w \<Rightarrow> goerror option \<times> 'w" where
  "storeTriggerConfig tc deps trigger config w =
     (let cm = triggerConfigMap tc trigger config in
      case td_SetOwner deps trigger (cm_Meta cm) of
        Inl err \<Rightarrow> (Some (ErrorfW ''failed to set owner reference on ConfigMap: %w'' [] err), w)
      | Inr m \<Rightarrow>
          (case EnsureConfigMap (td_ConfigMaps deps) (cm\<lparr>cm_Meta := m\<rparr>) w of
             (Some err, w1) \<Rightarrow> (Some (ErrorfW ''failed to ensure trigger config ConfigMap: %w'' [] err), w1)
           | (None, w1) \<Rightarrow> (None, w1)))"

definition triggerAgentKey :: "AgentTrigger \<Rightarrow> NamespacedName" where
  "triggerAgentKey trigger =
     (let ref = trs_Agent (tr_Spec trigger) in
      \<lparr>nn_Name = ar_Name ref,
       nn_Namespace = (if ar_Namespace ref = '''' then om_Namespace (tr_Meta trigger) else ar_Namespace ref)\<rparr>)"

definition phaseText :: "AgentPhase \<Rightarrow> string" where
  "phaseText p = (case p of AgentPhasePending \<Rightarrow> ''Pending'' | AgentPhaseRunning \<Rightarrow> ''Running''
     | AgentPhaseFailed \<Rightarrow> ''Failed'' | AgentPhaseUnset \<Rightarrow> '''')"

definition triggerPush :: "'w tdeps \<Rightarrow> 'w \<Rightarrow> AgentTrigger \<Rightarrow> PushConfig option result" where
  "triggerPush deps w trigger =
     (case trs_PushNotification (tr_Spec trigger) of
        None \<Rightarrow> Inr None
      | Some push \<Rightarrow> bindR (resolvePushConfig deps w (om_Namespace (tr_Meta trigger)) push) (\<lambda>c. Inr (Some c)))"

text \<open>The whole reconcile: the trigger with its conditions, the result or the error, and the cluster afterwards.\<close>

definition Trigger_Reconcile ::
  "k8slib \<Rightarrow> textcodec \<Rightarrow> 'w tdeps \<Rightarrow> AgentTrigger \<Rightarrow> 'w \<Rightarrow> AgentTrigger \<times> TriggerResult result \<times> 'w" where
  "Trigger_Reconcile lib tc deps trigger w =
     (case Trigger_ValidateSpec trigger of
        Some err \<Rightarrow>
          (Trigger_SetCondition lib ConditionTypeReady ConditionFalse ReasonValidationFailed (ErrText err) trigger,
           Inl (PermanentError err), w)
      | None \<Rightarrow>
          (let k = triggerAgentKey trigger in
           case td_GetAgent deps k w of
             Inl err \<Rightarrow>
               (Trigger_SetCondition lib ConditionTypeReady ConditionFalse ReasonAgentNotFound
                  (Sprintf ''Agent %s/%s not found'' [AS (nn_Namespace k), AS (nn_Name k)])
                  (Trigger_SetCondition lib ConditionTypeAgentReady ConditionFalse ReasonAgentNotFound
                     (Sprintf ''Agent %s/%s not found: %v'' [AS (nn_Namespace k), AS (nn_Name k), AE err]) trigger),
                Inl (DependencyError (ErrorfW ''agent %s/%s not found: %w'' [AS (nn_Namespace k), AS (nn_Name k)] err)), w)
           | Inr agent \<Rightarrow>
               (let aname = om_Name (ag_Meta agent); phase = ast_Phase (ag_Status agent); agentEndpoint = ast_URL (ag_Status agent) in
                if phase \<noteq> AgentPhaseRunning
                then (Trigger_SetCondition lib ConditionTypeReady ConditionFalse ReasonAgentNotReady
                        (Sprintf ''Agent %s is not Running'' [AS aname])
                        (Trigger_SetCondition lib ConditionTypeAgentReady ConditionFalse ReasonAgentNotReady
                           (Sprintf ''Agent %s is in phase %s, expected Running'' [AS aname, AS (phaseText phase)]) trigger),
                      Inl (NewDependencyf ''agent %s is in phase %s, expected Running'' [AS aname, AS (phaseText phase)]), w)
                else if agentEndpoint = ''''
                then (Trigger_SetCondition lib ConditionTypeAgentReady ConditionFalse ReasonAgentNotReady
                        (Sprintf ''Agent %s has no URL in status'' [AS aname]) trigger,
                      Inl (NewDependencyf ''agent %s has no URL in status'' [AS aname]), w)
                else
                  (let trigger1 = Trigger_SetCondition lib ConditionTypeAgentReady ConditionTrue ReasonAgentResolved
                                    (Sprintf ''Agent %s resolved: %s'' [AS aname, AS agentEndpoint]) trigger in
                   case triggerPush deps w trigger of
                     Inl pushErr \<Rightarrow> (trigger1, Inl pushErr, w)
                   | Inr pushConfig \<Rightarrow>
                       (case storeTriggerConfig tc deps trigger (buildTriggerConfig trigger agentEndpoint pushConfig) w of
                          (Some err, w1) \<Rightarrow> (trigger1, Inl err, w1)
                        | (None, w1) \<Rightarrow>
                            (trigger1, Inr \<lparr>trr_AgentEndpoint = agentEndpoint,
                                            trr_SensorName = SensorName (om_Name (tr_Meta trigger))\<rparr>, w1))))))"

subsection \<open>The controller\<close>

definition agentTriggerFinalizer :: string where "agentTriggerFinalizer = ''agent.flokoa.ai/agenttrigger-finalizer''"

definition dependencyRequeueDelay :: int where "dependencyRequeueDelay = 30"

type_synonym ('w, 'o) retrier = "('o \<times> 'w \<Rightarrow> goerror option \<times> 'o \<times> 'w) \<Rightarrow> 'o \<times> 'w \<Rightarrow> goerror option \<times> 'o \<times> 'w"

definition handleReconcileError ::
  "k8slib \<Rightarrow> ('w, AgentTrigger) kclient \<Rightarrow> ('w, AgentTrigger) retrier \<Rightarrow> AgentTrigger \<Rightarrow> goerror \<Rightarrow> 'w \<Rightarrow> ctrlResult \<times> 'w" where
  "handleReconcileError lib kc retry trigger err w =
     (let status = (tr_Status trigger)\<lparr>trst_Phase := Trigger_CalculatePhase lib trigger,
            trst_ObservedGeneration := om_Generation (tr_Meta trigger)\<rparr>;
          (statusErr, w1) = updateStatusWithRetry retry kc (\<lambda>t. keyOf (tr_Meta t)) (\<lambda>t. t\<lparr>tr_Status := status\<rparr>) trigger w in
      if IsPermanent err then (ctrlDone, w1)
      else if IsDependency err then (\<lparr>cr_RequeueAfterSeconds = dependencyRequeueDelay, cr_Error = None\<rparr>, w1)
      else (\<lparr>cr_RequeueAfterSeconds = 0, cr_Error = Some err\<rparr>, w1))"

definition AgentTriggerReconciler_Reconcile ::
  "k8slib \<Rightarrow> textcodec \<Rightarrow> 'w tdeps \<Rightarrow> ('w, AgentTrigger) kclient \<Rightarrow> ('w, AgentTrigger) retrier \<Rightarrow> NamespacedName \<Rightarrow> 'w \<Rightarrow> ctrlResult \<times> 'w" where
  "AgentTriggerReconciler_Reconcile lib tc deps kc retry req w =
     (case kc_Get kc req w of
        Inl err \<Rightarrow> (if apierrors_IsNotFound err then ctrlDone else \<lparr>cr_RequeueAfterSeconds = 0, cr_Error = Some err\<rparr>, w)
      | Inr trigger \<Rightarrow>
          (let fins = om_Finalizers (tr_Meta trigger);
               withFinalizers = (\<lambda>fs. trigger\<lparr>tr_Meta := (tr_Meta trigger)\<lparr>om_Finalizers := fs\<rparr>\<rparr>) in
           if om_Deleting (tr_Meta trigger)
           then if agentTriggerFinalizer \<in> set fins
                then (case kc_Update kc (withFinalizers (filter (\<lambda>f. f \<noteq> agentTriggerFinalizer) fins)) w of
                        (Inl err, w1) \<Rightarrow> (\<lparr>cr_RequeueAfterSeconds = 0, cr_Error = Some err\<rparr>, w1)
                      | (Inr _, w1) \<Rightarrow> (ctrlDone, w1))
                else (ctrlDone, w)
           else if agentTriggerFinalizer \<notin> set fins
           then (case kc_Update kc (withFinalizers (fins @ [agentTriggerFinalizer])) w of
                   (Inl err, w1) \<Rightarrow> (\<lparr>cr_RequeueAfterSeconds = 0, cr_Error = Some err\<rparr>, w1)
                 | (Inr _, w1) \<Rightarrow> (\<lparr>cr_RequeueAfterSeconds = 1, cr_Error = None\<rparr>, w1))
           else (case Trigger_Reconcile lib tc deps trigger w of
                   (trigger1, Inl err, w1) \<Rightarrow> handleReconcileError lib kc retry trigger1 err w1
                 | (trigger1, Inr result, w1) \<Rightarrow>
                     (let trigger2 = Trigger_SetCondition lib ConditionTypeReady ConditionTrue ReasonAllReady
                            (Sprintf ''All conditions met'' []) trigger1;
                          status = (tr_Status trigger2)\<lparr>trst_Phase := Trigger_CalculatePhase lib trigger2,
                            trst_AgentEndpoint := trr_AgentEndpoint result, trst_SensorName := trr_SensorName result,
                            trst_ObservedGeneration := om_Generation (tr_Meta trigger2)\<rparr>;
                          (statusErr, w2) = updateStatusWithRetry retry kc (\<lambda>t. keyOf (tr_Meta t))
                            (\<lambda>t. t\<lparr>tr_Status := status\<rparr>) trigger2 w1 in
                      (\<lparr>cr_RequeueAfterSeconds = 0, cr_Error = statusErr\<rparr>, w2)))))"

subsubsection \<open>The watch on Agents\<close>

definition refersTo :: "string \<Rightarrow> AgentRef \<Rightarrow> NamespacedName \<Rightarrow> bool" where
  "refersTo triggerNS ref k =
     (ar_Name ref = nn_Name k \<and> (if ar_Namespace ref = '''' then triggerNS else ar_Namespace ref) = nn_Namespace k)"

definition pushRefOf :: "AgentTrigger \<Rightarrow> AgentRef option" where
  "pushRefOf t = (case trs_PushNotification (tr_Spec t) of None \<Rightarrow> None | Some p \<Rightarrow> pnt_AgentRef p)"

definition triggerRequests :: "NamespacedName \<Rightarrow> AgentTrigger \<Rightarrow> NamespacedName list" where
  "triggerRequests k t =
     (let ns = om_Namespace (tr_Meta t) in
      (if refersTo ns (trs_Agent (tr_Spec t)) k then [keyOf (tr_Meta t)] else []) @
      (case pushRefOf t of None \<Rightarrow> [] | Some ref \<Rightarrow> if refersTo ns ref k then [keyOf (tr_Meta t)] else []))"

fun dedupFrom :: "NamespacedName list \<Rightarrow> NamespacedName list \<Rightarrow> NamespacedName list" where
  "dedupFrom seen [] = []"
| "dedupFrom seen (r # rs) = (if r \<in> set seen then dedupFrom seen rs else r # dedupFrom (r # seen) rs)"

definition dedupTriggerRequests :: "NamespacedName list \<Rightarrow> NamespacedName list" where
  "dedupTriggerRequests requests = dedupFrom [] requests"

text \<open>\<open>listIn\<close> is the client's list restricted to one namespace.\<close>

definition findTriggersForAgent :: "(string \<Rightarrow> AgentTrigger list result) \<Rightarrow> NamespacedName \<Rightarrow> NamespacedName list" where
  "findTriggersForAgent listIn k =
     (case listIn (nn_Namespace k) of
        Inl err \<Rightarrow> []
      | Inr triggers \<Rightarrow> dedupTriggerRequests (concat (map (triggerRequests k) triggers)))"

subsection \<open>The configuration survives its document\<close>

lemma toLower_fields:
  "toLower ''agentEndpoint'' = ''agentendpoint''" "toLower ''sessionKeyFrom'' = ''sessionkeyfrom''"
  "toLower ''pushNotificationConfig'' = ''pushnotificationconfig''" "toLower ''limits'' = ''limits''" "toLower ''metadata'' = ''metadata''"
  "toLower ''url'' = ''url''" "toLower ''authentication'' = ''authentication''" "toLower ''token'' = ''token''"
  "toLower ''schemes'' = ''schemes''" "toLower ''credentials'' = ''credentials''"
  "toLower ''maxInvocationsPerHour'' = ''maxinvocationsperhour''" "toLower ''maxConcurrentTasks'' = ''maxconcurrenttasks''"
  "toLower ''tokenBudgetPerEvent'' = ''tokenbudgetperevent''" "toLower ''tokenBudgetPerHour'' = ''tokenbudgetperhour''"
  by code_simp+

lemmas field_simps_cfg = fieldOr_def jfield_def optField_def strField_def toLower_fields

definition inWidth :: "nat \<Rightarrow> int option \<Rightarrow> bool" where
  "inWidth bits x = (case x of None \<Rightarrow> True | Some i \<Rightarrow> - (2 ^ (bits - 1)) \<le> i \<and> i < 2 ^ (bits - 1))"

text \<open>The limits fit the Go types of their fields.\<close>

definition limitsInRange :: "LimitsConfig option \<Rightarrow> bool" where
  "limitsInRange l =
     (case l of None \<Rightarrow> True
      | Some l \<Rightarrow> inWidth 32 (lc_MaxInvocationsPerHour l) \<and> inWidth 32 (lc_MaxConcurrentTasks l) \<and>
                  inWidth 32 (lc_TokenBudgetPerEvent l) \<and> inWidth 64 (lc_TokenBudgetPerHour l))"

lemma decIntW_dec: "inWidth bits (Some i) \<Longrightarrow> decIntW bits (JNum (dec_int i)) = Inr (Some i)"
  by (simp add: decIntW_def inWidth_def parseInt_dec_int)

lemma decAuthConfig_enc: "decAuthConfig (encAuthConfig a) = Inr a"
  by (simp add: decAuthConfig_def encAuthConfig_def field_simps_cfg decStrings)

lemma decPushConfig_enc: "decPushConfig (encPushConfig p) = Inr p"
  by (cases "pu_Authentication p")
     (simp_all add: decPushConfig_def encPushConfig_def field_simps_cfg decPtr_def decAuthConfig_enc encAuthConfig_def[symmetric], simp add: encAuthConfig_def)

lemma decLimits_enc:
  assumes "limitsInRange (Some l)"
  shows "decLimits (encLimits l) = Inr l"
proof -
  have w: "inWidth 32 (lc_MaxInvocationsPerHour l)" "inWidth 32 (lc_MaxConcurrentTasks l)" "inWidth 32 (lc_TokenBudgetPerEvent l)"
    "inWidth 64 (lc_TokenBudgetPerHour l)" using assms by (simp_all add: limitsInRange_def)
  let ?kvs = "optField ''maxInvocationsPerHour'' (\<lambda>i. JNum (dec_int i)) (lc_MaxInvocationsPerHour l) @
     optField ''maxConcurrentTasks'' (\<lambda>i. JNum (dec_int i)) (lc_MaxConcurrentTasks l) @
     optField ''tokenBudgetPerEvent'' (\<lambda>i. JNum (dec_int i)) (lc_TokenBudgetPerEvent l) @
     optField ''tokenBudgetPerHour'' (\<lambda>i. JNum (dec_int i)) (lc_TokenBudgetPerHour l)"
  have j: "jfield ?kvs ''maxInvocationsPerHour'' = map_option (\<lambda>i. JNum (dec_int i)) (lc_MaxInvocationsPerHour l)"
    "jfield ?kvs ''maxConcurrentTasks'' = map_option (\<lambda>i. JNum (dec_int i)) (lc_MaxConcurrentTasks l)"
    "jfield ?kvs ''tokenBudgetPerEvent'' = map_option (\<lambda>i. JNum (dec_int i)) (lc_TokenBudgetPerEvent l)"
    "jfield ?kvs ''tokenBudgetPerHour'' = map_option (\<lambda>i. JNum (dec_int i)) (lc_TokenBudgetPerHour l)"
    by (simp_all add: field_simps_cfg split: option.split)
  have f: "fieldOr None (decIntW b) k ?kvs = Inr x" if "jfield ?kvs k = map_option (\<lambda>i. JNum (dec_int i)) x" "inWidth b x" for b k x
    using that by (cases x) (simp_all add: fieldOr_def decIntW_dec)
  show ?thesis
    unfolding encLimits_def decLimits_def decObj.simps f[OF j(1) w(1)] f[OF j(2) w(2)] f[OF j(3) w(3)] f[OF j(4) w(4)] by simp
qed

lemma decStringMap_enc: "decStringMap (JObj (map (\<lambda>(k, v). (k, JStr v)) m)) = Inr m"
  by (induction m) auto

definition sortedMetadata :: "TriggerConfig \<Rightarrow> TriggerConfig" where
  "sortedMetadata c = c\<lparr>tcf_Metadata := sort_key fst (tcf_Metadata c)\<rparr>"

lemma decTriggerConfig_enc:
  assumes "limitsInRange (tcf_Limits c)"
  shows "decTriggerConfig (encTriggerConfig c) = Inr (sortedMetadata c)"
proof -
  let ?kvs = "[(''agentEndpoint'', JStr (tcf_AgentEndpoint c))] @ strField ''sessionKeyFrom'' (tcf_SessionKeyFrom c) @
     optField ''pushNotificationConfig'' encPushConfig (tcf_PushNotificationConfig c) @
     optField ''limits'' encLimits (tcf_Limits c) @
     (if tcf_Metadata c = [] then []
      else [(''metadata'', JObj (map (\<lambda>(k, v). (k, JStr v)) (sort_key fst (tcf_Metadata c))))])"
  have s: "fString ''agentEndpoint'' ?kvs = Inr (tcf_AgentEndpoint c)" "fString ''sessionKeyFrom'' ?kvs = Inr (tcf_SessionKeyFrom c)"
    by (simp_all add: field_simps_cfg split: option.split)
  have j: "jfield ?kvs ''pushNotificationConfig'' = map_option encPushConfig (tcf_PushNotificationConfig c)"
    "jfield ?kvs ''limits'' = map_option encLimits (tcf_Limits c)"
    "jfield ?kvs ''metadata'' = (if tcf_Metadata c = [] then None
       else Some (JObj (map (\<lambda>(k, v). (k, JStr v)) (sort_key fst (tcf_Metadata c)))))"
    by (simp_all add: field_simps_cfg split: option.split)
  have p: "fieldOr None (decPtr decPushConfig) ''pushNotificationConfig'' ?kvs = Inr (tcf_PushNotificationConfig c)"
    unfolding fieldOr_def j(1) by (cases "tcf_PushNotificationConfig c") (simp_all add: decPtr_def decPushConfig_enc, simp add: encPushConfig_def)
  have l: "fieldOr None (decPtr decLimits) ''limits'' ?kvs = Inr (tcf_Limits c)"
    unfolding fieldOr_def j(2) using assms
    by (cases "tcf_Limits c") (simp_all add: decPtr_def decLimits_enc, simp add: encLimits_def)
  have m: "fieldOr [] decStringMap ''metadata'' ?kvs = Inr (sort_key fst (tcf_Metadata c))"
    unfolding fieldOr_def j(3) by (simp add: decStringMap_enc del: decStringMap.simps)
  show ?thesis unfolding encTriggerConfig_def decTriggerConfig_def decObj.simps s p l m by (simp add: sortedMetadata_def)
qed

subsection \<open>What a reconcile does to the status\<close>

abbreviation readyStatus :: "k8slib \<Rightarrow> AgentTrigger \<Rightarrow> ConditionStatus option" where
  "readyStatus lib t \<equiv> cond_status lib (trst_Conditions (tr_Status t)) ConditionTypeReady"

lemma trigger_cond_types: "ConditionTypeReady \<noteq> ConditionTypeAgentReady"
  by (simp add: ConditionTypeReady_def ConditionTypeAgentReady_def)

lemma Trigger_SetCondition_find:
  assumes "status_condition_laws lib" "t \<noteq> ctype"
  shows "lib_FindStatusCondition lib (trst_Conditions (tr_Status (Trigger_SetCondition lib ctype s r m tr))) t =
         lib_FindStatusCondition lib (trst_Conditions (tr_Status tr)) t"
  using assms(2) by (simp add: Trigger_SetCondition_def cond_set_other(1)[OF assms(1)])

lemma Trigger_SetCondition_status:
  assumes "status_condition_laws lib"
  shows "cond_status lib (trst_Conditions (tr_Status (Trigger_SetCondition lib t s r m tr))) t = Some s"
    and "cond_reason lib (trst_Conditions (tr_Status (Trigger_SetCondition lib t s r m tr))) t = Some r"
  by (simp_all add: Trigger_SetCondition_def cond_set[OF assms])

lemma Trigger_CalculatePhase_frame:
  assumes "status_condition_laws lib"
  shows "Trigger_CalculatePhase lib (Trigger_SetCondition lib ConditionTypeAgentReady s r m tr) = Trigger_CalculatePhase lib tr"
  using Trigger_SetCondition_find[OF assms trigger_cond_types] by (simp add: Trigger_CalculatePhase_def)

lemma Trigger_CalculatePhase_set:
  assumes "status_condition_laws lib"
  shows "Trigger_CalculatePhase lib (Trigger_SetCondition lib ConditionTypeReady s r m tr) =
     (if s = ConditionTrue then AgentTriggerPhaseRunning
      else if r = ReasonValidationFailed \<or> r = ReasonArgoEventsNotInstall then AgentTriggerPhaseFailed else AgentTriggerPhasePending)"
  using Trigger_SetCondition_status[OF assms, of ConditionTypeReady s r m tr]
  by (auto simp: Trigger_CalculatePhase_def cond_status_def cond_reason_def)

text \<open>The agent a trigger needs is there and running.\<close>

definition agentRunning :: "'w tdeps \<Rightarrow> AgentTrigger \<Rightarrow> 'w \<Rightarrow> bool" where
  "agentRunning deps trigger w =
     (case td_GetAgent deps (triggerAgentKey trigger) w of Inl _ \<Rightarrow> False | Inr a \<Rightarrow> ast_Phase (ag_Status a) = AgentPhaseRunning)"

text \<open>The phase a failed trigger reconcile reports. A rejected specification gives Failed and a missing or not
  running agent gives Pending; every other failure (no agent URL, an unresolvable push target, a missing secret or key,
  a failed ConfigMap write) leaves the Ready condition as it was, so a trigger that once worked keeps reporting
  Running while its configuration can no longer be renewed.\<close>

theorem Trigger_Reconcile_failed_phase:
  assumes "status_condition_laws lib" and "Trigger_Reconcile lib tc deps trigger w = (trigger1, Inl err, w1)"
  shows "Trigger_CalculatePhase lib trigger1 =
     (if Trigger_ValidateSpec trigger \<noteq> None then AgentTriggerPhaseFailed
      else if \<not> agentRunning deps trigger w then AgentTriggerPhasePending
      else Trigger_CalculatePhase lib trigger)"
proof (cases "Trigger_ValidateSpec trigger")
  case (Some e)
  then show ?thesis using assms(2) by (auto simp: Trigger_Reconcile_def Trigger_CalculatePhase_set[OF assms(1)] ReasonValidationFailed_def)
next
  case None
  note r = assms(2)[unfolded Trigger_Reconcile_def None option.case Let_def]
  show ?thesis
  proof (cases "td_GetAgent deps (triggerAgentKey trigger) w")
    case (Inl e)
    then show ?thesis using r None
      by (auto simp: agentRunning_def Trigger_CalculatePhase_set[OF assms(1)] ReasonValidationFailed_def ReasonArgoEventsNotInstall_def ReasonAgentNotFound_def)
  next
    case (Inr a)
    show ?thesis
    proof (cases "ast_Phase (ag_Status a) = AgentPhaseRunning")
      case False
      then show ?thesis using r None Inr
        by (auto simp: agentRunning_def Trigger_CalculatePhase_set[OF assms(1)] ReasonValidationFailed_def ReasonArgoEventsNotInstall_def ReasonAgentNotReady_def)
    next
      case True
      have "\<exists>s r m. trigger1 = Trigger_SetCondition lib ConditionTypeAgentReady s r m trigger"
      proof (cases "ast_URL (ag_Status a) = ''''")
        case True
        then show ?thesis using r Inr \<open>ast_Phase (ag_Status a) = AgentPhaseRunning\<close> by auto
      next
        case False
        then have "trigger1 = Trigger_SetCondition lib ConditionTypeAgentReady ConditionTrue ReasonAgentResolved
            (Sprintf ''Agent %s resolved: %s'' [AS (om_Name (ag_Meta a)), AS (ast_URL (ag_Status a))]) trigger"
          using r Inr \<open>ast_Phase (ag_Status a) = AgentPhaseRunning\<close> by (simp split: sum.splits prod.splits option.splits)
        then show ?thesis by blast
      qed
      then show ?thesis using None Inr True by (auto simp: agentRunning_def Trigger_CalculatePhase_frame[OF assms(1)])
    qed
  qed
qed

subsection \<open>The watch on Agents requests the triggers of its own namespace\<close>

lemma dedupFrom_facts: "set (dedupFrom seen rs) = set rs - set seen" "distinct (dedupFrom seen rs)"
  by (induction rs arbitrary: seen) auto

text \<open>A change of an Agent requests each trigger at most once, and exactly the triggers that are in the Agent's own namespace and
  refer to it as their agent or as their push target; a trigger that refers to the Agent from another
  namespace is never requested, so it does not notice that the Agent changed.\<close>

theorem findTriggersForAgent_exact:
  assumes "\<And>ns. listIn ns = Inr (filter (\<lambda>t. om_Namespace (tr_Meta t) = ns) triggers)"
  shows "distinct (findTriggersForAgent listIn k) \<and>
    set (findTriggersForAgent listIn k) =
      (\<lambda>t. keyOf (tr_Meta t)) ` {t \<in> set triggers. om_Namespace (tr_Meta t) = nn_Namespace k \<and>
         (refersTo (om_Namespace (tr_Meta t)) (trs_Agent (tr_Spec t)) k \<or>
          (\<exists>ref. pushRefOf t = Some ref \<and> refersTo (om_Namespace (tr_Meta t)) ref k))}"
proof -
  let ?rs = "concat (map (triggerRequests k) (filter (\<lambda>t. om_Namespace (tr_Meta t) = nn_Namespace k) triggers))"
  have e: "findTriggersForAgent listIn k = dedupFrom [] ?rs" by (simp add: findTriggersForAgent_def assms dedupTriggerRequests_def)
  have "x \<in> set (triggerRequests k t) \<longleftrightarrow> x = keyOf (tr_Meta t) \<and>
      (refersTo (om_Namespace (tr_Meta t)) (trs_Agent (tr_Spec t)) k \<or> (\<exists>ref. pushRefOf t = Some ref \<and> refersTo (om_Namespace (tr_Meta t)) ref k))" for x t
    by (auto simp: triggerRequests_def Let_def split: option.split)
  then have "set ?rs = (\<lambda>t. keyOf (tr_Meta t)) ` {t \<in> set triggers. om_Namespace (tr_Meta t) = nn_Namespace k \<and>
         (refersTo (om_Namespace (tr_Meta t)) (trs_Agent (tr_Spec t)) k \<or>
          (\<exists>ref. pushRefOf t = Some ref \<and> refersTo (om_Namespace (tr_Meta t)) ref k))}"
    by (simp only: set_concat set_map set_filter image_image) blast
  then show ?thesis unfolding e by (simp only: dedupFrom_facts) simp
qed

subsection \<open>Witnesses\<close>

definition orderTrigger :: AgentTrigger where
  "orderTrigger = \<lparr>tr_Meta = objectMeta ''orders'' ''shop'' [] [],
     tr_Spec = \<lparr>trs_EventSource = \<lparr>es_Name = ''kafka'', es_EventName = ''order''\<rparr>, trs_EventBus = None, trs_Filter = None,
       trs_Agent = \<lparr>ar_Name = ''a'', ar_Namespace = ''ns''\<rparr>, trs_Task = None, trs_PushNotification = None,
       trs_Limits = Some \<lparr>tl_MaxInvocationsPerHour = Some 5, tl_MaxConcurrentTasks = None, tl_TokenBudgetPerEvent = None,
         tl_TokenBudgetPerHour = None, tl_DeadLetterSink = None\<rparr>\<rparr>,
     tr_Status = \<lparr>trst_Phase = AgentTriggerPhaseRunning, trst_SensorName = '''', trst_AgentEndpoint = '''', trst_Invocations = None,
       trst_Conditions = [\<lparr>c_Type = ConditionTypeReady, c_Status = ConditionTrue, c_ObservedGeneration = 0, c_LastTransitionTime = 0,
         c_Reason = ReasonAllReady, c_Message = NoText\<rparr>], trst_ObservedGeneration = 0\<rparr>\<rparr>"

text \<open>A cluster whose agent runs but, in the second case, has lost its URL.\<close>

definition orderDeps :: "string \<Rightarrow> ConfigMap cluster tdeps" where
  "orderDeps url = \<lparr>td_GetAgent = (\<lambda>k w. Inr (demoAgent\<lparr>ag_Status := (ag_Status demoAgent)\<lparr>ast_Phase := AgentPhaseRunning, ast_URL := url\<rparr>\<rparr>)),
     td_GetSecret = (\<lambda>k w. Inl (ApiError StatusNotFound '''')), td_ConfigMaps = memClient (\<lambda>c. keyOf (cm_Meta c)),
     td_SetOwner = (\<lambda>t m. Inr (m\<lparr>om_OwnerUID := Some (om_UID (tr_Meta t))\<rparr>))\<rparr>"

theorem Trigger_Reconcile_failed_phase_witness:
  "\<exists>trigger1 err w1. Trigger_Reconcile stdlib demoCodec (orderDeps '''') orderTrigger [] = (trigger1, Inl err, w1) \<and>
     Trigger_CalculatePhase stdlib trigger1 = AgentTriggerPhaseRunning"
proof -
  obtain trigger1 res w1 where r: "Trigger_Reconcile stdlib demoCodec (orderDeps '''') orderTrigger [] = (trigger1, res, w1)"
    by (metis surj_pair)
  have "isl (fst (snd (Trigger_Reconcile stdlib demoCodec (orderDeps '''') orderTrigger [])))" by code_simp
  then obtain err where e: "res = Inl err" using r by (auto simp: isl_def)
  have "Trigger_ValidateSpec orderTrigger = None" "agentRunning (orderDeps '''') orderTrigger []"
    "Trigger_CalculatePhase stdlib orderTrigger = AgentTriggerPhaseRunning" by code_simp+
  with Trigger_Reconcile_failed_phase[OF stdlib_condition_laws r[unfolded e]] r e show ?thesis by auto
qed

theorem findTriggersForAgent_exact_witness:
  "findTriggersForAgent (\<lambda>ns. Inr (filter (\<lambda>t. om_Namespace (tr_Meta t) = ns) [orderTrigger])) \<lparr>nn_Name = ''a'', nn_Namespace = ''ns''\<rparr> = []"
proof -
  have "om_Namespace (tr_Meta orderTrigger) \<noteq> ''ns''" by (simp add: orderTrigger_def objectMeta_def)
  then have e: "{t \<in> set [orderTrigger]. om_Namespace (tr_Meta t) = nn_Namespace \<lparr>nn_Name = ''a'', nn_Namespace = ''ns''\<rparr> \<and> P t} = {}" for P
    by auto
  show ?thesis
    using conjunct2[OF findTriggersForAgent_exact[of "\<lambda>ns. Inr (filter (\<lambda>t. om_Namespace (tr_Meta t) = ns) [orderTrigger])"
        "[orderTrigger]" "\<lparr>nn_Name = ''a'', nn_Namespace = ''ns''\<rparr>", OF refl]]
    unfolding e by (simp only: image_empty set_empty)
qed

end
