(* ===== verification/TriggerServer.thy ===== *)
theory TriggerServer
  imports TriggerService
begin

text \<open>
  The event side of the API server: \<open>internal/server/trigger_limiter.go\<close>, \<open>trigger_handler.go\<close>,
  \<open>trigger_session.go\<close> and \<open>push_gateway.go\<close>. Times are nanoseconds. The limiter holds its mutex during a call, so its
  history is a sequence of calls; the in-flight counter is an \<open>int32\<close> and wraps.
\<close>

subsection \<open>Limiter\<close>

record triggerCounters =
  tcn_invocations :: "int list"
  tcn_activeTasks :: int

type_synonym TriggerLimiter = "triggerCounters smap"

definition NewTriggerLimiter :: TriggerLimiter where
  "NewTriggerLimiter = []"

definition oneHour :: int where "oneHour = 3600 * 1000000000"

definition limiterKey :: "string \<Rightarrow> string \<Rightarrow> string" where
  "limiterKey name ns = ns @ ''/'' @ name"

definition countersOf :: "TriggerLimiter \<Rightarrow> string \<Rightarrow> triggerCounters" where
  "countersOf l key = (case mget l key of None \<Rightarrow> \<lparr>tcn_invocations = [], tcn_activeTasks = 0\<rparr> | Some c \<Rightarrow> c)"

text \<open>A limit that is set and positive.\<close>

definition activeLimit :: "int option \<Rightarrow> int option" where
  "activeLimit x = (case x of None \<Rightarrow> None | Some m \<Rightarrow> if m > 0 then Some m else None)"

definition TriggerLimiter_Check ::
  "string \<Rightarrow> string \<Rightarrow> LimitsConfig option \<Rightarrow> int \<Rightarrow> TriggerLimiter \<Rightarrow> goerror option \<times> TriggerLimiter" where
  "TriggerLimiter_Check name ns limits now l =
     (case limits of
        None \<Rightarrow> (None, l)
      | Some lim \<Rightarrow>
          (let key = limiterKey name ns; c = countersOf l key;
               pruned = filter (\<lambda>t. now - oneHour < t) (tcn_invocations c);
               c1 = c\<lparr>tcn_invocations := pruned\<rparr>; l1 = mput key c1 l in
           case (case activeLimit (lc_MaxInvocationsPerHour lim) of
                   None \<Rightarrow> None
                 | Some m \<Rightarrow> if m \<le> toInt32 (int (length pruned))
                             then Some (Errorf ''invocations_per_hour limit exceeded: %d/%d'' [AI (int (length pruned)), AI m]) else None) of
             Some e \<Rightarrow> (Some e, l1)
           | None \<Rightarrow>
               (case (case activeLimit (lc_MaxConcurrentTasks lim) of
                        None \<Rightarrow> None
                      | Some m \<Rightarrow> if m \<le> tcn_activeTasks c
                                  then Some (Errorf ''concurrent_tasks limit exceeded: %d/%d'' [AI (tcn_activeTasks c), AI m]) else None) of
                  Some e \<Rightarrow> (Some e, l1)
                | None \<Rightarrow> (None, mput key \<lparr>tcn_invocations = pruned @ [now], tcn_activeTasks = toInt32 (tcn_activeTasks c + 1)\<rparr> l))))"

definition TaskCompleted :: "string \<Rightarrow> string \<Rightarrow> TriggerLimiter \<Rightarrow> TriggerLimiter" where
  "TaskCompleted name ns l =
     (case mget l (limiterKey name ns) of
        None \<Rightarrow> l
      | Some c \<Rightarrow> if tcn_activeTasks c > 0
                  then mput (limiterKey name ns) (c\<lparr>tcn_activeTasks := tcn_activeTasks c - 1\<rparr>) l else l)"

subsection \<open>Session keys\<close>

record sessionlib =
  sl_jsonpath :: "string \<Rightarrow> gval \<Rightarrow> gval result"
  sl_formatFloat :: "float64 \<Rightarrow> string"
  sl_sha256hex :: "string \<Rightarrow> string"

definition sessionText :: "sessionlib \<Rightarrow> textcodec \<Rightarrow> gval \<Rightarrow> string option" where
  "sessionText sl tc v =
     (case v of
        GString s \<Rightarrow> Some s
      | GFloat f \<Rightarrow> Some (sl_formatFloat sl f)
      | GBool b \<Rightarrow> Some (if b then ''true'' else ''false'')
      | _ \<Rightarrow> (case canon v of Inl _ \<Rightarrow> None | Inr j \<Rightarrow> Some (tc_print tc j)))"

definition ExtractSessionKey :: "sessionlib \<Rightarrow> textcodec \<Rightarrow> numlib \<Rightarrow> string \<Rightarrow> rawjson \<Rightarrow> string" where
  "ExtractSessionKey sl tc nl sessionKeyFrom eventData =
     (if sessionKeyFrom = '''' then ''''
      else case eventData of
             RawBad \<Rightarrow> ''''
           | Raw j \<Rightarrow>
               (case sl_jsonpath sl sessionKeyFrom (fromJson nl j) of
                  Inl _ \<Rightarrow> ''''
                | Inr v \<Rightarrow>
                    (case sessionText sl tc v of
                       None \<Rightarrow> ''''
                     | Some valueStr \<Rightarrow> if valueStr = '''' then '''' else take 32 (sl_sha256hex sl valueStr))))"

subsection \<open>The invoke endpoint\<close>

record TriggerInvokePayload =
  tip_Data :: "json option"
  tip_EventID :: string
  tip_EventType :: string
  tip_EventSource :: string
  tip_EventTime :: string

definition decPayload :: "json \<Rightarrow> TriggerInvokePayload result" where
  "decPayload = decObj (\<lambda>o1. bindR (fString ''eventId'' o1) (\<lambda>i. bindR (fString ''eventType'' o1) (\<lambda>t.
     bindR (fString ''eventSource'' o1) (\<lambda>s. bindR (fString ''eventTime'' o1) (\<lambda>tm.
     Inr \<lparr>tip_Data = jfield o1 ''data'', tip_EventID = i, tip_EventType = t, tip_EventSource = s, tip_EventTime = tm\<rparr>)))))"

definition loadTriggerConfig :: "textcodec \<Rightarrow> ('w, ConfigMap) kclient \<Rightarrow> string \<Rightarrow> string \<Rightarrow> 'w \<Rightarrow> TriggerConfig result" where
  "loadTriggerConfig tc kc ns name w =
     (let cmName = Trigger_ConfigMapName name in
      case kc_Get kc \<lparr>nn_Name = cmName, nn_Namespace = ns\<rparr> w of
        Inl err \<Rightarrow> Inl (ErrorfW ''failed to get trigger config ConfigMap %s: %w'' [AS cmName] err)
      | Inr cm \<Rightarrow>
          (case mget (cm_Data cm) ''config.json'' of
             None \<Rightarrow> Inl (Errorf ''config.json not found in ConfigMap %s'' [AS cmName])
           | Some configJSON \<Rightarrow>
               (case bindR (tc_parse tc configJSON) decTriggerConfig of
                  Inl err \<Rightarrow> Inl (ErrorfW ''failed to unmarshal trigger config: %w'' [] err)
                | Inr config \<Rightarrow> Inr config)))"

text \<open>The status code of the response; \<open>body\<close> is what reading the request body yields.\<close>

definition TriggerHandler_ServeHTTP ::
  "textcodec \<Rightarrow> ('w, ConfigMap) kclient \<Rightarrow> string \<Rightarrow> string \<Rightarrow> string \<Rightarrow> string result \<Rightarrow> int \<Rightarrow> TriggerLimiter \<Rightarrow> 'w \<Rightarrow> int \<times> TriggerLimiter" where
  "TriggerHandler_ServeHTTP tc kc method ns name body now l w =
     (if method \<noteq> ''POST'' then (405, l)
      else if ns = '''' \<or> name = '''' then (400, l)
      else case body of
             Inl err \<Rightarrow> (400, l)
           | Inr b \<Rightarrow>
               (case bindR (tc_parse tc b) decPayload of
                  Inl err \<Rightarrow> (400, l)
                | Inr payload \<Rightarrow>
                    (case loadTriggerConfig tc kc ns name w of
                       Inl err \<Rightarrow> (404, l)
                     | Inr config \<Rightarrow>
                         (case TriggerLimiter_Check name ns (tcf_Limits config) now l of
                            (Some err, l1) \<Rightarrow> (429, l1)
                          | (None, l1) \<Rightarrow> (200, l1)))))"

subsection \<open>The push gateway\<close>

text \<open>\<open>forward\<close> is the HTTP client: the status of the agent's response, and whether a request to the URL can be built.\<close>

definition PushGatewayHandler_ServeHTTP ::
  "('w, Agent) kclient \<Rightarrow> (string \<Rightarrow> goerror option) \<Rightarrow> (string \<Rightarrow> string \<Rightarrow> string \<Rightarrow> 'w \<Rightarrow> int result \<times> 'w)
   \<Rightarrow> string \<Rightarrow> string \<Rightarrow> string \<Rightarrow> string result \<Rightarrow> string \<Rightarrow> 'w \<Rightarrow> int \<times> 'w" where
  "PushGatewayHandler_ServeHTTP kc newRequest forward method ns name body contentType w =
     (if method \<noteq> ''POST'' then (405, w)
      else if ns = '''' \<or> name = '''' then (400, w)
      else case body of
             Inl err \<Rightarrow> (400, w)
           | Inr b \<Rightarrow>
               (case kc_Get kc \<lparr>nn_Name = name, nn_Namespace = ns\<rparr> w of
                  Inl err \<Rightarrow> (if apierrors_IsNotFound err then 404 else 500, w)
                | Inr agent \<Rightarrow>
                    if ast_URL (ag_Status agent) = '''' then (503, w)
                    else case newRequest (ast_URL (ag_Status agent)) of
                           Some err \<Rightarrow> (500, w)
                         | None \<Rightarrow>
                             (case forward (ast_URL (ag_Status agent)) contentType b w of
                                (Inl err, w1) \<Rightarrow> (502, w1)
                              | (Inr status, w1) \<Rightarrow> (status, w1))))"

subsection \<open>Histories of the limiter\<close>

datatype limOp = OpCheck string string "LimitsConfig option" int | OpCompleted string string

fun limStep :: "limOp \<Rightarrow> TriggerLimiter \<Rightarrow> (string \<times> int) list \<times> TriggerLimiter" where
  "limStep (OpCheck name ns limits now) l =
     (case TriggerLimiter_Check name ns limits now l of
        (None, l1) \<Rightarrow> ([(limiterKey name ns, now)], l1) | (Some e, l1) \<Rightarrow> ([], l1))"
| "limStep (OpCompleted name ns) l = ([], TaskCompleted name ns l)"

text \<open>The accepted invocations of a history, with the time of their check, and the limiter at its end.\<close>

fun limRun :: "limOp list \<Rightarrow> TriggerLimiter \<Rightarrow> (string \<times> int) list \<times> TriggerLimiter" where
  "limRun [] l = ([], l)"
| "limRun (op # ops) l = (case limStep op l of (acc, l1) \<Rightarrow> (case limRun ops l1 of (acc2, l2) \<Rightarrow> (acc @ acc2, l2)))"

fun checkTimes :: "limOp list \<Rightarrow> int list" where
  "checkTimes [] = []"
| "checkTimes (OpCheck name ns limits now # ops) = now # checkTimes ops"
| "checkTimes (OpCompleted name ns # ops) = checkTimes ops"

text \<open>Every check of one trigger carries a limit that satisfies a predicate.\<close>

fun limitsOn :: "(LimitsConfig \<Rightarrow> bool) \<Rightarrow> string \<Rightarrow> limOp list \<Rightarrow> bool" where
  "limitsOn P key [] = True"
| "limitsOn P key (OpCheck name ns limits now # ops) =
     ((limiterKey name ns = key \<longrightarrow> (case limits of None \<Rightarrow> False | Some l \<Rightarrow> P l)) \<and> limitsOn P key ops)"
| "limitsOn P key (OpCompleted name ns # ops) = limitsOn P key ops"

definition acceptedAt :: "string \<Rightarrow> (string \<times> int) list \<Rightarrow> int list" where
  "acceptedAt key acc = map snd (filter (\<lambda>(k, t). k = key) acc)"

definition inWindow :: "int \<Rightarrow> int list \<Rightarrow> int list" where
  "inWindow T ts = filter (\<lambda>t. T - oneHour < t \<and> t \<le> T) ts"

lemma acceptedAt_append [simp]: "acceptedAt key (a @ b) = acceptedAt key a @ acceptedAt key b"
  by (simp add: acceptedAt_def)

lemma countersOf_mput: "countersOf (mput k c l) k' = (if k' = k then c else countersOf l k')"
  by (simp add: countersOf_def)

lemma toInt32_id: "0 \<le> i \<Longrightarrow> i < 2 ^ 31 \<Longrightarrow> toInt32 i = i"
  unfolding toInt32_def by (simp add: signed_of_int signed_take_bit_int_eq_self)

lemma length_filter_le:
  "(\<And>x. x \<in> set xs \<Longrightarrow> P x \<Longrightarrow> Q x) \<Longrightarrow> length (filter P xs) \<le> length (filter Q xs)"
  by (induction xs) (auto intro: le_SucI)

text \<open>The counter of a trigger is the accepted times of the last hour before its last check, and no hour has too many.\<close>

definition hourlyInv :: "int \<Rightarrow> string \<Rightarrow> TriggerLimiter \<Rightarrow> int list \<Rightarrow> int \<Rightarrow> bool" where
  "hourlyInv m key l acc b \<longleftrightarrow>
     (\<exists>c0 \<le> b. tcn_invocations (countersOf l key) = filter (\<lambda>t. c0 - oneHour < t) acc) \<and>
     (\<forall>t \<in> set acc. t \<le> b) \<and> (\<forall>T. int (length (inWindow T acc)) \<le> m)"

lemma hourly_check:
  assumes inv: "hourlyInv m key l acc b" and "b \<le> now" and key: "key = limiterKey name ns"
    and lim: "activeLimit (lc_MaxInvocationsPerHour lim) = Some m" "m < 2 ^ 31"
    and ck: "TriggerLimiter_Check name ns (Some lim) now l = (e, l1)"
  shows "hourlyInv m key l1 (acc @ (if e = None then [now] else [])) now"
proof -
  let ?pruned = "filter (\<lambda>t. now - oneHour < t) acc"
  obtain c0 where c0: "c0 \<le> b" "tcn_invocations (countersOf l key) = filter (\<lambda>t. c0 - oneHour < t) acc"
    and le: "\<forall>t \<in> set acc. t \<le> b" and win: "\<And>T. int (length (inWindow T acc)) \<le> m"
    using inv by (auto simp: hourlyInv_def)
  have p: "filter (\<lambda>t. now - oneHour < t) (tcn_invocations (countersOf l key)) = ?pruned"
    using c0 assms(2) by (auto simp: filter_filter intro!: filter_cong)
  have pw: "inWindow now acc = ?pruned" using le assms(2) by (auto simp: inWindow_def intro!: filter_cong)
  then have small: "int (length ?pruned) \<le> m" using win[of now] by simp
  have i32: "toInt32 (int (length ?pruned)) = int (length ?pruned)" using small lim(2) by (intro toInt32_id) auto
  have ck': "if m \<le> int (length ?pruned) then e \<noteq> None \<and> tcn_invocations (countersOf l1 key) = ?pruned
      else (e \<noteq> None \<and> tcn_invocations (countersOf l1 key) = ?pruned) \<or> (e = None \<and> tcn_invocations (countersOf l1 key) = ?pruned @ [now])"
    using ck by (auto simp: TriggerLimiter_Check_def Let_def lim(1) p[unfolded key] i32 key countersOf_mput split: if_splits option.splits)
  show ?thesis
  proof (cases "e = None")
    case False
    then have "tcn_invocations (countersOf l1 key) = ?pruned" using ck' by (auto split: if_splits)
    then show ?thesis using False le win assms(2) by (fastforce simp: hourlyInv_def)
  next
    case True
    then have c: "tcn_invocations (countersOf l1 key) = ?pruned @ [now]" "int (length ?pruned) < m" using ck' by (auto split: if_splits)
    have "int (length (inWindow T (acc @ [now]))) \<le> m" for T
    proof (cases "now \<le> T")
      case True
      have "length (inWindow T acc) \<le> length (inWindow now acc)"
        unfolding inWindow_def using le assms(2) True by (intro length_filter_le) auto
      then show ?thesis using c(2) pw by (simp add: inWindow_def)
    next
      case False
      then show ?thesis using win[of T] by (simp add: inWindow_def)
    qed
    moreover have "tcn_invocations (countersOf l1 key) = filter (\<lambda>t. now - oneHour < t) (acc @ [now])" using c(1) by (simp add: oneHour_def)
    ultimately show ?thesis using True le assms(2) by (fastforce simp: hourlyInv_def)
  qed
qed

lemma check_other:
  assumes "TriggerLimiter_Check name ns limits now l = (e, l1)" "key \<noteq> limiterKey name ns"
  shows "countersOf l1 key = countersOf l key"
  using assms by (auto simp: TriggerLimiter_Check_def Let_def countersOf_mput split: option.splits if_splits)

lemma completed_invocations: "tcn_invocations (countersOf (TaskCompleted name ns l) key) = tcn_invocations (countersOf l key)"
  by (auto simp: TaskCompleted_def countersOf_def split: option.split)

lemma hourlyInv_later:
  assumes "hourlyInv m key l acc b" "b \<le> b'"
  shows "hourlyInv m key l acc b'"
proof -
  obtain c0 where "c0 \<le> b" "tcn_invocations (countersOf l key) = filter (\<lambda>t. c0 - oneHour < t) acc"
    using assms(1) by (auto simp: hourlyInv_def)
  then have "\<exists>c0 \<le> b'. tcn_invocations (countersOf l key) = filter (\<lambda>t. c0 - oneHour < t) acc"
    using assms(2) order_trans by blast
  moreover have "\<forall>t \<in> set acc. t \<le> b'" using assms order_trans by (auto simp: hourlyInv_def)
  ultimately show ?thesis using assms(1) by (simp add: hourlyInv_def)
qed

lemma hourlyInv_cong:
  "tcn_invocations (countersOf l1 key) = tcn_invocations (countersOf l key) \<Longrightarrow> hourlyInv m key l1 acc b = hourlyInv m key l acc b"
  by (simp add: hourlyInv_def)

lemma limRun_hourly:
  assumes "hourlyInv m key l acc b" "sorted (b # checkTimes ops)" "m < 2 ^ 31"
    and "limitsOn (\<lambda>lim. activeLimit (lc_MaxInvocationsPerHour lim) = Some m) key ops"
  shows "\<exists>b'. hourlyInv m key (snd (limRun ops l)) (acc @ acceptedAt key (fst (limRun ops l))) b'"
  using assms
proof (induction ops arbitrary: l acc b)
  case Nil
  then show ?case by (auto simp: acceptedAt_def)
next
  case (Cons op ops)
  show ?case
  proof (cases op)
    case (OpCompleted name ns)
    have "hourlyInv m key (TaskCompleted name ns l) acc b"
      using Cons.prems(1) by (simp add: hourlyInv_cong[OF completed_invocations])
    with Cons.IH[OF this] Cons.prems OpCompleted show ?thesis by (auto split: prod.splits)
  next
    case (OpCheck name ns limits now)
    obtain e l1 where ck: "TriggerLimiter_Check name ns limits now l = (e, l1)" by (metis surj_pair)
    have bn: "b \<le> now" "sorted (now # checkTimes ops)" using Cons.prems(2) OpCheck by auto
    let ?a = "if e = None then [(limiterKey name ns, now)] else []"
    have step: "limStep op l = (?a, l1)" using ck OpCheck by (auto split: option.split)
    have "hourlyInv m key l1 (acc @ acceptedAt key ?a) now"
    proof (cases "limiterKey name ns = key")
      case True
      then obtain lim where "limits = Some lim" "activeLimit (lc_MaxInvocationsPerHour lim) = Some m"
        using Cons.prems(4) OpCheck by (auto split: option.splits)
      from hourly_check[OF Cons.prems(1) bn(1) True[symmetric] this(2) Cons.prems(3) ck[unfolded this(1)]] True
      show ?thesis by (auto simp: acceptedAt_def split: if_splits)
    next
      case False
      then have "countersOf l1 key = countersOf l key" using check_other[OF ck, of key] by simp
      then have "hourlyInv m key l1 acc b" using Cons.prems(1) by (simp add: hourlyInv_def)
      then show ?thesis using hourlyInv_later bn(1) False by (auto simp: acceptedAt_def)
    qed
    moreover have "limitsOn (\<lambda>lim. activeLimit (lc_MaxInvocationsPerHour lim) = Some m) key ops" using Cons.prems(4) OpCheck by simp
    ultimately obtain b' where b': "hourlyInv m key (snd (limRun ops l1)) ((acc @ acceptedAt key ?a) @ acceptedAt key (fst (limRun ops l1))) b'"
      using Cons.IH[OF _ bn(2) Cons.prems(3), of l1 "acc @ acceptedAt key ?a"] by blast
    have "limRun (op # ops) l = (?a @ fst (limRun ops l1), snd (limRun ops l1))" by (simp only: limRun.simps step prod.case) (simp split: prod.split)
    then show ?thesis using b' by auto
  qed
qed

text \<open>C39. The limiter enforces its sliding window: whatever the history of checks and completions of all triggers, no interval of one
  hour holds more accepted invocations of a trigger than its \<open>maxInvocationsPerHour\<close>.\<close>

theorem TriggerLimiter_hourly_bound:
  assumes "sorted (checkTimes ops)" and "0 < m" and "m < 2 ^ 31"
    and "limitsOn (\<lambda>lim. lc_MaxInvocationsPerHour lim = Some m) key ops"
  shows "int (length (inWindow T (acceptedAt key (fst (limRun ops NewTriggerLimiter))))) \<le> m"
proof -
  have "limitsOn (\<lambda>lim. activeLimit (lc_MaxInvocationsPerHour lim) = Some m) key ops"
    using assms(4,2) by (induction ops rule: checkTimes.induct) (auto simp: activeLimit_def split: option.splits)
  moreover define b where "b = (case checkTimes ops of [] \<Rightarrow> 0 | t # _ \<Rightarrow> t)"
  have "sorted (b # checkTimes ops)" using assms(1) by (auto simp: b_def split: list.split)
  moreover have "hourlyInv m key NewTriggerLimiter [] b"
    using assms(2) by (auto simp: hourlyInv_def NewTriggerLimiter_def countersOf_def inWindow_def)
  ultimately show ?thesis using limRun_hourly[of m key NewTriggerLimiter "[]" b ops] assms(3) by (auto simp: hourlyInv_def)
qed

text \<open>No completion of one trigger is reported.\<close>

definition noCompletion :: "string \<Rightarrow> limOp list \<Rightarrow> bool" where
  "noCompletion key ops = list_all (\<lambda>op. case op of OpCompleted name ns \<Rightarrow> limiterKey name ns \<noteq> key | OpCheck _ _ _ _ \<Rightarrow> True) ops"

lemma check_active:
  assumes "TriggerLimiter_Check name ns (Some lim) now l = (e, l1)" "key = limiterKey name ns"
    and "activeLimit (lc_MaxConcurrentTasks lim) = Some m" "m < 2 ^ 31" "0 \<le> tcn_activeTasks (countersOf l key)"
    "tcn_activeTasks (countersOf l key) \<le> m"
  shows "if e = None then tcn_activeTasks (countersOf l1 key) = tcn_activeTasks (countersOf l key) + 1 \<and> tcn_activeTasks (countersOf l key) < m
         else tcn_activeTasks (countersOf l1 key) = tcn_activeTasks (countersOf l key)"
proof -
  have "toInt32 (tcn_activeTasks (countersOf l key) + 1) = tcn_activeTasks (countersOf l key) + 1"
    if "tcn_activeTasks (countersOf l key) < m" using that assms(4,5) by (intro toInt32_id) auto
  then show ?thesis using assms(1,3) unfolding assms(2)
    by (auto simp: TriggerLimiter_Check_def Let_def countersOf_mput split: option.splits if_splits)
qed

lemma limRun_active:
  assumes "limitsOn (\<lambda>lim. activeLimit (lc_MaxConcurrentTasks lim) = Some m) key ops" "noCompletion key ops" "m < 2 ^ 31"
    and "0 \<le> tcn_activeTasks (countersOf l key)" "tcn_activeTasks (countersOf l key) \<le> m"
  shows "tcn_activeTasks (countersOf l key) + int (length (acceptedAt key (fst (limRun ops l)))) \<le> m"
  using assms
proof (induction ops arbitrary: l)
  case Nil
  then show ?case by (simp add: acceptedAt_def)
next
  case (Cons op ops)
  show ?case
  proof (cases op)
    case (OpCompleted name ns)
    then have "countersOf (TaskCompleted name ns l) key = countersOf l key"
      using Cons.prems(2) by (auto simp: noCompletion_def TaskCompleted_def countersOf_def split: option.split)
    with Cons.IH[of "TaskCompleted name ns l"] Cons.prems OpCompleted show ?thesis by (auto simp: noCompletion_def split: prod.splits)
  next
    case (OpCheck name ns limits now)
    obtain e l1 where ck: "TriggerLimiter_Check name ns limits now l = (e, l1)" by (metis surj_pair)
    let ?a = "if e = None then [(limiterKey name ns, now)] else []"
    have step: "limStep op l = (?a, l1)" using ck OpCheck by (auto split: option.split)
    have run: "fst (limRun (op # ops) l) = ?a @ fst (limRun ops l1)" by (simp only: limRun.simps step prod.case) (simp split: prod.split)
    have act: "tcn_activeTasks (countersOf l1 key) = tcn_activeTasks (countersOf l key) + int (length (acceptedAt key ?a)) \<and>
        tcn_activeTasks (countersOf l1 key) \<le> m"
    proof (cases "limiterKey name ns = key")
      case True
      then obtain lim where "limits = Some lim" "activeLimit (lc_MaxConcurrentTasks lim) = Some m"
        using Cons.prems(1) OpCheck by (auto split: option.splits)
      from check_active[OF ck[unfolded this(1)] True[symmetric] this(2) Cons.prems(3-5)] True Cons.prems(5)
      show ?thesis by (auto simp: acceptedAt_def split: if_splits)
    next
      case False
      then show ?thesis using check_other[OF ck, of key] Cons.prems(5) by (auto simp: acceptedAt_def)
    qed
    have "limitsOn (\<lambda>lim. activeLimit (lc_MaxConcurrentTasks lim) = Some m) key ops" "noCompletion key ops"
      using Cons.prems(1,2) OpCheck by (auto simp: noCompletion_def)
    from Cons.IH[OF this Cons.prems(3), of l1] act Cons.prems(4) show ?thesis unfolding run by simp
  qed
qed

text \<open>C40. As long as no completion is reported for a trigger, and the server reports none, the trigger's \<open>maxConcurrentTasks\<close>
  bounds the number of invocations accepted over the whole life of the process: once that many were accepted every further event
  of the trigger is refused until the server restarts.\<close>

theorem TriggerLimiter_lifetime_cap:
  assumes "0 < m" and "m < 2 ^ 31" and "limitsOn (\<lambda>lim. lc_MaxConcurrentTasks lim = Some m) key ops" and "noCompletion key ops"
  shows "int (length (acceptedAt key (fst (limRun ops NewTriggerLimiter)))) \<le> m"
proof -
  have "limitsOn (\<lambda>lim. activeLimit (lc_MaxConcurrentTasks lim) = Some m) key ops"
    using assms(3,1) by (induction ops rule: checkTimes.induct) (auto simp: activeLimit_def split: option.splits)
  from limRun_active[OF this assms(4,2), of NewTriggerLimiter] assms(1) show ?thesis
    by (simp add: NewTriggerLimiter_def countersOf_def)
qed

subsection \<open>From the application service to the endpoint\<close>

lemma EnsureConfigMap_stored:
  assumes "kube_store kc (\<lambda>c. keyOf (cm_Meta c)) (\<lambda>c. (cm_Data c, om_Labels (cm_Meta c), om_Annotations (cm_Meta c)))"
    and "EnsureConfigMap kc desired w = (None, w')"
  shows "\<exists>c. kc_Get kc (keyOf (cm_Meta desired)) w' = Inr c \<and> cm_Data c = cm_Data desired"
proof -
  have rp: "kube_repo kc (\<lambda>c. keyOf (cm_Meta c)) (\<lambda>c. (cm_Data c, om_Labels (cm_Meta c), om_Annotations (cm_Meta c))) mergeConfigMap"
    using assms(1) by (simp add: kube_repo_def kube_repo_axioms_def mergeConfigMap_def)
  obtain s where e: "ensureObject kc (\<lambda>c. keyOf (cm_Meta c)) mergeConfigMap ''ConfigMap %s: %w'' [AS (om_Name (cm_Meta desired))] desired w = (Inr s, w')"
    using assms(2) by (auto simp: EnsureConfigMap_def split: prod.splits sum.splits)
  from kube_repo.repo_ensured[OF rp e] show ?thesis by (auto simp: mergeConfigMap_def split: sum.splits)
qed

lemma Trigger_Reconcile_Inr:
  assumes "Trigger_Reconcile lib tc deps trigger w = (trigger1, Inr result, w1)"
  obtains agent pushConfig where "td_GetAgent deps (triggerAgentKey trigger) w = Inr agent"
    "trr_AgentEndpoint result = ast_URL (ag_Status agent)" "ast_URL (ag_Status agent) \<noteq> ''''"
    "triggerPush deps w trigger = Inr pushConfig"
    "storeTriggerConfig tc deps trigger (buildTriggerConfig trigger (ast_URL (ag_Status agent)) pushConfig) w = (None, w1)"
proof -
  from assms obtain agent where a: "td_GetAgent deps (triggerAgentKey trigger) w = Inr agent" "ast_Phase (ag_Status agent) = AgentPhaseRunning"
    "ast_URL (ag_Status agent) \<noteq> ''''"
    by (auto simp: Trigger_Reconcile_def Let_def split: option.splits sum.splits if_splits)
  from assms a obtain pc where p: "triggerPush deps w trigger = Inr pc"
    by (cases "triggerPush deps w trigger") (simp_all add: Trigger_Reconcile_def Let_def split: option.splits)
  show ?thesis
    by (rule that[OF a(1) _ a(3) p]) (use assms a p in \<open>auto simp: Trigger_Reconcile_def Let_def split: option.splits prod.splits\<close>)
qed

lemma storeTriggerConfig_load:
  assumes "kube_store (td_ConfigMaps deps) (\<lambda>c. keyOf (cm_Meta c)) (\<lambda>c. (cm_Data c, om_Labels (cm_Meta c), om_Annotations (cm_Meta c)))"
    and owner: "\<And>m m'. td_SetOwner deps trigger m = Inr m' \<Longrightarrow> keyOf m' = keyOf m"
    and "limitsInRange (tcf_Limits c)" "tc_parse tc (tc_print tc (encTriggerConfig c)) = Inr (encTriggerConfig c)"
    and st: "storeTriggerConfig tc deps trigger c w = (None, w1)"
  shows "loadTriggerConfig tc (td_ConfigMaps deps) (om_Namespace (tr_Meta trigger)) (om_Name (tr_Meta trigger)) w1 = Inr (sortedMetadata c)"
proof -
  let ?cm = "triggerConfigMap tc trigger c"
  obtain m where m: "td_SetOwner deps trigger (cm_Meta ?cm) = Inr m" and e: "EnsureConfigMap (td_ConfigMaps deps) (?cm\<lparr>cm_Meta := m\<rparr>) w = (None, w1)"
    using st by (auto simp: storeTriggerConfig_def Let_def split: sum.splits prod.splits option.splits)
  have k: "keyOf m = \<lparr>nn_Name = Trigger_ConfigMapName (om_Name (tr_Meta trigger)), nn_Namespace = om_Namespace (tr_Meta trigger)\<rparr>"
    using owner[OF m] by (simp add: triggerConfigMap_def objectMeta_def)
  from EnsureConfigMap_stored[OF assms(1) e] k obtain s where
    "kc_Get (td_ConfigMaps deps) \<lparr>nn_Name = Trigger_ConfigMapName (om_Name (tr_Meta trigger)), nn_Namespace = om_Namespace (tr_Meta trigger)\<rparr> w1 = Inr s"
    "cm_Data s = [(''config.json'', tc_print tc (encTriggerConfig c))]" by (auto simp: triggerConfigMap_def)
  then show ?thesis using assms(4) decTriggerConfig_enc[OF assms(3)] by (simp add: loadTriggerConfig_def Let_def)
qed

text \<open>C38. What the controller promises, the endpoint delivers: after a successful reconcile of a trigger the invoke endpoint of that trigger
  reads back the configuration built from the trigger (agent URL, session key, push target with its resolved secrets,
  limits, metadata), so a well-formed event is refused only by the limits of the trigger, never as unknown.\<close>

theorem trigger_config_delivered:
  assumes "kube_store (td_ConfigMaps deps) (\<lambda>c. keyOf (cm_Meta c)) (\<lambda>c. (cm_Data c, om_Labels (cm_Meta c), om_Annotations (cm_Meta c)))"
    and "\<And>m m'. td_SetOwner deps trigger m = Inr m' \<Longrightarrow> keyOf m' = keyOf m"
    and "Trigger_Reconcile lib tc deps trigger w = (trigger1, Inr result, w1)" and "triggerPush deps w trigger = Inr pc"
    and "c = buildTriggerConfig trigger (trr_AgentEndpoint result) pc" and "limitsInRange (tcf_Limits c)"
    and "tc_parse tc (tc_print tc (encTriggerConfig c)) = Inr (encTriggerConfig c)"
    and "ns = om_Namespace (tr_Meta trigger)" and "name = om_Name (tr_Meta trigger)" and "ns \<noteq> ''''" and "name \<noteq> ''''"
    and "bindR (tc_parse tc b) decPayload = Inr payload"
  shows "loadTriggerConfig tc (td_ConfigMaps deps) ns name w1 = Inr (sortedMetadata c) \<and>
    TriggerHandler_ServeHTTP tc (td_ConfigMaps deps) ''POST'' ns name (Inr b) now l w1 =
      (case TriggerLimiter_Check name ns (tcf_Limits c) now l of (Some err, l1) \<Rightarrow> (429, l1) | (None, l1) \<Rightarrow> (200, l1))"
proof -
  obtain agent where "storeTriggerConfig tc deps trigger c w = (None, w1)"
    by (rule Trigger_Reconcile_Inr[OF assms(3)]) (use assms(4,5) in auto)
  from storeTriggerConfig_load[OF assms(1,2,6,7) this] have l: "loadTriggerConfig tc (td_ConfigMaps deps) ns name w1 = Inr (sortedMetadata c)"
    by (simp add: assms(8,9))
  then show ?thesis using assms(10-12) by (simp add: TriggerHandler_ServeHTTP_def sortedMetadata_def)
qed

subsection \<open>Witnesses\<close>

definition hourLimits :: LimitsConfig where
  "hourLimits = \<lparr>lc_MaxInvocationsPerHour = Some 1, lc_MaxConcurrentTasks = Some 2, lc_TokenBudgetPerEvent = None, lc_TokenBudgetPerHour = None\<rparr>"

definition demoHistory :: "limOp list" where
  "demoHistory = [OpCheck ''orders'' ''shop'' (Some hourLimits) 0, OpCheck ''orders'' ''shop'' (Some hourLimits) 5,
     OpCheck ''orders'' ''shop'' (Some hourLimits) 3600000000001, OpCheck ''orders'' ''shop'' (Some hourLimits) 7200000000002]"

theorem TriggerLimiter_hourly_bound_witness:
  "int (length (inWindow 10 (acceptedAt ''shop/orders'' (fst (limRun demoHistory NewTriggerLimiter))))) \<le> 1"
  by (rule TriggerLimiter_hourly_bound) (simp_all add: demoHistory_def limiterKey_def hourLimits_def)

theorem TriggerLimiter_lifetime_cap_witness:
  "int (length (acceptedAt ''shop/orders'' (fst (limRun demoHistory NewTriggerLimiter)))) \<le> 2 \<and>
   fst (TriggerLimiter_Check ''orders'' ''shop'' (Some hourLimits) 99999999999999 (snd (limRun demoHistory NewTriggerLimiter))) \<noteq> None"
proof
  show "int (length (acceptedAt ''shop/orders'' (fst (limRun demoHistory NewTriggerLimiter)))) \<le> 2"
    by (rule TriggerLimiter_lifetime_cap) (simp_all add: demoHistory_def limiterKey_def hourLimits_def noCompletion_def)
  show "fst (TriggerLimiter_Check ''orders'' ''shop'' (Some hourLimits) 99999999999999 (snd (limRun demoHistory NewTriggerLimiter))) \<noteq> None"
    by code_simp
qed

definition orderDoc :: json where
  "orderDoc = encTriggerConfig (buildTriggerConfig orderTrigger ''http://a'' None)"

definition orderCodec :: textcodec where
  "orderCodec = \<lparr>tc_print = (\<lambda>j. if j = orderDoc then ''{cfg}'' else ''null''),
     tc_parse = (\<lambda>b. if b = ''{cfg}'' then Inr orderDoc else if b = ''{}'' then Inr (JObj []) else Inr JNull),
     tc_fmtTime = (\<lambda>t. Inr (dec_int t)), tc_parseTime = (\<lambda>b. Inl (Errorf ''no time'' []))\<rparr>"

theorem trigger_config_delivered_witness:
  "\<exists>trigger1 result w1. Trigger_Reconcile stdlib orderCodec (orderDeps ''http://a'') orderTrigger [] = (trigger1, Inr result, w1) \<and>
     fst (TriggerHandler_ServeHTTP orderCodec (td_ConfigMaps (orderDeps ''http://a'')) ''POST'' ''shop'' ''orders'' (Inr ''{}'') 0 NewTriggerLimiter w1) = 200"
proof -
  let ?R = "Trigger_Reconcile stdlib orderCodec (orderDeps ''http://a'') orderTrigger []"
  have ok: "case fst (snd ?R) of Inl _ \<Rightarrow> False | Inr r \<Rightarrow> trr_AgentEndpoint r = ''http://a''" by code_simp
  obtain trigger1 res w1 where r: "?R = (trigger1, res, w1)" by (metis surj_pair)
  obtain result where res: "res = Inr result" "trr_AgentEndpoint result = ''http://a''" using ok r by (auto split: sum.splits)
  let ?c = "buildTriggerConfig orderTrigger (trr_AgentEndpoint result) None"
  have p: "triggerPush (orderDeps ''http://a'') [] orderTrigger = Inr None" by (simp add: triggerPush_def orderTrigger_def)
  have parse: "tc_parse orderCodec (tc_print orderCodec (encTriggerConfig ?c)) = Inr (encTriggerConfig ?c)"
    using res(2) by (simp add: orderCodec_def orderDoc_def)
  have st: "kube_store (td_ConfigMaps (orderDeps ''http://a'')) (\<lambda>c. keyOf (cm_Meta c)) (\<lambda>c. (cm_Data c, om_Labels (cm_Meta c), om_Annotations (cm_Meta c)))"
    by (simp add: orderDeps_def memClient_store)
  have lim: "limitsInRange (tcf_Limits (buildTriggerConfig orderTrigger ''http://a'' None))"
    "fst (TriggerLimiter_Check ''orders'' ''shop'' (tcf_Limits (buildTriggerConfig orderTrigger ''http://a'' None)) 0 NewTriggerLimiter) = None" by code_simp+
  have nm: "om_Namespace (tr_Meta orderTrigger) = ''shop''" "om_Name (tr_Meta orderTrigger) = ''orders''" by (simp_all add: orderTrigger_def objectMeta_def)
  obtain pl where pl: "bindR (tc_parse orderCodec ''{}'') decPayload = Inr pl"
    by (simp add: orderCodec_def decPayload_def fieldOr_def jfield_def)
  have "TriggerHandler_ServeHTTP orderCodec (td_ConfigMaps (orderDeps ''http://a'')) ''POST'' ''shop'' ''orders'' (Inr ''{}'') 0 NewTriggerLimiter w1 =
      (case TriggerLimiter_Check ''orders'' ''shop'' (tcf_Limits ?c) 0 NewTriggerLimiter of (Some err, l1) \<Rightarrow> (429, l1) | (None, l1) \<Rightarrow> (200, l1))"
  proof (rule conjunct2[OF trigger_config_delivered[OF st _ r[unfolded res(1)] p refl _ parse _ _ _ _ pl]])
    show "keyOf m' = keyOf m" if "td_SetOwner (orderDeps ''http://a'') orderTrigger m = Inr m'" for m m'
      using that by (auto simp: orderDeps_def)
  qed (use lim(1) res(2) nm in simp_all)
  moreover obtain l1 where "TriggerLimiter_Check ''orders'' ''shop'' (tcf_Limits ?c) 0 NewTriggerLimiter = (None, l1)"
    using lim(2) res(2) by (metis prod.collapse)
  ultimately show ?thesis using r res(1) by auto
qed

end
