(* ===== verification/AgentAdmission.thy ===== *)
theory AgentAdmission
  imports CompilerFacts FieldErrors
begin

text \<open>
  \<open>internal/webhook/v1alpha1/agent_webhook.go\<close> and \<open>capability_webhook.go\<close>: admission of Agents and Capabilities. The
  placeholder scan of the Agent webhook works on the text \<open>json.Marshal\<close> produces, so the marshaller is defined here, for
  documents whose strings are valid UTF-8 without the line separators U+2028 and U+2029; a raw JSON field is identified with its
  document. Typographic characters of messages are written in ASCII. Go visits \<open>secretRefs\<close> in random order, the model in list order; only the order of error messages depends on it.
\<close>

subsection \<open>The text of a JSON document\<close>

definition backslash :: char where "backslash = CHR 0x5C"

definition escChar :: "char \<Rightarrow> string" where
  "escChar c =
     (let n = (of_char c :: nat) in
      if n = 34 \<or> n = 92 then [backslash, c]
      else if n = 8 then [backslash, CHR ''b''] else if n = 12 then [backslash, CHR ''f'']
      else if n = 10 then [backslash, CHR ''n''] else if n = 13 then [backslash, CHR ''r'']
      else if n = 9 then [backslash, CHR ''t'']
      else if n < 32 \<or> n = 60 \<or> n = 62 \<or> n = 38 then backslash # CHR ''u'' # hex_pad 4 n
      else [c])"

definition escString :: "string \<Rightarrow> string" where
  "escString s = concat (map escChar s)"

definition quoteText :: "string \<Rightarrow> string" where
  "quoteText s = [CHR 0x22] @ escString s @ [CHR 0x22]"

primrec jsonText :: "json \<Rightarrow> string" where
  "jsonText JNull = ''null''"
| "jsonText (JBool b) = (if b then ''true'' else ''false'')"
| "jsonText (JNum n) = n"
| "jsonText (JStr s) = quoteText s"
| "jsonText (JArr xs) = ''['' @ joinStrings (map jsonText xs) '','' @ '']''"
| "jsonText (JObj kvs) = ''{'' @ joinStrings (map (\<lambda>(k, t). quoteText k @ '':'' @ t) (map (map_prod id jsonText) kvs)) '','' @ ''}''"

text \<open>The documents of the API types that are scanned: omitted fields as their tags say, map keys sorted.\<close>

definition strMember :: "string \<Rightarrow> string \<Rightarrow> (string \<times> json) list" where
  "strMember k s = (if s = '''' then [] else [(k, JStr s)])"

definition optMember :: "string \<Rightarrow> ('a \<Rightarrow> json) \<Rightarrow> 'a option \<Rightarrow> (string \<times> json) list" where
  "optMember k f x = (case x of None \<Rightarrow> [] | Some v \<Rightarrow> [(k, f v)])"

definition listMember :: "string \<Rightarrow> ('a \<Rightarrow> json) \<Rightarrow> 'a list \<Rightarrow> (string \<times> json) list" where
  "listMember k f xs = (if xs = [] then [] else [(k, JArr (map f xs))])"

definition mapMember :: "string \<Rightarrow> ('a \<Rightarrow> json) \<Rightarrow> 'a smap \<Rightarrow> (string \<times> json) list" where
  "mapMember k f m = (if m = [] then [] else [(k, JObj (map (\<lambda>n. (n, f (the (mget m n)))) (sortStrings (mkeys m))))])"

text \<open>A raw field with bytes that are not JSON makes \<open>json.Marshal\<close> fail; \<open>rawDoc\<close> is used where there are none.\<close>

fun rawDoc :: "rawjson \<Rightarrow> json" where
  "rawDoc (Raw d) = d"
| "rawDoc RawBad = JNull"

definition settingsDoc :: "ModelSettings \<Rightarrow> json" where
  "settingsDoc s = JObj (
     optMember ''maxTokens'' (\<lambda>i. JNum (dec_int i)) (ms_MaxTokens s) @ strMember ''temperature'' (ms_Temperature s) @
     strMember ''topP'' (ms_TopP s) @ optMember ''topK'' (\<lambda>i. JNum (dec_int i)) (ms_TopK s) @
     optMember ''timeoutSeconds'' (\<lambda>i. JNum (dec_int i)) (ms_TimeoutSeconds s) @
     optMember ''parallelToolCalls'' JBool (ms_ParallelToolCalls s) @ optMember ''seed'' (\<lambda>i. JNum (dec_int i)) (ms_Seed s) @
     strMember ''presencePenalty'' (ms_PresencePenalty s) @ strMember ''frequencyPenalty'' (ms_FrequencyPenalty s) @
     mapMember ''logitBias'' (\<lambda>i. JNum (dec_int i)) (ms_LogitBias s) @ listMember ''stopSequences'' JStr (ms_StopSequences s) @
     mapMember ''extraHeaders'' JStr (ms_ExtraHeaders s) @ optMember ''extra'' rawDoc (ms_Extra s))"

definition nativeEntryDoc :: "NativeCapabilityEntry \<Rightarrow> json" where
  "nativeEntryDoc e = JObj ((''name'', JStr (nce_Name e)) # optMember ''config'' rawDoc (nce_Config e))"

definition fragmentDoc :: "AgentSpecFragment \<Rightarrow> json" where
  "fragmentDoc f = JObj (
     strMember ''model'' (frag_Model f) @ strMember ''name'' (frag_Name f) @ strMember ''description'' (frag_Description f) @
     listMember ''instructions'' JStr (frag_Instructions f) @ optMember ''modelSettings'' settingsDoc (frag_ModelSettings f) @
     optMember ''outputSchema'' rawDoc (frag_OutputSchema f) @ listMember ''capabilities'' nativeEntryDoc (frag_Capabilities f) @
     optMember ''extra'' rawDoc (frag_Extra f))"

definition fragmentRaws :: "AgentSpecFragment \<Rightarrow> rawjson list" where
  "fragmentRaws f = List.map_filter id
     ((case frag_ModelSettings f of None \<Rightarrow> None | Some s \<Rightarrow> ms_Extra s) # frag_OutputSchema f # map nce_Config (frag_Capabilities f) @ [frag_Extra f])"

definition marshalFragment :: "AgentSpecFragment \<Rightarrow> string option" where
  "marshalFragment f = (if RawBad \<in> set (fragmentRaws f) then None else Some (jsonText (fragmentDoc f)))"

definition marshalRaw :: "rawjson \<Rightarrow> string option" where
  "marshalRaw raw = (case raw of Raw d \<Rightarrow> Some (jsonText d) | RawBad \<Rightarrow> None)"

subsection \<open>Secret placeholders\<close>

text \<open>\<open>FindAllStringSubmatch\<close> of \<open>\$\{secret:([^}]*)\}\<close>: leftmost matches, each continuing after the previous one.\<close>

function findPlaceholders :: "string \<Rightarrow> string list" where
  "findPlaceholders s =
     (if s = [] then []
      else if hasPrefix s ''${secret:'' \<and> CHR ''}'' \<in> set (drop 9 s)
      then let name = takeWhile (\<lambda>c. c \<noteq> CHR ''}'') (drop 9 s) in name # findPlaceholders (drop (10 + length name) s)
      else findPlaceholders (tl s))"
  by pat_completeness auto
termination
  by (relation "measure length") auto

declare findPlaceholders.simps [simp del]

fun firstSeen :: "string list \<Rightarrow> string list \<Rightarrow> string list" where
  "firstSeen seen [] = []"
| "firstSeen seen (x # xs) = (if x \<in> set seen then firstSeen seen xs else x # firstSeen (x # seen) xs)"

definition jsonSecretPlaceholders :: "string option \<Rightarrow> string list" where
  "jsonSecretPlaceholders raw = (case raw of None \<Rightarrow> [] | Some text \<Rightarrow> firstSeen [] (findPlaceholders text))"

definition validSecretRefName :: "string \<Rightarrow> bool" where
  "validSecretRefName n = (n \<noteq> [] \<and> list_all is_secret_name_char n)"

definition placeholderErrors :: "string \<Rightarrow> 'a smap \<Rightarrow> string \<Rightarrow> fieldErr list" where
  "placeholderErrors path secretRefs name =
     (if \<not> validSecretRefName name
      then [fInvalid path (''${secret:'' @ name @ ''}'') (Sprintf ''secret placeholder names must match [A-Za-z0-9._-]+'' [])]
      else errIf (mget secretRefs name = None)
             (fInvalid path (''${secret:'' @ name @ ''}'') (Sprintf ''placeholder has no matching spec.secretRefs[%q] entry'' [AS name])))"

definition validatePlaceholders :: "string \<Rightarrow> string option \<Rightarrow> 'a smap \<Rightarrow> fieldErr list" where
  "validatePlaceholders path raw secretRefs = concat (map (placeholderErrors path secretRefs) (jsonSecretPlaceholders raw))"

subsection \<open>Checks of the Agent alone\<close>

definition fForbiddenf :: "string \<Rightarrow> msgtext \<Rightarrow> fieldErr" where
  "fForbiddenf p d = \<lparr>fe_Kind = FieldForbidden, fe_Path = p, fe_Value = '''', fe_Detail = d\<rparr>"

fun duplicateSkills :: "nat \<Rightarrow> string list \<Rightarrow> AgentSkill list \<Rightarrow> fieldErr list" where
  "duplicateSkills i seen [] = []"
| "duplicateSkills i seen (skill # skills) =
     errIf (skill_ID skill \<in> set seen) (fDuplicate (fpChild (fpIndex ''spec.card.skills'' i) ''id'') (skill_ID skill)) @
     duplicateSkills (Suc i) (skill_ID skill # seen) skills"

definition validateAgent :: "Agent \<Rightarrow> fieldErr list" where
  "validateAgent agent =
     (let sp = ag_Spec agent in
      errIf (rt_Isolation (as_Runtime sp) = IsolationSession)
        (fForbidden ''spec.runtime.isolation''
          ''the session isolation tier is not available yet (roadmap P1: session router + pools); use \"shared\"'') @
      (case as_Spec sp of
         None \<Rightarrow> []
       | Some f \<Rightarrow>
           collectIdx (\<lambda>i e. errIf (containsAny (nce_Name e) ''./:'')
             (fInvalid (fpChild (fpIndex ''spec.spec.capabilities'' i) ''name'') (nce_Name e)
               (Sprintf ''only baseline-native capability names are allowed inline (e.g. WebSearch, MCP, Thinking); harness and third-party capabilities ship as Capability resources'' [])))
             0 (frag_Capabilities f) @
           validatePlaceholders ''spec.spec'' (marshalFragment f) (as_SecretRefs sp)) @
      collectIdx (\<lambda>i att. case att_Config att of
          None \<Rightarrow> []
        | Some raw \<Rightarrow> validatePlaceholders (fpChild (fpIndex ''spec.capabilities'' i) ''config'') (marshalRaw raw) (as_SecretRefs sp))
        0 (as_Capabilities sp) @
      concat (map (\<lambda>name. errIf (\<not> validSecretRefName name)
          (fInvalid (''spec.secretRefs['' @ name @ '']'') name (Sprintf ''secret ref names must match [A-Za-z0-9._-]+'' [])))
        (mkeys (as_SecretRefs sp))) @
      duplicateSkills 0 [] (card_Skills (as_Card sp)))"

subsection \<open>Capability-aware checks\<close>

definition spec_DefaultRunnerVersion :: string where "spec_DefaultRunnerVersion = ''0.2.0''"

definition isJSONObject :: "rawjson \<Rightarrow> bool" where
  "isJSONObject raw = (case unmarshalObject raw of Inl e \<Rightarrow> False | Inr m \<Rightarrow> True)"

text \<open>\<open>None\<close> is the empty message, which admits.\<close>

definition requireVerifiedDenial :: "k8slib \<Rightarrow> string \<Rightarrow> Capability \<Rightarrow> msgtext option" where
  "requireVerifiedDenial lib capName capCR =
     (case lib_FindStatusCondition lib (capst_Conditions (cap_Status capCR)) CapabilityConditionVerified of
        None \<Rightarrow> Some (Sprintf ''Capability %s has no Verified condition yet and this cluster requires verified capabilities (requireVerified): verification is in flight - retry once the Capability's Verified condition is True'' [AS capName])
      | Some cond \<Rightarrow>
          if c_Status cond = ConditionTrue then None
          else if c_Reason cond = CapabilityVerifiedReasonDisabled
          then Some (Sprintf ''Capability %s cannot be verified (Verified=%s, reason %s): cosign verification is disabled on this cluster but the requireVerified policy is enabled - enable capabilities.verification.cosign in the operator configuration''
                 [AS capName, AS (statusText (c_Status cond)), AS (c_Reason cond)])
          else if c_Status cond = ConditionUnknown
          then Some (Sprintf ''Capability %s verification is in flight (Verified=%s, reason %s) and this cluster requires verified capabilities (requireVerified): retry once the signature check completes - %s''
                 [AS capName, AS (statusText (c_Status cond)), AS (c_Reason cond), msgArg (c_Message cond)])
          else Some (Sprintf ''Capability %s is not verified (Verified=%s, reason %s) and this cluster requires verified capabilities (requireVerified): %s''
                 [AS capName, AS (statusText (c_Status cond)), AS (c_Reason cond), msgArg (c_Message cond)]))"

text \<open>The variables of the attachment loop.\<close>

record vcState =
  vc_entryOwners :: "string smap"
  vc_seen :: "NamespacedName list"
  vc_deps :: "Deps list"
  vc_warnings :: "msgtext list"
  vc_errs :: "fieldErr list"

definition addErrs :: "fieldErr list \<Rightarrow> vcState \<Rightarrow> vcState" where
  "addErrs es st = st\<lparr>vc_errs := vc_errs st @ es\<rparr>"

definition entryNameOf :: "Capability \<Rightarrow> string" where
  "entryNameOf capCR = EntryName (caps_Entrypoint (cap_Spec capCR)) (caps_SerializationName (cap_Spec capCR))"

definition checkFound :: "('sc, 'sp, 'v) clib \<Rightarrow> bool \<Rightarrow> RunnerInfo \<Rightarrow> string \<Rightarrow> string \<Rightarrow> Capability \<Rightarrow> CapabilityAttachment \<Rightarrow> string option \<Rightarrow> fieldErr list" where
  "checkFound cl requireVerified runner attPath k capCR att owner =
     (case owner of
        None \<Rightarrow> []
      | Some o1 \<Rightarrow> [fInvalid attPath (entryNameOf capCR) (Sprintf
          ''capability %s compiles to spec entry %q, already claimed by %s; set spec.serializationName to disambiguate''
          [AS k, AS (entryNameOf capCR), AS o1])]) @
     (case att_Config att of
        None \<Rightarrow> []
      | Some raw \<Rightarrow> errIf (\<not> isJSONObject raw) (fInvalid (fpChild attPath ''config'') '''' (Sprintf ''capability config must be a JSON object'' []))) @
     (case CheckRequires (cl_pep cl) (om_Name (cap_Meta capCR)) (requiresOf capCR) runner of
        None \<Rightarrow> [] | Some err \<Rightarrow> [fForbiddenf attPath (ErrText err)]) @
     (if requireVerified
      then (case requireVerifiedDenial (cl_k8s cl) k capCR of None \<Rightarrow> [] | Some msg \<Rightarrow> [fForbiddenf attPath msg])
      else []) @
     (if caps_SchemaPolicy (cap_Spec capCR) = SchemaPolicyPermissive then []
      else case caps_ConfigSchema (cap_Spec capCR) of
             None \<Rightarrow> [fForbiddenf attPath (Sprintf
               ''Capability %s has schemaPolicy strict but no configSchema; publish a schema on the Capability or set schemaPolicy: permissive'' [AS k])]
           | Some schema \<Rightarrow>
               (case ValidateConfig (sl_js (cl_spec cl)) schema (case att_Config att of None \<Rightarrow> Raw (JObj []) | Some raw \<Rightarrow> raw) of
                  None \<Rightarrow> []
                | Some err \<Rightarrow> [fInvalid (fpChild attPath ''config'') '''' (Sprintf ''config rejected by Capability %s schema: %v'' [AS k, AE err])]))"

definition vcAttachment ::
  "('sc, 'sp, 'v) clib \<Rightarrow> (NamespacedName \<Rightarrow> Capability result) \<Rightarrow> bool \<Rightarrow> RunnerInfo \<Rightarrow> Agent \<Rightarrow> nat \<Rightarrow> CapabilityAttachment \<Rightarrow> vcState \<Rightarrow> vcState" where
  "vcAttachment cl getCap requireVerified runner agent i att st =
     (let attPath = fpIndex ''spec.capabilities'' i; key = refKey agent (att_Ref att); k = nn_String key in
      if nn_Namespace key \<noteq> om_Namespace (ag_Meta agent)
      then addErrs [fInvalid (fpChild attPath ''ref.namespace'') (nr_Namespace (att_Ref att)) (Sprintf
             ''cross-namespace Capability references are not supported yet; reference a Capability in the agent's namespace'' [])] st
      else if key \<in> set (vc_seen st) then addErrs [fDuplicate (fpChild attPath ''ref'') k] st
      else let st1 = st\<lparr>vc_seen := key # vc_seen st\<rparr> in
        case getCap key of
          Inl err \<Rightarrow>
            if requireVerified
            then addErrs [fForbiddenf (fpChild attPath ''ref'') (Sprintf
              ''referenced Capability %s was not found and this cluster requires verified capabilities (requireVerified): create the Capability and wait for its Verified condition to become True before attaching it'' [AS k])] st1
            else st1\<lparr>vc_warnings := vc_warnings st1 @ [Sprintf ''referenced Capability %s not found - compatibility and config checks run at compile time once it exists'' [AS k]]\<rparr>
        | Inr capCR \<Rightarrow>
            (let entryName = entryNameOf capCR; owner = mget (vc_entryOwners st1) entryName;
                 st2 = (if owner = None then st1\<lparr>vc_entryOwners := mput entryName k (vc_entryOwners st1)\<rparr> else st1);
                 st3 = addErrs (checkFound cl requireVerified runner attPath k capCR att owner) st2;
                 st4 = (if caps_SchemaPolicy (cap_Spec capCR) = SchemaPolicyPermissive
                        then st3\<lparr>vc_warnings := vc_warnings st3 @ [Sprintf ''Capability %s has schemaPolicy: permissive - its config is not validated at admission'' [AS k]]\<rparr>
                        else st3)
             in st4\<lparr>vc_deps := vc_deps st4 @ [\<lparr>deps_Name = k, deps_Pins = caps_Dependencies (cap_Spec capCR)\<rparr>]\<rparr>))"

fun vcAttachments ::
  "('sc, 'sp, 'v) clib \<Rightarrow> (NamespacedName \<Rightarrow> Capability result) \<Rightarrow> bool \<Rightarrow> RunnerInfo \<Rightarrow> Agent \<Rightarrow> nat \<Rightarrow> CapabilityAttachment list \<Rightarrow> vcState \<Rightarrow> vcState" where
  "vcAttachments cl getCap rv runner agent i [] st = st"
| "vcAttachments cl getCap rv runner agent i (att # atts) st =
     vcAttachments cl getCap rv runner agent (Suc i) atts (vcAttachment cl getCap rv runner agent i att st)"

definition admissionRunnerVersion :: "string \<Rightarrow> Agent \<Rightarrow> string" where
  "admissionRunnerVersion defaultVersion agent =
     (if rt_RunnerVersion (as_Runtime (ag_Spec agent)) \<noteq> '''' then rt_RunnerVersion (as_Runtime (ag_Spec agent))
      else if defaultVersion \<noteq> '''' then defaultVersion else spec_DefaultRunnerVersion)"

definition fragmentOwners :: "Agent \<Rightarrow> string smap" where
  "fragmentOwners agent =
     fold (\<lambda>e. mput (nce_Name e) (''spec.spec.capabilities['' @ nce_Name e @ '']'')) (fragmentCapabilities agent) []"

text \<open>The readers of the validator: the general one and the uncached one for Capabilities.\<close>

record avReader =
  av_GetModel :: "NamespacedName \<Rightarrow> Model result"
  av_GetInstruction :: "NamespacedName \<Rightarrow> Instruction result"
  av_GetAgentTool :: "NamespacedName \<Rightarrow> AgentTool result"
  av_GetCapability :: "NamespacedName \<Rightarrow> Capability result"

record AgentCustomValidator =
  acv_Reader :: "avReader option"
  acv_CapabilityReader :: "(NamespacedName \<Rightarrow> Capability result) option"
  acv_DefaultRunnerVersion :: string
  acv_RequireVerifiedCapabilities :: bool

definition capabilityReader :: "AgentCustomValidator \<Rightarrow> avReader \<Rightarrow> NamespacedName \<Rightarrow> Capability result" where
  "capabilityReader v reader = (case acv_CapabilityReader v of Some r \<Rightarrow> r | None \<Rightarrow> av_GetCapability reader)"

definition validateCapabilities :: "('sc, 'sp, 'v) clib \<Rightarrow> AgentCustomValidator \<Rightarrow> Agent \<Rightarrow> msgtext list \<times> fieldErr list" where
  "validateCapabilities cl v agent =
     (case acv_Reader v of
        None \<Rightarrow> ([], [])
      | Some reader \<Rightarrow>
          if as_Capabilities (ag_Spec agent) = [] then ([], [])
          else (let runnerVersion = admissionRunnerVersion (acv_DefaultRunnerVersion v) agent in
            case RunnerBaseline (cl_spec cl) runnerVersion of
              Inl err \<Rightarrow> ([], [fInvalid ''spec.runtime.runnerVersion'' runnerVersion (ErrText err)])
            | Inr runner \<Rightarrow>
                (let st = vcAttachments cl (capabilityReader v reader) (acv_RequireVerifiedCapabilities v) runner agent 0 (as_Capabilities (ag_Spec agent))
                       \<lparr>vc_entryOwners = fragmentOwners agent, vc_seen = [], vc_deps = [], vc_warnings = [], vc_errs = []\<rparr>
                 in (vc_warnings st, vc_errs st @ map (\<lambda>msg. fForbiddenf ''spec.capabilities'' (ErrText msg)) (DetectConflicts (vc_deps st) runner)))))"

definition refNamespace :: "Agent \<Rightarrow> string \<Rightarrow> string" where
  "refNamespace agent ns = (if ns = '''' then om_Namespace (ag_Meta agent) else ns)"

definition missingRef :: "Agent \<Rightarrow> (NamespacedName \<Rightarrow> 'a result) \<Rightarrow> string \<Rightarrow> NamespacedRef \<Rightarrow> msgtext list" where
  "missingRef agent get what ref =
     (let ns = refNamespace agent (nr_Namespace ref) in
      case get \<lparr>nn_Name = nr_Name ref, nn_Namespace = ns\<rparr> of
        Inr _ \<Rightarrow> []
      | Inl err \<Rightarrow> [Sprintf ''referenced %s %s/%s not found - the agent will not reconcile until it exists'' [AS what, AS ns, AS (nr_Name ref)]])"

definition validateReferences :: "AgentCustomValidator \<Rightarrow> Agent \<Rightarrow> msgtext list" where
  "validateReferences v agent =
     (case acv_Reader v of
        None \<Rightarrow> []
      | Some r \<Rightarrow>
          (case as_ModelRef (ag_Spec agent) of None \<Rightarrow> [] | Some ref \<Rightarrow> missingRef agent (av_GetModel r) ''Model'' ref) @
          concat (map (missingRef agent (av_GetInstruction r) ''Instruction'') (as_InstructionRefs (ag_Spec agent))) @
          concat (map (missingRef agent (av_GetAgentTool r) ''AgentTool'') (as_Tools (ag_Spec agent))))"

text \<open>\<open>apierrors.NewInvalid\<close> with the kind, the object name and the errors, or nil.\<close>

definition aggregateFieldErrors :: "string \<Rightarrow> string \<Rightarrow> fieldErr list \<Rightarrow> (string \<times> string \<times> fieldErr list) option" where
  "aggregateFieldErrors kind name allErrs = (if allErrs = [] then None else Some (kind, name, allErrs))"

definition AgentCustomValidator_validate ::
  "('sc, 'sp, 'v) clib \<Rightarrow> AgentCustomValidator \<Rightarrow> Agent \<Rightarrow> msgtext list \<times> (string \<times> string \<times> fieldErr list) option" where
  "AgentCustomValidator_validate cl v agent =
     (case validateCapabilities cl v agent of
        (capWarnings, capErrs) \<Rightarrow>
          (validateReferences v agent @ capWarnings,
           aggregateFieldErrors ''Agent'' (om_Name (ag_Meta agent)) (validateAgent agent @ capErrs)))"

subsection \<open>Admission of Capabilities\<close>

definition is_hex_lower :: "char \<Rightarrow> bool" where
  "is_hex_lower c = (is_digit c \<or> (97 \<le> (of_char c :: nat) \<and> (of_char c :: nat) \<le> 102))"

definition digestPinnedRe :: "string \<Rightarrow> bool" where
  "digestPinnedRe s =
     (72 \<le> length s \<and> hasPrefix (drop (length s - 72) s) ''@sha256:'' \<and> list_all is_hex_lower (drop (length s - 64) s))"

definition is_word_char :: "char \<Rightarrow> bool" where
  "is_word_char c = (is_alnum c \<or> c = CHR ''_'')"

definition entrypointRe :: "string \<Rightarrow> bool" where
  "entrypointRe s =
     (case cutAt (CHR '':'') s of (m, attr, found) \<Rightarrow>
        found \<and> m \<noteq> [] \<and> list_all (\<lambda>c. is_word_char c \<or> c = CHR ''.'') m \<and>
        (case attr of [] \<Rightarrow> False | c # cs \<Rightarrow> is_word_char c \<and> \<not> is_digit c \<and> list_all is_word_char cs))"

definition validateCapability :: "('sc, 'sp, 'v) clib \<Rightarrow> Capability \<Rightarrow> msgtext list \<times> fieldErr list" where
  "validateCapability cl capCR =
     (let sp = cap_Spec capCR in
      ((if caps_SchemaPolicy sp = SchemaPolicyPermissive
        then [Sprintf ''Capability %s has schemaPolicy: permissive - attached agent config is not validated at admission'' [AS (om_Name (cap_Meta capCR))]]
        else []),
       errIf (\<not> digestPinnedRe (caps_Artifact sp)) (fInvalid ''spec.artifact'' (caps_Artifact sp)
         (Sprintf ''artifact must be digest-pinned (@sha256:<64 hex chars>); tags are not immutable'' [])) @
       errIf (\<not> entrypointRe (caps_Entrypoint sp)) (fInvalid ''spec.entrypoint'' (caps_Entrypoint sp)
         (Sprintf ''entrypoint must be module:attr where attr is the capability class itself (a single identifier, no factories or aliases)'' [])) @
       (case ValidateEntryName (entryNameOf capCR) of
          None \<Rightarrow> []
        | Some err \<Rightarrow> [fInvalid (if caps_SerializationName sp \<noteq> '''' then ''spec.serializationName'' else ''spec.entrypoint'') (entryNameOf capCR) (ErrText err)]) @
       errIf (caps_SchemaPolicy sp \<noteq> SchemaPolicyPermissive \<and> caps_ConfigSchema sp = None) (fRequired ''spec.configSchema''
         ''schemaPolicy strict requires a configSchema; publish one or set schemaPolicy: permissive (the loud opt-out)'') @
       (case caps_ConfigSchema sp of
          None \<Rightarrow> []
        | Some schema \<Rightarrow>
            (case CompileSchema (sl_js (cl_spec cl)) schema of None \<Rightarrow> [] | Some err \<Rightarrow> [fInvalid ''spec.configSchema'' '''' (ErrText err)])) @
       (case ValidateRequires (cl_pep cl) (requiresOf capCR) of None \<Rightarrow> [] | Some err \<Rightarrow> [fInvalid ''spec.requires'' '''' (ErrText err)]) @
       collectIdx (\<lambda>i pin. case ParsePin pin of
           Inl err \<Rightarrow> [fInvalid (fpIndex ''spec.dependencies'' i) pin (ErrText err)] | Inr _ \<Rightarrow> []) 0 (caps_Dependencies sp)))"

definition Capability_ValidateCreate :: "('sc, 'sp, 'v) clib \<Rightarrow> Capability \<Rightarrow> msgtext list \<times> (string \<times> string \<times> fieldErr list) option" where
  "Capability_ValidateCreate cl capCR =
     (let msgs = lib_IsDNS1123Label (cl_k8s cl) (om_Name (cap_Meta capCR));
          nameErrs = errIf (msgs \<noteq> []) (fInvalid ''metadata.name'' (om_Name (cap_Meta capCR)) (Sprintf
            ''Capability names must be valid DNS labels (lowercase alphanumerics and '-', at most 63 characters) because runner pods derive container and volume names from cap-<name>: %s''
            [AL msgs]));
          (warnings, allErrs) = validateCapability cl capCR
      in (warnings, aggregateFieldErrors ''Capability'' (om_Name (cap_Meta capCR)) (nameErrs @ allErrs)))"

definition Capability_ValidateUpdate :: "('sc, 'sp, 'v) clib \<Rightarrow> Capability \<Rightarrow> msgtext list \<times> (string \<times> string \<times> fieldErr list) option" where
  "Capability_ValidateUpdate cl capCR =
     (let (warnings, allErrs) = validateCapability cl capCR
      in (warnings, aggregateFieldErrors ''Capability'' (om_Name (cap_Meta capCR)) allErrs))"

subsection \<open>Admission and compilation agree\<close>

text \<open>Rules for the two loops on the error-free path.\<close>

lemma vcAttachment_grows: "\<exists>es. vc_errs (vcAttachment cl g rv runner agent i att st) = vc_errs st @ es"
  by (auto simp: vcAttachment_def addErrs_def Let_def split: sum.splits)

lemma vcAttachments_grow: "\<exists>es. vc_errs (vcAttachments cl g rv runner agent i atts st) = vc_errs st @ es"
proof (induction atts arbitrary: i st)
  case (Cons att atts)
  then show ?case using vcAttachment_grows[of cl g rv runner agent i att st] by (metis append.assoc vcAttachments.simps(2))
qed simp

lemma requireVerifiedDenial_none:
  "requireVerifiedDenial lib n c = None \<longleftrightarrow>
     cond_status lib (capst_Conditions (cap_Status c)) CapabilityConditionVerified = Some ConditionTrue"
  by (auto simp: requireVerifiedDenial_def cond_status_def split: option.splits)

lemma case_option_Nil: "(case x of None \<Rightarrow> [] | Some y \<Rightarrow> [f y]) = [] \<longleftrightarrow> x = None"
  by (cases x) auto

lemma case_list_Inr: "(case ms of [] \<Rightarrow> Inr x | m # ms' \<Rightarrow> Inl (e m ms')) = Inr y \<longleftrightarrow> ms = [] \<and> y = x"
  by (cases ms) auto

lemma decode_object: "isJSONObject raw \<longleftrightarrow> (\<exists>config. decodeMap nl raw = Inr config)"
  by (auto simp: isJSONObject_def decodeMap_def bindR_Inr_conv split: sum.splits)

text \<open>For a Capability that exists and has a valid entry name, the webhook's checks pass exactly when the compiler's do.\<close>

lemma checkFound_agrees:
  assumes "getCap key = Inr c" and "key = refKey agent (att_Ref att)" and "nn_Namespace key = om_Namespace (ag_Meta agent)"
    and "ValidateEntryName (entryNameOf c) = None"
  shows "checkFound cl rv runner p (nn_String key) c att owner = [] \<longleftrightarrow>
    owner = None \<and> (\<exists>config. attachmentAdmitted cl getCap rv runner agent att
      \<lparr>rc_Key = key, rc_CR = c, rc_EntryName = entryNameOf c, rc_Config = config\<rparr>)"
proof -
  have d: "(\<exists>config. decodeAttachmentConfig nl k att = Inr config) \<longleftrightarrow> (\<forall>raw. att_Config att = Some raw \<longrightarrow> isJSONObject raw)" for nl k
    using decode_object[of _ nl] by (cases "att_Config att") (auto simp: decodeAttachmentConfig_def case_Inr_conv split: sum.splits)
  have s: "checkAttachmentConfig js k c att = None \<longleftrightarrow>
      (caps_SchemaPolicy (cap_Spec c) = SchemaPolicyPermissive \<or>
       (\<exists>schema. caps_ConfigSchema (cap_Spec c) = Some schema \<and>
          ValidateConfig js schema (case att_Config att of None \<Rightarrow> Raw (JObj []) | Some raw \<Rightarrow> raw) = None))" for js k
    by (auto simp: checkAttachmentConfig_def split: option.splits)
  have "checkFound cl rv runner p (nn_String key) c att owner = [] \<longleftrightarrow>
      owner = None \<and> (\<forall>raw. att_Config att = Some raw \<longrightarrow> isJSONObject raw) \<and>
      CheckRequires (cl_pep cl) (om_Name (cap_Meta c)) (requiresOf c) runner = None \<and>
      (rv \<longrightarrow> cond_status (cl_k8s cl) (capst_Conditions (cap_Status c)) CapabilityConditionVerified = Some ConditionTrue) \<and>
      checkAttachmentConfig (sl_js (cl_spec cl)) (nn_String key) c att = None"
    unfolding s requireVerifiedDenial_none [symmetric, of _ _ "nn_String key"]
    by (cases "caps_ConfigSchema (cap_Spec c)") (auto simp: checkFound_def case_option_Nil split: option.splits(1))
  moreover have "(\<exists>config. attachmentAdmitted cl getCap rv runner agent att
        \<lparr>rc_Key = key, rc_CR = c, rc_EntryName = entryNameOf c, rc_Config = config\<rparr>) \<longleftrightarrow>
      (\<exists>config. decodeAttachmentConfig (cl_num cl) (nn_String key) att = Inr config) \<and>
      CheckRequires (cl_pep cl) (om_Name (cap_Meta c)) (requiresOf c) runner = None \<and>
      (rv \<longrightarrow> cond_status (cl_k8s cl) (capst_Conditions (cap_Status c)) CapabilityConditionVerified = Some ConditionTrue) \<and>
      checkAttachmentConfig (sl_js (cl_spec cl)) (nn_String key) c att = None"
    using assms by (auto simp: attachmentAdmitted_def entryNameOf_def)
  ultimately show ?thesis unfolding d by blast
qed

text \<open>The loop states correspond: same claimed entry names among the valid ones, same attached keys of the namespace.\<close>

definition loopRel :: "Agent \<Rightarrow> string smap \<Rightarrow> string list \<Rightarrow> vcState \<Rightarrow> bool" where
  "loopRel agent owners seen st \<longleftrightarrow>
     (\<forall>n. ValidateEntryName n = None \<longrightarrow> (mget owners n = None \<longleftrightarrow> mget (vc_entryOwners st) n = None)) \<and>
     (\<forall>k. nn_Namespace k = om_Namespace (ag_Meta agent) \<longrightarrow> (nn_String k \<in> set seen \<longleftrightarrow> k \<in> set (vc_seen st)))"

definition attachable :: "(NamespacedName \<Rightarrow> Capability result) \<Rightarrow> Agent \<Rightarrow> CapabilityAttachment \<Rightarrow> bool" where
  "attachable getCap agent att \<longleftrightarrow>
     (\<exists>c. getCap (refKey agent (att_Ref att)) = Inr c \<and> ValidateEntryName (entryNameOf c) = None)"

lemma vcAttachment_step:
  assumes rel: "loopRel agent owners seen st" and att: "attachable getCap agent att"
  shows "vc_errs (vcAttachment cl getCap rv runner agent i att st) = vc_errs st \<longleftrightarrow>
      (\<exists>rc. resolveAttachment cl getCap rv runner agent owners seen att = Inr rc)" (is ?errs)
    and "resolveAttachment cl getCap rv runner agent owners seen att = Inr rc \<Longrightarrow>
      vc_entryOwners (vcAttachment cl getCap rv runner agent i att st) = mput (rc_EntryName rc) (nn_String (rc_Key rc)) (vc_entryOwners st) \<and>
      vc_seen (vcAttachment cl getCap rv runner agent i att st) = rc_Key rc # vc_seen st \<and>
      vc_deps (vcAttachment cl getCap rv runner agent i att st) = vc_deps st @ [depsOfCap rc] \<and>
      nn_Namespace (rc_Key rc) = om_Namespace (ag_Meta agent)" (is "?res \<Longrightarrow> ?st")
proof -
  let ?key = "refKey agent (att_Ref att)"
  obtain c where c: "getCap ?key = Inr c" "ValidateEntryName (entryNameOf c) = None" using att by (auto simp: attachable_def)
  have own: "mget owners (entryNameOf c) = None \<longleftrightarrow> mget (vc_entryOwners st) (entryNameOf c) = None"
    using rel c(2) by (auto simp: loopRel_def)
  have rc: "resolveAttachment cl getCap rv runner agent owners seen att = Inr rc \<longleftrightarrow>
      attachmentAdmitted cl getCap rv runner agent att rc \<and> nn_String ?key \<notin> set seen \<and> mget (vc_entryOwners st) (entryNameOf c) = None \<and>
      rc_Key rc = ?key \<and> rc_CR rc = c \<and> rc_EntryName rc = entryNameOf c \<and> nn_Namespace ?key = om_Namespace (ag_Meta agent)" for rc
    unfolding resolveAttachment_Inr using c own by (auto simp: attachmentAdmitted_def entryNameOf_def)
  have ex: "(\<exists>rc. attachmentAdmitted cl getCap rv runner agent att rc \<and> P) \<longleftrightarrow>
      (\<exists>config. attachmentAdmitted cl getCap rv runner agent att \<lparr>rc_Key = ?key, rc_CR = c, rc_EntryName = entryNameOf c, rc_Config = config\<rparr>) \<and> P" for P
  proof -
    have "attachmentAdmitted cl getCap rv runner agent att rc \<Longrightarrow>
        rc = \<lparr>rc_Key = ?key, rc_CR = c, rc_EntryName = entryNameOf c, rc_Config = rc_Config rc\<rparr>" for rc
      using c(1) by (intro resolvedCap.equality) (auto simp: attachmentAdmitted_def entryNameOf_def)
    then show ?thesis by metis
  qed
  show ?errs
  proof (cases "nn_Namespace ?key = om_Namespace (ag_Meta agent) \<and> ?key \<notin> set (vc_seen st)")
    case True
    then have s: "nn_String ?key \<notin> set seen" using rel by (auto simp: loopRel_def)
    have "vc_errs (vcAttachment cl getCap rv runner agent i att st) = vc_errs st \<longleftrightarrow>
        checkFound cl rv runner (fpIndex ''spec.capabilities'' i) (nn_String ?key) c att (mget (vc_entryOwners st) (entryNameOf c)) = []"
      using True c(1) by (simp add: vcAttachment_def addErrs_def Let_def)
    also have "\<dots> \<longleftrightarrow> (\<exists>rc. attachmentAdmitted cl getCap rv runner agent att rc \<and> mget (vc_entryOwners st) (entryNameOf c) = None)"
      unfolding ex by (subst checkFound_agrees[where getCap = getCap and key = ?key and agent = agent, OF c(1) refl _ c(2)]) (use True in auto)
    also have "\<dots> \<longleftrightarrow> (\<exists>rc. resolveAttachment cl getCap rv runner agent owners seen att = Inr rc)"
      unfolding rc using s True c(1) by (auto simp: attachmentAdmitted_def entryNameOf_def)
    finally show ?thesis .
  next
    case False
    have "vc_errs (vcAttachment cl getCap rv runner agent i att st) \<noteq> vc_errs st"
      using False by (auto simp: vcAttachment_def addErrs_def Let_def)
    moreover have "\<nexists>rc. resolveAttachment cl getCap rv runner agent owners seen att = Inr rc"
      unfolding rc using False rel by (auto simp: loopRel_def)
    ultimately show ?thesis by blast
  qed
  assume ?res
  then have r: "rc_Key rc = ?key" "rc_CR rc = c" "rc_EntryName rc = entryNameOf c" "nn_Namespace ?key = om_Namespace (ag_Meta agent)"
      "mget (vc_entryOwners st) (entryNameOf c) = None" "?key \<notin> set (vc_seen st)"
    using rel unfolding rc loopRel_def by auto
  then show ?st using c(1) by (simp add: vcAttachment_def addErrs_def Let_def depsOfCap_def)
qed

lemma nn_String_inj: "nn_Namespace k = nn_Namespace k' \<Longrightarrow> nn_String k = nn_String k' \<longleftrightarrow> k = k'"
  by (cases k; cases k') (simp add: nn_String_def)

lemma loops_agree:
  assumes "loopRel agent owners seen st" and "\<forall>att \<in> set atts. attachable getCap agent att"
  shows "(vc_errs (vcAttachments cl getCap rv runner agent i atts st) = vc_errs st \<longleftrightarrow>
      (\<exists>rcs. resolveAttachments cl getCap rv runner agent owners seen atts = Inr rcs)) \<and>
    (\<forall>rcs. resolveAttachments cl getCap rv runner agent owners seen atts = Inr rcs \<longrightarrow>
      vc_deps (vcAttachments cl getCap rv runner agent i atts st) = vc_deps st @ map depsOfCap rcs)"
  using assms
proof (induction atts arbitrary: owners seen st i)
  case (Cons att atts)
  note IH = Cons.IH and prems = Cons.prems
  let ?st = "vcAttachment cl getCap rv runner agent i att st"
  have a: "attachable getCap agent att" using prems(2) by simp
  show ?case
  proof (cases "resolveAttachment cl getCap rv runner agent owners seen att")
    case (Inl e)
    then have ne: "vc_errs ?st \<noteq> vc_errs st" using vcAttachment_step(1)[OF prems(1) a, of cl rv runner i] by auto
    obtain es es' where "vc_errs ?st = vc_errs st @ es" "vc_errs (vcAttachments cl getCap rv runner agent (Suc i) atts ?st) = vc_errs ?st @ es'"
      using vcAttachment_grows vcAttachments_grow by meson
    then have "vc_errs (vcAttachments cl getCap rv runner agent (Suc i) atts ?st) \<noteq> vc_errs st" using ne by auto
    then show ?thesis using Inl by simp
  next
    case (Inr rc)
    note st = vcAttachment_step(2)[OF prems(1) a Inr, of i]
    have e: "vc_errs ?st = vc_errs st" using vcAttachment_step(1)[OF prems(1) a, of cl rv runner i] Inr by auto
    have rel: "loopRel agent (mput (rc_EntryName rc) (nn_String (rc_Key rc)) owners) (nn_String (rc_Key rc) # seen) ?st"
      using prems(1) st by (auto simp: loopRel_def nn_String_inj)
    show ?thesis using IH[OF rel, of "Suc i"] prems(2) Inr e st by (auto simp: bindR_Inr_conv)
  qed
qed simp

text \<open>C6. Admission and compilation agree on capabilities. For an Agent whose attached Capabilities exist and were themselves admitted, the
  webhook reports no capability error exactly when the compiler resolves the attachments: the order-tolerant, error-collecting
  loop of the webhook and the fail-fast loop of the compiler accept the same Agents.\<close>

theorem admission_agrees_with_compiler:
  assumes "acv_Reader v = Some reader" and "cd_GetCapability deps = Some (capabilityReader v reader)"
    and "opt_RequireVerified opts = acv_RequireVerifiedCapabilities v"
    and "opt_DefaultRunnerVersion opts = acv_DefaultRunnerVersion v" and "acv_DefaultRunnerVersion v \<noteq> ''''"
    and "\<forall>inj \<in> set (opt_Injected opts). hasPrefix (inj_Name inj) PlatformCapabilityPrefix"
    and "\<forall>att \<in> set (as_Capabilities (ag_Spec agent)). \<exists>c. capabilityReader v reader (refKey agent (att_Ref att)) = Inr c \<and> snd (validateCapability cl c) = []"
  shows "snd (validateCapabilities cl v agent) = [] \<longleftrightarrow>
    (\<exists>rcs. resolveCapabilities cl deps opts agent (resolvedRunnerVersion opts agent) = Inr rcs)"
proof (cases "as_Capabilities (ag_Spec agent) = []")
  case True
  then show ?thesis using assms(1) by (simp add: validateCapabilities_def resolveCapabilities_def)
next
  case ne: False
  let ?get = "capabilityReader v reader" and ?rv = "resolvedRunnerVersion opts agent"
  have ver: "admissionRunnerVersion (acv_DefaultRunnerVersion v) agent = ?rv"
    using assms(4,5) by (simp add: admissionRunnerVersion_def resolvedRunnerVersion_def)
  show ?thesis
  proof (cases "RunnerBaseline (cl_spec cl) ?rv")
    case (Inl e)
    then show ?thesis using assms(1,2) ne ver by (simp add: validateCapabilities_def resolveCapabilities_def Let_def)
  next
    case (Inr runner)
    let ?init = "\<lparr>vc_entryOwners = fragmentOwners agent, vc_seen = [], vc_deps = [], vc_warnings = [], vc_errs = []\<rparr>"
    let ?st = "vcAttachments cl ?get (acv_RequireVerifiedCapabilities v) runner agent 0 (as_Capabilities (ag_Spec agent)) ?init"
    let ?r = "resolveAttachments cl ?get (acv_RequireVerifiedCapabilities v) runner agent (claimedNames opts agent) [] (as_Capabilities (ag_Spec agent))"
    have inj: "ValidateEntryName n = None \<Longrightarrow> n \<notin> inj_Name ` set (opt_Injected opts)" for n
      using assms(6) by (auto simp: ValidateEntryName_def split: if_splits)
    have rel: "loopRel agent (claimedNames opts agent) [] ?init"
      using inj by (auto simp: loopRel_def claimedNames_None fragmentOwners_def mget_fold_mput)
    have "\<forall>att \<in> set (as_Capabilities (ag_Spec agent)). attachable ?get agent att"
      using assms(7) by (fastforce simp: attachable_def validateCapability_def Let_def case_option_Nil)
    note agree = loops_agree[OF rel this, of cl "acv_RequireVerifiedCapabilities v" runner 0]
    have v: "snd (validateCapabilities cl v agent) = [] \<longleftrightarrow> vc_errs ?st = [] \<and> DetectConflicts (vc_deps ?st) runner = []"
      using assms(1) ne ver Inr by (simp add: validateCapabilities_def Let_def)
    have c: "(\<exists>rcs. resolveCapabilities cl deps opts agent ?rv = Inr rcs) \<longleftrightarrow> (\<exists>rcs. ?r = Inr rcs \<and> DetectConflicts (map depsOfCap rcs) runner = [])"
      using assms(2,3) ne Inr by (auto simp: resolveCapabilities_def bindR_Inr_conv case_list_Inr)
    show ?thesis unfolding v c using agree by auto
  qed
qed

subsection \<open>Placeholders of an admitted Agent are bound\<close>

text \<open>An occurrence of a placeholder named \<open>n\<close> in a string.\<close>

definition placeholderIn :: "string \<Rightarrow> string \<Rightarrow> bool" where
  "placeholderIn s n \<longleftrightarrow> (\<exists>a b. s = a @ ''${secret:'' @ n @ ''}'' @ b) \<and> CHR ''}'' \<notin> set n"

lemma takeWhile_close: "CHR ''}'' \<notin> set n \<Longrightarrow> takeWhile (\<lambda>c. c \<noteq> CHR ''}'') (n @ CHR ''}'' # b) = n"
  by (induction n) auto

lemma skip_prefix: "p @ t = a @ c # r \<Longrightarrow> c \<notin> set p \<Longrightarrow> \<exists>a'. a = p @ a' \<and> t = a' @ c # r"
proof (induction p arbitrary: a)
  case (Cons x p)
  then show ?case by (cases a) auto
qed simp

text \<open>A match that reaches over a later placeholder has a dollar sign in its name.\<close>

lemma overlap_dollar:
  assumes "''${secret:'' @ m @ ''}'' @ t' = (x # a) @ CHR ''$'' # r" and "CHR ''$'' \<notin> set m"
  obtains a' where "t' = a' @ CHR ''$'' # r"
proof -
  define p where "p = ''{secret:'' @ m @ ''}''"
  have "p @ t' = a @ CHR ''$'' # r" "CHR ''$'' \<notin> set p" using assms by (auto simp: p_def)
  from skip_prefix[OF this] show thesis using that by blast
qed

lemma findPlaceholders_match:
  assumes "hasPrefix s ''${secret:''" and "CHR ''}'' \<in> set (drop 9 s)"
  obtains m r where "s = ''${secret:'' @ m @ ''}'' @ r" and "findPlaceholders s = m # findPlaceholders r" and "CHR ''}'' \<notin> set m"
proof -
  let ?m = "takeWhile (\<lambda>c. c \<noteq> CHR ''}'') (drop 9 s)"
  obtain m r where r: "drop 9 s = m @ CHR ''}'' # r" "CHR ''}'' \<notin> set m" using split_list_first[OF assms(2)] by blast
  have m: "?m = m" unfolding r(1) by (rule takeWhile_close[OF r(2)])
  have "take 9 s = ''${secret:''" using assms(1) by (simp add: hasPrefix_def numeral_eq_Suc)
  then have s: "s = ''${secret:'' @ m @ ''}'' @ r" using append_take_drop_id[of 9 s] r(1) by simp
  have "drop (10 + length m) s = drop (Suc (length m)) (drop 9 s)" by simp
  then have "drop (10 + length m) s = r" using r(1) by simp
  moreover have "findPlaceholders s = ?m # findPlaceholders (drop (10 + length ?m) s)"
    using assms by (subst findPlaceholders.simps) (auto simp: Let_def)
  ultimately show thesis using that[OF s _ r(2)] m by simp
qed

lemma findPlaceholders_skip:
  "s \<noteq> [] \<Longrightarrow> \<not> (hasPrefix s ''${secret:'' \<and> CHR ''}'' \<in> set (drop 9 s)) \<Longrightarrow> findPlaceholders s = findPlaceholders (tl s)"
  by (subst findPlaceholders.simps) auto

lemma findPlaceholders_complete:
  assumes "\<forall>m \<in> set (findPlaceholders t). CHR ''$'' \<notin> set m" and "t = a @ ''${secret:'' @ n @ ''}'' @ b" and "CHR ''}'' \<notin> set n"
  shows "n \<in> set (findPlaceholders t)"
  using assms
proof (induction "length t" arbitrary: t a rule: less_induct)
  case less
  note IH = less.hyps and prems = less.prems
  show ?case
  proof (cases "hasPrefix t ''${secret:'' \<and> CHR ''}'' \<in> set (drop 9 t)")
    case False
    then obtain x a' where a: "a = x # a'" using prems(2) by (cases a) (auto simp: hasPrefix_def)
    have t: "tl t = a' @ ''${secret:'' @ n @ ''}'' @ b" "t \<noteq> []" using prems(2) a by auto
    then show ?thesis using IH[of "tl t" a'] prems(1,3) findPlaceholders_skip[OF t(2) False] by (cases t) auto
  next
    case True
    then obtain m r where m: "t = ''${secret:'' @ m @ ''}'' @ r" "findPlaceholders t = m # findPlaceholders r" "CHR ''}'' \<notin> set m"
      by (auto elim: findPlaceholders_match)
    show ?thesis
    proof (cases a)
      case Nil
      then have "m @ CHR ''}'' # r = n @ CHR ''}'' # b" using m(1) prems(2) by simp
      then have "n = m" using takeWhile_close[OF m(3), of r] takeWhile_close[OF prems(3), of b] by simp
      then show ?thesis using m(2) by simp
    next
      case (Cons x a')
      have "CHR ''$'' \<notin> set m" using prems(1) m(2) by simp
      then obtain a2 where "r = a2 @ CHR ''$'' # ''{secret:'' @ n @ ''}'' @ b"
        using overlap_dollar[of m r x a' "''{secret:'' @ n @ ''}'' @ b"] m(1) prems(2) Cons by auto
      then show ?thesis using IH[of r a2] prems(1,3) m by simp
    qed
  qed
qed

text \<open>The strings of a document, and that each stands quoted in the text.\<close>

primrec jsonStrings :: "json \<Rightarrow> string list" where
  "jsonStrings JNull = []"
| "jsonStrings (JBool b) = []"
| "jsonStrings (JNum n) = []"
| "jsonStrings (JStr s) = [s]"
| "jsonStrings (JArr xs) = concat (map jsonStrings xs)"
| "jsonStrings (JObj kvs) = concat (map snd (map (map_prod id jsonStrings) kvs))"

lemma sublist_pad: "sublist x y \<Longrightarrow> sublist x (a @ y @ b)"
  by (meson sublist_appendI sublist_order.order_trans)

lemma joinStrings_part: "x \<in> set xs \<Longrightarrow> sublist x (joinStrings xs sep)"
proof (induction xs sep rule: joinStrings.induct)
  case (3 x1 y ys sep)
  then show ?case using sublist_pad[of x "joinStrings (y # ys) sep" "x1 @ sep" "[]"] by (auto simp del: joinStrings.simps(3) simp: joinStrings.simps(3)[of x1])
qed auto

lemma jsonStrings_quoted: "s \<in> set (jsonStrings d) \<Longrightarrow> sublist (quoteText s) (jsonText d)"
proof (induction d)
  case (JArr xs)
  then obtain x where x: "x \<in> set xs" "sublist (quoteText s) (jsonText x)" by auto
  then have "sublist (jsonText x) (joinStrings (map jsonText xs) '','')" by (intro joinStrings_part) auto
  then have "sublist (quoteText s) (joinStrings (map jsonText xs) '','')" using x(2) by (rule sublist_order.order_trans[rotated])
  then show ?case using sublist_pad[of _ _ "''[''" "'']''"] by simp
next
  case (JObj kvs)
  then obtain k x where x: "(k, x) \<in> set kvs" "sublist (quoteText s) (jsonText x)" by (fastforce simp: snds.simps)
  let ?ts = "map (\<lambda>(k, t). quoteText k @ '':'' @ t) (map (map_prod id jsonText) kvs)"
  have "quoteText k @ '':'' @ jsonText x \<in> set ?ts" using x(1) by force
  then have "sublist (quoteText k @ '':'' @ jsonText x) (joinStrings ?ts '','')" by (rule joinStrings_part)
  moreover have "sublist (quoteText s) (quoteText k @ '':'' @ jsonText x)"
    using sublist_pad[OF x(2), of "quoteText k @ '':''" "[]"] by simp
  ultimately have "sublist (quoteText s) (joinStrings ?ts '','')" by (rule sublist_order.order_trans[rotated])
  then show ?case using sublist_pad[of _ _ "''{''" "''}''"] by simp
qed (auto simp: sublist_def)

lemma hex_pad_digits: "x \<in> set (hex_pad k n) \<Longrightarrow> \<exists>d < 16. x = digit_char d"
proof (induction k arbitrary: n)
  case (Suc k)
  have "n mod 16 < 16" by simp
  then show ?case using Suc by (auto intro: exI[of _ "n mod 16"])
qed simp

lemma digit_char_not_close: "d < 16 \<Longrightarrow> digit_char d \<noteq> CHR ''}''"
proof -
  have "list_all (\<lambda>d. digit_char d \<noteq> CHR ''}'') [0..<16]" by code_simp
  then show "d < 16 \<Longrightarrow> digit_char d \<noteq> CHR ''}''" by (simp add: list_all_iff)
qed

lemma escChar_close: "c \<noteq> CHR ''}'' \<Longrightarrow> CHR ''}'' \<notin> set (escChar c)"
proof -
  have "CHR ''}'' \<notin> set (hex_pad 4 (of_char c))" using hex_pad_digits digit_char_not_close by metis
  then show "c \<noteq> CHR ''}'' \<Longrightarrow> CHR ''}'' \<notin> set (escChar c)" by (auto simp: escChar_def Let_def backslash_def simp del: hex_pad.simps)
qed

lemma escChar_plain: "backslash \<notin> set (escChar c) \<Longrightarrow> escChar c = [c]"
  by (auto simp: escChar_def Let_def split: if_splits)

lemma escString_close: "CHR ''}'' \<notin> set n \<Longrightarrow> CHR ''}'' \<notin> set (escString n)"
proof (induction n)
  case (Cons c n)
  then show ?case using escChar_close[of c] by (auto simp: escString_def)
qed (simp add: escString_def)

lemma escString_plain: "backslash \<notin> set (escString n) \<Longrightarrow> escString n = n"
proof (induction n)
  case (Cons c n)
  then show ?case using escChar_plain[of c] by (simp add: escString_def)
qed (simp add: escString_def)

lemma escString_append: "escString (a @ b) = escString a @ escString b"
  by (simp add: escString_def)

lemma escString_placeholder: "escString ''${secret:'' = ''${secret:''" "escString ''}'' = ''}''"
  by code_simp+

lemma firstSeen_set: "set (firstSeen seen xs) = set xs - set seen"
  by (induction seen xs rule: firstSeen.induct) auto

lemma validatePlaceholders_Nil:
  "validatePlaceholders p (Some text) refs = [] \<longleftrightarrow> (\<forall>m \<in> set (findPlaceholders text). validSecretRefName m \<and> mget refs m \<noteq> None)"
proof -
  have "placeholderErrors p refs m = [] \<longleftrightarrow> validSecretRefName m \<and> mget refs m \<noteq> None" for m
    by (simp add: placeholderErrors_def)
  then show ?thesis unfolding validatePlaceholders_def jsonSecretPlaceholders_def by (simp add: firstSeen_set)
qed

lemma validSecretRefName_plain:
  assumes "validSecretRefName m"
  shows "CHR ''$'' \<notin> set m" and "backslash \<notin> set m"
proof -
  have "\<not> is_secret_name_char (CHR ''$'')" "\<not> is_secret_name_char backslash" by code_simp+
  then show "CHR ''$'' \<notin> set m" "backslash \<notin> set m" using assms by (auto simp: validSecretRefName_def list_all_iff)
qed

text \<open>A placeholder in any string of a scanned document whose scan reports nothing is bound.\<close>

lemma scanned_placeholder_bound:
  assumes "validatePlaceholders p (Some (jsonText d)) refs = []" and "s \<in> set (jsonStrings d)" and "placeholderIn s n"
  shows "validSecretRefName n \<and> mget refs n \<noteq> None"
proof -
  have ok: "\<forall>m \<in> set (findPlaceholders (jsonText d)). validSecretRefName m \<and> mget refs m \<noteq> None"
    using assms(1) by (simp add: validatePlaceholders_Nil)
  have nd: "\<forall>m \<in> set (findPlaceholders (jsonText d)). CHR ''$'' \<notin> set m" using ok validSecretRefName_plain(1) by blast
  obtain a b where s: "s = a @ ''${secret:'' @ n @ ''}'' @ b" "CHR ''}'' \<notin> set n" using assms(3) by (auto simp: placeholderIn_def)
  obtain u v where t: "jsonText d = u @ quoteText s @ v" using jsonStrings_quoted[OF assms(2)] by (auto simp: sublist_def)
  define x y where "x = u @ [CHR 0x22] @ escString a" and "y = escString b @ [CHR 0x22] @ v"
  have "jsonText d = x @ ''${secret:'' @ escString n @ ''}'' @ y"
    unfolding t quoteText_def s(1) escString_append escString_placeholder x_def y_def by simp
  from findPlaceholders_complete[OF nd this escString_close[OF s(2)]]
  have m: "validSecretRefName (escString n)" "mget refs (escString n) \<noteq> None" using ok by auto
  have "escString n = n" by (rule escString_plain[OF validSecretRefName_plain(2)[OF m(1)]])
  then show ?thesis using m by simp
qed

definition configStrings :: "CapabilityAttachment \<Rightarrow> string list" where
  "configStrings att = (case att_Config att of None \<Rightarrow> [] | Some raw \<Rightarrow> jsonStrings (rawDoc raw))"

lemma configStrings_mem:
  assumes "s \<in> set (configStrings att)"
  obtains d where "att_Config att = Some (Raw d)" and "s \<in> set (jsonStrings d)"
proof (cases "att_Config att")
  case (Some raw)
  then show thesis using assms that by (cases raw) (auto simp: configStrings_def)
qed (use assms in \<open>simp add: configStrings_def\<close>)

definition agentStrings :: "Agent \<Rightarrow> string list" where
  "agentStrings agent =
     (case as_Spec (ag_Spec agent) of None \<Rightarrow> [] | Some f \<Rightarrow> jsonStrings (fragmentDoc f)) @
     concat (map configStrings (as_Capabilities (ag_Spec agent)))"

text \<open>C7. No placeholder of an admitted Agent dangles. Every \<open>${secret:NAME}\<close> in any string of the fragment or of an attachment config has a
  well-formed name with an entry in \<open>secretRefs\<close>, and the runner gets the environment variable for it. The scan reads the marshalled
  text, so this covers escaping and matches that would run across string boundaries.\<close>

theorem admitted_placeholders_bound:
  assumes "validateAgent agent = []" and "\<forall>f. as_Spec (ag_Spec agent) = Some f \<longrightarrow> RawBad \<notin> set (fragmentRaws f)"
    and "s \<in> set (agentStrings agent)" and "placeholderIn s n"
  shows "validSecretRefName n \<and> (\<exists>sel. mget (as_SecretRefs (ag_Spec agent)) n = Some sel \<and> envSecret (SecretEnvName n) sel \<in> set (agentSecretEnv agent))"
proof -
  let ?refs = "as_SecretRefs (ag_Spec agent)"
  have "\<exists>p d. validatePlaceholders p (Some (jsonText d)) ?refs = [] \<and> s \<in> set (jsonStrings d)"
  proof (cases "\<exists>f. as_Spec (ag_Spec agent) = Some f \<and> s \<in> set (jsonStrings (fragmentDoc f))")
    case True
    then obtain f where f: "as_Spec (ag_Spec agent) = Some f" "s \<in> set (jsonStrings (fragmentDoc f))" by blast
    then have "validatePlaceholders ''spec.spec'' (Some (jsonText (fragmentDoc f))) ?refs = []"
      using assms(1,2) by (simp add: validateAgent_def Let_def marshalFragment_def)
    then show ?thesis using f(2) by blast
  next
    case False
    then obtain att where att: "att \<in> set (as_Capabilities (ag_Spec agent))" "s \<in> set (configStrings att)"
      using assms(3) by (auto simp: agentStrings_def split: option.splits)
    obtain d where a: "att \<in> set (as_Capabilities (ag_Spec agent))" "att_Config att = Some (Raw d)" "s \<in> set (jsonStrings d)"
      using configStrings_mem[OF att(2)] att(1) by blast
    have "collectIdx (\<lambda>i att. case att_Config att of None \<Rightarrow> []
        | Some raw \<Rightarrow> validatePlaceholders (fpChild (fpIndex ''spec.capabilities'' i) ''config'') (marshalRaw raw) ?refs) 0 (as_Capabilities (ag_Spec agent)) = []"
      using assms(1) by (simp add: validateAgent_def Let_def)
    from collectIdx_Nil_set[OF this a(1)] show ?thesis using a(2,3) by (auto simp: marshalRaw_def)
  qed
  then have n: "validSecretRefName n" "mget ?refs n \<noteq> None" using scanned_placeholder_bound assms(4) by blast+
  then obtain sel where sel: "mget ?refs n = Some sel" by blast
  then have "n \<in> set (sortStrings (mkeys ?refs))" by (auto simp: sortStrings_def dest: map_of_SomeD intro: image_eqI[of _ _ "(n, sel)"])
  then have "envSecret (SecretEnvName n) sel \<in> set (agentSecretEnv agent)" using sel by (force simp: agentSecretEnv_def)
  then show ?thesis using n(1) sel by blast
qed

subsection \<open>Witnesses\<close>

definition pinnedCapability :: Capability where
  "pinnedCapability = demoCapability\<lparr>cap_Spec := (cap_Spec demoCapability)
     \<lparr>caps_Artifact := ''registry/memory@sha256:'' @ replicate 64 (CHR ''a'')\<rparr>\<rparr>"

definition demoReader :: avReader where
  "demoReader = \<lparr>av_GetModel = (\<lambda>k. Inr demoModel), av_GetInstruction = (\<lambda>k. Inl (ApiError StatusNotFound ''instruction'')),
     av_GetAgentTool = (\<lambda>k. Inr demoTool), av_GetCapability = (\<lambda>k. Inr pinnedCapability)\<rparr>"

definition demoValidator :: AgentCustomValidator where
  "demoValidator = \<lparr>acv_Reader = Some demoReader, acv_CapabilityReader = None, acv_DefaultRunnerVersion = ''1'',
     acv_RequireVerifiedCapabilities = True\<rparr>"

theorem admission_agrees_with_compiler_witness:
  "\<exists>rcs. resolveCapabilities demoLib (demoDeps\<lparr>cd_GetCapability := Some (\<lambda>k. Inr pinnedCapability)\<rparr>) demoOptions demoAgent
     (resolvedRunnerVersion demoOptions demoAgent) = Inr rcs"
proof -
  let ?deps = "demoDeps\<lparr>cd_GetCapability := Some (\<lambda>k. Inr pinnedCapability)\<rparr>"
  have r: "capabilityReader demoValidator demoReader = (\<lambda>k. Inr pinnedCapability)" by (simp add: capabilityReader_def demoValidator_def demoReader_def)
  have adm: "snd (validateCapability demoLib pinnedCapability) = []" by code_simp
  have "snd (validateCapabilities demoLib demoValidator demoAgent) = [] \<longleftrightarrow>
      (\<exists>rcs. resolveCapabilities demoLib ?deps demoOptions demoAgent (resolvedRunnerVersion demoOptions demoAgent) = Inr rcs)"
    by (rule admission_agrees_with_compiler[of demoValidator demoReader])
      (use adm in \<open>simp_all add: r, simp_all add: demoValidator_def demoDeps_def demoOptions_def hasPrefix_def PlatformCapabilityPrefix_def\<close>)
  moreover have "snd (validateCapabilities demoLib demoValidator demoAgent) = []" by code_simp
  ultimately show ?thesis by blast
qed

definition placeholderAgent :: Agent where
  "placeholderAgent = demoAgent\<lparr>ag_Spec := (ag_Spec demoAgent)\<lparr>as_Spec := Some (demoFragment\<lparr>frag_Instructions := [''use ${secret:db-pass}'']\<rparr>)\<rparr>\<rparr>"

theorem admitted_placeholders_bound_witness:
  "validateAgent placeholderAgent = [] \<and> ''use ${secret:db-pass}'' \<in> set (agentStrings placeholderAgent) \<and>
   envSecret (SecretEnvName ''db-pass'') \<lparr>sks_Name = ''db'', sks_Key = ''pw'', sks_Optional = None\<rparr> \<in> set (agentSecretEnv placeholderAgent)"
proof -
  have v: "validateAgent placeholderAgent = []" by code_simp
  have f: "\<forall>f. as_Spec (ag_Spec placeholderAgent) = Some f \<longrightarrow> RawBad \<notin> set (fragmentRaws f)"
    by (simp add: placeholderAgent_def fragmentRaws_def demoFragment_def)
  have s: "''use ${secret:db-pass}'' \<in> set (agentStrings placeholderAgent)" by code_simp
  have p: "placeholderIn ''use ${secret:db-pass}'' ''db-pass''"
    unfolding placeholderIn_def by (intro conjI exI[of _ "''use ''"] exI[of _ "''''"]) simp_all
  have "mget (as_SecretRefs (ag_Spec placeholderAgent)) ''db-pass'' = Some \<lparr>sks_Name = ''db'', sks_Key = ''pw'', sks_Optional = None\<rparr>" by code_simp
  with admitted_placeholders_bound[OF v f s p] v s show ?thesis by auto
qed

end
