(* ===== verification/StatusStore.thy ===== *)
theory StatusStore
  imports TriggerService
begin

text \<open>
  What the controllers rely on when they write a status through \<open>updateStatusWithRetry\<close> (\<open>internal/controller/status.go\<close>):
  the API server stores the status it accepts, and \<open>retry.RetryOnConflict\<close> returns what its last attempt returned. The locale
  \<open>status_store\<close> states both; its client lemma is that a status write that reports no error left the wanted status in the store,
  however many conflicts came before.
\<close>

definition last_attempt :: "('w, 'o) retrier \<Rightarrow> bool" where
  "last_attempt retry \<longleftrightarrow> (\<forall>attempt s. \<exists>n. retry attempt s = attempt (((snd \<circ> attempt) ^^ n) s))"

text \<open>As \<open>updateStatusWithRetry\<close>, but with the object as the caller's pointer sees it afterwards.\<close>

definition updateStatusObj ::
  "('w, 'o) retrier \<Rightarrow> ('w, 'o) kclient \<Rightarrow> ('o \<Rightarrow> NamespacedName) \<Rightarrow> ('o \<Rightarrow> 'o) \<Rightarrow> 'o \<Rightarrow> 'w \<Rightarrow> goerror option \<times> 'o \<times> 'w" where
  "updateStatusObj retry kc key applyStatus x w = retry (statusAttempt kc key applyStatus) (applyStatus x, w)"

lemma updateStatusWithRetry_obj:
  "updateStatusWithRetry retry kc key applyStatus x w =
     (fst (updateStatusObj retry kc key applyStatus x w), snd (snd (updateStatusObj retry kc key applyStatus x w)))"
  by (simp add: updateStatusWithRetry_def updateStatusObj_def split: prod.split)

text \<open>Whatever single status writes keep, a status write with its retries keeps.\<close>

lemma attempt_frame:
  assumes "\<And>x w. P w \<Longrightarrow> P (snd (kc_UpdateStatus kc x w))" and "P w"
  shows "P (snd (snd (statusAttempt kc key applyStatus (x, w))))"
proof -
  obtain r w1 where u: "kc_UpdateStatus kc x w = (r, w1)" by (metis prod.collapse)
  have p1: "P w1" using assms(1)[of w x, OF assms(2)] u by simp
  have p2: "P (snd (kc_UpdateStatus kc y w1))" for y by (rule assms(1)[OF p1])
  show ?thesis
  proof (cases r)
    case (Inl err)
    show ?thesis
    proof (cases "kc_Get kc (key x) w1")
      case (Inr fresh)
      then show ?thesis using Inl u p1 p2[of "applyStatus fresh"] by (auto simp: statusAttempt_def split: prod.splits sum.splits)
    qed (use Inl u p1 in \<open>simp add: statusAttempt_def\<close>)
  qed (use u p1 in \<open>simp add: statusAttempt_def\<close>)
qed

lemma status_frame:
  assumes "last_attempt retry" and step: "\<And>x w. P w \<Longrightarrow> P (snd (kc_UpdateStatus kc x w))" and "P w"
  shows "P (snd (updateStatusWithRetry retry kc key applyStatus x w))"
proof -
  define a where "a = statusAttempt kc key applyStatus"
  have keep: "P (snd s) \<Longrightarrow> P (snd (snd (a s)))" for s using attempt_frame[where P = P and kc = kc and w = "snd s" and x = "fst s" and key = key and applyStatus = applyStatus, OF step] by (simp add: a_def)
  have "P (snd (((snd \<circ> a) ^^ n) (applyStatus x, w)))" for n using keep assms(3) by (induction n) auto
  moreover obtain n where "retry a (applyStatus x, w) = a (((snd \<circ> a) ^^ n) (applyStatus x, w))" using assms(1) unfolding last_attempt_def by blast
  ultimately show ?thesis using keep by (simp add: updateStatusWithRetry_obj updateStatusObj_def a_def [symmetric])
qed

locale status_store =
  fixes kc :: "('w, 'o) kclient" and key :: "'o \<Rightarrow> NamespacedName" and view :: "'o \<Rightarrow> 'v"
  assumes status_written: "kc_UpdateStatus kc x w = (Inr s, w') \<Longrightarrow>
      view s = view x \<and> key s = key x \<and> (\<exists>s'. kc_Get kc (key x) w' = Inr s' \<and> view s' = view x)"
    and get_key: "kc_Get kc k w = Inr x \<Longrightarrow> key x = k"
begin

text \<open>An attempt keeps key and view of the object it sends, and if it succeeds the store has them.\<close>

lemma attempt_keeps:
  assumes "statusAttempt kc key applyStatus (x, w) = (e, x', w')" and "view x = v"
    and ap: "\<And>y. view (applyStatus y) = v" "\<And>y. key (applyStatus y) = key y"
  shows "view x' = v \<and> key x' = key x \<and> (e = None \<longrightarrow> (\<exists>s. kc_Get kc (key x) w' = Inr s \<and> view s = v))"
proof (cases "kc_UpdateStatus kc x w")
  case u: (Pair r w1)
  show ?thesis
  proof (cases r)
    case (Inr x1)
    then show ?thesis using assms(1,2) u status_written[of x w x1 w1] by (auto simp: statusAttempt_def)
  next
    case err: (Inl err)
    show ?thesis
    proof (cases "apierrors_IsConflict err \<and> (\<exists>fresh. kc_Get kc (key x) w1 = Inr fresh)")
      case True
      then obtain fresh where f: "kc_Get kc (key x) w1 = Inr fresh" "apierrors_IsConflict err" by blast
      obtain r2 w2 where u2: "kc_UpdateStatus kc (applyStatus fresh) w1 = (r2, w2)" by (metis prod.collapse)
      have k: "key (applyStatus fresh) = key x" using get_key[OF f(1)] ap(2) by simp
      show ?thesis
      proof (cases r2)
        case (Inl e2)
        then show ?thesis using assms(1) u err f u2 k ap(1) by (auto simp: statusAttempt_def)
      next
        case (Inr x2)
        then show ?thesis using assms(1) u err f u2 k ap(1) status_written[of "applyStatus fresh" w1 x2 w2] by (auto simp: statusAttempt_def)
      qed
    next
      case False
      then show ?thesis using assms(1,2) u err by (cases "kc_Get kc (key x) w1") (auto simp: statusAttempt_def split: if_splits)
    qed
  qed
qed

lemma attempts_keep:
  assumes "view x = v" and ap: "\<And>y. view (applyStatus y) = v" "\<And>y. key (applyStatus y) = key y"
  shows "view (fst (((snd \<circ> statusAttempt kc key applyStatus) ^^ n) (x, w))) = v \<and>
    key (fst (((snd \<circ> statusAttempt kc key applyStatus) ^^ n) (x, w))) = key x"
proof -
  define step where "step = snd \<circ> statusAttempt kc key applyStatus"
  have "view (fst ((step ^^ n) (x, w))) = v \<and> key (fst ((step ^^ n) (x, w))) = key x"
  proof (induction n)
    case (Suc n)
    obtain x1 w1 where s: "(step ^^ n) (x, w) = (x1, w1)" by (metis prod.collapse)
    obtain e x2 w2 where a: "statusAttempt kc key applyStatus (x1, w1) = (e, x2, w2)" by (metis prod.collapse)
    have "step (x1, w1) = (x2, w2)" using a by (simp add: step_def)
    then show ?case using attempt_keeps[OF a _ ap] Suc s by simp
  qed (use assms(1) in simp)
  then show ?thesis by (simp only: step_def)
qed

lemma status_stored:
  assumes "last_attempt retry" and "updateStatusObj retry kc key applyStatus x w = (None, x1, w1)"
    and ap: "\<And>y. view (applyStatus y) = v" "\<And>y. key (applyStatus y) = key y"
  shows "view x1 = v \<and> key x1 = key x \<and> (\<exists>s. kc_Get kc (key x) w1 = Inr s \<and> view s = v)"
proof -
  let ?a = "statusAttempt kc key applyStatus"
  obtain n where n: "retry ?a (applyStatus x, w) = ?a (((snd \<circ> ?a) ^^ n) (applyStatus x, w))"
    using assms(1) unfolding last_attempt_def by blast
  obtain x0 w0 where s: "((snd \<circ> ?a) ^^ n) (applyStatus x, w) = (x0, w0)" by (metis prod.collapse)
  have "view x0 = v" "key x0 = key x" using attempts_keep[of "applyStatus x" v applyStatus n w, unfolded s] ap by auto
  moreover have "?a (x0, w0) = (None, x1, w1)" using assms(2) n s by (simp add: updateStatusObj_def)
  ultimately show ?thesis using attempt_keeps[of applyStatus x0 w0 None x1 w1 v] ap by auto
qed

lemma status_stored_err:
  assumes "last_attempt retry" and "updateStatusWithRetry retry kc key applyStatus x w = (None, w1)"
    and "\<And>y. view (applyStatus y) = v" "\<And>y. key (applyStatus y) = key y"
  shows "\<exists>s. kc_Get kc (key x) w1 = Inr s \<and> view s = v"
proof -
  obtain e x1 w2 where u: "updateStatusObj retry kc key applyStatus x w = (e, x1, w2)" by (metis prod.collapse)
  then have "e = None" "w2 = w1" using assms(2) by (auto simp: updateStatusWithRetry_obj)
  then show ?thesis using status_stored[OF assms(1) _ assms(3,4)] u by blast
qed

end

lemma status_store_comp: "status_store kc key view \<Longrightarrow> status_store kc key (\<lambda>x. f (view x))"
  unfolding status_store_def by (metis (no_types, lifting))

lemma memClient_status: "status_store (memClient key) key view"
  by unfold_locales (auto simp: memClient_def update_conv split: if_splits option.splits)

text \<open>Clients of two kinds of objects on one cluster.\<close>

definition onFst :: "('a, 'o) kclient \<Rightarrow> ('a \<times> 'b, 'o) kclient" where
  "onFst kc = \<lparr>kc_Get = (\<lambda>k w. kc_Get kc k (fst w)),
     kc_Create = (\<lambda>x w. case kc_Create kc x (fst w) of (r, a) \<Rightarrow> (r, (a, snd w))),
     kc_Update = (\<lambda>x w. case kc_Update kc x (fst w) of (r, a) \<Rightarrow> (r, (a, snd w))),
     kc_UpdateStatus = (\<lambda>x w. case kc_UpdateStatus kc x (fst w) of (r, a) \<Rightarrow> (r, (a, snd w))),
     kc_Delete = (\<lambda>k w. case kc_Delete kc k (fst w) of (r, a) \<Rightarrow> (r, (a, snd w)))\<rparr>"

definition onSnd :: "('b, 'o) kclient \<Rightarrow> ('a \<times> 'b, 'o) kclient" where
  "onSnd kc = \<lparr>kc_Get = (\<lambda>k w. kc_Get kc k (snd w)),
     kc_Create = (\<lambda>x w. case kc_Create kc x (snd w) of (r, b) \<Rightarrow> (r, (fst w, b))),
     kc_Update = (\<lambda>x w. case kc_Update kc x (snd w) of (r, b) \<Rightarrow> (r, (fst w, b))),
     kc_UpdateStatus = (\<lambda>x w. case kc_UpdateStatus kc x (snd w) of (r, b) \<Rightarrow> (r, (fst w, b))),
     kc_Delete = (\<lambda>k w. case kc_Delete kc k (snd w) of (r, b) \<Rightarrow> (r, (fst w, b)))\<rparr>"

lemma onFst_status: "status_store kc key view \<Longrightarrow> status_store (onFst kc) key view"
  by (auto simp: status_store_def onFst_def split: prod.splits)

lemma onSnd_simps [simp]:
  "kc_Get (onSnd kc) k w = kc_Get kc k (snd w)"
  "kc_Create (onSnd kc) x w = (r, w') \<longleftrightarrow> kc_Create kc x (snd w) = (r, snd w') \<and> fst w' = fst w"
  "kc_Update (onSnd kc) x w = (r, w') \<longleftrightarrow> kc_Update kc x (snd w) = (r, snd w') \<and> fst w' = fst w"
  by (cases w'; auto simp: onSnd_def split: prod.splits)+

lemma onSnd_store:
  assumes "kube_store kc key view"
  shows "kube_store (onSnd kc) key view"
proof
  fix x s w w'
  show "kc_Create (onSnd kc) x w = (Inr s, w') \<Longrightarrow> view s = view x \<and> (\<exists>s'. kc_Get (onSnd kc) (key x) w' = Inr s' \<and> view s' = view x)"
    using kube_store.create_stored[OF assms, of x "snd w" s "snd w'"] by simp
  show "kc_Update (onSnd kc) x w = (Inr s, w') \<Longrightarrow> view s = view x \<and> (\<exists>s'. kc_Get (onSnd kc) (key x) w' = Inr s' \<and> view s' = view x)"
    using kube_store.update_stored[OF assms, of x "snd w" s "snd w'"] by simp
next
  fix x w r w' k
  show "kc_Create (onSnd kc) x w = (r, w') \<Longrightarrow> k \<noteq> key x \<Longrightarrow> kc_Get (onSnd kc) k w' = kc_Get (onSnd kc) k w"
    using kube_store.create_frame[OF assms, of x "snd w" r "snd w'" k] by simp
  show "kc_Update (onSnd kc) x w = (r, w') \<Longrightarrow> k \<noteq> key x \<Longrightarrow> kc_Get (onSnd kc) k w' = kc_Get (onSnd kc) k w"
    using kube_store.update_frame[OF assms, of x "snd w" r "snd w'" k] by simp
next
  fix x w e w'
  show "kc_Create (onSnd kc) x w = (Inl e, w') \<Longrightarrow> w' = w"
    using kube_store.create_refused[OF assms, of x "snd w" e "snd w'"] by (auto intro: prod_eqI)
  show "kc_Update (onSnd kc) x w = (Inl e, w') \<Longrightarrow> w' = w"
    using kube_store.update_refused[OF assms, of x "snd w" e "snd w'"] by (auto intro: prod_eqI)
next
  fix k w x
  show "kc_Get (onSnd kc) k w = Inr x \<Longrightarrow> key x = k" using kube_store.get_key[OF assms] by simp
qed

lemma onFst_frame [simp]: "snd (snd (kc_UpdateStatus (onFst kc) x w)) = snd w"
  by (simp add: onFst_def split: prod.splits)

lemma oneShot_last: "last_attempt (\<lambda>attempt s. attempt s)"
  unfolding last_attempt_def by (metis funpow_0)

interpretation triggerStatus: status_store "memClient (\<lambda>t. keyOf (tr_Meta t))" "\<lambda>t. keyOf (tr_Meta t)" tr_Status
  by (rule memClient_status)

interpretation agentStatus: status_store "memClient (\<lambda>a. keyOf (ag_Meta a))" "\<lambda>a. keyOf (ag_Meta a)" ag_Status
  by (rule memClient_status)

end
