(* ===== verification/WorkflowController.thy ===== *)
theory WorkflowController
  imports StatusStore WorkflowCompile
begin

text \<open>
  \<open>internal/controller/agentworkflow_controller.go\<close>: compiles an AgentWorkflow and applies the Argo WorkflowTemplate. The clients of
  the two kinds of objects, \<open>controllerutil.SetControllerReference\<close>, the JSON text of the spec and SHA-256 (for \<open>hash.JSONStruct\<close>) and
  the trace context of the compile span are parameters.
\<close>

subsection \<open>Definitions\<close>

definition agentWorkflowFinalizer :: string where "agentWorkflowFinalizer = ''agent.flokoa.ai/agentworkflow-finalizer''"
definition ConditionTypeWorkflowCompiled :: string where "ConditionTypeWorkflowCompiled = ''Compiled''"
definition ConditionTypeWorkflowReady :: string where "ConditionTypeWorkflowReady = ''Ready''"
definition ReasonCompiled :: string where "ReasonCompiled = ''Compiled''"
definition ReasonCompileFailed :: string where "ReasonCompileFailed = ''CompileFailed''"
definition ReasonApplied :: string where "ReasonApplied = ''Applied''"
definition ReasonApplyFailed :: string where "ReasonApplyFailed = ''ApplyFailed''"

record 'w wfdeps =
  wd_Workflows :: "('w, AgentWorkflow) kclient"
  wd_Templates :: "('w, WorkflowTemplate) kclient"
  wd_SetOwner :: "AgentWorkflow \<Rightarrow> ObjectMeta \<Rightarrow> ObjectMeta result"
  wd_SpecText :: "AgentWorkflowSpec \<Rightarrow> string result"
  wd_Sha256hex :: "string \<Rightarrow> string"
  wd_Numbers :: numlib
  wd_Base64 :: "rawjson \<Rightarrow> string"
  wd_TraceParent :: string
  wd_CompilerOptions :: CompilerOptions

definition wfSpecHash :: "'w wfdeps \<Rightarrow> AgentWorkflow \<Rightarrow> string result" where
  "wfSpecHash deps awf = bindR (wd_SpecText deps (awf_Spec awf)) (\<lambda>text. Inr (take 16 (wd_Sha256hex deps text)))"

definition wfCompile :: "'w wfdeps \<Rightarrow> AgentWorkflow \<Rightarrow> WorkflowTemplate result" where
  "wfCompile deps awf = compileToArgoWorkflowTemplate (wd_Numbers deps) (wd_Base64 deps) (wd_TraceParent deps) awf (wd_CompilerOptions deps)"

definition wfSetCondition :: "k8slib \<Rightarrow> string \<Rightarrow> ConditionStatus \<Rightarrow> string \<Rightarrow> msgtext \<Rightarrow> AgentWorkflow \<Rightarrow> AgentWorkflow" where
  "wfSetCondition lib ctype status reason message awf =
     awf\<lparr>awf_Status := (awf_Status awf)\<lparr>awst_Conditions := lib_SetStatusCondition lib (awst_Conditions (awf_Status awf))
       \<lparr>c_Type = ctype, c_Status = status, c_ObservedGeneration = om_Generation (awf_Meta awf),
        c_LastTransitionTime = lib_Now lib, c_Reason = reason, c_Message = message\<rparr>\<rparr>\<rparr>"

definition markNotReady :: "AgentWorkflow \<Rightarrow> AgentWorkflow" where
  "markNotReady awf = awf\<lparr>awf_Status := (awf_Status awf)\<lparr>awst_Ready := False, awst_ObservedGeneration := om_Generation (awf_Meta awf)\<rparr>\<rparr>"

abbreviation awfKey :: "AgentWorkflow \<Rightarrow> NamespacedName" where "awfKey a \<equiv> keyOf (awf_Meta a)"

text \<open>The status write that replaces the whole status by the one computed so far.\<close>

definition writeStatus :: "'w wfdeps \<Rightarrow> ('w, AgentWorkflow) retrier \<Rightarrow> AgentWorkflow \<Rightarrow> 'w \<Rightarrow> goerror option \<times> 'w" where
  "writeStatus deps retry awf w =
     updateStatusWithRetry retry (wd_Workflows deps) awfKey (\<lambda>a. a\<lparr>awf_Status := awf_Status awf\<rparr>) awf w"

definition failWith ::
  "k8slib \<Rightarrow> 'w wfdeps \<Rightarrow> ('w, AgentWorkflow) retrier \<Rightarrow> string \<Rightarrow> string \<Rightarrow> goerror \<Rightarrow> AgentWorkflow \<Rightarrow> 'w \<Rightarrow> ctrlResult \<times> 'w" where
  "failWith lib deps retry ctype reason err awf w =
     (case writeStatus deps retry (markNotReady (wfSetCondition lib ctype ConditionFalse reason (ErrText err) awf)) w of
        (statusErr, w1) \<Rightarrow> (\<lparr>cr_RequeueAfterSeconds = 0, cr_Error = Some err\<rparr>, w1))"

definition appliedStatus :: "k8slib \<Rightarrow> string \<Rightarrow> string \<Rightarrow> AgentWorkflow \<Rightarrow> AgentWorkflow" where
  "appliedStatus lib name specHash awf =
     (let a = wfSetCondition lib ConditionTypeWorkflowReady ConditionTrue ReasonApplied (Sprintf ''Argo WorkflowTemplate %q applied'' [AS name]) awf in
      a\<lparr>awf_Status := (awf_Status a)\<lparr>awst_WorkflowTemplateName := name, awst_Ready := True, awst_SpecHash := specHash,
         awst_ObservedGeneration := om_Generation (awf_Meta a)\<rparr>\<rparr>)"

definition mergeTemplate :: "WorkflowTemplate \<Rightarrow> WorkflowTemplate \<Rightarrow> WorkflowTemplate" where
  "mergeTemplate existing wft = wft\<lparr>wft_Meta := (wft_Meta existing)\<lparr>om_Labels := om_Labels (wft_Meta wft)\<rparr>\<rparr>"

definition finishApply ::
  "k8slib \<Rightarrow> 'w wfdeps \<Rightarrow> ('w, AgentWorkflow) retrier \<Rightarrow> string \<Rightarrow> string \<Rightarrow> AgentWorkflow \<Rightarrow> WorkflowTemplate result \<times> 'w \<Rightarrow> ctrlResult \<times> 'w" where
  "finishApply lib deps retry name specHash awf applied =
     (case applied of
        (Inl err, w) \<Rightarrow> failWith lib deps retry ConditionTypeWorkflowReady ReasonApplyFailed err awf w
      | (Inr _, w) \<Rightarrow>
          (case writeStatus deps retry (appliedStatus lib name specHash awf) w of
             (Some err, w1) \<Rightarrow> (\<lparr>cr_RequeueAfterSeconds = 0, cr_Error = Some err\<rparr>, w1)
           | (None, w1) \<Rightarrow> (ctrlDone, w1)))"

definition applyTemplate ::
  "k8slib \<Rightarrow> 'w wfdeps \<Rightarrow> ('w, AgentWorkflow) retrier \<Rightarrow> string \<Rightarrow> AgentWorkflow \<Rightarrow> WorkflowTemplate \<Rightarrow> 'w \<Rightarrow> ctrlResult \<times> 'w" where
  "applyTemplate lib deps retry specHash awf wft w =
     (case kc_Get (wd_Templates deps) (keyOf (wft_Meta wft)) w of
        Inl err \<Rightarrow>
          if apierrors_IsNotFound err
          then finishApply lib deps retry (om_Name (wft_Meta wft)) specHash awf (kc_Create (wd_Templates deps) wft w)
          else (\<lparr>cr_RequeueAfterSeconds = 0, cr_Error = Some (ErrorfW ''failed to get existing WorkflowTemplate: %w'' [] err)\<rparr>, w)
      | Inr existing \<Rightarrow>
          finishApply lib deps retry (om_Name (wft_Meta wft)) specHash awf (kc_Update (wd_Templates deps) (mergeTemplate existing wft) w))"

definition compileAndApply :: "k8slib \<Rightarrow> 'w wfdeps \<Rightarrow> ('w, AgentWorkflow) retrier \<Rightarrow> AgentWorkflow \<Rightarrow> 'w \<Rightarrow> ctrlResult \<times> 'w" where
  "compileAndApply lib deps retry awf w =
     (case wfSpecHash deps awf of
        Inl err \<Rightarrow> (\<lparr>cr_RequeueAfterSeconds = 0, cr_Error = Some (ErrorfW ''failed to hash spec: %w'' [] err)\<rparr>, w)
      | Inr newSpecHash \<Rightarrow>
          if awst_SpecHash (awf_Status awf) = newSpecHash \<and> awst_Ready (awf_Status awf) then (ctrlDone, w)
          else (case updateStatusObj retry (wd_Workflows deps) awfKey markNotReady awf w of
                  (Some err, awf1, w1) \<Rightarrow> (\<lparr>cr_RequeueAfterSeconds = 0, cr_Error = Some err\<rparr>, w1)
                | (None, awf1, w1) \<Rightarrow>
                    (case wfCompile deps awf1 of
                       Inl err \<Rightarrow> failWith lib deps retry ConditionTypeWorkflowCompiled ReasonCompileFailed err awf1 w1
                     | Inr wft \<Rightarrow>
                         (let awf2 = wfSetCondition lib ConditionTypeWorkflowCompiled ConditionTrue ReasonCompiled
                                (Sprintf ''AgentWorkflow compiled to Argo WorkflowTemplate'' []) awf1 in
                          case wd_SetOwner deps awf2 (wft_Meta wft) of
                            Inl err \<Rightarrow> (\<lparr>cr_RequeueAfterSeconds = 0, cr_Error = Some (ErrorfW ''failed to set owner reference: %w'' [] err)\<rparr>, w1)
                          | Inr m \<Rightarrow> applyTemplate lib deps retry newSpecHash awf2 (wft\<lparr>wft_Meta := m\<rparr>) w1))))"

definition cleanupTemplate :: "'w wfdeps \<Rightarrow> AgentWorkflow \<Rightarrow> 'w \<Rightarrow> goerror option \<times> 'w" where
  "cleanupTemplate deps awf w =
     (if awst_WorkflowTemplateName (awf_Status awf) = '''' then (None, w)
      else let k = \<lparr>nn_Name = awst_WorkflowTemplateName (awf_Status awf), nn_Namespace = om_Namespace (awf_Meta awf)\<rparr> in
        case kc_Get (wd_Templates deps) k w of
          Inl err \<Rightarrow> (None, w)
        | Inr wft \<Rightarrow>
            (case kc_Delete (wd_Templates deps) (keyOf (wft_Meta wft)) w of
               (Some err, w1) \<Rightarrow> (if apierrors_IsNotFound err then None else Some err, w1)
             | (None, w1) \<Rightarrow> (None, w1)))"

definition AgentWorkflowReconciler_Reconcile ::
  "k8slib \<Rightarrow> 'w wfdeps \<Rightarrow> ('w, AgentWorkflow) retrier \<Rightarrow> NamespacedName \<Rightarrow> 'w \<Rightarrow> ctrlResult \<times> 'w" where
  "AgentWorkflowReconciler_Reconcile lib deps retry req w =
     (let kc = wd_Workflows deps in
      case kc_Get kc req w of
        Inl err \<Rightarrow> (if apierrors_IsNotFound err then ctrlDone else \<lparr>cr_RequeueAfterSeconds = 0, cr_Error = Some err\<rparr>, w)
      | Inr awf \<Rightarrow>
          if om_Deleting (awf_Meta awf)
          then if agentWorkflowFinalizer \<in> set (om_Finalizers (awf_Meta awf))
               then (case cleanupTemplate deps awf w of
                       (Some err, w1) \<Rightarrow> (\<lparr>cr_RequeueAfterSeconds = 0, cr_Error = Some err\<rparr>, w1)
                     | (None, w1) \<Rightarrow>
                         (case kc_Update kc (awf\<lparr>awf_Meta := (awf_Meta awf)\<lparr>om_Finalizers :=
                                 filter (\<lambda>f. f \<noteq> agentWorkflowFinalizer) (om_Finalizers (awf_Meta awf))\<rparr>\<rparr>) w1 of
                            (Inl err, w2) \<Rightarrow> (\<lparr>cr_RequeueAfterSeconds = 0, cr_Error = Some err\<rparr>, w2)
                          | (Inr _, w2) \<Rightarrow> (ctrlDone, w2)))
               else (ctrlDone, w)
          else if agentWorkflowFinalizer \<notin> set (om_Finalizers (awf_Meta awf))
          then (case kc_Update kc (awf\<lparr>awf_Meta := (awf_Meta awf)\<lparr>om_Finalizers := om_Finalizers (awf_Meta awf) @ [agentWorkflowFinalizer]\<rparr>\<rparr>) w of
                  (Inl err, w1) \<Rightarrow> (\<lparr>cr_RequeueAfterSeconds = 0, cr_Error = Some err\<rparr>, w1)
                | (Inr _, w1) \<Rightarrow> (\<lparr>cr_RequeueAfterSeconds = 1, cr_Error = None\<rparr>, w1))
          else compileAndApply lib deps retry awf w)"

subsection \<open>What a run leaves behind\<close>

text \<open>The part of a template that is compiled: everything but its metadata.\<close>

definition templateSpec :: "WorkflowTemplate \<Rightarrow> WorkflowTemplate" where
  "templateSpec t = t\<lparr>wft_Meta := objectMeta '''' '''' [] []\<rparr>"

lemma writeStatus_stored:
  assumes "status_store (wd_Workflows deps) awfKey awf_Status" and "last_attempt retry" and "writeStatus deps retry a w = (None, w')"
  shows "\<exists>s. kc_Get (wd_Workflows deps) (awfKey a) w' = Inr s \<and> awf_Status s = awf_Status a"
  by (rule status_store.status_stored_err[OF assms(1,2), of "\<lambda>x. x\<lparr>awf_Status := awf_Status a\<rparr>" a w])
    (use assms(3) in \<open>simp_all add: writeStatus_def\<close>)

lemma writeStatus_frame:
  assumes "last_attempt retry"
    and "\<And>x w. kc_Get (wd_Templates deps) k (snd (kc_UpdateStatus (wd_Workflows deps) x w)) = kc_Get (wd_Templates deps) k w"
    and "writeStatus deps retry a w = (e, w')"
  shows "kc_Get (wd_Templates deps) k w' = kc_Get (wd_Templates deps) k w"
proof -
  have "kc_Get (wd_Templates deps) k (snd (writeStatus deps retry a w)) = kc_Get (wd_Templates deps) k w"
    unfolding writeStatus_def
    by (rule status_frame[where P = "\<lambda>w1. kc_Get (wd_Templates deps) k w1 = kc_Get (wd_Templates deps) k w", OF assms(1)]) (simp_all add: assms(2))
  then show ?thesis using assms(3) by simp
qed

lemma appliedStatus_view:
  assumes "status_condition_laws lib"
  shows "awf_Meta (appliedStatus lib n h a) = awf_Meta a" and "awst_Ready (awf_Status (appliedStatus lib n h a))"
    and "awst_SpecHash (awf_Status (appliedStatus lib n h a)) = h" and "awst_WorkflowTemplateName (awf_Status (appliedStatus lib n h a)) = n"
    and "cond_status lib (awst_Conditions (awf_Status (appliedStatus lib n h a))) ConditionTypeWorkflowReady = Some ConditionTrue"
  by (simp_all add: appliedStatus_def wfSetCondition_def Let_def cond_set[OF assms])

text \<open>A quiet apply stored the template and the status.\<close>

lemma finishApply_done:
  assumes "finishApply lib deps retry n h a applied = (ctrlDone, w')"
  obtains t w1 where "applied = (Inr t, w1)" and "writeStatus deps retry (appliedStatus lib n h a) w1 = (None, w')"
  using assms by (auto simp: finishApply_def failWith_def split: prod.splits sum.splits option.splits)

lemma applyTemplate_done:
  assumes ts: "kube_store (wd_Templates deps) (\<lambda>t. keyOf (wft_Meta t)) templateSpec" and "last_attempt retry"
    and frame: "\<And>k x w. kc_Get (wd_Templates deps) k (snd (kc_UpdateStatus (wd_Workflows deps) x w)) = kc_Get (wd_Templates deps) k w"
    and run: "applyTemplate lib deps retry h a wft w = (ctrlDone, w')"
  obtains t w1 where "kc_Get (wd_Templates deps) (keyOf (wft_Meta wft)) w' = Inr t" and "templateSpec t = templateSpec wft"
    and "writeStatus deps retry (appliedStatus lib (om_Name (wft_Meta wft)) h a) w1 = (None, w')"
proof -
  let ?k = "keyOf (wft_Meta wft)"
  have "\<exists>s w1 x. (kc_Create (wd_Templates deps) x w = (Inr s, w1) \<or> kc_Update (wd_Templates deps) x w = (Inr s, w1)) \<and> keyOf (wft_Meta x) = ?k \<and>
      templateSpec x = templateSpec wft \<and> writeStatus deps retry (appliedStatus lib (om_Name (wft_Meta wft)) h a) w1 = (None, w')"
  proof (cases "kc_Get (wd_Templates deps) ?k w")
    case (Inl err)
    then have "finishApply lib deps retry (om_Name (wft_Meta wft)) h a (kc_Create (wd_Templates deps) wft w) = (ctrlDone, w')"
      using run by (simp add: applyTemplate_def split: if_splits)
    then show ?thesis by (elim finishApply_done) blast
  next
    case (Inr existing)
    then have "finishApply lib deps retry (om_Name (wft_Meta wft)) h a (kc_Update (wd_Templates deps) (mergeTemplate existing wft) w) = (ctrlDone, w')"
      using run by (simp add: applyTemplate_def)
    moreover have "keyOf (wft_Meta (mergeTemplate existing wft)) = ?k" using kube_store.get_key[OF ts Inr] by (simp add: mergeTemplate_def)
    moreover have "templateSpec (mergeTemplate existing wft) = templateSpec wft" by (simp add: templateSpec_def mergeTemplate_def)
    ultimately show ?thesis by (elim finishApply_done) blast
  qed
  then obtain s w1 x where x: "kc_Create (wd_Templates deps) x w = (Inr s, w1) \<or> kc_Update (wd_Templates deps) x w = (Inr s, w1)"
      "keyOf (wft_Meta x) = ?k" "templateSpec x = templateSpec wft" "writeStatus deps retry (appliedStatus lib (om_Name (wft_Meta wft)) h a) w1 = (None, w')" by blast
  obtain t where t: "kc_Get (wd_Templates deps) ?k w1 = Inr t" "templateSpec t = templateSpec wft"
    using x(1-3) kube_store.create_stored[OF ts, of x w s w1] kube_store.update_stored[OF ts, of x w s w1] by auto
  show thesis using that[OF _ t(2) x(4)] writeStatus_frame[OF assms(2) frame x(4), of ?k] t(1) by simp
qed

text \<open>Owner references leave the name and the namespace alone.\<close>

definition owner_keeps_key :: "'w wfdeps \<Rightarrow> bool" where
  "owner_keeps_key deps \<longleftrightarrow> (\<forall>a m m'. wd_SetOwner deps a m = Inr m' \<longrightarrow> keyOf m' = keyOf m)"

text \<open>C10. A run of the workflow controller that ends quietly either skipped, changing nothing because the status already says Ready for the hash of
  the spec, or left in the cluster exactly the compilation of the workflow as the first status write returned it, with a status that
  says Ready, names the template and carries the hash of the spec that was read. The skip does not look at the template.\<close>

theorem workflow_applied_or_skipped:
  assumes "status_condition_laws lib" and ws: "status_store (wd_Workflows deps) awfKey awf_Status"
    and ts: "kube_store (wd_Templates deps) (\<lambda>t. keyOf (wft_Meta t)) templateSpec" and retry: "last_attempt retry"
    and frame: "\<And>k x w. kc_Get (wd_Templates deps) k (snd (kc_UpdateStatus (wd_Workflows deps) x w)) = kc_Get (wd_Templates deps) k w"
    and owner: "owner_keeps_key deps"
    and run: "compileAndApply lib deps retry awf w = (ctrlDone, w')"
  shows "w' = w \<and> awst_Ready (awf_Status awf) \<and> wfSpecHash deps awf = Inr (awst_SpecHash (awf_Status awf)) \<or>
    (\<exists>awf1 w1 wft t a. updateStatusObj retry (wd_Workflows deps) awfKey markNotReady awf w = (None, awf1, w1) \<and>
       wfCompile deps awf1 = Inr wft \<and> kc_Get (wd_Templates deps) (keyOf (wft_Meta wft)) w' = Inr t \<and> templateSpec t = templateSpec wft \<and>
       kc_Get (wd_Workflows deps) (awfKey awf) w' = Inr a \<and> awst_Ready (awf_Status a) \<and>
       wfSpecHash deps awf = Inr (awst_SpecHash (awf_Status a)) \<and> awst_WorkflowTemplateName (awf_Status a) = om_Name (wft_Meta wft) \<and>
       cond_status lib (awst_Conditions (awf_Status a)) ConditionTypeWorkflowReady = Some ConditionTrue)"
proof (cases "wfSpecHash deps awf = Inr (awst_SpecHash (awf_Status awf)) \<and> awst_Ready (awf_Status awf)")
  case True
  then show ?thesis using run by (simp add: compileAndApply_def)
next
  case False
  obtain h e awf1 w1 where h: "wfSpecHash deps awf = Inr h" and u: "updateStatusObj retry (wd_Workflows deps) awfKey markNotReady awf w = (e, awf1, w1)"
    using run by (cases "wfSpecHash deps awf"; cases "updateStatusObj retry (wd_Workflows deps) awfKey markNotReady awf w") (auto simp: compileAndApply_def)
  have e: "e = None" using run False h u by (cases e) (auto simp: compileAndApply_def split: if_splits)
  let ?a = "wfSetCondition lib ConditionTypeWorkflowCompiled ConditionTrue ReasonCompiled (Sprintf ''AgentWorkflow compiled to Argo WorkflowTemplate'' []) awf1"
  obtain wft m where c: "wfCompile deps awf1 = Inr wft" "wd_SetOwner deps ?a (wft_Meta wft) = Inr m"
      "applyTemplate lib deps retry h ?a (wft\<lparr>wft_Meta := m\<rparr>) w1 = (ctrlDone, w')"
    using run False h u e by (auto simp: compileAndApply_def failWith_def Let_def split: sum.splits prod.splits if_splits)
  have km: "keyOf m = keyOf (wft_Meta wft)" using owner c(2) unfolding owner_keeps_key_def by blast
  obtain t w2 where t: "kc_Get (wd_Templates deps) (keyOf (wft_Meta wft)) w' = Inr t" "templateSpec t = templateSpec wft"
      "writeStatus deps retry (appliedStatus lib (om_Name m) h ?a) w2 = (None, w')"
    by (rule applyTemplate_done[OF ts retry frame c(3)]) (use km in \<open>simp add: templateSpec_def\<close>)
  have "awfKey awf1 = awfKey awf"
    using status_store.status_stored[OF status_store_comp[OF ws, of "\<lambda>s. ()"] retry, of markNotReady awf w awf1 w1 "()"] u e
    by (simp add: markNotReady_def)
  then have ka: "awfKey (appliedStatus lib (om_Name m) h ?a) = awfKey awf" by (simp add: appliedStatus_view(1)[OF assms(1)] wfSetCondition_def)
  obtain a where a: "kc_Get (wd_Workflows deps) (awfKey awf) w' = Inr a" "awf_Status a = awf_Status (appliedStatus lib (om_Name m) h ?a)"
    using writeStatus_stored[OF ws retry t(3)] ka by auto
  have n: "om_Name m = om_Name (wft_Meta wft)" using km by simp
  show ?thesis using u e c(1) t(1,2) a h n appliedStatus_view(2-)[OF assms(1)] by auto
qed

text \<open>A workflow that no longer compiles is reported by \<open>status.ready\<close> and the Compiled condition, but its Ready condition still shows the
  outcome of the last application: both are written into one status.\<close>

theorem workflow_compile_failure_status:
  assumes "status_condition_laws lib" and ws: "status_store (wd_Workflows deps) awfKey awf_Status" and retry: "last_attempt retry"
    and "wfSpecHash deps awf \<noteq> Inr (awst_SpecHash (awf_Status awf))"
    and u: "updateStatusObj retry (wd_Workflows deps) awfKey markNotReady awf w = (None, awf1, w1)" and c: "wfCompile deps awf1 = Inl err"
    and wr: "writeStatus deps retry (markNotReady (wfSetCondition lib ConditionTypeWorkflowCompiled ConditionFalse ReasonCompileFailed (ErrText err) awf1)) w1 = (None, w2)"
    and run: "compileAndApply lib deps retry awf w = (r, w')" and "isl (wfSpecHash deps awf) = False"
  shows "cr_Error r = Some err \<and> (\<exists>a. kc_Get (wd_Workflows deps) (awfKey awf) w' = Inr a \<and> \<not> awst_Ready (awf_Status a) \<and>
    cond_status lib (awst_Conditions (awf_Status a)) ConditionTypeWorkflowCompiled = Some ConditionFalse \<and>
    cond_status lib (awst_Conditions (awf_Status a)) ConditionTypeWorkflowReady = cond_status lib (awst_Conditions (awf_Status awf1)) ConditionTypeWorkflowReady)"
proof -
  let ?a = "markNotReady (wfSetCondition lib ConditionTypeWorkflowCompiled ConditionFalse ReasonCompileFailed (ErrText err) awf1)"
  obtain h where h: "wfSpecHash deps awf = Inr h" using assms(9) by (cases "wfSpecHash deps awf") auto
  have r: "r = \<lparr>cr_RequeueAfterSeconds = 0, cr_Error = Some err\<rparr>" "w' = w2"
    using run h assms(4) u c wr by (auto simp: compileAndApply_def failWith_def)
  have "awfKey awf1 = awfKey awf"
    using status_store.status_stored[OF status_store_comp[OF ws, of "\<lambda>s. ()"] retry u, of "()"] by (simp add: markNotReady_def)
  then have k: "awfKey ?a = awfKey awf" by (simp add: markNotReady_def wfSetCondition_def)
  have ne: "ConditionTypeWorkflowReady \<noteq> ConditionTypeWorkflowCompiled" by (simp add: ConditionTypeWorkflowReady_def ConditionTypeWorkflowCompiled_def)
  obtain s where s: "kc_Get (wd_Workflows deps) (awfKey awf) w' = Inr s" "awf_Status s = awf_Status ?a"
    using writeStatus_stored[OF ws retry wr] k r(2) by auto
  have "\<not> awst_Ready (awf_Status ?a)" "cond_status lib (awst_Conditions (awf_Status ?a)) ConditionTypeWorkflowCompiled = Some ConditionFalse"
      "cond_status lib (awst_Conditions (awf_Status ?a)) ConditionTypeWorkflowReady = cond_status lib (awst_Conditions (awf_Status awf1)) ConditionTypeWorkflowReady"
    using ne by (simp_all add: markNotReady_def wfSetCondition_def cond_set[OF assms(1)])
  then show ?thesis using r(1) s by auto
qed

subsection \<open>Witnesses\<close>

definition demoWfDeps :: "(AgentWorkflow cluster \<times> WorkflowTemplate cluster) wfdeps" where
  "demoWfDeps = \<lparr>wd_Workflows = onFst (memClient awfKey), wd_Templates = onSnd (memClient (\<lambda>t. keyOf (wft_Meta t))),
     wd_SetOwner = (\<lambda>a m. Inr (m\<lparr>om_OwnerUID := Some (om_UID (awf_Meta a))\<rparr>)), wd_SpecText = (\<lambda>s. Inr ''spec''),
     wd_Sha256hex = (\<lambda>t. ''0123456789abcdef0123''), wd_Numbers = zeroFloats, wd_Base64 = (\<lambda>r. ''''), wd_TraceParent = ''00-1'',
     wd_CompilerOptions = \<lparr>co_ArtifactIOEnabled = False, co_ArtifactGCStrategy = ''''\<rparr>\<rparr>"

definition wfWorld :: "AgentWorkflow cluster \<times> WorkflowTemplate cluster" where
  "wfWorld = ([(awfKey demoWorkflow, demoWorkflow)], [])"

lemma demoWfDeps_laws:
  "status_store (wd_Workflows demoWfDeps) awfKey awf_Status"
  "kube_store (wd_Templates demoWfDeps) (\<lambda>t. keyOf (wft_Meta t)) templateSpec"
  "kc_Get (wd_Templates demoWfDeps) k (snd (kc_UpdateStatus (wd_Workflows demoWfDeps) x w)) = kc_Get (wd_Templates demoWfDeps) k w"
  "owner_keeps_key demoWfDeps"
  by (auto simp: owner_keeps_key_def demoWfDeps_def onSnd_store memClient_store onFst_status memClient_status)

theorem workflow_applied_or_skipped_witness:
  "\<exists>w' wft t a. compileAndApply stdlib demoWfDeps (\<lambda>attempt s. attempt s) demoWorkflow wfWorld = (ctrlDone, w') \<and>
     kc_Get (wd_Templates demoWfDeps) (keyOf (wft_Meta wft)) w' = Inr t \<and> templateSpec t = templateSpec wft \<and>
     kc_Get (wd_Workflows demoWfDeps) (awfKey demoWorkflow) w' = Inr a \<and> awst_Ready (awf_Status a) \<and>
     awst_SpecHash (awf_Status a) = ''0123456789abcdef''"
proof -
  let ?run = "compileAndApply stdlib demoWfDeps (\<lambda>attempt s. attempt s) demoWorkflow wfWorld"
  have r: "fst ?run = ctrlDone" by code_simp
  obtain w' where w': "?run = (ctrlDone, w')" using r by (cases ?run) simp
  have h: "wfSpecHash demoWfDeps demoWorkflow = Inr ''0123456789abcdef''" "\<not> awst_Ready (awf_Status demoWorkflow)" by code_simp+
  obtain wft t a where "kc_Get (wd_Templates demoWfDeps) (keyOf (wft_Meta wft)) w' = Inr t" "templateSpec t = templateSpec wft"
      "kc_Get (wd_Workflows demoWfDeps) (awfKey demoWorkflow) w' = Inr a" "awst_Ready (awf_Status a)"
      "wfSpecHash demoWfDeps demoWorkflow = Inr (awst_SpecHash (awf_Status a))"
    using workflow_applied_or_skipped[OF stdlib_condition_laws demoWfDeps_laws(1,2) oneShot_last demoWfDeps_laws(3,4) w'] h(2) by blast
  then show ?thesis using h(1) w' by auto
qed

end
