(* ===== verification/ResourceControllers.thy ===== *)
theory ResourceControllers
  imports StatusStore
begin

text \<open>
  The controllers of the referenced resources: \<open>internal/controller/instruction_controller.go\<close>, \<open>model_controller.go\<close>,
  \<open>modelprovider_controller.go\<close> and \<open>agenttool_controller.go\<close> with \<open>internal/domain/modelprovider\<close> and
  \<open>internal/domain/tool\<close>. They validate, resolve and report; the compiler reads the resources themselves.
\<close>

definition fetchFailed :: "goerror \<Rightarrow> ctrlResult" where
  "fetchFailed err = (if apierrors_IsNotFound err then ctrlDone else \<lparr>cr_RequeueAfterSeconds = 0, cr_Error = Some err\<rparr>)"

definition failed :: "goerror \<Rightarrow> ctrlResult" where
  "failed err = \<lparr>cr_RequeueAfterSeconds = 0, cr_Error = Some err\<rparr>"

subsection \<open>ModelProvider\<close>

definition ValidateProvider :: "ModelProvider \<Rightarrow> ProviderType result" where
  "ValidateProvider mp =
     (let found = (if mps_OpenAI (mp_Spec mp) \<noteq> None then [ProviderTypeOpenAI] else []) @
                  (if mps_Anthropic (mp_Spec mp) \<noteq> None then [ProviderTypeAnthropic] else []) @
                  (if mps_Google (mp_Spec mp) \<noteq> None then [ProviderTypeGoogle] else []) @
                  (if mps_Bedrock (mp_Spec mp) \<noteq> None then [ProviderTypeBedrock] else [])
      in if found = [] then Inl (Errorf ''exactly one of openai, anthropic, google, or bedrock must be specified'' [])
         else if 1 < length found
         then Inl (Errorf ''only one of openai, anthropic, google, or bedrock can be specified, found %d'' [AI (int (length found))])
         else Inr (last found))"

definition ModelProviderConditionTypeReady :: string where "ModelProviderConditionTypeReady = ''Ready''"
definition ModelProviderConditionTypeValidated :: string where "ModelProviderConditionTypeValidated = ''Validated''"
definition ModelProviderReasonValidated :: string where "ModelProviderReasonValidated = ''Validated''"
definition ModelProviderReasonNoProviderSet :: string where "ModelProviderReasonNoProviderSet = ''NoProviderSet''"

text \<open>\<open>metav1.Condition\<close> literals leave the transition time zero.\<close>

definition conditionAt :: "string \<Rightarrow> ConditionStatus \<Rightarrow> int \<Rightarrow> string \<Rightarrow> msgtext \<Rightarrow> Condition" where
  "conditionAt ctype status generation reason message =
     \<lparr>c_Type = ctype, c_Status = status, c_ObservedGeneration = generation, c_LastTransitionTime = zeroTime,
      c_Reason = reason, c_Message = message\<rparr>"

definition setProviderConditions :: "k8slib \<Rightarrow> Condition \<Rightarrow> Condition \<Rightarrow> ModelProvider \<Rightarrow> ModelProvider" where
  "setProviderConditions lib validated ready mp =
     mp\<lparr>mp_Status := (mp_Status mp)\<lparr>mpst_Conditions :=
       lib_SetStatusCondition lib (lib_SetStatusCondition lib (mpst_Conditions (mp_Status mp)) validated) ready\<rparr>\<rparr>"

definition ModelProvider_status :: "k8slib \<Rightarrow> ModelProvider \<Rightarrow> ModelProviderStatus" where
  "ModelProvider_status lib mp =
     (let g = om_Generation (mp_Meta mp) in
      case ValidateProvider mp of
        Inl err \<Rightarrow>
          (mp_Status (setProviderConditions lib
             (conditionAt ModelProviderConditionTypeValidated ConditionFalse g ModelProviderReasonNoProviderSet (ErrText err))
             (conditionAt ModelProviderConditionTypeReady ConditionFalse g ModelProviderReasonNoProviderSet (ErrText err)) mp))
          \<lparr>mpst_Ready := False, mpst_Provider := ProviderTypeNone, mpst_ObservedGeneration := g\<rparr>
      | Inr providerType \<Rightarrow>
          (mp_Status (setProviderConditions lib
             (conditionAt ModelProviderConditionTypeValidated ConditionTrue g ModelProviderReasonValidated
                (Sprintf ''Provider type resolved: %s'' [AS (providerTypeText providerType)]))
             (conditionAt ModelProviderConditionTypeReady ConditionTrue g ModelProviderReasonValidated (Sprintf ''ModelProvider is ready'' [])) mp))
          \<lparr>mpst_Provider := providerType, mpst_Ready := True, mpst_ObservedGeneration := g\<rparr>)"

definition ModelProviderReconciler_Reconcile ::
  "k8slib \<Rightarrow> ('w, ModelProvider) kclient \<Rightarrow> ('w, ModelProvider) retrier \<Rightarrow> NamespacedName \<Rightarrow> 'w \<Rightarrow> ctrlResult \<times> 'w" where
  "ModelProviderReconciler_Reconcile lib kc retry req w =
     (case kc_Get kc req w of
        Inl err \<Rightarrow> (fetchFailed err, w)
      | Inr mp \<Rightarrow>
          (case updateStatusWithRetry retry kc (\<lambda>m. keyOf (mp_Meta m)) (\<lambda>m. m\<lparr>mp_Status := ModelProvider_status lib mp\<rparr>) mp w of
             (Some err, w1) \<Rightarrow> (failed err, w1)
           | (None, w1) \<Rightarrow> (ctrlDone, w1)))"

subsection \<open>Model\<close>

definition ModelConditionTypeReady :: string where "ModelConditionTypeReady = ''Ready''"
definition ModelConditionTypeProviderResolved :: string where "ModelConditionTypeProviderResolved = ''ProviderResolved''"
definition ModelConditionTypeValidated :: string where "ModelConditionTypeValidated = ''Validated''"
definition ModelReasonResolved :: string where "ModelReasonResolved = ''Resolved''"
definition ModelReasonProviderNotFound :: string where "ModelReasonProviderNotFound = ''ProviderNotFound''"
definition ModelReasonProviderNotReady :: string where "ModelReasonProviderNotReady = ''ProviderNotReady''"
definition ModelReasonValidated :: string where "ModelReasonValidated = ''Validated''"
definition modelRetryInterval :: int where "modelRetryInterval = 2"

definition setModelCondition :: "k8slib \<Rightarrow> Condition \<Rightarrow> Model \<Rightarrow> Model" where
  "setModelCondition lib c m =
     m\<lparr>mdl_Status := (mdl_Status m)\<lparr>mdlst_Conditions := lib_SetStatusCondition lib (mdlst_Conditions (mdl_Status m)) c\<rparr>\<rparr>"

definition setNotReady :: "k8slib \<Rightarrow> string \<Rightarrow> msgtext \<Rightarrow> Model \<Rightarrow> Model" where
  "setNotReady lib reason message model =
     setModelCondition lib (conditionAt ModelConditionTypeReady ConditionFalse (om_Generation (mdl_Meta model)) reason message)
       (model\<lparr>mdl_Status := (mdl_Status model)\<lparr>mdlst_Ready := False, mdlst_ObservedGeneration := om_Generation (mdl_Meta model)\<rparr>\<rparr>)"

definition setReady :: "k8slib \<Rightarrow> ModelProvider \<Rightarrow> Model \<Rightarrow> Model" where
  "setReady lib provider model =
     (let g = om_Generation (mdl_Meta model);
          m1 = model\<lparr>mdl_Status := (mdl_Status model)
                 \<lparr>mdlst_ResolvedProvider := Some \<lparr>rpi_Provider = mpst_Provider (mp_Status provider),
                    rpi_Namespace = om_Namespace (mp_Meta provider), rpi_Name = om_Name (mp_Meta provider)\<rparr>,
                  mdlst_Ready := True, mdlst_ObservedGeneration := g\<rparr>\<rparr>;
          m2 = setModelCondition lib (conditionAt ModelConditionTypeProviderResolved ConditionTrue g ModelReasonResolved
                 (Sprintf ''Provider resolved: %s (%s/%s)'' [AS (providerTypeText (mpst_Provider (mp_Status provider))),
                    AS (om_Namespace (mp_Meta provider)), AS (om_Name (mp_Meta provider))])) m1;
          m3 = setModelCondition lib (conditionAt ModelConditionTypeValidated ConditionTrue g ModelReasonValidated
                 (Sprintf ''Model parameters validated'' [])) m2
      in setModelCondition lib (conditionAt ModelConditionTypeReady ConditionTrue g ModelReasonResolved (Sprintf ''Model is ready'' [])) m3)"

definition notReadyWrite ::
  "k8slib \<Rightarrow> ('w, Model) kclient \<Rightarrow> ('w, Model) retrier \<Rightarrow> string \<Rightarrow> msgtext \<Rightarrow> Model \<Rightarrow> 'w \<Rightarrow> ctrlResult \<times> 'w" where
  "notReadyWrite lib kc retry reason message model w =
     (case updateStatusWithRetry retry kc (\<lambda>m. keyOf (mdl_Meta m)) (setNotReady lib reason message) (setNotReady lib reason message model) w of
        (Some err, w1) \<Rightarrow> (failed err, w1)
      | (None, w1) \<Rightarrow> (\<lparr>cr_RequeueAfterSeconds = modelRetryInterval, cr_Error = None\<rparr>, w1))"

definition ModelReconciler_Reconcile ::
  "k8slib \<Rightarrow> ('w, Model) kclient \<Rightarrow> (NamespacedName \<Rightarrow> 'w \<Rightarrow> ModelProvider result) \<Rightarrow> ('w, Model) retrier \<Rightarrow> NamespacedName \<Rightarrow> 'w \<Rightarrow> ctrlResult \<times> 'w" where
  "ModelReconciler_Reconcile lib kc getProvider retry req w =
     (case kc_Get kc req w of
        Inl err \<Rightarrow> (fetchFailed err, w)
      | Inr model \<Rightarrow>
          (let key = providerKeyOf model in
           case getProvider key w of
             Inl err \<Rightarrow>
               if apierrors_IsNotFound err
               then notReadyWrite lib kc retry ModelReasonProviderNotFound
                      (Sprintf ''ModelProvider %s/%s not found'' [AS (nn_Namespace key), AS (nn_Name key)]) model w
               else (failed err, w)
           | Inr provider \<Rightarrow>
               if \<not> mpst_Ready (mp_Status provider)
               then notReadyWrite lib kc retry ModelReasonProviderNotReady
                      (Sprintf ''ModelProvider %s/%s is not ready'' [AS (nn_Namespace key), AS (nn_Name key)]) model w
               else (case updateStatusWithRetry retry kc (\<lambda>m. keyOf (mdl_Meta m))
                            (\<lambda>m. m\<lparr>mdl_Status := mdl_Status (setReady lib provider model)\<rparr>) (setReady lib provider model) w of
                       (Some err, w1) \<Rightarrow> (failed err, w1)
                     | (None, w1) \<Rightarrow> (ctrlDone, w1))))"

text \<open>The mapper of the ModelProvider watch, over the Models listed in the provider's namespace.\<close>

definition modelRequests :: "(string \<Rightarrow> Model list result) \<Rightarrow> NamespacedName \<Rightarrow> NamespacedName list" where
  "modelRequests listIn provider =
     (case listIn (nn_Namespace provider) of
        Inl err \<Rightarrow> []
      | Inr models \<Rightarrow> map (\<lambda>m. keyOf (mdl_Meta m)) (filter (\<lambda>m. providerKeyOf m = provider) models))"

subsection \<open>AgentTool\<close>

definition Tool_ValidateSpec :: "AgentTool \<Rightarrow> goerror option" where
  "Tool_ValidateSpec tool =
     (let spec = at_Spec tool in
      if ats_Type spec = AgentToolTypeOpenAPI
      then Some (Errorf ''the openapi tool type is retired: front REST APIs with an MCP adapter or a Capability instead'' [])
      else if ats_URL spec = '''' \<and> ats_ServiceRef spec = None then Some (Errorf ''either url or serviceRef must be specified'' [])
      else if ats_URL spec \<noteq> '''' \<and> ats_ServiceRef spec \<noteq> None then Some (Errorf ''url and serviceRef are mutually exclusive'' [])
      else if ats_Path spec \<noteq> '''' \<and> ats_ServiceRef spec = None
      then Some (Errorf ''path applies only with serviceRef; put the path in the url instead'' [])
      else if ats_Path spec \<noteq> '''' \<and> \<not> hasPrefix (ats_Path spec) ''/'' then Some (Errorf ''path must start with /'' [])
      else (case ats_ServiceRef spec of
              None \<Rightarrow> None
            | Some ref \<Rightarrow>
                if sref_Port ref \<noteq> None \<and> sref_PortName ref \<noteq> ''''
                then Some (Errorf ''serviceRef.port and serviceRef.portName are mutually exclusive'' []) else None))"

definition ConditionTypeValidated :: string where "ConditionTypeValidated = ''Validated''"
definition ReasonValidationSuccess :: string where "ReasonValidationSuccess = ''ValidationSuccess''"

definition setToolCondition :: "k8slib \<Rightarrow> string \<Rightarrow> ConditionStatus \<Rightarrow> string \<Rightarrow> msgtext \<Rightarrow> AgentTool \<Rightarrow> AgentTool" where
  "setToolCondition lib ctype status reason message tool =
     tool\<lparr>at_Status := (at_Status tool)\<lparr>atst_Conditions := lib_SetStatusCondition lib (atst_Conditions (at_Status tool))
       \<lparr>c_Type = ctype, c_Status = status, c_ObservedGeneration = om_Generation (at_Meta tool),
        c_LastTransitionTime = lib_Now lib, c_Reason = reason, c_Message = message\<rparr>\<rparr>\<rparr>"

definition applyToolStatus :: "k8slib \<Rightarrow> goerror option \<Rightarrow> AgentTool \<Rightarrow> AgentTool" where
  "applyToolStatus lib validationErr tool =
     (let t1 = (case validationErr of
           Some err \<Rightarrow> setToolCondition lib ConditionTypeValidated ConditionFalse ReasonValidationFailed (ErrText err) tool
         | None \<Rightarrow> setToolCondition lib ConditionTypeValidated ConditionTrue ReasonValidationSuccess (Sprintf ''Spec is valid'' []) tool)
      in t1\<lparr>at_Status := (at_Status t1)\<lparr>atst_ObservedGeneration := om_Generation (at_Meta t1)\<rparr>\<rparr>)"

definition AgentToolReconciler_Reconcile ::
  "k8slib \<Rightarrow> ('w, AgentTool) kclient \<Rightarrow> ('w, AgentTool) retrier \<Rightarrow> NamespacedName \<Rightarrow> 'w \<Rightarrow> ctrlResult \<times> 'w" where
  "AgentToolReconciler_Reconcile lib kc retry req w =
     (case kc_Get kc req w of
        Inl err \<Rightarrow> (fetchFailed err, w)
      | Inr tool \<Rightarrow>
          if om_Deleting (at_Meta tool) then (ctrlDone, w)
          else (case updateStatusWithRetry retry kc (\<lambda>t. keyOf (at_Meta t)) (applyToolStatus lib (Tool_ValidateSpec tool)) tool w of
                  (Some err, w1) \<Rightarrow> (failed err, w1)
                | (None, w1) \<Rightarrow> (ctrlDone, w1)))"

subsection \<open>Instruction\<close>

definition instructionFinalizer :: string where "instructionFinalizer = ''agent.flokoa.ai/instruction-finalizer''"
definition instructionConfigMapKey :: string where "instructionConfigMapKey = ''instruction.txt''"
definition ConditionTypeInstructionStored :: string where "ConditionTypeInstructionStored = ''Stored''"
definition ReasonInstructionStored :: string where "ReasonInstructionStored = ''InstructionStored''"
definition ReasonInstructionStoreFailed :: string where "ReasonInstructionStoreFailed = ''InstructionStoreFailed''"

text \<open>The clients and \<open>controllerutil.SetControllerReference\<close> the reconciler works with.\<close>

record 'w ideps =
  id_Instructions :: "('w, Instruction) kclient"
  id_ConfigMaps :: "('w, ConfigMap) kclient"
  id_SetOwner :: "Instruction \<Rightarrow> ObjectMeta \<Rightarrow> ObjectMeta result"

definition setInstructionCondition :: "k8slib \<Rightarrow> ConditionStatus \<Rightarrow> string \<Rightarrow> msgtext \<Rightarrow> Instruction \<Rightarrow> Instruction" where
  "setInstructionCondition lib status reason message i =
     i\<lparr>in_Status := (in_Status i)\<lparr>inst_Conditions := lib_SetStatusCondition lib (inst_Conditions (in_Status i))
       \<lparr>c_Type = ConditionTypeInstructionStored, c_Status = status, c_ObservedGeneration = om_Generation (in_Meta i),
        c_LastTransitionTime = lib_Now lib, c_Reason = reason, c_Message = message\<rparr>\<rparr>\<rparr>"

definition instructionKey :: "Instruction \<Rightarrow> NamespacedName" where
  "instructionKey i = \<lparr>nn_Name = om_Name (in_Meta i) @ ''-instruction'', nn_Namespace = om_Namespace (in_Meta i)\<rparr>"

definition instructionConfigMap :: "Instruction \<Rightarrow> ConfigMap" where
  "instructionConfigMap i =
     \<lparr>cm_Meta = objectMeta (om_Name (in_Meta i) @ ''-instruction'') (om_Namespace (in_Meta i))
        [(''app.kubernetes.io/name'', om_Name (in_Meta i)), (''app.kubernetes.io/component'', ''instruction''),
         (''app.kubernetes.io/managed-by'', ''flokoa-operator'')] [],
      cm_Data = [(instructionConfigMapKey, ins_Content (in_Spec i))]\<rparr>"

definition mergeInstructionConfigMap :: "ConfigMap \<Rightarrow> ConfigMap \<Rightarrow> ConfigMap" where
  "mergeInstructionConfigMap existing desired =
     existing\<lparr>cm_Data := cm_Data desired, cm_Meta := (cm_Meta existing)\<lparr>om_Labels := om_Labels (cm_Meta desired)\<rparr>\<rparr>"

definition reconcileConfigMap :: "'w ideps \<Rightarrow> Instruction \<Rightarrow> 'w \<Rightarrow> string result \<times> 'w" where
  "reconcileConfigMap deps i w =
     (case id_SetOwner deps i (cm_Meta (instructionConfigMap i)) of
        Inl err \<Rightarrow> (Inl (ErrorfW ''failed to set owner reference: %w'' [] err), w)
      | Inr m \<Rightarrow>
          (case ensureObject (id_ConfigMaps deps) (\<lambda>c. keyOf (cm_Meta c)) mergeInstructionConfigMap ''ConfigMap: %w'' []
                  ((instructionConfigMap i)\<lparr>cm_Meta := m\<rparr>) w of
             (Inl e, w1) \<Rightarrow> (Inl e, w1)
           | (Inr _, w1) \<Rightarrow> (Inr (om_Name (in_Meta i) @ ''-instruction''), w1)))"

definition deleteConfigMap :: "'w ideps \<Rightarrow> Instruction \<Rightarrow> 'w \<Rightarrow> goerror option \<times> 'w" where
  "deleteConfigMap deps i w =
     (case kc_Delete (id_ConfigMaps deps) (instructionKey i) w of
        (None, w1) \<Rightarrow> (None, w1)
      | (Some err, w1) \<Rightarrow> (if apierrors_IsNotFound err then None else Some (ErrorfW ''failed to delete ConfigMap: %w'' [] err), w1))"

definition storedStatus :: "k8slib \<Rightarrow> string \<Rightarrow> Instruction \<Rightarrow> InstructionStatus" where
  "storedStatus lib configMapName i =
     (in_Status (setInstructionCondition lib ConditionTrue ReasonInstructionStored (Sprintf ''Instruction stored in ConfigMap'' []) i))
     \<lparr>inst_ConfigMapName := configMapName, inst_ObservedGeneration := om_Generation (in_Meta i)\<rparr>"

definition InstructionReconciler_Reconcile ::
  "k8slib \<Rightarrow> 'w ideps \<Rightarrow> ('w, Instruction) retrier \<Rightarrow> NamespacedName \<Rightarrow> 'w \<Rightarrow> ctrlResult \<times> 'w" where
  "InstructionReconciler_Reconcile lib deps retry req w =
     (let kc = id_Instructions deps in
      case kc_Get kc req w of
        Inl err \<Rightarrow> (fetchFailed err, w)
      | Inr i \<Rightarrow>
          if om_Deleting (in_Meta i)
          then if instructionFinalizer \<in> set (om_Finalizers (in_Meta i))
               then (case deleteConfigMap deps i w of
                       (Some err, w1) \<Rightarrow> (failed err, w1)
                     | (None, w1) \<Rightarrow>
                         (case kc_Update kc (i\<lparr>in_Meta := (in_Meta i)\<lparr>om_Finalizers :=
                                 filter (\<lambda>f. f \<noteq> instructionFinalizer) (om_Finalizers (in_Meta i))\<rparr>\<rparr>) w1 of
                            (Inl err, w2) \<Rightarrow> (failed err, w2)
                          | (Inr _, w2) \<Rightarrow> (ctrlDone, w2)))
               else (ctrlDone, w)
          else if instructionFinalizer \<notin> set (om_Finalizers (in_Meta i))
          then (case kc_Update kc (i\<lparr>in_Meta := (in_Meta i)\<lparr>om_Finalizers := om_Finalizers (in_Meta i) @ [instructionFinalizer]\<rparr>\<rparr>) w of
                  (Inl err, w1) \<Rightarrow> (failed err, w1)
                | (Inr _, w1) \<Rightarrow> (\<lparr>cr_RequeueAfterSeconds = 1, cr_Error = None\<rparr>, w1))
          else (case reconcileConfigMap deps i w of
                  (Inl err, w1) \<Rightarrow>
                    (let store = setInstructionCondition lib ConditionFalse ReasonInstructionStoreFailed (ErrText err);
                         (statusErr, w2) = updateStatusWithRetry retry kc (\<lambda>i. keyOf (in_Meta i)) store (store i) w1
                     in (failed err, w2))
                | (Inr configMapName, w1) \<Rightarrow>
                    (let status = storedStatus lib configMapName i in
                     case updateStatusWithRetry retry kc (\<lambda>i. keyOf (in_Meta i)) (\<lambda>x. x\<lparr>in_Status := status\<rparr>) (i\<lparr>in_Status := status\<rparr>) w1 of
                       (Some err, w2) \<Rightarrow> (failed err, w2)
                     | (None, w2) \<Rightarrow> (ctrlDone, w2))))"

subsection \<open>What a resource reports is what the compiler relies on\<close>

lemma setNotReady_view:
  assumes "status_condition_laws lib"
  shows "mdlst_Ready (mdl_Status (setNotReady lib r m x)) = False"
    and "cond_status lib (mdlst_Conditions (mdl_Status (setNotReady lib r m x))) ModelConditionTypeReady = Some ConditionFalse"
    and "mdl_Meta (setNotReady lib r m x) = mdl_Meta x"
  by (simp_all add: setNotReady_def setModelCondition_def conditionAt_def cond_set[OF assms])

lemma setReady_view:
  assumes "status_condition_laws lib"
  shows "mdlst_Ready (mdl_Status (setReady lib p x))"
    and "cond_status lib (mdlst_Conditions (mdl_Status (setReady lib p x))) ModelConditionTypeReady = Some ConditionTrue"
    and "mdl_Meta (setReady lib p x) = mdl_Meta x"
  by (simp_all add: setReady_def setModelCondition_def conditionAt_def Let_def cond_set[OF assms])

text \<open>A Model that lost its provider keeps the resolution of the last success in its status.\<close>

lemma setNotReady_stale:
  assumes "status_condition_laws lib"
  shows "mdlst_ResolvedProvider (mdl_Status (setNotReady lib r m x)) = mdlst_ResolvedProvider (mdl_Status x)"
    and "cond_status lib (mdlst_Conditions (mdl_Status (setNotReady lib r m x))) ModelConditionTypeProviderResolved =
      cond_status lib (mdlst_Conditions (mdl_Status x)) ModelConditionTypeProviderResolved"
  by (simp_all add: setNotReady_def setModelCondition_def conditionAt_def cond_set[OF assms] ModelConditionTypeReady_def ModelConditionTypeProviderResolved_def)

text \<open>A Model run that reports no error leaves a truthful status behind: \<open>status.ready\<close>, which the compiler trusts, and the Ready condition
  both say whether the referenced ModelProvider existed and was ready when it was read, whatever conflicts the status write met;
  and the run asks for a retry in two seconds exactly when the Model is not ready.\<close>

theorem Model_ready_iff:
  assumes "status_condition_laws lib" and "status_store kc (\<lambda>m. keyOf (mdl_Meta m)) mdl_Status" and "last_attempt retry"
    and "kc_Get kc req w = Inr model" and "ModelReconciler_Reconcile lib kc getProvider retry req w = (r, w')" and "cr_Error r = None"
  shows "\<exists>m'. kc_Get kc req w' = Inr m' \<and>
    (mdlst_Ready (mdl_Status m') \<longleftrightarrow> (\<exists>p. getProvider (providerKeyOf model) w = Inr p \<and> mpst_Ready (mp_Status p))) \<and>
    cond_status lib (mdlst_Conditions (mdl_Status m')) ModelConditionTypeReady =
      Some (if mdlst_Ready (mdl_Status m') then ConditionTrue else ConditionFalse) \<and>
    cr_RequeueAfterSeconds r = (if mdlst_Ready (mdl_Status m') then 0 else modelRetryInterval)"
proof -
  let ?key = "\<lambda>m. keyOf (mdl_Meta m)"
  let ?view = "\<lambda>m. (mdlst_Ready (mdl_Status m), cond_status lib (mdlst_Conditions (mdl_Status m)) ModelConditionTypeReady)"
  have st: "status_store kc ?key ?view"
    using status_store_comp[OF assms(2), of "\<lambda>s. (mdlst_Ready s, cond_status lib (mdlst_Conditions s) ModelConditionTypeReady)"] by simp
  have k: "?key model = req" using status_store.get_key[OF assms(2) assms(4)] .
  show ?thesis
  proof (cases "\<exists>p. getProvider (providerKeyOf model) w = Inr p \<and> mpst_Ready (mp_Status p)")
    case True
    then obtain p where p: "getProvider (providerKeyOf model) w = Inr p" "mpst_Ready (mp_Status p)" by blast
    have u: "updateStatusWithRetry retry kc ?key (\<lambda>m. m\<lparr>mdl_Status := mdl_Status (setReady lib p model)\<rparr>) (setReady lib p model) w = (None, w')"
      and r: "r = ctrlDone"
      using assms(4-6) p by (auto simp: ModelReconciler_Reconcile_def Let_def failed_def split: prod.splits option.splits)
    have "\<exists>s. kc_Get kc (?key (setReady lib p model)) w' = Inr s \<and> ?view s = (True, Some ConditionTrue)"
      by (rule status_store.status_stored_err[OF st assms(3) u]) (simp_all add: setReady_view[OF assms(1)])
    then show ?thesis using p r k setReady_view(3)[OF assms(1)] by auto
  next
    case False
    then obtain reason msg where nw: "notReadyWrite lib kc retry reason msg model w = (r, w')"
      using assms(4-6) by (auto simp: ModelReconciler_Reconcile_def Let_def failed_def split: sum.splits if_splits)
    have u: "updateStatusWithRetry retry kc ?key (setNotReady lib reason msg) (setNotReady lib reason msg model) w = (None, w')"
      and r: "r = \<lparr>cr_RequeueAfterSeconds = modelRetryInterval, cr_Error = None\<rparr>"
      using nw assms(6) by (auto simp: notReadyWrite_def failed_def split: prod.splits option.splits)
    have "\<exists>s. kc_Get kc (?key (setNotReady lib reason msg model)) w' = Inr s \<and> ?view s = (False, Some ConditionFalse)"
      by (rule status_store.status_stored_err[OF st assms(3) u]) (simp_all add: setNotReady_view[OF assms(1)])
    then show ?thesis using False r k setNotReady_view(3)[OF assms(1)] by auto
  qed
qed

lemma ValidateProvider_type: "ValidateProvider mp = Inr t \<Longrightarrow> GetProviderType mp = t"
  by (auto simp: ValidateProvider_def GetProviderType_def Let_def split: if_splits)

text \<open>The compiler does not look at the verdict of the AgentTool controller. A tool with a URL compiles into the Agent whatever the
  controller found, also the retired OpenAPI type; a tool that passes validation fails to compile only for a Service or port that may
  still appear, never permanently.\<close>

theorem compileTool_ignores_validation:
  "(ats_URL (at_Spec tool) \<noteq> '''' \<longrightarrow> (\<exists>entry env. compileTool deps tool = Inr (entry, env))) \<and>
   (Tool_ValidateSpec tool = None \<longrightarrow> (\<forall>e. compileTool deps tool = Inl e \<longrightarrow> IsDependency e \<and> \<not> IsPermanent e))"
  by (auto simp: compileTool_def resolveToolURL_def resolveToolPort_def Tool_ValidateSpec_def Let_def bindR_Inl_conv
      split: option.splits if_splits sum.splits)

text \<open>After a run of the Instruction controller that ends quietly on a live Instruction, its ConfigMap holds exactly the instruction text and the
  status names it. The ConfigMap is found by name alone: one that existed before, whoever owns it, is overwritten and keeps
  its owner.\<close>

theorem Instruction_stored:
  assumes cms: "kube_store (id_ConfigMaps deps) (\<lambda>c. keyOf (cm_Meta c)) (\<lambda>c. (cm_Data c, om_OwnerUID (cm_Meta c)))"
    and ins: "status_store (id_Instructions deps) (\<lambda>i. keyOf (in_Meta i)) in_Status" and retry: "last_attempt retry"
    and frame: "\<And>k x w. kc_Get (id_ConfigMaps deps) k (snd (kc_UpdateStatus (id_Instructions deps) x w)) = kc_Get (id_ConfigMaps deps) k w"
    and owner: "\<And>m m'. id_SetOwner deps i m = Inr m' \<Longrightarrow> keyOf m' = keyOf m"
    and i: "kc_Get (id_Instructions deps) req w = Inr i" "\<not> om_Deleting (in_Meta i)" "instructionFinalizer \<in> set (om_Finalizers (in_Meta i))"
    and run: "InstructionReconciler_Reconcile lib deps retry req w = (ctrlDone, w')"
  shows "\<exists>c i'. kc_Get (id_ConfigMaps deps) (instructionKey i) w' = Inr c \<and> cm_Data c = [(''instruction.txt'', ins_Content (in_Spec i))] \<and>
    kc_Get (id_Instructions deps) req w' = Inr i' \<and> inst_ConfigMapName (in_Status i') = nn_Name (instructionKey i) \<and>
    (\<forall>c0. kc_Get (id_ConfigMaps deps) (instructionKey i) w = Inr c0 \<longrightarrow> om_OwnerUID (cm_Meta c) = om_OwnerUID (cm_Meta c0))"
proof -
  let ?cc = "id_ConfigMaps deps" and ?status = "storedStatus lib (nn_Name (instructionKey i)) i"
  let ?view = "\<lambda>c. (cm_Data c, om_OwnerUID (cm_Meta c))" and ?key = "\<lambda>c. keyOf (cm_Meta c)"
  have repo: "kube_repo ?cc ?key ?view mergeInstructionConfigMap"
    using cms by (simp add: kube_repo_def kube_repo_axioms_def mergeInstructionConfigMap_def)
  obtain w1 where cm: "reconcileConfigMap deps i w = (Inr (nn_Name (instructionKey i)), w1)"
      and u: "updateStatusWithRetry retry (id_Instructions deps) (\<lambda>i. keyOf (in_Meta i)) (\<lambda>x. x\<lparr>in_Status := ?status\<rparr>) (i\<lparr>in_Status := ?status\<rparr>) w1 = (None, w')"
    using run i by (auto simp: InstructionReconciler_Reconcile_def reconcileConfigMap_def instructionKey_def failed_def Let_def
        split: prod.splits sum.splits option.splits)
  obtain m s where m: "id_SetOwner deps i (cm_Meta (instructionConfigMap i)) = Inr m"
      and e: "ensureObject ?cc ?key mergeInstructionConfigMap ''ConfigMap: %w'' [] ((instructionConfigMap i)\<lparr>cm_Meta := m\<rparr>) w = (Inr s, w1)"
    using cm by (auto simp: reconcileConfigMap_def split: prod.splits sum.splits)
  have k: "keyOf m = instructionKey i" using owner[OF m] by (simp add: instructionConfigMap_def objectMeta_def instructionKey_def)
  from kube_repo.repo_ensured[OF repo e] k obtain c where c: "kc_Get ?cc (instructionKey i) w1 = Inr c"
      "?view c = ?view (case kc_Get ?cc (instructionKey i) w of Inr c0 \<Rightarrow> mergeInstructionConfigMap c0 ((instructionConfigMap i)\<lparr>cm_Meta := m\<rparr>)
         | Inl _ \<Rightarrow> (instructionConfigMap i)\<lparr>cm_Meta := m\<rparr>)" by auto
  have d: "cm_Data c = [(''instruction.txt'', ins_Content (in_Spec i))]"
      "\<forall>c0. kc_Get ?cc (instructionKey i) w = Inr c0 \<longrightarrow> om_OwnerUID (cm_Meta c) = om_OwnerUID (cm_Meta c0)"
    using c(2) by (auto simp: mergeInstructionConfigMap_def instructionConfigMap_def instructionConfigMapKey_def split: sum.splits)
  have "kc_Get ?cc (instructionKey i) (snd (updateStatusWithRetry retry (id_Instructions deps) (\<lambda>i. keyOf (in_Meta i)) (\<lambda>x. x\<lparr>in_Status := ?status\<rparr>) (i\<lparr>in_Status := ?status\<rparr>) w1)) = Inr c"
    by (rule status_frame[where P = "\<lambda>w. kc_Get ?cc (instructionKey i) w = Inr c", OF retry]) (simp_all add: frame c(1))
  then have g: "kc_Get ?cc (instructionKey i) w' = Inr c" using u by simp
  have "\<exists>i'. kc_Get (id_Instructions deps) (keyOf (in_Meta (i\<lparr>in_Status := ?status\<rparr>))) w' = Inr i' \<and> in_Status i' = ?status"
    by (rule status_store.status_stored_err[OF ins retry u]) simp_all
  then obtain i' where "kc_Get (id_Instructions deps) req w' = Inr i'" "in_Status i' = ?status"
    using status_store.get_key[OF ins i(1)] by auto
  then show ?thesis using g d by (auto simp: storedStatus_def)
qed

subsection \<open>Witnesses\<close>

definition readyProvider :: ModelProvider where
  "readyProvider = someProvider\<lparr>mp_Status := (mp_Status someProvider)\<lparr>mpst_Ready := True\<rparr>\<rparr>"

definition modelWorld :: "Model cluster" where
  "modelWorld = [(keyOf (mdl_Meta demoModel), demoModel\<lparr>mdl_Status := (mdl_Status demoModel)\<lparr>mdlst_Ready := False\<rparr>\<rparr>)]"

theorem Model_ready_iff_witness:
  "\<exists>m' w'. ModelReconciler_Reconcile stdlib (memClient (\<lambda>m. keyOf (mdl_Meta m))) (\<lambda>k w. Inr readyProvider) (\<lambda>attempt s. attempt s)
       (keyOf (mdl_Meta demoModel)) modelWorld = (ctrlDone, w') \<and>
     kc_Get (memClient (\<lambda>m. keyOf (mdl_Meta m))) (keyOf (mdl_Meta demoModel)) w' = Inr m' \<and> mdlst_Ready (mdl_Status m')"
proof -
  let ?kc = "memClient (\<lambda>m. keyOf (mdl_Meta m))" and ?k = "keyOf (mdl_Meta demoModel)"
  let ?run = "ModelReconciler_Reconcile stdlib ?kc (\<lambda>k w. Inr readyProvider) (\<lambda>attempt s. attempt s) ?k modelWorld"
  have r: "fst ?run = ctrlDone" by code_simp
  obtain w' where w': "?run = (ctrlDone, w')" using r by (cases ?run) simp
  have g: "kc_Get ?kc ?k modelWorld = Inr (demoModel\<lparr>mdl_Status := (mdl_Status demoModel)\<lparr>mdlst_Ready := False\<rparr>\<rparr>)"
    by (simp add: memClient_def modelWorld_def)
  have p: "mpst_Ready (mp_Status readyProvider)" by (simp add: readyProvider_def)
  from Model_ready_iff[OF stdlib_condition_laws memClient_status oneShot_last g w'] p show ?thesis using w' by auto
qed

definition noteInstruction :: Instruction where
  "noteInstruction =
     \<lparr>in_Meta = (objectMeta ''note'' ''ns'' [] [])\<lparr>om_Finalizers := [instructionFinalizer]\<rparr>, in_Spec = \<lparr>ins_Content = ''be brief''\<rparr>,
      in_Status = \<lparr>inst_ConfigMapName = '''', inst_Conditions = [], inst_ObservedGeneration = 0\<rparr>\<rparr>"

definition noteDeps :: "(Instruction cluster \<times> ConfigMap cluster) ideps" where
  "noteDeps = \<lparr>id_Instructions = onFst (memClient (\<lambda>i. keyOf (in_Meta i))), id_ConfigMaps = onSnd (memClient (\<lambda>c. keyOf (cm_Meta c))),
     id_SetOwner = (\<lambda>i m. Inr (m\<lparr>om_OwnerUID := Some (om_UID (in_Meta i))\<rparr>))\<rparr>"

definition noteWorld :: "Instruction cluster \<times> ConfigMap cluster" where
  "noteWorld = ([(\<lparr>nn_Name = ''note'', nn_Namespace = ''ns''\<rparr>, noteInstruction)], [])"

theorem Instruction_stored_witness:
  "\<exists>c w'. InstructionReconciler_Reconcile stdlib noteDeps (\<lambda>attempt s. attempt s) \<lparr>nn_Name = ''note'', nn_Namespace = ''ns''\<rparr> noteWorld = (ctrlDone, w') \<and>
     kc_Get (id_ConfigMaps noteDeps) \<lparr>nn_Name = ''note-instruction'', nn_Namespace = ''ns''\<rparr> w' = Inr c \<and> cm_Data c = [(''instruction.txt'', ''be brief'')]"
proof -
  let ?k = "\<lparr>nn_Name = ''note'', nn_Namespace = ''ns''\<rparr>"
  let ?run = "InstructionReconciler_Reconcile stdlib noteDeps (\<lambda>attempt s. attempt s) ?k noteWorld"
  have r: "fst ?run = ctrlDone" by code_simp
  obtain w' where w': "?run = (ctrlDone, w')" using r by (cases ?run) simp
  have st: "kube_store (id_ConfigMaps noteDeps) (\<lambda>c. keyOf (cm_Meta c)) (\<lambda>c. (cm_Data c, om_OwnerUID (cm_Meta c)))"
      "status_store (id_Instructions noteDeps) (\<lambda>i. keyOf (in_Meta i)) in_Status"
    unfolding noteDeps_def by (simp_all add: onSnd_store memClient_store onFst_status memClient_status)
  have g: "kc_Get (id_Instructions noteDeps) ?k noteWorld = Inr noteInstruction" "\<not> om_Deleting (in_Meta noteInstruction)"
      "instructionFinalizer \<in> set (om_Finalizers (in_Meta noteInstruction))"
    by (simp_all add: noteDeps_def noteWorld_def onFst_def memClient_def noteInstruction_def objectMeta_def)
  have f: "kc_Get (id_ConfigMaps noteDeps) k (snd (kc_UpdateStatus (id_Instructions noteDeps) x w)) = kc_Get (id_ConfigMaps noteDeps) k w" for k x w
    by (simp add: noteDeps_def)
  have o: "id_SetOwner noteDeps noteInstruction m = Inr m' \<Longrightarrow> keyOf m' = keyOf m" for m m' by (auto simp: noteDeps_def)
  have k: "instructionKey noteInstruction = \<lparr>nn_Name = ''note-instruction'', nn_Namespace = ''ns''\<rparr>" "ins_Content (in_Spec noteInstruction) = ''be brief''"
    by (simp_all add: instructionKey_def noteInstruction_def objectMeta_def)
  from Instruction_stored[OF st oneShot_last f o g w'] show ?thesis using w' unfolding k by auto
qed

theorem compileTool_ignores_validation_witness:
  "Tool_ValidateSpec (demoTool\<lparr>at_Spec := (at_Spec demoTool)\<lparr>ats_Type := AgentToolTypeOpenAPI\<rparr>\<rparr>) \<noteq> None \<and>
   (\<exists>entry env. compileTool demoDeps (demoTool\<lparr>at_Spec := (at_Spec demoTool)\<lparr>ats_Type := AgentToolTypeOpenAPI\<rparr>\<rparr>) = Inr (entry, env))"
proof -
  let ?t = "demoTool\<lparr>at_Spec := (at_Spec demoTool)\<lparr>ats_Type := AgentToolTypeOpenAPI\<rparr>\<rparr>"
  have "ats_URL (at_Spec ?t) \<noteq> ''''" "Tool_ValidateSpec ?t \<noteq> None" by (simp_all add: demoTool_def Tool_ValidateSpec_def)
  then show ?thesis using compileTool_ignores_validation[of ?t demoDeps] by blast
qed

end
