(* ===== verification/ResourceAdmission.thy ===== *)
theory ResourceAdmission
  imports ResourceControllers FieldErrors
begin

text \<open>
  The admission webhooks of \<open>api/v1alpha1\<close>: Instruction, ModelProvider, Model, AgentTool and AgentTrigger, with the shared
  helpers of \<open>webhook_helpers.go\<close>. \<open>ValidateCreate\<close> and \<open>ValidateUpdate\<close> run one and the same validation, \<open>ValidateDelete\<close>
  accepts everything. A rejection is the object kind and name with the field errors. \<open>net/url\<close> is modelled as far as the scheme
  and the host of a URL are concerned; hosts with brackets (IP literals), whose treatment depends on \<open>net/netip\<close>, are a
  parameter. The lemmas relate each webhook to the validation the controllers and the compiler run on the same object.
\<close>

subsection \<open>URLs\<close>

record goURL =
  u_Scheme :: string
  u_Host :: string

definition ctlByte :: "char \<Rightarrow> bool" where
  "ctlByte c = ((of_char c :: nat) < 32 \<or> (of_char c :: nat) = 127)"

definition schemeChar :: "char \<Rightarrow> bool" where
  "schemeChar c = (is_alnum c \<or> c \<in> set ''+-.'')"

definition getScheme :: "string \<Rightarrow> (string \<times> string) result" where
  "getScheme raw =
     (case raw of
        [] \<Rightarrow> Inr ('''', raw)
      | c # _ \<Rightarrow>
          if c = CHR '':'' then Inl (Errorf ''missing protocol scheme'' [])
          else if \<not> (is_upper c \<or> is_lower c) then Inr ('''', raw)
          else (case dropWhile schemeChar raw of
                  d # rest \<Rightarrow> if d = CHR '':'' then Inr (takeWhile schemeChar raw, rest) else Inr ('''', raw)
                | [] \<Rightarrow> Inr ('''', raw)))"

definition ishex :: "char \<Rightarrow> bool" where
  "ishex c = (is_digit c \<or> c \<in> set ''abcdefABCDEF'')"

definition unhex :: "char \<Rightarrow> nat" where
  "unhex c = (if is_digit c then of_char c - 48 else if is_lower c then of_char c - 87 else of_char c - 55)"

text \<open>\<open>unescape\<close> of a path, a fragment or user information fails exactly on a percent sign without two hex digits.\<close>

fun escapesOK :: "string \<Rightarrow> bool" where
  "escapesOK [] = True"
| "escapesOK (c # s) =
     (if c = CHR ''%'' then (case s of a # b # r \<Rightarrow> ishex a \<and> ishex b \<and> escapesOK s | _ \<Rightarrow> False) else escapesOK s)"

definition hostChar :: "char \<Rightarrow> bool" where
  "hostChar c = (128 \<le> (of_char c :: nat) \<or> is_alnum c \<or> c \<in> set ''!$&()*+,;=:[]<>-_.~'' \<or> c = CHR 0x22 \<or> c = CHR 0x27)"

fun unescapeHost :: "string \<Rightarrow> string result" where
  "unescapeHost [] = Inr []"
| "unescapeHost (c # s) =
     (if c = CHR ''%''
      then (case s of
              a # b # r \<Rightarrow>
                if \<not> ishex a \<or> \<not> ishex b \<or> unhex a < 8 \<and> (a \<noteq> CHR ''2'' \<or> b \<noteq> CHR ''5'')
                then Inl (Errorf ''invalid URL escape'' [])
                else bindR (unescapeHost r) (\<lambda>t. Inr (char_of (16 * unhex a + unhex b) # t))
            | _ \<Rightarrow> Inl (Errorf ''invalid URL escape'' []))
      else if hostChar c then bindR (unescapeHost s) (\<lambda>t. Inr (c # t))
      else Inl (Errorf ''invalid character in host name'' []))"

text \<open>The text before and after the last occurrence of a byte.\<close>

definition lastCut :: "char \<Rightarrow> string \<Rightarrow> (string \<times> string) option" where
  "lastCut c s =
     (if c \<in> set s
      then Some (rev (tl (dropWhile (\<lambda>x. x \<noteq> c) (rev s))), rev (takeWhile (\<lambda>x. x \<noteq> c) (rev s)))
      else None)"

definition parseHost :: "(string \<Rightarrow> string result) \<Rightarrow> string \<Rightarrow> string result" where
  "parseHost ipLiteral host =
     (if containsChar host (CHR ''['') then ipLiteral host
      else (case lastCut (CHR '':'') host of
              Some (before, port) \<Rightarrow>
                if list_all is_digit port then unescapeHost host else Inl (Errorf ''invalid port after host'' [])
            | None \<Rightarrow> unescapeHost host))"

definition validUserinfo :: "string \<Rightarrow> bool" where
  "validUserinfo s = list_all (\<lambda>c. is_alnum c \<or> c \<in> set ''-._:~!$&()*+,;=%@'' \<or> c = CHR 0x27) s"

definition parseAuthority :: "(string \<Rightarrow> string result) \<Rightarrow> string \<Rightarrow> string result" where
  "parseAuthority ipLiteral authority =
     (case lastCut (CHR ''@'') authority of
        None \<Rightarrow> parseHost ipLiteral authority
      | Some (userinfo, host) \<Rightarrow>
          bindR (parseHost ipLiteral host) (\<lambda>h.
            if \<not> validUserinfo userinfo then Inl (Errorf ''net/url: invalid userinfo'' [])
            else let (username, password, _) = cutAt (CHR '':'') userinfo in
                 if escapesOK username \<and> escapesOK password then Inr h else Inl (Errorf ''invalid URL escape'' [])))"

definition urlParse :: "(string \<Rightarrow> string result) \<Rightarrow> string \<Rightarrow> goURL result" where
  "urlParse ipLiteral raw =
     (let (u, frag, _) = cutAt (CHR ''#'') raw in
      if list_ex ctlByte u then Inl (Errorf ''net/url: invalid control character in URL'' [])
      else if u = ''*'' then (if escapesOK frag then Inr \<lparr>u_Scheme = '''', u_Host = ''''\<rparr> else Inl (Errorf ''invalid URL escape'' []))
      else bindR (getScheme u) (\<lambda>(scheme0, rest0).
        let scheme = toLower scheme0; rest = fst (cutAt (CHR ''?'') rest0) in
        if \<not> hasPrefix rest ''/'' \<and> scheme \<noteq> ''''
        then (if escapesOK frag then Inr \<lparr>u_Scheme = scheme, u_Host = ''''\<rparr> else Inl (Errorf ''invalid URL escape'' []))
        else if \<not> hasPrefix rest ''/'' \<and> containsChar (fst (cutAt (CHR ''/'') rest)) (CHR '':'')
        then Inl (Errorf ''first path segment in URL cannot contain colon'' [])
        else if (scheme \<noteq> '''' \<or> \<not> hasPrefix rest ''///'') \<and> hasPrefix rest ''//''
        then (let authority = takeWhile (\<lambda>c. c \<noteq> CHR ''/'') (drop 2 rest); path = dropWhile (\<lambda>c. c \<noteq> CHR ''/'') (drop 2 rest) in
              bindR (parseAuthority ipLiteral authority) (\<lambda>host.
                if escapesOK path \<and> escapesOK frag then Inr \<lparr>u_Scheme = scheme, u_Host = host\<rparr> else Inl (Errorf ''invalid URL escape'' [])))
        else if escapesOK rest \<and> escapesOK frag then Inr \<lparr>u_Scheme = scheme, u_Host = ''''\<rparr>
        else Inl (Errorf ''invalid URL escape'' [])))"

subsection \<open>Helpers\<close>

definition validateExactlyOneOf :: "string \<Rightarrow> string list \<Rightarrow> bool list \<Rightarrow> fieldErr option" where
  "validateExactlyOneOf path names given =
     (let count = length (filter id given); joined = joinStrings names '', '' in
      if count = 0
      then Some \<lparr>fe_Kind = FieldRequired, fe_Path = path, fe_Value = '''', fe_Detail = Sprintf ''exactly one of %s must be specified'' [AS joined]\<rparr>
      else if 1 < count
      then Some \<lparr>fe_Kind = FieldForbidden, fe_Path = path, fe_Value = '''', fe_Detail = Sprintf ''only one of %s can be specified'' [AS joined]\<rparr>
      else None)"

definition validateHTTPURL :: "(string \<Rightarrow> string result) \<Rightarrow> string \<Rightarrow> string \<Rightarrow> fieldErr option" where
  "validateHTTPURL ipLiteral path rawURL =
     (if rawURL = '''' then None
      else case urlParse ipLiteral rawURL of
             Inl err \<Rightarrow> Some (fInvalid path rawURL (Sprintf ''invalid URL: %v'' [AE err]))
           | Inr parsed \<Rightarrow>
               if u_Scheme parsed \<noteq> ''http'' \<and> u_Scheme parsed \<noteq> ''https''
               then Some (fInvalid path rawURL (Sprintf ''URL scheme must be http or https'' []))
               else if u_Host parsed = '''' then Some (fInvalid path rawURL (Sprintf ''URL must contain a valid host'' []))
               else None)"

definition aggregateErrors :: "string \<Rightarrow> string \<Rightarrow> fieldErr list \<Rightarrow> (string \<times> string \<times> fieldErr list) option" where
  "aggregateErrors kind name allErrs = (if allErrs = [] then None else Some (kind, name, allErrs))"

abbreviation optErr :: "fieldErr option \<Rightarrow> fieldErr list" where
  "optErr e \<equiv> (case e of None \<Rightarrow> [] | Some x \<Rightarrow> [x])"

subsection \<open>Validators\<close>

definition validateInstruction :: "Instruction \<Rightarrow> (string \<times> string \<times> fieldErr list) option" where
  "validateInstruction i =
     aggregateErrors ''Instruction'' (om_Name (in_Meta i))
       (errIf (ins_Content (in_Spec i) = '''') (fRequired ''spec.content'' ''instruction content must not be empty''))"

definition validateModelProvider :: "(string \<Rightarrow> string result) \<Rightarrow> ModelProvider \<Rightarrow> (string \<times> string \<times> fieldErr list) option" where
  "validateModelProvider ipLiteral mp =
     (let spec = mp_Spec mp in
      aggregateErrors ''ModelProvider'' (om_Name (mp_Meta mp))
        (optErr (validateExactlyOneOf ''spec'' [''openai'', ''anthropic'', ''google'', ''bedrock'']
                  [mps_OpenAI spec \<noteq> None, mps_Anthropic spec \<noteq> None, mps_Google spec \<noteq> None, mps_Bedrock spec \<noteq> None]) @
         (case mps_OpenAI spec of
            None \<Rightarrow> []
          | Some p \<Rightarrow> if oai_BaseURL p = '''' then [] else optErr (validateHTTPURL ipLiteral ''spec.openai.baseURL'' (oai_BaseURL p))) @
         (case mps_Anthropic spec of
            None \<Rightarrow> []
          | Some p \<Rightarrow> if ant_BaseURL p = '''' then [] else optErr (validateHTTPURL ipLiteral ''spec.anthropic.baseURL'' (ant_BaseURL p)))))"

definition typedSettingsKeys :: "string list" where
  "typedSettingsKeys = [''max_tokens'', ''temperature'', ''top_p'', ''top_k'', ''timeout'', ''parallel_tool_calls'', ''seed'',
     ''presence_penalty'', ''frequency_penalty'', ''logit_bias'', ''stop_sequences'', ''extra_headers'']"

definition validateModel :: "Model \<Rightarrow> (string \<times> string \<times> fieldErr list) option" where
  "validateModel model =
     aggregateErrors ''Model'' (om_Name (mdl_Meta model))
       (case mdls_Settings (mdl_Spec model) of
          None \<Rightarrow> []
        | Some settings \<Rightarrow>
            (case ms_Extra settings of
               None \<Rightarrow> []
             | Some raw \<Rightarrow>
                 (case unmarshalObject raw of
                    Inl err \<Rightarrow> [fInvalid ''spec.settings.extra'' '''' (Sprintf ''extra must be a JSON object of model settings'' [])]
                  | Inr extra \<Rightarrow>
                      map (\<lambda>key. \<lparr>fe_Kind = FieldForbidden, fe_Path = ''spec.settings.extra['' @ key @ '']'', fe_Value = '''',
                              fe_Detail = Sprintf ''%q has a typed field on spec.settings; set it there'' [AS key]\<rparr>)
                        (filter (\<lambda>key. key \<in> set typedSettingsKeys) (remdups (mkeys extra))))))"

definition Model_validateReferences :: "(NamespacedName \<Rightarrow> ModelProvider result) option \<Rightarrow> Model \<Rightarrow> msgtext list" where
  "Model_validateReferences reader model =
     (case reader of
        None \<Rightarrow> []
      | Some get \<Rightarrow>
          (let ref = mdls_ProviderRef (mdl_Spec model);
               ns = (if pref_Namespace ref = '''' then om_Namespace (mdl_Meta model) else pref_Namespace ref) in
           case get \<lparr>nn_Name = pref_Name ref, nn_Namespace = ns\<rparr> of
             Inr _ \<Rightarrow> []
           | Inl err \<Rightarrow> [Sprintf ''referenced ModelProvider %s/%s not found - the model will not become ready until it exists'' [AS ns, AS (pref_Name ref)]]))"

definition ModelCustomValidator_validate ::
  "(NamespacedName \<Rightarrow> ModelProvider result) option \<Rightarrow> Model \<Rightarrow> msgtext list \<times> (string \<times> string \<times> fieldErr list) option" where
  "ModelCustomValidator_validate reader model = (Model_validateReferences reader model, validateModel model)"

definition collectAgentToolWarnings :: "AgentTool \<Rightarrow> msgtext list" where
  "collectAgentToolWarnings tool =
     (let spec = at_Spec tool in
      if ats_Transport spec = MCPTransportSSE \<and> ats_URL spec \<noteq> '''' \<and> \<not> hasSuffix (trimSuffix (ats_URL spec) ''/'') ''/sse''
      then [Sprintf ''transport is \"sse\" but the URL does not end in /sse; the MCP client infers the transport from the URL'' []] else [])"

text \<open>The loop over the header secrets: \<open>seenHeaders\<close> maps a lower-cased name to where it was set.\<close>

fun headerSecretErrors :: "string smap \<Rightarrow> nat \<Rightarrow> SecretHeader list \<Rightarrow> fieldErr list" where
  "headerSecretErrors seen i [] = []"
| "headerSecretErrors seen i (hs # hss) =
     (let key = toLower (sh_Name hs) in
      (case mget seen key of
         Some prev \<Rightarrow> [fDuplicate (fpChild (fpIndex ''spec.headerSecrets'' i) ''name'') (sh_Name hs @ '' (already set via '' @ prev @ '')'')]
       | None \<Rightarrow> []) @
      headerSecretErrors (mput key ''headerSecrets'' seen) (Suc i) hss)"

definition validateAgentTool :: "(string \<Rightarrow> string result) \<Rightarrow> AgentTool \<Rightarrow> (string \<times> string \<times> fieldErr list) option" where
  "validateAgentTool ipLiteral tool =
     (let spec = at_Spec tool in
      aggregateErrors ''AgentTool'' (om_Name (at_Meta tool))
        (if ats_Type spec = AgentToolTypeOpenAPI
         then [fForbidden ''spec.type'' ''the openapi tool type is retired: front REST APIs with an MCP adapter or a Capability instead (see docs/agenttool.md for the migration path)'']
         else optErr (validateExactlyOneOf ''spec'' [''url'', ''serviceRef''] [ats_URL spec \<noteq> '''', ats_ServiceRef spec \<noteq> None]) @
           (if ats_URL spec = '''' then [] else optErr (validateHTTPURL ipLiteral ''spec.url'' (ats_URL spec))) @
           (if ats_Path spec = '''' then []
            else if ats_ServiceRef spec = None
            then [fForbidden ''spec.path'' ''path applies only with serviceRef; put the path in the url instead'']
            else errIf (\<not> hasPrefix (ats_Path spec) ''/'') (fInvalid ''spec.path'' (ats_Path spec) (Sprintf ''path must start with /'' []))) @
           (case ats_ServiceRef spec of
              None \<Rightarrow> []
            | Some ref \<Rightarrow> optErr (validateExactlyOneOf ''spec.serviceRef'' [''port'', ''portName''] [sref_Port ref \<noteq> None, sref_PortName ref \<noteq> ''''])) @
           headerSecretErrors (map (\<lambda>name. (toLower name, ''headers'')) (mkeys (ats_Headers spec))) 0 (ats_HeaderSecrets spec)))"

definition triggerPushErrors :: "(string \<Rightarrow> string result) \<Rightarrow> PushNotificationTarget \<Rightarrow> fieldErr list" where
  "triggerPushErrors ipLiteral p =
     optErr (validateExactlyOneOf ''spec.pushNotification'' [''agentRef'', ''url''] [pnt_AgentRef p \<noteq> None, pnt_URL p \<noteq> '''']) @
     (case pnt_AgentRef p of
        None \<Rightarrow> []
      | Some r \<Rightarrow> errIf (ar_Name r = '''') (fRequired ''spec.pushNotification.agentRef.name'' ''agentRef name is required'')) @
     (if pnt_URL p = '''' then [] else optErr (validateHTTPURL ipLiteral ''spec.pushNotification.url'' (pnt_URL p)))"

definition triggerFilterErrors :: "TriggerFilter \<Rightarrow> fieldErr list" where
  "triggerFilterErrors f =
     collectIdx (\<lambda>i df. errIf (df_Path df = '''') (fRequired (fpChild (fpIndex ''spec.filter.data'' i) ''path'') ''data filter path is required'') @
         errIf (df_Value df = []) (fRequired (fpChild (fpIndex ''spec.filter.data'' i) ''value'') ''data filter must have at least one value'')) 0 (tf_Data f) @
     collectIdx (\<lambda>i ef. errIf (ef_Expr ef = '''') (fRequired (fpChild (fpIndex ''spec.filter.exprs'' i) ''expr'') ''expression is required'')) 0 (tf_Exprs f)"

definition validateAgentTrigger :: "(string \<Rightarrow> string result) \<Rightarrow> AgentTrigger \<Rightarrow> (string \<times> string \<times> fieldErr list) option" where
  "validateAgentTrigger ipLiteral trigger =
     (let spec = tr_Spec trigger in
      aggregateErrors ''AgentTrigger'' (om_Name (tr_Meta trigger))
        (errIf (es_Name (trs_EventSource spec) = '''') (fRequired ''spec.eventSource.name'' ''eventSource name is required'') @
         errIf (es_EventName (trs_EventSource spec) = '''') (fRequired ''spec.eventSource.eventName'' ''eventSource eventName is required'') @
         errIf (ar_Name (trs_Agent spec) = '''') (fRequired ''spec.agent.name'' ''agent name is required'') @
         (case trs_PushNotification spec of None \<Rightarrow> [] | Some p \<Rightarrow> triggerPushErrors ipLiteral p) @
         (case trs_Filter spec of None \<Rightarrow> [] | Some f \<Rightarrow> triggerFilterErrors f) @
         (case trs_Limits spec of
            None \<Rightarrow> []
          | Some l \<Rightarrow>
              (case tl_DeadLetterSink l of
                 None \<Rightarrow> []
               | Some sink \<Rightarrow> errIf (dls_URI sink = '''') (fRequired ''spec.limits.deadLetterSink.uri'' ''dead letter sink URI is required'')))))"

subsection \<open>Webhooks against the controllers' own validation\<close>

lemma aggregateErrors_None [simp]: "aggregateErrors kind name es = None \<longleftrightarrow> es = []"
  by (simp add: aggregateErrors_def)

lemma optErr_Nil [simp]: "optErr e = [] \<longleftrightarrow> e = None"
  by (cases e) simp_all

lemma exactlyOneOf_two [simp]: "validateExactlyOneOf p ns [a, b] = None \<longleftrightarrow> a \<noteq> b"
  by (simp add: validateExactlyOneOf_def)

abbreviation secretNames :: "AgentToolSpec \<Rightarrow> string list" where
  "secretNames spec \<equiv> map (\<lambda>h. toLower (sh_Name h)) (ats_HeaderSecrets spec)"

lemma headerSecretErrors_Nil:
  "headerSecretErrors seen i hss = [] \<longleftrightarrow>
   distinct (map (\<lambda>h. toLower (sh_Name h)) hss) \<and> set (mkeys seen) \<inter> set (map (\<lambda>h. toLower (sh_Name h)) hss) = {}"
proof (induction hss arbitrary: seen i)
  case (Cons h hss)
  have keys: "set (mkeys (mput k v m)) = insert k (set (mkeys m))" for k and v :: string and m by (simp add: dom_update)
  have none: "mget seen k = None \<longleftrightarrow> k \<notin> set (mkeys seen)" for k by (simp add: map_of_eq_None_iff)
  have step: "headerSecretErrors seen i (h # hss) = [] \<longleftrightarrow>
      mget seen (toLower (sh_Name h)) = None \<and> headerSecretErrors (mput (toLower (sh_Name h)) ''headerSecrets'' seen) (Suc i) hss = []"
    by (simp add: Let_def split: option.splits)
  show ?case unfolding step Cons.IH keys none by auto
qed simp

text \<open>C19. The AgentTool webhook accepts exactly the tools that pass the validation of the controller and, beyond it, have an HTTP URL,
  a port or a port name on a Service reference, and header names that do not collide. So the two validations differ: a Service
  reference without a port passes the controller, and the compiler falls back to port 80, but the webhook refuses it.\<close>

theorem AgentTool_admission_iff:
  "validateAgentTool ipLiteral tool = None \<longleftrightarrow>
     Tool_ValidateSpec tool = None \<and>
     (ats_URL (at_Spec tool) \<noteq> '''' \<longrightarrow> validateHTTPURL ipLiteral ''spec.url'' (ats_URL (at_Spec tool)) = None) \<and>
     (\<forall>ref. ats_ServiceRef (at_Spec tool) = Some ref \<longrightarrow> sref_Port ref \<noteq> None \<or> sref_PortName ref \<noteq> '''') \<and>
     distinct (secretNames (at_Spec tool)) \<and> set (map toLower (mkeys (ats_Headers (at_Spec tool)))) \<inter> set (secretNames (at_Spec tool)) = {}"
proof (cases "ats_Type (at_Spec tool) = AgentToolTypeOpenAPI")
  case True
  then show ?thesis by (simp add: validateAgentTool_def Tool_ValidateSpec_def Let_def)
next
  case False
  have "mkeys (map (\<lambda>name. (toLower name, ''headers'')) ks) = map toLower ks" for ks by simp
  then have h: "headerSecretErrors (map (\<lambda>name. (toLower name, ''headers'')) (mkeys (ats_Headers (at_Spec tool)))) 0 (ats_HeaderSecrets (at_Spec tool)) = [] \<longleftrightarrow>
      distinct (secretNames (at_Spec tool)) \<and> set (map toLower (mkeys (ats_Headers (at_Spec tool)))) \<inter> set (secretNames (at_Spec tool)) = {}"
    unfolding headerSecretErrors_Nil by simp
  show ?thesis unfolding validateAgentTool_def Let_def aggregateErrors_None using False
    by (cases "ats_ServiceRef (at_Spec tool)") (simp_all add: Tool_ValidateSpec_def Let_def h del: set_map map_map; blast)+
qed

lemma firstIdx_None: "firstIdx f i xs = None \<longleftrightarrow> (\<forall>j < length xs. f (i + j) (xs ! j) = None)"
  by (induction xs arbitrary: i) (auto simp: less_Suc_eq_0_disj split: option.splits)

lemma orElseErr_None [simp]: "orElseErr a b = None \<longleftrightarrow> a = None \<and> b = None"
  by (simp add: orElseErr_def split: option.splits)

lemma triggerPushErrors_Nil:
  "triggerPushErrors ipLiteral p = [] \<longleftrightarrow>
   pushTargetError p = None \<and> (pnt_URL p \<noteq> '''' \<longrightarrow> validateHTTPURL ipLiteral ''spec.pushNotification.url'' (pnt_URL p) = None)"
  by (cases "pnt_AgentRef p") (auto simp: triggerPushErrors_def pushTargetError_def)

lemma triggerFilterErrors_Nil:
  "triggerFilterErrors f = [] \<longleftrightarrow> firstIdx dataFilterError 0 (tf_Data f) = None \<and> firstIdx exprFilterError 0 (tf_Exprs f) = None"
  by (auto simp: triggerFilterErrors_def collectIdx_Nil firstIdx_None dataFilterError_def exprFilterError_def)

theorem AgentTrigger_admission_iff:
  "validateAgentTrigger ipLiteral trigger = None \<longleftrightarrow>
     Trigger_ValidateSpec trigger = None \<and>
     (\<forall>p. trs_PushNotification (tr_Spec trigger) = Some p \<and> pnt_URL p \<noteq> '''' \<longrightarrow>
        validateHTTPURL ipLiteral ''spec.pushNotification.url'' (pnt_URL p) = None) \<and>
     (\<forall>l sink. trs_Limits (tr_Spec trigger) = Some l \<and> tl_DeadLetterSink l = Some sink \<longrightarrow> dls_URI sink \<noteq> '''')"
  by (auto simp: validateAgentTrigger_def Trigger_ValidateSpec_def Let_def triggerPushErrors_Nil triggerFilterErrors_Nil split: option.splits)

theorem ModelProvider_admission_iff:
  "validateModelProvider ipLiteral mp = None \<longleftrightarrow>
     \<not> isl (ValidateProvider mp) \<and>
     (\<forall>p. mps_OpenAI (mp_Spec mp) = Some p \<and> oai_BaseURL p \<noteq> '''' \<longrightarrow> validateHTTPURL ipLiteral ''spec.openai.baseURL'' (oai_BaseURL p) = None) \<and>
     (\<forall>p. mps_Anthropic (mp_Spec mp) = Some p \<and> ant_BaseURL p \<noteq> '''' \<longrightarrow>
        validateHTTPURL ipLiteral ''spec.anthropic.baseURL'' (ant_BaseURL p) = None)"
proof -
  have one: "validateExactlyOneOf ''spec'' names [mps_OpenAI (mp_Spec mp) \<noteq> None, mps_Anthropic (mp_Spec mp) \<noteq> None,
      mps_Google (mp_Spec mp) \<noteq> None, mps_Bedrock (mp_Spec mp) \<noteq> None] = None \<longleftrightarrow> \<not> isl (ValidateProvider mp)" for names
    by (simp add: validateExactlyOneOf_def ValidateProvider_def Let_def)
  show ?thesis unfolding validateModelProvider_def Let_def aggregateErrors_None append_is_Nil_conv optErr_Nil one
    by (auto split: option.splits)
qed

subsection \<open>Model settings\<close>

lemma overlay_Nil_get: "mget (overlay [] extra) k = mget extra k"
  by (induction extra) (auto simp: overlay_def)

lemma put_cong:
  "x = x' \<Longrightarrow> mget d k' = mget d' k' \<Longrightarrow> mget (putOpt k f x d) k' = mget (putOpt k f x' d') k'"
  "xs = xs' \<Longrightarrow> mget d k' = mget d' k' \<Longrightarrow> mget (putNonEmpty k g xs d) k' = mget (putNonEmpty k g xs' d') k'"
  by (auto simp: putOpt_def putNonEmpty_def split: option.splits)

lemma put_other:
  "k' \<noteq> k \<Longrightarrow> mget (putOpt k f x d) k' = mget d k'"
  "k' \<noteq> k \<Longrightarrow> mget (putNonEmpty k g xs d) k' = mget d k'"
  by (auto simp: putOpt_def putNonEmpty_def split: option.splits)

text \<open>In an admitted Model the free-form \<open>extra\<close> settings and the typed settings do not interfere: the keys the webhook reserves are
  exactly the ones the compiler writes from typed fields, so each of them compiles to what it would without \<open>extra\<close>, and every
  other key compiles to its \<open>extra\<close> value.\<close>

theorem Model_extra_never_shadows:
  assumes "validateModel model = None" and s: "mdls_Settings (mdl_Spec model) = Some s"
  shows "if k \<in> set typedSettingsKeys then mget (settingsToMap nl s) k = mget (settingsToMap nl (s\<lparr>ms_Extra := None\<rparr>)) k
     else mget (settingsToMap nl s) k =
       (case ms_Extra s of None \<Rightarrow> None | Some raw \<Rightarrow> (case unmarshalObject raw of Inl _ \<Rightarrow> None | Inr extra \<Rightarrow> map_option (fromJson nl) (mget extra k)))"
proof -
  let ?base = "case ms_Extra s of None \<Rightarrow> [] | Some raw \<Rightarrow> (case decodeMap nl raw of Inl e \<Rightarrow> [] | Inr extra \<Rightarrow> overlay [] extra)"
  have base: "mget ?base k = (case ms_Extra s of None \<Rightarrow> None | Some raw \<Rightarrow>
      (case unmarshalObject raw of Inl _ \<Rightarrow> None | Inr extra \<Rightarrow> map_option (fromJson nl) (mget extra k)))" for k
    by (auto simp: overlay_Nil_get decodeMap_def bindR_def map_of_map map_prod_def split: option.splits sum.splits)
  have none: "mget ?base k = None" if "k \<in> set typedSettingsKeys" for k
    using assms that unfolding base validateModel_def
    by (auto simp: filter_empty_conv map_of_eq_None_iff split: option.splits sum.splits)
  show ?thesis
  proof (cases "k \<in> set typedSettingsKeys")
    case True
    have "mget (settingsToMap nl s) k = mget (settingsToMap nl (s\<lparr>ms_Extra := None\<rparr>)) k"
      unfolding settingsToMap_def Let_def by (intro put_cong) (simp_all add: none[OF True])
    then show ?thesis using True by simp
  next
    case False
    then have "mget (settingsToMap nl s) k = mget ?base k"
      unfolding settingsToMap_def Let_def by (simp add: put_other typedSettingsKeys_def del: append.simps)
    then show ?thesis unfolding base using False by (simp only: if_False)
  qed
qed

subsection \<open>Accepted URLs\<close>

lemma cutAt_append: "cutAt c s = (b, a, f) \<Longrightarrow> s = b @ (if f then c # a else []) \<and> c \<notin> set b \<and> (\<not> f \<longrightarrow> a = [])"
  by (induction s arbitrary: b a f) (auto split: if_splits prod.splits)

lemma getScheme_split: "getScheme u = Inr (scheme, rest) \<Longrightarrow> scheme \<noteq> '''' \<Longrightarrow> u = scheme @ '':'' @ rest"
proof -
  assume g: "getScheme u = Inr (scheme, rest)" and ne: "scheme \<noteq> ''''"
  then obtain d where "dropWhile schemeChar u = d # rest" "d = CHR '':''" "scheme = takeWhile schemeChar u"
    by (auto simp: getScheme_def split: list.splits if_splits)
  then show ?thesis using takeWhile_dropWhile_id[of schemeChar u] by simp
qed

lemma urlParse_authority:
  assumes "urlParse ipLiteral raw = Inr u" and "u_Scheme u \<noteq> ''''" and "u_Host u \<noteq> ''''"
  obtains scheme rest where "raw = scheme @ ''://'' @ rest" and "toLower scheme = u_Scheme u"
    and "parseAuthority ipLiteral (takeWhile (\<lambda>c. c \<notin> set ''/?#'') rest) = Inr (u_Host u)"
proof -
  obtain v frag f where c: "cutAt (CHR ''#'') raw = (v, frag, f)" by (metis prod_cases3)
  have raw: "raw = v @ (if f then CHR ''#'' # frag else [])" "CHR ''#'' \<notin> set v" using cutAt_append[OF c] by auto
  have "v \<noteq> ''*''" using assms(1,2) c by (auto simp: urlParse_def split: if_splits)
  then obtain scheme rest0 where g: "getScheme v = Inr (scheme, rest0)" using assms(1) c
    by (cases "getScheme v") (auto simp: urlParse_def split: if_splits)
  obtain rest q fq where r: "cutAt (CHR ''?'') rest0 = (rest, q, fq)" by (metis prod_cases3)
  have rest0: "rest0 = rest @ (if fq then CHR ''?'' # q else [])" "CHR ''?'' \<notin> set rest" using cutAt_append[OF r] by auto
  have u: "u_Scheme u = toLower scheme" "hasPrefix rest ''//''"
      "parseAuthority ipLiteral (takeWhile (\<lambda>c. c \<noteq> CHR ''/'') (drop 2 rest)) = Inr (u_Host u)"
    using assms c g r \<open>v \<noteq> ''*''\<close> by (auto simp: urlParse_def Let_def bindR_def split: if_splits sum.splits)
  obtain auth where a: "rest = ''//'' @ auth" using u(2) by (auto simp: hasPrefix_append)
  have "scheme \<noteq> ''''" using assms(2) u(1) by (auto simp: toLower_def)
  then have v: "v = scheme @ '':'' @ rest0" by (rule getScheme_split[OF g])
  let ?tail = "(if fq then CHR ''?'' # q else []) @ (if f then CHR ''#'' # frag else [])"
  have "takeWhile (\<lambda>c. c \<notin> set ''/?#'') (auth @ ?tail) = takeWhile (\<lambda>c. c \<noteq> CHR ''/'') auth"
  proof -
    have ok: "CHR ''?'' \<notin> set auth" "CHR ''#'' \<notin> set auth" using rest0(2) raw(2) v rest0(1) a by auto
    then have "takeWhile (\<lambda>c. c \<notin> set ''/?#'') (auth @ t) = takeWhile (\<lambda>c. c \<noteq> CHR ''/'') auth" if "t = [] \<or> hd t \<in> set ''/?#''" for t
      using that by (induction auth) (cases t; auto)+
    then show ?thesis by auto
  qed
  then show thesis using that[of scheme "auth @ ?tail"] raw(1) v rest0(1) a u by simp
qed

text \<open>A URL the webhooks accept is written with an http or https scheme and an authority, so it can reach neither files nor other
  protocols. The host is only required to be a non-empty text: a bare port is accepted as a host.\<close>

theorem validateHTTPURL_sound:
  assumes "validateHTTPURL ipLiteral path raw = None" and "raw \<noteq> ''''"
  shows "\<exists>scheme rest host. raw = scheme @ ''://'' @ rest \<and> toLower scheme \<in> {''http'', ''https''} \<and>
    parseAuthority ipLiteral (takeWhile (\<lambda>c. c \<notin> set ''/?#'') rest) = Inr host \<and> host \<noteq> ''''"
proof -
  obtain u where u: "urlParse ipLiteral raw = Inr u" "u_Scheme u \<in> {''http'', ''https''}" "u_Host u \<noteq> ''''"
    using assms by (auto simp: validateHTTPURL_def split: sum.splits if_splits)
  have "u_Scheme u \<noteq> ''''" using u(2) by auto
  from urlParse_authority[OF u(1) this u(3)] show ?thesis using u(2,3) by metis
qed

lemma bare_port_accepted: "validateHTTPURL ipLiteral path ''http://:80'' = None"
  by code_simp

subsection \<open>Witnesses\<close>

theorem AgentTool_admission_iff_witness:
  "validateAgentTool Inr (demoTool\<lparr>at_Spec := (at_Spec demoTool)\<lparr>ats_URL := '''', ats_ServiceRef :=
     Some \<lparr>sref_Name = ''svc'', sref_Namespace = '''', sref_Port = None, sref_PortName = ''''\<rparr>\<rparr>\<rparr>) \<noteq> None"
  unfolding AgentTool_admission_iff by simp

theorem Model_extra_never_shadows_witness:
  "mget (settingsToMap zeroFloats
     \<lparr>ms_MaxTokens = Some 5, ms_Temperature = '''', ms_TopP = '''', ms_TopK = None, ms_TimeoutSeconds = None, ms_ParallelToolCalls = None, ms_Seed = None,
      ms_PresencePenalty = '''', ms_FrequencyPenalty = '''', ms_LogitBias = [], ms_StopSequences = [], ms_ExtraHeaders = [],
      ms_Extra = Some (Raw (JObj [(''reasoning'', JStr ''high'')]))\<rparr>) ''max_tokens'' = Some (GInt 5)"
proof -
  let ?s = "\<lparr>ms_MaxTokens = Some 5, ms_Temperature = '''', ms_TopP = '''', ms_TopK = None, ms_TimeoutSeconds = None, ms_ParallelToolCalls = None, ms_Seed = None,
      ms_PresencePenalty = '''', ms_FrequencyPenalty = '''', ms_LogitBias = [], ms_StopSequences = [], ms_ExtraHeaders = [],
      ms_Extra = Some (Raw (JObj [(''reasoning'', JStr ''high'')]))\<rparr>"
  let ?m = "demoModel\<lparr>mdl_Spec := (mdl_Spec demoModel)\<lparr>mdls_Settings := Some ?s\<rparr>\<rparr>"
  have a: "validateModel ?m = None" by code_simp
  have k: "''max_tokens'' \<in> set typedSettingsKeys" by code_simp
  have "mget (settingsToMap zeroFloats (?s\<lparr>ms_Extra := None\<rparr>)) ''max_tokens'' = Some (GInt 5)" by code_simp
  then show ?thesis using Model_extra_never_shadows[OF a, of ?s "''max_tokens''" zeroFloats] k by simp
qed

theorem validateHTTPURL_sound_witness:
  "\<exists>scheme rest host. ''http://:80'' = scheme @ ''://'' @ rest \<and> toLower scheme \<in> {''http'', ''https''} \<and>
    parseAuthority Inr (takeWhile (\<lambda>c. c \<notin> set ''/?#'') rest) = Inr host \<and> host \<noteq> ''''"
  using validateHTTPURL_sound[OF bare_port_accepted[of Inr "''spec.url''"]] by blast

end
