(* ===== verification/CapabilityController.thy ===== *)
theory CapabilityController
  imports AgentController TriggerService
begin

text \<open>
  \<open>internal/controller/capability_controller.go\<close> with the error classes of \<open>internal/infra/verify/verifier.go\<close>: the Verified
  condition of a Capability, its in-process verdict cache and retry backoff, and the status write. The signature verifier is a
  parameter; it is a call into the world, so that what happens in the cluster while it runs can be expressed. Times and
  durations are nanoseconds.
\<close>

subsection \<open>Verifier errors\<close>

text \<open>The errors a verifier returns, with their \<open>Unwrap\<close> chain; \<open>VerifyCause\<close> is an error without a class.\<close>

datatype verifyError =
    SignatureMissingError string verifyError
  | SignatureInvalidError string verifyError
  | VerifyTransientError verifyError
  | VerifyWrapped string "arg list" verifyError
  | VerifyCause goerror

fun verifyErrText :: "verifyError \<Rightarrow> goerror" where
  "verifyErrText (SignatureMissingError r e) = ErrorfW ''no cosign signature found at %s: %v'' [AS r] (verifyErrText e)"
| "verifyErrText (SignatureInvalidError r e) = ErrorfW ''cosign signature at %s did not verify: %v'' [AS r] (verifyErrText e)"
| "verifyErrText (VerifyTransientError e) = ErrorfW ''verification did not complete: %v'' [] (verifyErrText e)"
| "verifyErrText (VerifyWrapped f a e) = ErrorfW f a (verifyErrText e)"
| "verifyErrText (VerifyCause e) = e"

fun IsSignatureMissing :: "verifyError \<Rightarrow> bool" where
  "IsSignatureMissing (SignatureMissingError r e) = True"
| "IsSignatureMissing (SignatureInvalidError r e) = IsSignatureMissing e"
| "IsSignatureMissing (VerifyTransientError e) = IsSignatureMissing e"
| "IsSignatureMissing (VerifyWrapped f a e) = IsSignatureMissing e"
| "IsSignatureMissing (VerifyCause e) = False"

fun IsSignatureInvalid :: "verifyError \<Rightarrow> bool" where
  "IsSignatureInvalid (SignatureInvalidError r e) = True"
| "IsSignatureInvalid (SignatureMissingError r e) = IsSignatureInvalid e"
| "IsSignatureInvalid (VerifyTransientError e) = IsSignatureInvalid e"
| "IsSignatureInvalid (VerifyWrapped f a e) = IsSignatureInvalid e"
| "IsSignatureInvalid (VerifyCause e) = False"

definition Verify_IsTransient :: "verifyError option \<Rightarrow> bool" where
  "Verify_IsTransient err = (case err of None \<Rightarrow> False | Some e \<Rightarrow> \<not> IsSignatureMissing e \<and> \<not> IsSignatureInvalid e)"

subsection \<open>The verdict\<close>

definition nsecond :: int where "nsecond = 1000000000"
definition verifyBackoffInitial :: int where "verifyBackoffInitial = 15 * nsecond"
definition verifyBackoffMax :: int where "verifyBackoffMax = 5 * 60 * nsecond"
definition verifyRecheckInterval :: int where "verifyRecheckInterval = 10 * 60 * nsecond"



text \<open>A record without a condition is the zero condition a transient failure leaves.\<close>

record verifyRecord =
  vr_uid :: string
  vr_generation :: int
  vr_condition :: "Condition option"
  vr_verifiedAt :: int
  vr_backoff :: int

record verifyOutcome =
  vo_condition :: Condition
  vo_requeueAfter :: int

type_synonym verifyStates = "NamespacedName \<Rightarrow> verifyRecord option"

definition verdictCondition :: "ConditionStatus \<Rightarrow> string \<Rightarrow> msgtext \<Rightarrow> Condition" where
  "verdictCondition status reason message =
     \<lparr>c_Type = CapabilityConditionVerified, c_Status = status, c_ObservedGeneration = 0,
      c_LastTransitionTime = zeroTime, c_Reason = reason, c_Message = message\<rparr>"

definition classifyVerification :: "string \<Rightarrow> verifyError option \<Rightarrow> verifyOutcome" where
  "classifyVerification artifact err =
     (case err of
        None \<Rightarrow> \<lparr>vo_condition = verdictCondition ConditionTrue CapabilityVerifiedReasonVerified
                    (Sprintf ''cosign signature verified for %s'' [AS artifact]), vo_requeueAfter = 0\<rparr>
      | Some e \<Rightarrow>
          if IsSignatureMissing e
          then \<lparr>vo_condition = verdictCondition ConditionFalse CapabilityVerifiedReasonMissing (ErrText (verifyErrText e)),
                vo_requeueAfter = verifyRecheckInterval\<rparr>
          else if IsSignatureInvalid e
          then \<lparr>vo_condition = verdictCondition ConditionFalse CapabilityVerifiedReasonInvalid (ErrText (verifyErrText e)),
                vo_requeueAfter = verifyRecheckInterval\<rparr>
          else \<lparr>vo_condition = verdictCondition ConditionUnknown CapabilityVerifiedReasonError
                  (Sprintf ''verification has not completed and will be retried: %v'' [AE (verifyErrText e)]),
                vo_requeueAfter = 0\<rparr>)"

definition cachedVerdict :: "int \<Rightarrow> NamespacedName \<Rightarrow> Capability \<Rightarrow> verifyStates \<Rightarrow> verifyOutcome option" where
  "cachedVerdict now key capability states =
     (case states key of
        None \<Rightarrow> None
      | Some rec \<Rightarrow>
          if vr_uid rec \<noteq> om_UID (cap_Meta capability) \<or> vr_generation rec \<noteq> om_Generation (cap_Meta capability) then None
          else let age = timeSince now (vr_verifiedAt rec);
                   recheck = (\<lambda>cond. if age < verifyRecheckInterval
                       then Some \<lparr>vo_condition = cond, vo_requeueAfter = verifyRecheckInterval - age\<rparr> else None)
               in (case vr_condition rec of
                     None \<Rightarrow> recheck \<lparr>c_Type = '''', c_Status = ConditionUnknown, c_ObservedGeneration = 0,
                                       c_LastTransitionTime = zeroTime, c_Reason = '''', c_Message = NoText\<rparr>
                   | Some cond \<Rightarrow>
                       if c_Status cond = ConditionTrue then Some \<lparr>vo_condition = cond, vo_requeueAfter = 0\<rparr>
                       else recheck cond))"

definition rememberVerdict ::
  "int \<Rightarrow> NamespacedName \<Rightarrow> Capability \<Rightarrow> verifyOutcome \<Rightarrow> verifyError option \<Rightarrow> verifyStates \<Rightarrow> verifyOutcome \<times> verifyStates" where
  "rememberVerdict now key capability outcome err states =
     (if Verify_IsTransient err
      then let backoff = (case states key of
                 None \<Rightarrow> verifyBackoffInitial
               | Some prev \<Rightarrow> if 0 < vr_backoff prev then min (vr_backoff prev * 2) verifyBackoffMax else verifyBackoffInitial)
           in (outcome\<lparr>vo_requeueAfter := backoff\<rparr>,
               states(key \<mapsto> \<lparr>vr_uid = om_UID (cap_Meta capability), vr_generation = om_Generation (cap_Meta capability),
                             vr_condition = None, vr_verifiedAt = zeroTime, vr_backoff = backoff\<rparr>))
      else (outcome,
            states(key \<mapsto> \<lparr>vr_uid = om_UID (cap_Meta capability), vr_generation = om_Generation (cap_Meta capability),
                          vr_condition = Some (vo_condition outcome), vr_verifiedAt = now, vr_backoff = 0\<rparr>)))"

definition forgetVerifyState :: "NamespacedName \<Rightarrow> verifyStates \<Rightarrow> verifyStates" where
  "forgetVerifyState key states = states(key := None)"

text \<open>\<open>t0\<close> is the clock at the cache lookup, \<open>t1\<close> the clock after the verifier returned.\<close>

type_synonym 'w verifier = "string \<Rightarrow> string \<Rightarrow> 'w \<Rightarrow> verifyError option \<times> 'w"

definition signatureRefOf :: "CapabilitySpec \<Rightarrow> string" where
  "signatureRefOf sp = (case caps_Provenance sp of None \<Rightarrow> '''' | Some p \<Rightarrow> cprov_SignatureRef p)"

definition verifiedCondition ::
  "'w verifier option \<Rightarrow> int \<times> int \<Rightarrow> Capability \<Rightarrow> verifyStates \<times> 'w \<Rightarrow> verifyOutcome \<times> verifyStates \<times> 'w" where
  "verifiedCondition verifier clock capability s =
     (case s of (states, w) \<Rightarrow>
       (case verifier of
          None \<Rightarrow> (\<lparr>vo_condition = verdictCondition ConditionUnknown CapabilityVerifiedReasonDisabled
                      (Sprintf ''cosign verification is not enabled on this cluster'' []), vo_requeueAfter = 0\<rparr>, states, w)
        | Some Verify \<Rightarrow>
            (let key = keyOf (cap_Meta capability) in
             case cachedVerdict (fst clock) key capability states of
               Some cached \<Rightarrow> (cached, states, w)
             | None \<Rightarrow>
                 (let artifact = caps_Artifact (cap_Spec capability);
                      (err, w1) = Verify artifact (signatureRefOf (cap_Spec capability)) w;
                      (outcome, states1) = rememberVerdict (snd clock) key capability (classifyVerification artifact err) err states
                  in (outcome, states1, w1)))))"

subsection \<open>Status and the reconcile handler\<close>

definition applyCapabilityStatus :: "k8slib \<Rightarrow> Capability \<Rightarrow> Capability" where
  "applyCapabilityStatus lib capability =
     (let permissive = (case caps_SchemaPolicy (cap_Spec capability) of
            SchemaPolicyPermissive \<Rightarrow>
              \<lparr>c_Type = CapabilityConditionPermissive, c_Status = ConditionTrue,
               c_ObservedGeneration = om_Generation (cap_Meta capability), c_LastTransitionTime = zeroTime,
               c_Reason = ''SchemaPolicyPermissive'',
               c_Message = Sprintf ''schemaPolicy is permissive: attached agent config is not validated at admission'' []\<rparr>
          | _ \<Rightarrow>
              \<lparr>c_Type = CapabilityConditionPermissive, c_Status = ConditionFalse,
               c_ObservedGeneration = om_Generation (cap_Meta capability), c_LastTransitionTime = zeroTime,
               c_Reason = ''SchemaValidated'',
               c_Message = Sprintf ''attached agent config is validated against spec.configSchema at admission'' []\<rparr>)
      in capability\<lparr>cap_Status := (cap_Status capability)
           \<lparr>capst_Conditions := lib_SetStatusCondition lib (capst_Conditions (cap_Status capability)) permissive,
            capst_ObservedGeneration := om_Generation (cap_Meta capability)\<rparr>\<rparr>)"

text \<open>The mutation both the comparison and the write apply: the policy part, then the verdict stamped with the generation.\<close>

definition stampVerdict :: "k8slib \<Rightarrow> Condition \<Rightarrow> Capability \<Rightarrow> Capability" where
  "stampVerdict lib verified capability =
     (let c1 = applyCapabilityStatus lib capability in
      c1\<lparr>cap_Status := (cap_Status c1)\<lparr>capst_Conditions :=
           lib_SetStatusCondition lib (capst_Conditions (cap_Status c1)) (verified\<lparr>c_ObservedGeneration := om_Generation (cap_Meta c1)\<rparr>)\<rparr>\<rparr>)"

definition capabilityStatusUpToDate :: "k8slib \<Rightarrow> Capability \<Rightarrow> Condition \<Rightarrow> bool" where
  "capabilityStatusUpToDate lib capability verified =
     (let desired = stampVerdict lib verified capability in
      capst_ObservedGeneration (cap_Status capability) = capst_ObservedGeneration (cap_Status desired) \<and>
      length (capst_Conditions (cap_Status capability)) = length (capst_Conditions (cap_Status desired)) \<and>
      list_all (\<lambda>want. case lib_FindStatusCondition lib (capst_Conditions (cap_Status capability)) (c_Type want) of
          None \<Rightarrow> False
        | Some got \<Rightarrow> c_Status got = c_Status want \<and> c_Reason got = c_Reason want \<and> c_Message got = c_Message want \<and>
            c_ObservedGeneration got = c_ObservedGeneration want) (capst_Conditions (cap_Status desired)))"

text \<open>The requeue delay of this controller is not a whole number of seconds, so its result keeps nanoseconds.\<close>

record capResult =
  cpr_RequeueAfter :: int
  cpr_Error :: "goerror option"

definition CapabilityReconciler_Reconcile ::
  "k8slib \<Rightarrow> ('w, Capability) kclient \<Rightarrow> 'w verifier option \<Rightarrow> ('w, Capability) retrier \<Rightarrow> int \<times> int \<Rightarrow> NamespacedName
   \<Rightarrow> verifyStates \<times> 'w \<Rightarrow> capResult \<times> verifyStates \<times> 'w" where
  "CapabilityReconciler_Reconcile lib kc verifier retry clock req s =
     (case s of (states, w) \<Rightarrow>
       (case kc_Get kc req w of
          Inl err \<Rightarrow>
            if apierrors_IsNotFound err then (\<lparr>cpr_RequeueAfter = 0, cpr_Error = None\<rparr>, forgetVerifyState req states, w)
            else (\<lparr>cpr_RequeueAfter = 0, cpr_Error = Some err\<rparr>, states, w)
        | Inr capability \<Rightarrow>
            if om_Deleting (cap_Meta capability)
            then (\<lparr>cpr_RequeueAfter = 0, cpr_Error = None\<rparr>, forgetVerifyState req states, w)
            else (case verifiedCondition verifier clock capability (states, w) of
              (outcome, states1, w1) \<Rightarrow>
                if capabilityStatusUpToDate lib capability (vo_condition outcome)
                then (\<lparr>cpr_RequeueAfter = vo_requeueAfter outcome, cpr_Error = None\<rparr>, states1, w1)
                else (case updateStatusWithRetry retry kc (\<lambda>c. keyOf (cap_Meta c)) (stampVerdict lib (vo_condition outcome)) capability w1 of
                        (Some err, w2) \<Rightarrow> (\<lparr>cpr_RequeueAfter = 0, cpr_Error = Some err\<rparr>, states1, w2)
                      | (None, w2) \<Rightarrow> (\<lparr>cpr_RequeueAfter = vo_requeueAfter outcome, cpr_Error = None\<rparr>, states1, w2)))))"

subsection \<open>Requeue delays\<close>

text \<open>A history of verifications: the clock readings, the object as read and the verifier of each reconcile.\<close>

fun verifyRuns ::
  "((int \<times> int) \<times> Capability \<times> 'w verifier) list \<Rightarrow> verifyStates \<times> 'w \<Rightarrow> verifyOutcome list \<times> verifyStates \<times> 'w" where
  "verifyRuns [] s = ([], s)"
| "verifyRuns ((clock, capability, Verify) # evs) s =
     (let (outcome, s1) = verifiedCondition (Some Verify) clock capability s; (outcomes, s2) = verifyRuns evs s1
      in (outcome # outcomes, s2))"

fun clocksFrom :: "int \<Rightarrow> (int \<times> int) list \<Rightarrow> bool" where
  "clocksFrom now [] = True"
| "clocksFrom now ((t0, t1) # ts) = (now \<le> t0 \<and> t0 \<le> t1 \<and> clocksFrom t1 ts)"

text \<open>What the cache holds at time \<open>now\<close>: verdicts that are definitive and of the past, or the backoff of a transient failure.\<close>

definition recordOK :: "int \<Rightarrow> verifyRecord \<Rightarrow> bool" where
  "recordOK now r \<longleftrightarrow>
     (case vr_condition r of
        None \<Rightarrow> vr_verifiedAt r = zeroTime \<and> vr_backoff r \<in> {verifyBackoffInitial .. verifyBackoffMax}
      | Some c \<Rightarrow> vr_verifiedAt r \<le> now \<and> vr_backoff r = 0 \<and> c_Status c \<noteq> ConditionUnknown)"

definition cacheOK :: "int \<Rightarrow> verifyStates \<Rightarrow> bool" where
  "cacheOK now states \<longleftrightarrow> (\<forall>k r. states k = Some r \<longrightarrow> recordOK now r)"

definition requeueOK :: "verifyOutcome \<Rightarrow> bool" where
  "requeueOK out =
     (case c_Status (vo_condition out) of
        ConditionTrue \<Rightarrow> vo_requeueAfter out = 0
      | ConditionFalse \<Rightarrow> 0 < vo_requeueAfter out \<and> vo_requeueAfter out \<le> verifyRecheckInterval
      | ConditionUnknown \<Rightarrow> verifyBackoffInitial \<le> vo_requeueAfter out \<and> vo_requeueAfter out \<le> verifyBackoffMax)"

lemmas verify_durations = nsecond_def verifyBackoffInitial_def verifyBackoffMax_def verifyRecheckInterval_def zeroTime_def

lemma age_of_past: "t \<le> now \<Longrightarrow> 0 \<le> timeSince now t"
  by (simp add: timeSince_def)

lemma age_of_zero: "0 \<le> now \<Longrightarrow> verifyRecheckInterval \<le> timeSince now zeroTime"
  by (simp add: timeSince_def verify_durations)

lemma transient_not_cached:
  assumes "states key = Some r" and "vr_condition r = None" and "vr_verifiedAt r = zeroTime" and "0 \<le> t0"
  shows "cachedVerdict t0 key capability states = None"
  using assms(1-3) age_of_zero[OF assms(4)] by (simp add: cachedVerdict_def Let_def)

lemma cachedVerdict_SomeE:
  assumes "cachedVerdict t0 key capability states = Some out" and "cacheOK now states" and "0 \<le> t0"
  obtains r cond where "states key = Some r" and "vr_uid r = om_UID (cap_Meta capability)"
    and "vr_generation r = om_Generation (cap_Meta capability)" and "vr_condition r = Some cond" and "vo_condition out = cond"
    and "vo_requeueAfter out = (if c_Status cond = ConditionTrue then 0 else verifyRecheckInterval - timeSince t0 (vr_verifiedAt r))"
    and "c_Status cond = ConditionTrue \<or> timeSince t0 (vr_verifiedAt r) < verifyRecheckInterval"
proof -
  obtain r where r: "states key = Some r" using assms(1) by (auto simp: cachedVerdict_def split: option.splits)
  have ok: "recordOK now r" using r assms(2) by (auto simp: cacheOK_def)
  obtain cond where c: "vr_condition r = Some cond"
    using transient_not_cached[where states = states and key = key, OF r _ _ assms(3)] assms(1) ok
    by (cases "vr_condition r") (auto simp: recordOK_def)
  show thesis using assms(1) r c by (intro that[OF r _ _ c]) (auto simp: cachedVerdict_def Let_def split: if_splits)
qed

lemma cachedVerdict_ok:
  assumes "cacheOK now states" and "0 \<le> now" and "now \<le> t0" and "cachedVerdict t0 key capability states = Some out"
  shows "requeueOK out" and "c_Status (vo_condition out) \<noteq> ConditionUnknown"
proof -
  obtain r cond where r: "states key = Some r" "vr_condition r = Some cond" "vo_condition out = cond"
      "vo_requeueAfter out = (if c_Status cond = ConditionTrue then 0 else verifyRecheckInterval - timeSince t0 (vr_verifiedAt r))"
      "c_Status cond = ConditionTrue \<or> timeSince t0 (vr_verifiedAt r) < verifyRecheckInterval"
    by (rule cachedVerdict_SomeE[OF assms(4,1) order_trans[OF assms(2,3)]]) blast
  have ok: "vr_verifiedAt r \<le> t0" "c_Status cond \<noteq> ConditionUnknown"
    using r(1,2) assms(1,3) by (force simp: cacheOK_def recordOK_def)+
  show "requeueOK out" "c_Status (vo_condition out) \<noteq> ConditionUnknown"
    using r(3-5) ok(2) age_of_past[OF ok(1)] by (auto simp: requeueOK_def split: ConditionStatus.splits)
qed

lemma cacheOK_mono: "cacheOK now states \<Longrightarrow> now \<le> t \<Longrightarrow> cacheOK t states"
  unfolding cacheOK_def recordOK_def by (fastforce split: option.splits)

lemma rememberVerdict_ok:
  assumes "cacheOK now states" and "now \<le> t1"
    and "rememberVerdict t1 key capability (classifyVerification a err) err states = (out, states')"
  shows "requeueOK out" and "cacheOK t1 states'"
proof -
  define backoff where "backoff = (case states key of
      None \<Rightarrow> verifyBackoffInitial
    | Some prev \<Rightarrow> if 0 < vr_backoff prev then min (vr_backoff prev * 2) verifyBackoffMax else verifyBackoffInitial)"
  have le: "verifyBackoffInitial \<le> verifyBackoffMax" "0 < verifyRecheckInterval" by (simp_all add: verify_durations)
  have "prev \<in> ran states \<Longrightarrow> 0 < vr_backoff prev \<Longrightarrow> verifyBackoffInitial \<le> vr_backoff prev * 2" for prev
    using assms(1) by (force simp: cacheOK_def recordOK_def ran_def verify_durations split: option.splits)
  then have b: "backoff \<in> {verifyBackoffInitial .. verifyBackoffMax}"
    using le(1) by (auto simp: backoff_def min_def ranI split: option.split)
  have c: "cacheOK t1 states" using cacheOK_mono[OF assms(1,2)] .
  have "requeueOK out \<and> cacheOK t1 states'"
  proof (cases "Verify_IsTransient err")
    case True
    then have o: "out = (classifyVerification a err)\<lparr>vo_requeueAfter := backoff\<rparr>"
        "c_Status (vo_condition (classifyVerification a err)) = ConditionUnknown"
        "states' = states(key \<mapsto> \<lparr>vr_uid = om_UID (cap_Meta capability), vr_generation = om_Generation (cap_Meta capability),
                             vr_condition = None, vr_verifiedAt = zeroTime, vr_backoff = backoff\<rparr>)"
      using assms(3) by (auto simp: rememberVerdict_def backoff_def Let_def Verify_IsTransient_def classifyVerification_def
          verdictCondition_def split: option.splits)
    then show ?thesis using b c by (auto simp: requeueOK_def cacheOK_def recordOK_def)
  next
    case False
    then have o: "out = classifyVerification a err" "c_Status (vo_condition out) \<noteq> ConditionUnknown"
        "vo_requeueAfter out = (if c_Status (vo_condition out) = ConditionTrue then 0 else verifyRecheckInterval)"
        "states' = states(key \<mapsto> \<lparr>vr_uid = om_UID (cap_Meta capability), vr_generation = om_Generation (cap_Meta capability),
                          vr_condition = Some (vo_condition out), vr_verifiedAt = t1, vr_backoff = 0\<rparr>)"
      using assms(3) by (auto simp: rememberVerdict_def Verify_IsTransient_def classifyVerification_def
          verdictCondition_def split: option.splits if_splits)
    show ?thesis using o(2-) c le(2) by (auto simp: requeueOK_def cacheOK_def recordOK_def split: ConditionStatus.splits)
  qed
  then show "requeueOK out" "cacheOK t1 states'" by auto
qed

lemma verifiedCondition_ok:
  assumes "cacheOK now states" and "0 \<le> now" and "now \<le> t0" and "t0 \<le> t1"
    and "verifiedCondition (Some Verify) (t0, t1) capability (states, w) = (out, states', w')"
  shows "requeueOK out" and "cacheOK t1 states'"
proof -
  have "requeueOK out \<and> cacheOK t1 states'"
  proof (cases "cachedVerdict t0 (keyOf (cap_Meta capability)) capability states")
    case None
    from this obtain err where "rememberVerdict t1 (keyOf (cap_Meta capability)) capability
        (classifyVerification (caps_Artifact (cap_Spec capability)) err) err states = (out, states')"
      using assms(5) by (auto simp: verifiedCondition_def Let_def split: prod.splits)
    from rememberVerdict_ok[OF assms(1) _ this] show ?thesis using assms(3,4) by simp
  next
    case (Some cached)
    then show ?thesis using assms cachedVerdict_ok(1)[OF assms(1-3) Some] cacheOK_mono[OF assms(1)]
      by (auto simp: verifiedCondition_def Let_def)
  qed
  then show "requeueOK out" "cacheOK t1 states'" by auto
qed

lemma verifyRuns_ok:
  assumes "cacheOK now states" and "0 \<le> now" and "clocksFrom now (map fst evs)"
    and "verifyRuns evs (states, w) = (outs, states', w')" and "out \<in> set outs"
  shows "requeueOK out"
  using assms
proof (induction evs arbitrary: now states w outs)
  case (Cons ev evs)
  obtain t0 t1 capability Verify where ev: "ev = ((t0, t1), capability, Verify)" by (metis prod.collapse)
  obtain o1 states1 w1 where v: "verifiedCondition (Some Verify) (t0, t1) capability (states, w) = (o1, states1, w1)"
    by (metis prod.collapse)
  obtain outs1 where r: "verifyRuns evs (states1, w1) = (outs1, states', w')" "outs = o1 # outs1"
    using Cons.prems(4) v by (auto simp: ev Let_def split: prod.splits)
  have t: "now \<le> t0" "t0 \<le> t1" "clocksFrom t1 (map fst evs)" using Cons.prems(3) by (auto simp: ev)
  note ok = verifiedCondition_ok[OF Cons.prems(1,2) t(1,2) v]
  show ?case
  proof (cases "out = o1")
    case False
    then show ?thesis using Cons.IH[OF ok(2) _ t(3) r(1)] Cons.prems(2,5) t r(2) by auto
  qed (use ok in simp)
qed simp


text \<open>An outage: the Capability is reconciled while every verification of it fails without a verdict.\<close>

definition outageAt :: "NamespacedName \<Rightarrow> (int \<times> int) \<times> Capability \<times> 'w verifier \<Rightarrow> bool" where
  "outageAt key ev = (case ev of (clock, capability, Verify) \<Rightarrow>
     keyOf (cap_Meta capability) = key \<and> 0 \<le> fst clock \<and> (\<forall>a s w. Verify_IsTransient (fst (Verify a s w))))"

lemma outage_step:
  assumes "outageAt key (clock, capability, Verify)" and "cachedVerdict (fst clock) key capability states = None"
    and "b = (case states key of
      None \<Rightarrow> verifyBackoffInitial
    | Some prev \<Rightarrow> if 0 < vr_backoff prev then min (vr_backoff prev * 2) verifyBackoffMax else verifyBackoffInitial)"
  shows "\<exists>out w1. verifiedCondition (Some Verify) clock capability (states, w) =
      (out, states(key \<mapsto> \<lparr>vr_uid = om_UID (cap_Meta capability), vr_generation = om_Generation (cap_Meta capability),
         vr_condition = None, vr_verifiedAt = zeroTime, vr_backoff = b\<rparr>), w1) \<and> vo_requeueAfter out = b"
proof -
  obtain err w1 where v: "Verify (caps_Artifact (cap_Spec capability)) (signatureRefOf (cap_Spec capability)) w = (err, w1)"
    by (metis prod.collapse)
  have k: "keyOf (cap_Meta capability) = key" using assms(1) by (simp add: outageAt_def)
  have "Verify_IsTransient (fst (Verify (caps_Artifact (cap_Spec capability)) (signatureRefOf (cap_Spec capability)) w))"
    using assms(1) unfolding outageAt_def by blast
  then show ?thesis using assms(2) v by (simp add: verifiedCondition_def k Let_def rememberVerdict_def assms(3))
qed

lemma upt_0_Suc: "[0..<Suc n] = 0 # map Suc [0..<n]"
  by (simp add: map_Suc_upt upt_conv_Cons del: upt_Suc)

lemma transient_run_backoff:
  assumes "list_all (outageAt key) evs" and "states key = Some r" and "vr_condition r = None" and "vr_verifiedAt r = zeroTime" and "0 < vr_backoff r"
    and "vr_backoff r = min (15 * 2 ^ n * nsecond) verifyBackoffMax"
  shows "map vo_requeueAfter (fst (verifyRuns evs (states, w))) =
    map (\<lambda>i. min (15 * 2 ^ (n + 1 + i) * nsecond) verifyBackoffMax) [0..<length evs]"
  using assms
proof (induction evs arbitrary: n states r w)
  case (Cons ev evs)
  note IH = Cons.IH and prems = Cons.prems
  obtain clock capability Verify where ev: "ev = (clock, capability, Verify)" by (metis prod.collapse)
  have e: "outageAt key (clock, capability, Verify)" "0 \<le> fst clock" using prems(1) by (auto simp: ev outageAt_def)
  let ?b = "min (15 * 2 ^ (n + 1) * nsecond) verifyBackoffMax"
  have b: "min (vr_backoff r * 2) verifyBackoffMax = ?b" unfolding prems(6) verify_durations by simp
  have b0: "0 < ?b" by (simp add: verify_durations)
  let ?r = "\<lparr>vr_uid = om_UID (cap_Meta capability), vr_generation = om_Generation (cap_Meta capability),
     vr_condition = None, vr_verifiedAt = zeroTime, vr_backoff = ?b\<rparr>"
  obtain out w1 where vc: "verifiedCondition (Some Verify) clock capability (states, w) = (out, states(key \<mapsto> ?r), w1)" "vo_requeueAfter out = ?b"
    using outage_step[OF e(1) transient_not_cached[where states = states and key = key, OF prems(2-4) e(2)], of ?b w] prems(2,5) b by auto
  have "map vo_requeueAfter (fst (verifyRuns evs (states(key \<mapsto> ?r), w1))) =
    map (\<lambda>i. min (15 * 2 ^ (n + 1 + 1 + i) * nsecond) verifyBackoffMax) [0..<length evs]"
    by (rule IH[where r = ?r]) (use prems(1) b0 in simp_all)
  then show ?case using vc by (auto simp: ev Let_def upt_0_Suc simp del: upt_Suc split: prod.splits)
qed simp

text \<open>When a Capability is looked at again. Whatever the history of reconciles, a True verdict asks for no further run, a False
  verdict is rechecked after at most ten minutes, and a run without a verdict is retried after 15 seconds to five minutes. During an
  outage from the first verification on, the delays double from 15 seconds and stay at five minutes.\<close>

theorem verification_requeue:
  assumes "clocksFrom 0 (map fst evs)" and "verifyRuns evs (Map.empty, w) = (outs, s')"
  shows "(\<forall>out \<in> set outs. requeueOK out) \<and>
    (list_all (outageAt key) evs \<longrightarrow>
      map vo_requeueAfter outs = map (\<lambda>i. min (15 * 2 ^ i * nsecond) verifyBackoffMax) [0..<length evs])"
proof (intro conjI impI)
  obtain states' w' where s': "s' = (states', w')" by (cases s')
  show "\<forall>out \<in> set outs. requeueOK out"
    using verifyRuns_ok[OF _ _ assms(1) assms(2)[unfolded s']] by (auto simp: cacheOK_def)
  assume o: "list_all (outageAt key) evs"
  show "map vo_requeueAfter outs = map (\<lambda>i. min (15 * 2 ^ i * nsecond) verifyBackoffMax) [0..<length evs]"
  proof (cases evs)
    case (Cons ev evs1)
    obtain clock capability Verify where ev: "ev = (clock, capability, Verify)" by (metis prod.collapse)
    let ?r = "\<lparr>vr_uid = om_UID (cap_Meta capability), vr_generation = om_Generation (cap_Meta capability),
         vr_condition = None, vr_verifiedAt = zeroTime, vr_backoff = verifyBackoffInitial\<rparr>"
    have e: "outageAt key (clock, capability, Verify)" using o by (simp add: Cons ev)
    obtain out w1 where v: "verifiedCondition (Some Verify) clock capability (Map.empty, w) = (out, [key \<mapsto> ?r], w1)"
        "vo_requeueAfter out = verifyBackoffInitial"
      using outage_step[OF e, of Map.empty verifyBackoffInitial w] by (auto simp: cachedVerdict_def)
    have "map vo_requeueAfter (fst (verifyRuns evs1 ([key \<mapsto> ?r], w1))) =
        map (\<lambda>i. min (15 * 2 ^ (0 + 1 + i) * nsecond) verifyBackoffMax) [0..<length evs1]"
      by (rule transient_run_backoff[where key = key and r = ?r]) (use o Cons in \<open>simp_all add: verify_durations\<close>)
    then show ?thesis using assms(2) v by (auto simp: Cons ev Let_def verify_durations upt_0_Suc simp del: upt_Suc split: prod.splits)
  qed (use assms(2) in simp)
qed

subsection \<open>The controller and the API server\<close>

text \<open>
  Capabilities in the API server: an object's generation grows with every change of its spec, a status write keeps spec and
  generation, and a write with an outdated resource version is refused. \<open>sys_specs\<close> remembers the spec of every generation of
  every object (by uid) and \<open>sys_accepted\<close> the artifacts and signature locations the verifier accepted; the controller reads neither.
\<close>

record capSys =
  sys_objects :: "NamespacedName \<Rightarrow> Capability option"
  sys_specs :: "string \<times> int \<Rightarrow> CapabilitySpec option"
  sys_accepted :: "(string \<times> string) list"

definition capClient :: "(capSys, Capability) kclient" where
  "capClient =
     \<lparr>kc_Get = (\<lambda>k s. case sys_objects s k of None \<Rightarrow> Inl (ApiError StatusNotFound ''not found'') | Some c \<Rightarrow> Inr c),
      kc_Create = (\<lambda>c s. (Inl (ApiError StatusForbidden ''''), s)),
      kc_Update = (\<lambda>c s. (Inl (ApiError StatusForbidden ''''), s)),
      kc_UpdateStatus = (\<lambda>c s. case sys_objects s (keyOf (cap_Meta c)) of
          None \<Rightarrow> (Inl (ApiError StatusNotFound ''not found''), s)
        | Some stored \<Rightarrow>
            if om_ResourceVersion (cap_Meta c) \<noteq> om_ResourceVersion (cap_Meta stored)
            then (Inl (ApiError StatusConflict ''the object has been modified''), s)
            else let written = stored\<lparr>cap_Status := cap_Status c, cap_Meta := (cap_Meta stored)
                       \<lparr>om_ResourceVersion := om_ResourceVersion (cap_Meta stored) @ ''0''\<rparr>\<rparr>
                 in (Inr written, s\<lparr>sys_objects := (sys_objects s)(keyOf (cap_Meta c) \<mapsto> written)\<rparr>)),
      kc_Delete = (\<lambda>k s. (Some (ApiError StatusForbidden ''''), s))\<rparr>"

definition recordAccepted :: "(string \<Rightarrow> string \<Rightarrow> verifyError option) \<Rightarrow> capSys verifier" where
  "recordAccepted v a r s = (v a r, if v a r = None then s\<lparr>sys_accepted := (a, r) # sys_accepted s\<rparr> else s)"

text \<open>\<open>retry.RetryOnConflict\<close> returns what the attempt returned unless that is a conflict.\<close>

definition retries_conflicts :: "('w, 'o) retrier \<Rightarrow> bool" where
  "retries_conflicts retry \<longleftrightarrow>
     (\<forall>attempt s. (case fst (attempt s) of None \<Rightarrow> True | Some e \<Rightarrow> \<not> apierrors_IsConflict e) \<longrightarrow> retry attempt s = attempt s)"

definition bumpSpec :: "CapabilitySpec \<Rightarrow> string \<Rightarrow> Capability \<Rightarrow> Capability" where
  "bumpSpec sp rv c = c\<lparr>cap_Spec := sp, cap_Meta := (cap_Meta c)
     \<lparr>om_Generation := om_Generation (cap_Meta c) + 1, om_ResourceVersion := rv\<rparr>\<rparr>"

definition changeSpec :: "NamespacedName \<Rightarrow> CapabilitySpec \<Rightarrow> string \<Rightarrow> capSys \<Rightarrow> capSys" where
  "changeSpec k sp rv s =
     (case sys_objects s k of
        None \<Rightarrow> s
      | Some c \<Rightarrow> s\<lparr>sys_objects := (sys_objects s)(k \<mapsto> bumpSpec sp rv c),
                  sys_specs := (sys_specs s)((om_UID (cap_Meta c), om_Generation (cap_Meta c) + 1) \<mapsto> sp)\<rparr>)"

text \<open>One step of the cluster: users create, change and remove objects, the operator restarts, or a reconcile runs.\<close>

inductive capStep :: "k8slib \<Rightarrow> verifyStates \<times> capSys \<Rightarrow> verifyStates \<times> capSys \<Rightarrow> bool" for lib where
  create: "sys_objects s (keyOf (cap_Meta c)) = None \<Longrightarrow> (\<And>g. sys_specs s (om_UID (cap_Meta c), g) = None) \<Longrightarrow>
     lib_FindStatusCondition lib (capst_Conditions (cap_Status c)) CapabilityConditionVerified = None \<Longrightarrow>
     capStep lib (states, s) (states, s\<lparr>sys_objects := (sys_objects s)(keyOf (cap_Meta c) \<mapsto> c),
       sys_specs := (sys_specs s)((om_UID (cap_Meta c), om_Generation (cap_Meta c)) \<mapsto> cap_Spec c)\<rparr>)"
| change: "capStep lib (states, s) (states, changeSpec k sp rv s)"
| remove: "capStep lib (states, s) (states, s\<lparr>sys_objects := (sys_objects s)(k := None)\<rparr>)"
| restart: "capStep lib (states, s) (Map.empty, s)"
| reconcile: "retries_conflicts retry \<Longrightarrow>
     CapabilityReconciler_Reconcile lib capClient (map_option recordAccepted v) retry clock req (states, s) = (r, states', s') \<Longrightarrow>
     0 \<le> fst clock \<Longrightarrow> fst clock \<le> snd clock \<Longrightarrow> capStep lib (states, s) (states', s')"

definition sysStart :: "verifyStates \<times> capSys" where
  "sysStart = (Map.empty, \<lparr>sys_objects = Map.empty, sys_specs = Map.empty, sys_accepted = []\<rparr>)"

text \<open>Version \<open>g\<close> of the object with this uid was accepted by the verifier.\<close>

definition acceptedVersion :: "capSys \<Rightarrow> string \<Rightarrow> int \<Rightarrow> bool" where
  "acceptedVersion s uid g \<longleftrightarrow>
     (\<exists>sp. sys_specs s (uid, g) = Some sp \<and> (caps_Artifact sp, signatureRefOf sp) \<in> set (sys_accepted s))"

definition objectsOK :: "capSys \<Rightarrow> bool" where
  "objectsOK s \<longleftrightarrow>
     (\<forall>k c. sys_objects s k = Some c \<longrightarrow>
        keyOf (cap_Meta c) = k \<and> sys_specs s (om_UID (cap_Meta c), om_Generation (cap_Meta c)) = Some (cap_Spec c) \<and>
        (\<forall>g. sys_specs s (om_UID (cap_Meta c), g) \<noteq> None \<longrightarrow> g \<le> om_Generation (cap_Meta c)) \<and>
        (\<forall>k' c'. sys_objects s k' = Some c' \<longrightarrow> om_UID (cap_Meta c') = om_UID (cap_Meta c) \<longrightarrow> k' = k))"

definition verdictsOK :: "k8slib \<Rightarrow> capSys \<Rightarrow> bool" where
  "verdictsOK lib s \<longleftrightarrow>
     (\<forall>k c cond. sys_objects s k = Some c \<longrightarrow>
        lib_FindStatusCondition lib (capst_Conditions (cap_Status c)) CapabilityConditionVerified = Some cond \<longrightarrow>
        c_Status cond = ConditionTrue \<longrightarrow> acceptedVersion s (om_UID (cap_Meta c)) (c_ObservedGeneration cond))"

definition verdictOf :: "capSys \<Rightarrow> verifyRecord \<Rightarrow> bool" where
  "verdictOf s r \<longleftrightarrow>
     (case vr_condition r of
        None \<Rightarrow> vr_verifiedAt r = zeroTime
      | Some cond \<Rightarrow> c_Type cond = CapabilityConditionVerified \<and>
          (c_Status cond = ConditionTrue \<longrightarrow> acceptedVersion s (vr_uid r) (vr_generation r)))"

definition statesOK :: "verifyStates \<Rightarrow> capSys \<Rightarrow> bool" where
  "statesOK states s \<longleftrightarrow> (\<forall>k r. states k = Some r \<longrightarrow> verdictOf s r)"

definition capInv :: "k8slib \<Rightarrow> verifyStates \<times> capSys \<Rightarrow> bool" where
  "capInv lib st \<longleftrightarrow> (case st of (states, s) \<Rightarrow> objectsOK s \<and> verdictsOK lib s \<and> statesOK states s)"

lemma acceptedVersion_mono:
  "acceptedVersion s uid g \<Longrightarrow> sys_specs s \<subseteq>\<^sub>m sys_specs s' \<Longrightarrow> set (sys_accepted s) \<subseteq> set (sys_accepted s') \<Longrightarrow> acceptedVersion s' uid g"
  by (force simp: acceptedVersion_def map_le_def dom_def)

lemma statesOK_mono:
  "statesOK states s \<Longrightarrow> sys_specs s \<subseteq>\<^sub>m sys_specs s' \<Longrightarrow> set (sys_accepted s) \<subseteq> set (sys_accepted s') \<Longrightarrow> statesOK states s'"
  using acceptedVersion_mono unfolding statesOK_def verdictOf_def by (fastforce split: option.splits)

lemma statesOK_upd: "statesOK states s \<Longrightarrow> verdictOf s r \<Longrightarrow> statesOK (states(k \<mapsto> r)) s"
  by (simp add: statesOK_def)

lemma statesOK_D:
  assumes "statesOK states s" and "states k = Some r" and "vr_condition r = Some cond"
  shows "c_Type cond = CapabilityConditionVerified"
    and "c_Status cond = ConditionTrue \<Longrightarrow> acceptedVersion s (vr_uid r) (vr_generation r)"
proof -
  have "verdictOf s r" using assms(1,2) by (simp add: statesOK_def)
  then show "c_Type cond = CapabilityConditionVerified"
    and "c_Status cond = ConditionTrue \<Longrightarrow> acceptedVersion s (vr_uid r) (vr_generation r)"
    using assms(3) by (simp_all add: verdictOf_def)
qed

lemma stampVerdict_keeps [simp]:
  "cap_Meta (stampVerdict lib cond c) = cap_Meta c" "cap_Spec (stampVerdict lib cond c) = cap_Spec c"
  by (simp_all add: stampVerdict_def applyCapabilityStatus_def Let_def)

lemma stampVerdict_verified:
  assumes "status_condition_laws lib" and "c_Type cond = CapabilityConditionVerified"
  obtains cond' where "lib_FindStatusCondition lib (capst_Conditions (cap_Status (stampVerdict lib cond c))) CapabilityConditionVerified = Some cond'"
    and "same_verdict cond' (cond\<lparr>c_ObservedGeneration := om_Generation (cap_Meta c)\<rparr>)"
proof -
  let ?c = "cond\<lparr>c_ObservedGeneration := om_Generation (cap_Meta c)\<rparr>"
  obtain cs where cs: "capst_Conditions (cap_Status (stampVerdict lib cond c)) = lib_SetStatusCondition lib cs ?c"
    by (simp add: stampVerdict_def applyCapabilityStatus_def Let_def)
  have "\<exists>c'. lib_FindStatusCondition lib (lib_SetStatusCondition lib cs ?c) (c_Type ?c) = Some c' \<and> same_verdict c' ?c"
    using assms(1) unfolding status_condition_laws_def by blast
  then show thesis using that assms(2) cs by auto
qed

lemma status_written:
  assumes "retries_conflicts retry" and "sys_objects s k = Some c" and "keyOf (cap_Meta c) = k"
  shows "updateStatusWithRetry retry capClient (\<lambda>c. keyOf (cap_Meta c)) (stampVerdict lib cond) c s =
    (None, s\<lparr>sys_objects := (sys_objects s)(k \<mapsto> (stampVerdict lib cond c)\<lparr>cap_Meta := (cap_Meta c)
       \<lparr>om_ResourceVersion := om_ResourceVersion (cap_Meta c) @ ''0''\<rparr>\<rparr>)\<rparr>)"
proof -
  let ?a = "statusAttempt capClient (\<lambda>c. keyOf (cap_Meta c)) (stampVerdict lib cond)"
  let ?x = "stampVerdict lib cond c"
  have w: "c\<lparr>cap_Status := cap_Status ?x, cap_Meta := m\<rparr> = ?x\<lparr>cap_Meta := m\<rparr>" for m
    by (rule Capability.equality) simp_all
  have "?a (?x, s) = (None, ?x\<lparr>cap_Meta := (cap_Meta c)\<lparr>om_ResourceVersion := om_ResourceVersion (cap_Meta c) @ ''0''\<rparr>\<rparr>,
      s\<lparr>sys_objects := (sys_objects s)(k \<mapsto> ?x\<lparr>cap_Meta := (cap_Meta c)\<lparr>om_ResourceVersion := om_ResourceVersion (cap_Meta c) @ ''0''\<rparr>\<rparr>)\<rparr>)"
    using assms(2,3) by (simp add: statusAttempt_def capClient_def Let_def w)
  moreover from this have "retry ?a (?x, s) = ?a (?x, s)" using assms(1) by (simp add: retries_conflicts_def)
  ultimately show ?thesis by (simp add: updateStatusWithRetry_def)
qed

lemma verifiedCondition_accepted:
  assumes "objectsOK s" and "sys_objects s k = Some c" and "statesOK states s" and "0 \<le> fst clock"
    and "verifiedCondition (map_option recordAccepted v) clock c (states, s) = (out, states', s1)"
  shows "sys_objects s1 = sys_objects s" and "sys_specs s1 = sys_specs s" and "set (sys_accepted s) \<subseteq> set (sys_accepted s1)"
    and "c_Type (vo_condition out) = CapabilityConditionVerified" and "statesOK states' s1"
    and "c_Status (vo_condition out) = ConditionTrue \<Longrightarrow> acceptedVersion s1 (om_UID (cap_Meta c)) (om_Generation (cap_Meta c))"
proof -
  let ?P = "sys_objects s1 = sys_objects s \<and> sys_specs s1 = sys_specs s \<and> set (sys_accepted s) \<subseteq> set (sys_accepted s1) \<and>
    c_Type (vo_condition out) = CapabilityConditionVerified \<and> statesOK states' s1 \<and>
    (c_Status (vo_condition out) = ConditionTrue \<longrightarrow> acceptedVersion s1 (om_UID (cap_Meta c)) (om_Generation (cap_Meta c)))"
  have sp: "sys_specs s (om_UID (cap_Meta c), om_Generation (cap_Meta c)) = Some (cap_Spec c)" using assms(1,2) by (auto simp: objectsOK_def)
  let ?k = "keyOf (cap_Meta c)"
  have ?P
  proof (cases v)
    case None
    then show ?thesis using assms(3,5) by (auto simp: verifiedCondition_def verdictCondition_def)
  next
    case v: (Some vf)
    show ?thesis
    proof (cases "cachedVerdict (fst clock) ?k c states")
      case (Some cached)
      then have e: "out = cached" "states' = states" "s1 = s" using assms(5) v by (auto simp: verifiedCondition_def Let_def)
      obtain r where r: "states ?k = Some r" using Some by (auto simp: cachedVerdict_def split: option.splits)
      have "vr_condition r = None \<Longrightarrow> vr_verifiedAt r = zeroTime" using assms(3) r by (force simp: statesOK_def verdictOf_def)
      then obtain cond where c: "vr_condition r = Some cond"
        using transient_not_cached[where states = states and key = ?k, OF r _ _ assms(4), of c] Some
        by (cases "vr_condition r") auto
      then have "vo_condition out = cond" "vr_uid r = om_UID (cap_Meta c)" "vr_generation r = om_Generation (cap_Meta c)"
        using Some r e(1) by (auto simp: cachedVerdict_def Let_def split: if_splits)
      then show ?thesis using assms(3) statesOK_D[OF assms(3) r c] e by auto
    next
      case None
      let ?a = "caps_Artifact (cap_Spec c)" and ?r = "signatureRefOf (cap_Spec c)"
      have e: "s1 = snd (recordAccepted vf ?a ?r s)"
          "(out, states') = rememberVerdict (snd clock) ?k c (classifyVerification ?a (vf ?a ?r)) (vf ?a ?r) states"
        using assms(5) v None by (auto simp: verifiedCondition_def recordAccepted_def Let_def split: prod.splits)
      have o: "c_Type (vo_condition out) = CapabilityConditionVerified" "c_Status (vo_condition out) = ConditionTrue \<longleftrightarrow> vf ?a ?r = None"
          "\<exists>r. states' = states(?k \<mapsto> r) \<and> vr_uid r = om_UID (cap_Meta c) \<and> vr_generation r = om_Generation (cap_Meta c) \<and>
             (vr_condition r = None \<and> vr_verifiedAt r = zeroTime \<or> vr_condition r = Some (vo_condition out))"
        using e(2) by (auto simp: rememberVerdict_def classifyVerification_def verdictCondition_def Verify_IsTransient_def Let_def
            split: option.splits if_splits)
      have s1: "sys_objects s1 = sys_objects s" "sys_specs s1 = sys_specs s" "set (sys_accepted s) \<subseteq> set (sys_accepted s1)"
          "vf ?a ?r = None \<Longrightarrow> acceptedVersion s1 (om_UID (cap_Meta c)) (om_Generation (cap_Meta c))"
        using sp by (auto simp: e(1) recordAccepted_def acceptedVersion_def)
      have "statesOK states s1" by (rule statesOK_mono[OF assms(3)]) (use s1 in auto)
      then have "statesOK states' s1" using o s1(4) by (auto simp: verdictOf_def intro!: statesOK_upd)
      then show ?thesis using o(1,2) s1 by blast
    qed
  qed
  then show "sys_objects s1 = sys_objects s" "sys_specs s1 = sys_specs s" "set (sys_accepted s) \<subseteq> set (sys_accepted s1)"
    "c_Type (vo_condition out) = CapabilityConditionVerified" "statesOK states' s1"
    "c_Status (vo_condition out) = ConditionTrue \<Longrightarrow> acceptedVersion s1 (om_UID (cap_Meta c)) (om_Generation (cap_Meta c))" by auto
qed

lemma changeSpec_inv:
  assumes "capInv lib (states, s)"
  shows "capInv lib (states, changeSpec k sp rv s)"
proof (cases "sys_objects s k")
  case None
  then show ?thesis using assms by (simp add: changeSpec_def)
next
  case (Some c)
  let ?s = "changeSpec k sp rv s" and ?u = "om_UID (cap_Meta c)" and ?g = "om_Generation (cap_Meta c)"
  have inv: "objectsOK s" "verdictsOK lib s" "statesOK states s" using assms by (auto simp: capInv_def)
  have c: "keyOf (cap_Meta c) = k" "\<And>g. sys_specs s (?u, g) \<noteq> None \<Longrightarrow> g \<le> ?g"
      "\<And>k' c'. sys_objects s k' = Some c' \<Longrightarrow> om_UID (cap_Meta c') = ?u \<Longrightarrow> k' = k"
    using inv(1) Some unfolding objectsOK_def by blast+
  have s: "?s = s\<lparr>sys_objects := (sys_objects s)(k \<mapsto> bumpSpec sp rv c), sys_specs := (sys_specs s)((?u, ?g + 1) \<mapsto> sp)\<rparr>"
    using Some by (simp add: changeSpec_def)
  have new: "sys_specs s (?u, ?g + 1) = None" using c(2)[of "?g + 1"] by fastforce
  then have le: "sys_specs s \<subseteq>\<^sub>m sys_specs ?s" by (auto simp: s map_le_def)
  have acc: "set (sys_accepted s) \<subseteq> set (sys_accepted ?s)" by (simp add: s)
  have "objectsOK ?s" unfolding objectsOK_def
  proof (intro allI impI)
    fix k' c' assume a: "sys_objects ?s k' = Some c'"
    obtain c0 where c0: "sys_objects s k' = Some c0" "om_UID (cap_Meta c0) = om_UID (cap_Meta c')"
        "keyOf (cap_Meta c0) = keyOf (cap_Meta c')" "k' \<noteq> k \<Longrightarrow> c0 = c'" "k' = k \<Longrightarrow> c0 = c"
      using a Some by (cases "k' = k") (auto simp: s bumpSpec_def)
    have o: "keyOf (cap_Meta c0) = k'" "sys_specs s (om_UID (cap_Meta c0), om_Generation (cap_Meta c0)) = Some (cap_Spec c0)"
        "\<And>g. sys_specs s (om_UID (cap_Meta c0), g) \<noteq> None \<Longrightarrow> g \<le> om_Generation (cap_Meta c0)"
        "\<And>k2 c2. sys_objects s k2 = Some c2 \<Longrightarrow> om_UID (cap_Meta c2) = om_UID (cap_Meta c0) \<Longrightarrow> k2 = k'"
      using inv(1) c0(1) unfolding objectsOK_def by blast+
    have "sys_specs ?s (om_UID (cap_Meta c'), om_Generation (cap_Meta c')) = Some (cap_Spec c') \<and>
        (\<forall>g. sys_specs ?s (om_UID (cap_Meta c'), g) \<noteq> None \<longrightarrow> g \<le> om_Generation (cap_Meta c'))"
    proof (cases "k' = k")
      case True
      then have "c' = bumpSpec sp rv c" using a by (simp add: s)
      then show ?thesis using c(2) by (force simp: s bumpSpec_def)
    next
      case False
      then have "om_UID (cap_Meta c') \<noteq> ?u" using c(3) c0(1,4) by blast
      then show ?thesis using o(2,3) c0(4)[OF False] by (auto simp: s)
    qed
    moreover have "\<forall>k2 c2. sys_objects ?s k2 = Some c2 \<longrightarrow> om_UID (cap_Meta c2) = om_UID (cap_Meta c') \<longrightarrow> k2 = k'"
      using o(4) c0(2) Some by (auto simp: s bumpSpec_def split: if_splits)
    ultimately show "keyOf (cap_Meta c') = k' \<and> sys_specs ?s (om_UID (cap_Meta c'), om_Generation (cap_Meta c')) = Some (cap_Spec c') \<and>
        (\<forall>g. sys_specs ?s (om_UID (cap_Meta c'), g) \<noteq> None \<longrightarrow> g \<le> om_Generation (cap_Meta c')) \<and>
        (\<forall>k2 c2. sys_objects ?s k2 = Some c2 \<longrightarrow> om_UID (cap_Meta c2) = om_UID (cap_Meta c') \<longrightarrow> k2 = k')"
      using o(1) c0(3) by simp
  qed
  moreover have "verdictsOK lib ?s" unfolding verdictsOK_def
  proof (intro allI impI)
    fix k' c' cond
    assume a: "sys_objects ?s k' = Some c'" "c_Status cond = ConditionTrue"
      "lib_FindStatusCondition lib (capst_Conditions (cap_Status c')) CapabilityConditionVerified = Some cond"
    obtain c0 where c0: "sys_objects s k' = Some c0" "cap_Status c0 = cap_Status c'" "om_UID (cap_Meta c0) = om_UID (cap_Meta c')"
      using a(1) Some by (cases "k' = k") (auto simp: s bumpSpec_def)
    then have "acceptedVersion s (om_UID (cap_Meta c')) (c_ObservedGeneration cond)"
      using inv(2) a(2,3) unfolding verdictsOK_def by metis
    then show "acceptedVersion ?s (om_UID (cap_Meta c')) (c_ObservedGeneration cond)" by (rule acceptedVersion_mono[OF _ le acc])
  qed
  moreover have "statesOK states ?s" by (rule statesOK_mono[OF inv(3) le acc])
  ultimately show ?thesis by (simp add: capInv_def)
qed

lemma create_inv:
  assumes inv: "capInv lib (states, s)" and "sys_objects s (keyOf (cap_Meta c)) = None"
    and new: "\<And>g. sys_specs s (om_UID (cap_Meta c), g) = None"
    and "lib_FindStatusCondition lib (capst_Conditions (cap_Status c)) CapabilityConditionVerified = None"
  shows "capInv lib (states, s\<lparr>sys_objects := (sys_objects s)(keyOf (cap_Meta c) \<mapsto> c),
       sys_specs := (sys_specs s)((om_UID (cap_Meta c), om_Generation (cap_Meta c)) \<mapsto> cap_Spec c)\<rparr>)" (is "capInv lib (states, ?s)")
proof -
  have i: "objectsOK s" "verdictsOK lib s" "statesOK states s" using inv by (auto simp: capInv_def)
  have le: "sys_specs s \<subseteq>\<^sub>m sys_specs ?s" using new by (auto simp: map_le_def)
  have u: "sys_objects s k = Some c' \<Longrightarrow> om_UID (cap_Meta c') \<noteq> om_UID (cap_Meta c)" for k c'
    using i(1) new unfolding objectsOK_def by (metis option.distinct(1))
  have "objectsOK ?s" using i(1) new unfolding objectsOK_def by (auto dest: u)
  moreover have "verdictsOK lib ?s"
    using i(2) assms(4) acceptedVersion_mono[OF _ le] unfolding verdictsOK_def by (auto split: if_splits)
  moreover have "statesOK states ?s" by (rule statesOK_mono[OF i(3) le]) simp
  ultimately show ?thesis by (simp add: capInv_def)
qed

lemma stamped_inv:
  assumes "status_condition_laws lib" and inv: "capInv lib (states, s)" and c: "sys_objects s k = Some c"
    and "c_Type cond = CapabilityConditionVerified"
    and "c_Status cond = ConditionTrue \<Longrightarrow> acceptedVersion s (om_UID (cap_Meta c)) (om_Generation (cap_Meta c))"
  shows "capInv lib (states, s\<lparr>sys_objects := (sys_objects s)(k \<mapsto> (stampVerdict lib cond c)
       \<lparr>cap_Meta := (cap_Meta c)\<lparr>om_ResourceVersion := rv\<rparr>\<rparr>)\<rparr>)" (is "capInv lib (states, ?s)")
proof -
  have i: "objectsOK s" "verdictsOK lib s" "statesOK states s" using inv by (auto simp: capInv_def)
  let ?c = "(stampVerdict lib cond c)\<lparr>cap_Meta := (cap_Meta c)\<lparr>om_ResourceVersion := rv\<rparr>\<rparr>"
  have "objectsOK ?s" using i(1) c unfolding objectsOK_def by auto
  moreover have "statesOK states ?s" by (rule statesOK_mono[OF i(3)]) simp_all
  moreover have "verdictsOK lib ?s" unfolding verdictsOK_def
  proof (intro allI impI)
    fix k' c' cond'
    assume a: "sys_objects ?s k' = Some c'" "c_Status cond' = ConditionTrue"
      "lib_FindStatusCondition lib (capst_Conditions (cap_Status c')) CapabilityConditionVerified = Some cond'"
    have "acceptedVersion s (om_UID (cap_Meta c')) (c_ObservedGeneration cond')"
    proof (cases "k' = k")
      case True
      obtain cond2 where "lib_FindStatusCondition lib (capst_Conditions (cap_Status ?c)) CapabilityConditionVerified = Some cond2"
          "same_verdict cond2 (cond\<lparr>c_ObservedGeneration := om_Generation (cap_Meta c)\<rparr>)"
        using stampVerdict_verified[OF assms(1,4), of c] by auto
      then show ?thesis using a True assms(5) by (auto simp: same_verdict_def)
    next
      case False
      then show ?thesis using a i(2) unfolding verdictsOK_def by auto
    qed
    then show "acceptedVersion ?s (om_UID (cap_Meta c')) (c_ObservedGeneration cond')" by (rule acceptedVersion_mono) simp_all
  qed
  ultimately show ?thesis by (simp add: capInv_def)
qed

lemma reconcile_inv:
  assumes "status_condition_laws lib" and "capInv lib (states, s)" and "retries_conflicts retry" and "0 \<le> fst clock"
    and r: "CapabilityReconciler_Reconcile lib capClient (map_option recordAccepted v) retry clock req (states, s) = (r, states', s')"
  shows "capInv lib (states', s')"
proof -
  have i: "objectsOK s" "verdictsOK lib s" "statesOK states s" using assms(2) by (auto simp: capInv_def)
  have forget: "statesOK (forgetVerifyState req states) s" using i(3) by (auto simp: statesOK_def forgetVerifyState_def)
  show ?thesis
  proof (cases "\<exists>c. sys_objects s req = Some c \<and> \<not> om_Deleting (cap_Meta c)")
    case False
    then have "s' = s" "states' = forgetVerifyState req states"
      using r by (auto simp: CapabilityReconciler_Reconcile_def capClient_def split: option.splits if_splits)
    then show ?thesis using i forget by (simp add: capInv_def)
  next
    case True
    then obtain c where c: "sys_objects s req = Some c" "\<not> om_Deleting (cap_Meta c)" by blast
    have k: "keyOf (cap_Meta c) = req" using i(1) c(1) by (auto simp: objectsOK_def)
    have g: "kc_Get capClient req s = Inr c" using c(1) by (simp add: capClient_def)
    obtain out st1 s1 where v: "verifiedCondition (map_option recordAccepted v) clock c (states, s) = (out, st1, s1)" by (metis prod.collapse)
    note v1 = verifiedCondition_accepted[OF i(1) c(1) i(3) assms(4) v]
    have le: "sys_specs s \<subseteq>\<^sub>m sys_specs s1" using v1(2) by simp
    have o1: "objectsOK s1" "verdictsOK lib s1"
      using i(1,2) v1(1,2) acceptedVersion_mono[OF _ le v1(3)] unfolding objectsOK_def verdictsOK_def by auto
    let ?c = "(stampVerdict lib (vo_condition out) c)\<lparr>cap_Meta := (cap_Meta c)
       \<lparr>om_ResourceVersion := om_ResourceVersion (cap_Meta c) @ ''0''\<rparr>\<rparr>"
    let ?s2 = "s1\<lparr>sys_objects := (sys_objects s1)(req \<mapsto> ?c)\<rparr>"
    have wr: "updateStatusWithRetry retry capClient (\<lambda>c. keyOf (cap_Meta c)) (stampVerdict lib (vo_condition out)) c s1 = (None, ?s2)"
      by (rule status_written[OF assms(3)]) (use c(1) k v1(1) in auto)
    have "capInv lib (st1, s1)" using o1 v1(5) by (simp add: capInv_def)
    moreover from this have "capInv lib (st1, ?s2)"
      using c(1) v1(1,4,6) by (intro stamped_inv[OF assms(1)]) auto
    moreover have "states' = st1 \<and> (s' = s1 \<or> s' = ?s2)"
      using r g c(2) v wr by (auto simp: CapabilityReconciler_Reconcile_def split: if_splits)
    ultimately show ?thesis by blast
  qed
qed

lemma capStep_inv: "capStep lib st st' \<Longrightarrow> status_condition_laws lib \<Longrightarrow> capInv lib st \<Longrightarrow> capInv lib st'"
proof (induction rule: capStep.induct)
  case (create s c states)
  then show ?case using create_inv by blast
next
  case (remove states s k)
  have acc: "acceptedVersion (s\<lparr>sys_objects := x\<rparr>) = acceptedVersion s" for x by (intro ext) (simp add: acceptedVersion_def)
  have "statesOK states (s\<lparr>sys_objects := (sys_objects s)(k := None)\<rparr>)"
    by (rule statesOK_mono[of _ s]) (use remove in \<open>simp_all add: capInv_def\<close>)
  then show ?case using remove acc by (auto simp: capInv_def objectsOK_def verdictsOK_def)
next
  case (restart states s)
  then show ?case by (simp add: capInv_def statesOK_def)
qed (blast intro: changeSpec_inv reconcile_inv)+

lemma capInv_reachable: "(capStep lib)\<^sup>*\<^sup>* sysStart st \<Longrightarrow> status_condition_laws lib \<Longrightarrow> capInv lib st"
  by (induction rule: rtranclp_induct)
    (auto simp: sysStart_def capInv_def[of _ "(Map.empty, _)"] objectsOK_def verdictsOK_def statesOK_def intro: capStep_inv)

lemma checkVerified_none:
  "checkVerified lib n c = None \<longleftrightarrow>
     (\<exists>cond. lib_FindStatusCondition lib (capst_Conditions (cap_Status c)) CapabilityConditionVerified = Some cond \<and> c_Status cond = ConditionTrue)"
  by (auto simp: checkVerified_def split: option.splits ConditionStatus.splits)

lemma gate_accepted:
  assumes "status_condition_laws lib" and "(capStep lib)\<^sup>*\<^sup>* sysStart (states, s)"
    and "sys_objects s k = Some c" and "checkVerified lib n c = None"
  shows "\<exists>cond sp. lib_FindStatusCondition lib (capst_Conditions (cap_Status c)) CapabilityConditionVerified = Some cond \<and>
    sys_specs s (om_UID (cap_Meta c), c_ObservedGeneration cond) = Some sp \<and>
    (caps_Artifact sp, signatureRefOf sp) \<in> set (sys_accepted s) \<and>
    (c_ObservedGeneration cond = om_Generation (cap_Meta c) \<longrightarrow> sp = cap_Spec c)"
proof -
  have inv: "objectsOK s" "verdictsOK lib s" using capInv_reachable[OF assms(2,1)] by (auto simp: capInv_def)
  obtain cond where c: "lib_FindStatusCondition lib (capst_Conditions (cap_Status c)) CapabilityConditionVerified = Some cond"
      "c_Status cond = ConditionTrue" using assms(4) by (auto simp: checkVerified_none)
  have "acceptedVersion s (om_UID (cap_Meta c)) (c_ObservedGeneration cond)"
    using inv(2) assms(3) c unfolding verdictsOK_def by blast
  moreover have "sys_specs s (om_UID (cap_Meta c), om_Generation (cap_Meta c)) = Some (cap_Spec c)"
    using inv(1) assms(3) unfolding objectsOK_def by blast
  ultimately show ?thesis using c(1) by (auto simp: acceptedVersion_def)
qed

text \<open>What the \<open>requireVerified\<close> gate of the compiler guarantees. In every state the cluster can reach, across edits, restarts of the
  operator and re-creation of objects under the same name, a Capability passes the gate only if the verifier accepted the artifact and
  signature location of the version of this very object that the Verified condition names as observed; that version is the current
  one when the observed generation is the current generation. (Spec changes that overlap a running verification are the next property.)\<close>

theorem requireVerified_sound:
  assumes "status_condition_laws lib" and "(capStep lib)\<^sup>*\<^sup>* sysStart (states, s)"
    and "sys_objects s k = Some c" and "checkVerified lib n c = None"
  shows "\<exists>cond sp. lib_FindStatusCondition lib (capst_Conditions (cap_Status c)) CapabilityConditionVerified = Some cond \<and>
    sys_specs s (om_UID (cap_Meta c), c_ObservedGeneration cond) = Some sp \<and>
    (caps_Artifact sp, signatureRefOf sp) \<in> set (sys_accepted s) \<and>
    (c_ObservedGeneration cond = om_Generation (cap_Meta c) \<longrightarrow> sp = cap_Spec c)"
  by (rule gate_accepted[OF assms])

lemma raced_write:
  assumes "status_condition_laws lib" and "retries_conflicts retry" and "sys_objects s k = Some c'"
    and "keyOf (cap_Meta c) = k" and "keyOf (cap_Meta c') = k" and "om_ResourceVersion (cap_Meta c) \<noteq> om_ResourceVersion (cap_Meta c')"
  shows "updateStatusWithRetry retry capClient (\<lambda>c. keyOf (cap_Meta c)) (stampVerdict lib cond) c s =
    (None, s\<lparr>sys_objects := (sys_objects s)(k \<mapsto> (stampVerdict lib cond c')\<lparr>cap_Meta := (cap_Meta c')
       \<lparr>om_ResourceVersion := om_ResourceVersion (cap_Meta c') @ ''0''\<rparr>\<rparr>)\<rparr>)"
proof -
  let ?a = "statusAttempt capClient (\<lambda>c. keyOf (cap_Meta c)) (stampVerdict lib cond)"
  let ?x = "stampVerdict lib cond c'"
  let ?m = "(cap_Meta c')\<lparr>om_ResourceVersion := om_ResourceVersion (cap_Meta c') @ ''0''\<rparr>"
  have w: "c'\<lparr>cap_Status := cap_Status ?x, cap_Meta := m\<rparr> = ?x\<lparr>cap_Meta := m\<rparr>" for m
    by (rule Capability.equality) simp_all
  have "?a (stampVerdict lib cond c, s) = (None, ?x\<lparr>cap_Meta := ?m\<rparr>, s\<lparr>sys_objects := (sys_objects s)(k \<mapsto> ?x\<lparr>cap_Meta := ?m\<rparr>)\<rparr>)"
    using assms(3-6) by (simp add: statusAttempt_def capClient_def Let_def w)
  moreover from this have "retry ?a (stampVerdict lib cond c, s) = ?a (stampVerdict lib cond c, s)" using assms(2) by (simp add: retries_conflicts_def)
  ultimately show ?thesis by (simp add: updateStatusWithRetry_def)
qed

text \<open>C5. The window of the gate. When the spec of a Capability changes while its old artifact is being verified and is accepted, the
  status write first conflicts and is then repeated on the fresh object: the verdict on the old artifact is stored on the new
  spec, stamped with the new generation, and the gate lets the new artifact pass although the verifier never saw it.\<close>

theorem raced_verdict_passes_gate:
  assumes "status_condition_laws lib" and "retries_conflicts retry"
    and "sys_objects s k = Some c" and "keyOf (cap_Meta c) = k" and "\<not> om_Deleting (cap_Meta c)"
    and "cachedVerdict (fst clock) k c states = None" and "rv \<noteq> om_ResourceVersion (cap_Meta c)"
    and v: "Verify (caps_Artifact (cap_Spec c)) (signatureRefOf (cap_Spec c)) s = (None, changeSpec k sp rv s)"
    and nu: "\<not> capabilityStatusUpToDate lib c (vo_condition (classifyVerification (caps_Artifact (cap_Spec c)) None))"
    and r: "CapabilityReconciler_Reconcile lib capClient (Some Verify) retry clock k (states, s) = (r, states', s')"
  shows "\<exists>c' cond. sys_objects s' k = Some c' \<and> cap_Spec c' = sp \<and> checkVerified lib n c' = None \<and>
    lib_FindStatusCondition lib (capst_Conditions (cap_Status c')) CapabilityConditionVerified = Some cond \<and>
    c_ObservedGeneration cond = om_Generation (cap_Meta c') \<and> sys_accepted s' = sys_accepted s"
proof -
  let ?cond = "vo_condition (classifyVerification (caps_Artifact (cap_Spec c)) None)"
  let ?c = "bumpSpec sp rv c"
  let ?s1 = "changeSpec k sp rv s"
  have s1: "sys_objects ?s1 k = Some ?c" "sys_accepted ?s1 = sys_accepted s" using assms(3) by (auto simp: changeSpec_def)
  have vc: "verifiedCondition (Some Verify) clock c (states, s) = (fst (rememberVerdict (snd clock) k c (classifyVerification (caps_Artifact (cap_Spec c)) None) None states),
      snd (rememberVerdict (snd clock) k c (classifyVerification (caps_Artifact (cap_Spec c)) None) None states), ?s1)"
    using assms(4,6) v by (simp add: verifiedCondition_def Let_def split: prod.split)
  have ty: "c_Type ?cond = CapabilityConditionVerified" "c_Status ?cond = ConditionTrue" by (simp_all add: classifyVerification_def verdictCondition_def)
  let ?c2 = "(stampVerdict lib ?cond ?c)\<lparr>cap_Meta := (cap_Meta ?c)\<lparr>om_ResourceVersion := om_ResourceVersion (cap_Meta ?c) @ ''0''\<rparr>\<rparr>"
  have "updateStatusWithRetry retry capClient (\<lambda>c. keyOf (cap_Meta c)) (stampVerdict lib ?cond) c ?s1 =
      (None, ?s1\<lparr>sys_objects := (sys_objects ?s1)(k \<mapsto> ?c2)\<rparr>)"
    by (rule raced_write[OF assms(1,2) s1(1) assms(4)]) (use assms(4,7) in \<open>auto simp: bumpSpec_def\<close>)
  then have "s' = ?s1\<lparr>sys_objects := (sys_objects ?s1)(k \<mapsto> ?c2)\<rparr>"
    using r vc nu assms(3,5) by (simp add: CapabilityReconciler_Reconcile_def capClient_def rememberVerdict_def Verify_IsTransient_def)
  moreover obtain cond' where "lib_FindStatusCondition lib (capst_Conditions (cap_Status ?c2)) CapabilityConditionVerified = Some cond'"
      "same_verdict cond' (?cond\<lparr>c_ObservedGeneration := om_Generation (cap_Meta ?c)\<rparr>)"
    using stampVerdict_verified[OF assms(1) ty(1), of ?c] by auto
  moreover have "cap_Spec ?c = sp" by (simp add: bumpSpec_def)
  ultimately show ?thesis using s1(2) ty(2) by (auto simp: checkVerified_none same_verdict_def)
qed

subsection \<open>Quiescence\<close>

text \<open>
  What \<open>meta.SetStatusCondition\<close> does to a list with one condition per type: it replaces the condition of that type or
  appends it, and \<open>meta.FindStatusCondition\<close> finds the only condition of its type.
\<close>

definition condition_list_laws :: "k8slib \<Rightarrow> bool" where
  "condition_list_laws lib \<longleftrightarrow>
     (\<forall>cs c. distinct (map c_Type cs) \<longrightarrow>
        map c_Type (lib_SetStatusCondition lib cs c) = (if c_Type c \<in> set (map c_Type cs) then map c_Type cs else map c_Type cs @ [c_Type c]) \<and>
        (\<forall>x \<in> set cs. lib_FindStatusCondition lib cs (c_Type x) = Some x) \<and>
        (\<forall>t x. lib_FindStatusCondition lib cs t = Some x \<longrightarrow> x \<in> set cs \<and> c_Type x = t))"

lemma set_condition_again:
  assumes "status_condition_laws lib" and "condition_list_laws lib" and "distinct (map c_Type cs)"
    and "lib_FindStatusCondition lib cs (c_Type c) = Some d" and "same_verdict d c"
  shows "map c_Type (lib_SetStatusCondition lib cs c) = map c_Type cs"
    and "x \<in> set (lib_SetStatusCondition lib cs c) \<Longrightarrow> \<exists>y. lib_FindStatusCondition lib cs (c_Type x) = Some y \<and> same_verdict y x"
proof -
  have "d \<in> set cs" using assms(2-4) unfolding condition_list_laws_def by blast
  then have "c_Type c \<in> set (map c_Type cs)" using assms(5) by (metis image_eqI list.set_map same_verdict_def)
  then show t: "map c_Type (lib_SetStatusCondition lib cs c) = map c_Type cs" using assms(2,3) by (simp add: condition_list_laws_def)
  assume x: "x \<in> set (lib_SetStatusCondition lib cs c)"
  have f: "lib_FindStatusCondition lib (lib_SetStatusCondition lib cs c) (c_Type x) = Some x"
    using assms(2,3) x t unfolding condition_list_laws_def by metis
  show "\<exists>y. lib_FindStatusCondition lib cs (c_Type x) = Some y \<and> same_verdict y x"
  proof (cases "c_Type x = c_Type c")
    case True
    then have "same_verdict x c" using assms(1) f unfolding status_condition_laws_def by (metis option.inject)
    then show ?thesis using True assms(4,5) by (auto simp: same_verdict_def)
  next
    case False
    then show ?thesis using assms(1) f unfolding status_condition_laws_def by (metis same_verdict_def)
  qed
qed

lemma find_set_verdict:
  assumes "status_condition_laws lib"
  obtains d where "lib_FindStatusCondition lib (lib_SetStatusCondition lib cs c) (c_Type c) = Some d" and "same_verdict d c"
  using assms that unfolding status_condition_laws_def by blast

lemma set_condition_distinct:
  "condition_list_laws lib \<Longrightarrow> distinct (map c_Type cs) \<Longrightarrow> distinct (map c_Type (lib_SetStatusCondition lib cs c))"
  by (simp add: condition_list_laws_def)

definition permissiveOf :: "Capability \<Rightarrow> Condition" where
  "permissiveOf c =
     (if caps_SchemaPolicy (cap_Spec c) = SchemaPolicyPermissive
      then \<lparr>c_Type = CapabilityConditionPermissive, c_Status = ConditionTrue, c_ObservedGeneration = om_Generation (cap_Meta c),
            c_LastTransitionTime = zeroTime, c_Reason = ''SchemaPolicyPermissive'',
            c_Message = Sprintf ''schemaPolicy is permissive: attached agent config is not validated at admission'' []\<rparr>
      else \<lparr>c_Type = CapabilityConditionPermissive, c_Status = ConditionFalse, c_ObservedGeneration = om_Generation (cap_Meta c),
            c_LastTransitionTime = zeroTime, c_Reason = ''SchemaValidated'',
            c_Message = Sprintf ''attached agent config is validated against spec.configSchema at admission'' []\<rparr>)"

lemma stampVerdict_conditions:
  "capst_Conditions (cap_Status (stampVerdict lib v c)) =
     lib_SetStatusCondition lib (lib_SetStatusCondition lib (capst_Conditions (cap_Status c)) (permissiveOf c))
       (v\<lparr>c_ObservedGeneration := om_Generation (cap_Meta c)\<rparr>)"
  "capst_ObservedGeneration (cap_Status (stampVerdict lib v c)) = om_Generation (cap_Meta c)"
  by (auto simp: stampVerdict_def applyCapabilityStatus_def permissiveOf_def Let_def split: SchemaPolicy.splits)

lemma permissiveOf_type: "c_Type (permissiveOf c) \<noteq> CapabilityConditionVerified"
  by (simp add: permissiveOf_def CapabilityConditionPermissive_def CapabilityConditionVerified_def)

text \<open>A status that was just computed is up to date: writing it changes nothing a second time.\<close>

lemma stampVerdict_up_to_date:
  assumes laws: "status_condition_laws lib" "condition_list_laws lib" and d: "distinct (map c_Type (capst_Conditions (cap_Status c)))"
    and v: "c_Type v = CapabilityConditionVerified"
    and c': "om_Generation (cap_Meta c') = om_Generation (cap_Meta c)" "cap_Spec c' = cap_Spec c" "cap_Status c' = cap_Status (stampVerdict lib v c)"
  shows "capabilityStatusUpToDate lib c' v"
proof -
  let ?p = "permissiveOf c" and ?v = "v\<lparr>c_ObservedGeneration := om_Generation (cap_Meta c)\<rparr>"
  let ?cs = "capst_Conditions (cap_Status c')"
  have p: "permissiveOf c' = ?p" using c' by (simp add: permissiveOf_def)
  have cs: "?cs = lib_SetStatusCondition lib (lib_SetStatusCondition lib (capst_Conditions (cap_Status c)) ?p) ?v"
    using c'(3) by (simp add: stampVerdict_conditions)
  have dcs: "distinct (map c_Type ?cs)" unfolding cs by (intro set_condition_distinct laws d)
  have ne: "c_Type ?p \<noteq> c_Type ?v" using v permissiveOf_type by simp
  obtain dp where dp: "lib_FindStatusCondition lib ?cs (c_Type ?p) = Some dp" "same_verdict dp ?p"
    unfolding cs cond_set_other(1)[OF laws(1) ne] using find_set_verdict[OF laws(1)] by blast
  obtain dv where dv: "lib_FindStatusCondition lib ?cs (c_Type ?v) = Some dv" "same_verdict dv ?v"
    unfolding cs using find_set_verdict[OF laws(1)] by blast
  let ?cs1 = "lib_SetStatusCondition lib ?cs ?p"
  note again1 = set_condition_again[OF laws dcs dp]
  have dcs1: "distinct (map c_Type ?cs1)" using dcs again1(1) by simp
  have dv1: "lib_FindStatusCondition lib ?cs1 (c_Type ?v) = Some dv" using cond_set_other(1)[OF laws(1) ne[symmetric]] dv(1) by simp
  let ?cs2 = "lib_SetStatusCondition lib ?cs1 ?v"
  note again2 = set_condition_again[OF laws dcs1 dv1 dv(2)]
  have d2: "capst_Conditions (cap_Status (stampVerdict lib v c')) = ?cs2" "capst_ObservedGeneration (cap_Status c') = om_Generation (cap_Meta c)"
    using c' p by (simp_all add: stampVerdict_conditions)
  have len: "length ?cs2 = length ?cs" using again1(1) again2(1) by (metis length_map)
  have "\<exists>got. lib_FindStatusCondition lib ?cs (c_Type want) = Some got \<and> same_verdict got want" if w: "want \<in> set ?cs2" for want
  proof -
    obtain y where y: "lib_FindStatusCondition lib ?cs1 (c_Type want) = Some y" "same_verdict y want" using again2(2)[OF w] by blast
    have "y \<in> set ?cs1" using y(1) laws(2) dcs1 unfolding condition_list_laws_def by blast
    then have "\<exists>z. lib_FindStatusCondition lib ?cs (c_Type y) = Some z \<and> same_verdict z y" by (rule again1(2))
    then show ?thesis using y(2) by (auto simp: same_verdict_def)
  qed
  then show ?thesis using d2 len c'(1) unfolding capabilityStatusUpToDate_def Let_def list_all_iff
    by (fastforce simp: same_verdict_def stampVerdict_conditions(2))
qed

text \<open>The controller comes to rest. After a run in which the verifier accepted the artifact and the status was stored, every
  further run of the same process, at any later time and whatever the verifier would answer, contacts no verifier, writes
  nothing, keeps its cache and asks for no requeue, until the object changes.\<close>

theorem accepted_capability_quiesces:
  assumes "status_condition_laws lib" and "condition_list_laws lib" and "retries_conflicts retry"
    and "sys_objects s k = Some c" and "keyOf (cap_Meta c) = k" and "\<not> om_Deleting (cap_Meta c)"
    and "distinct (map c_Type (capst_Conditions (cap_Status c)))"
    and "cachedVerdict (fst clock) k c states = None" and v: "v (caps_Artifact (cap_Spec c)) (signatureRefOf (cap_Spec c)) = None"
    and r: "CapabilityReconciler_Reconcile lib capClient (Some (recordAccepted v)) retry clock k (states, s) = (r, states', s')"
  shows "CapabilityReconciler_Reconcile lib capClient (Some Verify) retry clock' k (states', s') =
    (\<lparr>cpr_RequeueAfter = 0, cpr_Error = None\<rparr>, states', s')"
proof -
  let ?a = "caps_Artifact (cap_Spec c)" and ?cond = "vo_condition (classifyVerification (caps_Artifact (cap_Spec c)) None)"
  let ?s1 = "s\<lparr>sys_accepted := (?a, signatureRefOf (cap_Spec c)) # sys_accepted s\<rparr>"
  let ?st = "states(k \<mapsto> \<lparr>vr_uid = om_UID (cap_Meta c), vr_generation = om_Generation (cap_Meta c),
                          vr_condition = Some ?cond, vr_verifiedAt = snd clock, vr_backoff = 0\<rparr>)"
  have vc: "verifiedCondition (Some (recordAccepted v)) clock c (states, s) = (classifyVerification ?a None, ?st, ?s1)"
    using assms(5,8) v by (simp add: verifiedCondition_def Let_def recordAccepted_def rememberVerdict_def Verify_IsTransient_def)
  have ty: "c_Type ?cond = CapabilityConditionVerified" "c_Status ?cond = ConditionTrue" by (simp_all add: classifyVerification_def verdictCondition_def)
  let ?c2 = "(stampVerdict lib ?cond c)\<lparr>cap_Meta := (cap_Meta c)\<lparr>om_ResourceVersion := om_ResourceVersion (cap_Meta c) @ ''0''\<rparr>\<rparr>"
  have wr: "updateStatusWithRetry retry capClient (\<lambda>c. keyOf (cap_Meta c)) (stampVerdict lib ?cond) c ?s1 =
      (None, ?s1\<lparr>sys_objects := (sys_objects ?s1)(k \<mapsto> ?c2)\<rparr>)"
    by (rule status_written[OF assms(3)]) (use assms(4,5) in auto)
  have up: "capabilityStatusUpToDate lib ?c2 ?cond"
    by (rule stampVerdict_up_to_date[OF assms(1,2,7) ty(1)]) simp_all
  have st: "states' = ?st" and ob: "\<exists>c'. sys_objects s' k = Some c' \<and> om_UID (cap_Meta c') = om_UID (cap_Meta c) \<and> om_Generation (cap_Meta c') = om_Generation (cap_Meta c) \<and>
      keyOf (cap_Meta c') = k \<and> \<not> om_Deleting (cap_Meta c') \<and> capabilityStatusUpToDate lib c' ?cond"
    using r vc wr up assms(4-6) by (auto simp: CapabilityReconciler_Reconcile_def capClient_def split: if_splits)
  then obtain c' where c': "sys_objects s' k = Some c'" "om_UID (cap_Meta c') = om_UID (cap_Meta c)"
      "om_Generation (cap_Meta c') = om_Generation (cap_Meta c)" "keyOf (cap_Meta c') = k" "\<not> om_Deleting (cap_Meta c')"
      "capabilityStatusUpToDate lib c' ?cond" by blast
  have "verifiedCondition (Some Verify) clock' c' (states', s') = (\<lparr>vo_condition = ?cond, vo_requeueAfter = 0\<rparr>, states', s')"
    using c'(2-4) ty(2) by (simp add: verifiedCondition_def st cachedVerdict_def Let_def)
  then show ?thesis using c'(1,5,6) by (simp add: CapabilityReconciler_Reconcile_def capClient_def)
qed

subsection \<open>Witnesses\<close>

definition oneShot :: "('w, 'o) retrier" where "oneShot attempt s = attempt s"

lemma oneShot_retries: "retries_conflicts oneShot" by (simp add: retries_conflicts_def oneShot_def)

lemma list_find_distinct: "distinct (map c_Type cs) \<Longrightarrow> x \<in> set cs \<Longrightarrow> list_find_condition cs (c_Type x) = Some x"
  by (induction cs) auto

lemma list_find_mem: "list_find_condition cs t = Some x \<Longrightarrow> x \<in> set cs \<and> c_Type x = t"
  by (induction cs) (auto split: if_splits)

lemma list_set_types:
  "map c_Type (list_set_condition cs c) = (if c_Type c \<in> set (map c_Type cs) then map c_Type cs else map c_Type cs @ [c_Type c])"
  by (induction cs) auto

lemma stdlib_list_laws: "condition_list_laws stdlib"
  using list_find_mem by (auto simp: condition_list_laws_def stdlib_def list_set_types list_find_distinct)

definition signedCap :: Capability where
  "signedCap = demoCapability\<lparr>cap_Meta := (cap_Meta demoCapability)\<lparr>om_UID := ''u1'', om_Generation := 1, om_ResourceVersion := ''7''\<rparr>,
     cap_Status := \<lparr>capst_Conditions = [], capst_ObservedGeneration = 0\<rparr>\<rparr>"

definition signedKey :: NamespacedName where "signedKey = \<lparr>nn_Name = ''memory'', nn_Namespace = ''ns''\<rparr>"

definition signedSys :: capSys where
  "signedSys = \<lparr>sys_objects = [signedKey \<mapsto> signedCap], sys_specs = [(''u1'', 1) \<mapsto> cap_Spec signedCap], sys_accepted = []\<rparr>"

definition acceptAll :: "string \<Rightarrow> string \<Rightarrow> verifyError option" where "acceptAll a r = None"

lemma signed_reachable: "capStep stdlib sysStart (Map.empty, signedSys)"
proof -
  have k: "keyOf (cap_Meta signedCap) = signedKey" by code_simp
  have "capStep stdlib (Map.empty, snd sysStart) (Map.empty, (snd sysStart)\<lparr>sys_objects := (sys_objects (snd sysStart))(keyOf (cap_Meta signedCap) \<mapsto> signedCap),
       sys_specs := (sys_specs (snd sysStart))((om_UID (cap_Meta signedCap), om_Generation (cap_Meta signedCap)) \<mapsto> cap_Spec signedCap)\<rparr>)"
    by (rule capStep.create) (simp_all add: sysStart_def signedCap_def stdlib_def)
  moreover have "om_UID (cap_Meta signedCap) = ''u1''" "om_Generation (cap_Meta signedCap) = 1" by (simp_all add: signedCap_def)
  ultimately show ?thesis by (simp add: sysStart_def signedSys_def k)
qed

theorem verification_requeue_witness:
  "map vo_requeueAfter (fst (verifyRuns (replicate 7 ((2, 2), signedCap, \<lambda>a r w. (Some (VerifyCause (Errorf ''timeout'' [])), w))) (Map.empty, ()))) =
     [15 * nsecond, 30 * nsecond, 60 * nsecond, 120 * nsecond, 240 * nsecond, 300 * nsecond, 300 * nsecond]"
proof -
  let ?evs = "replicate 7 ((2, 2), signedCap, \<lambda>(a::string) (r::string) (w::unit). (Some (VerifyCause (Errorf ''timeout'' [])), w))"
  have c: "clocksFrom 0 (map fst ?evs)" by (simp add: numeral_eq_Suc)
  have o: "list_all (outageAt signedKey) ?evs"
    by (simp add: outageAt_def Verify_IsTransient_def numeral_eq_Suc signedKey_def signedCap_def demoCapability_def objectMeta_def)
  obtain outs s' where r: "verifyRuns ?evs (Map.empty, ()) = (outs, s')" by (metis prod.collapse)
  show ?thesis using verification_requeue[OF c r, of signedKey] o r by (simp add: upt_rec nsecond_def verifyBackoffMax_def)
qed

theorem requireVerified_sound_witness:
  "\<exists>states s c cond sp. (capStep stdlib)\<^sup>*\<^sup>* sysStart (states, s) \<and> sys_objects s signedKey = Some c \<and> checkVerified stdlib ''memory'' c = None \<and>
     lib_FindStatusCondition stdlib (capst_Conditions (cap_Status c)) CapabilityConditionVerified = Some cond \<and>
     sys_specs s (om_UID (cap_Meta c), c_ObservedGeneration cond) = Some sp \<and> (caps_Artifact sp, signatureRefOf sp) \<in> set (sys_accepted s)"
proof -
  let ?r = "CapabilityReconciler_Reconcile stdlib capClient (Some (recordAccepted acceptAll)) oneShot (1, 2) signedKey (Map.empty, signedSys)"
  obtain r states s where r: "?r = (r, states, s)" by (metis prod.collapse)
  have "capStep stdlib (Map.empty, signedSys) (states, s)"
    by (rule capStep.reconcile[OF oneShot_retries, where v = "Some acceptAll" and clock = "(1, 2)"]) (use r in auto)
  then have reach: "(capStep stdlib)\<^sup>*\<^sup>* sysStart (states, s)" using signed_reachable by (meson converse_rtranclp_into_rtranclp rtranclp.rtrancl_refl)
  have "case ?r of (r, states, s) \<Rightarrow> (case sys_objects s signedKey of None \<Rightarrow> False | Some c \<Rightarrow> checkVerified stdlib ''memory'' c = None)"
    by code_simp
  then obtain c where c: "sys_objects s signedKey = Some c" "checkVerified stdlib ''memory'' c = None"
    unfolding r by (auto split: option.splits)
  from requireVerified_sound[OF stdlib_condition_laws reach c] reach c show ?thesis by blast
qed

definition unseenSpec :: CapabilitySpec where "unseenSpec = (cap_Spec signedCap)\<lparr>caps_Artifact := ''oci://other''\<rparr>"

theorem raced_verdict_passes_gate_witness:
  "\<exists>r states' s' c'. CapabilityReconciler_Reconcile stdlib capClient (Some (\<lambda>a r s. (None, changeSpec signedKey unseenSpec ''8'' s))) oneShot (1, 2)
       signedKey (Map.empty, signedSys) = (r, states', s') \<and>
     sys_objects s' signedKey = Some c' \<and> caps_Artifact (cap_Spec c') = ''oci://other'' \<and> checkVerified stdlib ''memory'' c' = None"
proof -
  let ?V = "\<lambda>(a::string) (r::string) s. (None, changeSpec signedKey unseenSpec ''8'' s)"
  let ?r = "CapabilityReconciler_Reconcile stdlib capClient (Some ?V) oneShot (1, 2) signedKey (Map.empty, signedSys)"
  obtain r states' s' where r: "?r = (r, states', s')" by (metis prod.collapse)
  have c: "sys_objects signedSys signedKey = Some signedCap" "keyOf (cap_Meta signedCap) = signedKey" "\<not> om_Deleting (cap_Meta signedCap)"
      "cachedVerdict (fst (1, 2)) signedKey signedCap Map.empty = None" "''8'' \<noteq> om_ResourceVersion (cap_Meta signedCap)"
    by (simp_all add: signedSys_def cachedVerdict_def) (code_simp+)
  have nu: "\<not> capabilityStatusUpToDate stdlib signedCap (vo_condition (classifyVerification (caps_Artifact (cap_Spec signedCap)) None))" by code_simp
  have "\<exists>c' cond. sys_objects s' signedKey = Some c' \<and> cap_Spec c' = unseenSpec \<and> checkVerified stdlib ''memory'' c' = None \<and>
      lib_FindStatusCondition stdlib (capst_Conditions (cap_Status c')) CapabilityConditionVerified = Some cond \<and>
      c_ObservedGeneration cond = om_Generation (cap_Meta c') \<and> sys_accepted s' = sys_accepted signedSys"
    by (rule raced_verdict_passes_gate[OF stdlib_condition_laws oneShot_retries c _ nu r]) simp
  then show ?thesis using r by (auto simp: unseenSpec_def)
qed

theorem accepted_capability_quiesces_witness:
  "\<exists>r states' s'. CapabilityReconciler_Reconcile stdlib capClient (Some (recordAccepted acceptAll)) oneShot (1, 2) signedKey (Map.empty, signedSys) = (r, states', s') \<and>
     CapabilityReconciler_Reconcile stdlib capClient (Some (recordAccepted acceptAll)) oneShot (10 ^ 15, 10 ^ 15) signedKey (states', s') =
       (\<lparr>cpr_RequeueAfter = 0, cpr_Error = None\<rparr>, states', s')"
proof -
  let ?r = "CapabilityReconciler_Reconcile stdlib capClient (Some (recordAccepted acceptAll)) oneShot (1, 2) signedKey (Map.empty, signedSys)"
  obtain r states' s' where r: "?r = (r, states', s')" by (metis prod.collapse)
  have c: "sys_objects signedSys signedKey = Some signedCap" "keyOf (cap_Meta signedCap) = signedKey" "\<not> om_Deleting (cap_Meta signedCap)"
      "distinct (map c_Type (capst_Conditions (cap_Status signedCap)))" "cachedVerdict (fst (1, 2)) signedKey signedCap Map.empty = None"
    by (simp_all add: signedSys_def cachedVerdict_def) (code_simp+)
  from accepted_capability_quiesces[OF stdlib_condition_laws stdlib_list_laws oneShot_retries c _ r] r
  show ?thesis by (auto simp: acceptAll_def)
qed

end
