(* ===== verification/Cosign.thy ===== *)
theory Cosign
  imports CapabilityController PluginStore
begin

text \<open>
  \<open>internal/infra/verify/cosign.go\<close> and \<open>bundle.go\<close>: the cosign verifier behind the Verified condition. Parameters, collected in
  \<open>cosignlib\<close>, are the code outside the repository: reference parsing and the registry of go-containerregistry, the signature checks of
  sigstore, the TUF trusted root, PEM and JSON texts. \<open>base64.StdEncoding\<close> and \<open>hex.DecodeString\<close> are modelled. Bytes are characters,
  a reference is its rendered text. The lemmas say exactly which artifacts are accepted and how every failure is classified.
\<close>

subsection \<open>Decoders\<close>

definition b64val :: "char \<Rightarrow> nat option" where
  "b64val c =
     (if is_upper c then Some (of_char c - 65)
      else if is_lower c then Some (of_char c - 71)
      else if is_digit c then Some (of_char c + 4)
      else if c = CHR ''+'' then Some 62 else if c = CHR ''/'' then Some 63 else None)"

definition b64bytes :: "nat \<Rightarrow> nat \<Rightarrow> nat \<Rightarrow> nat \<Rightarrow> char list" where
  "b64bytes a b c d =
     [char_of (4 * a + b div 16), char_of (16 * (b mod 16) + c div 4), char_of (64 * (c mod 4) + d)]"

text \<open>Quanta of four characters; only the last may be padded.\<close>

fun b64quanta :: "string \<Rightarrow> string option" where
  "b64quanta [] = Some []"
| "b64quanta (a # b # c # d # r) =
     (case (b64val a, b64val b) of
        (Some va, Some vb) \<Rightarrow>
          if c = CHR ''='' then (if d = CHR ''='' \<and> r = [] then Some (take 1 (b64bytes va vb 0 0)) else None)
          else (case b64val c of
                  None \<Rightarrow> None
                | Some vc \<Rightarrow>
                    if d = CHR ''='' then (if r = [] then Some (take 2 (b64bytes va vb vc 0)) else None)
                    else (case b64val d of None \<Rightarrow> None | Some vd \<Rightarrow> map_option (\<lambda>t. b64bytes va vb vc vd @ t) (b64quanta r)))
      | _ \<Rightarrow> None)"
| "b64quanta _ = None"

definition base64_Decode :: "string \<Rightarrow> string result" where
  "base64_Decode s =
     (case b64quanta (filter (\<lambda>c. c \<noteq> CHR 0x0A \<and> c \<noteq> CHR 0x0D) s) of
        None \<Rightarrow> Inl (Errorf ''illegal base64 data'' []) | Some t \<Rightarrow> Inr t)"

definition hexval :: "char \<Rightarrow> nat option" where
  "hexval c =
     (if is_digit c then Some (of_char c - 48)
      else if c \<in> set ''abcdef'' then Some (of_char c - 87) else if c \<in> set ''ABCDEF'' then Some (of_char c - 55) else None)"

fun hex_Decode :: "string \<Rightarrow> string result" where
  "hex_Decode [] = Inr []"
| "hex_Decode (a # b # r) =
     (case (hexval a, hexval b) of
        (Some x, Some y) \<Rightarrow> bindR (hex_Decode r) (\<lambda>t. Inr (char_of (16 * x + y) # t))
      | _ \<Rightarrow> Inl (Errorf ''encoding/hex: invalid byte'' []))"
| "hex_Decode [a] = Inl (Errorf ''encoding/hex: odd length hex string'' [])"

definition EqualFold :: "string \<Rightarrow> string \<Rightarrow> bool" where
  "EqualFold a b = (toLower a = toLower b)"

subsection \<open>Signature images\<close>

record ociDescriptor =
  od_MediaType :: string
  od_Algorithm :: string
  od_Hex :: string
  od_Annotations :: "string smap"

definition od_Digest :: "ociDescriptor \<Rightarrow> string" where
  "od_Digest d = od_Algorithm d @ '':'' @ od_Hex d"

definition annotation :: "ociDescriptor \<Rightarrow> string \<Rightarrow> string" where
  "annotation d k = (case mget (od_Annotations d) k of None \<Rightarrow> '''' | Some v \<Rightarrow> v)"

definition simpleSigningMediaType :: string where "simpleSigningMediaType = ''application/vnd.dev.cosign.simplesigning.v1+json''"
definition signatureAnnotation :: string where "signatureAnnotation = ''dev.cosignproject.cosign/signature''"
definition certificateAnnotation :: string where "certificateAnnotation = ''dev.sigstore.cosign/certificate''"
definition rekorBundleAnnotation :: string where "rekorBundleAnnotation = ''dev.sigstore.cosign/bundle''"
definition timestampAnnotation :: string where "timestampAnnotation = ''dev.sigstore.cosign/rfc3161timestamp''"
definition maxPayloadBytes :: int where "maxPayloadBytes = 1048576"

definition signatureLayers :: "ociDescriptor list \<Rightarrow> ociDescriptor list" where
  "signatureLayers layers = filter (\<lambda>l. od_MediaType l = simpleSigningMediaType) layers"

record tlogEntry =
  te_LogIndex :: int
  te_LogID :: string
  te_Kind :: string
  te_Version :: string
  te_IntegratedTime :: int
  te_SignedEntryTimestamp :: string
  te_Body :: string

record sigBundle =
  sb_Certificate :: string
  sb_TlogEntries :: "tlogEntry list"
  sb_Timestamps :: "string list"
  sb_MessageDigest :: string
  sb_Signature :: string

record authEntry =
  au_Username :: string
  au_Password :: string
  au_IdentityToken :: string

text \<open>The secret keychain in front of the ambient one: \<open>None\<close> is anonymous and falls through.\<close>

type_synonym keychainFn = "string \<Rightarrow> authEntry option"

record 'root cosignlib =
  cl_NewDigest :: "string \<Rightarrow> (string \<times> string) result"
  cl_ParseReference :: "string \<Rightarrow> string result"
  cl_Tag :: "string \<Rightarrow> string \<Rightarrow> string"
  cl_Manifest :: "keychainFn \<Rightarrow> string \<Rightarrow> ociDescriptor list result"
  cl_Blob :: "keychainFn \<Rightarrow> string \<Rightarrow> string \<Rightarrow> string result"
  cl_NotFound :: "goerror \<Rightarrow> bool"
  cl_Codec :: textcodec
  cl_PemDecode :: "string \<Rightarrow> string option"
  cl_NewBundle :: "sigBundle \<Rightarrow> goerror option"
  cl_NewVerifier :: "'root \<Rightarrow> goerror option"
  cl_VerifyBundle :: "'root \<Rightarrow> string \<Rightarrow> string \<Rightarrow> sigBundle \<Rightarrow> string \<Rightarrow> goerror option"

subsection \<open>Construction\<close>

datatype publicKey = ECDSAKey | Ed25519Key | RSAKey nat | OtherKey string

record Options_Cosign =
  co_KeyPath :: string
  co_KeylessIssuer :: string
  co_KeylessIdentityRegexp :: string
  co_RegistrySecretName :: string
  co_Namespace :: string
  co_SecretReader :: "(NamespacedName \<Rightarrow> Secret result) option"

definition wildcardRegexps :: "string list" where
  "wildcardRegexps = [''.*'', ''.+'', ''^.*$'', ''^.+$'', ''^'', ''$'']"

definition minRSAKeyBits :: nat where "minRSAKeyBits = 2048"

definition checkPublicKeyStrength :: "publicKey \<Rightarrow> goerror option" where
  "checkPublicKeyStrength pub =
     (case pub of
        ECDSAKey \<Rightarrow> None
      | Ed25519Key \<Rightarrow> None
      | RSAKey bits \<Rightarrow>
          if bits < minRSAKeyBits then Some (Errorf ''RSA key is %d bits; at least %d bits are required'' [AI (int bits), AI (int minRSAKeyBits)]) else None
      | OtherKey t \<Rightarrow> Some (Errorf ''unsupported public key type %T; supported: ECDSA, Ed25519, RSA (>= %d bits)'' [AS t, AI (int minRSAKeyBits)]))"

text \<open>A signature check \<open>VerifySignature(sig, message)\<close>; \<open>kl_LoadKey\<close> reads and parses the key file.\<close>

type_synonym sigCheck = "string \<Rightarrow> string \<Rightarrow> goerror option"

record keylib =
  kl_ReadFile :: "string \<Rightarrow> string result"
  kl_ParsePublicKey :: "string \<Rightarrow> publicKey result"
  kl_LoadVerifier :: "string \<Rightarrow> sigCheck result"
  kl_CompileRegexp :: "string \<Rightarrow> goerror option"
  kl_NewIdentity :: "string \<Rightarrow> string \<Rightarrow> goerror option"

record CosignVerifier =
  cv_opts :: Options_Cosign
  cv_keyVerifier :: "sigCheck option"

definition NewCosignVerifier :: "keylib \<Rightarrow> Options_Cosign \<Rightarrow> CosignVerifier result" where
  "NewCosignVerifier kl opts =
     (let keyMode = co_KeyPath opts \<noteq> '''';
          keylessConfigured = co_KeylessIssuer opts \<noteq> '''' \<or> co_KeylessIdentityRegexp opts \<noteq> '''' in
      if keyMode \<and> keylessConfigured
      then Inl (Errorf ''cosign verification cannot use both a public key (%s) and keyless settings; configure exactly one mode'' [AS (co_KeyPath opts)])
      else if keyMode
      then (case kl_ReadFile kl (co_KeyPath opts) of
              Inl err \<Rightarrow> Inl (ErrorfW ''reading the cosign public key: %w'' [] err)
            | Inr pem \<Rightarrow>
                (case kl_ParsePublicKey kl pem of
                   Inl err \<Rightarrow> Inl (ErrorfW ''parsing the cosign public key at %s: %w'' [AS (co_KeyPath opts)] err)
                 | Inr pub \<Rightarrow>
                     (case checkPublicKeyStrength pub of
                        Some err \<Rightarrow> Inl (ErrorfW ''the cosign public key at %s is not usable: %w'' [AS (co_KeyPath opts)] err)
                      | None \<Rightarrow>
                          (case kl_LoadVerifier kl pem of
                             Inl err \<Rightarrow> Inl (ErrorfW ''loading a verifier for the cosign public key at %s: %w'' [AS (co_KeyPath opts)] err)
                           | Inr verifier \<Rightarrow> Inr \<lparr>cv_opts = opts, cv_keyVerifier = Some verifier\<rparr>))))
      else if co_KeylessIssuer opts = '''' \<or> co_KeylessIdentityRegexp opts = ''''
      then Inl (Errorf ''cosign keyless verification requires both an OIDC issuer and a certificate identity regexp; got issuer=%q identityRegexp=%q''
                  [AS (co_KeylessIssuer opts), AS (co_KeylessIdentityRegexp opts)])
      else if trimSpace (co_KeylessIdentityRegexp opts) \<in> set wildcardRegexps
      then Inl (Errorf ''cosign keyless identity regexp %q matches every identity; configure a regexp that names the expected signer''
                  [AS (co_KeylessIdentityRegexp opts)])
      else (case kl_CompileRegexp kl (co_KeylessIdentityRegexp opts) of
              Some err \<Rightarrow> Inl (ErrorfW ''compiling the cosign keyless identity regexp: %w'' [] err)
            | None \<Rightarrow>
                (case kl_NewIdentity kl (co_KeylessIssuer opts) (co_KeylessIdentityRegexp opts) of
                   Some err \<Rightarrow> Inl (ErrorfW ''building the cosign keyless identity policy: %w'' [] err)
                 | None \<Rightarrow> Inr \<lparr>cv_opts = opts, cv_keyVerifier = None\<rparr>)))"

subsection \<open>Registry credentials\<close>

definition DockerConfigJsonKey :: string where "DockerConfigJsonKey = ''.dockerconfigjson''"

text \<open>One entry of \<open>auths\<close>: the host it is filed under and its credentials.\<close>

definition dockerAuthEntry :: "string \<Rightarrow> json \<Rightarrow> (string \<times> authEntry) result" where
  "dockerAuthEntry registry = decObj (\<lambda>e.
     bindR (fieldOr '''' decString ''username'' e) (\<lambda>username. bindR (fieldOr '''' decString ''password'' e) (\<lambda>password.
     bindR (fieldOr '''' decString ''auth'' e) (\<lambda>auth. bindR (fieldOr '''' decString ''identitytoken'' e) (\<lambda>token.
       let host = fst (cutAt (CHR ''/'') (trimPrefix (trimPrefix registry ''https://'') ''http://'')) in
       if auth = '''' then Inr (host, \<lparr>au_Username = username, au_Password = password, au_IdentityToken = token\<rparr>)
       else (case base64_Decode auth of
               Inl err \<Rightarrow> Inl (ErrorfW ''invalid auth entry for %s: %w'' [AS registry] err)
             | Inr decoded \<Rightarrow>
                 (case cutAt (CHR '':'') decoded of (user, pass, found) \<Rightarrow>
                    Inr (host, if found then \<lparr>au_Username = user, au_Password = pass, au_IdentityToken = token\<rparr>
                               else \<lparr>au_Username = username, au_Password = password, au_IdentityToken = token\<rparr>))))))))"

definition keychainFromDockerConfigSecret :: "textcodec \<Rightarrow> Secret \<Rightarrow> keychainFn result" where
  "keychainFromDockerConfigSecret tc secret =
     (case mget (sec_Data secret) DockerConfigJsonKey of
        None \<Rightarrow> Inl (Errorf ''the Secret has no %s key (expected type %s)'' [AS DockerConfigJsonKey, AS ''kubernetes.io/dockerconfigjson''])
      | Some raw \<Rightarrow>
          (case bindR (tc_parse tc raw) (decObj (\<lambda>doc. fieldOr [] (decObj Inr) ''auths'' doc)) of
             Inl err \<Rightarrow> Inl (ErrorfW ''invalid dockerconfigjson: %w'' [] err)
           | Inr auths \<Rightarrow> bindR (mapR (\<lambda>(registry, entry). dockerAuthEntry registry entry) auths) (\<lambda>es. Inr (map_of (rev es)))))"

definition cosign_keychain :: "'root cosignlib \<Rightarrow> Options_Cosign \<Rightarrow> keychainFn result" where
  "cosign_keychain lib opts =
     (case co_SecretReader opts of
        None \<Rightarrow> Inr Map.empty
      | Some reader \<Rightarrow>
          if co_RegistrySecretName opts = '''' then Inr Map.empty
          else let key = \<lparr>nn_Name = co_RegistrySecretName opts, nn_Namespace = co_Namespace opts\<rparr> in
               case reader key of
                 Inl err \<Rightarrow> Inl (ErrorfW ''reading registry Secret %s: %w'' [AS (nn_Namespace key @ ''/'' @ nn_Name key)] err)
               | Inr secret \<Rightarrow>
                   (case keychainFromDockerConfigSecret (cl_Codec lib) secret of
                      Inl err \<Rightarrow> Inl (ErrorfW ''parsing registry Secret %s: %w'' [AS (nn_Namespace key @ ''/'' @ nn_Name key)] err)
                    | Inr kc \<Rightarrow> Inr kc))"

subsection \<open>Bundle reconstruction\<close>

definition tlogEntriesFromLayer :: "textcodec \<Rightarrow> ociDescriptor \<Rightarrow> tlogEntry list result" where
  "tlogEntriesFromLayer tc layer =
     (let raw = annotation layer rekorBundleAnnotation; i0 = (\<lambda>i. case i of None \<Rightarrow> 0 | Some n \<Rightarrow> n) in
      if raw = '''' then Inl (Errorf ''the signature carries no Rekor bundle annotation'' [])
      else bindR (bindR (tc_parse tc raw) (decObj (\<lambda>d.
          bindR (fieldOr '''' decString ''SignedEntryTimestamp'' d) (\<lambda>ts.
          fieldOr (ts, '''', 0, 0, '''') (decObj (\<lambda>p.
            bindR (fieldOr '''' decString ''body'' p) (\<lambda>body. bindR (fieldOr None decInt ''integratedTime'' p) (\<lambda>t.
            bindR (fieldOr None decInt ''logIndex'' p) (\<lambda>ix. bindR (fieldOr '''' decString ''logID'' p) (\<lambda>logid.
              Inr (ts, body, i0 t, i0 ix, logid))))))) ''Payload'' d))))
        (\<lambda>(ts64, body64, time, index, idhex).
          bindR (hex_Decode idhex) (\<lambda>logID.
          bindR (base64_Decode ts64) (\<lambda>ts.
          bindR (base64_Decode body64) (\<lambda>body.
          bindR (bindR (tc_parse tc body) (decObj (\<lambda>e.
              bindR (fieldOr '''' decString ''apiVersion'' e) (\<lambda>version. bindR (fieldOr '''' decString ''kind'' e) (\<lambda>kind. Inr (kind, version))))))
            (\<lambda>(kind, version).
              Inr [\<lparr>te_LogIndex = index, te_LogID = logID, te_Kind = kind, te_Version = version, te_IntegratedTime = time,
                    te_SignedEntryTimestamp = ts, te_Body = body\<rparr>]))))))"

definition timestampsFromAnnotation :: "textcodec \<Rightarrow> string \<Rightarrow> string list result" where
  "timestampsFromAnnotation tc ann =
     bindR (bindR (tc_parse tc ann) (decObj (\<lambda>kvs. bindR (mapR (\<lambda>(k, j). bindR (decString j) (\<lambda>s. Inr (k, s))) kvs) (\<lambda>m.
         Inr (case mget (rev m) ''SignedRFC3161Timestamp'' of None \<Rightarrow> '''' | Some s \<Rightarrow> s)))))
       (\<lambda>enc. bindR (base64_Decode enc) (\<lambda>der. Inr [der]))"

definition verificationMaterialFromLayer :: "'root cosignlib \<Rightarrow> ociDescriptor \<Rightarrow> (string \<times> tlogEntry list \<times> string list) result" where
  "verificationMaterialFromLayer lib layer =
     (case cl_PemDecode lib (annotation layer certificateAnnotation) of
        None \<Rightarrow> Inl (Errorf ''the certificate annotation is not PEM'' [])
      | Some cert \<Rightarrow>
          bindR (tlogEntriesFromLayer (cl_Codec lib) layer) (\<lambda>entries.
            let ts = annotation layer timestampAnnotation in
            if ts = '''' then Inr (cert, entries, [])
            else bindR (timestampsFromAnnotation (cl_Codec lib) ts) (\<lambda>stamps. Inr (cert, entries, stamps))))"

definition messageSignatureFromLayer :: "ociDescriptor \<Rightarrow> (string \<times> string) result" where
  "messageSignatureFromLayer layer =
     (if od_Algorithm layer \<noteq> ''sha256''
      then Inl (Errorf ''unsupported signature payload digest algorithm %q'' [AS (od_Algorithm layer)])
      else bindR (hex_Decode (od_Hex layer)) (\<lambda>digest.
           bindR (base64_Decode (annotation layer signatureAnnotation)) (\<lambda>sig.
             if sig = '''' then Inl (Errorf ''the signature annotation is empty'' []) else Inr (digest, sig))))"

definition bundleFromSignatureLayer :: "'root cosignlib \<Rightarrow> ociDescriptor \<Rightarrow> sigBundle result" where
  "bundleFromSignatureLayer lib layer =
     bindR (verificationMaterialFromLayer lib layer) (\<lambda>(cert, entries, stamps).
     bindR (messageSignatureFromLayer layer) (\<lambda>(digest, sig).
       let b = \<lparr>sb_Certificate = cert, sb_TlogEntries = entries, sb_Timestamps = stamps, sb_MessageDigest = digest, sb_Signature = sig\<rparr> in
       case cl_NewBundle lib b of Some err \<Rightarrow> Inl err | None \<Rightarrow> Inr b))"

subsection \<open>Verification\<close>

definition verifyWithKey :: "sigCheck \<Rightarrow> ociDescriptor \<Rightarrow> string \<Rightarrow> goerror option" where
  "verifyWithKey check layer payload =
     (let sigB64 = annotation layer signatureAnnotation in
      if sigB64 = '''' then Some (Errorf ''signature layer %s has no %s annotation'' [AS (od_Digest layer), AS signatureAnnotation])
      else case base64_Decode sigB64 of
             Inl err \<Rightarrow> Some (ErrorfW ''signature layer %s annotation is not base64: %w'' [AS (od_Digest layer)] err)
           | Inr sig \<Rightarrow>
               (case check sig payload of
                  Some err \<Rightarrow> Some (ErrorfW ''signature layer %s does not verify with the configured public key: %w'' [AS (od_Digest layer)] err)
                | None \<Rightarrow> None))"

definition verifyKeyless :: "'root cosignlib \<Rightarrow> Options_Cosign \<Rightarrow> 'root \<Rightarrow> ociDescriptor \<Rightarrow> string \<Rightarrow> goerror option" where
  "verifyKeyless lib opts root layer payload =
     (if annotation layer certificateAnnotation = ''''
      then Some (Errorf ''signature layer %s carries no Fulcio certificate; expected a keyless cosign signature'' [AS (od_Digest layer)])
      else case bundleFromSignatureLayer lib layer of
             Inl err \<Rightarrow> Some (ErrorfW ''signature layer %s: %w'' [AS (od_Digest layer)] err)
           | Inr b \<Rightarrow>
               (case cl_VerifyBundle lib root (co_KeylessIssuer opts) (co_KeylessIdentityRegexp opts) b payload of
                  Some err \<Rightarrow> Some (ErrorfW ''signature layer %s failed keyless verification: %w'' [AS (od_Digest layer)] err)
                | None \<Rightarrow> None))"

definition trustedRootTTL :: int where "trustedRootTTL = 24 * 60 * 60 * nsecond"

text \<open>The cached root with its fetch time; \<open>fetched\<close> is what the TUF fetch returns when it is made, \<open>now\<close> the clock.\<close>

definition fetchTrustedRoot :: "int \<Rightarrow> 'root result \<Rightarrow> ('root \<times> int) option \<Rightarrow> 'root result \<times> ('root \<times> int) option" where
  "fetchTrustedRoot now fetched cache =
     (case cache of
        Some (root, at) \<Rightarrow>
          if timeSince now at < trustedRootTTL then (Inr root, cache)
          else (case fetched of Inl err \<Rightarrow> (Inr root, cache) | Inr new \<Rightarrow> (Inr new, Some (new, now)))
      | None \<Rightarrow> (case fetched of Inl err \<Rightarrow> (Inl err, None) | Inr new \<Rightarrow> (Inr new, Some (new, now))))"

definition newKeylessVerifier ::
  "'root cosignlib \<Rightarrow> int \<Rightarrow> 'root result \<Rightarrow> ('root \<times> int) option \<Rightarrow> (verifyError + 'root) \<times> ('root \<times> int) option" where
  "newKeylessVerifier lib now fetched cache =
     (case fetchTrustedRoot now fetched cache of
        (Inl err, cache') \<Rightarrow> (Inl (VerifyTransientError (VerifyWrapped ''fetching the sigstore trusted root: %w'' [] (VerifyCause err))), cache')
      | (Inr root, cache') \<Rightarrow>
          (case cl_NewVerifier lib root of
             Some err \<Rightarrow> (Inl (VerifyTransientError (VerifyWrapped ''building the sigstore verifier: %w'' [] (VerifyCause err))), cache')
           | None \<Rightarrow> (Inr root, cache')))"

definition signatureLocation :: "'root cosignlib \<Rightarrow> string \<Rightarrow> string \<Rightarrow> string \<Rightarrow> string result" where
  "signatureLocation lib repo digest signatureRef =
     (if signatureRef \<noteq> '''' then cl_ParseReference lib signatureRef
      else Inr (cl_Tag lib repo ((if hasPrefix digest ''sha256:'' then ''sha256-'' @ drop 7 digest else digest) @ ''.sig'')))"

text \<open>The reader stops one byte past the limit, so only whether the blob is longer matters.\<close>

definition layerPayload :: "'root cosignlib \<Rightarrow> keychainFn \<Rightarrow> string \<Rightarrow> ociDescriptor \<Rightarrow> string result" where
  "layerPayload lib kc sigRef desc =
     bindR (cl_Blob lib kc sigRef (od_Digest desc)) (\<lambda>blob.
       if maxPayloadBytes < int (length blob)
       then Inl (Errorf ''simple signing payload %s exceeds %d bytes'' [AS (od_Digest desc), AI maxPayloadBytes])
       else Inr blob)"

definition claimedDigest :: "textcodec \<Rightarrow> string \<Rightarrow> string result" where
  "claimedDigest tc payload =
     bindR (tc_parse tc payload) (decObj (\<lambda>d. fieldOr '''' (decObj (\<lambda>c. fieldOr '''' (decObj (\<lambda>i.
       fieldOr '''' decString ''docker-manifest-digest'' i)) ''image'' c)) ''critical'' d))"

definition checkDigestClaim :: "textcodec \<Rightarrow> string \<Rightarrow> string \<Rightarrow> goerror option" where
  "checkDigestClaim tc payload artifactDigest =
     (case claimedDigest tc payload of
        Inl err \<Rightarrow> Some (ErrorfW ''simple signing payload is not valid JSON: %w'' [] err)
      | Inr claimed \<Rightarrow>
          if claimed = '''' then Some (Errorf ''simple signing payload claims no docker-manifest-digest'' [])
          else if \<not> EqualFold claimed artifactDigest
          then Some (Errorf ''signature is for digest %s, not the pinned artifact digest %s'' [AS claimed, AS artifactDigest])
          else None)"

definition classifyFetchError :: "'root cosignlib \<Rightarrow> string \<Rightarrow> goerror \<Rightarrow> verifyError" where
  "classifyFetchError lib sigRef err =
     (if cl_NotFound lib err then SignatureMissingError sigRef (VerifyCause err)
      else VerifyTransientError (VerifyWrapped ''fetching the signature at %s: %w'' [AS sigRef] (VerifyCause err)))"

text \<open>The loop over the signature layers: \<open>check\<close> is the key or the keyless check of one layer. Neither returns a
  \<open>TransientError\<close>, so a failed layer is always recorded and the next one tried.\<close>

fun verifyLayers ::
  "'root cosignlib \<Rightarrow> keychainFn \<Rightarrow> (ociDescriptor \<Rightarrow> string \<Rightarrow> goerror option) \<Rightarrow> string \<Rightarrow> string \<Rightarrow> nat \<Rightarrow> goerror list \<Rightarrow>
   ociDescriptor list \<Rightarrow> verifyError option" where
  "verifyLayers lib kc check sigRef digest n failures [] =
     Some (SignatureInvalidError sigRef (VerifyCause (Errorf ''%d signature(s) present, none verified: %s'' (AI (int n) # map AE failures))))"
| "verifyLayers lib kc check sigRef digest n failures (layer # layers) =
     (case layerPayload lib kc sigRef layer of
        Inl err \<Rightarrow> Some (classifyFetchError lib sigRef err)
      | Inr payload \<Rightarrow>
          (case check layer payload of
             None \<Rightarrow>
               (case checkDigestClaim (cl_Codec lib) payload digest of
                  None \<Rightarrow> None
                | Some claimErr \<Rightarrow> verifyLayers lib kc check sigRef digest n (failures @ [claimErr]) layers)
           | Some err \<Rightarrow> verifyLayers lib kc check sigRef digest n (failures @ [err]) layers))"

definition CosignVerifier_Verify ::
  "'root cosignlib \<Rightarrow> CosignVerifier \<Rightarrow> int \<Rightarrow> 'root result \<Rightarrow> string \<Rightarrow> string \<Rightarrow> ('root \<times> int) option \<Rightarrow> verifyError option \<times> ('root \<times> int) option" where
  "CosignVerifier_Verify lib v now fetched artifactRef signatureRef cache =
     (case cl_NewDigest lib artifactRef of
        Inl err \<Rightarrow> (Some (SignatureInvalidError signatureRef (VerifyWrapped ''artifact ref is not digest-pinned: %w'' [] (VerifyCause err))), cache)
      | Inr (repo, digest) \<Rightarrow>
          (case signatureLocation lib repo digest signatureRef of
             Inl err \<Rightarrow> (Some (SignatureInvalidError signatureRef (VerifyWrapped ''invalid signatureRef: %w'' [] (VerifyCause err))), cache)
           | Inr sigRef \<Rightarrow>
               (case cosign_keychain lib (cv_opts v) of
                  Inl err \<Rightarrow> (Some (VerifyTransientError (VerifyWrapped ''loading registry credentials: %w'' [] (VerifyCause err))), cache)
                | Inr kc \<Rightarrow>
                    (case cl_Manifest lib kc sigRef of
                       Inl err \<Rightarrow> (Some (classifyFetchError lib sigRef err), cache)
                     | Inr manifest \<Rightarrow>
                         (let layers = signatureLayers manifest in
                          if layers = []
                          then (Some (SignatureMissingError sigRef (VerifyCause (Errorf ''the signature manifest carries no cosign signature layers'' []))), cache)
                          else (case cv_keyVerifier v of
                                  Some check \<Rightarrow> (verifyLayers lib kc (verifyWithKey check) sigRef digest (length layers) [] layers, cache)
                                | None \<Rightarrow>
                                    (case newKeylessVerifier lib now fetched cache of
                                       (Inl err, cache') \<Rightarrow> (Some err, cache')
                                     | (Inr root, cache') \<Rightarrow>
                                         (verifyLayers lib kc (verifyKeyless lib (cv_opts v) root) sigRef digest (length layers) [] layers, cache'))))))))"

subsection \<open>What the verifier accepts\<close>

text \<open>A layer whose payload was fetched, passes the check and claims the pinned digest.\<close>

definition layerProves ::
  "'root cosignlib \<Rightarrow> keychainFn \<Rightarrow> (ociDescriptor \<Rightarrow> string \<Rightarrow> goerror option) \<Rightarrow> string \<Rightarrow> string \<Rightarrow> ociDescriptor \<Rightarrow> string \<Rightarrow> bool" where
  "layerProves lib kc check sigRef digest layer payload \<longleftrightarrow>
     layerPayload lib kc sigRef layer = Inr payload \<and> check layer payload = None \<and>
     (\<exists>claimed. claimedDigest (cl_Codec lib) payload = Inr claimed \<and> claimed \<noteq> '''' \<and> EqualFold claimed digest)"

lemma checkDigestClaim_None:
  "checkDigestClaim tc payload digest = None \<longleftrightarrow> (\<exists>claimed. claimedDigest tc payload = Inr claimed \<and> claimed \<noteq> '''' \<and> EqualFold claimed digest)"
  by (auto simp: checkDigestClaim_def split: sum.splits)

lemma ex_split_Cons:
  "(\<exists>pre x post. y # ys = pre @ x # post \<and> P x \<and> (\<forall>z \<in> set pre. Q z)) \<longleftrightarrow>
   P y \<or> Q y \<and> (\<exists>pre x post. ys = pre @ x # post \<and> P x \<and> (\<forall>z \<in> set pre. Q z))" (is "?L \<longleftrightarrow> ?R")
proof
  assume ?L
  then obtain pre x post where p: "y # ys = pre @ x # post" "P x" "\<forall>z \<in> set pre. Q z" by blast
  show ?R
  proof (cases pre)
    case Nil
    then show ?thesis using p by simp
  next
    case (Cons z pre')
    then have "ys = pre' @ x # post" "Q y" "\<forall>z \<in> set pre'. Q z" using p by auto
    then show ?thesis using p(2) by blast
  qed
next
  assume ?R
  then show ?L
  proof
    assume "P y"
    then show ?L by (intro exI[of _ "[]"]) auto
  next
    assume "Q y \<and> (\<exists>pre x post. ys = pre @ x # post \<and> P x \<and> (\<forall>z \<in> set pre. Q z))"
    then obtain pre x post where "Q y" "ys = pre @ x # post" "P x" "\<forall>z \<in> set pre. Q z" by blast
    then show ?L by (intro exI[of _ "y # pre"]) auto
  qed
qed

lemma verifyLayers_None:
  "verifyLayers lib kc check sigRef digest n failures layers = None \<longleftrightarrow>
     (\<exists>pre layer post. layers = pre @ layer # post \<and> (\<exists>payload. layerProves lib kc check sigRef digest layer payload) \<and>
        (\<forall>l \<in> set pre. \<not> isl (layerPayload lib kc sigRef l)))"
proof (induction layers arbitrary: failures)
  case (Cons l layers)
  have proves: "(\<exists>payload. layerProves lib kc check sigRef digest l payload) \<longleftrightarrow>
      (case layerPayload lib kc sigRef l of Inl e \<Rightarrow> False | Inr p \<Rightarrow> check l p = None \<and> checkDigestClaim (cl_Codec lib) p digest = None)"
    by (auto simp: layerProves_def checkDigestClaim_None split: sum.splits)
  show ?case unfolding ex_split_Cons proves by (simp add: Cons.IH split: sum.splits option.splits)
qed simp

text \<open>Everything the verifier reads before it looks at a layer: the location, the digest, the credentials, the signature layers and the check.\<close>

definition verifyPlan ::
  "'root cosignlib \<Rightarrow> CosignVerifier \<Rightarrow> int \<Rightarrow> 'root result \<Rightarrow> string \<Rightarrow> string \<Rightarrow> ('root \<times> int) option \<Rightarrow> string \<Rightarrow> string \<Rightarrow> keychainFn \<Rightarrow>
   ociDescriptor list \<Rightarrow> (ociDescriptor \<Rightarrow> string \<Rightarrow> goerror option) \<Rightarrow> bool" where
  "verifyPlan lib v now fetched artifactRef signatureRef cache sigRef digest kc layers check \<longleftrightarrow>
     (\<exists>repo manifest. cl_NewDigest lib artifactRef = Inr (repo, digest) \<and> signatureLocation lib repo digest signatureRef = Inr sigRef \<and>
        cosign_keychain lib (cv_opts v) = Inr kc \<and> cl_Manifest lib kc sigRef = Inr manifest \<and> layers = signatureLayers manifest) \<and>
     (case cv_keyVerifier v of
        Some k \<Rightarrow> check = verifyWithKey k
      | None \<Rightarrow> (\<exists>root. fst (newKeylessVerifier lib now fetched cache) = Inr root \<and> check = verifyKeyless lib (cv_opts v) root))"

lemma Verify_accepts:
  "fst (CosignVerifier_Verify lib v now fetched artifactRef signatureRef cache) = None \<longleftrightarrow>
     (\<exists>sigRef digest kc pre layer post check payload.
        verifyPlan lib v now fetched artifactRef signatureRef cache sigRef digest kc (pre @ layer # post) check \<and>
        layerProves lib kc check sigRef digest layer payload \<and> (\<forall>l \<in> set pre. \<not> isl (layerPayload lib kc sigRef l)))"
proof -
  have "fst (CosignVerifier_Verify lib v now fetched artifactRef signatureRef cache) = None \<longleftrightarrow>
      (\<exists>sigRef digest kc layers check. verifyPlan lib v now fetched artifactRef signatureRef cache sigRef digest kc layers check \<and>
         verifyLayers lib kc check sigRef digest (length layers) [] layers = None)"
    unfolding CosignVerifier_Verify_def verifyPlan_def
    by (auto simp: Let_def split: sum.splits prod.splits option.splits)
  then show ?thesis unfolding verifyLayers_None by blast
qed

text \<open>C8. The cosign verifier accepts an artifact exactly when the image at the signature location has a signature layer whose payload passes
  the configured check, key or keyless, and claims the pinned digest, and every signature layer before it could be downloaded. So one
  valid signature is not always enough: an earlier layer that cannot be fetched, or is too large, ends the search.\<close>

theorem Verify_accepts_iff:
  "fst (CosignVerifier_Verify lib v now fetched artifactRef signatureRef cache) = None \<longleftrightarrow>
     (\<exists>sigRef digest kc pre layer post check payload.
        verifyPlan lib v now fetched artifactRef signatureRef cache sigRef digest kc (pre @ layer # post) check \<and>
        layerProves lib kc check sigRef digest layer payload \<and> (\<forall>l \<in> set pre. \<not> isl (layerPayload lib kc sigRef l)))"
  by (rule Verify_accepts)

subsection \<open>How failures are classified\<close>

lemma classifyFetchError_class:
  "IsSignatureMissing (classifyFetchError lib sigRef err) \<longleftrightarrow> cl_NotFound lib err" "\<not> IsSignatureInvalid (classifyFetchError lib sigRef err)"
  by (simp_all add: classifyFetchError_def)

lemma verifyLayers_Some:
  assumes "verifyLayers lib kc check sigRef digest n failures layers = Some e"
  shows "(\<exists>l \<in> set layers. \<exists>err. layerPayload lib kc sigRef l = Inl err \<and> e = classifyFetchError lib sigRef err) \<or>
    (\<forall>l \<in> set layers. \<exists>p. layerPayload lib kc sigRef l = Inr p \<and> \<not> layerProves lib kc check sigRef digest l p)"
  using assms
proof (induction layers arbitrary: failures)
  case (Cons l layers)
  show ?case
  proof (cases "layerPayload lib kc sigRef l")
    case (Inr p)
    then have "\<not> layerProves lib kc check sigRef digest l p" "\<exists>fs. verifyLayers lib kc check sigRef digest n fs layers = Some e"
      using Cons.prems by (auto simp: layerProves_def checkDigestClaim_None[symmetric] split: option.splits)
    then show ?thesis using Cons.IH Inr by auto
  qed (use Cons.prems in auto)
qed simp

lemma Verify_reached:
  assumes nd: "cl_NewDigest lib artifactRef = Inr (repo, digest)" and sr: "signatureLocation lib repo digest signatureRef = Inr sigRef"
    and e: "fst (CosignVerifier_Verify lib v now fetched artifactRef signatureRef cache) = Some e"
    and d: "IsSignatureMissing e \<or> IsSignatureInvalid e"
  obtains (absent) kc err where "cosign_keychain lib (cv_opts v) = Inr kc" "cl_Manifest lib kc sigRef = Inl err" "cl_NotFound lib err"
    | (unsigned) kc m where "cosign_keychain lib (cv_opts v) = Inr kc" "cl_Manifest lib kc sigRef = Inr m" "signatureLayers m = []"
    | (layers) kc m check where "cosign_keychain lib (cv_opts v) = Inr kc" "cl_Manifest lib kc sigRef = Inr m"
        "verifyPlan lib v now fetched artifactRef signatureRef cache sigRef digest kc (signatureLayers m) check"
        "verifyLayers lib kc check sigRef digest (length (signatureLayers m)) [] (signatureLayers m) = Some e"
proof (cases "cosign_keychain lib (cv_opts v)")
  case (Inl err)
  then have False using nd sr e d by (auto simp: CosignVerifier_Verify_def)
  then show thesis ..
next
  case kc: (Inr kc)
  show thesis
  proof (cases "cl_Manifest lib kc sigRef")
    case (Inl err)
    then have "cl_NotFound lib err" using nd sr e d kc by (auto simp: CosignVerifier_Verify_def classifyFetchError_class)
    then show thesis by (rule absent[OF kc Inl])
  next
    case m: (Inr m)
    show thesis
    proof (cases "signatureLayers m = []")
      case True
      then show thesis by (rule unsigned[OF kc m])
    next
      case False
      let ?run = "\<lambda>check. verifyLayers lib kc check sigRef digest (length (signatureLayers m)) [] (signatureLayers m)"
      have "\<exists>check. (case cv_keyVerifier v of Some k \<Rightarrow> check = verifyWithKey k
          | None \<Rightarrow> (\<exists>root. fst (newKeylessVerifier lib now fetched cache) = Inr root \<and> check = verifyKeyless lib (cv_opts v) root)) \<and> ?run check = Some e"
      proof (cases "cv_keyVerifier v")
        case None
        obtain r cache' where r: "newKeylessVerifier lib now fetched cache = (r, cache')" by (metis prod.exhaust)
        have "\<exists>root. r = Inr root"
          using r e nd sr kc m False None d
          by (cases r) (auto simp: CosignVerifier_Verify_def newKeylessVerifier_def Let_def split: sum.splits prod.splits option.splits)
        then show ?thesis using r e nd sr kc m False None by (auto simp: CosignVerifier_Verify_def Let_def)
      qed (use e nd sr kc m False in \<open>auto simp: CosignVerifier_Verify_def Let_def\<close>)
      then show thesis using layers[OF kc m] nd sr kc m unfolding verifyPlan_def by blast
    qed
  qed
qed

text \<open>C9. The verifier gives a negative verdict only for a reason that more tries cannot change by themselves: a malformed reference, an image
  or a payload the registry reports as absent, or a set of signature layers, possibly empty, that were all downloaded and all
  rejected. Every outage, of the registry, the credentials or the trust infrastructure, is reported as transient.\<close>

theorem Verify_definitive:
  assumes "fst (CosignVerifier_Verify lib v now fetched artifactRef signatureRef cache) = Some e" and "\<not> Verify_IsTransient (Some e)"
  shows "isl (cl_NewDigest lib artifactRef) \<or>
    (\<exists>repo digest. cl_NewDigest lib artifactRef = Inr (repo, digest) \<and> (isl (signatureLocation lib repo digest signatureRef) \<or>
      (\<exists>sigRef kc. signatureLocation lib repo digest signatureRef = Inr sigRef \<and> cosign_keychain lib (cv_opts v) = Inr kc \<and>
        ((\<exists>err. cl_Manifest lib kc sigRef = Inl err \<and> cl_NotFound lib err) \<or>
         (\<exists>m. cl_Manifest lib kc sigRef = Inr m \<and> (signatureLayers m = [] \<or>
            (\<exists>l \<in> set (signatureLayers m). \<exists>err. layerPayload lib kc sigRef l = Inl err \<and> cl_NotFound lib err) \<or>
            (\<exists>check. verifyPlan lib v now fetched artifactRef signatureRef cache sigRef digest kc (signatureLayers m) check \<and>
              (\<forall>l \<in> set (signatureLayers m). \<exists>p. layerPayload lib kc sigRef l = Inr p \<and> \<not> layerProves lib kc check sigRef digest l p))))))))"
proof (cases "cl_NewDigest lib artifactRef")
  case nd: (Inr p)
  obtain repo digest where p: "p = (repo, digest)" by (cases p)
  have d: "IsSignatureMissing e \<or> IsSignatureInvalid e" using assms(2) by (auto simp: Verify_IsTransient_def)
  show ?thesis
  proof (cases "signatureLocation lib repo digest signatureRef")
    case (Inr sigRef)
    from nd[unfolded p] Inr assms(1) d show ?thesis
    proof (cases rule: Verify_reached)
      case (layers kc m check)
      from verifyLayers_Some[OF layers(4)] show ?thesis
      proof
        assume "\<exists>l \<in> set (signatureLayers m). \<exists>err. layerPayload lib kc sigRef l = Inl err \<and> e = classifyFetchError lib sigRef err"
        then have "\<exists>l \<in> set (signatureLayers m). \<exists>err. layerPayload lib kc sigRef l = Inl err \<and> cl_NotFound lib err"
          using d classifyFetchError_class by blast
        then show ?thesis using layers(1,2) nd Inr p by blast
      qed (use layers(1-3) nd Inr p in blast)
    qed (use nd Inr p in blast)+
  qed (use nd p in auto)
qed simp

text \<open>A trusted root in use was fetched within the last day, unless the fetch that was due has just failed.\<close>

lemma fetchTrustedRoot_fresh:
  assumes "fetchTrustedRoot now fetched cache = (Inr root, cache')"
  shows "\<exists>at. cache' = Some (root, at) \<and> (timeSince now at < trustedRootTTL \<or> isl fetched)"
proof -
  have "timeSince now now < trustedRootTTL" by (simp add: timeSince_def trustedRootTTL_def nsecond_def)
  then show ?thesis using assms by (auto simp: fetchTrustedRoot_def split: option.splits prod.splits if_splits sum.splits)
qed

subsection \<open>The gate, end to end\<close>

text \<open>Evidence that outlives the registry: a payload of admissible size that claims the digest of the artifact and that the configured key, or a
  trusted root under the configured identity, has signed.\<close>

definition signedArtifact :: "'root cosignlib \<Rightarrow> CosignVerifier \<Rightarrow> string \<Rightarrow> bool" where
  "signedArtifact lib v artifactRef \<longleftrightarrow>
     (\<exists>repo digest payload claimed. cl_NewDigest lib artifactRef = Inr (repo, digest) \<and> int (length payload) \<le> maxPayloadBytes \<and>
        claimedDigest (cl_Codec lib) payload = Inr claimed \<and> EqualFold claimed digest \<and>
        (case cv_keyVerifier v of
           Some check \<Rightarrow> (\<exists>sig. check sig payload = None)
         | None \<Rightarrow> (\<exists>root b. cl_VerifyBundle lib root (co_KeylessIssuer (cv_opts v)) (co_KeylessIdentityRegexp (cv_opts v)) b payload = None)))"

text \<open>The same verifier over other registry contents.\<close>

definition overRegistry ::
  "'root cosignlib \<Rightarrow> (keychainFn \<Rightarrow> string \<Rightarrow> ociDescriptor list result) \<Rightarrow> (keychainFn \<Rightarrow> string \<Rightarrow> string \<Rightarrow> string result) \<Rightarrow> 'root cosignlib" where
  "overRegistry lib manifest blob = lib\<lparr>cl_Manifest := manifest, cl_Blob := blob\<rparr>"

lemma layerPayload_size: "layerPayload lib kc sigRef l = Inr payload \<Longrightarrow> int (length payload) \<le> maxPayloadBytes"
  by (auto simp: layerPayload_def bindR_def Let_def split: sum.splits if_splits)

lemma Verify_signed:
  assumes "fst (CosignVerifier_Verify lib v now fetched artifactRef signatureRef cache) = None"
  shows "signedArtifact lib v artifactRef"
proof -
  obtain sigRef digest kc pre layer post check payload where
      p: "verifyPlan lib v now fetched artifactRef signatureRef cache sigRef digest kc (pre @ layer # post) check"
      "layerProves lib kc check sigRef digest layer payload" using assms unfolding Verify_accepts by blast
  obtain repo where r: "cl_NewDigest lib artifactRef = Inr (repo, digest)" using p(1) by (auto simp: verifyPlan_def)
  have "case cv_keyVerifier v of
         Some k \<Rightarrow> (\<exists>sig. k sig payload = None)
       | None \<Rightarrow> (\<exists>root b. cl_VerifyBundle lib root (co_KeylessIssuer (cv_opts v)) (co_KeylessIdentityRegexp (cv_opts v)) b payload = None)"
  proof (cases "cv_keyVerifier v")
    case None
    then obtain root where "verifyKeyless lib (cv_opts v) root layer payload = None" using p by (auto simp: verifyPlan_def layerProves_def)
    then show ?thesis using None by (auto simp: verifyKeyless_def split: if_splits sum.splits option.splits)
  next
    case (Some k)
    then have "verifyWithKey k layer payload = None" using p by (auto simp: verifyPlan_def layerProves_def)
    then show ?thesis using Some by (auto simp: verifyWithKey_def Let_def split: if_splits sum.splits option.splits)
  qed
  then show ?thesis using r p(2) layerPayload_size unfolding signedArtifact_def layerProves_def by blast
qed

text \<open>Steps of a cluster whose operator runs this verifier: whatever happens without an acceptance, and reconciles that call it, with any
  registry contents, clock, TUF answer and root cache.\<close>

inductive cosignStep :: "k8slib \<Rightarrow> 'root cosignlib \<Rightarrow> CosignVerifier \<Rightarrow> verifyStates \<times> capSys \<Rightarrow> verifyStates \<times> capSys \<Rightarrow> bool" for k lib v where
  other: "capStep k x y \<Longrightarrow> sys_accepted (snd y) = sys_accepted (snd x) \<Longrightarrow> cosignStep k lib v x y"
| reconcile: "retries_conflicts retry \<Longrightarrow> 0 \<le> fst clock \<Longrightarrow> fst clock \<le> snd clock \<Longrightarrow>
     CapabilityReconciler_Reconcile k capClient
       (Some (recordAccepted (\<lambda>a r. fst (CosignVerifier_Verify (overRegistry lib manifest blob) v now fetched a r cache)))) retry clock req (states, s) = (res, states', s') \<Longrightarrow>
     cosignStep k lib v (states, s) (states', s')"

lemma cosignStep_capStep: "cosignStep k lib v x y \<Longrightarrow> capStep k x y"
proof (induction rule: cosignStep.induct)
  case (reconcile retry clock manifest blob now fetched cache req states s res states' s')
  then show ?case by (intro capStep.reconcile[where v = "Some _"]) auto
qed

lemma signedArtifact_registry [simp]: "signedArtifact (overRegistry lib manifest blob) v a = signedArtifact lib v a"
  by (cases "cv_keyVerifier v") (simp_all add: signedArtifact_def overRegistry_def)

text \<open>A reconcile accepts at most what its verifier accepts.\<close>

lemma reconcile_accepted:
  assumes "objectsOK s" and "retries_conflicts retry"
    and r: "CapabilityReconciler_Reconcile k capClient (Some (recordAccepted f)) retry clock req (states, s) = (res, states', s')"
    and "(a, ref) \<in> set (sys_accepted s')"
  shows "(a, ref) \<in> set (sys_accepted s) \<or> f a ref = None"
proof (cases "\<exists>c. sys_objects s req = Some c \<and> \<not> om_Deleting (cap_Meta c)")
  case False
  then have "s' = s" using r by (auto simp: CapabilityReconciler_Reconcile_def capClient_def split: option.splits if_splits)
  then show ?thesis using assms(4) by simp
next
  case True
  then obtain c where c: "sys_objects s req = Some c" "\<not> om_Deleting (cap_Meta c)" by blast
  have key: "keyOf (cap_Meta c) = req" using assms(1) c(1) by (auto simp: objectsOK_def)
  obtain out st1 s1 where v: "verifiedCondition (Some (recordAccepted f)) clock c (states, s) = (out, st1, s1)" by (metis prod.collapse)
  have s1: "sys_objects s1 = sys_objects s" "(a, ref) \<in> set (sys_accepted s1) \<Longrightarrow> (a, ref) \<in> set (sys_accepted s) \<or> f a ref = None"
    using v by (auto simp: verifiedCondition_def recordAccepted_def Let_def split: option.splits prod.splits if_splits)
  have g: "kc_Get capClient req s = Inr c" using c(1) by (simp add: capClient_def)
  have "s' = s1 \<or> s' = snd (updateStatusWithRetry retry capClient (\<lambda>c. keyOf (cap_Meta c)) (stampVerdict k (vo_condition out)) c s1)"
    using r g c(2) v by (auto simp: CapabilityReconciler_Reconcile_def split: if_splits prod.splits option.splits)
  moreover have "sys_objects s1 req = Some c" using s1(1) c(1) by simp
  ultimately have "sys_accepted s' = sys_accepted s1" using status_written[OF assms(2) _ key] by auto
  then show ?thesis using s1(2) assms(4) by simp
qed

lemma cosign_accepted_signed:
  assumes "(cosignStep k lib v)\<^sup>*\<^sup>* sysStart y" and "status_condition_laws k" and "(a, r) \<in> set (sys_accepted (snd y))"
  shows "signedArtifact lib v a"
  using assms(1,3)
proof (induction rule: rtranclp_induct)
  case base
  then show ?case by (simp add: sysStart_def)
next
  case (step x y)
  have "(capStep k)\<^sup>*\<^sup>* sysStart x" using step.hyps(1) by (rule rtranclp_mono[THEN predicate2D, rotated]) (auto intro: cosignStep_capStep)
  then have ok: "objectsOK (snd x)" using capInv_reachable[OF _ assms(2)] by (cases x) (auto simp: capInv_def)
  from step.hyps(2) show ?case
  proof cases
    case other
    then show ?thesis using step.IH step.prems by simp
  next
    case (reconcile retry clock manifest blob now fetched cache req states s res states' s')
    have "(a, r) \<in> set (sys_accepted s) \<or> fst (CosignVerifier_Verify (overRegistry lib manifest blob) v now fetched a r cache) = None"
      using reconcile_accepted[OF _ reconcile(3) reconcile(6)] ok step.prems reconcile(1,2) by simp
    then show ?thesis using step.IH Verify_signed[of "overRegistry lib manifest blob"] reconcile(1) by auto
  qed
qed


subsection \<open>Configuration\<close>

text \<open>The wildcard test is a list of six patterns: one more character and a pattern that matches every identity is accepted.\<close>

lemma wildcard_slips_through:
  assumes "kl_CompileRegexp kl ''^.*'' = None" and "kl_NewIdentity kl ''iss'' ''^.*'' = None"
  shows "NewCosignVerifier kl \<lparr>co_KeyPath = '''', co_KeylessIssuer = ''iss'', co_KeylessIdentityRegexp = ''^.*'', co_RegistrySecretName = '''',
      co_Namespace = '''', co_SecretReader = None\<rparr> \<noteq> Inl err"
  using assms by (simp add: NewCosignVerifier_def wildcardRegexps_def trimSpace_def is_space_def)

subsection \<open>Witnesses\<close>

definition demoLayer :: ociDescriptor where
  "demoLayer = \<lparr>od_MediaType = simpleSigningMediaType, od_Algorithm = ''sha256'', od_Hex = ''cd'', od_Annotations = [(signatureAnnotation, ''c2ln'')]\<rparr>"

definition demoClaim :: json where
  "demoClaim = JObj [(''critical'', JObj [(''image'', JObj [(''docker-manifest-digest'', JStr ''SHA256:ab'')])])]"

definition demoCosign :: "unit cosignlib" where
  "demoCosign = \<lparr>cl_NewDigest = (\<lambda>a. Inr (''repo'', ''sha256:ab'')), cl_ParseReference = Inr, cl_Tag = (\<lambda>r t. r @ '':'' @ t),
     cl_Manifest = (\<lambda>kc r. if r = ''repo:sha256-ab.sig'' then Inr [demoLayer] else Inl (Errorf ''404'' [])),
     cl_Blob = (\<lambda>kc r d. Inr ''claim''), cl_NotFound = (\<lambda>e. True),
     cl_Codec = \<lparr>tc_print = (\<lambda>j. ''''), tc_parse = (\<lambda>s. Inr demoClaim), tc_fmtTime = (\<lambda>t. Inr ''''), tc_parseTime = (\<lambda>s. Inr 0)\<rparr>,
     cl_PemDecode = (\<lambda>s. None), cl_NewBundle = (\<lambda>b. None), cl_NewVerifier = (\<lambda>r. None), cl_VerifyBundle = (\<lambda>r i x b p. None)\<rparr>"

definition demoVerifierKey :: CosignVerifier where
  "demoVerifierKey = \<lparr>cv_opts = \<lparr>co_KeyPath = ''/k'', co_KeylessIssuer = '''', co_KeylessIdentityRegexp = '''', co_RegistrySecretName = '''',
       co_Namespace = '''', co_SecretReader = None\<rparr>,
     cv_keyVerifier = Some (\<lambda>sig payload. if sig = ''sig'' then None else Some (Errorf ''bad signature'' []))\<rparr>"

theorem Verify_accepts_iff_witness:
  "\<exists>sigRef digest kc pre layer post check payload.
     verifyPlan demoCosign demoVerifierKey 0 (Inr ()) ''a'' '''' None sigRef digest kc (pre @ layer # post) check \<and>
     layerProves demoCosign kc check sigRef digest layer payload"
proof -
  have "fst (CosignVerifier_Verify demoCosign demoVerifierKey 0 (Inr ()) ''a'' '''' None) = None" by code_simp
  then show ?thesis unfolding Verify_accepts_iff by blast
qed

theorem Verify_definitive_witness:
  "\<exists>kc err. cl_Manifest demoCosign kc ''elsewhere'' = Inl err \<and> cl_NotFound demoCosign err"
proof -
  let ?r = "fst (CosignVerifier_Verify demoCosign demoVerifierKey 0 (Inr ()) ''a'' ''elsewhere'' None)"
  have "\<not> Verify_IsTransient ?r" "?r \<noteq> None" by code_simp+
  then obtain e where e: "?r = Some e" "\<not> Verify_IsTransient (Some e)" by (metis option.exhaust)
  have loc: "signatureLocation demoCosign repo digest ''elsewhere'' = Inr ''elsewhere''" for repo digest by (simp add: signatureLocation_def demoCosign_def)
  have nd: "cl_NewDigest demoCosign ''a'' = Inr (''repo'', ''sha256:ab'')" by (simp add: demoCosign_def)
  have no: "cl_Manifest demoCosign kc ''elsewhere'' \<noteq> Inr m" for kc m by (simp add: demoCosign_def)
  show ?thesis using Verify_definitive[OF e] no by (auto simp: loc nd)
qed


end
