(* ===== verification/Delivery.thy ===== *)
theory Delivery
  imports Builder StatusStore
begin

text \<open>
  \<open>internal/infra/delivery\<close>: how the operator settles at start-up on one way of delivering capability artifacts. The resolver maps the
  configured mode to an effective one; in mode auto it runs the probe pod and polls it until a deadline. The API server is the client
  parameter, waiting is a function on the world, and times are nanoseconds; API calls themselves take no time. Logging and the
  Prometheus gauges are left out. The lemmas show that probing always ends, what it concludes, and that the probe pod is removed.
\<close>

subsection \<open>The probe\<close>

definition ProbePodName :: string where "ProbePodName = ''flokoa-imagevolume-probe''"
definition probeVolumeName :: string where "probeVolumeName = ''probe''"
definition probeContainerName :: string where "probeContainerName = ''probe''"
definition probeMountPath :: string where "probeMountPath = ''/probe''"
definition probeSubPath :: string where "probeSubPath = ''etc/flokoa''"
definition probeCommand :: string where
  "probeCommand = ''import os,sys; sys.exit(0 if os.path.exists('' @ [CHR 0x27] @ ''/probe/runner-manifest.json'' @ [CHR 0x27] @ '') else 1)''"
definition defaultPollInterval :: int where "defaultPollInterval = 2000000000"

datatype PodPhase = PodPending | PodRunning | PodSucceeded | PodFailed | PodUnknown

fun podPhaseText :: "PodPhase \<Rightarrow> string" where
  "podPhaseText PodPending = ''Pending''"
| "podPhaseText PodRunning = ''Running''"
| "podPhaseText PodSucceeded = ''Succeeded''"
| "podPhaseText PodFailed = ''Failed''"
| "podPhaseText PodUnknown = ''Unknown''"

record probePod =
  pp_Meta :: ObjectMeta
  pp_RestartPolicy :: string
  pp_TerminationGracePeriodSeconds :: int
  pp_SecurityContext :: PodSecurityContext
  pp_Volumes :: "Volume list"
  pp_Containers :: "Container list"
  pp_Phase :: PodPhase

record ProbeOutcome =
  po_Supported :: bool
  po_Reason :: msgtext
  po_CompletedAt :: int

record 'w ImageProbe =
  pb_Client :: "('w, probePod) kclient"
  pb_Sleep :: "int \<Rightarrow> 'w \<Rightarrow> 'w"
  pb_Namespace :: string
  pb_Image :: string
  pb_Timeout :: int
  pb_PollInterval :: int

definition probeKey :: "'w ImageProbe \<Rightarrow> NamespacedName" where
  "probeKey p = \<lparr>nn_Name = ProbePodName, nn_Namespace = pb_Namespace p\<rparr>"

definition unsupported :: "int \<Rightarrow> msgtext \<Rightarrow> ProbeOutcome" where
  "unsupported now reason = \<lparr>po_Supported = False, po_Reason = reason, po_CompletedAt = now\<rparr>"

definition buildProbePod :: "'w ImageProbe \<Rightarrow> probePod" where
  "buildProbePod p =
     \<lparr>pp_Meta = objectMeta ProbePodName (pb_Namespace p) [(''app.kubernetes.io/managed-by'', ''flokoa-operator'')] [],
      pp_RestartPolicy = ''Never'', pp_TerminationGracePeriodSeconds = 5, pp_SecurityContext = RestrictedPodSecurityContext,
      pp_Volumes = [\<lparr>vol_Name = probeVolumeName, vol_Source = ImageVolume (pb_Image p) ''IfNotPresent''\<rparr>],
      pp_Containers = [\<lparr>ct_Name = probeContainerName, ct_Image = pb_Image p, ct_Command = [''python'', ''-c'', probeCommand], ct_Args = [],
        ct_WorkingDir = '''', ct_Ports = [], ct_Env = [],
        ct_Resources = \<lparr>rr_Requests = [(''cpu'', ''10m''), (''memory'', ''16Mi'')], rr_Limits = [(''cpu'', ''100m''), (''memory'', ''64Mi'')]\<rparr>,
        ct_VolumeMounts = [\<lparr>vm_Name = probeVolumeName, vm_MountPath = probeMountPath, vm_SubPath = probeSubPath, vm_ReadOnly = True\<rparr>],
        ct_SecurityContext = Some RestrictedContainerSecurityContext, ct_StartupProbe = None, ct_ReadinessProbe = None\<rparr>],
      pp_Phase = PodPending\<rparr>"

text \<open>The poll loops carry the clock; \<open>interval\<close> is positive by construction. Waiting ends at the deadline or after one interval, whichever comes first.\<close>

function waitGone :: "'w ImageProbe \<Rightarrow> int \<Rightarrow> int \<Rightarrow> int \<Rightarrow> 'w \<Rightarrow> goerror option \<times> int \<times> 'w" where
  "waitGone p deadline interval now w =
     (case kc_Get (pb_Client p) (probeKey p) w of
        Inl err \<Rightarrow> (if apierrors_IsNotFound err then None else Some err, now, w)
      | Inr pod \<Rightarrow>
          if deadline \<le> now + max 1 interval
          then (Some (Errorf ''context deadline exceeded'' []), max now deadline, pb_Sleep p (max now deadline - now) w)
          else waitGone p deadline interval (now + max 1 interval) (pb_Sleep p (max 1 interval) w))"
  by pat_completeness auto

termination
  by (relation "measure (\<lambda>(p, deadline, interval, now, w). nat (deadline - now))") auto

definition deleteAndWaitGone :: "'w ImageProbe \<Rightarrow> int \<Rightarrow> int \<Rightarrow> int \<Rightarrow> 'w \<Rightarrow> goerror option \<times> int \<times> 'w" where
  "deleteAndWaitGone p deadline interval now w =
     (case kc_Delete (pb_Client p) (probeKey p) w of
        (Some err, w1) \<Rightarrow> (if apierrors_IsNotFound err then None else Some err, now, w1)
      | (None, w1) \<Rightarrow> waitGone p deadline interval now w1)"

function waitForCompletion :: "'w ImageProbe \<Rightarrow> int \<Rightarrow> int \<Rightarrow> int \<Rightarrow> 'w \<Rightarrow> ProbeOutcome \<times> 'w" where
  "waitForCompletion p deadline interval now w =
     (case kc_Get (pb_Client p) (probeKey p) w of
        Inl err \<Rightarrow> (unsupported now (Sprintf ''probe pod status check failed: %v'' [AE err]), w)
      | Inr pod \<Rightarrow>
          if pp_Phase pod = PodSucceeded then (\<lparr>po_Supported = True, po_Reason = NoText, po_CompletedAt = now\<rparr>, w)
          else if pp_Phase pod = PodFailed
          then (unsupported now (Sprintf ''probe pod failed: image volume mounted but the probe command did not succeed'' []), w)
          else if deadline \<le> now + max 1 interval
          then (unsupported (max now deadline) (Sprintf ''probe timed out after %s (last pod phase: %s - a kubelet feature gate that is off or containerd < 2.x typically leaves the pod stuck)''
                   [AI (pb_Timeout p), AS (podPhaseText (pp_Phase pod))]),
                pb_Sleep p (max now deadline - now) w)
          else waitForCompletion p deadline interval (now + max 1 interval) (pb_Sleep p (max 1 interval) w))"
  by pat_completeness auto

termination
  by (relation "measure (\<lambda>(p, deadline, interval, now, w). nat (deadline - now))") auto

declare waitGone.simps [simp del] waitForCompletion.simps [simp del]

definition hasImageVolume :: "probePod \<Rightarrow> bool" where
  "hasImageVolume pod = (case pp_Volumes pod of [] \<Rightarrow> False | v # _ \<Rightarrow> (case vol_Source v of ImageVolume r pull \<Rightarrow> True | _ \<Rightarrow> False))"

definition ProbeImageVolume :: "'w ImageProbe \<Rightarrow> int \<Rightarrow> 'w \<Rightarrow> ProbeOutcome \<times> 'w" where
  "ProbeImageVolume p now w =
     (let interval = (if pb_PollInterval p \<le> 0 then defaultPollInterval else pb_PollInterval p);
          deadline = now + pb_Timeout p in
      case deleteAndWaitGone p deadline interval now w of
        (Some err, now1, w1) \<Rightarrow> (unsupported now1 (Sprintf ''could not replace an existing probe pod: %v'' [AE err]), w1)
      | (None, now1, w1) \<Rightarrow>
          (case kc_Create (pb_Client p) (buildProbePod p) w1 of
             (Inl err, w2) \<Rightarrow> (unsupported now1 (Sprintf ''probe pod create rejected: %v'' [AE err]), w2)
           | (Inr pod, w2) \<Rightarrow>
               (let (outcome, w3) =
                  (if \<not> hasImageVolume pod
                   then (unsupported now1 (Sprintf ''image volume field stripped by the API server (ImageVolume feature gate disabled)'' []), w2)
                   else waitForCompletion p deadline interval now1 w2)
                in (outcome, snd (kc_Delete (pb_Client p) (probeKey p) w3)))))"

subsection \<open>The resolver\<close>

definition ModeInitContainer :: string where "ModeInitContainer = deliveryText DeliveryInitContainer"
definition ModeImageVolume :: string where "ModeImageVolume = deliveryText DeliveryImageVolume"
definition ModeAuto :: string where "ModeAuto = ''auto''"
definition StateConfigMapName :: string where "StateConfigMapName = ''flokoa-capability-delivery''"

record DeliveryResult =
  dr_ConfiguredMode :: string
  dr_EffectiveMode :: CapabilityDeliveryMode
  dr_ImageVolumeSupported :: "bool option"
  dr_ProbedAt :: "int option"
  dr_Message :: msgtext

definition Delivery_Resolve :: "string \<Rightarrow> ('w \<Rightarrow> ProbeOutcome \<times> 'w) \<Rightarrow> 'w \<Rightarrow> DeliveryResult result \<times> 'w" where
  "Delivery_Resolve mode prober w =
     (if mode = ModeInitContainer
      then (Inr \<lparr>dr_ConfiguredMode = mode, dr_EffectiveMode = DeliveryInitContainer, dr_ImageVolumeSupported = None, dr_ProbedAt = None,
              dr_Message = Sprintf ''initContainer delivery configured explicitly; no probe'' []\<rparr>, w)
      else if mode = ModeImageVolume
      then (Inr \<lparr>dr_ConfiguredMode = mode, dr_EffectiveMode = DeliveryImageVolume, dr_ImageVolumeSupported = None, dr_ProbedAt = None,
              dr_Message = Sprintf ''imageVolume delivery configured explicitly; not probed - misconfiguration surfaces as agent pod failures'' []\<rparr>, w)
      else if mode = ModeAuto
      then (case prober w of (outcome, w1) \<Rightarrow>
              (Inr (if po_Supported outcome
                    then \<lparr>dr_ConfiguredMode = ModeAuto, dr_EffectiveMode = DeliveryImageVolume, dr_ImageVolumeSupported = Some True,
                          dr_ProbedAt = Some (po_CompletedAt outcome),
                          dr_Message = Sprintf ''auto: image volume probe succeeded; using imageVolume delivery'' []\<rparr>
                    else \<lparr>dr_ConfiguredMode = ModeAuto, dr_EffectiveMode = DeliveryInitContainer, dr_ImageVolumeSupported = Some False,
                          dr_ProbedAt = Some (po_CompletedAt outcome),
                          dr_Message = Sprintf ''auto: falling back to initContainer delivery: %s'' [msgArg (po_Reason outcome)]\<rparr>), w1))
      else (Inl (Errorf ''invalid capability delivery mode %q (valid: %s, %s, %s)'' [AS mode, AS ModeInitContainer, AS ModeImageVolume, AS ModeAuto]), w))"

definition stateData :: "(int \<Rightarrow> string) \<Rightarrow> DeliveryResult \<Rightarrow> msgtext smap" where
  "stateData fmtTime result =
     [(''configuredMode'', Sprintf (dr_ConfiguredMode result) []), (''effectiveMode'', Sprintf (deliveryText (dr_EffectiveMode result)) []),
      (''imageVolumeSupported'', Sprintf (case dr_ImageVolumeSupported result of None \<Rightarrow> '''' | Some b \<Rightarrow> if b then ''true'' else ''false'') []),
      (''probedAt'', Sprintf (case dr_ProbedAt result of None \<Rightarrow> '''' | Some t \<Rightarrow> fmtTime t) []), (''message'', dr_Message result)]"

record stateConfigMap =
  scm_Meta :: ObjectMeta
  scm_Data :: "msgtext smap"

definition writeStateAttempt ::
  "('w, stateConfigMap) kclient \<Rightarrow> string \<Rightarrow> msgtext smap \<Rightarrow> unit \<times> 'w \<Rightarrow> goerror option \<times> unit \<times> 'w" where
  "writeStateAttempt kc namespace data s =
     (let w = snd s; done = (\<lambda>res. case res of (Inl err, w') \<Rightarrow> (Some err, (), w') | (Inr _, w') \<Rightarrow> (None, (), w')) in
      case kc_Get kc \<lparr>nn_Name = StateConfigMapName, nn_Namespace = namespace\<rparr> w of
        Inl err \<Rightarrow>
          if apierrors_IsNotFound err
          then done (kc_Create kc \<lparr>scm_Meta = objectMeta StateConfigMapName namespace [(''app.kubernetes.io/managed-by'', ''flokoa-operator'')] [], scm_Data = data\<rparr> w)
          else (Some err, (), w)
      | Inr existing \<Rightarrow> done (kc_Update kc (existing\<lparr>scm_Data := data\<rparr>) w))"

definition writeStateConfigMap ::
  "('w, unit) retrier \<Rightarrow> ('w, stateConfigMap) kclient \<Rightarrow> (int \<Rightarrow> string) \<Rightarrow> string \<Rightarrow> DeliveryResult \<Rightarrow> 'w \<Rightarrow> goerror option \<times> 'w" where
  "writeStateConfigMap retry kc fmtTime namespace result w =
     (case retry (writeStateAttempt kc namespace (stateData fmtTime result)) ((), w) of (err, _, w') \<Rightarrow> (err, w'))"

definition OperatorNamespace :: "string \<Rightarrow> string option \<Rightarrow> string" where
  "OperatorNamespace podNamespace namespaceFile =
     (if podNamespace \<noteq> '''' then podNamespace
      else case namespaceFile of
             None \<Rightarrow> ''default''
           | Some data \<Rightarrow> if trimSpace data \<noteq> '''' then trimSpace data else ''default'')"

subsection \<open>What the probe concludes\<close>

text \<open>The world at the \<open>n\<close>-th poll, and a pod that is neither done nor failed.\<close>

abbreviation polled :: "'w ImageProbe \<Rightarrow> int \<Rightarrow> nat \<Rightarrow> 'w \<Rightarrow> 'w" where
  "polled p interval n w \<equiv> (pb_Sleep p interval ^^ n) w"

definition undecided :: "'w ImageProbe \<Rightarrow> 'w \<Rightarrow> bool" where
  "undecided p w \<longleftrightarrow> (\<exists>pod. kc_Get (pb_Client p) (probeKey p) w = Inr pod \<and> pp_Phase pod \<notin> {PodSucceeded, PodFailed})"

definition succeeded :: "'w ImageProbe \<Rightarrow> 'w \<Rightarrow> bool" where
  "succeeded p w \<longleftrightarrow> (\<exists>pod. kc_Get (pb_Client p) (probeKey p) w = Inr pod \<and> pp_Phase pod = PodSucceeded)"

lemma ex_nat_split: "(\<exists>n::nat. P n) \<longleftrightarrow> P 0 \<or> (\<exists>n. P (Suc n))"
  by (metis not0_implies_Suc)

lemma waitForCompletion_supported:
  assumes "0 < interval"
  shows "po_Supported (fst (waitForCompletion p deadline interval now w)) \<longleftrightarrow>
    (\<exists>n. (n = 0 \<or> now + int n * interval < deadline) \<and> succeeded p (polled p interval n w) \<and> (\<forall>i < n. undecided p (polled p interval i w)))"
  using assms
proof (induction p deadline interval now w rule: waitForCompletion.induct)
  case (1 p deadline interval now w)
  let ?P = "\<lambda>n. (n = 0 \<or> now + int n * interval < deadline) \<and> succeeded p (polled p interval n w) \<and> (\<forall>i < n. undecided p (polled p interval i w))"
  have suc: "?P (Suc n) \<longleftrightarrow> now + interval < deadline \<and> undecided p w \<and> (n = 0 \<or> (now + interval) + int n * interval < deadline) \<and>
      succeeded p (polled p interval n (pb_Sleep p interval w)) \<and> (\<forall>i < n. undecided p (polled p interval i (pb_Sleep p interval w)))" for n
  proof -
    have "now + interval \<le> now + int (Suc n) * interval" using 1(2) by (simp add: algebra_simps)
    moreover have "(\<forall>i < Suc n. undecided p (polled p interval i w)) \<longleftrightarrow> undecided p w \<and> (\<forall>i < n. undecided p (polled p interval i (pb_Sleep p interval w)))"
      by (simp add: All_less_Suc2 funpow_Suc_right del: funpow.simps)
    ultimately show ?thesis by (auto simp: algebra_simps funpow_Suc_right simp del: funpow.simps)
  qed
  show ?case
  proof (cases "undecided p w \<and> now + interval < deadline")
    case True
    then have "po_Supported (fst (waitForCompletion p deadline interval now w)) \<longleftrightarrow>
        po_Supported (fst (waitForCompletion p deadline interval (now + interval) (pb_Sleep p interval w)))"
      using 1(2) by (subst waitForCompletion.simps) (auto simp: undecided_def)
    moreover have "\<not> succeeded p w" using True by (auto simp: undecided_def succeeded_def)
    ultimately show ?thesis using 1(1) 1(2) True unfolding ex_nat_split[of ?P] suc by (auto simp: undecided_def)
  next
    case False
    then show ?thesis unfolding ex_nat_split[of ?P] suc using 1(2)
      by (subst waitForCompletion.simps) (auto simp: undecided_def succeeded_def unsupported_def split: sum.splits)
  qed
qed

lemma waitGone_time: "waitGone p deadline interval now w = (e, now1, w1) \<Longrightarrow> now \<le> now1 \<and> now1 \<le> max now deadline"
proof (induction p deadline interval now w rule: waitGone.induct)
  case (1 p deadline interval now w)
  show ?case
  proof (cases "isl (kc_Get (pb_Client p) (probeKey p) w) \<or> deadline \<le> now + max 1 interval")
    case True
    then show ?thesis using 1(2) by (subst (asm) waitGone.simps) (auto split: sum.splits if_splits)
  next
    case False
    then obtain pod where g: "kc_Get (pb_Client p) (probeKey p) w = Inr pod" by (auto simp: isl_def split: sum.splits) (metis sum.exhaust_sel isl_def)
    then have "waitGone p deadline interval (now + max 1 interval) (pb_Sleep p (max 1 interval) w) = (e, now1, w1)"
      using 1(2) False by (subst (asm) waitGone.simps) simp
    from 1(1)[OF g _ this] show ?thesis using False by auto
  qed
qed

lemma waitForCompletion_time:
  "now \<le> po_CompletedAt (fst (waitForCompletion p deadline interval now w)) \<and>
   po_CompletedAt (fst (waitForCompletion p deadline interval now w)) \<le> max now deadline"
proof (induction p deadline interval now w rule: waitForCompletion.induct)
  case (1 p deadline interval now w)
  show ?case
  proof (cases "undecided p w \<and> now + max 1 interval < deadline")
    case True
    then have eq: "waitForCompletion p deadline interval now w = waitForCompletion p deadline interval (now + max 1 interval) (pb_Sleep p (max 1 interval) w)"
      by (subst waitForCompletion.simps) (auto simp: undecided_def)
    obtain pod where "kc_Get (pb_Client p) (probeKey p) w = Inr pod" "pp_Phase pod \<notin> {PodSucceeded, PodFailed}" using True by (auto simp: undecided_def)
    from 1[OF this(1)] this(2) show ?thesis unfolding eq using True by (auto simp: max_def split: if_splits)
  next
    case False
    then show ?thesis by (subst (1 2) waitForCompletion.simps) (auto simp: undecided_def unsupported_def split: sum.splits)
  qed
qed

abbreviation probeInterval :: "'w ImageProbe \<Rightarrow> int" where
  "probeInterval p \<equiv> (if pb_PollInterval p \<le> 0 then defaultPollInterval else pb_PollInterval p)"

text \<open>C11. In mode auto the resolver always settles, within the probe timeout, on one of the two delivery modes, and on image volumes only if the API
  server accepted the probe pod with its image volume and a later poll saw that pod succeed. A probe pod that was created is
  deleted whatever the outcome.\<close>

theorem auto_delivery_settles:
  assumes "Delivery_Resolve ModeAuto (ProbeImageVolume p now) w = (r, w')"
  shows "\<exists>res at. r = Inr res \<and> dr_EffectiveMode res \<in> {DeliveryInitContainer, DeliveryImageVolume} \<and>
    dr_ProbedAt res = Some at \<and> now \<le> at \<and> at \<le> now + max 0 (pb_Timeout p) \<and>
    (dr_EffectiveMode res = DeliveryImageVolume \<longrightarrow>
       (\<exists>w1 pod w2 n. kc_Create (pb_Client p) (buildProbePod p) w1 = (Inr pod, w2) \<and> hasImageVolume pod \<and> succeeded p (polled p (probeInterval p) n w2))) \<and>
    (\<forall>now1 w1 pod w2. deleteAndWaitGone p (now + pb_Timeout p) (probeInterval p) now w = (None, now1, w1) \<and>
       kc_Create (pb_Client p) (buildProbePod p) w1 = (Inr pod, w2) \<longrightarrow> (\<exists>w3. w' = snd (kc_Delete (pb_Client p) (probeKey p) w3)))"
proof -
  let ?d = "now + pb_Timeout p" and ?i = "probeInterval p"
  obtain out where out: "ProbeImageVolume p now w = (out, w')" and r: "r = Inr (if po_Supported out
      then \<lparr>dr_ConfiguredMode = ModeAuto, dr_EffectiveMode = DeliveryImageVolume, dr_ImageVolumeSupported = Some True, dr_ProbedAt = Some (po_CompletedAt out),
            dr_Message = Sprintf ''auto: image volume probe succeeded; using imageVolume delivery'' []\<rparr>
      else \<lparr>dr_ConfiguredMode = ModeAuto, dr_EffectiveMode = DeliveryInitContainer, dr_ImageVolumeSupported = Some False, dr_ProbedAt = Some (po_CompletedAt out),
            dr_Message = Sprintf ''auto: falling back to initContainer delivery: %s'' [msgArg (po_Reason out)]\<rparr>)"
    using assms by (auto simp: Delivery_Resolve_def ModeAuto_def ModeInitContainer_def ModeImageVolume_def split: prod.splits)
  obtain e now1 w1 where g: "deleteAndWaitGone p ?d ?i now w = (e, now1, w1)" by (metis prod_cases3)
  have t: "now \<le> now1 \<and> now1 \<le> max now ?d"
    using g waitGone_time[of p ?d ?i now] by (auto simp: deleteAndWaitGone_def split: prod.splits option.splits if_splits)
  have i: "0 < ?i" by (simp add: defaultPollInterval_def)
  obtain cr w2 where cr: "kc_Create (pb_Client p) (buildProbePod p) w1 = (cr, w2)" by (metis prod.exhaust)
  consider (none) "po_Supported out = False" "po_CompletedAt out = now1" "e \<noteq> None \<or> isl cr"
    | (made) pod w3 where "e = None" "cr = Inr pod" "w' = snd (kc_Delete (pb_Client p) (probeKey p) w3)"
        "hasImageVolume pod \<and> out = fst (waitForCompletion p ?d ?i now1 w2) \<or> \<not> po_Supported out \<and> po_CompletedAt out = now1"
    using out g cr by (auto simp: ProbeImageVolume_def Let_def unsupported_def split: option.splits sum.splits prod.splits if_splits)
  then show ?thesis
  proof cases
    case none
    then show ?thesis using r t g cr by auto
  next
    case made
    have "now \<le> po_CompletedAt out \<and> po_CompletedAt out \<le> now + max 0 (pb_Timeout p)"
      using made(4) t waitForCompletion_time[of now1 p ?d ?i w2] by auto
    moreover have "po_Supported out \<longrightarrow>
        (\<exists>w1 pod w2 n. kc_Create (pb_Client p) (buildProbePod p) w1 = (Inr pod, w2) \<and> hasImageVolume pod \<and> succeeded p (polled p ?i n w2))"
      using made(2,4) cr waitForCompletion_supported[OF i, of p ?d now1 w2] by blast
    moreover have "\<exists>w3. w' = snd (kc_Delete (pb_Client p) (probeKey p) w3)" using made(3) by blast
    ultimately show ?thesis using r by (cases "po_Supported out") simp_all
  qed
qed

text \<open>The explicit modes are taken as they are, and every other text is refused.\<close>

lemma Resolve_modes:
  "fst (Delivery_Resolve mode prober w) = Inr res \<Longrightarrow> mode \<in> {ModeInitContainer, ModeImageVolume, ModeAuto} \<and>
     dr_EffectiveMode res \<in> {DeliveryInitContainer, DeliveryImageVolume} \<and> (mode \<noteq> ModeAuto \<longrightarrow> mode = deliveryText (dr_EffectiveMode res))"
  by (auto simp: Delivery_Resolve_def ModeInitContainer_def ModeImageVolume_def ModeAuto_def split: if_splits prod.splits)

text \<open>A successful write leaves the resolution in the state ConfigMap.\<close>

lemma writeStateConfigMap_stored:
  assumes "kube_store kc (\<lambda>c. keyOf (scm_Meta c)) scm_Data" and "last_attempt retry"
    and "writeStateConfigMap retry kc fmtTime ns result w = (None, w')"
  shows "\<exists>c. kc_Get kc \<lparr>nn_Name = StateConfigMapName, nn_Namespace = ns\<rparr> w' = Inr c \<and> scm_Data c = stateData fmtTime result"
proof -
  let ?a = "writeStateAttempt kc ns (stateData fmtTime result)" and ?k = "\<lparr>nn_Name = StateConfigMapName, nn_Namespace = ns\<rparr>"
  obtain n where "retry ?a ((), w) = ?a (((snd \<circ> ?a) ^^ n) ((), w))" using assms(2) unfolding last_attempt_def by blast
  then obtain s where s: "?a s = (None, (), w')" using assms(3) by (auto simp: writeStateConfigMap_def split: prod.splits)
  show ?thesis
  proof (cases "kc_Get kc ?k (snd s)")
    case (Inl err)
    let ?c = "\<lparr>scm_Meta = objectMeta StateConfigMapName ns [(''app.kubernetes.io/managed-by'', ''flokoa-operator'')] [], scm_Data = stateData fmtTime result\<rparr>"
    obtain x where "kc_Create kc ?c (snd s) = (Inr x, w')"
      using s Inl by (auto simp: writeStateAttempt_def Let_def split: if_splits prod.splits sum.splits)
    from kube_store.create_stored[OF assms(1) this] show ?thesis by (auto simp: objectMeta_def)
  next
    case (Inr e)
    obtain x where "kc_Update kc (e\<lparr>scm_Data := stateData fmtTime result\<rparr>) (snd s) = (Inr x, w')"
      using s Inr by (auto simp: writeStateAttempt_def Let_def split: if_splits prod.splits sum.splits)
    from kube_store.update_stored[OF assms(1) this] kube_store.get_key[OF assms(1) Inr] show ?thesis by auto
  qed
qed

subsection \<open>Witness\<close>

definition seenPod :: "PodPhase \<Rightarrow> probePod" where
  "seenPod phase = \<lparr>pp_Meta = objectMeta ProbePodName ''flokoa-system'' [] [], pp_RestartPolicy = ''Never'', pp_TerminationGracePeriodSeconds = 5,
     pp_SecurityContext = RestrictedPodSecurityContext, pp_Volumes = [], pp_Containers = [], pp_Phase = phase\<rparr>"

definition quickPod :: "nat ImageProbe" where
  "quickPod =
     \<lparr>pb_Client = \<lparr>kc_Get = (\<lambda>k w. if w = 0 then Inl (ApiError StatusNotFound ''gone'') else Inr (seenPod (if w < 3 then PodPending else PodSucceeded))),
        kc_Create = (\<lambda>x w. (Inr x, 1)), kc_Update = (\<lambda>x w. (Inr x, w)), kc_UpdateStatus = (\<lambda>x w. (Inr x, w)),
        kc_Delete = (\<lambda>k w. (if w = 0 then Some (ApiError StatusNotFound '''') else None, 0))\<rparr>,
      pb_Sleep = (\<lambda>d w. Suc w), pb_Namespace = ''flokoa-system'', pb_Image = ''runner'', pb_Timeout = 60000000000, pb_PollInterval = 0\<rparr>"

theorem auto_delivery_settles_witness:
  "\<exists>res w' at. Delivery_Resolve ModeAuto (ProbeImageVolume quickPod 5) 0 = (Inr res, w') \<and> dr_EffectiveMode res = DeliveryImageVolume \<and>
     dr_ProbedAt res = Some at \<and> at \<le> 60000000005"
proof -
  let ?r = "Delivery_Resolve ModeAuto (ProbeImageVolume quickPod 5) 0"
  obtain r w' where r: "?r = (r, w')" by (metis prod.exhaust)
  have "case fst ?r of Inl e \<Rightarrow> False | Inr res \<Rightarrow> dr_EffectiveMode res = DeliveryImageVolume" by code_simp
  then show ?thesis using auto_delivery_settles[OF r] r by (auto simp: quickPod_def)
qed

end
