(* ===== verification/Converters.thy ===== *)
theory Converters
  imports Compiler
begin

text \<open>
  \<open>internal/converter\<close> for Models, ModelProviders and AgentTools: translation between the custom resources and the protobuf messages of the
  API server (\<open>server/gen/go/flokoa/agent/v1alpha1\<close>). A message is a record with the fields of the generated struct; a scalar field of
  a message has no absent value, which is where translation loses information. Metadata carries what \<open>ObjectMeta\<close> has here: no
  creation time, of the deletion time whether it is set, and of the owner references the uid of the controller. The
  string-typed \<open>metav1.ConditionStatus\<close> and its conversion to a string are the identity.
\<close>

subsection \<open>Metadata and conditions\<close>

record pbObjectMeta =
  pom_Name :: string
  pom_Namespace :: string
  pom_Uid :: string
  pom_ResourceVersion :: string
  pom_Generation :: int
  pom_Deleting :: bool
  pom_Labels :: "string smap"
  pom_Annotations :: "string smap"
  pom_OwnerUids :: "string list"
  pom_Finalizers :: "string list"

record pbCondition =
  pc_Type :: string
  pc_Status :: ConditionStatus
  pc_ObservedGeneration :: int
  pc_LastTransitionTime :: "int option"
  pc_Reason :: string
  pc_Message :: msgtext

record ListMeta =
  lm_ResourceVersion :: string
  lm_Continue :: string
  lm_RemainingItemCount :: "int option"

record pbListMeta =
  plm_ResourceVersion :: string
  plm_Continue :: string
  plm_RemainingItemCount :: int

record pbSecretKeySelector =
  psk_Name :: string
  psk_Key :: string
  psk_Optional :: bool

definition ObjectMetaToProto :: "ObjectMeta \<Rightarrow> pbObjectMeta" where
  "ObjectMetaToProto m =
     \<lparr>pom_Name = om_Name m, pom_Namespace = om_Namespace m, pom_Uid = om_UID m, pom_ResourceVersion = om_ResourceVersion m,
      pom_Generation = om_Generation m, pom_Deleting = om_Deleting m, pom_Labels = om_Labels m, pom_Annotations = om_Annotations m,
      pom_OwnerUids = (case om_OwnerUID m of None \<Rightarrow> [] | Some u \<Rightarrow> [u]), pom_Finalizers = om_Finalizers m\<rparr>"

definition ObjectMetaFromProto :: "pbObjectMeta \<Rightarrow> ObjectMeta" where
  "ObjectMetaFromProto p =
     (objectMeta (pom_Name p) (pom_Namespace p) (pom_Labels p) (pom_Annotations p))
       \<lparr>om_ResourceVersion := pom_ResourceVersion p, om_Finalizers := pom_Finalizers p\<rparr>"

text \<open>The zero time is not translated; nor is a missing one.\<close>

definition ConditionToProto :: "Condition \<Rightarrow> pbCondition" where
  "ConditionToProto c =
     \<lparr>pc_Type = c_Type c, pc_Status = c_Status c, pc_ObservedGeneration = c_ObservedGeneration c,
      pc_LastTransitionTime = (if c_LastTransitionTime c = 0 then None else Some (c_LastTransitionTime c)),
      pc_Reason = c_Reason c, pc_Message = c_Message c\<rparr>"

definition ConditionsToProto :: "Condition list \<Rightarrow> pbCondition list" where
  "ConditionsToProto = map ConditionToProto"

definition ConditionFromProto :: "pbCondition \<Rightarrow> Condition" where
  "ConditionFromProto p =
     \<lparr>c_Type = pc_Type p, c_Status = pc_Status p, c_ObservedGeneration = pc_ObservedGeneration p,
      c_LastTransitionTime = (case pc_LastTransitionTime p of None \<Rightarrow> 0 | Some t \<Rightarrow> t),
      c_Reason = pc_Reason p, c_Message = pc_Message p\<rparr>"

definition ConditionsFromProto :: "pbCondition list \<Rightarrow> Condition list" where
  "ConditionsFromProto = map ConditionFromProto"

definition ListMetaToProto :: "ListMeta \<Rightarrow> pbListMeta" where
  "ListMetaToProto m =
     \<lparr>plm_ResourceVersion = lm_ResourceVersion m, plm_Continue = lm_Continue m,
      plm_RemainingItemCount = (case lm_RemainingItemCount m of None \<Rightarrow> 0 | Some n \<Rightarrow> n)\<rparr>"

text \<open>How every pointer to a scalar is translated: absent becomes the zero value, and the zero value becomes absent.\<close>

definition orZero :: "int option \<Rightarrow> int" where
  "orZero v = (case v of None \<Rightarrow> 0 | Some n \<Rightarrow> n)"

definition nonZero :: "int \<Rightarrow> int option" where
  "nonZero n = (if n \<noteq> 0 then Some n else None)"

definition orFalse :: "bool option \<Rightarrow> bool" where
  "orFalse v = (v = Some True)"

definition whenTrue :: "bool \<Rightarrow> bool option" where
  "whenTrue b = (if b then Some True else None)"

subsection \<open>Models\<close>

datatype pbProviderType =
  PROVIDER_TYPE_UNSPECIFIED | PROVIDER_TYPE_OPENAI | PROVIDER_TYPE_ANTHROPIC | PROVIDER_TYPE_GOOGLE | PROVIDER_TYPE_BEDROCK

record pbProviderRef =
  ppr_Name :: string
  ppr_Namespace :: string

record pbModelSettings =
  pms_MaxTokens :: int
  pms_Temperature :: string
  pms_TopP :: string
  pms_TopK :: int
  pms_TimeoutSeconds :: int
  pms_ParallelToolCalls :: bool
  pms_Seed :: int
  pms_PresencePenalty :: string
  pms_FrequencyPenalty :: string
  pms_LogitBias :: "int smap"
  pms_StopSequences :: "string list"
  pms_ExtraHeaders :: "string smap"
  pms_Extra :: "gval smap option"

record pbModelSpec =
  pmd_Model :: string
  pmd_ProviderRef :: "pbProviderRef option"
  pmd_Settings :: "pbModelSettings option"

record pbResolvedProviderInfo =
  prp_Provider :: pbProviderType
  prp_Namespace :: string
  prp_Name :: string

record pbModelStatus =
  pmt_Conditions :: "pbCondition list"
  pmt_ObservedGeneration :: int
  pmt_ResolvedProvider :: "pbResolvedProviderInfo option"
  pmt_Ready :: bool

record pbModel =
  pmo_Metadata :: "pbObjectMeta option"
  pmo_Spec :: "pbModelSpec option"
  pmo_Status :: "pbModelStatus option"

record 'p pbList =
  pl_Metadata :: pbListMeta
  pl_Items :: "'p list"

fun ProviderTypeToProto :: "ProviderType \<Rightarrow> pbProviderType" where
  "ProviderTypeToProto ProviderTypeOpenAI = PROVIDER_TYPE_OPENAI"
| "ProviderTypeToProto ProviderTypeAnthropic = PROVIDER_TYPE_ANTHROPIC"
| "ProviderTypeToProto ProviderTypeGoogle = PROVIDER_TYPE_GOOGLE"
| "ProviderTypeToProto ProviderTypeBedrock = PROVIDER_TYPE_BEDROCK"
| "ProviderTypeToProto ProviderTypeNone = PROVIDER_TYPE_UNSPECIFIED"

fun ProviderTypeFromProto :: "pbProviderType \<Rightarrow> ProviderType" where
  "ProviderTypeFromProto PROVIDER_TYPE_OPENAI = ProviderTypeOpenAI"
| "ProviderTypeFromProto PROVIDER_TYPE_ANTHROPIC = ProviderTypeAnthropic"
| "ProviderTypeFromProto PROVIDER_TYPE_GOOGLE = ProviderTypeGoogle"
| "ProviderTypeFromProto PROVIDER_TYPE_BEDROCK = ProviderTypeBedrock"
| "ProviderTypeFromProto PROVIDER_TYPE_UNSPECIFIED = ProviderTypeNone"

text \<open>A \<open>structpb.Struct\<close> is the Go map it is built from and read back as; \<open>null\<close> gives an empty one. Marshalling it again writes
  the fields in key order and numbers as float64 prints them.\<close>

definition jsonToStruct :: "numlib \<Rightarrow> rawjson option \<Rightarrow> gval smap option" where
  "jsonToStruct nl j =
     (case j of None \<Rightarrow> None
      | Some raw \<Rightarrow> (case decodeMap nl raw of Inl e \<Rightarrow> None | Inr data \<Rightarrow> Some data))"

definition structToJSON :: "gval smap option \<Rightarrow> rawjson option" where
  "structToJSON s =
     (case s of None \<Rightarrow> None
      | Some m \<Rightarrow> (case canonicalize m of Inl e \<Rightarrow> None | Inr kvs \<Rightarrow> Some (Raw (JObj kvs))))"

definition ModelSettingsToProto :: "numlib \<Rightarrow> ModelSettings \<Rightarrow> pbModelSettings" where
  "ModelSettingsToProto nl s =
     \<lparr>pms_MaxTokens = orZero (ms_MaxTokens s), pms_Temperature = ms_Temperature s, pms_TopP = ms_TopP s,
      pms_TopK = orZero (ms_TopK s), pms_TimeoutSeconds = orZero (ms_TimeoutSeconds s),
      pms_ParallelToolCalls = orFalse (ms_ParallelToolCalls s), pms_Seed = orZero (ms_Seed s),
      pms_PresencePenalty = ms_PresencePenalty s, pms_FrequencyPenalty = ms_FrequencyPenalty s,
      pms_LogitBias = ms_LogitBias s, pms_StopSequences = ms_StopSequences s, pms_ExtraHeaders = ms_ExtraHeaders s,
      pms_Extra = jsonToStruct nl (ms_Extra s)\<rparr>"

definition ModelSettingsFromProto :: "pbModelSettings \<Rightarrow> ModelSettings" where
  "ModelSettingsFromProto p =
     \<lparr>ms_MaxTokens = nonZero (pms_MaxTokens p), ms_Temperature = pms_Temperature p, ms_TopP = pms_TopP p,
      ms_TopK = nonZero (pms_TopK p), ms_TimeoutSeconds = nonZero (pms_TimeoutSeconds p),
      ms_ParallelToolCalls = whenTrue (pms_ParallelToolCalls p), ms_Seed = nonZero (pms_Seed p),
      ms_PresencePenalty = pms_PresencePenalty p, ms_FrequencyPenalty = pms_FrequencyPenalty p,
      ms_LogitBias = pms_LogitBias p, ms_StopSequences = pms_StopSequences p, ms_ExtraHeaders = pms_ExtraHeaders p,
      ms_Extra = structToJSON (pms_Extra p)\<rparr>"

definition ModelSpecToProto :: "numlib \<Rightarrow> ModelSpec \<Rightarrow> pbModelSpec" where
  "ModelSpecToProto nl s =
     \<lparr>pmd_Model = mdls_Model s,
      pmd_ProviderRef = Some \<lparr>ppr_Name = pref_Name (mdls_ProviderRef s), ppr_Namespace = pref_Namespace (mdls_ProviderRef s)\<rparr>,
      pmd_Settings = map_option (ModelSettingsToProto nl) (mdls_Settings s)\<rparr>"

definition emptyProviderRef :: ProviderRef where
  "emptyProviderRef = \<lparr>pref_Name = '''', pref_Namespace = ''''\<rparr>"

definition ModelSpecFromProto :: "pbModelSpec \<Rightarrow> ModelSpec" where
  "ModelSpecFromProto p =
     \<lparr>mdls_Model = pmd_Model p,
      mdls_ProviderRef = (case pmd_ProviderRef p of None \<Rightarrow> emptyProviderRef
                          | Some r \<Rightarrow> \<lparr>pref_Name = ppr_Name r, pref_Namespace = ppr_Namespace r\<rparr>),
      mdls_Settings = map_option ModelSettingsFromProto (pmd_Settings p)\<rparr>"

definition ModelStatusToProto :: "ModelStatus \<Rightarrow> pbModelStatus" where
  "ModelStatusToProto s =
     \<lparr>pmt_Conditions = ConditionsToProto (mdlst_Conditions s), pmt_ObservedGeneration = mdlst_ObservedGeneration s,
      pmt_ResolvedProvider = map_option (\<lambda>i. \<lparr>prp_Provider = ProviderTypeToProto (rpi_Provider i),
                                prp_Namespace = rpi_Namespace i, prp_Name = rpi_Name i\<rparr>) (mdlst_ResolvedProvider s),
      pmt_Ready = mdlst_Ready s\<rparr>"

definition ModelToProto :: "numlib \<Rightarrow> Model \<Rightarrow> pbModel" where
  "ModelToProto nl m =
     \<lparr>pmo_Metadata = Some (ObjectMetaToProto (mdl_Meta m)), pmo_Spec = Some (ModelSpecToProto nl (mdl_Spec m)),
      pmo_Status = Some (ModelStatusToProto (mdl_Status m))\<rparr>"

text \<open>The zero values of the Go structs, for what a message leaves out.\<close>

definition zeroMeta :: ObjectMeta where
  "zeroMeta = objectMeta '''' '''' [] []"

definition zeroModelStatus :: ModelStatus where
  "zeroModelStatus = \<lparr>mdlst_Conditions = [], mdlst_ObservedGeneration = 0, mdlst_ResolvedProvider = None, mdlst_Ready = False\<rparr>"

definition zeroModelSpec :: ModelSpec where
  "zeroModelSpec = \<lparr>mdls_Model = '''', mdls_ProviderRef = emptyProviderRef, mdls_Settings = None\<rparr>"

definition ModelFromProto :: "pbModel \<Rightarrow> Model" where
  "ModelFromProto p =
     \<lparr>mdl_Meta = (case pmo_Metadata p of None \<Rightarrow> zeroMeta | Some m \<Rightarrow> ObjectMetaFromProto m),
      mdl_Spec = (case pmo_Spec p of None \<Rightarrow> zeroModelSpec | Some s \<Rightarrow> ModelSpecFromProto s),
      mdl_Status = zeroModelStatus\<rparr>"

definition listToProto :: "('o \<Rightarrow> 'p) \<Rightarrow> ListMeta \<Rightarrow> 'o list \<Rightarrow> 'p pbList" where
  "listToProto toProto meta items = \<lparr>pl_Metadata = ListMetaToProto meta, pl_Items = map toProto items\<rparr>"

subsection \<open>ModelProviders\<close>

record pbTLSConfig =
  ptl_InsecureSkipVerify :: bool
  ptl_CaSecretRef :: "pbSecretKeySelector option"
  ptl_UseSystemCas :: bool

record pbOpenAIProviderSpec =
  poa_BaseUrl :: string

record pbAnthropicProviderSpec =
  pan_BaseUrl :: string

record pbGoogleProviderSpec =
  pgo_Project :: string
  pgo_Location :: string
  pgo_ServiceAccountKeySecretRef :: "pbSecretKeySelector option"

record pbBedrockProviderSpec =
  pbe_Region :: string

record pbModelProviderSpec =
  pmp_ApiKeySecretRef :: "pbSecretKeySelector option"
  pmp_Openai :: "pbOpenAIProviderSpec option"
  pmp_Anthropic :: "pbAnthropicProviderSpec option"
  pmp_Google :: "pbGoogleProviderSpec option"
  pmp_Bedrock :: "pbBedrockProviderSpec option"
  pmp_Tls :: "pbTLSConfig option"
  pmp_DefaultHeaders :: "string smap"

record pbModelProviderStatus =
  ppt_Provider :: pbProviderType
  ppt_Conditions :: "pbCondition list"
  ppt_ObservedGeneration :: int
  ppt_SecretHash :: string
  ppt_Ready :: bool

record pbModelProvider =
  ppv_Metadata :: "pbObjectMeta option"
  ppv_Spec :: "pbModelProviderSpec option"
  ppv_Status :: "pbModelProviderStatus option"

text \<open>\<open>ModelProviderSpecToProto\<close> sets neither \<open>Optional\<close> on the key reference nor the CA and service account references.\<close>

definition ModelProviderSpecToProto :: "ModelProviderSpec \<Rightarrow> pbModelProviderSpec" where
  "ModelProviderSpecToProto s =
     \<lparr>pmp_ApiKeySecretRef = map_option (\<lambda>r. \<lparr>psk_Name = sks_Name r, psk_Key = sks_Key r, psk_Optional = False\<rparr>) (mps_APIKeySecretRef s),
      pmp_Openai = map_option (\<lambda>o'. \<lparr>poa_BaseUrl = oai_BaseURL o'\<rparr>) (mps_OpenAI s),
      pmp_Anthropic = map_option (\<lambda>a. \<lparr>pan_BaseUrl = ant_BaseURL a\<rparr>) (mps_Anthropic s),
      pmp_Google = map_option (\<lambda>g. \<lparr>pgo_Project = goo_Project g, pgo_Location = goo_Location g,
                                   pgo_ServiceAccountKeySecretRef = None\<rparr>) (mps_Google s),
      pmp_Bedrock = map_option (\<lambda>b. \<lparr>pbe_Region = bed_Region b\<rparr>) (mps_Bedrock s),
      pmp_Tls = map_option (\<lambda>t. \<lparr>ptl_InsecureSkipVerify = tls_InsecureSkipVerify t, ptl_CaSecretRef = None,
                                ptl_UseSystemCas = orFalse (tls_UseSystemCAs t)\<rparr>) (mps_TLS s),
      pmp_DefaultHeaders = mps_DefaultHeaders s\<rparr>"

definition ModelProviderSpecFromProto :: "pbModelProviderSpec \<Rightarrow> ModelProviderSpec" where
  "ModelProviderSpecFromProto p =
     \<lparr>mps_APIKeySecretRef = None,
      mps_OpenAI = map_option (\<lambda>o'. \<lparr>oai_BaseURL = poa_BaseUrl o'\<rparr>) (pmp_Openai p),
      mps_Anthropic = map_option (\<lambda>a. \<lparr>ant_BaseURL = pan_BaseUrl a\<rparr>) (pmp_Anthropic p),
      mps_Google = map_option (\<lambda>g. \<lparr>goo_Project = pgo_Project g, goo_Location = pgo_Location g,
                                   goo_ServiceAccountKeySecretRef = None\<rparr>) (pmp_Google p),
      mps_Bedrock = map_option (\<lambda>b. \<lparr>bed_Region = pbe_Region b\<rparr>) (pmp_Bedrock p),
      mps_TLS = None,
      mps_DefaultHeaders = pmp_DefaultHeaders p\<rparr>"

definition ModelProviderStatusToProto :: "ModelProviderStatus \<Rightarrow> pbModelProviderStatus" where
  "ModelProviderStatusToProto s =
     \<lparr>ppt_Provider = ProviderTypeToProto (mpst_Provider s), ppt_Conditions = ConditionsToProto (mpst_Conditions s),
      ppt_ObservedGeneration = mpst_ObservedGeneration s, ppt_SecretHash = mpst_SecretHash s, ppt_Ready = mpst_Ready s\<rparr>"

definition ModelProviderToProto :: "ModelProvider \<Rightarrow> pbModelProvider" where
  "ModelProviderToProto m =
     \<lparr>ppv_Metadata = Some (ObjectMetaToProto (mp_Meta m)), ppv_Spec = Some (ModelProviderSpecToProto (mp_Spec m)),
      ppv_Status = Some (ModelProviderStatusToProto (mp_Status m))\<rparr>"

definition zeroModelProviderSpec :: ModelProviderSpec where
  "zeroModelProviderSpec =
     \<lparr>mps_APIKeySecretRef = None, mps_OpenAI = None, mps_Anthropic = None, mps_Google = None, mps_Bedrock = None,
      mps_TLS = None, mps_DefaultHeaders = []\<rparr>"

definition zeroModelProviderStatus :: ModelProviderStatus where
  "zeroModelProviderStatus =
     \<lparr>mpst_Provider = ProviderTypeNone, mpst_Conditions = [], mpst_ObservedGeneration = 0, mpst_SecretHash = '''', mpst_Ready = False\<rparr>"

definition ModelProviderFromProto :: "pbModelProvider \<Rightarrow> ModelProvider" where
  "ModelProviderFromProto p =
     \<lparr>mp_Meta = (case ppv_Metadata p of None \<Rightarrow> zeroMeta | Some m \<Rightarrow> ObjectMetaFromProto m),
      mp_Spec = (case ppv_Spec p of None \<Rightarrow> zeroModelProviderSpec | Some s \<Rightarrow> ModelProviderSpecFromProto s),
      mp_Status = zeroModelProviderStatus\<rparr>"

subsection \<open>AgentTools\<close>

datatype pbAgentToolType = AGENT_TOOL_TYPE_UNSPECIFIED | AGENT_TOOL_TYPE_MCP | AGENT_TOOL_TYPE_OPENAPI

datatype pbMCPTransport = MCP_TRANSPORT_UNSPECIFIED | MCP_TRANSPORT_STREAMABLE_HTTP | MCP_TRANSPORT_SSE

record pbServiceRef =
  psr_Name :: string
  psr_Namespace :: string
  psr_Port :: int
  psr_PortName :: string

record pbSecretHeader =
  psh_Name :: string
  psh_SecretRef :: "pbSecretKeySelector option"

record pbAgentToolSpec =
  pts_Type :: pbAgentToolType
  pts_Description :: string
  pts_Url :: string
  pts_ServiceRef :: "pbServiceRef option"
  pts_Path :: string
  pts_Transport :: pbMCPTransport
  pts_Headers :: "string smap"
  pts_HeaderSecrets :: "pbSecretHeader list"
  pts_ToolPrefix :: string
  pts_AllowedTools :: "string list"
  pts_TimeoutSeconds :: int

record pbAgentToolStatus =
  ptt_Conditions :: "pbCondition list"
  ptt_ObservedGeneration :: int

record pbAgentTool =
  pto_Metadata :: "pbObjectMeta option"
  pto_Spec :: "pbAgentToolSpec option"
  pto_Status :: "pbAgentToolStatus option"

fun AgentToolTypeToProto :: "AgentToolType \<Rightarrow> pbAgentToolType" where
  "AgentToolTypeToProto AgentToolTypeMCP = AGENT_TOOL_TYPE_MCP"
| "AgentToolTypeToProto AgentToolTypeOpenAPI = AGENT_TOOL_TYPE_OPENAPI"
| "AgentToolTypeToProto AgentToolTypeUnset = AGENT_TOOL_TYPE_UNSPECIFIED"

fun AgentToolTypeFromProto :: "pbAgentToolType \<Rightarrow> AgentToolType" where
  "AgentToolTypeFromProto AGENT_TOOL_TYPE_MCP = AgentToolTypeMCP"
| "AgentToolTypeFromProto AGENT_TOOL_TYPE_OPENAPI = AgentToolTypeOpenAPI"
| "AgentToolTypeFromProto AGENT_TOOL_TYPE_UNSPECIFIED = AgentToolTypeUnset"

fun MCPTransportToProto :: "MCPTransport \<Rightarrow> pbMCPTransport" where
  "MCPTransportToProto MCPTransportStreamableHTTP = MCP_TRANSPORT_STREAMABLE_HTTP"
| "MCPTransportToProto MCPTransportSSE = MCP_TRANSPORT_SSE"
| "MCPTransportToProto MCPTransportUnset = MCP_TRANSPORT_UNSPECIFIED"

fun MCPTransportFromProto :: "pbMCPTransport \<Rightarrow> MCPTransport" where
  "MCPTransportFromProto MCP_TRANSPORT_STREAMABLE_HTTP = MCPTransportStreamableHTTP"
| "MCPTransportFromProto MCP_TRANSPORT_SSE = MCPTransportSSE"
| "MCPTransportFromProto MCP_TRANSPORT_UNSPECIFIED = MCPTransportUnset"

definition ServiceRefToProto :: "ServiceRef \<Rightarrow> pbServiceRef" where
  "ServiceRefToProto r =
     \<lparr>psr_Name = sref_Name r, psr_Namespace = sref_Namespace r, psr_Port = orZero (sref_Port r), psr_PortName = sref_PortName r\<rparr>"

definition ServiceRefFromProto :: "pbServiceRef \<Rightarrow> ServiceRef" where
  "ServiceRefFromProto p =
     \<lparr>sref_Name = psr_Name p, sref_Namespace = psr_Namespace p, sref_Port = nonZero (psr_Port p), sref_PortName = psr_PortName p\<rparr>"

definition SecretHeaderToProto :: "SecretHeader \<Rightarrow> pbSecretHeader" where
  "SecretHeaderToProto h =
     \<lparr>psh_Name = sh_Name h,
      psh_SecretRef = Some \<lparr>psk_Name = sks_Name (sh_SecretRef h), psk_Key = sks_Key (sh_SecretRef h),
                            psk_Optional = orFalse (sks_Optional (sh_SecretRef h))\<rparr>\<rparr>"

definition emptySelector :: SecretKeySelector where
  "emptySelector = \<lparr>sks_Name = '''', sks_Key = '''', sks_Optional = None\<rparr>"

definition SecretHeaderFromProto :: "pbSecretHeader \<Rightarrow> SecretHeader" where
  "SecretHeaderFromProto p =
     \<lparr>sh_Name = psh_Name p,
      sh_SecretRef = (case psh_SecretRef p of None \<Rightarrow> emptySelector
                      | Some r \<Rightarrow> \<lparr>sks_Name = psk_Name r, sks_Key = psk_Key r, sks_Optional = whenTrue (psk_Optional r)\<rparr>)\<rparr>"

definition AgentToolSpecToProto :: "AgentToolSpec \<Rightarrow> pbAgentToolSpec" where
  "AgentToolSpecToProto s =
     \<lparr>pts_Type = AgentToolTypeToProto (ats_Type s), pts_Description = ats_Description s, pts_Url = ats_URL s,
      pts_ServiceRef = map_option ServiceRefToProto (ats_ServiceRef s), pts_Path = ats_Path s,
      pts_Transport = MCPTransportToProto (ats_Transport s), pts_Headers = ats_Headers s,
      pts_HeaderSecrets = map SecretHeaderToProto (ats_HeaderSecrets s), pts_ToolPrefix = ats_ToolPrefix s,
      pts_AllowedTools = ats_AllowedTools s, pts_TimeoutSeconds = orZero (ats_TimeoutSeconds s)\<rparr>"

definition AgentToolSpecFromProto :: "pbAgentToolSpec \<Rightarrow> AgentToolSpec" where
  "AgentToolSpecFromProto p =
     \<lparr>ats_Type = AgentToolTypeFromProto (pts_Type p), ats_Description = pts_Description p, ats_URL = pts_Url p,
      ats_ServiceRef = map_option ServiceRefFromProto (pts_ServiceRef p), ats_Path = pts_Path p,
      ats_Transport = MCPTransportFromProto (pts_Transport p), ats_Headers = pts_Headers p,
      ats_HeaderSecrets = map SecretHeaderFromProto (pts_HeaderSecrets p), ats_ToolPrefix = pts_ToolPrefix p,
      ats_AllowedTools = pts_AllowedTools p, ats_TimeoutSeconds = nonZero (pts_TimeoutSeconds p)\<rparr>"

definition AgentToolStatusToProto :: "AgentToolStatus \<Rightarrow> pbAgentToolStatus" where
  "AgentToolStatusToProto s =
     \<lparr>ptt_Conditions = ConditionsToProto (atst_Conditions s), ptt_ObservedGeneration = atst_ObservedGeneration s\<rparr>"

definition AgentToolToProto :: "AgentTool \<Rightarrow> pbAgentTool" where
  "AgentToolToProto t =
     \<lparr>pto_Metadata = Some (ObjectMetaToProto (at_Meta t)), pto_Spec = Some (AgentToolSpecToProto (at_Spec t)),
      pto_Status = Some (AgentToolStatusToProto (at_Status t))\<rparr>"

definition zeroAgentToolSpec :: AgentToolSpec where
  "zeroAgentToolSpec =
     \<lparr>ats_Type = AgentToolTypeUnset, ats_Description = '''', ats_URL = '''', ats_ServiceRef = None, ats_Path = '''',
      ats_Transport = MCPTransportUnset, ats_Headers = [], ats_HeaderSecrets = [], ats_ToolPrefix = '''',
      ats_AllowedTools = [], ats_TimeoutSeconds = None\<rparr>"

definition AgentToolFromProto :: "pbAgentTool \<Rightarrow> AgentTool" where
  "AgentToolFromProto p =
     \<lparr>at_Meta = (case pto_Metadata p of None \<Rightarrow> zeroMeta | Some m \<Rightarrow> ObjectMetaFromProto m),
      at_Spec = (case pto_Spec p of None \<Rightarrow> zeroAgentToolSpec | Some s \<Rightarrow> AgentToolSpecFromProto s),
      at_Status = \<lparr>atst_Conditions = [], atst_ObservedGeneration = 0\<rparr>\<rparr>"

subsection \<open>What a round trip keeps\<close>

lemma scalar_roundtrip [simp]:
  "nonZero (orZero v) = v \<longleftrightarrow> v \<noteq> Some 0" "orZero (nonZero n) = n"
  "whenTrue (orFalse b) = b \<longleftrightarrow> b \<noteq> Some False" "orFalse (whenTrue c) = c"
  by (cases v; cases b; auto simp: nonZero_def orZero_def whenTrue_def orFalse_def)+

lemma enum_roundtrip [simp]:
  "ProviderTypeFromProto (ProviderTypeToProto pt) = pt" "AgentToolTypeFromProto (AgentToolTypeToProto tt) = tt"
  "MCPTransportFromProto (MCPTransportToProto mt) = mt"
  by (cases pt; cases tt; cases mt; simp)+

text \<open>Conditions survive unchanged: a zero transition time is what the absence of one is read as.\<close>

lemma Conditions_roundtrip [simp]: "ConditionsFromProto (ConditionsToProto cs) = cs"
  by (induction cs) (simp_all add: ConditionsFromProto_def ConditionsToProto_def ConditionFromProto_def ConditionToProto_def)

text \<open>Of the metadata the client's fields survive, the server's do not: uid, generation, deletion and owner are dropped.\<close>

lemma ObjectMeta_roundtrip:
  "ObjectMetaFromProto (ObjectMetaToProto m) =
     m\<lparr>om_UID := '''', om_Generation := 0, om_Deleting := False, om_OwnerUID := None\<rparr>"
  by (simp add: ObjectMetaFromProto_def ObjectMetaToProto_def objectMeta_def)

text \<open>A provider spec comes back without its API key reference, its TLS settings and the Google service account reference.\<close>

definition withoutSecrets :: "ModelProviderSpec \<Rightarrow> ModelProviderSpec" where
  "withoutSecrets s = s\<lparr>mps_APIKeySecretRef := None, mps_TLS := None,
     mps_Google := map_option (\<lambda>g. g\<lparr>goo_ServiceAccountKeySecretRef := None\<rparr>) (mps_Google s)\<rparr>"

lemma ModelProviderSpec_roundtrip: "ModelProviderSpecFromProto (ModelProviderSpecToProto s) = withoutSecrets s"
  by (cases "mps_OpenAI s"; cases "mps_Anthropic s"; cases "mps_Google s"; cases "mps_Bedrock s")
    (simp_all add: ModelProviderSpecFromProto_def ModelProviderSpecToProto_def withoutSecrets_def)

text \<open>Model settings come back exactly when no scalar is set to its zero value and \<open>extra\<close> is an object in the form Go prints it.\<close>

definition settingsExpressible :: "numlib \<Rightarrow> ModelSettings \<Rightarrow> bool" where
  "settingsExpressible nl s \<longleftrightarrow>
     ms_MaxTokens s \<noteq> Some 0 \<and> ms_TopK s \<noteq> Some 0 \<and> ms_TimeoutSeconds s \<noteq> Some 0 \<and>
     ms_ParallelToolCalls s \<noteq> Some False \<and> ms_Seed s \<noteq> Some 0 \<and> structToJSON (jsonToStruct nl (ms_Extra s)) = ms_Extra s"

lemma ModelSettings_roundtrip:
  "ModelSettingsFromProto (ModelSettingsToProto nl s) = s \<longleftrightarrow> settingsExpressible nl s"
  by (cases s) (simp add: ModelSettingsFromProto_def ModelSettingsToProto_def settingsExpressible_def)

lemma ModelSpec_roundtrip:
  "ModelSpecFromProto (ModelSpecToProto nl s) = s \<longleftrightarrow> (case mdls_Settings s of None \<Rightarrow> True | Some ms \<Rightarrow> settingsExpressible nl ms)"
  by (cases s; cases "mdls_Settings s") (simp_all add: ModelSpecFromProto_def ModelSpecToProto_def ModelSettings_roundtrip)

text \<open>An AgentTool spec comes back exactly when neither its port nor its timeout is zero and no secret is marked not optional.\<close>

definition toolExpressible :: "AgentToolSpec \<Rightarrow> bool" where
  "toolExpressible s \<longleftrightarrow> ats_TimeoutSeconds s \<noteq> Some 0 \<and>
     (case ats_ServiceRef s of None \<Rightarrow> True | Some r \<Rightarrow> sref_Port r \<noteq> Some 0) \<and>
     list_all (\<lambda>h. sks_Optional (sh_SecretRef h) \<noteq> Some False) (ats_HeaderSecrets s)"

lemma SecretHeader_roundtrip:
  "SecretHeaderFromProto (SecretHeaderToProto h) = h \<longleftrightarrow> sks_Optional (sh_SecretRef h) \<noteq> Some False"
  by (cases h; cases "sh_SecretRef h") (simp add: SecretHeaderFromProto_def SecretHeaderToProto_def)

lemma AgentToolSpec_roundtrip: "AgentToolSpecFromProto (AgentToolSpecToProto s) = s \<longleftrightarrow> toolExpressible s"
proof -
  have h: "map (SecretHeaderFromProto \<circ> SecretHeaderToProto) hs = hs \<longleftrightarrow>
      list_all (\<lambda>h. sks_Optional (sh_SecretRef h) \<noteq> Some False) hs" for hs
    by (induction hs) (simp_all add: SecretHeader_roundtrip)
  have r: "map_option (ServiceRefFromProto \<circ> ServiceRefToProto) sr = sr \<longleftrightarrow>
      (case sr of None \<Rightarrow> True | Some r \<Rightarrow> sref_Port r \<noteq> Some 0)" for sr
  proof (cases sr)
    case (Some a)
    then show ?thesis by (cases a) (simp add: ServiceRefFromProto_def ServiceRefToProto_def)
  qed simp
  show ?thesis
    by (cases s) (simp add: AgentToolSpecFromProto_def AgentToolSpecToProto_def toolExpressible_def h r option.map_comp conj_ac)
qed

end
