(* ===== verification/ResourceApi.thy ===== *)
theory ResourceApi
  imports Converters StatusStore
begin

text \<open>
  \<open>internal/server/errors.go\<close> and the gRPC services for Models, ModelProviders and AgentTools (\<open>model_service.go\<close>,
  \<open>modelprovider_service.go\<close>, \<open>agenttool_service.go\<close>): each handler checks its request, calls the Kubernetes API and translates the answer. The
  three services are written alike, so the handlers are instances of one shape per operation, with the resource's names and
  converters in an \<open>apiKind\<close>. The locale \<open>api_resource\<close> states what the shape relies on and proves what a client can rely on.
  Parameters: the Kubernetes client, listing, and the label selector syntax.
\<close>

subsection \<open>gRPC status errors\<close>

datatype grpcCode =
  InvalidArgument | NotFound | AlreadyExists | Aborted | FailedPrecondition | PermissionDenied | Unauthenticated | Unavailable | ResourceExhausted
  | Internal | Unimplemented

record grpcStatus =
  gs_Code :: grpcCode
  gs_Format :: string
  gs_Args :: "arg list"

type_synonym 'a grpcResult = "grpcStatus + 'a"

definition status_Errorf :: "grpcCode \<Rightarrow> string \<Rightarrow> arg list \<Rightarrow> grpcStatus" where
  "status_Errorf code fmt args = \<lparr>gs_Code = code, gs_Format = fmt, gs_Args = args\<rparr>"

definition mapKubernetesError :: "goerror \<Rightarrow> string \<Rightarrow> grpcStatus" where
  "mapKubernetesError err resourceKind =
     (let reason = reasonForError err in
      if reason = Some StatusNotFound then status_Errorf NotFound ''%s not found'' [AS resourceKind]
      else if reason = Some StatusAlreadyExists then status_Errorf AlreadyExists ''%s already exists'' [AS resourceKind]
      else if reason = Some StatusConflict then status_Errorf Aborted ''%s has been modified, please retry'' [AS resourceKind]
      else if reason = Some StatusInvalid then status_Errorf InvalidArgument ''invalid %s specification'' [AS resourceKind]
      else if reason = Some StatusForbidden then status_Errorf PermissionDenied ''insufficient permissions for %s'' [AS resourceKind]
      else if reason = Some StatusUnauthorized then status_Errorf Unauthenticated ''authentication required'' []
      else if reason = Some StatusServiceUnavailable then status_Errorf Unavailable ''service temporarily unavailable'' []
      else if reason = Some StatusTooManyRequests then status_Errorf ResourceExhausted ''too many requests, please retry later'' []
      else status_Errorf Internal ''internal server error'' [])"

definition invalidArgument :: "string \<Rightarrow> 'a grpcResult" where
  "invalidArgument msg = Inl (status_Errorf InvalidArgument msg [])"

subsection \<open>The shape of the services\<close>

text \<open>What reading a resource needs, and what writing one needs besides.\<close>

record ('o, 'p) apiReader =
  ak_Kind :: string
  ak_ToProto :: "'o \<Rightarrow> 'p"

record ('o, 'p) apiKind = "('o, 'p) apiReader" +
  ak_Field :: string
  ak_FromProto :: "'p \<Rightarrow> 'o"
  ak_PbMeta :: "'p \<Rightarrow> pbObjectMeta option"
  ak_Meta :: "'o \<Rightarrow> ObjectMeta"
  ak_SetMeta :: "(ObjectMeta \<Rightarrow> ObjectMeta) \<Rightarrow> 'o \<Rightarrow> 'o"

definition requireName :: "string \<Rightarrow> string \<Rightarrow> grpcStatus option" where
  "requireName namespace name =
     (if namespace = '''' then Some (status_Errorf InvalidArgument ''namespace is required'' [])
      else if name = '''' then Some (status_Errorf InvalidArgument ''name is required'' [])
      else None)"

definition getResource :: "('o, 'p, 'z) apiReader_scheme \<Rightarrow> ('w, 'o) kclient \<Rightarrow> string \<Rightarrow> string \<Rightarrow> 'w \<Rightarrow> 'p grpcResult" where
  "getResource K kc namespace name w =
     (case requireName namespace name of
        Some st \<Rightarrow> Inl st
      | None \<Rightarrow>
          (case kc_Get kc \<lparr>nn_Name = name, nn_Namespace = namespace\<rparr> w of
             Inl err \<Rightarrow> Inl (mapKubernetesError err (ak_Kind K))
           | Inr x \<Rightarrow> Inr (ak_ToProto K x)))"

record pbListOptions =
  plo_LabelSelector :: string
  plo_Limit :: int
  plo_Continue :: string

text \<open>The options handed to \<open>client.List\<close>; an option that is not set is absent.\<close>

record 'sel clientListOptions =
  clo_InNamespace :: "string option"
  clo_Selector :: "'sel option"
  clo_Limit :: "int option"
  clo_Continue :: "string option"

definition listOptions :: "(string \<Rightarrow> 'sel result) \<Rightarrow> string \<Rightarrow> pbListOptions option \<Rightarrow> 'sel clientListOptions grpcResult" where
  "listOptions parseSelector namespace options =
     (let base = \<lparr>clo_InNamespace = (if namespace \<noteq> '''' then Some namespace else None), clo_Selector = None,
                  clo_Limit = None, clo_Continue = None\<rparr>
      in case options of
           None \<Rightarrow> Inr base
         | Some o' \<Rightarrow>
             (let rest = base\<lparr>clo_Limit := (if plo_Limit o' > 0 then Some (plo_Limit o') else None),
                              clo_Continue := (if plo_Continue o' \<noteq> '''' then Some (plo_Continue o') else None)\<rparr>
              in if plo_LabelSelector o' = '''' then Inr rest
                 else (case parseSelector (plo_LabelSelector o') of
                         Inl err \<Rightarrow> Inl (status_Errorf InvalidArgument ''invalid label selector: %s'' [AE err])
                       | Inr sel \<Rightarrow> Inr (rest\<lparr>clo_Selector := Some sel\<rparr>))))"

definition listResources ::
  "('o, 'p, 'z) apiReader_scheme \<Rightarrow> ('sel clientListOptions \<Rightarrow> 'w \<Rightarrow> (ListMeta \<times> 'o list) result) \<Rightarrow> (string \<Rightarrow> 'sel result) \<Rightarrow>
   string \<Rightarrow> pbListOptions option \<Rightarrow> 'w \<Rightarrow> 'p pbList grpcResult" where
  "listResources K list parseSelector namespace options w =
     (case listOptions parseSelector namespace options of
        Inl st \<Rightarrow> Inl st
      | Inr opts \<Rightarrow>
          (case list opts w of
             Inl err \<Rightarrow> Inl (mapKubernetesError err (ak_Kind K))
           | Inr (meta, items) \<Rightarrow> Inr (listToProto (ak_ToProto K) meta items)))"

definition pbName :: "pbObjectMeta option \<Rightarrow> string" where
  "pbName m = (case m of None \<Rightarrow> '''' | Some m' \<Rightarrow> pom_Name m')"

text \<open>\<open>specCheck\<close> is what a service asks of the spec before it creates a resource.\<close>

definition createResource ::
  "('o, 'p) apiKind \<Rightarrow> ('p \<Rightarrow> grpcStatus option) \<Rightarrow> ('w, 'o) kclient \<Rightarrow> string \<Rightarrow> 'p option \<Rightarrow> 'w \<Rightarrow> 'p grpcResult \<times> 'w" where
  "createResource K specCheck kc namespace req w =
     (case req of
        None \<Rightarrow> (invalidArgument (ak_Field K @ '' is required''), w)
      | Some p \<Rightarrow>
          if pbName (ak_PbMeta K p) = '''' then (invalidArgument (ak_Field K @ '' metadata.name is required''), w)
          else (case specCheck p of
             Some st \<Rightarrow> (Inl st, w)
           | None \<Rightarrow>
               (let x0 = ak_FromProto K p;
                    x = (if namespace \<noteq> '''' then ak_SetMeta K (\<lambda>m. m\<lparr>om_Namespace := namespace\<rparr>) x0 else x0)
                in if om_Namespace (ak_Meta K x) = ''''
                   then (invalidArgument (''namespace is required (via request namespace or '' @ ak_Field K @ '' metadata)''), w)
                   else (case kc_Create kc x w of
                           (Inl err, w1) \<Rightarrow> (Inl (mapKubernetesError err (ak_Kind K)), w1)
                         | (Inr stored, w1) \<Rightarrow> (Inr (ak_ToProto K stored), w1)))))"

definition updateResource :: "('o, 'p) apiKind \<Rightarrow> ('w, 'o) kclient \<Rightarrow> 'p option \<Rightarrow> 'w \<Rightarrow> 'p grpcResult \<times> 'w" where
  "updateResource K kc req w =
     (case req of
        None \<Rightarrow> (invalidArgument (ak_Field K @ '' is required''), w)
      | Some p \<Rightarrow>
          (case ak_PbMeta K p of
             None \<Rightarrow> (invalidArgument (ak_Field K @ '' metadata is required''), w)
           | Some m \<Rightarrow>
               if pom_Name m = '''' \<or> pom_Namespace m = ''''
               then (invalidArgument (ak_Field K @ '' metadata.name and metadata.namespace are required''), w)
               else (case kc_Get kc \<lparr>nn_Name = pom_Name m, nn_Namespace = pom_Namespace m\<rparr> w of
                  Inl err \<Rightarrow> (Inl (mapKubernetesError err (ak_Kind K)), w)
                | Inr existing \<Rightarrow>
                    (case kc_Update kc (ak_SetMeta K (\<lambda>u. u\<lparr>om_ResourceVersion := om_ResourceVersion (ak_Meta K existing)\<rparr>) (ak_FromProto K p)) w of
                       (Inl err, w1) \<Rightarrow> (Inl (mapKubernetesError err (ak_Kind K)), w1)
                     | (Inr stored, w1) \<Rightarrow> (Inr (ak_ToProto K stored), w1)))))"

definition deleteResource :: "('o, 'p) apiKind \<Rightarrow> ('w, 'o) kclient \<Rightarrow> string \<Rightarrow> string \<Rightarrow> 'w \<Rightarrow> unit grpcResult \<times> 'w" where
  "deleteResource K kc namespace name w =
     (case requireName namespace name of
        Some st \<Rightarrow> (Inl st, w)
      | None \<Rightarrow>
          (case kc_Delete kc \<lparr>nn_Name = name, nn_Namespace = namespace\<rparr> w of
             (Some err, w1) \<Rightarrow> (Inl (mapKubernetesError err (ak_Kind K)), w1)
           | (None, w1) \<Rightarrow> (Inr (), w1)))"

definition updateResourceStatus ::
  "('o, 'p) apiKind \<Rightarrow> ('s \<Rightarrow> 'o \<Rightarrow> 'o) \<Rightarrow> ('w, 'o) kclient \<Rightarrow> string \<Rightarrow> string \<Rightarrow> 's option \<Rightarrow> 'w \<Rightarrow> 'p grpcResult \<times> 'w" where
  "updateResourceStatus K applyStatus kc namespace name status w =
     (case requireName namespace name of
        Some st \<Rightarrow> (Inl st, w)
      | None \<Rightarrow>
          (case status of
             None \<Rightarrow> (invalidArgument ''status is required'', w)
           | Some s \<Rightarrow>
               (case kc_Get kc \<lparr>nn_Name = name, nn_Namespace = namespace\<rparr> w of
                  Inl err \<Rightarrow> (Inl (mapKubernetesError err (ak_Kind K)), w)
                | Inr x \<Rightarrow>
                    (case kc_UpdateStatus kc (applyStatus s x) w of
                       (Inl err, w1) \<Rightarrow> (Inl (mapKubernetesError err (ak_Kind K)), w1)
                     | (Inr stored, w1) \<Rightarrow> (Inr (ak_ToProto K stored), w1)))))"

definition watchUnimplemented :: grpcStatus where
  "watchUnimplemented = status_Errorf Unimplemented ''watch not yet implemented: requires informer-based streaming'' []"

subsection \<open>ModelService\<close>

definition modelKind :: "numlib \<Rightarrow> (Model, pbModel) apiKind" where
  "modelKind nl =
     \<lparr>ak_Kind = ''model'', ak_ToProto = ModelToProto nl, ak_Field = ''model'', ak_FromProto = ModelFromProto,
      ak_PbMeta = pmo_Metadata, ak_Meta = mdl_Meta, ak_SetMeta = mdl_Meta_update\<rparr>"

definition GetModel :: "numlib \<Rightarrow> ('w, Model) kclient \<Rightarrow> string \<Rightarrow> string \<Rightarrow> 'w \<Rightarrow> pbModel grpcResult" where
  "GetModel nl = getResource (modelKind nl)"

definition ListModels ::
  "numlib \<Rightarrow> ('sel clientListOptions \<Rightarrow> 'w \<Rightarrow> (ListMeta \<times> Model list) result) \<Rightarrow> (string \<Rightarrow> 'sel result) \<Rightarrow> string \<Rightarrow>
   pbListOptions option \<Rightarrow> 'w \<Rightarrow> pbModel pbList grpcResult" where
  "ListModels nl = listResources (modelKind nl)"

definition createModelCheck :: "pbModel \<Rightarrow> grpcStatus option" where
  "createModelCheck p =
     (case pmo_Spec p of
        None \<Rightarrow> Some (status_Errorf InvalidArgument ''model spec is required'' [])
      | Some s \<Rightarrow>
          if pmd_Model s = '''' then Some (status_Errorf InvalidArgument ''model spec.model is required'' [])
          else if (case pmd_ProviderRef s of None \<Rightarrow> '''' | Some r \<Rightarrow> ppr_Name r) = ''''
          then Some (status_Errorf InvalidArgument ''model spec.provider_ref.name is required'' [])
          else None)"

definition CreateModel :: "numlib \<Rightarrow> ('w, Model) kclient \<Rightarrow> string \<Rightarrow> pbModel option \<Rightarrow> 'w \<Rightarrow> pbModel grpcResult \<times> 'w" where
  "CreateModel nl = createResource (modelKind nl) createModelCheck"

definition UpdateModel :: "numlib \<Rightarrow> ('w, Model) kclient \<Rightarrow> pbModel option \<Rightarrow> 'w \<Rightarrow> pbModel grpcResult \<times> 'w" where
  "UpdateModel nl = updateResource (modelKind nl)"

definition DeleteModel :: "numlib \<Rightarrow> ('w, Model) kclient \<Rightarrow> string \<Rightarrow> string \<Rightarrow> 'w \<Rightarrow> unit grpcResult \<times> 'w" where
  "DeleteModel nl = deleteResource (modelKind nl)"

definition WatchModels :: "unit grpcResult" where
  "WatchModels = Inl watchUnimplemented"

definition ResolvedProviderFromProto :: "pbResolvedProviderInfo \<Rightarrow> ResolvedProviderInfo" where
  "ResolvedProviderFromProto i =
     \<lparr>rpi_Provider = ProviderTypeFromProto (prp_Provider i), rpi_Namespace = prp_Namespace i, rpi_Name = prp_Name i\<rparr>"

definition applyModelStatus :: "pbModelStatus \<Rightarrow> Model \<Rightarrow> Model" where
  "applyModelStatus s m =
     (let st = (mdl_Status m)\<lparr>mdlst_Ready := pmt_Ready s, mdlst_ObservedGeneration := pmt_ObservedGeneration s\<rparr>;
          st = (case pmt_ResolvedProvider s of None \<Rightarrow> st
                | Some i \<Rightarrow> st\<lparr>mdlst_ResolvedProvider := Some (ResolvedProviderFromProto i)\<rparr>);
          st = (if pmt_Conditions s \<noteq> [] then st\<lparr>mdlst_Conditions := ConditionsFromProto (pmt_Conditions s)\<rparr> else st)
      in m\<lparr>mdl_Status := st\<rparr>)"

definition UpdateModelStatus ::
  "numlib \<Rightarrow> ('w, Model) kclient \<Rightarrow> string \<Rightarrow> string \<Rightarrow> pbModelStatus option \<Rightarrow> 'w \<Rightarrow> pbModel grpcResult \<times> 'w" where
  "UpdateModelStatus nl = updateResourceStatus (modelKind nl) applyModelStatus"

subsection \<open>ModelProviderService\<close>

definition modelProviderKind :: "(ModelProvider, pbModelProvider) apiKind" where
  "modelProviderKind =
     \<lparr>ak_Kind = ''model provider'', ak_ToProto = ModelProviderToProto, ak_Field = ''model_provider'',
      ak_FromProto = ModelProviderFromProto, ak_PbMeta = ppv_Metadata, ak_Meta = mp_Meta, ak_SetMeta = mp_Meta_update\<rparr>"

definition GetModelProvider :: "('w, ModelProvider) kclient \<Rightarrow> string \<Rightarrow> string \<Rightarrow> 'w \<Rightarrow> pbModelProvider grpcResult" where
  "GetModelProvider = getResource modelProviderKind"

definition ListModelProviders ::
  "('sel clientListOptions \<Rightarrow> 'w \<Rightarrow> (ListMeta \<times> ModelProvider list) result) \<Rightarrow> (string \<Rightarrow> 'sel result) \<Rightarrow> string \<Rightarrow>
   pbListOptions option \<Rightarrow> 'w \<Rightarrow> pbModelProvider pbList grpcResult" where
  "ListModelProviders = listResources modelProviderKind"

definition CreateModelProvider ::
  "('w, ModelProvider) kclient \<Rightarrow> string \<Rightarrow> pbModelProvider option \<Rightarrow> 'w \<Rightarrow> pbModelProvider grpcResult \<times> 'w" where
  "CreateModelProvider = createResource modelProviderKind (\<lambda>p. None)"

definition UpdateModelProvider :: "('w, ModelProvider) kclient \<Rightarrow> pbModelProvider option \<Rightarrow> 'w \<Rightarrow> pbModelProvider grpcResult \<times> 'w" where
  "UpdateModelProvider = updateResource modelProviderKind"

definition DeleteModelProvider :: "('w, ModelProvider) kclient \<Rightarrow> string \<Rightarrow> string \<Rightarrow> 'w \<Rightarrow> unit grpcResult \<times> 'w" where
  "DeleteModelProvider = deleteResource modelProviderKind"

definition WatchModelProviders :: "unit grpcResult" where
  "WatchModelProviders = Inl watchUnimplemented"

definition applyModelProviderStatus :: "pbModelProviderStatus \<Rightarrow> ModelProvider \<Rightarrow> ModelProvider" where
  "applyModelProviderStatus s m =
     (let st = (mp_Status m)\<lparr>mpst_Ready := ppt_Ready s, mpst_ObservedGeneration := ppt_ObservedGeneration s,
                 mpst_SecretHash := ppt_SecretHash s, mpst_Provider := ProviderTypeFromProto (ppt_Provider s)\<rparr>;
          st = (if ppt_Conditions s \<noteq> [] then st\<lparr>mpst_Conditions := ConditionsFromProto (ppt_Conditions s)\<rparr> else st)
      in m\<lparr>mp_Status := st\<rparr>)"

definition UpdateModelProviderStatus ::
  "('w, ModelProvider) kclient \<Rightarrow> string \<Rightarrow> string \<Rightarrow> pbModelProviderStatus option \<Rightarrow> 'w \<Rightarrow> pbModelProvider grpcResult \<times> 'w" where
  "UpdateModelProviderStatus = updateResourceStatus modelProviderKind applyModelProviderStatus"

subsection \<open>AgentToolService\<close>

definition agentToolKind :: "(AgentTool, pbAgentTool) apiKind" where
  "agentToolKind =
     \<lparr>ak_Kind = ''agent tool'', ak_ToProto = AgentToolToProto, ak_Field = ''agent_tool'',
      ak_FromProto = AgentToolFromProto, ak_PbMeta = pto_Metadata, ak_Meta = at_Meta, ak_SetMeta = at_Meta_update\<rparr>"

definition GetAgentTool :: "('w, AgentTool) kclient \<Rightarrow> string \<Rightarrow> string \<Rightarrow> 'w \<Rightarrow> pbAgentTool grpcResult" where
  "GetAgentTool = getResource agentToolKind"

definition ListAgentTools ::
  "('sel clientListOptions \<Rightarrow> 'w \<Rightarrow> (ListMeta \<times> AgentTool list) result) \<Rightarrow> (string \<Rightarrow> 'sel result) \<Rightarrow> string \<Rightarrow>
   pbListOptions option \<Rightarrow> 'w \<Rightarrow> pbAgentTool pbList grpcResult" where
  "ListAgentTools = listResources agentToolKind"

definition createAgentToolCheck :: "pbAgentTool \<Rightarrow> grpcStatus option" where
  "createAgentToolCheck p =
     (if pto_Spec p = None then Some (status_Errorf InvalidArgument ''agent_tool spec is required'' []) else None)"

definition CreateAgentTool ::
  "('w, AgentTool) kclient \<Rightarrow> string \<Rightarrow> pbAgentTool option \<Rightarrow> 'w \<Rightarrow> pbAgentTool grpcResult \<times> 'w" where
  "CreateAgentTool = createResource agentToolKind createAgentToolCheck"

definition UpdateAgentTool :: "('w, AgentTool) kclient \<Rightarrow> pbAgentTool option \<Rightarrow> 'w \<Rightarrow> pbAgentTool grpcResult \<times> 'w" where
  "UpdateAgentTool = updateResource agentToolKind"

definition DeleteAgentTool :: "('w, AgentTool) kclient \<Rightarrow> string \<Rightarrow> string \<Rightarrow> 'w \<Rightarrow> unit grpcResult \<times> 'w" where
  "DeleteAgentTool = deleteResource agentToolKind"

definition WatchAgentTools :: "unit grpcResult" where
  "WatchAgentTools = Inl watchUnimplemented"

definition applyAgentToolStatus :: "pbAgentToolStatus \<Rightarrow> AgentTool \<Rightarrow> AgentTool" where
  "applyAgentToolStatus s t =
     (let st = (at_Status t)\<lparr>atst_ObservedGeneration := ptt_ObservedGeneration s\<rparr>;
          st = (if ptt_Conditions s \<noteq> [] then st\<lparr>atst_Conditions := ConditionsFromProto (ptt_Conditions s)\<rparr> else st)
      in t\<lparr>at_Status := st\<rparr>)"

definition UpdateAgentToolStatus ::
  "('w, AgentTool) kclient \<Rightarrow> string \<Rightarrow> string \<Rightarrow> pbAgentToolStatus option \<Rightarrow> 'w \<Rightarrow> pbAgentTool grpcResult \<times> 'w" where
  "UpdateAgentToolStatus = updateResourceStatus agentToolKind applyAgentToolStatus"

subsection \<open>What clients of the services can rely on\<close>

text \<open>
  The services over a Kubernetes client that keeps the \<open>view\<close> of an object (its spec) as written. The converters put the metadata
  of an object into its message and take name, namespace and resource version out again.
\<close>

locale api_resource = kube_store kc "\<lambda>x. keyOf (ak_Meta K x)" view
  for kc :: "('w, 'o) kclient" and view :: "'o \<Rightarrow> 'v" and K :: "('o, 'p) apiKind" +
  assumes set_meta: "ak_Meta K (ak_SetMeta K f x) = f (ak_Meta K x)" "view (ak_SetMeta K f x) = view x"
    and to_meta: "ak_PbMeta K (ak_ToProto K x) = Some (ObjectMetaToProto (ak_Meta K x))"
    and from_meta: "ak_PbMeta K p = Some m \<Longrightarrow> ak_Meta K (ak_FromProto K p) = ObjectMetaFromProto m"
begin

lemma getResource_Inr:
  "getResource K kc ns n w = Inr p \<longleftrightarrow>
     ns \<noteq> '''' \<and> n \<noteq> '''' \<and> (\<exists>x. kc_Get kc \<lparr>nn_Name = n, nn_Namespace = ns\<rparr> w = Inr x \<and> p = ak_ToProto K x)"
  by (auto simp: getResource_def requireName_def split: sum.splits)

text \<open>A successful update stores the translated message under the name the message carries and touches nothing else.\<close>

lemma update_stores:
  assumes "updateResource K kc (Some p) w = (Inr q, w')" and "ak_PbMeta K p = Some m"
  shows "\<exists>x'. kc_Get kc \<lparr>nn_Name = pom_Name m, nn_Namespace = pom_Namespace m\<rparr> w' = Inr x' \<and> view x' = view (ak_FromProto K p) \<and>
    (\<forall>k. k \<noteq> \<lparr>nn_Name = pom_Name m, nn_Namespace = pom_Namespace m\<rparr> \<longrightarrow> kc_Get kc k w' = kc_Get kc k w)"
proof -
  obtain e s where e: "kc_Update kc (ak_SetMeta K (\<lambda>u. u\<lparr>om_ResourceVersion := om_ResourceVersion (ak_Meta K e)\<rparr>) (ak_FromProto K p)) w = (Inr s, w')"
    using assms by (auto simp: updateResource_def invalidArgument_def split: if_splits sum.splits prod.splits)
  have k: "keyOf (ak_Meta K (ak_SetMeta K (\<lambda>u. u\<lparr>om_ResourceVersion := v\<rparr>) (ak_FromProto K p))) =
      \<lparr>nn_Name = pom_Name m, nn_Namespace = pom_Namespace m\<rparr>" for v
    by (simp add: set_meta from_meta[OF assms(2)] ObjectMetaFromProto_def objectMeta_def)
  from update_stored[OF e] update_frame[OF e] show ?thesis unfolding k set_meta(2) by blast
qed

text \<open>Reading a resource and writing the answer back stores the twice translated spec, whatever was written in between.\<close>

lemma write_back:
  assumes "getResource K kc ns n w = Inr p" and "updateResource K kc (Some p) w1 = (Inr q, w2)"
  shows "\<exists>x x'. kc_Get kc \<lparr>nn_Name = n, nn_Namespace = ns\<rparr> w = Inr x \<and> p = ak_ToProto K x \<and>
    kc_Get kc \<lparr>nn_Name = n, nn_Namespace = ns\<rparr> w2 = Inr x' \<and> view x' = view (ak_FromProto K (ak_ToProto K x))"
proof -
  obtain x where x: "kc_Get kc \<lparr>nn_Name = n, nn_Namespace = ns\<rparr> w = Inr x" "p = ak_ToProto K x"
    using assms(1) by (auto simp: getResource_Inr)
  have "om_Name (ak_Meta K x) = n" "om_Namespace (ak_Meta K x) = ns" using get_key[OF x(1)] by simp_all
  then show ?thesis using update_stores[OF assms(2), unfolded x(2), OF to_meta] x by (auto simp: ObjectMetaToProto_def)
qed

text \<open>The resource version a client sends is never compared with anything.\<close>

lemma version_ignored:
  assumes "ak_PbMeta K p = Some m" and "ak_PbMeta K p' = Some (m\<lparr>pom_ResourceVersion := v\<rparr>)"
    and "\<And>u. ak_SetMeta K (\<lambda>m. m\<lparr>om_ResourceVersion := u\<rparr>) (ak_FromProto K p') = ak_SetMeta K (\<lambda>m. m\<lparr>om_ResourceVersion := u\<rparr>) (ak_FromProto K p)"
  shows "updateResource K kc (Some p') w = updateResource K kc (Some p) w"
  using assms by (simp add: updateResource_def split: sum.split)

text \<open>A created resource can be read under the namespace of the request, or of the message when the request names none.\<close>

lemma create_stores:
  assumes "createResource K check kc ns (Some p) w = (Inr q, w')" and "ak_PbMeta K p = Some m"
  shows "\<exists>x'. kc_Get kc \<lparr>nn_Name = pom_Name m, nn_Namespace = (if ns \<noteq> '''' then ns else pom_Namespace m)\<rparr> w' = Inr x' \<and>
    view x' = view (ak_FromProto K p) \<and> check p = None"
proof -
  let ?x = "if ns \<noteq> '''' then ak_SetMeta K (\<lambda>m. m\<lparr>om_Namespace := ns\<rparr>) (ak_FromProto K p) else ak_FromProto K p"
  obtain s where c: "kc_Create kc ?x w = (Inr s, w')" "check p = None"
    using assms by (auto simp: createResource_def invalidArgument_def Let_def split: if_splits option.splits sum.splits prod.splits)
  have "keyOf (ak_Meta K ?x) = \<lparr>nn_Name = pom_Name m, nn_Namespace = (if ns \<noteq> '''' then ns else pom_Namespace m)\<rparr>" "view ?x = view (ak_FromProto K p)"
    by (simp_all add: set_meta from_meta[OF assms(2)] ObjectMetaFromProto_def objectMeta_def)
  with create_stored[OF c(1)] c(2) show ?thesis by metis
qed

end

lemma modelApi: "kube_store kc (\<lambda>m. keyOf (mdl_Meta m)) mdl_Spec \<Longrightarrow> api_resource kc mdl_Spec (modelKind nl)"
  by (simp add: api_resource_def api_resource_axioms_def modelKind_def ModelToProto_def ModelFromProto_def)

lemma modelProviderApi: "kube_store kc (\<lambda>m. keyOf (mp_Meta m)) mp_Spec \<Longrightarrow> api_resource kc mp_Spec modelProviderKind"
  by (simp add: api_resource_def api_resource_axioms_def modelProviderKind_def ModelProviderToProto_def ModelProviderFromProto_def)

lemma agentToolApi: "kube_store kc (\<lambda>t. keyOf (at_Meta t)) at_Spec \<Longrightarrow> api_resource kc at_Spec agentToolKind"
  by (simp add: api_resource_def api_resource_axioms_def agentToolKind_def AgentToolToProto_def AgentToolFromProto_def)

interpretation models: api_resource "memClient (\<lambda>m. keyOf (mdl_Meta m))" mdl_Spec "modelKind nl" for nl
  by (rule modelApi[OF memClient_store])

interpretation modelProviders: api_resource "memClient (\<lambda>m. keyOf (mp_Meta m))" mp_Spec modelProviderKind
  by (rule modelProviderApi[OF memClient_store])

interpretation agentTools: api_resource "memClient (\<lambda>t. keyOf (at_Meta t))" at_Spec agentToolKind
  by (rule agentToolApi[OF memClient_store])

text \<open>What clients see of a failed call depends on the reason of the API error only: no message, name or detail of the cluster
  reaches them.\<close>

theorem mapKubernetesError_opaque:
  "reasonForError e = reasonForError e' \<Longrightarrow> mapKubernetesError e kind = mapKubernetesError e' kind"
  by (simp add: mapKubernetesError_def)

text \<open>Reading a Model through the API and writing the answer back. The stored spec is the one that was read, whatever was written to
  the Model in between, exactly when no setting is explicitly zero or false and \<open>extra\<close> is in the form Go prints; otherwise such a
  setting is unset by the update, because a message cannot tell zero from absent.\<close>

theorem Model_write_back:
  assumes "kube_store kc (\<lambda>m. keyOf (mdl_Meta m)) mdl_Spec"
    and "GetModel nl kc ns n w = Inr p" and "UpdateModel nl kc (Some p) w1 = (Inr q, w2)"
  shows "\<exists>m m'. kc_Get kc \<lparr>nn_Name = n, nn_Namespace = ns\<rparr> w = Inr m \<and> kc_Get kc \<lparr>nn_Name = n, nn_Namespace = ns\<rparr> w2 = Inr m' \<and>
    mdl_Spec m' = ModelSpecFromProto (ModelSpecToProto nl (mdl_Spec m)) \<and>
    (mdl_Spec m' = mdl_Spec m \<longleftrightarrow> (case mdls_Settings (mdl_Spec m) of None \<Rightarrow> True | Some s \<Rightarrow> settingsExpressible nl s))"
proof -
  note b = api_resource.write_back[OF modelApi[OF assms(1)] assms(2,3)[unfolded GetModel_def UpdateModel_def]]
  from b obtain m m' where "kc_Get kc \<lparr>nn_Name = n, nn_Namespace = ns\<rparr> w = Inr m" "kc_Get kc \<lparr>nn_Name = n, nn_Namespace = ns\<rparr> w2 = Inr m'"
    "mdl_Spec m' = ModelSpecFromProto (ModelSpecToProto nl (mdl_Spec m))"
    by (auto simp: modelKind_def ModelToProto_def ModelFromProto_def)
  then show ?thesis using ModelSpec_roundtrip[of nl "mdl_Spec m"] by auto
qed

text \<open>C15. Reading a ModelProvider through the API and writing the answer back, unchanged, erases its credentials: the stored spec has
  no API key reference, no TLS settings and no Google service account, also if another client had written them in between, and whatever
  provider handler resolves it then gives the runner no secret at all.\<close>

theorem ModelProvider_write_back:
  assumes "kube_store kc (\<lambda>m. keyOf (mp_Meta m)) mp_Spec"
    and "GetModelProvider kc ns n w = Inr p" and "UpdateModelProvider kc (Some p) w1 = (Inr q, w2)"
  shows "\<exists>m m'. kc_Get kc \<lparr>nn_Name = n, nn_Namespace = ns\<rparr> w = Inr m \<and> kc_Get kc \<lparr>nn_Name = n, nn_Namespace = ns\<rparr> w2 = Inr m' \<and>
    mp_Spec m' = withoutSecrets (mp_Spec m) \<and>
    (\<forall>t h r. GetProviderHandler t = Some h \<and> h m' = Inr r \<longrightarrow> rp_SecretEnvVars r = [])"
proof -
  note b = api_resource.write_back[OF modelProviderApi[OF assms(1)] assms(2,3)[unfolded GetModelProvider_def UpdateModelProvider_def]]
  from b obtain m m' where m: "kc_Get kc \<lparr>nn_Name = n, nn_Namespace = ns\<rparr> w = Inr m" "kc_Get kc \<lparr>nn_Name = n, nn_Namespace = ns\<rparr> w2 = Inr m'"
    "mp_Spec m' = withoutSecrets (mp_Spec m)"
    by (auto simp: modelProviderKind_def ModelProviderToProto_def ModelProviderFromProto_def ModelProviderSpec_roundtrip)
  have "providerSecrets m' = {}" by (cases "mps_Google (mp_Spec m)") (simp_all add: providerSecrets_def m(3) withoutSecrets_def)
  then have "rp_SecretEnvVars r = []" if "GetProviderHandler t = Some h" "h m' = Inr r" for t h r
    using handlers_meet_contract[of t m'] that by (auto simp: handlerContract_def resolvedOK_def)
  with m show ?thesis by blast
qed

text \<open>An AgentTool survives the same exactly when neither its port nor its timeout is zero and no secret is explicitly not optional.\<close>

theorem AgentTool_write_back:
  assumes "kube_store kc (\<lambda>t. keyOf (at_Meta t)) at_Spec"
    and "GetAgentTool kc ns n w = Inr p" and "UpdateAgentTool kc (Some p) w1 = (Inr q, w2)"
  shows "\<exists>t t'. kc_Get kc \<lparr>nn_Name = n, nn_Namespace = ns\<rparr> w = Inr t \<and> kc_Get kc \<lparr>nn_Name = n, nn_Namespace = ns\<rparr> w2 = Inr t' \<and>
    (at_Spec t' = at_Spec t \<longleftrightarrow> toolExpressible (at_Spec t))"
proof -
  note b = api_resource.write_back[OF agentToolApi[OF assms(1)] assms(2,3)[unfolded GetAgentTool_def UpdateAgentTool_def]]
  from b obtain t t' where "kc_Get kc \<lparr>nn_Name = n, nn_Namespace = ns\<rparr> w = Inr t" "kc_Get kc \<lparr>nn_Name = n, nn_Namespace = ns\<rparr> w2 = Inr t'"
    "at_Spec t' = AgentToolSpecFromProto (AgentToolSpecToProto (at_Spec t))"
    by (auto simp: agentToolKind_def AgentToolToProto_def AgentToolFromProto_def)
  then show ?thesis using AgentToolSpec_roundtrip[of "at_Spec t"] by auto
qed

subsection \<open>Witnesses\<close>

definition seededModel :: Model where
  "seededModel =
     \<lparr>mdl_Meta = objectMeta ''m'' ''ns'' [] [],
      mdl_Spec = \<lparr>mdls_Model = ''gpt'', mdls_ProviderRef = \<lparr>pref_Name = ''p'', pref_Namespace = ''''\<rparr>,
        mdls_Settings = Some \<lparr>ms_MaxTokens = None, ms_Temperature = '''', ms_TopP = '''', ms_TopK = None, ms_TimeoutSeconds = None,
          ms_ParallelToolCalls = Some False, ms_Seed = Some 0, ms_PresencePenalty = '''', ms_FrequencyPenalty = '''',
          ms_LogitBias = [], ms_StopSequences = [], ms_ExtraHeaders = [], ms_Extra = None\<rparr>\<rparr>,
      mdl_Status = zeroModelStatus\<rparr>"

theorem Model_write_back_witness:
  "\<exists>p q w2 m'. GetModel zeroFloats (memClient (\<lambda>m. keyOf (mdl_Meta m))) ''ns'' ''m'' [(\<lparr>nn_Name = ''m'', nn_Namespace = ''ns''\<rparr>, seededModel)] = Inr p \<and>
     UpdateModel zeroFloats (memClient (\<lambda>m. keyOf (mdl_Meta m))) (Some p) [(\<lparr>nn_Name = ''m'', nn_Namespace = ''ns''\<rparr>, seededModel)] = (Inr q, w2) \<and>
     kc_Get (memClient (\<lambda>m. keyOf (mdl_Meta m))) \<lparr>nn_Name = ''m'', nn_Namespace = ''ns''\<rparr> w2 = Inr m' \<and> mdl_Spec m' \<noteq> mdl_Spec seededModel"
proof -
  let ?kc = "memClient (\<lambda>m. keyOf (mdl_Meta m))" and ?k = "\<lparr>nn_Name = ''m'', nn_Namespace = ''ns''\<rparr>"
  let ?w = "[(?k, seededModel)]"
  have g: "kc_Get ?kc ?k ?w = Inr seededModel" by (simp add: memClient_def seededModel_def objectMeta_def)
  obtain p where p: "GetModel zeroFloats ?kc ''ns'' ''m'' ?w = Inr p"
    using g by (simp add: GetModel_def getResource_def requireName_def)
  then have "p = ModelToProto zeroFloats seededModel" using g by (simp add: GetModel_def getResource_def requireName_def modelKind_def)
  then obtain q w2 where q: "UpdateModel zeroFloats ?kc (Some p) ?w = (Inr q, w2)"
    by (simp add: UpdateModel_def updateResource_def modelKind_def ModelToProto_def ModelFromProto_def ObjectMetaToProto_def
        ObjectMetaFromProto_def seededModel_def objectMeta_def memClient_def)
  from Model_write_back[OF memClient_store p q] g obtain m' where
    "kc_Get ?kc ?k w2 = Inr m'" "mdl_Spec m' \<noteq> mdl_Spec seededModel"
    by (auto simp: seededModel_def settingsExpressible_def)
  with p q show ?thesis by blast
qed

theorem ModelProvider_write_back_witness:
  "\<exists>p q w2 m'. GetModelProvider (memClient (\<lambda>m. keyOf (mp_Meta m))) ''ns'' ''p'' [(\<lparr>nn_Name = ''p'', nn_Namespace = ''ns''\<rparr>, someProvider)] = Inr p \<and>
     UpdateModelProvider (memClient (\<lambda>m. keyOf (mp_Meta m))) (Some p) [(\<lparr>nn_Name = ''p'', nn_Namespace = ''ns''\<rparr>, someProvider)] = (Inr q, w2) \<and>
     kc_Get (memClient (\<lambda>m. keyOf (mp_Meta m))) \<lparr>nn_Name = ''p'', nn_Namespace = ''ns''\<rparr> w2 = Inr m' \<and> mps_APIKeySecretRef (mp_Spec m') = None"
proof -
  let ?kc = "memClient (\<lambda>m. keyOf (mp_Meta m))" and ?k = "\<lparr>nn_Name = ''p'', nn_Namespace = ''ns''\<rparr>"
  let ?w = "[(?k, someProvider)]"
  have g: "kc_Get ?kc ?k ?w = Inr someProvider" by (simp add: memClient_def someProvider_def objectMeta_def)
  obtain p where p: "GetModelProvider ?kc ''ns'' ''p'' ?w = Inr p"
    using g by (simp add: GetModelProvider_def getResource_def requireName_def)
  then have "p = ModelProviderToProto someProvider" using g by (simp add: GetModelProvider_def getResource_def requireName_def modelProviderKind_def)
  then obtain q w2 where q: "UpdateModelProvider ?kc (Some p) ?w = (Inr q, w2)"
    by (simp add: UpdateModelProvider_def updateResource_def modelProviderKind_def ModelProviderToProto_def ModelProviderFromProto_def
        ObjectMetaToProto_def ObjectMetaFromProto_def someProvider_def objectMeta_def memClient_def)
  from ModelProvider_write_back[OF memClient_store p q] p q show ?thesis by (auto simp: withoutSecrets_def)
qed

end
