(* ===== verification/TriggerApi.thy ===== *)
theory TriggerApi
  imports ResourceApi TriggerServer
begin

text \<open>
  \<open>internal/converter/agenttrigger.go\<close> and \<open>internal/server/agenttrigger_service.go\<close>: AgentTriggers over the API. The messages for event source, event
  bus, filters, Agent references, task settings, dead letter sink and counters have the fields of the resource's structs, with the same
  types, and are copied field by field: the model uses one record for both.
\<close>

subsection \<open>Messages\<close>

datatype pbAgentTriggerPhase =
  AGENT_TRIGGER_PHASE_UNSPECIFIED | AGENT_TRIGGER_PHASE_PENDING | AGENT_TRIGGER_PHASE_RUNNING | AGENT_TRIGGER_PHASE_FAILED

record pbTriggerPushAuth =
  pta_Schemes :: "string list"
  pta_CredentialsRef :: "pbSecretKeySelector option"

record pbPushNotificationTarget =
  ppn_Url :: string
  ppn_AgentRef :: "AgentRef option"
  ppn_Authentication :: "pbTriggerPushAuth option"
  ppn_TokenRef :: "pbSecretKeySelector option"

record pbTriggerLimits =
  ptm_MaxInvocationsPerHour :: int
  ptm_MaxConcurrentTasks :: int
  ptm_TokenBudgetPerEvent :: int
  ptm_TokenBudgetPerHour :: int
  ptm_DeadLetterSink :: "DeadLetterSinkRef option"

record pbAgentTriggerSpec =
  pgs_EventSource :: "EventSourceRef option"
  pgs_EventBus :: "EventBusRef option"
  pgs_Filter :: "TriggerFilter option"
  pgs_Agent :: "AgentRef option"
  pgs_Task :: "TriggerTaskConfig option"
  pgs_PushNotification :: "pbPushNotificationTarget option"
  pgs_Limits :: "pbTriggerLimits option"

record pbAgentTriggerStatus =
  pgt_Phase :: pbAgentTriggerPhase
  pgt_Conditions :: "pbCondition list"
  pgt_ObservedGeneration :: int
  pgt_AgentEndpoint :: string
  pgt_SensorName :: string
  pgt_Invocations :: "InvocationCounters option"

record pbAgentTrigger =
  pgr_Metadata :: "pbObjectMeta option"
  pgr_Spec :: "pbAgentTriggerSpec option"
  pgr_Status :: "pbAgentTriggerStatus option"

subsection \<open>Conversion\<close>

definition SecretKeySelectorToProto :: "SecretKeySelector \<Rightarrow> pbSecretKeySelector" where
  "SecretKeySelectorToProto sel = \<lparr>psk_Name = sks_Name sel, psk_Key = sks_Key sel, psk_Optional = orFalse (sks_Optional sel)\<rparr>"

definition SecretKeySelectorFromProto :: "pbSecretKeySelector \<Rightarrow> SecretKeySelector" where
  "SecretKeySelectorFromProto p = \<lparr>sks_Name = psk_Name p, sks_Key = psk_Key p, sks_Optional = Some (psk_Optional p)\<rparr>"

text \<open>Filters are copied entry by entry.\<close>

definition TriggerFilterToProto :: "TriggerFilter \<Rightarrow> TriggerFilter" where
  "TriggerFilterToProto f =
     \<lparr>tf_Data = map (\<lambda>d. \<lparr>df_Path = df_Path d, df_Type = df_Type d, df_Value = df_Value d, df_Comparator = df_Comparator d\<rparr>) (tf_Data f),
      tf_Exprs = map (\<lambda>e. \<lparr>ef_Expr = ef_Expr e, ef_Fields = ef_Fields e\<rparr>) (tf_Exprs f)\<rparr>"

definition TriggerFilterFromProto :: "TriggerFilter \<Rightarrow> TriggerFilter" where
  "TriggerFilterFromProto p =
     \<lparr>tf_Data = map (\<lambda>d. \<lparr>df_Path = df_Path d, df_Type = df_Type d, df_Value = df_Value d, df_Comparator = df_Comparator d\<rparr>) (tf_Data p),
      tf_Exprs = map (\<lambda>e. \<lparr>ef_Expr = ef_Expr e, ef_Fields = ef_Fields e\<rparr>) (tf_Exprs p)\<rparr>"

definition PushNotificationTargetToProto :: "PushNotificationTarget \<Rightarrow> pbPushNotificationTarget" where
  "PushNotificationTargetToProto t =
     \<lparr>ppn_Url = pnt_URL t, ppn_AgentRef = pnt_AgentRef t,
      ppn_Authentication = map_option (\<lambda>a. \<lparr>pta_Schemes = tpa_Schemes a,
          pta_CredentialsRef = map_option SecretKeySelectorToProto (tpa_CredentialsRef a)\<rparr>) (pnt_Authentication t),
      ppn_TokenRef = map_option SecretKeySelectorToProto (pnt_TokenRef t)\<rparr>"

definition PushNotificationTargetFromProto :: "pbPushNotificationTarget \<Rightarrow> PushNotificationTarget" where
  "PushNotificationTargetFromProto p =
     \<lparr>pnt_AgentRef = ppn_AgentRef p, pnt_URL = ppn_Url p,
      pnt_Authentication = map_option (\<lambda>a. \<lparr>tpa_Schemes = pta_Schemes a,
          tpa_CredentialsRef = map_option SecretKeySelectorFromProto (pta_CredentialsRef a)\<rparr>) (ppn_Authentication p),
      pnt_TokenRef = map_option SecretKeySelectorFromProto (ppn_TokenRef p)\<rparr>"

definition TriggerLimitsToProto :: "TriggerLimits \<Rightarrow> pbTriggerLimits" where
  "TriggerLimitsToProto l =
     \<lparr>ptm_MaxInvocationsPerHour = orZero (tl_MaxInvocationsPerHour l), ptm_MaxConcurrentTasks = orZero (tl_MaxConcurrentTasks l),
      ptm_TokenBudgetPerEvent = orZero (tl_TokenBudgetPerEvent l), ptm_TokenBudgetPerHour = orZero (tl_TokenBudgetPerHour l),
      ptm_DeadLetterSink = tl_DeadLetterSink l\<rparr>"

definition whenPositive :: "int \<Rightarrow> int option" where
  "whenPositive n = (if n > 0 then Some n else None)"

definition TriggerLimitsFromProto :: "pbTriggerLimits \<Rightarrow> TriggerLimits" where
  "TriggerLimitsFromProto p =
     \<lparr>tl_MaxInvocationsPerHour = whenPositive (ptm_MaxInvocationsPerHour p), tl_MaxConcurrentTasks = whenPositive (ptm_MaxConcurrentTasks p),
      tl_TokenBudgetPerEvent = whenPositive (ptm_TokenBudgetPerEvent p), tl_TokenBudgetPerHour = whenPositive (ptm_TokenBudgetPerHour p),
      tl_DeadLetterSink = ptm_DeadLetterSink p\<rparr>"

definition AgentTriggerSpecToProto :: "AgentTriggerSpec \<Rightarrow> pbAgentTriggerSpec" where
  "AgentTriggerSpecToProto s =
     \<lparr>pgs_EventSource = Some (trs_EventSource s), pgs_EventBus = trs_EventBus s,
      pgs_Filter = map_option TriggerFilterToProto (trs_Filter s), pgs_Agent = Some (trs_Agent s), pgs_Task = trs_Task s,
      pgs_PushNotification = map_option PushNotificationTargetToProto (trs_PushNotification s),
      pgs_Limits = map_option TriggerLimitsToProto (trs_Limits s)\<rparr>"

definition AgentTriggerSpecFromProto :: "pbAgentTriggerSpec \<Rightarrow> AgentTriggerSpec" where
  "AgentTriggerSpecFromProto p =
     \<lparr>trs_EventSource = (case pgs_EventSource p of None \<Rightarrow> \<lparr>es_Name = '''', es_EventName = ''''\<rparr> | Some e \<Rightarrow> e),
      trs_EventBus = pgs_EventBus p, trs_Filter = map_option TriggerFilterFromProto (pgs_Filter p),
      trs_Agent = (case pgs_Agent p of None \<Rightarrow> \<lparr>ar_Name = '''', ar_Namespace = ''''\<rparr> | Some a \<Rightarrow> a),
      trs_Task = pgs_Task p, trs_PushNotification = map_option PushNotificationTargetFromProto (pgs_PushNotification p),
      trs_Limits = map_option TriggerLimitsFromProto (pgs_Limits p)\<rparr>"

fun AgentTriggerPhaseToProto :: "AgentTriggerPhase \<Rightarrow> pbAgentTriggerPhase" where
  "AgentTriggerPhaseToProto AgentTriggerPhasePending = AGENT_TRIGGER_PHASE_PENDING"
| "AgentTriggerPhaseToProto AgentTriggerPhaseRunning = AGENT_TRIGGER_PHASE_RUNNING"
| "AgentTriggerPhaseToProto AgentTriggerPhaseFailed = AGENT_TRIGGER_PHASE_FAILED"
| "AgentTriggerPhaseToProto AgentTriggerPhaseUnset = AGENT_TRIGGER_PHASE_UNSPECIFIED"

fun AgentTriggerPhaseFromProto :: "pbAgentTriggerPhase \<Rightarrow> AgentTriggerPhase" where
  "AgentTriggerPhaseFromProto AGENT_TRIGGER_PHASE_PENDING = AgentTriggerPhasePending"
| "AgentTriggerPhaseFromProto AGENT_TRIGGER_PHASE_RUNNING = AgentTriggerPhaseRunning"
| "AgentTriggerPhaseFromProto AGENT_TRIGGER_PHASE_FAILED = AgentTriggerPhaseFailed"
| "AgentTriggerPhaseFromProto AGENT_TRIGGER_PHASE_UNSPECIFIED = AgentTriggerPhaseUnset"

definition AgentTriggerStatusToProto :: "AgentTriggerStatus \<Rightarrow> pbAgentTriggerStatus" where
  "AgentTriggerStatusToProto s =
     \<lparr>pgt_Phase = AgentTriggerPhaseToProto (trst_Phase s), pgt_Conditions = ConditionsToProto (trst_Conditions s),
      pgt_ObservedGeneration = trst_ObservedGeneration s, pgt_AgentEndpoint = trst_AgentEndpoint s,
      pgt_SensorName = trst_SensorName s, pgt_Invocations = trst_Invocations s\<rparr>"

definition AgentTriggerToProto :: "AgentTrigger \<Rightarrow> pbAgentTrigger" where
  "AgentTriggerToProto t =
     \<lparr>pgr_Metadata = Some (ObjectMetaToProto (tr_Meta t)), pgr_Spec = Some (AgentTriggerSpecToProto (tr_Spec t)),
      pgr_Status = Some (AgentTriggerStatusToProto (tr_Status t))\<rparr>"

definition zeroTriggerSpec :: AgentTriggerSpec where
  "zeroTriggerSpec = AgentTriggerSpecFromProto
     \<lparr>pgs_EventSource = None, pgs_EventBus = None, pgs_Filter = None, pgs_Agent = None, pgs_Task = None,
      pgs_PushNotification = None, pgs_Limits = None\<rparr>"

definition zeroTriggerStatus :: AgentTriggerStatus where
  "zeroTriggerStatus =
     \<lparr>trst_Phase = AgentTriggerPhaseUnset, trst_SensorName = '''', trst_AgentEndpoint = '''', trst_Invocations = None,
      trst_Conditions = [], trst_ObservedGeneration = 0\<rparr>"

definition AgentTriggerFromProto :: "pbAgentTrigger \<Rightarrow> AgentTrigger" where
  "AgentTriggerFromProto p =
     \<lparr>tr_Meta = (case pgr_Metadata p of None \<Rightarrow> zeroMeta | Some m \<Rightarrow> ObjectMetaFromProto m),
      tr_Spec = (case pgr_Spec p of None \<Rightarrow> zeroTriggerSpec | Some s \<Rightarrow> AgentTriggerSpecFromProto s),
      tr_Status = zeroTriggerStatus\<rparr>"

subsection \<open>AgentTriggerService\<close>

definition agentTriggerKind :: "(AgentTrigger, pbAgentTrigger) apiKind" where
  "agentTriggerKind =
     \<lparr>ak_Kind = ''agent trigger'', ak_ToProto = AgentTriggerToProto, ak_Field = ''agent_trigger'',
      ak_FromProto = AgentTriggerFromProto, ak_PbMeta = pgr_Metadata, ak_Meta = tr_Meta, ak_SetMeta = tr_Meta_update\<rparr>"

definition GetAgentTrigger :: "('w, AgentTrigger) kclient \<Rightarrow> string \<Rightarrow> string \<Rightarrow> 'w \<Rightarrow> pbAgentTrigger grpcResult" where
  "GetAgentTrigger = getResource agentTriggerKind"

definition ListAgentTriggers ::
  "('sel clientListOptions \<Rightarrow> 'w \<Rightarrow> (ListMeta \<times> AgentTrigger list) result) \<Rightarrow> (string \<Rightarrow> 'sel result) \<Rightarrow> string \<Rightarrow>
   pbListOptions option \<Rightarrow> 'w \<Rightarrow> pbAgentTrigger pbList grpcResult" where
  "ListAgentTriggers = listResources agentTriggerKind"

definition createAgentTriggerCheck :: "pbAgentTrigger \<Rightarrow> grpcStatus option" where
  "createAgentTriggerCheck p =
     (if pgr_Spec p = None then Some (status_Errorf InvalidArgument ''agent_trigger spec is required'' []) else None)"

definition CreateAgentTrigger ::
  "('w, AgentTrigger) kclient \<Rightarrow> string \<Rightarrow> pbAgentTrigger option \<Rightarrow> 'w \<Rightarrow> pbAgentTrigger grpcResult \<times> 'w" where
  "CreateAgentTrigger = createResource agentTriggerKind createAgentTriggerCheck"

definition UpdateAgentTrigger :: "('w, AgentTrigger) kclient \<Rightarrow> pbAgentTrigger option \<Rightarrow> 'w \<Rightarrow> pbAgentTrigger grpcResult \<times> 'w" where
  "UpdateAgentTrigger = updateResource agentTriggerKind"

definition DeleteAgentTrigger :: "('w, AgentTrigger) kclient \<Rightarrow> string \<Rightarrow> string \<Rightarrow> 'w \<Rightarrow> unit grpcResult \<times> 'w" where
  "DeleteAgentTrigger = deleteResource agentTriggerKind"

definition WatchAgentTriggers :: "unit grpcResult" where
  "WatchAgentTriggers = Inl watchUnimplemented"

definition applyAgentTriggerStatus :: "pbAgentTriggerStatus \<Rightarrow> AgentTrigger \<Rightarrow> AgentTrigger" where
  "applyAgentTriggerStatus s t =
     (let st = (tr_Status t)\<lparr>trst_Phase := AgentTriggerPhaseFromProto (pgt_Phase s), trst_ObservedGeneration := pgt_ObservedGeneration s,
                 trst_AgentEndpoint := pgt_AgentEndpoint s, trst_SensorName := pgt_SensorName s\<rparr>;
          st = (if pgt_Conditions s \<noteq> [] then st\<lparr>trst_Conditions := ConditionsFromProto (pgt_Conditions s)\<rparr> else st);
          st = (case pgt_Invocations s of None \<Rightarrow> st | Some i \<Rightarrow> st\<lparr>trst_Invocations := Some i\<rparr>)
      in t\<lparr>tr_Status := st\<rparr>)"

definition UpdateAgentTriggerStatus ::
  "('w, AgentTrigger) kclient \<Rightarrow> string \<Rightarrow> string \<Rightarrow> pbAgentTriggerStatus option \<Rightarrow> 'w \<Rightarrow> pbAgentTrigger grpcResult \<times> 'w" where
  "UpdateAgentTriggerStatus = updateResourceStatus agentTriggerKind applyAgentTriggerStatus"

subsection \<open>A trigger written back behaves the same\<close>

lemma agentTriggerApi: "kube_store kc (\<lambda>t. keyOf (tr_Meta t)) tr_Spec \<Longrightarrow> api_resource kc tr_Spec agentTriggerKind"
  by (simp add: api_resource_def api_resource_axioms_def agentTriggerKind_def AgentTriggerToProto_def AgentTriggerFromProto_def)

interpretation agentTriggers: api_resource "memClient (\<lambda>t. keyOf (tr_Meta t))" tr_Spec agentTriggerKind
  by (rule agentTriggerApi[OF memClient_store])

text \<open>A round trip sets every \<open>optional\<close> and unsets every limit that is not positive; nothing else changes.\<close>

definition explicitSelector :: "SecretKeySelector \<Rightarrow> SecretKeySelector" where
  "explicitSelector s = s\<lparr>sks_Optional := Some (orFalse (sks_Optional s))\<rparr>"

definition positiveLimits :: "TriggerLimits \<Rightarrow> TriggerLimits" where
  "positiveLimits l = l\<lparr>tl_MaxInvocationsPerHour := activeLimit (tl_MaxInvocationsPerHour l),
     tl_MaxConcurrentTasks := activeLimit (tl_MaxConcurrentTasks l), tl_TokenBudgetPerEvent := activeLimit (tl_TokenBudgetPerEvent l),
     tl_TokenBudgetPerHour := activeLimit (tl_TokenBudgetPerHour l)\<rparr>"

definition explicitPush :: "PushNotificationTarget \<Rightarrow> PushNotificationTarget" where
  "explicitPush t = t\<lparr>pnt_TokenRef := map_option explicitSelector (pnt_TokenRef t),
     pnt_Authentication := map_option (\<lambda>a. a\<lparr>tpa_CredentialsRef := map_option explicitSelector (tpa_CredentialsRef a)\<rparr>) (pnt_Authentication t)\<rparr>"

lemma whenPositive_orZero: "whenPositive (orZero v) = activeLimit v"
  by (cases v) (simp_all add: whenPositive_def orZero_def activeLimit_def)

lemma selector_roundtrip: "SecretKeySelectorFromProto (SecretKeySelectorToProto s) = explicitSelector s"
  by (simp add: SecretKeySelectorFromProto_def SecretKeySelectorToProto_def explicitSelector_def)

lemma push_roundtrip: "PushNotificationTargetFromProto (PushNotificationTargetToProto t) = explicitPush t"
  by (cases "pnt_Authentication t")
    (simp_all add: PushNotificationTargetFromProto_def PushNotificationTargetToProto_def explicitPush_def option.map_comp comp_def selector_roundtrip)

lemma filter_roundtrip: "TriggerFilterFromProto (TriggerFilterToProto f) = f"
proof -
  have "map (\<lambda>d. \<lparr>df_Path = df_Path d, df_Type = df_Type d, df_Value = df_Value d, df_Comparator = df_Comparator d\<rparr>) ds = ds"
    for ds :: "DataFilter list" by (induction ds) simp_all
  moreover have "map (\<lambda>e. \<lparr>ef_Expr = ef_Expr e, ef_Fields = ef_Fields e\<rparr>) es = es" for es :: "ExprFilter list" by (induction es) simp_all
  ultimately show ?thesis by (simp add: TriggerFilterFromProto_def TriggerFilterToProto_def del: map_map map_eq_conv)
qed

lemma AgentTriggerSpec_roundtrip:
  "AgentTriggerSpecFromProto (AgentTriggerSpecToProto s) =
     s\<lparr>trs_PushNotification := map_option explicitPush (trs_PushNotification s), trs_Limits := map_option positiveLimits (trs_Limits s)\<rparr>"
proof -
  have "TriggerLimitsFromProto (TriggerLimitsToProto l) = positiveLimits l" for l
    by (simp add: TriggerLimitsFromProto_def TriggerLimitsToProto_def positiveLimits_def whenPositive_orZero)
  then show ?thesis
    by (simp add: AgentTriggerSpecFromProto_def AgentTriggerSpecToProto_def option.map_comp comp_def push_roundtrip filter_roundtrip option.map_ident)
qed

lemma resolvePushConfig_explicit: "resolvePushConfig deps w ns (explicitPush t) = resolvePushConfig deps w ns t"
proof -
  have "readSecretKey deps w what (explicitSelector ref) ns = readSecretKey deps w what ref ns" for what ref
    by (simp add: readSecretKey_def explicitSelector_def split: sum.split option.split)
  moreover have "pushURL deps w ns (explicitPush t) = pushURL deps w ns t" by (simp add: pushURL_def explicitPush_def split: option.split)
  ultimately show ?thesis unfolding resolvePushConfig_def
    by (cases "pnt_Authentication t"; cases "pnt_TokenRef t"; cases "tpa_CredentialsRef (the (pnt_Authentication t))")
      (simp_all add: explicitPush_def)
qed

lemma Check_positive:
  assumes "activeLimit (lc_MaxInvocationsPerHour a) = activeLimit (lc_MaxInvocationsPerHour b)"
    and "activeLimit (lc_MaxConcurrentTasks a) = activeLimit (lc_MaxConcurrentTasks b)"
  shows "TriggerLimiter_Check name ns (Some a) now l = TriggerLimiter_Check name ns (Some b) now l"
  by (simp only: TriggerLimiter_Check_def option.case assms)

lemma activeLimit_twice [simp]: "activeLimit (activeLimit v) = activeLimit v"
  by (auto simp: activeLimit_def split: option.splits)

text \<open>C16. Reading an AgentTrigger through the API and writing the answer back changes its spec, because explicit zero limits and absent \<open>optional\<close>
  flags have no message form, but not its behaviour: it validates alike, targets the same Agent, resolves the same push configuration,
  and the limiter of the invoke endpoint decides every event as before.\<close>

theorem AgentTrigger_write_back:
  assumes "kube_store kc (\<lambda>t. keyOf (tr_Meta t)) tr_Spec"
    and "GetAgentTrigger kc ns n w = Inr p" and "UpdateAgentTrigger kc (Some p) w1 = (Inr q, w2)"
  shows "\<exists>t t'. kc_Get kc \<lparr>nn_Name = n, nn_Namespace = ns\<rparr> w = Inr t \<and> kc_Get kc \<lparr>nn_Name = n, nn_Namespace = ns\<rparr> w2 = Inr t' \<and>
    (Trigger_ValidateSpec t' = Trigger_ValidateSpec t) \<and> triggerAgentKey t' = triggerAgentKey t \<and>
    (\<forall>(deps :: 'x tdeps) v. triggerPush deps v t' = triggerPush deps v t) \<and>
    (\<forall>e pc now l. TriggerLimiter_Check n ns (tcf_Limits (buildTriggerConfig t' e pc)) now l =
       TriggerLimiter_Check n ns (tcf_Limits (buildTriggerConfig t e pc)) now l) \<and>
    (\<forall>e pc. (buildTriggerConfig t' e pc)\<lparr>tcf_Limits := None\<rparr> = (buildTriggerConfig t e pc)\<lparr>tcf_Limits := None\<rparr>)"
proof -
  note b = api_resource.write_back[OF agentTriggerApi[OF assms(1)] assms(2,3)[unfolded GetAgentTrigger_def UpdateAgentTrigger_def]]
  from b obtain t t' where g: "kc_Get kc \<lparr>nn_Name = n, nn_Namespace = ns\<rparr> w = Inr t" "kc_Get kc \<lparr>nn_Name = n, nn_Namespace = ns\<rparr> w2 = Inr t'"
    and spec: "tr_Spec t' = (tr_Spec t)\<lparr>trs_PushNotification := map_option explicitPush (trs_PushNotification (tr_Spec t)),
      trs_Limits := map_option positiveLimits (trs_Limits (tr_Spec t))\<rparr>"
    by (auto simp: agentTriggerKind_def AgentTriggerToProto_def AgentTriggerFromProto_def AgentTriggerSpec_roundtrip)
  have meta: "om_Name (tr_Meta t') = om_Name (tr_Meta t)" "om_Namespace (tr_Meta t') = om_Namespace (tr_Meta t)"
    using kube_store.get_key[OF assms(1) g(1)] kube_store.get_key[OF assms(1) g(2)] by simp_all
  have "Trigger_ValidateSpec t' = Trigger_ValidateSpec t"
    by (cases "trs_PushNotification (tr_Spec t)") (simp_all add: Trigger_ValidateSpec_def Let_def spec explicitPush_def pushTargetError_def)
  moreover have "triggerAgentKey t' = triggerAgentKey t" by (simp add: triggerAgentKey_def Let_def spec meta)
  moreover have "triggerPush deps v t' = triggerPush deps v t" for deps :: "'x tdeps" and v
    by (cases "trs_PushNotification (tr_Spec t)") (simp_all add: triggerPush_def spec meta resolvePushConfig_explicit)
  moreover have "TriggerLimiter_Check n ns (tcf_Limits (buildTriggerConfig t' e pc)) now l =
      TriggerLimiter_Check n ns (tcf_Limits (buildTriggerConfig t e pc)) now l" for e pc now l
    by (cases "trs_Limits (tr_Spec t)") (simp_all add: buildTriggerConfig_def spec positiveLimits_def, rule Check_positive, simp_all)
  moreover have "(buildTriggerConfig t' e pc)\<lparr>tcf_Limits := None\<rparr> = (buildTriggerConfig t e pc)\<lparr>tcf_Limits := None\<rparr>" for e pc
    by (simp add: buildTriggerConfig_def triggerMetadata_def spec meta)
  ultimately show ?thesis using g by blast
qed

definition limitedTrigger :: AgentTrigger where
  "limitedTrigger =
     \<lparr>tr_Meta = objectMeta ''orders'' ''shop'' [] [],
      tr_Spec = zeroTriggerSpec\<lparr>trs_Agent := \<lparr>ar_Name = ''a'', ar_Namespace = ''''\<rparr>,
        trs_Limits := Some \<lparr>tl_MaxInvocationsPerHour = Some 0, tl_MaxConcurrentTasks = Some 3, tl_TokenBudgetPerEvent = None,
          tl_TokenBudgetPerHour = None, tl_DeadLetterSink = None\<rparr>\<rparr>,
      tr_Status = zeroTriggerStatus\<rparr>"

theorem AgentTrigger_write_back_witness:
  "\<exists>p q w2 t'. GetAgentTrigger (memClient (\<lambda>t. keyOf (tr_Meta t))) ''shop'' ''orders'' [(\<lparr>nn_Name = ''orders'', nn_Namespace = ''shop''\<rparr>, limitedTrigger)] = Inr p \<and>
     UpdateAgentTrigger (memClient (\<lambda>t. keyOf (tr_Meta t))) (Some p) [(\<lparr>nn_Name = ''orders'', nn_Namespace = ''shop''\<rparr>, limitedTrigger)] = (Inr q, w2) \<and>
     kc_Get (memClient (\<lambda>t. keyOf (tr_Meta t))) \<lparr>nn_Name = ''orders'', nn_Namespace = ''shop''\<rparr> w2 = Inr t' \<and>
     triggerAgentKey t' = \<lparr>nn_Name = ''a'', nn_Namespace = ''shop''\<rparr>"
proof -
  let ?kc = "memClient (\<lambda>t. keyOf (tr_Meta t))" and ?k = "\<lparr>nn_Name = ''orders'', nn_Namespace = ''shop''\<rparr>"
  let ?w = "[(?k, limitedTrigger)]"
  have g: "kc_Get ?kc ?k ?w = Inr limitedTrigger" by (simp add: memClient_def limitedTrigger_def objectMeta_def)
  obtain p where p: "GetAgentTrigger ?kc ''shop'' ''orders'' ?w = Inr p"
    using g by (simp add: GetAgentTrigger_def getResource_def requireName_def)
  then have "p = AgentTriggerToProto limitedTrigger" using g by (simp add: GetAgentTrigger_def getResource_def requireName_def agentTriggerKind_def)
  then obtain q w2 where q: "UpdateAgentTrigger ?kc (Some p) ?w = (Inr q, w2)"
    by (simp add: UpdateAgentTrigger_def updateResource_def agentTriggerKind_def AgentTriggerToProto_def AgentTriggerFromProto_def
        ObjectMetaToProto_def ObjectMetaFromProto_def limitedTrigger_def objectMeta_def memClient_def)
  have k: "triggerAgentKey limitedTrigger = \<lparr>nn_Name = ''a'', nn_Namespace = ''shop''\<rparr>"
    by (simp add: triggerAgentKey_def limitedTrigger_def objectMeta_def)
  obtain t t' where t: "kc_Get ?kc ?k ?w = Inr t" "kc_Get ?kc ?k w2 = Inr t'" "triggerAgentKey t' = triggerAgentKey t"
    using AgentTrigger_write_back[OF memClient_store p q] by blast
  then have "t = limitedTrigger" using g by simp
  then show ?thesis using p q t(2,3) unfolding k [symmetric] by blast
qed

end
