(* ===== verification/ServerAuth.thy ===== *)
theory ServerAuth
  imports ResourceApi
begin

text \<open>
  \<open>internal/server/auth.go\<close>, \<open>interceptors.go\<close>, the interceptor chain of \<open>server.go\<close> and \<open>authMiddleware\<close> of \<open>watch.go\<close>: what stands between a
  request and a handler. A handler is a function from its context, request and the world to an outcome and the world; a panic is an
  outcome of its own. Parameters: OIDC discovery, token verification and the decoding of claims.
\<close>

subsection \<open>Authentication\<close>

record Claims =
  clm_Subject :: string
  clm_Email :: string
  clm_Name :: string
  clm_Groups :: "string list"

text \<open>Of a request's context: the incoming gRPC metadata, keys in lower case, and the claims put there by authentication.\<close>

record grpcContext =
  gc_Metadata :: "string list smap option"
  gc_Claims :: "Claims option"

definition ClaimsFromContext :: "grpcContext \<Rightarrow> Claims option" where
  "ClaimsFromContext ctx = gc_Claims ctx"

definition contextWithClaims :: "grpcContext \<Rightarrow> Claims \<Rightarrow> grpcContext" where
  "contextWithClaims ctx c = ctx\<lparr>gc_Claims := Some c\<rparr>"

record AuthInterceptorConfig =
  aic_IssuerURL :: string
  aic_Audience :: string
  aic_PublicMethods :: "string list"

text \<open>The verifier checks a raw token; \<open>idToken.Claims\<close> decodes what it returned.\<close>

record 'tok oidcVerifier =
  ov_Verify :: "string \<Rightarrow> 'tok result"
  ov_Claims :: "'tok \<Rightarrow> Claims result"

record 'tok AuthInterceptor =
  ai_verifier :: "'tok oidcVerifier"
  ai_publicMethods :: "bool smap"

text \<open>\<open>newProvider\<close> is OIDC discovery; a provider makes a verifier for a client id.\<close>

definition NewAuthInterceptor ::
  "(string \<Rightarrow> (string \<Rightarrow> 'tok oidcVerifier) result) \<Rightarrow> AuthInterceptorConfig \<Rightarrow> 'tok AuthInterceptor result" where
  "NewAuthInterceptor newProvider cfg =
     bindR (newProvider (aic_IssuerURL cfg)) (\<lambda>provider.
       Inr \<lparr>ai_verifier = provider (aic_Audience cfg),
            ai_publicMethods = fold (\<lambda>m. mput m True) (aic_PublicMethods cfg) []\<rparr>)"

definition isPublic :: "'tok AuthInterceptor \<Rightarrow> string \<Rightarrow> bool" where
  "isPublic a m = (mget (ai_publicMethods a) m = Some True)"

definition unauthenticated :: "string \<Rightarrow> 'a grpcResult" where
  "unauthenticated msg = Inl (status_Errorf Unauthenticated msg [])"

definition authenticate :: "'tok AuthInterceptor \<Rightarrow> grpcContext \<Rightarrow> Claims grpcResult" where
  "authenticate a ctx =
     (case gc_Metadata ctx of
        None \<Rightarrow> unauthenticated ''missing metadata''
      | Some md \<Rightarrow>
          (case mget md ''authorization'' of
             Some (token # _) \<Rightarrow>
               if \<not> hasPrefix token ''Bearer '' then unauthenticated ''invalid authorization format''
               else (case ov_Verify (ai_verifier a) (trimPrefix token ''Bearer '') of
                  Inl err \<Rightarrow> unauthenticated ''invalid token''
                | Inr idToken \<Rightarrow>
                    (case ov_Claims (ai_verifier a) idToken of
                       Inl err \<Rightarrow> unauthenticated ''invalid token claims''
                     | Inr claims \<Rightarrow> Inr claims))
           | _ \<Rightarrow> unauthenticated ''missing authorization header''))"

definition VerifyHTTPToken :: "'tok AuthInterceptor \<Rightarrow> string \<Rightarrow> Claims result" where
  "VerifyHTTPToken a rawToken = bindR (ov_Verify (ai_verifier a) rawToken) (ov_Claims (ai_verifier a))"

subsection \<open>Interceptors\<close>

datatype 'resp outcome = Returned "'resp option" "grpcStatus option" | Panicked string

type_synonym ('req, 'resp, 'w) unaryHandler = "grpcContext \<Rightarrow> 'req \<Rightarrow> 'w \<Rightarrow> 'resp outcome \<times> 'w"
type_synonym ('req, 'resp, 'w) unaryInterceptor = "string \<Rightarrow> ('req, 'resp, 'w) unaryHandler \<Rightarrow> ('req, 'resp, 'w) unaryHandler"

text \<open>A stream handler gets its context from the stream; the authenticated stream is the same stream with another context.\<close>

record 's ServerStream =
  ss_Context :: grpcContext
  ss_Stream :: 's

type_synonym ('s, 'w) streamHandler = "'s ServerStream \<Rightarrow> 'w \<Rightarrow> unit outcome \<times> 'w"
type_synonym ('s, 'w) streamInterceptor = "string \<Rightarrow> ('s, 'w) streamHandler \<Rightarrow> ('s, 'w) streamHandler"

text \<open>Logging passes the handler's result through; a panic passes through as well.\<close>

definition LoggingUnaryInterceptor :: "('req, 'resp, 'w) unaryInterceptor" where
  "LoggingUnaryInterceptor m handler ctx req w = handler ctx req w"

definition LoggingStreamInterceptor :: "('s, 'w) streamInterceptor" where
  "LoggingStreamInterceptor m handler ss w = handler ss w"

definition recovered :: "'resp outcome \<times> 'w \<Rightarrow> 'resp outcome \<times> 'w" where
  "recovered r = (case r of
     (Panicked p, w) \<Rightarrow> (Returned None (Some (status_Errorf Internal ''internal server error'' [])), w)
   | (Returned resp err, w) \<Rightarrow> (Returned resp err, w))"

definition RecoveryUnaryInterceptor :: "('req, 'resp, 'w) unaryInterceptor" where
  "RecoveryUnaryInterceptor m handler ctx req w = recovered (handler ctx req w)"

definition RecoveryStreamInterceptor :: "('s, 'w) streamInterceptor" where
  "RecoveryStreamInterceptor m handler ss w = recovered (handler ss w)"

definition AuthInterceptor_Unary :: "'tok AuthInterceptor \<Rightarrow> ('req, 'resp, 'w) unaryInterceptor" where
  "AuthInterceptor_Unary a m handler ctx req w =
     (if isPublic a m then handler ctx req w
      else (case authenticate a ctx of
              Inl err \<Rightarrow> (Returned None (Some err), w)
            | Inr claims \<Rightarrow> handler (contextWithClaims ctx claims) req w))"

definition AuthInterceptor_Stream :: "'tok AuthInterceptor \<Rightarrow> ('s, 'w) streamInterceptor" where
  "AuthInterceptor_Stream a m handler ss w =
     (if isPublic a m then handler ss w
      else (case authenticate a (ss_Context ss) of
              Inl err \<Rightarrow> (Returned None (Some err), w)
            | Inr claims \<Rightarrow> handler (ss\<lparr>ss_Context := contextWithClaims (ss_Context ss) claims\<rparr>) w))"

text \<open>\<open>grpc.ChainUnaryInterceptor\<close>: the first interceptor is the outermost. \<open>NewServer\<close> adds authentication last, if it is configured.\<close>

definition chain :: "(string \<Rightarrow> 'h \<Rightarrow> 'h) list \<Rightarrow> string \<Rightarrow> 'h \<Rightarrow> 'h" where
  "chain is m handler = foldr (\<lambda>i h. i m h) is handler"

definition unaryInterceptors :: "'tok AuthInterceptor option \<Rightarrow> ('req, 'resp, 'w) unaryInterceptor list" where
  "unaryInterceptors auth =
     [LoggingUnaryInterceptor, RecoveryUnaryInterceptor] @ (case auth of None \<Rightarrow> [] | Some a \<Rightarrow> [AuthInterceptor_Unary a])"

definition streamInterceptors :: "'tok AuthInterceptor option \<Rightarrow> ('s, 'w) streamInterceptor list" where
  "streamInterceptors auth =
     [LoggingStreamInterceptor, RecoveryStreamInterceptor] @ (case auth of None \<Rightarrow> [] | Some a \<Rightarrow> [AuthInterceptor_Stream a])"

definition serveUnary :: "'tok AuthInterceptor option \<Rightarrow> ('req, 'resp, 'w) unaryInterceptor" where
  "serveUnary auth = chain (unaryInterceptors auth)"

definition serveStream :: "'tok AuthInterceptor option \<Rightarrow> ('s, 'w) streamInterceptor" where
  "serveStream auth = chain (streamInterceptors auth)"

subsection \<open>HTTP endpoints\<close>

text \<open>What the middleware reads of a request; a missing header or parameter is the empty string.\<close>

record httpCredentials =
  hc_Authorization :: string
  hc_AccessToken :: string

definition unauthorizedCode :: int where
  "unauthorizedCode = 401"

text \<open>The status of a response written by the middleware, or what the protected handler does.\<close>

definition authMiddleware ::
  "'tok AuthInterceptor option \<Rightarrow> ('w \<Rightarrow> int \<times> 'w) \<Rightarrow> httpCredentials \<Rightarrow> 'w \<Rightarrow> int \<times> 'w" where
  "authMiddleware auth serveNext r w =
     (case auth of
        None \<Rightarrow> serveNext w
      | Some a \<Rightarrow>
          (let authHeader = (if hc_Authorization r = '''' \<and> hc_AccessToken r \<noteq> '''' then ''Bearer '' @ hc_AccessToken r
                             else hc_Authorization r)
           in if authHeader = '''' then (unauthorizedCode, w)
              else if length authHeader < length ''Bearer '' \<or> take (length ''Bearer '') authHeader \<noteq> ''Bearer '' then (unauthorizedCode, w)
              else (case VerifyHTTPToken a (drop (length ''Bearer '') authHeader) of
                      Inl err \<Rightarrow> (unauthorizedCode, w)
                    | Inr c \<Rightarrow> serveNext w)))"

subsection \<open>What the guards guarantee\<close>

definition bearerClaims :: "'tok AuthInterceptor \<Rightarrow> string \<Rightarrow> Claims \<Rightarrow> bool" where
  "bearerClaims a header c \<longleftrightarrow>
     (\<exists>raw tok. header = ''Bearer '' @ raw \<and> ov_Verify (ai_verifier a) raw = Inr tok \<and> ov_Claims (ai_verifier a) tok = Inr c)"

lemma authenticate_Inr:
  "authenticate a ctx = Inr c \<longleftrightarrow>
     (\<exists>md header more. gc_Metadata ctx = Some md \<and> mget md ''authorization'' = Some (header # more) \<and> bearerClaims a header c)"
proof -
  have "trimPrefix (''Bearer '' @ raw) ''Bearer '' = raw" for raw by (simp add: trimPrefix_def hasPrefix_def)
  then show ?thesis
    unfolding authenticate_def bearerClaims_def unauthenticated_def
    by (auto simp: hasPrefix_append split: option.splits list.splits sum.splits)
qed

lemma authenticate_Inl: "authenticate a ctx = Inl st \<Longrightarrow> gs_Code st = Unauthenticated"
  by (auto simp: authenticate_def unauthenticated_def status_Errorf_def split: option.splits list.splits sum.splits if_splits)

lemma VerifyHTTPToken_Inr: "VerifyHTTPToken a raw = Inr c \<longleftrightarrow> bearerClaims a (''Bearer '' @ raw) c"
  by (auto simp: VerifyHTTPToken_def bearerClaims_def bindR_Inr_conv)

lemma authMiddleware_passes:
  "authMiddleware (Some a) serveNext r w =
     (if \<exists>c. bearerClaims a (if hc_Authorization r = '''' \<and> hc_AccessToken r \<noteq> '''' then ''Bearer '' @ hc_AccessToken r else hc_Authorization r) c
      then serveNext w else (unauthorizedCode, w))"
proof -
  define h where "h = (if hc_Authorization r = '''' \<and> hc_AccessToken r \<noteq> '''' then ''Bearer '' @ hc_AccessToken r else hc_Authorization r)"
  have m: "authMiddleware (Some a) serveNext r w =
      (if \<not> hasPrefix h ''Bearer '' then (unauthorizedCode, w)
       else case VerifyHTTPToken a (drop (length ''Bearer '') h) of Inl err \<Rightarrow> (unauthorizedCode, w) | Inr c \<Rightarrow> serveNext w)"
    unfolding authMiddleware_def h_def [symmetric] by (auto simp: Let_def hasPrefix_def)
  show ?thesis
  proof (cases "hasPrefix h ''Bearer ''")
    case True
    then obtain raw where raw: "h = ''Bearer '' @ raw" by (auto simp: hasPrefix_append)
    then show ?thesis using m VerifyHTTPToken_Inr[of a raw] True unfolding h_def [symmetric] by (cases "VerifyHTTPToken a raw") auto
  next
    case False
    then show ?thesis using m unfolding h_def [symmetric] by (auto simp: bearerClaims_def hasPrefix_append)
  qed
qed

lemma recovered_returns [simp]: "fst (recovered r) \<noteq> Panicked p"
  by (auto simp: recovered_def split: prod.splits outcome.splits)

text \<open>Streams are guarded the same way.\<close>

lemma serveStream_guarded:
  "serveStream (Some a) m h ss w =
     (if isPublic a m then recovered (h ss w)
      else case authenticate a (ss_Context ss) of Inl st \<Rightarrow> (Returned None (Some st), w)
           | Inr c \<Rightarrow> recovered (h (ss\<lparr>ss_Context := (ss_Context ss)\<lparr>gc_Claims := Some c\<rparr>\<rparr>) w))"
  by (simp add: serveStream_def chain_def streamInterceptors_def LoggingStreamInterceptor_def RecoveryStreamInterceptor_def
      AuthInterceptor_Stream_def contextWithClaims_def recovered_def split: sum.splits)

text \<open>The methods that need no token are exactly the configured ones.\<close>

lemma NewAuthInterceptor_public:
  assumes "NewAuthInterceptor newProvider cfg = Inr a"
  shows "isPublic a m \<longleftrightarrow> m \<in> set (aic_PublicMethods cfg)"
proof -
  have "mget (fold (\<lambda>m. mput m True) ms acc) m = Some True \<longleftrightarrow> m \<in> set ms \<or> mget acc m = Some True" for ms and acc :: "bool smap"
    by (induction ms arbitrary: acc) (auto simp: mget_mput)
  then show ?thesis using assms by (auto simp: NewAuthInterceptor_def isPublic_def bindR_Inr_conv)
qed


subsection \<open>Witness\<close>

definition demoClaims :: Claims where
  "demoClaims = \<lparr>clm_Subject = ''u'', clm_Email = ''u@x'', clm_Name = ''U'', clm_Groups = []\<rparr>"

definition demoAuth :: "unit AuthInterceptor" where
  "demoAuth = \<lparr>ai_verifier = \<lparr>ov_Verify = (\<lambda>t. if t = ''good'' then Inr () else Inl (Errorf ''bad signature'' [])), ov_Claims = (\<lambda>t. Inr demoClaims)\<rparr>,
     ai_publicMethods = []\<rparr>"


end
