(* ===== verification/ServerStart.thy ===== *)
theory ServerStart
  imports ServerAuth
begin

text \<open>
  \<open>internal/config/config.go\<close> and the part of \<open>cmd/server/main.go\<close> that turns the configuration into the server's authentication. The environment is a function; an
  unset variable is the empty string, as \<open>os.Getenv\<close> has it. \<open>strconv\<close> is written out. Parameter: OIDC discovery.
\<close>

subsection \<open>Environment variables\<close>

fun decimalValue :: "nat \<Rightarrow> string \<Rightarrow> nat option" where
  "decimalValue acc [] = Some acc"
| "decimalValue acc (c # cs) = (if is_digit c then decimalValue (10 * acc + (of_char c - 48)) cs else None)"

text \<open>\<open>strconv.Atoi\<close>: an optional sign, at least one digit, and the range of a 64-bit integer.\<close>

definition Atoi :: "string \<Rightarrow> int option" where
  "Atoi s =
     (let neg = hasPrefix s ''-''; ds = (if neg \<or> hasPrefix s ''+'' then tl s else s) in
      if ds = '''' then None
      else (case decimalValue 0 ds of
              None \<Rightarrow> None
            | Some n \<Rightarrow> (let i = (if neg then - int n else int n) in if - (2 ^ 63) \<le> i \<and> i < 2 ^ 63 then Some i else None)))"

definition ParseBool :: "string \<Rightarrow> bool option" where
  "ParseBool s =
     (if s \<in> set [''1'', ''t'', ''T'', ''true'', ''TRUE'', ''True''] then Some True
      else if s \<in> set [''0'', ''f'', ''F'', ''false'', ''FALSE'', ''False''] then Some False
      else None)"

fun splitComma :: "string \<Rightarrow> string \<Rightarrow> string list" where
  "splitComma acc [] = [rev acc]"
| "splitComma acc (c # cs) = (if c = CHR '','' then rev acc # splitComma [] cs else splitComma (c # acc) cs)"

type_synonym environment = "string \<Rightarrow> string"

definition getEnvInt :: "environment \<Rightarrow> string \<Rightarrow> int \<Rightarrow> int" where
  "getEnvInt env key defaultVal =
     (if env key \<noteq> '''' then (case Atoi (env key) of Some i \<Rightarrow> i | None \<Rightarrow> defaultVal) else defaultVal)"

definition getEnvBool :: "environment \<Rightarrow> string \<Rightarrow> bool \<Rightarrow> bool" where
  "getEnvBool env key defaultVal =
     (if env key \<noteq> '''' then (case ParseBool (env key) of Some b \<Rightarrow> b | None \<Rightarrow> defaultVal) else defaultVal)"

definition getEnvStr :: "environment \<Rightarrow> string \<Rightarrow> string \<Rightarrow> string" where
  "getEnvStr env key defaultVal = (if env key \<noteq> '''' then env key else defaultVal)"

definition getEnvList :: "environment \<Rightarrow> string \<Rightarrow> string list \<Rightarrow> string list" where
  "getEnvList env key defaultVal =
     (if env key \<noteq> '''' then filter (\<lambda>p. p \<noteq> '''') (map trimSpace (splitComma '''' (env key))) else defaultVal)"

record ServerAuthConfig =
  acf_Enabled :: bool
  acf_IssuerURL :: string
  acf_ClientID :: string
  acf_AllowedOrigins :: "string list"

record ServerConfig =
  scf_Port :: int
  scf_HTTPPort :: int
  scf_MetricsPort :: int
  scf_HealthPort :: int
  scf_ReflectionEnabled :: bool
  scf_Auth :: ServerAuthConfig

definition LoadServerConfig :: "environment \<Rightarrow> ServerConfig" where
  "LoadServerConfig env =
     \<lparr>scf_Port = getEnvInt env ''GRPC_PORT'' 50051, scf_HTTPPort = getEnvInt env ''HTTP_PORT'' 8080,
      scf_MetricsPort = getEnvInt env ''METRICS_PORT'' 9090, scf_HealthPort = getEnvInt env ''HEALTH_PORT'' 8081,
      scf_ReflectionEnabled = getEnvBool env ''GRPC_REFLECTION_ENABLED'' True,
      scf_Auth = \<lparr>acf_Enabled = getEnvBool env ''AUTH_ENABLED'' False, acf_IssuerURL = getEnvStr env ''AUTH_OIDC_ISSUER_URL'' '''',
        acf_ClientID = getEnvStr env ''AUTH_OIDC_CLIENT_ID'' ''flokoa'', acf_AllowedOrigins = getEnvList env ''AUTH_CORS_ALLOWED_ORIGINS'' []\<rparr>\<rparr>"

subsection \<open>Start of the server\<close>

definition PublicGRPCMethods :: "string list" where
  "PublicGRPCMethods = [''/grpc.health.v1.Health/Check'', ''/grpc.health.v1.Health/Watch'']"

text \<open>The interceptor the process serves with; an error stands for the exit of the process.\<close>

definition startAuth ::
  "(string \<Rightarrow> (string \<Rightarrow> 'tok oidcVerifier) result) \<Rightarrow> ServerAuthConfig \<Rightarrow> 'tok AuthInterceptor option result" where
  "startAuth newProvider auth =
     (if acf_Enabled auth then
        (if acf_IssuerURL auth = '''' then Inl (Errorf ''AUTH_OIDC_ISSUER_URL is required when auth is enabled'' [])
         else bindR (NewAuthInterceptor newProvider
                \<lparr>aic_IssuerURL = acf_IssuerURL auth, aic_Audience = acf_ClientID auth, aic_PublicMethods = PublicGRPCMethods\<rparr>)
              (\<lambda>a. Inr (Some a)))
      else Inr None)"

subsection \<open>What the environment decides\<close>

lemma getEnvBool_True: "getEnvBool env key False \<longleftrightarrow> env key \<in> set [''1'', ''t'', ''T'', ''true'', ''TRUE'', ''True'']"
  by (auto simp: getEnvBool_def ParseBool_def)

lemma getEnvList_trimmed: "p \<in> set (getEnvList env key []) \<Longrightarrow> p \<noteq> ''''"
  by (auto simp: getEnvList_def split: if_splits)

lemma getEnvInt_range: "env key \<noteq> '''' \<Longrightarrow> getEnvInt env key d = d \<or> (- (2 ^ 63) \<le> getEnvInt env key d \<and> getEnvInt env key d < 2 ^ 63)"
  by (auto simp: getEnvInt_def Atoi_def Let_def split: option.splits if_splits)

definition truthy :: "string list" where
  "truthy = [''1'', ''t'', ''T'', ''true'', ''TRUE'', ''True'']"

definition noCredentials :: httpCredentials where
  "noCredentials = \<lparr>hc_Authorization = '''', hc_AccessToken = ''''\<rparr>"

lemma noCredentials_refused: "authMiddleware (Some a) serveNext noCredentials w = (unauthorizedCode, w)"
  by (simp add: authMiddleware_def noCredentials_def)

lemma anonymous_refused:
  assumes "\<not> isPublic a m" and "gc_Metadata ctx = None"
  shows "serveUnary (Some a) m h ctx req w = (Returned None (Some (status_Errorf Unauthenticated ''missing metadata'' [])), w)"
  using assms
  by (simp add: serveUnary_def chain_def unaryInterceptors_def LoggingUnaryInterceptor_def RecoveryUnaryInterceptor_def
      AuthInterceptor_Unary_def authenticate_def unauthenticated_def recovered_def)

lemma open_served: "serveUnary None m h ctx req w = recovered (h ctx req w)"
  by (simp add: serveUnary_def chain_def unaryInterceptors_def LoggingUnaryInterceptor_def RecoveryUnaryInterceptor_def)


subsection \<open>Witness\<close>

definition envOf :: "string smap \<Rightarrow> environment" where
  "envOf kvs k = (case mget kvs k of Some v \<Rightarrow> v | None \<Rightarrow> '''')"

definition demoProvider :: "string \<Rightarrow> (string \<Rightarrow> unit oidcVerifier) result" where
  "demoProvider url = Inr (\<lambda>client. ai_verifier demoAuth)"


end
