(* ===== verification/AgentApi.thy ===== *)
theory AgentApi
  imports ResourceApi AgentAdmission
begin

text \<open>
  \<open>internal/converter/agent.go\<close> and \<open>internal/server/agent_service.go\<close>: the read-only Agent service. The messages keep the fields the converter sets; a nil
  pointer is reached only for the optional parts, since every caller passes the address of a struct. Parameters: the Kubernetes client, label selection, and how
  the JSON library reads numbers.
\<close>

subsection \<open>Agent messages\<close>

datatype pbAgentPhase = AGENT_PHASE_UNSPECIFIED | AGENT_PHASE_PENDING | AGENT_PHASE_RUNNING | AGENT_PHASE_FAILED

datatype pbIsolationTier = ISOLATION_TIER_UNSPECIFIED | ISOLATION_TIER_SHARED | ISOLATION_TIER_SESSION

datatype pbInputOutputMode = INPUT_OUTPUT_MODE_UNSPECIFIED | INPUT_OUTPUT_MODE_TEXT | INPUT_OUTPUT_MODE_JSON

record pbNamespacedRef =
  pnr_Name :: string
  pnr_Namespace :: string

record pbCapabilityAttachment =
  pca_Ref :: pbNamespacedRef
  pca_Config :: "gval smap option"

record pbAgentCapabilities =
  pac_PushNotifications :: bool
  pac_StateTransitionHistory :: bool
  pac_Streaming :: bool

record pbAgentSkill =
  pas_Id :: string
  pas_Name :: string
  pas_Description :: string
  pas_Tags :: "string list"
  pas_Examples :: "string list"
  pas_InputModes :: "string list"
  pas_OutputModes :: "string list"

record pbAgentCard =
  pcd_Name :: string
  pcd_Description :: string
  pcd_Version :: string
  pcd_DefaultInputModes :: "pbInputOutputMode list"
  pcd_DefaultOutputModes :: "pbInputOutputMode list"
  pcd_Capabilities :: pbAgentCapabilities
  pcd_Skills :: "pbAgentSkill list"

record pbEnvVar =
  pev_Name :: string
  pev_Value :: string

record pbResourceRequirements =
  prr_Limits :: "string smap"
  prr_Requests :: "string smap"

record pbAgentRuntime =
  prt_Image :: string
  prt_RunnerVersion :: string
  prt_Isolation :: pbIsolationTier
  prt_Env :: "pbEnvVar list"
  prt_Resources :: "pbResourceRequirements option"
  prt_Replicas :: int
  prt_ImagePullSecrets :: "string list"
  prt_ServiceAccountName :: string
  prt_NodeSelector :: "string smap"

record pbAgentSpec =
  pgs_Card :: pbAgentCard
  pgs_Runtime :: pbAgentRuntime
  pgs_Spec :: "gval smap option"
  pgs_ModelRef :: "pbNamespacedRef option"
  pgs_InstructionRefs :: "pbNamespacedRef list"
  pgs_Tools :: "pbNamespacedRef list"
  pgs_Capabilities :: "pbCapabilityAttachment list"
  pgs_SecretRefs :: "pbSecretKeySelector smap"

record pbAgentStatus =
  pgu_Phase :: pbAgentPhase
  pgu_Url :: string
  pgu_SpecHash :: string
  pgu_RunnerVersion :: string
  pgu_InjectedCapabilities :: "string list"
  pgu_Replicas :: int
  pgu_AvailableReplicas :: int
  pgu_Conditions :: "pbCondition list"
  pgu_ObservedGeneration :: int

record pbAgent =
  pag_Metadata :: pbObjectMeta
  pag_Spec :: pbAgentSpec
  pag_Status :: pbAgentStatus

subsection \<open>Conversion\<close>

fun AgentPhaseToProto :: "AgentPhase \<Rightarrow> pbAgentPhase" where
  "AgentPhaseToProto AgentPhasePending = AGENT_PHASE_PENDING"
| "AgentPhaseToProto AgentPhaseRunning = AGENT_PHASE_RUNNING"
| "AgentPhaseToProto AgentPhaseFailed = AGENT_PHASE_FAILED"
| "AgentPhaseToProto AgentPhaseUnset = AGENT_PHASE_UNSPECIFIED"

fun IsolationTierToProto :: "IsolationTier \<Rightarrow> pbIsolationTier" where
  "IsolationTierToProto IsolationShared = ISOLATION_TIER_SHARED"
| "IsolationTierToProto IsolationSession = ISOLATION_TIER_SESSION"
| "IsolationTierToProto IsolationUnset = ISOLATION_TIER_UNSPECIFIED"

definition InputOutputModeToProto :: "string \<Rightarrow> pbInputOutputMode" where
  "InputOutputModeToProto mode =
     (if mode = ''text'' then INPUT_OUTPUT_MODE_TEXT
      else if mode = ''application/json'' then INPUT_OUTPUT_MODE_JSON
      else INPUT_OUTPUT_MODE_UNSPECIFIED)"

definition NamespacedRefToProto :: "NamespacedRef \<Rightarrow> pbNamespacedRef" where
  "NamespacedRefToProto ref = \<lparr>pnr_Name = nr_Name ref, pnr_Namespace = nr_Namespace ref\<rparr>"

text \<open>The fragment goes through its JSON text, so a raw field that is not JSON loses the whole fragment.\<close>

definition fragmentToStruct :: "numlib \<Rightarrow> AgentSpecFragment option \<Rightarrow> gval smap option" where
  "fragmentToStruct nl frag =
     (case frag of
        None \<Rightarrow> None
      | Some f \<Rightarrow> if RawBad \<in> set (fragmentRaws f) then None else jsonToStruct nl (Some (Raw (fragmentDoc f))))"

definition AgentCapabilitiesToProto :: "AgentCapabilities \<Rightarrow> pbAgentCapabilities" where
  "AgentCapabilitiesToProto caps =
     \<lparr>pac_PushNotifications = acap_PushNotifications caps, pac_StateTransitionHistory = acap_StateTransitionHistory caps,
      pac_Streaming = acap_Streaming caps\<rparr>"

definition AgentSkillToProto :: "AgentSkill \<Rightarrow> pbAgentSkill" where
  "AgentSkillToProto skill =
     \<lparr>pas_Id = skill_ID skill, pas_Name = skill_Name skill, pas_Description = skill_Description skill, pas_Tags = skill_Tags skill,
      pas_Examples = skill_Examples skill, pas_InputModes = skill_InputModes skill, pas_OutputModes = skill_OutputModes skill\<rparr>"

definition AgentCardToProto :: "AgentCardOverride \<Rightarrow> pbAgentCard" where
  "AgentCardToProto ov =
     \<lparr>pcd_Name = card_Name ov, pcd_Description = card_Description ov, pcd_Version = card_Version ov,
      pcd_DefaultInputModes = map InputOutputModeToProto (card_DefaultInputModes ov),
      pcd_DefaultOutputModes = map InputOutputModeToProto (card_DefaultOutputModes ov),
      pcd_Capabilities = AgentCapabilitiesToProto (card_Capabilities ov),
      pcd_Skills = map AgentSkillToProto (card_Skills ov)\<rparr>"

text \<open>An environment variable keeps its name and its literal value; where its value comes from is not copied.\<close>

definition AgentRuntimeToProto :: "AgentRuntime \<Rightarrow> pbAgentRuntime" where
  "AgentRuntimeToProto runtime =
     (let over = rt_DeploymentOverrides runtime in
      \<lparr>prt_Image = rt_Image runtime, prt_RunnerVersion = rt_RunnerVersion runtime,
       prt_Isolation = IsolationTierToProto (rt_Isolation runtime),
       prt_Env = map (\<lambda>env. \<lparr>pev_Name = ev_Name env, pev_Value = ev_Value env\<rparr>) (rt_Env runtime),
       prt_Resources = map_option (\<lambda>r. \<lparr>prr_Limits = rr_Limits r, prr_Requests = rr_Requests r\<rparr>) (rt_Resources runtime),
       prt_Replicas = orZero (do_Replicas over), prt_ImagePullSecrets = do_ImagePullSecrets over,
       prt_ServiceAccountName = do_ServiceAccountName over, prt_NodeSelector = do_NodeSelector over\<rparr>)"

definition AgentSpecToProto :: "numlib \<Rightarrow> AgentSpec \<Rightarrow> pbAgentSpec" where
  "AgentSpecToProto nl spec =
     \<lparr>pgs_Card = AgentCardToProto (as_Card spec), pgs_Runtime = AgentRuntimeToProto (as_Runtime spec),
      pgs_Spec = fragmentToStruct nl (as_Spec spec), pgs_ModelRef = map_option NamespacedRefToProto (as_ModelRef spec),
      pgs_InstructionRefs = map NamespacedRefToProto (as_InstructionRefs spec), pgs_Tools = map NamespacedRefToProto (as_Tools spec),
      pgs_Capabilities = map (\<lambda>att. \<lparr>pca_Ref = NamespacedRefToProto (att_Ref att), pca_Config = jsonToStruct nl (att_Config att)\<rparr>)
        (as_Capabilities spec),
      pgs_SecretRefs = map (\<lambda>(name, sel). (name, \<lparr>psk_Name = sks_Name sel, psk_Key = sks_Key sel, psk_Optional = orFalse (sks_Optional sel)\<rparr>))
        (as_SecretRefs spec)\<rparr>"

definition AgentStatusToProto :: "AgentStatus \<Rightarrow> pbAgentStatus" where
  "AgentStatusToProto status =
     \<lparr>pgu_Phase = AgentPhaseToProto (ast_Phase status), pgu_Url = ast_URL status, pgu_SpecHash = ast_SpecHash status,
      pgu_RunnerVersion = ast_RunnerVersion status, pgu_InjectedCapabilities = ast_InjectedCapabilities status,
      pgu_Replicas = ast_Replicas status, pgu_AvailableReplicas = ast_AvailableReplicas status,
      pgu_Conditions = ConditionsToProto (ast_Conditions status), pgu_ObservedGeneration = ast_ObservedGeneration status\<rparr>"

definition AgentToProto :: "numlib \<Rightarrow> Agent \<Rightarrow> pbAgent" where
  "AgentToProto nl agent =
     \<lparr>pag_Metadata = ObjectMetaToProto (ag_Meta agent), pag_Spec = AgentSpecToProto nl (ag_Spec agent),
      pag_Status = AgentStatusToProto (ag_Status agent)\<rparr>"

subsection \<open>AgentService\<close>

definition agentReader :: "numlib \<Rightarrow> (Agent, pbAgent) apiReader" where
  "agentReader nl = \<lparr>ak_Kind = ''agent'', ak_ToProto = AgentToProto nl\<rparr>"

definition GetAgent :: "numlib \<Rightarrow> ('w, Agent) kclient \<Rightarrow> string \<Rightarrow> string \<Rightarrow> 'w \<Rightarrow> pbAgent grpcResult" where
  "GetAgent nl = getResource (agentReader nl)"

definition ListAgents ::
  "numlib \<Rightarrow> ('sel clientListOptions \<Rightarrow> 'w \<Rightarrow> (ListMeta \<times> Agent list) result) \<Rightarrow> (string \<Rightarrow> 'sel result) \<Rightarrow> string \<Rightarrow>
   pbListOptions option \<Rightarrow> 'w \<Rightarrow> pbAgent pbList grpcResult" where
  "ListAgents nl = listResources (agentReader nl)"

definition WatchAgents :: grpcStatus where
  "WatchAgents = watchUnimplemented"

subsection \<open>What a reader of the API sees of the fragment\<close>

lemma jsonToStruct_Obj: "jsonToStruct nl (Some (Raw (JObj kvs))) = Some (map (map_prod id (fromJson nl)) kvs)"
  by (simp add: jsonToStruct_def decodeMap_def)

lemma fragmentToStruct_None:
  "fragmentToStruct nl frag = None \<longleftrightarrow> (case frag of None \<Rightarrow> True | Some f \<Rightarrow> RawBad \<in> set (fragmentRaws f))"
  by (auto simp: fragmentToStruct_def fragmentDoc_def jsonToStruct_Obj split: option.splits)

text \<open>
  The members of an inline fragment are all there and mean what the fragment says, and no member appears that the fragment does not set.
\<close>

lemma fragment_view:
  assumes "fragmentToStruct nl (Some f) = Some s"
  shows "mget s ''model'' = (if frag_Model f = '''' then None else Some (GString (frag_Model f)))"
    and "mget s ''instructions'' = (if frag_Instructions f = [] then None else Some (GList (map GString (frag_Instructions f))))"
    and "mget s ''outputSchema'' = map_option (\<lambda>r. fromJson nl (rawDoc r)) (frag_OutputSchema f)"
    and "mget s ''extra'' = map_option (\<lambda>r. fromJson nl (rawDoc r)) (frag_Extra f)"
proof -
  have s: "s = map (map_prod id (fromJson nl))
    (strMember ''model'' (frag_Model f) @ strMember ''name'' (frag_Name f) @ strMember ''description'' (frag_Description f) @
     listMember ''instructions'' JStr (frag_Instructions f) @ optMember ''modelSettings'' settingsDoc (frag_ModelSettings f) @
     optMember ''outputSchema'' rawDoc (frag_OutputSchema f) @ listMember ''capabilities'' nativeEntryDoc (frag_Capabilities f) @
     optMember ''extra'' rawDoc (frag_Extra f))"
    using assms by (auto simp: fragmentToStruct_def fragmentDoc_def jsonToStruct_Obj split: if_splits)
  have c: "fromJson nl \<circ> JStr = GString" by (simp add: fun_eq_iff)
  have str: "mget (map (map_prod id (fromJson nl)) (strMember k v)) k' = (if k = k' \<and> v \<noteq> '''' then Some (GString v) else None)" for k k' v
    by (simp add: strMember_def)
  have lst: "mget (map (map_prod id (fromJson nl)) (listMember k g xs)) k' = (if k = k' \<and> xs \<noteq> [] then Some (GList (map (fromJson nl \<circ> g) xs)) else None)"
    for k k' and g :: "'x \<Rightarrow> json" and xs by (simp add: listMember_def)
  have opt: "mget (map (map_prod id (fromJson nl)) (optMember k g x)) k' = (if k = k' then map_option (\<lambda>v. fromJson nl (g v)) x else None)"
    for k k' and g :: "'x \<Rightarrow> json" and x by (simp add: optMember_def split: option.split)
  show "mget s ''model'' = (if frag_Model f = '''' then None else Some (GString (frag_Model f)))"
    by (simp add: s map_add_def str lst opt split: option.split)
  show "mget s ''instructions'' = (if frag_Instructions f = [] then None else Some (GList (map GString (frag_Instructions f))))"
    by (simp add: s map_add_def str lst opt c split: option.split)
  show "mget s ''outputSchema'' = map_option (\<lambda>r. fromJson nl (rawDoc r)) (frag_OutputSchema f)"
    by (simp add: s map_add_def str lst opt split: option.split)
  show "mget s ''extra'' = map_option (\<lambda>r. fromJson nl (rawDoc r)) (frag_Extra f)"
    by (simp add: s map_add_def str lst opt split: option.split)
qed

end
