(* ===== verification/WorkflowApi.thy ===== *)
theory WorkflowApi
  imports ResourceApi WorkflowController
begin

text \<open>
  \<open>internal/converter/agentworkflow.go\<close> and \<open>internal/server/agentworkflow_service.go\<close>: AgentWorkflows and their runs over the API. A run is an Argo
  Workflow; the record keeps the fields the server reads or writes. \<open>time.Duration.String\<close> is written out. Parameters: the Kubernetes client, label
  selection, and the source of trace ids.
\<close>

subsection \<open>Durations as text\<close>

definition padZeros :: "nat \<Rightarrow> string \<Rightarrow> string" where
  "padZeros n s = replicate (n - length s) (CHR ''0'') @ s"

text \<open>\<open>fmtFrac\<close>: a fraction of \<open>prec\<close> digits without trailing zeros, and without the point when nothing is left.\<close>

definition fmtFrac :: "nat \<Rightarrow> int \<Rightarrow> string" where
  "fmtFrac prec v =
     (let digits = trimRightChar (CHR ''0'') (padZeros prec (dec_int v)) in if digits = '''' then '''' else ''.'' @ digits)"

definition microSign :: string where
  "microSign = [CHR 0xC2, CHR 0xB5]"

definition durationBody :: "int \<Rightarrow> string" where
  "durationBody u =
     (if u < 1000 then dec_int u @ ''ns''
      else if u < 1000000 then dec_int (u div 1000) @ fmtFrac 3 (u mod 1000) @ microSign @ ''s''
      else if u < 1000000000 then dec_int (u div 1000000) @ fmtFrac 6 (u mod 1000000) @ ''ms''
      else let s = u div 1000000000; m = s div 60 in
        (if m > 0 then (if m div 60 > 0 then dec_int (m div 60) @ ''h'' else '''') @ dec_int (m mod 60) @ ''m'' else '''') @
        dec_int (s mod 60) @ fmtFrac 9 (u mod 1000000000) @ ''s'')"

definition durationString :: "int \<Rightarrow> string" where
  "durationString d = (if d = 0 then ''0s'' else if d < 0 then ''-'' @ durationBody (- d) else durationBody d)"

subsection \<open>AgentWorkflow messages\<close>

record pbWorkflowTask =
  pwt_Name :: string
  pwt_Type :: string
  pwt_DependsOn :: "string list"
  pwt_Condition :: string

record pbAgentWorkflowSpec =
  pws_Description :: string
  pws_Params :: "WorkflowParam list"
  pws_Tasks :: "pbWorkflowTask list"
  pws_Timeout :: string

record pbAgentWorkflowStatus =
  pwu_Ready :: bool
  pwu_WorkflowTemplateName :: string
  pwu_SpecHash :: string
  pwu_Conditions :: "pbCondition list"
  pwu_ObservedGeneration :: int

record pbAgentWorkflow =
  pwf_Metadata :: "pbObjectMeta option"
  pwf_Spec :: "pbAgentWorkflowSpec option"
  pwf_Status :: "pbAgentWorkflowStatus option"

definition WorkflowTaskToProto :: "WorkflowTask \<Rightarrow> pbWorkflowTask" where
  "WorkflowTaskToProto t =
     \<lparr>pwt_Name = wt_Name t,
      pwt_Type = (if wt_Agent t \<noteq> None then ''agent'' else if wt_AgentTask t \<noteq> None then ''agentTask''
                  else if wt_Switch t \<noteq> [] then ''switch'' else ''''),
      pwt_DependsOn = wt_DependsOn t, pwt_Condition = wt_Condition t\<rparr>"

definition AgentWorkflowSpecToProto :: "AgentWorkflowSpec \<Rightarrow> pbAgentWorkflowSpec" where
  "AgentWorkflowSpecToProto s =
     \<lparr>pws_Description = aws_Description s,
      pws_Params = map (\<lambda>p. \<lparr>wp_Name = wp_Name p, wp_Description = wp_Description p, wp_Value = wp_Value p\<rparr>) (aws_Params s),
      pws_Tasks = map WorkflowTaskToProto (aws_Tasks s),
      pws_Timeout = (case aws_Timeout s of None \<Rightarrow> '''' | Some d \<Rightarrow> durationString d)\<rparr>"

definition AgentWorkflowStatusToProto :: "AgentWorkflowStatus \<Rightarrow> pbAgentWorkflowStatus" where
  "AgentWorkflowStatusToProto s =
     \<lparr>pwu_Ready = awst_Ready s, pwu_WorkflowTemplateName = awst_WorkflowTemplateName s, pwu_SpecHash = awst_SpecHash s,
      pwu_Conditions = ConditionsToProto (awst_Conditions s), pwu_ObservedGeneration = awst_ObservedGeneration s\<rparr>"

definition AgentWorkflowToProto :: "AgentWorkflow \<Rightarrow> pbAgentWorkflow" where
  "AgentWorkflowToProto a =
     \<lparr>pwf_Metadata = Some (ObjectMetaToProto (awf_Meta a)), pwf_Spec = Some (AgentWorkflowSpecToProto (awf_Spec a)),
      pwf_Status = Some (AgentWorkflowStatusToProto (awf_Status a))\<rparr>"

subsection \<open>Runs\<close>

record argoNode =
  nd_ID :: string
  nd_Name :: string
  nd_DisplayName :: string
  nd_Type :: string
  nd_Phase :: string
  nd_Message :: string
  nd_TemplateName :: string
  nd_Children :: "string list"
  nd_StartedAt :: int
  nd_FinishedAt :: int
  nd_Inputs :: "(string \<times> string option) list option"
  nd_Outputs :: "(string \<times> string option) list option"

record argoWorkflow =
  aw_Meta :: ObjectMeta
  aw_GenerateName :: string
  aw_TemplateRef :: "string option"
  aw_Parameters :: "(string \<times> string option) list"
  aw_Phase :: string
  aw_Message :: string
  aw_Progress :: string
  aw_StartedAt :: int
  aw_FinishedAt :: int
  aw_Nodes :: "argoNode smap"

datatype RunPhase =
  RUN_PHASE_UNSPECIFIED | RUN_PHASE_PENDING | RUN_PHASE_RUNNING | RUN_PHASE_SUCCEEDED | RUN_PHASE_FAILED | RUN_PHASE_ERROR

datatype NodeType =
  NODE_TYPE_UNSPECIFIED | NODE_TYPE_POD | NODE_TYPE_STEPS | NODE_TYPE_DAG | NODE_TYPE_TASK_GROUP | NODE_TYPE_RETRY
  | NODE_TYPE_SKIPPED | NODE_TYPE_SUSPEND | NODE_TYPE_PLUGIN

record WorkflowRunNode =
  wrn_Id :: string
  wrn_Name :: string
  wrn_DisplayName :: string
  wrn_Type :: NodeType
  wrn_Phase :: RunPhase
  wrn_StartedAt :: "int option"
  wrn_FinishedAt :: "int option"
  wrn_Message :: string
  wrn_TemplateName :: string
  wrn_Children :: "string list"
  wrn_Inputs :: "string smap"
  wrn_Outputs :: "string smap"

record WorkflowRun =
  wr_Metadata :: pbObjectMeta
  wr_Phase :: RunPhase
  wr_StartedAt :: "int option"
  wr_FinishedAt :: "int option"
  wr_Progress :: string
  wr_Message :: string
  wr_Nodes :: "WorkflowRunNode list"
  wr_Parameters :: "string smap"

definition ArgoPhaseToRunPhase :: "string \<Rightarrow> RunPhase" where
  "ArgoPhaseToRunPhase phase =
     (if phase = ''Pending'' then RUN_PHASE_PENDING else if phase = ''Running'' then RUN_PHASE_RUNNING
      else if phase = ''Succeeded'' then RUN_PHASE_SUCCEEDED else if phase = ''Failed'' then RUN_PHASE_FAILED
      else if phase = ''Error'' then RUN_PHASE_ERROR else RUN_PHASE_UNSPECIFIED)"

definition ArgoNodePhaseToRunPhase :: "string \<Rightarrow> RunPhase" where
  "ArgoNodePhaseToRunPhase phase =
     (if phase = ''Pending'' then RUN_PHASE_PENDING else if phase = ''Running'' then RUN_PHASE_RUNNING
      else if phase = ''Succeeded'' then RUN_PHASE_SUCCEEDED else if phase = ''Failed'' then RUN_PHASE_FAILED
      else if phase = ''Error'' then RUN_PHASE_ERROR else RUN_PHASE_UNSPECIFIED)"

definition ArgoNodeTypeToProto :: "string \<Rightarrow> NodeType" where
  "ArgoNodeTypeToProto nt =
     (if nt = ''Pod'' then NODE_TYPE_POD else if nt = ''Steps'' then NODE_TYPE_STEPS else if nt = ''DAG'' then NODE_TYPE_DAG
      else if nt = ''TaskGroup'' then NODE_TYPE_TASK_GROUP else if nt = ''Retry'' then NODE_TYPE_RETRY
      else if nt = ''Skipped'' then NODE_TYPE_SKIPPED else if nt = ''Suspend'' then NODE_TYPE_SUSPEND
      else if nt = ''Plugin'' then NODE_TYPE_PLUGIN else NODE_TYPE_UNSPECIFIED)"

definition timestampOf :: "int \<Rightarrow> int option" where
  "timestampOf t = (if t = 0 then None else Some t)"

text \<open>Parameters with a value, the later of two equal names winning.\<close>

definition valuesOf :: "(string \<times> string option) list \<Rightarrow> string smap" where
  "valuesOf ps = fold (\<lambda>(n, v) acc. case v of None \<Rightarrow> acc | Some x \<Rightarrow> mput n x acc) ps []"

definition ArgoNodeToRunNodeProto :: "argoNode \<Rightarrow> WorkflowRunNode" where
  "ArgoNodeToRunNodeProto n =
     \<lparr>wrn_Id = nd_ID n, wrn_Name = nd_Name n, wrn_DisplayName = nd_DisplayName n, wrn_Type = ArgoNodeTypeToProto (nd_Type n),
      wrn_Phase = ArgoNodePhaseToRunPhase (nd_Phase n), wrn_StartedAt = timestampOf (nd_StartedAt n),
      wrn_FinishedAt = timestampOf (nd_FinishedAt n), wrn_Message = nd_Message n, wrn_TemplateName = nd_TemplateName n,
      wrn_Children = nd_Children n,
      wrn_Inputs = (case nd_Inputs n of None \<Rightarrow> [] | Some ps \<Rightarrow> valuesOf ps),
      wrn_Outputs = (case nd_Outputs n of None \<Rightarrow> [] | Some ps \<Rightarrow> valuesOf ps)\<rparr>"

definition ArgoWorkflowToRunProto :: "argoWorkflow \<Rightarrow> bool \<Rightarrow> WorkflowRun" where
  "ArgoWorkflowToRunProto run includeNodes =
     \<lparr>wr_Metadata = ObjectMetaToProto (aw_Meta run), wr_Phase = ArgoPhaseToRunPhase (aw_Phase run),
      wr_StartedAt = timestampOf (aw_StartedAt run), wr_FinishedAt = timestampOf (aw_FinishedAt run),
      wr_Progress = aw_Progress run, wr_Message = aw_Message run,
      wr_Nodes = (if includeNodes then map (\<lambda>(k, n). ArgoNodeToRunNodeProto n) (aw_Nodes run) else []),
      wr_Parameters = valuesOf (filter (\<lambda>(n, v). n \<noteq> traceparentWorkflowParam) (aw_Parameters run))\<rparr>"

definition ArgoWorkflowListToRunListProto :: "ListMeta \<Rightarrow> argoWorkflow list \<Rightarrow> WorkflowRun pbList" where
  "ArgoWorkflowListToRunListProto meta items =
     \<lparr>pl_Metadata = \<lparr>plm_ResourceVersion = lm_ResourceVersion meta, plm_Continue = lm_Continue meta, plm_RemainingItemCount = 0\<rparr>,
      pl_Items = map (\<lambda>run. ArgoWorkflowToRunProto run False) items\<rparr>"

definition workflowNameLabel :: string where
  "workflowNameLabel = ''agent.flokoa.ai/agentworkflow-name''"

definition WorkflowRunLabelSelector :: "string \<Rightarrow> string" where
  "WorkflowRunLabelSelector workflowName = ''agent.flokoa.ai/agentworkflow-name='' @ workflowName"

subsection \<open>AgentWorkflowService\<close>

text \<open>Workflows are read only over the API: there is no conversion from messages.\<close>

definition agentWorkflowReader :: "(AgentWorkflow, pbAgentWorkflow) apiReader" where
  "agentWorkflowReader = \<lparr>ak_Kind = ''agentworkflow'', ak_ToProto = AgentWorkflowToProto\<rparr>"

definition GetAgentWorkflow :: "('w, AgentWorkflow) kclient \<Rightarrow> string \<Rightarrow> string \<Rightarrow> 'w \<Rightarrow> pbAgentWorkflow grpcResult" where
  "GetAgentWorkflow = getResource agentWorkflowReader"

definition ListAgentWorkflows ::
  "('sel clientListOptions \<Rightarrow> 'w \<Rightarrow> (ListMeta \<times> AgentWorkflow list) result) \<Rightarrow> (string \<Rightarrow> 'sel result) \<Rightarrow> string \<Rightarrow>
   pbListOptions option \<Rightarrow> 'w \<Rightarrow> pbAgentWorkflow pbList grpcResult" where
  "ListAgentWorkflows = listResources agentWorkflowReader"

text \<open>\<open>list namespace labels\<close> lists the Argo Workflows of a namespace that carry the labels.\<close>

definition ListWorkflowRuns ::
  "(string \<Rightarrow> string smap \<Rightarrow> 'w \<Rightarrow> (ListMeta \<times> argoWorkflow list) result) \<Rightarrow> string \<Rightarrow> string \<Rightarrow> 'w \<Rightarrow> WorkflowRun pbList grpcResult" where
  "ListWorkflowRuns list namespace workflowName w =
     (if namespace = '''' then invalidArgument ''namespace is required''
      else if workflowName = '''' then invalidArgument ''workflow_name is required''
      else (case list namespace [(workflowNameLabel, workflowName)] w of
              Inl err \<Rightarrow> Inl (mapKubernetesError err ''workflow run'')
            | Inr (meta, items) \<Rightarrow> Inr (ArgoWorkflowListToRunListProto meta items)))"

definition GetWorkflowRun :: "('w, argoWorkflow) kclient \<Rightarrow> string \<Rightarrow> string \<Rightarrow> string \<Rightarrow> 'w \<Rightarrow> WorkflowRun grpcResult" where
  "GetWorkflowRun kc namespace workflowName runName w =
     (if namespace = '''' then invalidArgument ''namespace is required''
      else if runName = '''' then invalidArgument ''run_name is required''
      else (case kc_Get kc \<lparr>nn_Name = runName, nn_Namespace = namespace\<rparr> w of
              Inl err \<Rightarrow> Inl (mapKubernetesError err ''workflow run'')
            | Inr run \<Rightarrow>
                if workflowName \<noteq> '''' \<and> (case mget (om_Labels (aw_Meta run)) workflowNameLabel of None \<Rightarrow> '''' | Some l \<Rightarrow> l) \<noteq> workflowName
                then Inl (status_Errorf NotFound ''workflow run %q does not belong to agentworkflow %q'' [AS runName, AS workflowName])
                else Inr (ArgoWorkflowToRunProto run True)))"

text \<open>The Workflow a submission creates; Argo fills its status. \<open>tp\<close> is the trace context of the run.\<close>

definition submittedRun :: "string \<Rightarrow> string \<Rightarrow> string smap \<Rightarrow> string \<Rightarrow> string \<Rightarrow> argoWorkflow" where
  "submittedRun namespace workflowName params template tp =
     \<lparr>aw_Meta = objectMeta '''' namespace [(workflowNameLabel, workflowName), (''app.kubernetes.io/managed-by'', ''flokoa-server'')] [],
      aw_GenerateName = workflowName @ ''-'', aw_TemplateRef = Some template,
      aw_Parameters = map (\<lambda>(k, v). (k, Some v)) params @ [(traceparentWorkflowParam, Some tp)],
      aw_Phase = '''', aw_Message = '''', aw_Progress = '''', aw_StartedAt = 0, aw_FinishedAt = 0, aw_Nodes = []\<rparr>"

text \<open>\<open>extracted\<close> is \<open>telemetry.ExtractTraceparent\<close> of the caller's context and \<open>fresh\<close> what \<open>telemetry.NewTraceparent\<close> returns.\<close>

definition SubmitWorkflowRun ::
  "('w, AgentWorkflow) kclient \<Rightarrow> ('w, argoWorkflow) kclient \<Rightarrow> string \<Rightarrow> string \<Rightarrow> string \<Rightarrow> string \<Rightarrow> string smap \<Rightarrow> 'w
   \<Rightarrow> WorkflowRun grpcResult \<times> 'w" where
  "SubmitWorkflowRun workflows runs extracted fresh namespace workflowName params w =
     (if namespace = '''' then (invalidArgument ''namespace is required'', w)
      else if workflowName = '''' then (invalidArgument ''workflow_name is required'', w)
      else (case kc_Get workflows \<lparr>nn_Name = workflowName, nn_Namespace = namespace\<rparr> w of
              Inl err \<Rightarrow> (Inl (mapKubernetesError err ''agentworkflow''), w)
            | Inr awf \<Rightarrow>
                if \<not> awst_Ready (awf_Status awf)
                then (Inl (status_Errorf FailedPrecondition ''agentworkflow %q is not ready'' [AS workflowName]), w)
                else if awst_WorkflowTemplateName (awf_Status awf) = ''''
                then (Inl (status_Errorf FailedPrecondition ''agentworkflow %q has no WorkflowTemplate'' [AS workflowName]), w)
                else (let tp = (if extracted = '''' then fresh else extracted) in
                      case kc_Create runs (submittedRun namespace workflowName params (awst_WorkflowTemplateName (awf_Status awf)) tp) w of
                        (Inl err, w1) \<Rightarrow> (Inl (mapKubernetesError err ''workflow run''), w1)
                      | (Inr stored, w1) \<Rightarrow> (Inr (ArgoWorkflowToRunProto stored False), w1))))"

subsection \<open>Runs can be found again\<close>

text \<open>Creation under a generated name: the server picks a non-empty name, keeps spec, namespace and labels, and a read finds the object.\<close>

definition generates_names :: "('w, argoWorkflow) kclient \<Rightarrow> bool" where
  "generates_names kc \<longleftrightarrow> (\<forall>x w s w'. kc_Create kc x w = (Inr s, w') \<longrightarrow>
     om_Name (aw_Meta s) \<noteq> '''' \<and> om_Namespace (aw_Meta s) = om_Namespace (aw_Meta x) \<and> om_Labels (aw_Meta s) = om_Labels (aw_Meta x) \<and>
     aw_TemplateRef s = aw_TemplateRef x \<and> aw_Parameters s = aw_Parameters x \<and> kc_Get kc (keyOf (aw_Meta s)) w' = Inr s)"

lemma valuesOf_simps [simp]:
  "valuesOf [] = []" "valuesOf (ps @ [(n, v)]) = (case v of None \<Rightarrow> valuesOf ps | Some x \<Rightarrow> mput n x (valuesOf ps))"
  by (simp_all add: valuesOf_def split: option.split)

lemma visible_params:
  "distinct (map fst ps) \<Longrightarrow>
     mget (valuesOf (filter (\<lambda>(n, v). n \<noteq> hidden) (map (\<lambda>(k, v). (k, Some v)) ps))) k = (if k = hidden then None else mget ps k)"
proof (induction ps rule: rev_induct)
  case (snoc p ps)
  obtain a b where p: "p = (a, b)" by (cases p)
  have "map_of ps a = None" using snoc.prems by (simp add: p map_of_eq_None_iff)
  then show ?case using snoc by (auto simp: p map_add_def split: option.splits)
qed simp


subsection \<open>Witness\<close>

definition namingClient :: "(argoWorkflow cluster, argoWorkflow) kclient" where
  "namingClient = (memClient (\<lambda>r. keyOf (aw_Meta r)))
     \<lparr>kc_Get := (\<lambda>k w. memGet k w),
      kc_Create := (\<lambda>x w. let s = x\<lparr>aw_Meta := (aw_Meta x)\<lparr>om_Name := CHR ''r'' # dec_nat (length w)\<rparr>\<rparr> in (Inr s, (keyOf (aw_Meta s), s) # w))\<rparr>"

lemma namingClient_generates: "generates_names namingClient"
  unfolding generates_names_def namingClient_def by (auto simp: Let_def memGet_def)

definition readyWorkflow :: AgentWorkflow where
  "readyWorkflow = demoWorkflow\<lparr>awf_Status := (awf_Status demoWorkflow)\<lparr>awst_Ready := True, awst_WorkflowTemplateName := ''flow''\<rparr>\<rparr>"

definition workflowReader :: "(argoWorkflow cluster, AgentWorkflow) kclient" where
  "workflowReader = \<lparr>kc_Get = (\<lambda>k w. Inr readyWorkflow), kc_Create = (\<lambda>x w. (Inl (ApiError StatusForbidden ''''), w)),
     kc_Update = (\<lambda>x w. (Inl (ApiError StatusForbidden ''''), w)), kc_UpdateStatus = (\<lambda>x w. (Inl (ApiError StatusForbidden ''''), w)),
     kc_Delete = (\<lambda>k w. (Some (ApiError StatusForbidden ''''), w))\<rparr>"


end
