(* ===== verification/WatchApi.thy ===== *)
theory WatchApi
  imports AgentApi WorkflowApi ServerAuth
begin

text \<open>
  \<open>internal/server/watch.go\<close>: watch events as server-sent events. A stream is driven by what its \<open>select\<close> receives, in the order it receives it, and writes to a
  connection that may break after any number of bytes. Log lines are dropped. Parameters: the watch client, which gives the events, and \<open>protojson\<close>.
\<close>

subsection \<open>Events and connections\<close>

datatype EventType = watch_Added | watch_Modified | watch_Deleted | watch_Bookmark | watch_Error

fun watchEventType :: "EventType \<Rightarrow> string" where
  "watchEventType watch_Added = ''ADDED''"
| "watchEventType watch_Modified = ''MODIFIED''"
| "watchEventType watch_Deleted = ''DELETED''"
| "watchEventType watch_Bookmark = ''BOOKMARK''"
| "watchEventType watch_Error = ''ERROR''"

text \<open>The objects a watch can carry; \<open>None\<close> in an event stands for one that is no \<open>client.Object\<close>, as the status of an error event.\<close>

datatype clientObject =
    ObjAgent Agent
  | ObjModel Model
  | ObjModelProvider ModelProvider
  | ObjAgentTool AgentTool
  | ObjAgentWorkflow AgentWorkflow
  | ObjArgoWorkflow argoWorkflow

datatype watchStep =
    ContextDone
  | HeartbeatTick
  | WatchEvent EventType "clientObject option"
  | ChannelClosed

text \<open>\<open>rw_Room\<close>: how many bytes can still be written before the connection breaks; no bound when it does not break.\<close>

record responseWriter =
  rw_Flusher :: bool
  rw_Headers :: "string smap"
  rw_Written :: string
  rw_Flushed :: string
  rw_Room :: "nat option"

definition fmt_Fprint :: "string \<Rightarrow> responseWriter \<Rightarrow> bool \<times> responseWriter" where
  "fmt_Fprint s w =
     (case rw_Room w of
        None \<Rightarrow> (True, w\<lparr>rw_Written := rw_Written w @ s\<rparr>)
      | Some n \<Rightarrow> (length s \<le> n, w\<lparr>rw_Written := rw_Written w @ take n s, rw_Room := Some (n - length s)\<rparr>))"

definition Flush :: "responseWriter \<Rightarrow> responseWriter" where
  "Flush w = w\<lparr>rw_Flushed := rw_Written w\<rparr>"

definition newline :: char where
  "newline = CHR 0x0A"

definition writeSSE :: "string \<Rightarrow> responseWriter \<Rightarrow> bool \<times> responseWriter" where
  "writeSSE data w =
     (let (ok, w1) = fmt_Fprint (''data: '' @ data @ [newline, newline]) w in if ok then (True, Flush w1) else (False, w1))"

definition writeSSEHeartbeat :: "responseWriter \<Rightarrow> bool \<times> responseWriter" where
  "writeSSEHeartbeat w =
     (let (ok, w1) = fmt_Fprint ('':'' @ [newline, newline]) w in if ok then (True, Flush w1) else (False, w1))"

text \<open>\<open>http.Error\<close>: the status code goes with the response.\<close>

definition http_Error :: "string \<Rightarrow> int \<Rightarrow> responseWriter \<Rightarrow> int \<times> responseWriter" where
  "http_Error msg code w =
     (code, snd (fmt_Fprint (msg @ [newline])
        (w\<lparr>rw_Headers := mput ''X-Content-Type-Options'' ''nosniff'' (mput ''Content-Type'' ''text/plain; charset=utf-8'' (rw_Headers w))\<rparr>)))"

subsection \<open>The stream\<close>

definition envelope :: "EventType \<Rightarrow> string \<Rightarrow> string" where
  "envelope t obj =
     ''{'' @ [CHR 0x22] @ ''type'' @ [CHR 0x22] @ '':'' @ [CHR 0x22] @ watchEventType t @ [CHR 0x22] @ '','' @
     [CHR 0x22] @ ''object'' @ [CHR 0x22] @ '':'' @ obj @ ''}''"

text \<open>
  The loop: it ends when the request is done, the channel is closed or a write fails, and waits when nothing more is received. \<open>convert\<close> is the handler's type
  assertion with its converter, \<open>marshal\<close> is \<open>protojson\<close>.
\<close>

fun streamLoop :: "(clientObject \<Rightarrow> 'p option) \<Rightarrow> ('p \<Rightarrow> string result) \<Rightarrow> watchStep list \<Rightarrow> responseWriter \<Rightarrow> responseWriter" where
  "streamLoop convert marshal [] w = w"
| "streamLoop convert marshal (ContextDone # ss) w = w"
| "streamLoop convert marshal (HeartbeatTick # ss) w =
     (let (ok, w1) = writeSSEHeartbeat w in if ok then streamLoop convert marshal ss w1 else w1)"
| "streamLoop convert marshal (WatchEvent t obj # ss) w =
     (case obj of
        None \<Rightarrow> streamLoop convert marshal ss w
      | Some x \<Rightarrow>
          (case convert x of
             None \<Rightarrow> streamLoop convert marshal ss w
           | Some converted \<Rightarrow>
               (case marshal converted of
                  Inl err \<Rightarrow> streamLoop convert marshal ss w
                | Inr objBytes \<Rightarrow>
                    (let (ok, w1) = writeSSE (envelope t objBytes) w in
                     if ok then streamLoop convert marshal ss w1 else w1))))"
| "streamLoop convert marshal (ChannelClosed # ss) w = w"

definition sseHeaders :: "string smap \<Rightarrow> string smap" where
  "sseHeaders h =
     mput ''X-Accel-Buffering'' ''no'' (mput ''Connection'' ''keep-alive'' (mput ''Cache-Control'' ''no-cache''
       (mput ''Content-Type'' ''text/event-stream'' h)))"

definition streamSSE ::
  "(clientObject \<Rightarrow> 'p option) \<Rightarrow> ('p \<Rightarrow> string result) \<Rightarrow> watchStep list \<Rightarrow> responseWriter \<Rightarrow> int \<times> responseWriter" where
  "streamSSE convert marshal steps w =
     (if \<not> rw_Flusher w then http_Error ''streaming not supported'' 500 w
      else (200, streamLoop convert marshal steps (Flush (w\<lparr>rw_Headers := sseHeaders (rw_Headers w)\<rparr>))))"

subsection \<open>Handlers and routes\<close>

record watchOptions =
  wo_Namespace :: "string option"
  wo_MatchingLabels :: "string smap"

text \<open>The path values of a request; one that the route does not have is empty.\<close>

record watchRequest =
  wr_namespace :: string
  wr_workflowName :: string

text \<open>
  \<open>wc_Watch kind opts\<close>: the watch of a list type, as what the stream's loop receives of it, of the ticker and of the request. One marshaller per message type.
\<close>

datatype watchKind = KindAgent | KindModel | KindModelProvider | KindAgentTool | KindAgentWorkflow | KindArgoWorkflow

record watchClient =
  wc_Watch :: "watchKind \<Rightarrow> watchOptions \<Rightarrow> watchStep list result"

record protojson =
  pj_Agent :: "pbAgent \<Rightarrow> string result"
  pj_Model :: "pbModel \<Rightarrow> string result"
  pj_ModelProvider :: "pbModelProvider \<Rightarrow> string result"
  pj_AgentTool :: "pbAgentTool \<Rightarrow> string result"
  pj_AgentWorkflow :: "pbAgentWorkflow \<Rightarrow> string result"
  pj_WorkflowRun :: "WorkflowRun \<Rightarrow> string result"

definition watchNamespace :: "string \<Rightarrow> watchOptions" where
  "watchNamespace namespace =
     \<lparr>wo_Namespace = (if namespace \<noteq> '''' then Some namespace else None), wo_MatchingLabels = []\<rparr>"

text \<open>What the handlers share: start the watch, answer 500 if that fails, otherwise stream.\<close>

definition watchHandler ::
  "watchKind \<Rightarrow> (clientObject \<Rightarrow> 'p option) \<Rightarrow> ('p \<Rightarrow> string result) \<Rightarrow> watchClient \<Rightarrow> watchOptions \<Rightarrow> responseWriter \<Rightarrow> int \<times> responseWriter" where
  "watchHandler kind convert marshal wc opts w =
     (case wc_Watch wc kind opts of
        Inl err \<Rightarrow> http_Error ''failed to start watch'' 500 w
      | Inr steps \<Rightarrow> streamSSE convert marshal steps w)"

definition watchAgentsHandler :: "numlib \<Rightarrow> protojson \<Rightarrow> watchClient \<Rightarrow> watchRequest \<Rightarrow> responseWriter \<Rightarrow> int \<times> responseWriter" where
  "watchAgentsHandler nl pj wc r =
     watchHandler KindAgent (\<lambda>obj. case obj of ObjAgent x \<Rightarrow> Some (AgentToProto nl x) | _ \<Rightarrow> None) (pj_Agent pj) wc
       (watchNamespace (wr_namespace r))"

definition watchModelsHandler :: "numlib \<Rightarrow> protojson \<Rightarrow> watchClient \<Rightarrow> watchRequest \<Rightarrow> responseWriter \<Rightarrow> int \<times> responseWriter" where
  "watchModelsHandler nl pj wc r =
     watchHandler KindModel (\<lambda>obj. case obj of ObjModel x \<Rightarrow> Some (ModelToProto nl x) | _ \<Rightarrow> None) (pj_Model pj) wc
       (watchNamespace (wr_namespace r))"

definition watchModelProvidersHandler :: "protojson \<Rightarrow> watchClient \<Rightarrow> watchRequest \<Rightarrow> responseWriter \<Rightarrow> int \<times> responseWriter" where
  "watchModelProvidersHandler pj wc r =
     watchHandler KindModelProvider (\<lambda>obj. case obj of ObjModelProvider x \<Rightarrow> Some (ModelProviderToProto x) | _ \<Rightarrow> None) (pj_ModelProvider pj) wc
       (watchNamespace (wr_namespace r))"

definition watchAgentToolsHandler :: "protojson \<Rightarrow> watchClient \<Rightarrow> watchRequest \<Rightarrow> responseWriter \<Rightarrow> int \<times> responseWriter" where
  "watchAgentToolsHandler pj wc r =
     watchHandler KindAgentTool (\<lambda>obj. case obj of ObjAgentTool x \<Rightarrow> Some (AgentToolToProto x) | _ \<Rightarrow> None) (pj_AgentTool pj) wc
       (watchNamespace (wr_namespace r))"

definition watchAgentWorkflowsHandler :: "protojson \<Rightarrow> watchClient \<Rightarrow> watchRequest \<Rightarrow> responseWriter \<Rightarrow> int \<times> responseWriter" where
  "watchAgentWorkflowsHandler pj wc r =
     watchHandler KindAgentWorkflow (\<lambda>obj. case obj of ObjAgentWorkflow x \<Rightarrow> Some (AgentWorkflowToProto x) | _ \<Rightarrow> None) (pj_AgentWorkflow pj) wc
       (watchNamespace (wr_namespace r))"

definition watchWorkflowRunsHandler :: "protojson \<Rightarrow> watchClient \<Rightarrow> watchRequest \<Rightarrow> responseWriter \<Rightarrow> int \<times> responseWriter" where
  "watchWorkflowRunsHandler pj wc r =
     watchHandler KindArgoWorkflow (\<lambda>obj. case obj of ObjArgoWorkflow x \<Rightarrow> Some (ArgoWorkflowToRunProto x True) | _ \<Rightarrow> None) (pj_WorkflowRun pj) wc
       ((watchNamespace (wr_namespace r))\<lparr>wo_MatchingLabels :=
          (if wr_workflowName r \<noteq> '''' then [(''agent.flokoa.ai/agentworkflow-name'', wr_workflowName r)] else [])\<rparr>)"

definition registerWatchRoutes ::
  "numlib \<Rightarrow> protojson \<Rightarrow> watchClient \<Rightarrow> 'tok AuthInterceptor option \<Rightarrow>
   (string \<times> (httpCredentials \<Rightarrow> watchRequest \<Rightarrow> responseWriter \<Rightarrow> int \<times> responseWriter)) list" where
  "registerWatchRoutes nl pj wc auth =
     (let authFn = (\<lambda>h cred r. authMiddleware auth (h r) cred) in
      [(''GET /api/v1alpha1/watch/agents'', authFn (watchAgentsHandler nl pj wc)),
       (''GET /api/v1alpha1/watch/namespaces/{namespace}/agents'', authFn (watchAgentsHandler nl pj wc)),
       (''GET /api/v1alpha1/watch/models'', authFn (watchModelsHandler nl pj wc)),
       (''GET /api/v1alpha1/watch/namespaces/{namespace}/models'', authFn (watchModelsHandler nl pj wc)),
       (''GET /api/v1alpha1/watch/modelproviders'', authFn (watchModelProvidersHandler pj wc)),
       (''GET /api/v1alpha1/watch/namespaces/{namespace}/modelproviders'', authFn (watchModelProvidersHandler pj wc)),
       (''GET /api/v1alpha1/watch/agenttools'', authFn (watchAgentToolsHandler pj wc)),
       (''GET /api/v1alpha1/watch/namespaces/{namespace}/agenttools'', authFn (watchAgentToolsHandler pj wc)),
       (''GET /api/v1alpha1/watch/agentworkflows'', authFn (watchAgentWorkflowsHandler pj wc)),
       (''GET /api/v1alpha1/watch/namespaces/{namespace}/agentworkflows'', authFn (watchAgentWorkflowsHandler pj wc)),
       (''GET /api/v1alpha1/watch/namespaces/{namespace}/agentworkflows/{workflowName}/runs'', authFn (watchWorkflowRunsHandler pj wc))])"

subsection \<open>What the other side reads\<close>

text \<open>
  An event-stream reader as the HTML standard describes it, for the fields used here: lines end at a newline, a blank line dispatches the collected data, a line that
  starts with a colon is a comment, and what is not ended is discarded.
\<close>

fun completeLines :: "string \<Rightarrow> string \<Rightarrow> string list" where
  "completeLines acc [] = []"
| "completeLines acc (c # cs) = (if c = newline then rev acc # completeLines [] cs else completeLines (c # acc) cs)"

fun dispatch :: "string list \<Rightarrow> string list \<Rightarrow> string list" where
  "dispatch buf [] = []"
| "dispatch buf (l # ls) =
     (if l = '''' then (if buf = [] then [] else [joinStrings (rev buf) [newline]]) @ dispatch [] ls
      else if hasPrefix l '':'' then dispatch buf ls
      else if hasPrefix l ''data: '' then dispatch (drop 6 l # buf) ls
      else dispatch buf ls)"

definition readSSE :: "string \<Rightarrow> string list" where
  "readSSE s = dispatch [] (completeLines [] s)"

text \<open>What the loop writes, were the connection never to break: comments and data, up to the end of the stream.\<close>

datatype frame = Comment | Data string

fun render :: "frame \<Rightarrow> string" where
  "render Comment = '':'' @ [newline, newline]"
| "render (Data d) = ''data: '' @ d @ [newline, newline]"

fun frames :: "(clientObject \<Rightarrow> 'p option) \<Rightarrow> ('p \<Rightarrow> string result) \<Rightarrow> watchStep list \<Rightarrow> frame list" where
  "frames convert marshal [] = []"
| "frames convert marshal (ContextDone # ss) = []"
| "frames convert marshal (HeartbeatTick # ss) = Comment # frames convert marshal ss"
| "frames convert marshal (WatchEvent t obj # ss) =
     (case Option.bind obj convert of
        None \<Rightarrow> []
      | Some p \<Rightarrow> (case marshal p of Inl err \<Rightarrow> [] | Inr s \<Rightarrow> [Data (envelope t s)])) @ frames convert marshal ss"
| "frames convert marshal (ChannelClosed # ss) = []"

text \<open>The events of a watch that are to be delivered, in their order.\<close>

fun delivered :: "(clientObject \<Rightarrow> 'p option) \<Rightarrow> ('p \<Rightarrow> string result) \<Rightarrow> watchStep list \<Rightarrow> string list" where
  "delivered convert marshal (WatchEvent t (Some x) # ss) =
     (case convert x of
        None \<Rightarrow> []
      | Some p \<Rightarrow> (case marshal p of Inl err \<Rightarrow> [] | Inr s \<Rightarrow> [envelope t s])) @ delivered convert marshal ss"
| "delivered convert marshal (WatchEvent t None # ss) = delivered convert marshal ss"
| "delivered convert marshal (HeartbeatTick # ss) = delivered convert marshal ss"
| "delivered convert marshal (ContextDone # ss) = []"
| "delivered convert marshal (ChannelClosed # ss) = []"
| "delivered convert marshal [] = []"

fun frameData :: "frame list \<Rightarrow> string list" where
  "frameData [] = []"
| "frameData (Comment # fs) = frameData fs"
| "frameData (Data d # fs) = d # frameData fs"

lemma frameData_frames: "frameData (frames convert marshal ss) = delivered convert marshal ss"
  by (induction convert marshal ss rule: delivered.induct) (auto split: option.split sum.split)

definition room :: "nat option \<Rightarrow> string \<Rightarrow> string" where
  "room n s = (case n of None \<Rightarrow> s | Some k \<Rightarrow> take k s)"

lemma fmt_Fprint_cases:
  "fmt_Fprint s w =
     (case rw_Room w of
        None \<Rightarrow> (True, w\<lparr>rw_Written := rw_Written w @ s\<rparr>)
      | Some n \<Rightarrow> if length s \<le> n then (True, w\<lparr>rw_Written := rw_Written w @ s, rw_Room := Some (n - length s)\<rparr>)
                  else (False, w\<lparr>rw_Written := rw_Written w @ take n s, rw_Room := Some 0\<rparr>))"
  by (simp add: fmt_Fprint_def split: option.split)

lemma write_render:
  "writeSSE d w = (let (ok, w1) = fmt_Fprint (render (Data d)) w in if ok then (True, Flush w1) else (False, w1))"
  "writeSSEHeartbeat w = (let (ok, w1) = fmt_Fprint (render Comment) w in if ok then (True, Flush w1) else (False, w1))"
  by (simp_all add: writeSSE_def writeSSEHeartbeat_def)

text \<open>One frame at the head of what is written: it fits and the rest follows, or the connection breaks inside it.\<close>

lemma write_frame:
  assumes "\<And>w1. rw_Written (rest w1) = rw_Written w1 @ room (rw_Room w1) later"
  shows "rw_Written (let (ok, w1) = (let (ok, w1) = fmt_Fprint fr w in if ok then (True, Flush w1) else (False, w1)) in
                     if ok then rest w1 else w1) = rw_Written w @ room (rw_Room w) (fr @ later)"
  by (auto simp: fmt_Fprint_cases Flush_def room_def assms split: option.split)

lemma streamLoop_written:
  "rw_Written (streamLoop convert marshal ss w) = rw_Written w @ room (rw_Room w) (concat (map render (frames convert marshal ss)))"
proof (induction ss arbitrary: w)
  case (Cons s ss)
  note frame = write_frame[of "streamLoop convert marshal ss", OF Cons.IH]
  show ?case
  proof (cases s)
    case HeartbeatTick
    then show ?thesis using frame[of "render Comment" w] by (simp add: write_render del: render.simps)
  next
    case (WatchEvent t obj)
    show ?thesis
    proof (cases "Option.bind obj convert")
      case None
      then show ?thesis using Cons.IH[of w] WatchEvent by (cases obj) simp_all
    next
      case (Some p)
      then obtain x where "obj = Some x" "convert x = Some p" by (cases obj) auto
      then show ?thesis
        using WatchEvent Cons.IH[of w] frame[of "render (Data (envelope t (projr (marshal p))))" w]
        by (cases "marshal p") (simp_all add: write_render del: render.simps)
    qed
  qed (simp_all add: room_def split: option.split)
qed (simp add: room_def split: option.split)

text \<open>Reading one frame back, whole or broken off.\<close>

lemma completeLines_line:
  "newline \<notin> set l \<Longrightarrow> completeLines acc (l @ newline # cs) = (rev acc @ l) # completeLines [] cs"
  by (induction l arbitrary: acc) auto

lemma completeLines_open: "newline \<notin> set l \<Longrightarrow> completeLines acc l = []"
  by (induction l arbitrary: acc) auto

fun singleLine :: "frame \<Rightarrow> bool" where
  "singleLine Comment = True"
| "singleLine (Data d) = (newline \<notin> set d)"

fun line :: "frame \<Rightarrow> string" where
  "line Comment = '':''"
| "line (Data d) = ''data: '' @ d"

lemma render_line: "render f = line f @ [newline, newline]"
  by (cases f) simp_all

lemma line_facts:
  assumes "singleLine f"
  shows "newline \<notin> set (line f)" "dispatch [] [line f] = []" "dispatch [] (line f # '''' # ls) = frameData [f] @ dispatch [] ls"
  using assms by (cases f; simp add: newline_def hasPrefix_def)+

lemma readSSE_whole: "singleLine f \<Longrightarrow> readSSE (render f @ s) = frameData [f] @ readSSE s"
  using completeLines_line[of "line f" "[]" "newline # s"]
  by (simp add: readSSE_def render_line line_facts del: dispatch.simps)

lemma readSSE_broken:
  assumes "singleLine f" and "k < length (render f)"
  shows "readSSE (take k (render f)) = []"
proof (cases "k \<le> length (line f)")
  case True
  then have "newline \<notin> set (take k (render f))"
    using line_facts(1)[OF assms(1)] by (auto simp: render_line dest: in_set_takeD)
  then show ?thesis by (simp add: readSSE_def completeLines_open)
next
  case False
  then have "take k (render f) = line f @ [newline]" using assms(2) by (auto simp: render_line take_Cons')
  then show ?thesis using completeLines_line[of "line f" "[]" "[]"] line_facts[OF assms(1)] by (simp add: readSSE_def)
qed

lemma readSSE_frames: "list_all singleLine fs \<Longrightarrow> readSSE (concat (map render fs)) = frameData fs"
proof (induction fs)
  case (Cons f fs)
  have "frameData (f # fs) = frameData [f] @ frameData fs" by (cases f) simp_all
  then show ?case using Cons readSSE_whole[of f] by simp
qed (simp add: readSSE_def)

lemma readSSE_cut: "list_all singleLine fs \<Longrightarrow> \<exists>m. readSSE (take k (concat (map render fs))) = take m (frameData fs)"
proof (induction fs arbitrary: k)
  case (Cons f fs)
  have d: "frameData (f # fs) = frameData [f] @ frameData fs" by (cases f) simp_all
  show ?case
  proof (cases "k < length (render f)")
    case True
    then have "readSSE (take k (concat (map render (f # fs)))) = take 0 (frameData (f # fs))"
      using readSSE_broken[of f k] Cons.prems by simp
    then show ?thesis by blast
  next
    case False
    obtain m where "readSSE (take (k - length (render f)) (concat (map render fs))) = take m (frameData fs)" using Cons by fastforce
    then have "readSSE (take k (concat (map render (f # fs)))) = take (length (frameData [f]) + m) (frameData (f # fs))"
      using False Cons.prems readSSE_whole[of f] unfolding d by simp
    then show ?thesis by blast
  qed
qed (simp add: readSSE_def)

lemma streamLoop_headers: "rw_Headers (streamLoop convert marshal ss w) = rw_Headers w"
proof (induction convert marshal ss w rule: streamLoop.induct)
  case (3 convert marshal ss w)
  then show ?case by (auto simp: write_render fmt_Fprint_cases Flush_def split: option.split)
next
  case (4 convert marshal t obj ss w)
  then show ?case by (auto simp: write_render fmt_Fprint_cases Flush_def split: option.split sum.split)
qed simp_all

lemma frames_singleLine:
  assumes "\<forall>p s. marshal p = Inr s \<longrightarrow> newline \<notin> set s"
  shows "list_all singleLine (frames convert marshal ss)"
proof -
  have "newline \<notin> set (envelope t s)" if "marshal p = Inr s" for t p s
    using assms that by (cases t) (auto simp: envelope_def newline_def)
  then show ?thesis by (induction convert marshal ss rule: frames.induct) (auto split: option.split sum.split)
qed

text \<open>C14. A client that reads the event stream of a watch sees exactly the objects the watch delivered, in order, each once and with its event type, up to the end of
  the request or of the watch: heartbeats and objects of other kinds leave no trace. If the connection breaks at any byte, it sees the first events of that sequence
  and no part of the event that was cut. \<open>protojson\<close> without indentation writes one line.
\<close>

theorem watch_stream_faithful:
  assumes "\<forall>p s. marshal p = Inr s \<longrightarrow> newline \<notin> set s" and "rw_Flusher w" and "rw_Written w = ''''"
  shows "\<exists>w'. streamSSE convert marshal ss w = (200, w') \<and> mget (rw_Headers w') ''Content-Type'' = mget (sseHeaders []) ''Content-Type'' \<and>
     (rw_Room w = None \<longrightarrow> readSSE (rw_Written w') = delivered convert marshal ss) \<and>
     (\<exists>m. readSSE (rw_Written w') = take m (delivered convert marshal ss))"
proof -
  let ?w0 = "Flush (w\<lparr>rw_Headers := sseHeaders (rw_Headers w)\<rparr>)"
  let ?w' = "streamLoop convert marshal ss ?w0"
  let ?fs = "frames convert marshal ss"
  have s: "streamSSE convert marshal ss w = (200, ?w')" using assms(2) by (simp add: streamSSE_def)
  have h: "rw_Headers ?w' = sseHeaders (rw_Headers w)"
    using streamLoop_headers[of convert marshal ss ?w0] by (simp add: Flush_def)
  have wr: "rw_Written ?w' = room (rw_Room w) (concat (map render ?fs))"
    using streamLoop_written[of convert marshal ss ?w0] assms(3) by (simp add: Flush_def)
  note l = frames_singleLine[OF assms(1), of convert ss]
  have all: "readSSE (rw_Written ?w') = delivered convert marshal ss" if "rw_Room w = None"
    using readSSE_frames[OF l] that by (simp add: wr room_def frameData_frames)
  have "\<exists>m. readSSE (rw_Written ?w') = take m (delivered convert marshal ss)"
  proof (cases "rw_Room w")
    case None
    then show ?thesis using all by (intro exI[of _ "length (delivered convert marshal ss)"]) simp
  next
    case (Some k)
    then show ?thesis using readSSE_cut[OF l, of k] by (simp add: wr room_def frameData_frames)
  qed
  then show ?thesis using s h all by (auto simp: sseHeaders_def update_conv)
qed

text \<open>Every watch route is behind the authentication middleware, and answers 500 with no event when the watch does not start.\<close>

lemma watch_routes_guarded:
  assumes "(pattern, h) \<in> set (registerWatchRoutes nl pj wc (Some a))" and "\<nexists>c. bearerClaims a (hc_Authorization cred) c"
    and "hc_AccessToken cred = ''''"
  shows "h cred r w = (unauthorizedCode, w)"
  using assms by (auto simp: registerWatchRoutes_def authMiddleware_passes)

lemma watchHandler_fails:
  assumes "wc_Watch wc kind opts = Inl err" and "rw_Room w = None" and "rw_Written w = ''''"
  shows "\<exists>w'. watchHandler kind convert marshal wc opts w = (500, w') \<and> readSSE (rw_Written w') = []"
proof -
  have "rw_Written (snd (http_Error ''failed to start watch'' 500 w)) = ''failed to start watch'' @ [newline]"
    using assms by (simp add: http_Error_def fmt_Fprint_cases)
  moreover have "readSSE (''failed to start watch'' @ [newline]) = []" by (simp add: readSSE_def newline_def hasPrefix_def)
  ultimately show ?thesis using assms(1) by (simp add: watchHandler_def http_Error_def)
qed

subsection \<open>Witness\<close>

text \<open>Two runs of a watch on Models whose message is rendered by its name: a connection without a break, and one that breaks inside the second event.\<close>

definition namedModel :: "string \<Rightarrow> clientObject" where
  "namedModel n = ObjModel (seededModel\<lparr>mdl_Meta := (mdl_Meta seededModel)\<lparr>om_Name := n\<rparr>\<rparr>)"

definition modelName :: "clientObject \<Rightarrow> string option" where
  "modelName obj = (case obj of ObjModel m \<Rightarrow> Some (om_Name (mdl_Meta m)) | _ \<Rightarrow> None)"

definition nameJSON :: "string \<Rightarrow> string result" where
  "nameJSON n = (if newline \<in> set n then Inl (Errorf ''control character'' []) else Inr n)"

definition demoWatch :: "watchStep list" where
  "demoWatch = [WatchEvent watch_Added (Some (namedModel ''a'')), HeartbeatTick, WatchEvent watch_Error None,
     WatchEvent watch_Modified (Some (namedModel ''b'')), ChannelClosed, WatchEvent watch_Deleted (Some (namedModel ''a''))]"

definition demoWriter :: "nat option \<Rightarrow> responseWriter" where
  "demoWriter n = \<lparr>rw_Flusher = True, rw_Headers = [], rw_Written = '''', rw_Flushed = '''', rw_Room = n\<rparr>"

lemma demo_delivered: "delivered modelName nameJSON demoWatch = [envelope watch_Added ''a'', envelope watch_Modified ''b'']"
  by (simp add: demoWatch_def namedModel_def modelName_def nameJSON_def newline_def)

theorem watch_stream_faithful_witness:
  "\<exists>w1 w2 m. streamSSE modelName nameJSON demoWatch (demoWriter None) = (200, w1) \<and>
     readSSE (rw_Written w1) = [envelope watch_Added ''a'', envelope watch_Modified ''b''] \<and>
     streamSSE modelName nameJSON demoWatch (demoWriter (Some 50)) = (200, w2) \<and>
     readSSE (rw_Written w2) = take m [envelope watch_Added ''a'', envelope watch_Modified ''b'']"
proof -
  have j: "\<forall>p s. nameJSON p = Inr s \<longrightarrow> newline \<notin> set s" by (auto simp: nameJSON_def)
  note f = watch_stream_faithful[OF j, where convert = modelName and ss = demoWatch, unfolded demo_delivered]
  obtain w1 where "streamSSE modelName nameJSON demoWatch (demoWriter None) = (200, w1)"
    "readSSE (rw_Written w1) = [envelope watch_Added ''a'', envelope watch_Modified ''b'']"
    using f[of "demoWriter None"] by (auto simp: demoWriter_def)
  moreover obtain w2 m where "streamSSE modelName nameJSON demoWatch (demoWriter (Some 50)) = (200, w2)"
    "readSSE (rw_Written w2) = take m [envelope watch_Added ''a'', envelope watch_Modified ''b'']"
    using f[of "demoWriter (Some 50)"] by (auto simp: demoWriter_def)
  ultimately show ?thesis by blast
qed

end
