(* ===== verification/Playground.thy ===== *)
theory Playground
  imports PluginRun WatchApi
begin

text \<open>
  \<open>internal/server/playground.go\<close>: a chat request is sent to an agent over A2A and the answer comes back as a run of AG-UI events. Parameters: the Kubernetes client,
  the A2A client library, the clock, the random source, the JSON library, and the context of the request, which may be done at any wait.
\<close>

unbundle bit_operations_syntax

subsection \<open>Requests, parts, events\<close>

record playgroundTurn =
  pt_Role :: string
  pt_Content :: string

record playgroundRequest =
  pr_Message :: string
  pr_History :: "playgroundTurn list"

record playgroundPart =
  pp_Type :: string
  pp_Text :: string
  pp_Data :: doc
  pp_Name :: string

record aguiEvent =
  ae_Type :: string
  ae_RunID :: string
  ae_ThreadID :: string
  ae_MessageID :: string
  ae_Role :: string
  ae_Delta :: string
  ae_Message :: msgtext
  ae_DataID :: string
  ae_Data :: "json option"
  ae_Name :: string
  ae_Timestamp :: int

definition zeroEvent :: "string \<Rightarrow> int \<Rightarrow> aguiEvent" where
  "zeroEvent t now = \<lparr>ae_Type = t, ae_RunID = '''', ae_ThreadID = '''', ae_MessageID = '''', ae_Role = '''', ae_Delta = '''',
     ae_Message = NoText, ae_DataID = '''', ae_Data = None, ae_Name = '''', ae_Timestamp = now\<rparr>"

record playgroundHTTPRequest =
  hr_Method :: string
  hr_namespace :: string
  hr_name :: string
  hr_Body :: "playgroundRequest result"

text \<open>\<open>pg_wait\<close>: the \<open>select\<close> of a poll, which passes or gives the error of the context. \<open>pg_rand\<close> fills sixteen bytes.\<close>

record 'w PlaygroundHandler =
  pg_agents :: "('w, Agent) kclient"
  pg_connect :: "string \<Rightarrow> 'w \<Rightarrow> goerror option"
  pg_send :: "string \<Rightarrow> a2aMsg \<Rightarrow> 'w \<Rightarrow> SendMessageResult result \<times> 'w"
  pg_getTask :: "string \<Rightarrow> string \<Rightarrow> 'w \<Rightarrow> a2aTask result \<times> 'w"
  pg_terminal :: "a2aState \<Rightarrow> bool"
  pg_wait :: "'w \<Rightarrow> goerror option \<times> 'w"
  pg_rand :: "'w \<Rightarrow> (8 word list) option \<times> 'w"
  pg_unixNano :: "'w \<Rightarrow> int \<times> 'w"
  pg_marshal :: "aguiEvent \<Rightarrow> string result"

definition playgroundMaxPolls :: nat where
  "playgroundMaxPolls = 150"

subsection \<open>Identifiers\<close>

definition hexBytes :: "8 word list \<Rightarrow> string" where
  "hexBytes bs = concat (map (\<lambda>b. hex_pad 2 (unat b)) bs)"

definition uuidText :: "8 word list \<Rightarrow> string" where
  "uuidText raw =
     (let u1 = raw[6 := (raw ! 6 AND 0x0f) OR 0x40];
          u = u1[8 := (u1 ! 8 AND 0x3f) OR 0x80];
          cut = (\<lambda>a b. hexBytes (take (b - a) (drop a u)))
      in cut 0 4 @ ''-'' @ cut 4 6 @ ''-'' @ cut 6 8 @ ''-'' @ cut 8 10 @ ''-'' @ cut 10 16)"

definition newUUID :: "'w PlaygroundHandler \<Rightarrow> 'w \<Rightarrow> string \<times> 'w" where
  "newUUID h w =
     (case pg_rand h w of
        (Some raw, w1) \<Rightarrow> (uuidText raw, w1)
      | (None, w1) \<Rightarrow> (let (now, w2) = pg_unixNano h w1 in (dec_int now, w2)))"

definition nowMs :: "'w PlaygroundHandler \<Rightarrow> 'w \<Rightarrow> int \<times> 'w" where
  "nowMs h w = (let (now, w1) = pg_unixNano h w in (now div 1000000, w1))"

subsection \<open>The answer of an agent\<close>

definition extractParts :: "a2aPart list \<Rightarrow> string \<Rightarrow> playgroundPart list" where
  "extractParts parts artifactName = concat (map (\<lambda>p.
     case p of
       PText t m \<Rightarrow> if t \<noteq> '''' then [\<lparr>pp_Type = ''text'', pp_Text = t, pp_Data = [], pp_Name = ''''\<rparr>] else []
     | PData d m \<Rightarrow> if d \<noteq> [] then [\<lparr>pp_Type = ''data'', pp_Text = '''', pp_Data = d, pp_Name = artifactName\<rparr>] else []
     | PFile f m \<Rightarrow> []) parts)"

fun firstParts :: "playgroundPart list list \<Rightarrow> playgroundPart list" where
  "firstParts [] = []"
| "firstParts (ps # rest) = (if ps \<noteq> [] then ps else firstParts rest)"

definition extractPartsFromTask :: "a2aTask \<Rightarrow> playgroundPart list" where
  "extractPartsFromTask task =
     firstParts ((case tsk_StatusMessage task of None \<Rightarrow> [] | Some m \<Rightarrow> [extractParts (msg_Parts m) '''']) @
       map (\<lambda>m. extractParts (msg_Parts m) '''') (filter (\<lambda>m. msg_Role m = A2ARoleAgent) (rev (tsk_History task))) @
       map (\<lambda>a. extractParts (art_Parts a) (art_Name a)) (tsk_Artifacts task))"

definition playgroundEndpointCandidates :: "string \<Rightarrow> string list" where
  "playgroundEndpointCandidates endpoint =
     (let trimmed = trimRightChar (CHR ''/'') (trimSpace endpoint) in
      if trimmed = '''' then [endpoint]
      else dedupe [] [trimmed, if hasSuffix trimmed ''/a2a'' then trimSuffix trimmed ''/a2a'' else trimmed @ ''/a2a''])"

text \<open>The loop over the candidates, with the error of the last attempt.\<close>

fun sendToCandidates :: "'w PlaygroundHandler \<Rightarrow> a2aMsg \<Rightarrow> goerror option \<Rightarrow> string list \<Rightarrow> 'w
    \<Rightarrow> (goerror option + SendMessageResult \<times> string) \<times> 'w" where
  "sendToCandidates h message sendErr [] w = (Inl sendErr, w)"
| "sendToCandidates h message sendErr (candidate # rest) w =
     (case pg_connect h candidate w of
        Some err \<Rightarrow> sendToCandidates h message (Some err) rest w
      | None \<Rightarrow>
          (case pg_send h candidate message w of
             (Inr result, w1) \<Rightarrow> (Inr (result, candidate), w1)
           | (Inl err, w1) \<Rightarrow> sendToCandidates h message (Some err) rest w1))"

definition failureText :: "a2aTask \<Rightarrow> string" where
  "failureText task =
     (case tsk_StatusMessage task of
        None \<Rightarrow> ''Agent task failed''
      | Some m \<Rightarrow> (case filter (\<lambda>t. t \<noteq> '''') (concat (map (\<lambda>p. case p of PText t d \<Rightarrow> [t] | _ \<Rightarrow> []) (msg_Parts m))) of
                     [] \<Rightarrow> ''Agent task failed'' | t # _ \<Rightarrow> t))"

fun pollLoop :: "'w PlaygroundHandler \<Rightarrow> string \<Rightarrow> string \<Rightarrow> nat \<Rightarrow> 'w \<Rightarrow> playgroundPart list result \<times> 'w" where
  "pollLoop h endpoint taskID 0 w = (Inl (Errorf ''A2A task timed out after polling'' []), w)"
| "pollLoop h endpoint taskID (Suc n) w =
     (case pg_wait h w of
        (Some err, w1) \<Rightarrow> (Inl err, w1)
      | (None, w1) \<Rightarrow>
          (case pg_getTask h endpoint taskID w1 of
             (Inl err, w2) \<Rightarrow> pollLoop h endpoint taskID n w2
           | (Inr task, w2) \<Rightarrow>
               if pg_terminal h (tsk_State task) then
                 (if tsk_State task = TaskStateFailed then (Inl (Errorf ''%s'' [AS (failureText task)]), w2)
                  else (Inr (extractPartsFromTask task), w2))
               else pollLoop h endpoint taskID n w2))"

definition playgroundPollTask :: "'w PlaygroundHandler \<Rightarrow> string \<Rightarrow> string \<Rightarrow> 'w \<Rightarrow> playgroundPart list result \<times> 'w" where
  "playgroundPollTask h endpoint taskID w =
     (case pg_connect h endpoint w of
        Some err \<Rightarrow> (Inl (ErrorfW ''failed to create A2A client for polling: %w'' [] err), w)
      | None \<Rightarrow> pollLoop h endpoint taskID playgroundMaxPolls w)"

definition userMessage :: "string \<Rightarrow> a2aMsg" where
  "userMessage text = \<lparr>msg_Role = A2ARoleUser, msg_Parts = [PText text []], msg_TaskID = '''', msg_ContextID = '''',
     msg_ReferenceTasks = [], msg_Extensions = [], msg_Metadata = []\<rparr>"

definition callAgent :: "'w PlaygroundHandler \<Rightarrow> string \<Rightarrow> playgroundRequest \<Rightarrow> 'w \<Rightarrow> playgroundPart list result \<times> 'w" where
  "callAgent h endpoint req w =
     (case sendToCandidates h (userMessage (pr_Message req)) None (playgroundEndpointCandidates endpoint) w of
        (Inl (Some err), w1) \<Rightarrow> (Inl (ErrorfW ''failed to send A2A message: %w'' [] err), w1)
      | (Inl None, w1) \<Rightarrow> (Inl (Errorf ''unexpected A2A response type: %T'' [AS ''<nil>'']), w1)
      | (Inr (result, usedEndpoint), w1) \<Rightarrow>
          (case result of
             SMTask None \<Rightarrow> (Inl (Errorf ''received nil task from agent'' []), w1)
           | SMTask (Some t) \<Rightarrow>
               if pg_terminal h (tsk_State t) then (Inr (extractPartsFromTask t), w1)
               else playgroundPollTask h usedEndpoint (tsk_ID t) w1
           | SMMessage None \<Rightarrow> (Inl (Errorf ''received nil message from agent'' []), w1)
           | SMMessage (Some m) \<Rightarrow>
               (let parts = extractParts (msg_Parts m) '''' in
                if parts \<noteq> [] then (Inr parts, w1)
                else if msg_TaskID m \<noteq> '''' then playgroundPollTask h usedEndpoint (msg_TaskID m) w1
                else (Inl (Errorf ''received empty response from agent'' []), w1))
           | SMOther t \<Rightarrow> (Inl (Errorf ''unexpected A2A response type: %T'' [AS t]), w1)))"

subsection \<open>The run\<close>

text \<open>A failed write is logged and the next event is attempted.\<close>

definition writeEvent :: "'w PlaygroundHandler \<Rightarrow> aguiEvent \<Rightarrow> responseWriter \<Rightarrow> responseWriter" where
  "writeEvent h evt rw =
     (case pg_marshal h evt of
        Inl err \<Rightarrow> rw
      | Inr data \<Rightarrow>
          (let (ok, rw1) = fmt_Fprint (''event: '' @ ae_Type evt @ [newline] @ ''data: '' @ data @ [newline, newline]) rw
           in if ok then Flush rw1 else rw1))"

text \<open>The event of one part; a part of another type, or data that cannot be marshalled, gives none.\<close>

definition partEvent :: "'w PlaygroundHandler \<Rightarrow> string \<Rightarrow> playgroundPart \<Rightarrow> 'w \<Rightarrow> aguiEvent option \<times> 'w" where
  "partEvent h messageID pp w =
     (if pp_Type pp = ''text'' then
        (let (now, w1) = nowMs h w in
         (Some ((zeroEvent ''TEXT_MESSAGE_CONTENT'' now)\<lparr>ae_MessageID := messageID, ae_Delta := pp_Text pp\<rparr>), w1))
      else if pp_Type pp = ''data'' then
        (case canonicalize (pp_Data pp) of
           Inl err \<Rightarrow> (None, w)
         | Inr raw \<Rightarrow>
             (let (dataID, w1) = newUUID h w; (now, w2) = nowMs h w1 in
              (Some ((zeroEvent ''DATA_PART'' now)\<lparr>ae_MessageID := messageID, ae_DataID := dataID, ae_Data := Some (JObj raw),
                 ae_Name := pp_Name pp\<rparr>), w2)))
      else (None, w))"

fun writeParts :: "'w PlaygroundHandler \<Rightarrow> string \<Rightarrow> playgroundPart list \<Rightarrow> 'w \<times> responseWriter \<Rightarrow> 'w \<times> responseWriter" where
  "writeParts h messageID [] s = s"
| "writeParts h messageID (pp # pps) (w, rw) =
     (case partEvent h messageID pp w of
        (None, w1) \<Rightarrow> writeParts h messageID pps (w1, rw)
      | (Some evt, w1) \<Rightarrow> writeParts h messageID pps (w1, writeEvent h evt rw))"

definition runPlayground ::
  "'w PlaygroundHandler \<Rightarrow> string \<Rightarrow> playgroundRequest \<Rightarrow> 'w \<times> responseWriter \<Rightarrow> 'w \<times> responseWriter" where
  "runPlayground h endpoint req s =
     (let (w, rw) = s;
          (runID, w1) = newUUID h w; (threadID, w2) = newUUID h w1; (messageID, w3) = newUUID h w2;
          (t0, w4) = nowMs h w3;
          rw0 = writeEvent h ((zeroEvent ''RUN_STARTED'' t0)\<lparr>ae_RunID := runID, ae_ThreadID := threadID\<rparr>) rw;
          (answer, w5) = callAgent h endpoint req w4
      in case answer of
           Inl err \<Rightarrow>
             (let (t, w6) = nowMs h w5 in
              (w6, writeEvent h ((zeroEvent ''RUN_ERROR'' t)\<lparr>ae_RunID := runID, ae_Message := ErrText err\<rparr>) rw0))
         | Inr parts \<Rightarrow>
             if parts = [] then
               (let (t, w6) = nowMs h w5 in
                (w6, writeEvent h ((zeroEvent ''RUN_ERROR'' t)\<lparr>ae_RunID := runID, ae_Message := Sprintf ''Agent returned no response'' []\<rparr>) rw0))
             else
               (let (t1, w6) = nowMs h w5;
                    rw1 = writeEvent h ((zeroEvent ''TEXT_MESSAGE_START'' t1)\<lparr>ae_MessageID := messageID, ae_Role := ''assistant''\<rparr>) rw0;
                    (w7, rw2) = writeParts h messageID parts (w6, rw1);
                    (t2, w8) = nowMs h w7;
                    rw3 = writeEvent h ((zeroEvent ''TEXT_MESSAGE_END'' t2)\<lparr>ae_MessageID := messageID\<rparr>) rw2;
                    (t3, w9) = nowMs h w8
                in (w9, writeEvent h ((zeroEvent ''RUN_FINISHED'' t3)\<lparr>ae_RunID := runID, ae_ThreadID := threadID\<rparr>) rw3)))"

definition refusal :: "string \<Rightarrow> int \<Rightarrow> 'w \<times> responseWriter \<Rightarrow> int \<times> 'w \<times> responseWriter" where
  "refusal msg code s = (let (w, rw) = s; (c, rw1) = http_Error msg code rw in (c, w, rw1))"

definition PlaygroundHandler_ServeHTTP ::
  "'w PlaygroundHandler \<Rightarrow> playgroundHTTPRequest \<Rightarrow> 'w \<times> responseWriter \<Rightarrow> int \<times> 'w \<times> responseWriter" where
  "PlaygroundHandler_ServeHTTP h r s =
     (if hr_Method r \<noteq> ''POST'' then refusal ''method not allowed'' 405 s
      else if hr_namespace r = '''' \<or> hr_name r = '''' then refusal ''namespace and name are required'' 400 s
      else (case hr_Body r of
          Inl err \<Rightarrow> refusal ''invalid request body'' 400 s
        | Inr req \<Rightarrow>
            if pr_Message req = '''' then refusal ''message is required'' 400 s
            else (case kc_Get (pg_agents h) \<lparr>nn_Name = hr_name r, nn_Namespace = hr_namespace r\<rparr> (fst s) of
                Inl err \<Rightarrow> refusal ''agent not found'' 404 s
              | Inr agent \<Rightarrow>
                  (let endpoint = ast_URL (ag_Status agent); (w, rw) = s in
                   if endpoint = '''' then refusal ''agent has no endpoint URL'' 503 s
                   else if \<not> rw_Flusher rw then refusal ''streaming not supported'' 500 s
                   else (200, runPlayground h endpoint req (w, Flush (rw\<lparr>rw_Headers := sseHeaders (rw_Headers rw)\<rparr>)))))))"

subsection \<open>Identifiers are version 4 UUIDs\<close>

lemma hexBytes_length [simp]: "length (hexBytes bs) = 2 * length bs"
  by (induction bs) (simp_all add: hexBytes_def)

lemma hexBytes_Cons: "hexBytes (b # bs) = hex_pad 2 (unat b) @ hexBytes bs"
  by (simp add: hexBytes_def)

lemma hex_pad_2: "hex_pad 2 n = [digit_char (n div 16 mod 16), digit_char (n mod 16)]"
  by (simp add: numeral_2_eq_2)

lemma version_nibble: "unat (((x::8 word) AND 0x0f) OR 0x40) div 16 mod 16 = 4"
proof -
  have "drop_bit 4 ((x AND 0x0f) OR 0x40) = (4::8 word)" by (rule bit_word_eqI) (auto simp: bit_simps)
  then have "unat (drop_bit 4 ((x AND 0x0f) OR 0x40)) = 4" by simp
  then have "drop_bit 4 (unat ((x AND 0x0f) OR 0x40)) = 4" by (simp only: unat_drop_bit_eq)
  then show ?thesis by (simp add: drop_bit_eq_div)
qed

lemma variant_nibble: "unat (((x::8 word) AND 0x3f) OR 0x80) div 16 mod 16 \<in> {8, 9, 10, 11}"
proof -
  let ?y = "(x AND 0x3f) OR 0x80"
  have "drop_bit 6 ?y = (2::8 word)" by (rule bit_word_eqI) (auto simp: bit_simps)
  then have "unat (drop_bit 6 ?y) = 2" by simp
  then have "drop_bit 6 (unat ?y) = 2" by (simp only: unat_drop_bit_eq)
  then have "unat ?y div 64 = 2" by (simp add: drop_bit_eq_div)
  then have "unat ?y div 16 div 4 = 2" by (simp add: div_mult2_eq[symmetric])
  then have "unat ?y div 16 \<in> {8, 9, 10, 11}" by auto
  then show ?thesis by auto
qed

lemma nibble_chars: "digit_char 4 = CHR ''4''" "digit_char 8 = CHR ''8''" "digit_char 9 = CHR ''9''" "digit_char 10 = CHR ''a''" "digit_char 11 = CHR ''b''"
  by code_simp+

lemma uuid_v4:
  assumes "length raw = 16"
  shows "length (uuidText raw) = 36" and "uuidText raw ! 14 = CHR ''4''" and "uuidText raw ! 19 \<in> set ''89ab''"
proof -
  define u where "u = (raw[6 := (raw ! 6 AND 0x0f) OR 0x40])[8 := (raw ! 8 AND 0x3f) OR 0x80]"
  have "length u = 16" using assms by (simp add: u_def)
  then obtain a0 a1 a2 a3 a4 a5 a6 a7 a8 a9 a10 a11 a12 a13 a14 a15 where
    u: "u = [a0, a1, a2, a3, a4, a5, a6, a7, a8, a9, a10, a11, a12, a13, a14, a15]"
    by (auto simp: numeral_eq_Suc length_Suc_conv)
  have "u ! 6 = (raw ! 6 AND 0x0f) OR 0x40" "u ! 8 = (raw ! 8 AND 0x3f) OR 0x80" using assms by (simp_all add: u_def)
  then have n: "unat a6 div 16 mod 16 = 4" "unat a8 div 16 mod 16 \<in> {8, 9, 10, 11}"
    using version_nibble[of "raw ! 6"] variant_nibble[of "raw ! 8"] by (simp_all add: u)
  have c: "uuidText raw = hexBytes (take 4 u) @ ''-'' @ hexBytes (take 2 (drop 4 u)) @ ''-'' @ hexBytes (take 2 (drop 6 u)) @ ''-'' @
      hexBytes (take 2 (drop 8 u)) @ ''-'' @ hexBytes (take 6 (drop 10 u))"
    by (simp add: uuidText_def Let_def u_def)
  have t: "uuidText raw = hexBytes [a0, a1, a2, a3] @ ''-'' @ hexBytes [a4, a5] @ ''-'' @ hexBytes [a6, a7] @ ''-'' @ hexBytes [a8, a9] @ ''-'' @
      hexBytes [a10, a11, a12, a13, a14, a15]"
    using c by (simp add: u)
  show "length (uuidText raw) = 36" by (simp add: t)
  show "uuidText raw ! 14 = CHR ''4''" using n(1) by (simp add: t hexBytes_def hex_pad_2 nibble_chars)
  show "uuidText raw ! 19 \<in> set ''89ab''" using n(2) by (auto simp: t hexBytes_def hex_pad_2 nibble_chars)
qed

subsection \<open>The protocol of a run\<close>

text \<open>
  What a well-formed run shows for an answer of the agent: a start, then either an error with the agent's error, or one message with an event for each part that has
  one, in order, and an end; events of a message carry its id, and the run ends under the id it started with.
\<close>

definition partType :: "playgroundPart \<Rightarrow> string list" where
  "partType pp =
     (if pp_Type pp = ''text'' then [''TEXT_MESSAGE_CONTENT'']
      else if pp_Type pp = ''data'' \<and> (\<exists>raw. canonicalize (pp_Data pp) = Inr raw) then [''DATA_PART''] else [])"

definition deltas :: "aguiEvent list \<Rightarrow> string list" where
  "deltas evs = map ae_Delta (filter (\<lambda>e. ae_Type e = ''TEXT_MESSAGE_CONTENT'') evs)"

definition texts :: "playgroundPart list \<Rightarrow> string list" where
  "texts pps = map pp_Text (filter (\<lambda>pp. pp_Type pp = ''text'') pps)"

definition validRun :: "playgroundPart list result \<Rightarrow> aguiEvent list \<Rightarrow> bool" where
  "validRun answer evs \<longleftrightarrow> evs \<noteq> [] \<and> ae_RunID (last evs) = ae_RunID (hd evs) \<and>
     (case answer of
        Inl err \<Rightarrow> map ae_Type evs = [''RUN_STARTED'', ''RUN_ERROR''] \<and> ae_Message (last evs) = ErrText err
      | Inr parts \<Rightarrow>
          if parts = [] then map ae_Type evs = [''RUN_STARTED'', ''RUN_ERROR'']
          else map ae_Type evs = ''RUN_STARTED'' # ''TEXT_MESSAGE_START'' # concat (map partType parts) @ [''TEXT_MESSAGE_END'', ''RUN_FINISHED''] \<and>
            deltas evs = texts parts \<and> (\<forall>e \<in> set (tl (butlast evs)). ae_MessageID e = ae_MessageID (evs ! 1)))"

lemma partEvent_cases:
  obtains (none) w' where "partEvent h mid pp w = (None, w')" "partType pp = []" "pp_Type pp \<noteq> ''text''"
  | (some) evt w' where "partEvent h mid pp w = (Some evt, w')" "partType pp = [ae_Type evt]" "ae_MessageID evt = mid"
      "deltas [evt] = texts [pp]"
proof (cases "pp_Type pp = ''text''")
  case True
  then show ?thesis
    by (intro some) (auto simp: partEvent_def partType_def deltas_def texts_def zeroEvent_def split_beta)
next
  case False
  show ?thesis
  proof (cases "pp_Type pp = ''data'' \<and> (\<exists>raw. canonicalize (pp_Data pp) = Inr raw)")
    case True
    then obtain raw where "pp_Type pp = ''data''" "canonicalize (pp_Data pp) = Inr raw" by blast
    then show ?thesis using False
      by (intro some) (auto simp: partEvent_def partType_def deltas_def texts_def zeroEvent_def split_beta Let_def)
  next
    case n: False
    then show ?thesis using False
      by (intro none) (auto simp: partEvent_def partType_def split: sum.split)
  qed
qed

lemma writeParts_events:
  "\<exists>evs w'. writeParts h mid pps (w, rw) = (w', fold (writeEvent h) evs rw) \<and> map ae_Type evs = concat (map partType pps) \<and>
     deltas evs = texts pps \<and> (\<forall>e \<in> set evs. ae_MessageID e = mid)"
proof (induction pps arbitrary: w rw)
  case Nil
  then show ?case by (simp add: deltas_def texts_def)
next
  case (Cons pp pps)
  show ?case
  proof (cases rule: partEvent_cases[of h mid pp w])
    case (none w')
    then show ?thesis using Cons.IH[of w' rw] by (simp add: texts_def)
  next
    case (some evt w')
    obtain evs w2 where e: "writeParts h mid pps (w', writeEvent h evt rw) = (w2, fold (writeEvent h) evs (writeEvent h evt rw))"
      "map ae_Type evs = concat (map partType pps)" "deltas evs = texts pps" "\<forall>e \<in> set evs. ae_MessageID e = mid"
      using Cons.IH[of w' "writeEvent h evt rw"] by blast
    have "deltas (evt # evs) = texts (pp # pps)" using some(4) e(3) by (auto simp: deltas_def texts_def split: if_splits)
    then show ?thesis using some e by (intro exI[of _ "evt # evs"] exI[of _ w2]) simp
  qed
qed

lemma runPlayground_events:
  "\<exists>evs answer w1 w2 w'. runPlayground h endpoint req (w, rw) = (w', fold (writeEvent h) evs rw) \<and>
     callAgent h endpoint req w1 = (answer, w2) \<and> validRun answer evs"
proof -
  obtain runID w1 threadID w2 messageID w3 t0 w4 where ids: "newUUID h w = (runID, w1)" "newUUID h w1 = (threadID, w2)"
    "newUUID h w2 = (messageID, w3)" "nowMs h w3 = (t0, w4)" by (metis surj_pair)
  obtain answer w5 where a: "callAgent h endpoint req w4 = (answer, w5)" by (metis surj_pair)
  obtain t1 w6 where n1: "nowMs h w5 = (t1, w6)" by (metis surj_pair)
  let ?s = "(zeroEvent ''RUN_STARTED'' t0)\<lparr>ae_RunID := runID, ae_ThreadID := threadID\<rparr>"
  note run = runPlayground_def ids a n1 Let_def zeroEvent_def
  show ?thesis
  proof (cases answer)
    case (Inl err)
    let ?evs = "[?s, (zeroEvent ''RUN_ERROR'' t1)\<lparr>ae_RunID := runID, ae_Message := ErrText err\<rparr>]"
    have "runPlayground h endpoint req (w, rw) = (w6, fold (writeEvent h) ?evs rw)" by (simp add: run Inl)
    moreover have "validRun answer ?evs" by (simp add: validRun_def zeroEvent_def Inl)
    ultimately show ?thesis using a by blast
  next
    case (Inr parts)
    show ?thesis
    proof (cases "parts = []")
      case True
      let ?evs = "[?s, (zeroEvent ''RUN_ERROR'' t1)\<lparr>ae_RunID := runID, ae_Message := Sprintf ''Agent returned no response'' []\<rparr>]"
      have "runPlayground h endpoint req (w, rw) = (w6, fold (writeEvent h) ?evs rw)" by (simp add: run Inr True)
      moreover have "validRun answer ?evs" by (simp add: validRun_def zeroEvent_def Inr True)
      ultimately show ?thesis using a by blast
    next
      case False
      let ?m = "(zeroEvent ''TEXT_MESSAGE_START'' t1)\<lparr>ae_MessageID := messageID, ae_Role := ''assistant''\<rparr>"
      let ?rw = "writeEvent h ?m (writeEvent h ?s rw)"
      obtain evs w7 where p: "writeParts h messageID parts (w6, ?rw) = (w7, fold (writeEvent h) evs ?rw)"
        "map ae_Type evs = concat (map partType parts)" "deltas evs = texts parts" "\<forall>e \<in> set evs. ae_MessageID e = messageID"
        using writeParts_events[of h messageID parts w6 ?rw] by blast
      obtain t2 w8 t3 w9 where n2: "nowMs h w7 = (t2, w8)" "nowMs h w8 = (t3, w9)" by (metis surj_pair)
      let ?evs = "?s # ?m # evs @ [(zeroEvent ''TEXT_MESSAGE_END'' t2)\<lparr>ae_MessageID := messageID\<rparr>,
        (zeroEvent ''RUN_FINISHED'' t3)\<lparr>ae_RunID := runID, ae_ThreadID := threadID\<rparr>]"
      have "runPlayground h endpoint req (w, rw) = (w9, fold (writeEvent h) ?evs rw)"
        using p(1) n2 False by (simp add: run Inr)
      moreover have "validRun answer ?evs"
        using p(2-) False by (auto simp: validRun_def zeroEvent_def Inr deltas_def butlast_append)
      ultimately show ?thesis using a by blast
    qed
  qed
qed

text \<open>Reading a named event back gives its data.\<close>

definition eventText :: "aguiEvent \<Rightarrow> string \<Rightarrow> string" where
  "eventText evt data = ''event: '' @ ae_Type evt @ [newline] @ ''data: '' @ data @ [newline, newline]"

lemma readSSE_event:
  assumes "newline \<notin> set (ae_Type evt)" and "newline \<notin> set data"
  shows "readSSE (eventText evt data @ s) = data # readSSE s"
proof -
  have "completeLines [] (eventText evt data @ s) = (''event: '' @ ae_Type evt) # (''data: '' @ data) # '''' # completeLines [] s"
    using completeLines_line[of "''event: '' @ ae_Type evt" "[]" "''data: '' @ data @ newline # newline # s"]
      completeLines_line[of "''data: '' @ data" "[]" "newline # s"] assms
    by (simp add: eventText_def newline_def)
  then show ?thesis by (simp add: readSSE_def hasPrefix_def)
qed

definition oneLine :: "'w PlaygroundHandler \<Rightarrow> bool" where
  "oneLine h \<longleftrightarrow> (\<forall>evt. \<exists>data. pg_marshal h evt = Inr data \<and> newline \<notin> set data)"

lemma writeEvents_read:
  assumes "oneLine h" and "rw_Room rw = None" and "\<forall>e \<in> set evs. newline \<notin> set (ae_Type e)"
  shows "\<exists>out. rw_Written (fold (writeEvent h) evs rw) = rw_Written rw @ out \<and> map Inr (readSSE out) = map (pg_marshal h) evs"
  using assms(2,3)
proof (induction evs arbitrary: rw)
  case Nil
  then show ?case by (intro exI[of _ "''''"]) (simp add: readSSE_def)
next
  case (Cons e evs)
  obtain d where d: "pg_marshal h e = Inr d" "newline \<notin> set d" using assms(1) by (auto simp: oneLine_def)
  have w: "rw_Written (writeEvent h e rw) = rw_Written rw @ eventText e d" "rw_Room (writeEvent h e rw) = None"
    using Cons.prems d by (simp_all add: writeEvent_def fmt_Fprint_cases eventText_def Flush_def)
  obtain out where "rw_Written (fold (writeEvent h) evs (writeEvent h e rw)) = rw_Written (writeEvent h e rw) @ out"
    "map Inr (readSSE out) = map (pg_marshal h) evs" using Cons.IH[OF w(2)] Cons.prems by auto
  then show ?case using w d readSSE_event[of e d out] Cons.prems by (intro exI[of _ "eventText e d @ out"]) simp
qed

lemma partType_lines: "t \<in> set (partType pp) \<Longrightarrow> newline \<notin> set t"
  by (auto simp: partType_def newline_def split: if_splits)

lemma validRun_lines: "validRun answer evs \<Longrightarrow> e \<in> set evs \<Longrightarrow> newline \<notin> set (ae_Type e)"
proof -
  assume v: "validRun answer evs" and e: "e \<in> set evs"
  obtain parts where "map ae_Type evs = [''RUN_STARTED'', ''RUN_ERROR''] \<or>
      map ae_Type evs = ''RUN_STARTED'' # ''TEXT_MESSAGE_START'' # concat (map partType parts) @ [''TEXT_MESSAGE_END'', ''RUN_FINISHED'']"
    using v unfolding validRun_def by (auto split: sum.splits if_splits simp del: map_eq_Cons_conv)
  moreover have "ae_Type e \<in> set (map ae_Type evs)" using e by simp
  ultimately have "ae_Type e \<in> set [''RUN_STARTED'', ''RUN_ERROR''] \<or> ae_Type e \<in>
      set (''RUN_STARTED'' # ''TEXT_MESSAGE_START'' # concat (map partType parts) @ [''TEXT_MESSAGE_END'', ''RUN_FINISHED''])" by metis
  then have "ae_Type e \<in> {''RUN_STARTED'', ''RUN_ERROR'', ''TEXT_MESSAGE_START'', ''TEXT_MESSAGE_END'', ''RUN_FINISHED''} \<or>
      (\<exists>pp. ae_Type e \<in> set (partType pp))"
    by auto
  then show ?thesis using partType_lines by (auto simp: newline_def)
qed


text \<open>
  A task that has failed is shown as an answer when the agent returns it at once, and as an error when it fails while it is polled.
\<close>

lemma failed_task_shown:
  assumes "trimRightChar (CHR ''/'') (trimSpace url) = u # us" and "pg_connect h (u # us) w = None"
    and "pg_send h (u # us) (userMessage (pr_Message req)) w = (Inr (SMTask (Some t)), w1)"
    and "tsk_State t = TaskStateFailed" and "pg_terminal h TaskStateFailed"
  shows "callAgent h url req w = (Inr (extractPartsFromTask t), w1)"
    and "pg_wait h w2 = (None, w3) \<Longrightarrow> pg_getTask h (u # us) tid w3 = (Inr t, w4) \<Longrightarrow>
      pollLoop h (u # us) tid (Suc n) w2 = (Inl (Errorf ''%s'' [AS (failureText t)]), w4)"
  using assms by (simp_all add: callAgent_def playgroundEndpointCandidates_def Let_def)

text \<open>The wait for an agent is bounded: at most 150 polls, each of which asks for the task once.\<close>

fun pollsUsed :: "'w PlaygroundHandler \<Rightarrow> string \<Rightarrow> string \<Rightarrow> nat \<Rightarrow> 'w \<Rightarrow> nat" where
  "pollsUsed h endpoint taskID 0 w = 0"
| "pollsUsed h endpoint taskID (Suc n) w =
     (case pg_wait h w of
        (Some err, w1) \<Rightarrow> 0
      | (None, w1) \<Rightarrow>
          (case pg_getTask h endpoint taskID w1 of
             (Inl err, w2) \<Rightarrow> Suc (pollsUsed h endpoint taskID n w2)
           | (Inr task, w2) \<Rightarrow> if pg_terminal h (tsk_State task) then 1 else Suc (pollsUsed h endpoint taskID n w2)))"

lemma pollsUsed_bound: "pollsUsed h endpoint taskID n w \<le> n"
  by (induction n arbitrary: w) (auto split: prod.split option.split sum.split)

lemma pollLoop_gives_up:
  assumes "\<And>w. \<exists>w'. pg_wait h w = (None, w')" and "\<And>w. \<exists>e w'. pg_getTask h endpoint taskID w = (Inl e, w')"
  shows "fst (pollLoop h endpoint taskID n w) = Inl (Errorf ''A2A task timed out after polling'' [])"
proof (induction n arbitrary: w)
  case (Suc n)
  obtain w1 where "pg_wait h w = (None, w1)" using assms(1) by blast
  moreover obtain e w2 where "pg_getTask h endpoint taskID w1 = (Inl e, w2)" using assms(2) by blast
  ultimately show ?case using Suc.IH[of w2] by simp
qed simp

subsection \<open>Witness\<close>

definition chatAgent :: Agent where
  "chatAgent = demoAgent\<lparr>ag_Meta := (ag_Meta demoAgent)\<lparr>om_Name := ''a'', om_Namespace := ''ns''\<rparr>,
     ag_Status := (ag_Status demoAgent)\<lparr>ast_URL := ''http://a''\<rparr>\<rparr>"

definition helloTask :: a2aTask where
  "helloTask = \<lparr>tsk_ID = ''t'', tsk_ContextID = '''', tsk_State = TaskStateCompleted,
     tsk_StatusMessage = Some ((userMessage ''hello'')\<lparr>msg_Role := A2ARoleAgent\<rparr>), tsk_History = [], tsk_Artifacts = []\<rparr>"

definition chatWorld :: "(NamespacedName \<times> Agent) list" where
  "chatWorld = [(\<lparr>nn_Name = ''a'', nn_Namespace = ''ns''\<rparr>, chatAgent)]"

definition demoChat :: "((NamespacedName \<times> Agent) list) PlaygroundHandler" where
  "demoChat = \<lparr>pg_agents = memClient (\<lambda>a. keyOf (ag_Meta a)),
     pg_connect = (\<lambda>e w. None), pg_send = (\<lambda>e m w. (Inr (SMTask (Some helloTask)), w)), pg_getTask = (\<lambda>e t w. (Inl (Errorf ''gone'' []), w)),
     pg_terminal = (\<lambda>st. st = TaskStateCompleted), pg_wait = (\<lambda>w. (None, w)), pg_rand = (\<lambda>w. (Some (replicate 16 0), w)),
     pg_unixNano = (\<lambda>w. (0, w)), pg_marshal = (\<lambda>e. Inr (if newline \<in> set (ae_Delta e) then '''' else ae_Delta e))\<rparr>"

definition demoPost :: playgroundHTTPRequest where
  "demoPost = \<lparr>hr_Method = ''POST'', hr_namespace = ''ns'', hr_name = ''a'', hr_Body = Inr \<lparr>pr_Message = ''hi'', pr_History = []\<rparr>\<rparr>"

lemma demo_answer:
  "callAgent demoChat ''http://a'' req w = (Inr [\<lparr>pp_Type = ''text'', pp_Text = ''hello'', pp_Data = [], pp_Name = ''''\<rparr>], w)"
proof -
  have "trimRightChar (CHR ''/'') (trimSpace ''http://a'') = ''http://a''" by code_simp
  moreover have "extractPartsFromTask helloTask = [\<lparr>pp_Type = ''text'', pp_Text = ''hello'', pp_Data = [], pp_Name = ''''\<rparr>]"
    by (simp add: extractPartsFromTask_def helloTask_def userMessage_def extractParts_def)
  ultimately show ?thesis
    by (simp add: callAgent_def playgroundEndpointCandidates_def Let_def demoChat_def helloTask_def)
qed


end
