(* ===== verification/Spec2Isabelle.thy ===== *)
theory Spec2Isabelle
  imports CapabilityDomain ApiFlows AgentController PluginRun TriggerServer
    AgentAdmission WorkflowController ResourceAdmission Cosign Delivery
    TriggerApi ServerStart Playground
begin

text \<open>
  Verification of the flokoa operator (\<open>src/operator\<close>), a Kubernetes operator for LLM agents written in Go.

  \<^bold>\<open>The program.\<close> Users compose an Agent out of custom resources: Instructions, Models with a ModelProvider, AgentTools and
  Capabilities (signed OCI artifacts with Python packages). Admission webhooks check each resource. The Agent controller compiles
  the composition into one AgentSpec document, validates it against the schema of the runner version, and applies a ConfigMap, a
  Deployment and Services; small controllers keep the status of the other resources. The Capability controller asks a cosign verifier
  whether an artifact is signed, and the compiler can insist on that verdict. An AgentWorkflow is compiled into an Argo
  WorkflowTemplate whose agent tasks are run by an executor plugin that speaks A2A to the Agents. An AgentTrigger lets events reach an Agent
  through the API server's invoke endpoint. The same server offers the resources over gRPC and REST behind an OIDC guard, streams their changes
  to the web UI as server-sent events, submits workflow runs, and bridges a chat playground to the Agents.

  \<^bold>\<open>Theories and sources\<close> (paths under \<open>src/operator\<close>):

  \<^item> \<open>Prelude\<close>, \<open>Kube\<close>, \<open>FieldErrors\<close>: Go strings, maps as association lists, error chains with wrapping, the Kubernetes records, field errors.
  \<^item> \<open>Api\<close>, \<open>ApiFlows\<close>: the custom resources of \<open>api/v1alpha1/*_types.go\<close>, one record per struct.
  \<^item> \<open>ErrorTypes\<close> (\<open>internal/errors\<close>), \<open>CapabilityDomain\<close> (\<open>internal/domain/capability\<close>), \<open>ModelDomain\<close> (\<open>internal/domain/model\<close>), \<open>SpecSchema\<close>
    (\<open>internal/spec\<close>, \<open>internal/domain/hash\<close>): the pure domain logic.
  \<^item> \<open>Compiler\<close>, \<open>CompilerFacts\<close>: \<open>internal/app/agent/compiler\<close> and what it guarantees.
  \<^item> \<open>Builder\<close> (\<open>internal/infra/builder\<close>), \<open>Repo\<close> (\<open>internal/infra/repo\<close>), \<open>AgentReconcile\<close> (\<open>internal/app/agent/reconcile.go\<close>,
    \<open>internal/domain/agent\<close>), \<open>AgentController\<close> (\<open>internal/controller/agent_controller.go\<close>, \<open>agent_watchers.go\<close>, \<open>status.go\<close>).
  \<^item> \<open>AgentAdmission\<close> (\<open>internal/webhook/v1alpha1/agent_webhook.go\<close>, \<open>capability_webhook.go\<close>), \<open>ResourceAdmission\<close> (\<open>api/v1alpha1/*_webhook.go\<close>),
    \<open>WorkflowAdmission\<close> (\<open>internal/webhook/v1alpha1/agentworkflow_webhook.go\<close>): the webhooks.
  \<^item> \<open>StatusStore\<close>, \<open>ResourceControllers\<close> (Instruction, Model, ModelProvider and AgentTool controllers), \<open>CapabilityController\<close>,
    \<open>WorkflowController\<close>: the other controllers of \<open>internal/controller\<close>.
  \<^item> \<open>Cosign\<close> (\<open>internal/infra/verify\<close>), \<open>Delivery\<close> (\<open>internal/infra/delivery\<close>).
  \<^item> \<open>WorkflowCompile\<close> (\<open>internal/controller/agentworkflow_compiler.go\<close>), \<open>PluginSpec\<close>, \<open>PluginSpecFacts\<close>, \<open>PluginStore\<close>, \<open>PluginRun\<close>
    (\<open>plugins/a2a\<close>).
  \<^item> \<open>TriggerService\<close> (\<open>internal/domain/trigger\<close>, \<open>internal/app/trigger\<close>, \<open>agenttrigger_controller.go\<close>), \<open>TriggerServer\<close> (the trigger files of
    \<open>internal/server\<close>).

  \<^item> \<open>Converters\<close> (\<open>internal/converter\<close>), \<open>ResourceApi\<close> (\<open>internal/server/errors.go\<close> and the Model, ModelProvider and AgentTool services), \<open>TriggerApi\<close>,
    \<open>WorkflowApi\<close>, \<open>AgentApi\<close> (the converter and the service of AgentTriggers, AgentWorkflows and their runs, Agents): the gRPC API. The messages
    are those of \<open>server/gen\<close> that the converters fill.
  \<^item> \<open>ServerAuth\<close> (\<open>internal/server/auth.go\<close>, \<open>interceptors.go\<close>, the interceptor chain of \<open>server.go\<close>), \<open>ServerStart\<close> (\<open>internal/config\<close>, the authentication part of
    \<open>cmd/server/main.go\<close>), \<open>WatchApi\<close> (\<open>internal/server/watch.go\<close>), \<open>Playground\<close> (\<open>internal/server/playground.go\<close>).

  \<^bold>\<open>How code becomes definitions.\<close> A struct is a record with the struct's fields, a nil pointer is \<open>None\<close>, a nil slice is the empty list, a
  map is an association list in the order a range over it would use or, where only lookups matter, a function. A function that returns an
  error returns a sum, with the error chain on the left; log lines are dropped and messages are kept as format and arguments. Handlers
  take and return the state of the world they act on: the Kubernetes client is a record of operations on an abstract world, so each
  read, write, failure and conflict of a handler is a step of its definition. Integers that may wrap are words (the FNV hash of resource
  names, the bytes of a UUID); durations are nanoseconds as integers. A connection that breaks is a writer with room for so many bytes. A \<open>select\<close> over channels
  is driven by the list of what it receives, so every interleaving is an input. Strings are the ASCII fragment.

  \<^bold>\<open>Parameters.\<close> Code outside the repository is an argument: the Kubernetes client (laws in the locales \<open>kube_store\<close> and \<open>status_store\<close>), status
  condition helpers (\<open>status_condition_laws\<close>), conflict retries (\<open>retries_conflicts\<close>, \<open>last_attempt\<close>), the JSON schema validator, JSON number formatting, SHA-256, YAML and
  JSON codecs of the plugin store, the A2A client, the registry, sigstore and key checks of the verifier, the OIDC verifier, label selectors and generated
  names of the API server (\<open>generates_names\<close>), \<open>protojson\<close>, the watch client, clock and random source. Each law states
  documented behaviour, is a hypothesis of the theorems that need it, and holds for the concrete instances the witnesses use
  (\<open>memClient\<close>, \<open>stdlib\<close>, \<open>demoCodec\<close>, \<open>demoCosign\<close>).

  \<^bold>\<open>Interfaces.\<close> \<open>kube_store\<close>, \<open>ensured_object\<close>, \<open>kube_repo\<close> (create-or-update), \<open>status_store\<close> (status writes under conflict), \<open>ref_watch\<close> (watch functions that
  map an event to the Agents concerned), \<open>provider_handler\<close> (model providers) and \<open>api_resource\<close> (what a kind must offer to be served over the API) are
  locales, interpreted on the model's clients, watch functions, handlers and API kinds.

  \<^bold>\<open>What is shown.\<close>

  \<^item> Compilation: layout and order of the compiled document, precedence of the layers, exact conditions under which attachments resolve,
    namespace confinement, secrets by reference only.
  \<^item> Reconciling: a rejected composition changes nothing and keeps the last good state; a successful run leaves status, Deployment and
    document in agreement; watches cover everything compilation reads; a run that asks for nothing more has settled.
  \<^item> Admission: exact characterisations of what the webhooks accept, agreement of the Agent webhook with the compiler, of the AgentTool webhook with
    the controller, acyclicity and well-formedness of workflows, bound secret placeholders, HTTP URLs.
  \<^item> Supply chain: the verifier accepts exactly on a suitable signature; its negative verdicts are definitive; in every reachable state of the
    cluster a Capability that passes the gate was signed in the version its condition observed; the race in which a verdict
    outlives its artifact; quiescence after acceptance; settling of the delivery mode within the probe timeout.
  \<^item> Workflows: admitted workflows compile, references resolve, the plugin reads back what the compiler wrote, steps end within a bounded
    number of polls, the state store survives restarts; the controller applies the compilation or skips.
  \<^item> Triggers: configuration is delivered unchanged to the endpoint, rate limits hold over every history, exact phases on failure.
  \<^item> The API server: which calls are guarded and when a started server is guarded at all; what reading a resource and writing it back keeps and
    what it loses (the credentials of a ModelProvider); that a submitted run is found again; that a reader of a watch stream sees the delivered
    events, whole and in order, wherever the connection breaks; that a playground request is answered by one well-formed run, with UUIDs of version 4.

  \<^bold>\<open>Loops and bounds.\<close> Most recursion is structural or on a measure. The depth-first search of workflow admission has a termination proof on the
  number of unvisited tasks. The polling loops of the delivery probe run on the remaining time, which every round reduces by at least
  one poll interval. The plugin is called again by its caller; its termination property counts these calls. The playground polls at most 150 times, the
  constant of the code. The loop of a watch stream has no bound of its own and recurses over what it receives. Conflict
  retries are a parameter whose law says that the last attempt decides.

  \<^bold>\<open>Not modelled.\<close> Generated code (deep copies, protobuf accessors, service stubs, REST gateways), which has no logic of its own; operator start-up and flag
  parsing (\<open>cmd/main.go\<close>, \<open>telemetry\<close>), which connects modelled parts; the sockets, the HTTP mux, CORS and the embedded UI of
  \<open>internal/server/server.go\<close>; Prometheus metrics, webhook registration and test doubles. Goroutine interleaving inside one process is modelled only where the code
  shares state across calls: the trigger limiter, the plugin store, the verdict cache and the schema cache.
\<close>

subsection \<open>Switch tasks across the workflow compiler and the executor plugin\<close>

text \<open>C37. The default branch of a switch is not a fallback. In the compiled workflow the default target is started by a node
  without a condition, whatever the other branches decide, and it is started once more by the node of
  the target task itself, which waits only for that task's own dependencies; both nodes run the same template, so the executor
  plugin files the two executions under one task key and the later one polls the A2A task of the earlier one.\<close>

theorem switch_default_unconditional:
  assumes "ValidateCreate w = None" and "compileToArgoWorkflowTemplate nl b64 tp w opts = Inr wft"
    and "t \<in> set (aws_Tasks (awf_Spec w))" and "sc \<in> set (wt_Switch t)" and "sw_Default sc \<noteq> ''''"
  shows "\<exists>branch \<in> set (dagOf wft). \<exists>target \<in> set (aws_Tasks (awf_Spec w)).
    dag_Template branch = wt_Name target \<and> wt_Name target = sw_Default sc \<and>
    dag_Dependencies branch = [wt_Name t] \<and> dag_When branch = '''' \<and>
    dagTaskFor target \<in> set (dagOf wft) \<and> dag_Name (dagTaskFor target) \<noteq> dag_Name branch \<and>
    dag_Dependencies (dagTaskFor target) = wt_DependsOn target \<and>
    taskKey uid (dag_Template branch) = taskKey uid (dag_Template (dagTaskFor target))"
proof -
  let ?ts = "aws_Tasks (awf_Spec w)"
  obtain templates where tm: "list_all2 (\<lambda>t tmpl. buildTemplate nl b64 w opts t = Inr tmpl) ?ts templates"
      "wft_Templates wft = (emptyTemplate dagEntrypointName)\<lparr>tmpl_DAG := Some (concat (map dagTasksFor ?ts))\<rparr> # templates"
    by (rule compile_Inr[OF assms(2)])
  have dag: "dagOf wft = concat (map dagTasksFor ?ts)" by (rule dagOf_compiled[OF tm])
  have "taskOK (map wt_Name ?ts) (map wp_Name (aws_Params (awf_Spec w))) t"
    using assms(1,3) unfolding ValidateCreate_none by (auto simp: admissible_def Let_def)
  then obtain target where tg: "target \<in> set ?ts" "wt_Name target = sw_Default sc" using assms(4,5) by (auto simp: taskOK_def)
  let ?b = "\<lparr>dag_Name = wt_Name t @ ''-'' @ sw_Default sc, dag_Template = sw_Default sc, dag_Dependencies = [wt_Name t], dag_When = ''''\<rparr>"
  have "?b \<in> set (dagTasksFor t)" using assms(4,5) by (auto simp: dagTasksFor_mem buildSwitchCase_def)
  then have b: "?b \<in> set (dagOf wft)" using assms(3) dag by auto
  have "dagTaskFor target \<in> set (dagOf wft)" using tg(1) dag by (auto simp: dagTasksFor_mem)
  then show ?thesis using b tg by (intro bexI[OF _ b] bexI[OF _ tg(1)]) (simp add: dagTaskFor_def)
qed

definition routeTask :: WorkflowTask where
  "routeTask = (plainTask ''route'')\<lparr>wt_Switch := [\<lparr>sw_Condition = ''{{tasks.fetch.output}} == 1'', sw_Then = ''fetch'', sw_Default = ''''\<rparr>,
     \<lparr>sw_Condition = '''', sw_Then = '''', sw_Default = ''ask''\<rparr>]\<rparr>"

definition routeWorkflow :: AgentWorkflow where
  "routeWorkflow = demoWorkflow\<lparr>awf_Spec := (awf_Spec demoWorkflow)\<lparr>aws_Tasks := [fetchTask, askTask, routeTask]\<rparr>\<rparr>"

theorem switch_default_unconditional_witness:
  "\<exists>wft. compileToArgoWorkflowTemplate zeroFloats (\<lambda>r. '''') ''00-1'' routeWorkflow \<lparr>co_ArtifactIOEnabled = False, co_ArtifactGCStrategy = ''''\<rparr> = Inr wft \<and>
     (\<exists>branch \<in> set (dagOf wft). dag_Template branch = ''ask'' \<and> dag_When branch = '''')"
proof -
  let ?o = "\<lparr>co_ArtifactIOEnabled = False, co_ArtifactGCStrategy = ''''\<rparr>"
  have "\<not> isl (compileToArgoWorkflowTemplate zeroFloats (\<lambda>r. '''') ''00-1'' routeWorkflow ?o)" by code_simp
  then obtain wft where w: "compileToArgoWorkflowTemplate zeroFloats (\<lambda>r. '''') ''00-1'' routeWorkflow ?o = Inr wft"
    by (metis sum.collapse(2))
  have a: "ValidateCreate routeWorkflow = None" by code_simp
  have t: "routeTask \<in> set (aws_Tasks (awf_Spec routeWorkflow))" by (simp add: routeWorkflow_def)
  have s: "\<lparr>sw_Condition = '''', sw_Then = '''', sw_Default = ''ask''\<rparr> \<in> set (wt_Switch routeTask)" by (simp add: routeTask_def)
  from switch_default_unconditional[OF a w t s, of "''u1''"] w show ?thesis by auto
qed

end
